(* ===== verification/Prelude.thy ===== *)
theory Prelude
  imports Main "HOL-Library.Word" "HOL-Library.AList" "HOL-Library.Multiset"
begin

text \<open>
  What every theory of the development shares: the outcomes of a Go call (a value, an error, a
  panic, a call that blocks for ever), the state-passing composition of such calls, Go's maps,
  and the functions of the packages \<open>strings\<close>, \<open>strconv\<close> and \<open>fmt\<close> that the code uses, with the
  lemmas about them that the component theories share.

  Strings are byte strings. \<open>ToLower\<close> and \<open>ToUpper\<close> are exact on ASCII text and leave every other
  byte alone (Go also maps non-ASCII letters).
\<close>

named_theorems go_simps \<open>unfolding rules for the outcome and state-passing combinators\<close>

section \<open>Errors and outcomes\<close>

text \<open>
  An \<open>error\<close> value: \<open>errors.New\<close> and \<open>fmt.Errorf\<close> without a wrapped error give \<open>Err\<close>;
  \<open>fmt.Errorf\<close> with a \<open>%w\<close> gives \<open>Wrap\<close> (the text before the wrapped error, and that error); the
  remaining constructors are the sentinel errors the code compares against with \<open>errors.Is\<close> and
  \<open>errors.As\<close>.
\<close>

datatype goerr =
    Err string
  | Wrap string goerr
  | ErrNoRows
  | ErrTxDone
  | NoSuchKey string

fun error_text :: "goerr \<Rightarrow> string" where
  "error_text (Err s) = s"
| "error_text (Wrap s e) = s @ error_text e"
| "error_text ErrNoRows = ''sql: no rows in result set''"
| "error_text ErrTxDone = ''sql: transaction has already been committed or rolled back''"
| "error_text (NoSuchKey s) = s"

text \<open>\<open>errors.Is(err, sql.ErrNoRows)\<close> and \<open>errors.As(err, &noSuchKey)\<close> follow the wrapped errors.\<close>

fun is_no_rows :: "goerr \<Rightarrow> bool" where
  "is_no_rows ErrNoRows = True"
| "is_no_rows (Wrap s e) = is_no_rows e"
| "is_no_rows (Err s) = False"
| "is_no_rows ErrTxDone = False"
| "is_no_rows (NoSuchKey s) = False"

fun is_no_such_key :: "goerr \<Rightarrow> bool" where
  "is_no_such_key (NoSuchKey s) = True"
| "is_no_such_key (Wrap s e) = is_no_such_key e"
| "is_no_such_key (Err s) = False"
| "is_no_such_key ErrTxDone = False"
| "is_no_such_key ErrNoRows = False"

text \<open>
  The outcome of a call. Every function of the code that returns an error returns zero values
  beside it, so one \<open>Error\<close> constructor carries the whole result tuple.
\<close>

datatype 'a result =
    Ok 'a
  | Error goerr
  | Panic string
  | Deadlock

definition nil_deref :: string where
  "nil_deref = ''runtime error: invalid memory address or nil pointer dereference''"

fun rbind :: "'a result \<Rightarrow> ('a \<Rightarrow> 'b result) \<Rightarrow> 'b result" where
  "rbind (Ok x) f = f x"
| "rbind (Error e) f = Error e"
| "rbind (Panic p) f = Panic p"
| "rbind Deadlock f = Deadlock"

text \<open>\<open>fmt.Errorf("...: %w", err)\<close> around the error of a call.\<close>

fun wrap_error :: "string \<Rightarrow> 'a result \<Rightarrow> 'a result" where
  "wrap_error s (Error e) = Error (Wrap s e)"
| "wrap_error s (Ok x) = Ok x"
| "wrap_error s (Panic p) = Panic p"
| "wrap_error s Deadlock = Deadlock"

fun is_ok :: "'a result \<Rightarrow> bool" where
  "is_ok (Ok x) = True"
| "is_ok (Error e) = False"
| "is_ok (Panic p) = False"
| "is_ok Deadlock = False"

lemma rbind_eq_Ok [simp]: "rbind r f = Ok y \<longleftrightarrow> (\<exists>x. r = Ok x \<and> f x = Ok y)"
  by (cases r) auto

lemma wrap_error_eq_Ok [simp]: "wrap_error s r = Ok y \<longleftrightarrow> r = Ok y"
  by (cases r) auto

lemma rbind_assoc: "rbind (rbind r f) g = rbind r (\<lambda>x. rbind (f x) g)"
  by (cases r) auto

lemma rbind_cong [fundef_cong]:
  "r = r' \<Longrightarrow> (\<And>x. r' = Ok x \<Longrightarrow> f x = f' x) \<Longrightarrow> rbind r f = rbind r' f'"
  by (cases r') auto

section \<open>Calls that read and change a state\<close>

type_synonym ('w, 'a) go = "'w \<Rightarrow> 'a result \<times> 'w"

definition ret :: "'a \<Rightarrow> ('w, 'a) go" where
  "ret x = (\<lambda>w. (Ok x, w))"

definition fail :: "goerr \<Rightarrow> ('w, 'a) go" where
  "fail e = (\<lambda>w. (Error e, w))"

definition panic :: "string \<Rightarrow> ('w, 'a) go" where
  "panic p = (\<lambda>w. (Panic p, w))"

text \<open>A computation that does not touch the state.\<close>

definition pure :: "'a result \<Rightarrow> ('w, 'a) go" where
  "pure r = (\<lambda>w. (r, w))"

definition gets :: "('w \<Rightarrow> 'a) \<Rightarrow> ('w, 'a) go" where
  "gets f = (\<lambda>w. (Ok (f w), w))"

definition modify :: "('w \<Rightarrow> 'w) \<Rightarrow> ('w, unit) go" where
  "modify f = (\<lambda>w. (Ok (), f w))"

text \<open>
  \<open>x, err := m; if err != nil { return err }\<close> followed by the rest: an error, a panic and a call
  that never returns all end the function.
\<close>

definition seq :: "('w, 'a) go \<Rightarrow> ('a \<Rightarrow> ('w, 'b) go) \<Rightarrow> ('w, 'b) go" where
  "seq m f = (\<lambda>w. case m w of
      (Ok x, w') \<Rightarrow> f x w'
    | (Error e, w') \<Rightarrow> (Error e, w')
    | (Panic p, w') \<Rightarrow> (Panic p, w')
    | (Deadlock, w') \<Rightarrow> (Deadlock, w'))"

text \<open>\<open>x, err := m; if err != nil { handler }\<close> where the handler does more than return the error.\<close>

definition catch :: "('w, 'a) go \<Rightarrow> (goerr \<Rightarrow> ('w, 'b) go) \<Rightarrow> ('a \<Rightarrow> ('w, 'b) go) \<Rightarrow> ('w, 'b) go" where
  "catch m h f = (\<lambda>w. case m w of
      (Ok x, w') \<Rightarrow> f x w'
    | (Error e, w') \<Rightarrow> h e w'
    | (Panic p, w') \<Rightarrow> (Panic p, w')
    | (Deadlock, w') \<Rightarrow> (Deadlock, w'))"

definition wrapping :: "string \<Rightarrow> ('w, 'a) go \<Rightarrow> ('w, 'a) go" where
  "wrapping s m = (\<lambda>w. case m w of (r, w') \<Rightarrow> (wrap_error s r, w'))"

lemmas go_defs [go_simps] =
  ret_def fail_def panic_def pure_def gets_def modify_def seq_def catch_def wrapping_def

lemma seq_assoc: "seq (seq m f) g = seq m (\<lambda>x. seq (f x) g)"
  by (rule ext) (simp add: seq_def split: prod.splits result.splits)

lemma seq_ret_left [simp]: "seq (ret x) f = f x"
  by (simp add: go_simps)

lemma seq_ret_right [simp]: "seq m ret = m"
  by (rule ext) (simp add: go_simps split: prod.splits result.splits)

lemma seq_pure_Ok [simp]: "seq (pure (Ok x)) f = f x"
  by (simp add: go_simps)

lemma seq_fail [simp]: "seq (fail e) f = fail e"
  by (simp add: go_simps)

lemma seq_panic [simp]: "seq (panic p) f = panic p"
  by (simp add: go_simps)

lemma seq_pure_Error [simp]: "seq (pure (Error e)) f = fail e"
  by (simp add: go_simps)

lemma seq_pure_Panic [simp]: "seq (pure (Panic p)) f = panic p"
  by (simp add: go_simps)

lemma seq_gets: "seq (gets f) g = (\<lambda>w. g (f w) w)"
  by (simp add: go_simps)

lemma pure_apply [simp]: "pure r w = (r, w)"
  by (simp add: pure_def)

lemma ret_apply [simp]: "ret x w = (Ok x, w)"
  by (simp add: ret_def)

lemma fail_apply [simp]: "fail e w = (Error e, w)"
  by (simp add: fail_def)

lemma panic_apply [simp]: "panic p w = (Panic p, w)"
  by (simp add: panic_def)

lemma seq_OkE:
  assumes "seq m f w = (Ok y, w')"
  obtains x w1 where "m w = (Ok x, w1)" and "f x w1 = (Ok y, w')"
  using assms by (auto simp: seq_def split: prod.splits result.splits)

text \<open>A loop over a list that stops at the first outcome that is not a value.\<close>

fun each :: "('a \<Rightarrow> ('w, unit) go) \<Rightarrow> 'a list \<Rightarrow> ('w, unit) go" where
  "each f [] = ret ()"
| "each f (x # xs) = seq (f x) (\<lambda>_. each f xs)"

section \<open>Go maps\<close>

text \<open>
  A map value is nil or a table of entries. The order of the entries is the order in which one
  \<open>range\<close> over the map visits them: Go leaves that order open, so a statement about every list of
  entries covers every order. A second \<open>range\<close> over the same map, which may visit the entries in
  another order, takes that order as an argument of its own. \<open>wf_map\<close> says that no key is listed
  twice.
\<close>

datatype 'v gomap = NilMap | GoMap "(string \<times> 'v) list"

fun entries :: "'v gomap \<Rightarrow> (string \<times> 'v) list" where
  "entries NilMap = []"
| "entries (GoMap kvs) = kvs"

definition mkeys :: "'v gomap \<Rightarrow> string list" where
  "mkeys m = map fst (entries m)"

definition mlen :: "'v gomap \<Rightarrow> nat" where
  "mlen m = length (entries m)"

definition mget :: "'v gomap \<Rightarrow> string \<Rightarrow> 'v option" where
  "mget m k = map_of (entries m) k"

text \<open>\<open>m[k] = v\<close> panics on a nil map.\<close>

fun mset_entry :: "'v gomap \<Rightarrow> string \<Rightarrow> 'v \<Rightarrow> 'v gomap result" where
  "mset_entry NilMap k v = Panic ''assignment to entry in nil map''"
| "mset_entry (GoMap kvs) k v = Ok (GoMap (AList.update k v kvs))"

definition wf_map :: "'v gomap \<Rightarrow> bool" where
  "wf_map m = distinct (mkeys m)"

text \<open>\<open>make(map[string]T)\<close>\<close>

definition make_map :: "'v gomap" where
  "make_map = GoMap []"

lemma mget_make_map [simp]: "mget make_map k = None"
  by (simp add: mget_def make_map_def)

lemma wf_make_map [simp]: "wf_map make_map"
  by (simp add: wf_map_def mkeys_def make_map_def)

lemma mkeys_make_map [simp]: "mkeys make_map = []"
  by (simp add: mkeys_def make_map_def)

lemma mget_NilMap [simp]: "mget NilMap k = None"
  by (simp add: mget_def)

lemma mget_mset_entry: "mset_entry m k v = Ok m' \<Longrightarrow> mget m' = (mget m)(k \<mapsto> v)"
  by (cases m) (auto simp: mget_def update_conv' fun_eq_iff)

lemma wf_mset_entry: "mset_entry m k v = Ok m' \<Longrightarrow> wf_map m \<Longrightarrow> wf_map m'"
  by (cases m) (auto simp: wf_map_def mkeys_def intro: distinct_update)

lemma set_mkeys_mset_entry: "mset_entry m k v = Ok m' \<Longrightarrow> set (mkeys m') = insert k (set (mkeys m))"
  by (cases m) (auto simp add: mkeys_def update_keys simp del: set_map split: if_splits)

lemma mset_entry_make [simp]: "mset_entry (GoMap kvs) k v \<noteq> Panic p"
  by simp

lemma mget_None_iff: "mget m k = None \<longleftrightarrow> k \<notin> set (mkeys m)"
  by (simp add: mget_def mkeys_def map_of_eq_None_iff)

lemma mget_Some_in: "mget m k = Some v \<Longrightarrow> (k, v) \<in> set (entries m)"
  by (simp add: mget_def map_of_SomeD)

lemma mget_entry: "wf_map m \<Longrightarrow> (k, v) \<in> set (entries m) \<Longrightarrow> mget m k = Some v"
  by (simp add: mget_def wf_map_def mkeys_def)

lemma mlen_mkeys: "length (mkeys m) = mlen m"
  by (simp add: mkeys_def mlen_def)

section \<open>Strings\<close>

definition lower_char :: "char \<Rightarrow> char" where
  "lower_char c = (let n = of_char c :: nat in
     if 65 \<le> n \<and> n \<le> 90
     then (case c of Char b0 b1 b2 b3 b4 b5 b6 b7 \<Rightarrow> Char b0 b1 b2 b3 b4 True b6 b7)
     else c)"

definition upper_char :: "char \<Rightarrow> char" where
  "upper_char c = (let n = of_char c :: nat in
     if 97 \<le> n \<and> n \<le> 122
     then (case c of Char b0 b1 b2 b3 b4 b5 b6 b7 \<Rightarrow> Char b0 b1 b2 b3 b4 False b6 b7)
     else c)"

definition ToLower :: "string \<Rightarrow> string" where
  "ToLower s = map lower_char s"

definition ToUpper :: "string \<Rightarrow> string" where
  "ToUpper s = map upper_char s"

text \<open>The letters of one case differ from the other in the bit of weight 32.\<close>

lemma lower_char_of_char:
  "of_char (lower_char c) =
     (let n = of_char c :: nat in if 65 \<le> n \<and> n \<le> 90 then n + 32 else n)"
  by (cases c) (auto simp: lower_char_def Let_def)

lemma upper_char_of_char:
  "of_char (upper_char c) =
     (let n = of_char c :: nat in if 97 \<le> n \<and> n \<le> 122 then n - 32 else n)"
  by (cases c) (auto simp: upper_char_def Let_def)

lemma lower_char_idem [simp]: "lower_char (lower_char c) = lower_char c"
  by (cases c) (auto simp: lower_char_def Let_def)

lemma upper_char_idem [simp]: "upper_char (upper_char c) = upper_char c"
  by (cases c) (auto simp: upper_char_def Let_def)

lemma ToLower_idem [simp]: "ToLower (ToLower s) = ToLower s"
  by (simp add: ToLower_def)

lemma ToUpper_idem [simp]: "ToUpper (ToUpper s) = ToUpper s"
  by (simp add: ToUpper_def)

text \<open>\<open>strings.Join\<close>\<close>

fun Join :: "string list \<Rightarrow> string \<Rightarrow> string" where
  "Join [] sep = []"
| "Join [x] sep = x"
| "Join (x # y # xs) sep = x @ sep @ Join (y # xs) sep"

definition HasPrefix :: "string \<Rightarrow> string \<Rightarrow> bool" where
  "HasPrefix s p = (take (length p) s = p)"

definition HasSuffix :: "string \<Rightarrow> string \<Rightarrow> bool" where
  "HasSuffix s p = (length p \<le> length s \<and> drop (length s - length p) s = p)"

definition TrimPrefix :: "string \<Rightarrow> string \<Rightarrow> string" where
  "TrimPrefix s p = (if HasPrefix s p then drop (length p) s else s)"

fun Contains :: "string \<Rightarrow> string \<Rightarrow> bool" where
  "Contains [] p = (p = [])"
| "Contains (c # s) p = (HasPrefix (c # s) p \<or> Contains s p)"

text \<open>\<open>strings.Split(s, sep)\<close> for a one-byte separator.\<close>

fun Split :: "string \<Rightarrow> char \<Rightarrow> string list" where
  "Split [] sep = [[]]"
| "Split (c # s) sep =
     (if c = sep then [] # Split s sep
      else (case Split s sep of [] \<Rightarrow> [[c]] | x # xs \<Rightarrow> (c # x) # xs))"

lemma length_ToLower [simp]: "length (ToLower s) = length s"
  by (simp add: ToLower_def)

lemma Split_nonempty [simp]: "Split s sep \<noteq> []"
  by (cases s) (auto split: list.splits)

lemma HasPrefix_append [simp]: "HasPrefix (p @ s) p"
  by (simp add: HasPrefix_def)

lemma HasSuffix_append [simp]: "HasSuffix (s @ p) p"
  by (simp add: HasSuffix_def)

lemma TrimPrefix_append [simp]: "TrimPrefix (p @ s) p = s"
  by (simp add: TrimPrefix_def)

lemma Split_no_sep: "sep \<notin> set s \<Longrightarrow> Split s sep = [s]"
  by (induction s) auto

lemma Split_append_sep: "sep \<notin> set s \<Longrightarrow> Split (s @ sep # t) sep = s # Split t sep"
  by (induction s) auto

lemma Split_parts_no_sep: "x \<in> set (Split s sep) \<Longrightarrow> sep \<notin> set x"
  by (induction s arbitrary: x) (auto split: if_splits list.splits)

lemma Join_Split: "Join (Split s sep) [sep] = s"
proof (induction s)
  case (Cons c s)
  obtain x xs where "Split s sep = x # xs"
    by (cases "Split s sep") simp_all
  with Cons.IH show ?case
    by (cases xs) auto
qed simp

lemma Join_append_one: "xs \<noteq> [] \<Longrightarrow> Join (xs @ [y]) sep = Join xs sep @ sep @ y"
  by (induction xs sep rule: Join.induct) auto

text \<open>\<open>strings.Fields\<close> and \<open>strings.TrimSpace\<close>, for the white space characters of ASCII.\<close>

definition is_space :: "char \<Rightarrow> bool" where
  "is_space c \<longleftrightarrow> c = CHR 0x20 \<or> (9 \<le> (of_char c :: nat) \<and> (of_char c :: nat) \<le> 13)"

function Fields :: "string \<Rightarrow> string list" where
  "Fields [] = []"
| "Fields (c # s) =
     (if is_space c then Fields s
      else (c # takeWhile (\<lambda>c. \<not> is_space c) s) # Fields (dropWhile (\<lambda>c. \<not> is_space c) s))"
  by pat_completeness auto

termination
  by (relation "measure length") (auto simp: le_imp_less_Suc length_dropWhile_le)

definition TrimSpace :: "string \<Rightarrow> string" where
  "TrimSpace s = rev (dropWhile is_space (rev (dropWhile is_space s)))"

text \<open>\<open>strings.SplitN(s, sep, 2)\<close> for a one-byte separator.\<close>

definition SplitN2 :: "string \<Rightarrow> char \<Rightarrow> string list" where
  "SplitN2 s sep = (if sep \<in> set s then [takeWhile (\<lambda>c. c \<noteq> sep) s, tl (dropWhile (\<lambda>c. c \<noteq> sep) s)] else [s])"

lemma Fields_space: "list_all is_space s \<Longrightarrow> Fields (s @ t) = Fields t"
  by (induction s) auto

lemma no_space:
  assumes "\<forall>c\<in>set t. \<not> is_space c"
  shows "takeWhile (\<lambda>c. \<not> is_space c) t = t" and "dropWhile (\<lambda>c. \<not> is_space c) t = []"
  using assms by simp_all

lemma Fields_append: "is_space c \<Longrightarrow> Fields (s @ c # t) = Fields s @ Fields t"
proof (induction s rule: Fields.induct)
  case (2 d s)
  show ?case
  proof (cases "is_space d")
    case True
    with 2 show ?thesis by simp
  next
    case False
    show ?thesis
    proof (cases "\<exists>x\<in>set s. is_space x")
      case True
      then have "takeWhile (\<lambda>c. \<not> is_space c) (s @ c # t) = takeWhile (\<lambda>c. \<not> is_space c) s"
        "dropWhile (\<lambda>c. \<not> is_space c) (s @ c # t) = dropWhile (\<lambda>c. \<not> is_space c) s @ c # t" by auto
      with 2 False show ?thesis by simp
    next
      case all: False
      then have "takeWhile (\<lambda>c. \<not> is_space c) (s @ c # t) = s" "dropWhile (\<lambda>c. \<not> is_space c) (s @ c # t) = c # t"
        using 2(3) by (simp_all add: takeWhile_append dropWhile_append)
      with False 2(3) all show ?thesis by (simp add: no_space)
    qed
  qed
qed simp

lemma Fields_word:
  assumes "s \<noteq> []" and "\<forall>c\<in>set s. \<not> is_space c"
  shows "Fields s = [s]"
proof -
  obtain c t where s: "s = c # t" using assms(1) by (cases s) auto
  with assms(2) show ?thesis by (simp add: no_space)
qed

lemma Fields_words: "w \<in> set (Fields s) \<Longrightarrow> w \<noteq> [] \<and> (\<forall>c\<in>set w. \<not> is_space c)"
proof (induction s rule: Fields.induct)
  case (2 c s)
  have word: "\<forall>x\<in>set (takeWhile (\<lambda>c. \<not> is_space c) s). \<not> is_space x"
    by (metis set_takeWhileD)
  show ?case
  proof (cases "is_space c")
    case True
    with 2(1,3) show ?thesis by simp
  next
    case False
    with 2(3) consider "w = c # takeWhile (\<lambda>c. \<not> is_space c) s"
      | "w \<in> set (Fields (dropWhile (\<lambda>c. \<not> is_space c) s))" by auto
    then show ?thesis
    proof cases
      case 1
      with word False show ?thesis by simp
    next
      case 2
      with "2.IH"(2) [OF False] show ?thesis by blast
    qed
  qed
qed simp

lemma Fields_snoc: "is_space c \<Longrightarrow> Fields (s @ [c]) = Fields s"
  by (simp add: Fields_append)

lemma Fields_TrimSpace [simp]: "Fields (TrimSpace s) = Fields s"
proof -
  have left: "Fields (dropWhile is_space t) = Fields t" for t by (induction t) auto
  have right: "Fields (rev (dropWhile is_space t)) = Fields (rev t)" for t
    by (induction t) (auto simp: Fields_snoc)
  show ?thesis by (simp add: TrimSpace_def left right)
qed

lemma Fields_Join: "ws \<noteq> [] \<Longrightarrow> \<forall>w\<in>set ws. w \<noteq> [] \<and> (\<forall>c\<in>set w. \<not> is_space c) \<Longrightarrow> Fields (Join ws '' '') = ws"
proof (induction ws "'' ''" rule: Join.induct)
  case (3 x y xs)
  then have "Fields x = [x]" "Fields (Join (y # xs) '' '') = y # xs" by (simp_all add: Fields_word)
  moreover have "is_space CHR '' ''" by (simp add: is_space_def)
  ultimately show ?case by (simp add: Fields_append)
next
  case (2 x)
  then show ?case by (simp add: Fields_word del: Fields.simps)
qed simp

lemma SplitN2_no_sep: "sep \<notin> set s \<Longrightarrow> SplitN2 s sep = [s]"
  by (simp add: SplitN2_def)

lemma SplitN2_sep: "sep \<notin> set s \<Longrightarrow> SplitN2 (s @ sep # t) sep = [s, t]"
  by (induction s) (auto simp: SplitN2_def)

end
