(* ===== verification/GoValue.thy ===== *)
theory GoValue
  imports Prelude
begin

text \<open>
  The values an \<open>any\<close> holds in this program, the text forms of integers (\<open>strconv\<close>, \<open>fmt.Sscanf\<close>),
  the integer conversions of the language, and the conversion that \<open>database/sql\<close> applies when a
  row is scanned into pointers. \<open>int\<close> is 64 bits wide, as on every platform the drivers support.
  Floating point values are their IEEE 754 bit patterns.
\<close>

section \<open>Types and values\<close>

datatype gty =
    TStr | TInt64 | TInt | TFloat64 | TBytes | TBool | TTime | TUUID | TAny
  | TPtr gty

datatype goval =
    VNil
  | VStr string
  | VBytes "string option"
  | VBool bool
  | VInt "64 word"
  | VInt64 "64 word"
  | VUint64 "64 word"
  | VUint32 "32 word"
  | VFloat64 "64 word"
  | VFloat32 "32 word"
  | VTime int
  | VPtr goval
  | VNilPtr gty
  | VMap "(string \<times> goval) list"
  | VList "goval list"
  | VUUID string
  | VOther string

text \<open>The zero value of a type: what \<open>new(T)\<close> points to.\<close>

fun zero_value :: "gty \<Rightarrow> goval" where
  "zero_value TStr = VStr []"
| "zero_value TInt64 = VInt64 0"
| "zero_value TInt = VInt 0"
| "zero_value TFloat64 = VFloat64 0"
| "zero_value TBytes = VBytes None"
| "zero_value TBool = VBool False"
| "zero_value TTime = VTime 0"
| "zero_value TUUID = VUUID (replicate 16 (CHR 0x00))"
| "zero_value TAny = VNil"
| "zero_value (TPtr t) = VNilPtr t"

text \<open>Does a value have a given type? A nil pointer carries the type it points to.\<close>

fun has_type :: "goval \<Rightarrow> gty \<Rightarrow> bool" where
  "has_type v TStr = (case v of VStr s \<Rightarrow> True | _ \<Rightarrow> False)"
| "has_type v TInt64 = (case v of VInt64 i \<Rightarrow> True | _ \<Rightarrow> False)"
| "has_type v TInt = (case v of VInt i \<Rightarrow> True | _ \<Rightarrow> False)"
| "has_type v TFloat64 = (case v of VFloat64 f \<Rightarrow> True | _ \<Rightarrow> False)"
| "has_type v TBytes = (case v of VBytes b \<Rightarrow> True | _ \<Rightarrow> False)"
| "has_type v TBool = (case v of VBool b \<Rightarrow> True | _ \<Rightarrow> False)"
| "has_type v TTime = (case v of VTime t \<Rightarrow> True | _ \<Rightarrow> False)"
| "has_type v TUUID = (case v of VUUID u \<Rightarrow> True | _ \<Rightarrow> False)"
| "has_type v TAny = True"
| "has_type v (TPtr t) =
     (case v of VPtr u \<Rightarrow> has_type u t | VNilPtr t' \<Rightarrow> t' = t | _ \<Rightarrow> False)"

lemma has_type_zero [simp]: "has_type (zero_value t) t"
  by (cases t) auto

lemma has_type_Ptr: "has_type v (TPtr t) \<longleftrightarrow> v = VNilPtr t \<or> (\<exists>u. v = VPtr u \<and> has_type u t)"
  by (auto split: goval.splits)

section \<open>Decimal text\<close>

definition digit_char :: "nat \<Rightarrow> char" where
  "digit_char n = ''0123456789'' ! n"

definition is_digit :: "char \<Rightarrow> bool" where
  "is_digit c = (48 \<le> (of_char c :: nat) \<and> (of_char c :: nat) \<le> 57)"

definition digit_value :: "char \<Rightarrow> nat" where
  "digit_value c = of_char c - 48"

fun dec :: "nat \<Rightarrow> string" where
  "dec n = (if n < 10 then [digit_char n] else dec (n div 10) @ [digit_char (n mod 10)])"

declare dec.simps [simp del]

definition of_digits :: "string \<Rightarrow> nat" where
  "of_digits ds = foldl (\<lambda>a c. 10 * a + digit_value c) 0 ds"

text \<open>\<open>strconv.FormatInt(i, 10)\<close>, which \<open>%d\<close> prints as well.\<close>

definition FormatInt :: "int \<Rightarrow> string" where
  "FormatInt i = (if i < 0 then CHR ''-'' # dec (nat (- i)) else dec (nat i))"

lemma digit_cases: "n < 10 \<Longrightarrow> n \<in> {0, 1, 2, 3, 4, 5, 6, 7, 8, 9 :: nat}"
  by auto

lemma digit_value_char [simp]: "n < 10 \<Longrightarrow> digit_value (digit_char n) = n"
  by (drule digit_cases) (auto simp: digit_value_def digit_char_def)

lemma is_digit_char [simp]: "n < 10 \<Longrightarrow> is_digit (digit_char n)"
  by (drule digit_cases) (auto simp: is_digit_def digit_char_def)

lemma dec_digits: "c \<in> set (dec n) \<Longrightarrow> is_digit c"
proof (induction n rule: dec.induct)
  case (1 n)
  then show ?case by (auto simp: dec.simps [of n] split: if_splits)
qed

lemma dec_nonempty [simp]: "dec n \<noteq> []"
  by (subst dec.simps) simp

lemma of_digits_snoc [simp]: "of_digits (ds @ [c]) = 10 * of_digits ds + digit_value c"
  by (simp add: of_digits_def)

lemma of_digits_dec [simp]: "of_digits (dec n) = n"
proof (induction n rule: dec.induct)
  case (1 n)
  then show ?case
    by (cases "n < 10") (simp_all add: dec.simps [of n], simp add: of_digits_def)
qed

lemma dec_inj: "dec m = dec n \<longleftrightarrow> m = n"
  by (metis of_digits_dec)

section \<open>Reading integers\<close>

text \<open>The signed 64-bit value of an integer text, \<open>strconv.ParseInt(s, 10, 64)\<close>.\<close>

definition in_int64 :: "int \<Rightarrow> bool" where
  "in_int64 i = (- (2 ^ 63) \<le> i \<and> i < 2 ^ 63)"

fun ParseInt :: "string \<Rightarrow> 64 word result" where
  "ParseInt s =
     (let neg = (s \<noteq> [] \<and> hd s = CHR ''-'');
          ds = (if s \<noteq> [] \<and> (hd s = CHR ''-'' \<or> hd s = CHR ''+'') then tl s else s);
          i = (if neg then - int (of_digits ds) else int (of_digits ds))
      in if ds = [] \<or> (\<exists>c\<in>set ds. \<not> is_digit c) then Error (Err ''invalid syntax'')
         else if in_int64 i then Ok (word_of_int i)
         else Error (Err ''value out of range''))"

declare ParseInt.simps [simp del]

lemma ParseInt_digits:
  assumes "ds \<noteq> []" and "\<forall>c\<in>set ds. is_digit c"
  shows "ParseInt ds =
    (if in_int64 (int (of_digits ds)) then Ok (word_of_int (int (of_digits ds)))
     else Error (Err ''value out of range''))"
proof -
  from assms have "is_digit (hd ds)" by (cases ds) auto
  then have "hd ds \<noteq> CHR ''-''" and "hd ds \<noteq> CHR ''+''"
    by (auto simp: is_digit_def)
  with assms show ?thesis by (auto simp: ParseInt.simps)
qed

lemma ParseInt_minus:
  assumes "ds \<noteq> []" and "\<forall>c\<in>set ds. is_digit c"
  shows "ParseInt (CHR ''-'' # ds) =
    (if in_int64 (- int (of_digits ds)) then Ok (word_of_int (- int (of_digits ds)))
     else Error (Err ''value out of range''))"
  using assms by (auto simp: ParseInt.simps)

lemma in_int64_sint [simp]: "in_int64 (sint (w :: 64 word))"
  using sint_range_size [of w] by (simp add: in_int64_def word_size)

lemma ParseInt_FormatInt:
  "ParseInt (FormatInt i) = (if in_int64 i then Ok (word_of_int i) else Error (Err ''value out of range''))"
  by (auto simp: FormatInt_def ParseInt_digits ParseInt_minus dec_digits)

text \<open>
  \<open>fmt.Sscanf(s, "%d", &i)\<close> for an \<open>int64\<close>: leading blanks are skipped, a newline there is an
  error, one sign is accepted, then the longest run of digits; what follows it is not looked at.
\<close>

fun skip_space :: "string \<Rightarrow> string result" where
  "skip_space [] = Ok []"
| "skip_space (c # s) =
     (if c = CHR 0x0D \<and> s \<noteq> [] \<and> hd s = CHR 0x0A then skip_space s
      else if c = CHR 0x0A then Error (Err ''unexpected newline'')
      else if c = CHR '' '' \<or> c = CHR 0x09 \<or> c = CHR 0x0B \<or> c = CHR 0x0C \<or> c = CHR 0x0D
      then skip_space s
      else Ok (c # s))"

definition scan_digits :: "string \<Rightarrow> string" where
  "scan_digits s = takeWhile is_digit s"

definition Sscanf_d :: "string \<Rightarrow> 64 word result" where
  "Sscanf_d s = rbind (skip_space s) (\<lambda>t.
     if t = [] then Error (Err ''unexpected EOF'')
     else let sgn = (if hd t = CHR ''-'' \<or> hd t = CHR ''+'' then [hd t] else []);
              rest = drop (length sgn) t;
              ds = scan_digits rest
          in if rest = [] then Error (Err ''unexpected EOF'')
             else if ds = [] then Error (Err ''expected integer'')
             else ParseInt (sgn @ ds))"

lemma skip_space_digit: "is_digit c \<Longrightarrow> skip_space (c # s) = Ok (c # s)"
  by (auto simp: is_digit_def)

lemma scan_digits_append:
  assumes "\<forall>c\<in>set ds. is_digit c" and "s = [] \<or> \<not> is_digit (hd s)"
  shows "scan_digits (ds @ s) = ds"
proof -
  have "takeWhile is_digit s = []" using assms(2) by (cases s) auto
  then show ?thesis using assms(1) by (simp add: scan_digits_def)
qed

lemma Sscanf_d_FormatInt:
  assumes s: "s = [] \<or> \<not> is_digit (hd s)"
  shows "Sscanf_d (FormatInt i @ s) = (if in_int64 i then Ok (word_of_int i) else Error (Err ''value out of range''))"
proof (cases "i < 0")
  case True
  let ?ds = "dec (nat (- i))"
  have "scan_digits (?ds @ s) = ?ds"
    by (rule scan_digits_append) (use s in \<open>auto simp: dec_digits\<close>)
  with True show ?thesis
    using ParseInt_FormatInt [of i]
    by (simp add: Sscanf_d_def FormatInt_def Let_def)
next
  case False
  let ?ds = "dec (nat i)"
  obtain c cs where cs: "?ds = c # cs" by (cases ?ds) auto
  then have c: "is_digit c" using dec_digits [of c "nat i"] by simp
  then have ne: "c \<noteq> CHR ''-''" "c \<noteq> CHR ''+''" by (auto simp: is_digit_def)
  have "scan_digits (?ds @ s) = ?ds"
    by (rule scan_digits_append) (use s in \<open>auto simp: dec_digits\<close>)
  with False ne c cs show ?thesis
    using ParseInt_FormatInt [of i]
    by (simp add: Sscanf_d_def FormatInt_def Let_def skip_space_digit del: skip_space.simps)
qed

section \<open>Conversions to \<open>int64\<close>\<close>

text \<open>
  Truncation of an IEEE 754 number with \<open>eb\<close> exponent bits and \<open>mb\<close> fraction bits, given as the
  number its bits spell; None for an infinity or a NaN.
\<close>

definition float_trunc :: "nat \<Rightarrow> nat \<Rightarrow> nat \<Rightarrow> int option" where
  "float_trunc eb mb n =
     (let s = n div 2 ^ (eb + mb); e = n div 2 ^ mb mod 2 ^ eb; m = n mod 2 ^ mb;
          shift = 2 ^ (eb - 1) - 1 + mb; sig = 2 ^ mb + m;
          mag = (if shift \<le> e then sig * 2 ^ (e - shift) else sig div 2 ^ (shift - e))
      in if e = 2 ^ eb - 1 then None
         else if e = 0 then Some 0
         else Some (if s = 0 then int mag else - int mag))"

text \<open>
  \<open>int64(f)\<close>: when the truncated number does not fit, the language leaves the result to the
  implementation; on amd64 it is the smallest \<open>int64\<close>.
\<close>

definition int64_of_trunc :: "int option \<Rightarrow> 64 word" where
  "int64_of_trunc t = (case t of
      None \<Rightarrow> word_of_int (- (2 ^ 63))
    | Some i \<Rightarrow> if in_int64 i then word_of_int i else word_of_int (- (2 ^ 63)))"

definition float64_to_int64 :: "64 word \<Rightarrow> 64 word" where
  "float64_to_int64 f = int64_of_trunc (float_trunc 11 52 (unat f))"

definition float32_to_int64 :: "32 word \<Rightarrow> 64 word" where
  "float32_to_int64 f = int64_of_trunc (float_trunc 8 23 (unat f))"

end
