(* ===== verification/GoSchema.thy ===== *)
theory GoSchema
  imports GoValue
begin

text \<open>
  The package \<open>schema\<close> (src/schema/schema.go, src/schema/test_schema.go): tables, columns, and the
  schema that maps names to tables under a read-write mutex. Values are copied where the code
  shares pointers: a table handed to \<open>AddTable\<close> is the table as it is at that moment.
\<close>

section \<open>Data\<close>

record ColumnData =
  col_Name :: string
  col_DataType :: string
  col_Nullable :: bool
  col_Default :: goval
  col_Comment :: string
  col_Unique :: bool
  col_Index :: bool
  col_AutoIncrement :: bool
  col_PrimaryKey :: bool

record TableSchema =
  tab_TableName :: string
  tab_Fields :: "ColumnData gomap"
  tab_FieldOrder :: "string list"
  tab_PrimaryKey :: string
  tab_Indexes :: "string list"
  tab_UniqueKeys :: "string list"
  tab_AutoIncrementFields :: "string list"
  tab_Comment :: string

text \<open>\<open>sync.RWMutex\<close> as one goroutine sees it: the read locks held and whether it is write-locked.\<close>

record rwmutex =
  mu_readers :: nat
  mu_writer :: bool

record Schema =
  sch_DatabaseName :: string
  sch_Tables :: "TableSchema gomap"
  sch_FieldOrder :: "string list"
  sch_mu :: rwmutex

text \<open>The zero values of the structs: what a lookup of a missing key yields.\<close>

definition zero_column :: ColumnData where
  "zero_column = \<lparr>col_Name = [], col_DataType = [], col_Nullable = False, col_Default = VNil,
     col_Comment = [], col_Unique = False, col_Index = False, col_AutoIncrement = False,
     col_PrimaryKey = False\<rparr>"

definition free_mutex :: rwmutex where
  "free_mutex = \<lparr>mu_readers = 0, mu_writer = False\<rparr>"

text \<open>\<open>tbl.Fields[name]\<close> without the second result.\<close>

definition field_of :: "ColumnData gomap \<Rightarrow> string \<Rightarrow> ColumnData" where
  "field_of m n = (case mget m n of None \<Rightarrow> zero_column | Some c \<Rightarrow> c)"

section \<open>The mutex\<close>

text \<open>
  A \<open>Lock\<close> or \<open>RLock\<close> that finds the mutex taken never returns when the only goroutine is the one
  that holds it; an \<open>Unlock\<close> of a mutex that is not locked is a fatal error.
\<close>

definition mu_Lock :: "rwmutex \<Rightarrow> rwmutex result" where
  "mu_Lock m = (if mu_writer m \<or> 0 < mu_readers m then Deadlock else Ok (m\<lparr>mu_writer := True\<rparr>))"

definition mu_Unlock :: "rwmutex \<Rightarrow> rwmutex result" where
  "mu_Unlock m = (if mu_writer m then Ok (m\<lparr>mu_writer := False\<rparr>)
     else Panic ''fatal error: sync: Unlock of unlocked RWMutex'')"

definition mu_RLock :: "rwmutex \<Rightarrow> rwmutex result" where
  "mu_RLock m = (if mu_writer m then Deadlock else Ok (m\<lparr>mu_readers := Suc (mu_readers m)\<rparr>))"

definition mu_RUnlock :: "rwmutex \<Rightarrow> rwmutex result" where
  "mu_RUnlock m = (if 0 < mu_readers m then Ok (m\<lparr>mu_readers := mu_readers m - 1\<rparr>)
     else Panic ''fatal error: sync: RUnlock of unlocked RWMutex'')"

text \<open>A method called on a nil schema panics when it touches the mutex.\<close>

definition schema_Lock :: "Schema option \<Rightarrow> Schema result" where
  "schema_Lock s = (case s of None \<Rightarrow> Panic nil_deref
     | Some sc \<Rightarrow> rbind (mu_Lock (sch_mu sc)) (\<lambda>m. Ok (sc\<lparr>sch_mu := m\<rparr>)))"

definition schema_Unlock :: "Schema option \<Rightarrow> Schema result" where
  "schema_Unlock s = (case s of None \<Rightarrow> Panic nil_deref
     | Some sc \<Rightarrow> rbind (mu_Unlock (sch_mu sc)) (\<lambda>m. Ok (sc\<lparr>sch_mu := m\<rparr>)))"

definition schema_RLock :: "Schema option \<Rightarrow> Schema result" where
  "schema_RLock s = (case s of None \<Rightarrow> Panic nil_deref
     | Some sc \<Rightarrow> rbind (mu_RLock (sch_mu sc)) (\<lambda>m. Ok (sc\<lparr>sch_mu := m\<rparr>)))"

definition schema_RUnlock :: "Schema option \<Rightarrow> Schema result" where
  "schema_RUnlock s = (case s of None \<Rightarrow> Panic nil_deref
     | Some sc \<Rightarrow> rbind (mu_RUnlock (sch_mu sc)) (\<lambda>m. Ok (sc\<lparr>sch_mu := m\<rparr>)))"

section \<open>Operations\<close>

definition schema_New :: Schema where
  "schema_New = \<lparr>sch_DatabaseName = [], sch_Tables = make_map, sch_FieldOrder = [],
     sch_mu = free_mutex\<rparr>"

definition SetDatabaseName :: "Schema \<Rightarrow> string \<Rightarrow> Schema result" where
  "SetDatabaseName s name =
     rbind (schema_Lock (Some s)) (\<lambda>s.
     schema_Unlock (Some (s\<lparr>sch_DatabaseName := name\<rparr>)))"

definition AddTable :: "Schema \<Rightarrow> TableSchema option \<Rightarrow> Schema result" where
  "AddTable s table = (case table of
      None \<Rightarrow> Ok s
    | Some t \<Rightarrow>
        rbind (schema_Lock (Some s)) (\<lambda>s.
        rbind (mset_entry (sch_Tables s) (tab_TableName t) t) (\<lambda>ts.
        schema_Unlock (Some (s\<lparr>sch_Tables := ts\<rparr>)))))"

text \<open>
  \<open>table, exists := s.Tables[name]; return *table, exists\<close>: for a name without a table the pointer
  is nil, and the dereference panics before \<open>exists\<close> can be returned. The read lock is released on
  every way out, so the schema comes back unchanged.
\<close>

definition GetTable :: "Schema option \<Rightarrow> string \<Rightarrow> (TableSchema \<times> bool) result" where
  "GetTable s name =
     rbind (schema_RLock s) (\<lambda>s1.
     rbind (case mget (sch_Tables s1) name of
              None \<Rightarrow> Panic nil_deref
            | Some t \<Rightarrow> Ok (t, True)) (\<lambda>r.
     rbind (schema_RUnlock (Some s1)) (\<lambda>_.
     Ok r)))"

definition NewTableSchema :: "string \<Rightarrow> TableSchema" where
  "NewTableSchema name = \<lparr>tab_TableName = name, tab_Fields = make_map, tab_FieldOrder = [],
     tab_PrimaryKey = [], tab_Indexes = [], tab_UniqueKeys = [], tab_AutoIncrementFields = [],
     tab_Comment = []\<rparr>"

definition AddField :: "TableSchema \<Rightarrow> ColumnData \<Rightarrow> TableSchema result" where
  "AddField ts field =
     (if col_Name field = [] then Ok ts
      else rbind (mset_entry (tab_Fields ts) (col_Name field) field) (\<lambda>fs.
        let ts = ts\<lparr>tab_Fields := fs, tab_FieldOrder := tab_FieldOrder ts @ [col_Name field]\<rparr>;
            ts = (if col_PrimaryKey field then ts\<lparr>tab_PrimaryKey := col_Name field\<rparr> else ts);
            ts = (if col_AutoIncrement field
                  then ts\<lparr>tab_AutoIncrementFields := tab_AutoIncrementFields ts @ [col_Name field]\<rparr>
                  else ts)
        in Ok ts))"

text \<open>A run of \<open>AddField\<close> calls on one table.\<close>

fun AddFields :: "TableSchema \<Rightarrow> ColumnData list \<Rightarrow> TableSchema result" where
  "AddFields ts [] = Ok ts"
| "AddFields ts (f # fs) = rbind (AddField ts f) (\<lambda>ts'. AddFields ts' fs)"

definition GetTestSchema :: "Schema result" where
  "GetTestSchema =
     (let idField = zero_column\<lparr>col_Name := ''id'', col_DataType := ''text'',
            col_Comment := ''Primary key for the person'', col_Unique := True, col_Index := True,
            col_AutoIncrement := True\<rparr>;
          nameField = zero_column\<lparr>col_Name := ''name'', col_DataType := ''text'',
            col_Comment := ''Name of the person'', col_Index := True\<rparr>;
          metadataField = zero_column\<lparr>col_Name := ''metadata'', col_DataType := ''json'',
            col_Nullable := True, col_Comment := ''Additional metadata for the person''\<rparr>
      in rbind (AddField (NewTableSchema ''people'') idField) (\<lambda>table.
         rbind (AddField table nameField) (\<lambda>table.
         rbind (AddField table metadataField) (\<lambda>table.
         AddTable schema_New (Some table)))))"

section \<open>Well-formed tables\<close>

text \<open>
  What \<open>AddField\<close> keeps true: the map and the order list name the same columns, every column is
  stored under its own name, and the key and the auto-increment list name columns of the table.
\<close>

definition wf_table :: "TableSchema \<Rightarrow> bool" where
  "wf_table t \<longleftrightarrow>
     tab_Fields t \<noteq> NilMap \<and> wf_map (tab_Fields t) \<and>
     (\<forall>n c. mget (tab_Fields t) n = Some c \<longrightarrow> col_Name c = n \<and> n \<noteq> []) \<and>
     set (tab_FieldOrder t) = set (mkeys (tab_Fields t)) \<and>
     (tab_PrimaryKey t = [] \<or> tab_PrimaryKey t \<in> set (tab_FieldOrder t)) \<and>
     set (tab_AutoIncrementFields t) \<subseteq> set (tab_FieldOrder t)"

named_theorems table_simps \<open>the fields of a table after an operation\<close>

definition named_columns :: "ColumnData list \<Rightarrow> ColumnData list" where
  "named_columns fs = filter (\<lambda>f. col_Name f \<noteq> []) fs"

lemma named_columns_simps [simp]:
  "named_columns [] = []"
  "named_columns (f # fs) = (if col_Name f = [] then named_columns fs else f # named_columns fs)"
  by (simp_all add: named_columns_def)

lemma NewTableSchema_simps [table_simps]:
  "tab_TableName (NewTableSchema n) = n"
  "tab_Fields (NewTableSchema n) = make_map"
  "tab_FieldOrder (NewTableSchema n) = []"
  "tab_AutoIncrementFields (NewTableSchema n) = []"
  "tab_PrimaryKey (NewTableSchema n) = []"
  by (simp_all add: NewTableSchema_def)

lemma wf_NewTableSchema: "wf_table (NewTableSchema n)"
  by (simp add: wf_table_def table_simps) (simp add: make_map_def)

lemma AddField_Ok:
  assumes "AddField ts f = Ok ts'"
  shows "tab_TableName ts' = tab_TableName ts"
    and "tab_FieldOrder ts' = tab_FieldOrder ts @ map col_Name (named_columns [f])"
    and "tab_AutoIncrementFields ts' =
           tab_AutoIncrementFields ts @ map col_Name (filter col_AutoIncrement (named_columns [f]))"
    and "mget (tab_Fields ts') =
           mget (tab_Fields ts) ++ map_of (map (\<lambda>f. (col_Name f, f)) (named_columns [f]))"
    and "tab_PrimaryKey ts' =
           (if col_PrimaryKey f \<and> col_Name f \<noteq> [] then col_Name f else tab_PrimaryKey ts)"
  using assms
  by (cases "col_PrimaryKey f"; cases "col_AutoIncrement f";
      auto simp: AddField_def Let_def map_add_def dest!: mget_mset_entry split: if_splits)+

lemma AddField_total: "tab_Fields ts \<noteq> NilMap \<Longrightarrow> \<exists>ts'. AddField ts f = Ok ts' \<and> tab_Fields ts' \<noteq> NilMap"
  by (cases "tab_Fields ts") (auto simp: AddField_def Let_def)

lemma AddField_wf:
  assumes wf: "wf_table ts" and ok: "AddField ts f = Ok ts'"
  shows "wf_table ts'"
proof (cases "col_Name f = []")
  case True
  with wf ok show ?thesis by (simp add: AddField_def)
next
  case False
  with ok obtain fs where fs: "mset_entry (tab_Fields ts) (col_Name f) f = Ok fs"
    and eq: "tab_Fields ts' = fs"
    by (cases "col_PrimaryKey f"; cases "col_AutoIncrement f"; auto simp: AddField_def Let_def)
  have "fs \<noteq> NilMap" using fs by (cases "tab_Fields ts") auto
  moreover have "wf_map fs" using wf wf_mset_entry [OF fs] by (simp add: wf_table_def)
  ultimately show ?thesis
    using wf False eq AddField_Ok [OF ok] mget_mset_entry [OF fs] set_mkeys_mset_entry [OF fs]
    by (auto simp: wf_table_def)
qed

lemma AddFields_Ok:
  assumes "AddFields ts fs = Ok ts'"
  shows "tab_TableName ts' = tab_TableName ts"
    and "tab_FieldOrder ts' = tab_FieldOrder ts @ map col_Name (named_columns fs)"
    and "tab_AutoIncrementFields ts' =
           tab_AutoIncrementFields ts @ map col_Name (filter col_AutoIncrement (named_columns fs))"
    and "mget (tab_Fields ts') =
           mget (tab_Fields ts) ++ map_of (rev (map (\<lambda>f. (col_Name f, f)) (named_columns fs)))"
  using assms
proof (induction fs arbitrary: ts)
  case (Cons f fs)
  { case 1 with Cons.IH(1) show ?case by (auto dest: AddField_Ok(1)) }
  { case 2 with Cons.IH(2) show ?case by (auto dest!: AddField_Ok(2)) }
  { case 3 with Cons.IH(3) show ?case by (auto dest!: AddField_Ok(3)) }
  { case 4 with Cons.IH(4) show ?case by (auto dest!: AddField_Ok(4) simp: fun_upd_def) }
qed auto

lemma AddFields_total:
  "tab_Fields ts \<noteq> NilMap \<Longrightarrow> \<exists>ts'. AddFields ts fs = Ok ts'"
proof (induction fs arbitrary: ts)
  case (Cons f fs)
  then obtain ts1 where "AddField ts f = Ok ts1" "tab_Fields ts1 \<noteq> NilMap"
    using AddField_total by blast
  with Cons.IH show ?case by simp
qed simp

lemma AddFields_wf: "wf_table ts \<Longrightarrow> AddFields ts fs = Ok ts' \<Longrightarrow> wf_table ts'"
  by (induction fs arbitrary: ts) (auto dest: AddField_wf)

section \<open>Lookups\<close>

lemma schema_lock_simps [simp]:
  "schema_RLock None = Panic nil_deref"
  "schema_Lock None = Panic nil_deref"
  by (simp_all add: schema_RLock_def schema_Lock_def)

text \<open>The value of \<open>GetTable\<close>, with the mutex calls evaluated.\<close>

lemma GetTable_eq:
  "GetTable None n = Panic nil_deref"
  "GetTable (Some s) n =
     (if mu_writer (sch_mu s) then Deadlock
      else case mget (sch_Tables s) n of None \<Rightarrow> Panic nil_deref | Some t \<Rightarrow> Ok (t, True))"
  by (auto simp: GetTable_def schema_RLock_def schema_RUnlock_def mu_RLock_def mu_RUnlock_def
        split: option.splits)

lemma GetTable_True: "GetTable s n = Ok (t, ok) \<Longrightarrow> ok"
  by (cases s) (auto simp: GetTable_eq split: if_splits option.splits)

lemma AddTable_eq:
  assumes "sch_mu s = free_mutex" and "sch_Tables s = GoMap ts"
  shows "AddTable s (Some t) = Ok (s\<lparr>sch_Tables := GoMap (AList.update (tab_TableName t) t ts)\<rparr>)"
  using assms
  by (cases s) (simp add: AddTable_def schema_Lock_def schema_Unlock_def mu_Lock_def mu_Unlock_def
        free_mutex_def)

lemma AddFields_key:
  "AddFields ts fs = Ok ts' \<Longrightarrow> tab_PrimaryKey ts' =
     (case rev (filter col_PrimaryKey (named_columns fs)) of [] \<Rightarrow> tab_PrimaryKey ts | f # _ \<Rightarrow> col_Name f)"
proof (induction fs arbitrary: ts)
  case (Cons f fs)
  then obtain ts1 where f: "AddField ts f = Ok ts1" and fs: "AddFields ts1 fs = Ok ts'" by auto
  show ?case
    using Cons.IH [OF fs] AddField_Ok(5) [OF f]
    by (cases "rev (filter col_PrimaryKey (named_columns fs))") (auto simp: append_eq_Cons_conv)
qed simp

section \<open>Properties\<close>

text \<open>C23: Adding any list of columns to a new table succeeds and gives a well-formed table: the columns
  without a name are left out, FieldOrder lists the others in the order given (a name added twice
  twice), a later column of the same name replaces the earlier one, and the primary key is the last
  column marked as one.\<close>

theorem table_built:
  "\<exists>t. AddFields (NewTableSchema n) fs = Ok t \<and> wf_table t \<and> tab_TableName t = n \<and>
     tab_FieldOrder t = map col_Name (named_columns fs) \<and>
     mget (tab_Fields t) = map_of (rev (map (\<lambda>f. (col_Name f, f)) (named_columns fs))) \<and>
     tab_AutoIncrementFields t = map col_Name (filter col_AutoIncrement (named_columns fs)) \<and>
     tab_PrimaryKey t = (case rev (filter col_PrimaryKey (named_columns fs)) of
        [] \<Rightarrow> [] | f # _ \<Rightarrow> col_Name f)"
proof -
  have nn: "tab_Fields (NewTableSchema n) \<noteq> NilMap" by (simp add: table_simps) (simp add: make_map_def)
  then obtain t where t: "AddFields (NewTableSchema n) fs = Ok t" using AddFields_total by blast
  have "mget (make_map :: ColumnData gomap) = Map.empty" by (rule ext) simp
  with AddFields_Ok [OF t] AddFields_wf [OF wf_NewTableSchema t] AddFields_key [OF t] t show ?thesis
    by (simp add: table_simps cong: list.case_cong)
qed

text \<open>C31: After AddTable, GetTable finds the added table under its name and what it found before under
  every other name, and the lock is in the state it was in.\<close>

theorem GetTable_after_AddTable:
  assumes "AddTable s (Some t) = Ok s'"
  shows "GetTable (Some s') n =
    (if n = tab_TableName t then Ok (t, True) else GetTable (Some s) n) \<and> sch_mu s' = sch_mu s"
proof -
  let ?held = "s\<lparr>sch_mu := (sch_mu s)\<lparr>mu_writer := True\<rparr>\<rparr>"
  from assms obtain ts where free: "\<not> mu_writer (sch_mu s)" "mu_readers (sch_mu s) = 0"
    and ts: "mset_entry (sch_Tables s) (tab_TableName t) t = Ok ts"
    and s': "s' = s\<lparr>sch_mu := (sch_mu s)\<lparr>mu_writer := False\<rparr>, sch_Tables := ts\<rparr>"
    by (auto simp: AddTable_def schema_Lock_def schema_Unlock_def mu_Lock_def mu_Unlock_def split: if_splits)
  then have "sch_mu s' = sch_mu s" by simp
  with free s' mget_mset_entry [OF ts] show ?thesis by (simp add: GetTable_eq)
qed

text \<open>GetTable never reports a missing table: it panics.\<close>

theorem GetTable_never_missing:
  "GetTable (Some s) n \<noteq> Ok (t, False) \<and>
   (sch_mu s = free_mutex \<longrightarrow> mget (sch_Tables s) n = None \<longrightarrow> GetTable (Some s) n = Panic nil_deref)"
  by (auto simp: GetTable_eq free_mutex_def split: option.splits)

lemma GetTable_after_AddTable_witness:
  "\<exists>s'. AddTable schema_New (Some (NewTableSchema ''people'')) = Ok s' \<and>
     GetTable (Some s') ''people'' = Ok (NewTableSchema ''people'', True) \<and>
     GetTable (Some s') ''pets'' = Panic nil_deref"
proof -
  let ?t = "NewTableSchema ''people''"
  obtain s' where s': "AddTable schema_New (Some ?t) = Ok s'"
    by (simp add: AddTable_eq schema_New_def make_map_def)
  have "GetTable (Some schema_New) ''pets'' = Panic nil_deref"
    by (simp add: GetTable_eq schema_New_def free_mutex_def)
  with s' GetTable_after_AddTable [OF s', of "''people''"] GetTable_after_AddTable [OF s', of "''pets''"]
  show ?thesis by (simp add: table_simps)
qed

lemma GetTable_never_missing_witness:
  "GetTable (Some schema_New) ''people'' = Panic nil_deref"
  using GetTable_never_missing [of schema_New "''people''"] by (simp add: schema_New_def)

end
