(* ===== verification/GoObject.thy ===== *)
theory GoObject
  imports GoValue
begin

text \<open>
  The package \<open>object\<close> (src/object/object.go): a row as a table name, an identifier and a map of
  field values, with typed accessors. An accessor's two results are a pair; an accessor that can
  panic returns a \<open>result\<close>.
\<close>

section \<open>Data and setters\<close>

record Object =
  obj_TableName :: string
  obj_ID :: string
  obj_Fields :: "goval gomap"

definition object_New :: Object where
  "object_New = \<lparr>obj_TableName = [], obj_ID = [], obj_Fields = make_map\<rparr>"

definition GetField :: "Object \<Rightarrow> string \<Rightarrow> goval \<times> bool" where
  "GetField o1 fieldName = (case mget (obj_Fields o1) fieldName of
      None \<Rightarrow> (VNil, False) | Some v \<Rightarrow> (v, True))"

definition SetField :: "Object \<Rightarrow> string \<Rightarrow> goval \<Rightarrow> Object result" where
  "SetField o1 fieldName v =
     rbind (mset_entry (obj_Fields o1) fieldName v) (\<lambda>fs. Ok (o1\<lparr>obj_Fields := fs\<rparr>))"

definition GetTableName :: "Object \<Rightarrow> string" where
  "GetTableName o1 = obj_TableName o1"

definition SetTableName :: "Object \<Rightarrow> string \<Rightarrow> Object" where
  "SetTableName o1 tableName = o1\<lparr>obj_TableName := tableName\<rparr>"

definition GetFields :: "Object \<Rightarrow> goval gomap" where
  "GetFields o1 = obj_Fields o1"

definition SetFields :: "Object \<Rightarrow> goval gomap \<Rightarrow> Object" where
  "SetFields o1 fs = o1\<lparr>obj_Fields := fs\<rparr>"

section \<open>Typed accessors\<close>

text \<open>
  A pointer to a string is dereferenced without a nil check; every type but \<open>string\<close> and
  \<open>*string\<close> gives the empty string and false.
\<close>

definition GetString :: "Object \<Rightarrow> string \<Rightarrow> (string \<times> bool) result" where
  "GetString o1 fieldName = (case mget (obj_Fields o1) fieldName of
      None \<Rightarrow> Ok ([], False)
    | Some v \<Rightarrow>
        if has_type v (TPtr TStr)
        then (case v of VPtr (VStr s) \<Rightarrow> Ok (s, True) | _ \<Rightarrow> Panic nil_deref)
        else (case v of VStr s \<Rightarrow> Ok (s, True) | _ \<Rightarrow> Ok ([], False)))"

text \<open>\<open>fmt.Sscanf(s, "%d", &intValue)\<close>, with the error branch of the caller.\<close>

definition scan_int64 :: "string \<Rightarrow> 64 word \<times> bool" where
  "scan_int64 s = (case Sscanf_d s of Ok i \<Rightarrow> (i, True) | _ \<Rightarrow> (0, False))"

definition bytes_text :: "string option \<Rightarrow> string" where
  "bytes_text b = (case b of None \<Rightarrow> [] | Some s \<Rightarrow> s)"

definition GetInt64 :: "Object \<Rightarrow> string \<Rightarrow> 64 word \<times> bool" where
  "GetInt64 o1 fieldName = (case mget (obj_Fields o1) fieldName of
      None \<Rightarrow> (0, False)
    | Some v \<Rightarrow> (case v of
        VInt64 i \<Rightarrow> (i, True)
      | VInt i \<Rightarrow> (i, True)
      | VStr s \<Rightarrow> scan_int64 s
      | VBytes b \<Rightarrow> scan_int64 (bytes_text b)
      | VFloat64 f \<Rightarrow> (float64_to_int64 f, True)
      | VFloat32 f \<Rightarrow> (float32_to_int64 f, True)
      | VUint64 u \<Rightarrow> (u, True)
      | VUint32 u \<Rightarrow> (ucast u, True)
      | _ \<Rightarrow> (0, False)))"

definition GetInt :: "Object \<Rightarrow> string \<Rightarrow> 64 word \<times> bool" where
  "GetInt o1 fieldName = (case mget (obj_Fields o1) fieldName of
      None \<Rightarrow> (0, False)
    | Some v \<Rightarrow> (case v of VInt i \<Rightarrow> (i, True) | _ \<Rightarrow> (0, False)))"

definition GetUint64 :: "Object \<Rightarrow> string \<Rightarrow> 64 word \<times> bool" where
  "GetUint64 o1 fieldName = (case mget (obj_Fields o1) fieldName of
      None \<Rightarrow> (0, False)
    | Some v \<Rightarrow> (case v of VUint64 u \<Rightarrow> (u, True) | _ \<Rightarrow> (0, False)))"

definition GetFloat64 :: "Object \<Rightarrow> string \<Rightarrow> 64 word \<times> bool" where
  "GetFloat64 o1 fieldName = (case mget (obj_Fields o1) fieldName of
      None \<Rightarrow> (0, False)
    | Some v \<Rightarrow> (case v of VFloat64 f \<Rightarrow> (f, True) | _ \<Rightarrow> (0, False)))"

definition GetBool :: "Object \<Rightarrow> string \<Rightarrow> bool \<times> bool" where
  "GetBool o1 fieldName = (case mget (obj_Fields o1) fieldName of
      None \<Rightarrow> (False, False)
    | Some v \<Rightarrow> (case v of VBool b \<Rightarrow> (b, True) | _ \<Rightarrow> (False, False)))"

section \<open>Lemmas\<close>

lemma SetField_Ok:
  "SetField o1 f v = Ok o2 \<Longrightarrow>
     mget (obj_Fields o2) = (mget (obj_Fields o1))(f \<mapsto> v) \<and>
     obj_TableName o2 = obj_TableName o1 \<and> obj_ID o2 = obj_ID o1"
  by (auto simp: SetField_def dest: mget_mset_entry)

lemma SetField_total: "obj_Fields o1 \<noteq> NilMap \<Longrightarrow> \<exists>o2. SetField o1 f v = Ok o2"
  by (cases "obj_Fields o1") (auto simp: SetField_def)

text \<open>The field map behind the accessors, as an abstract map of values.\<close>

definition fields_of :: "Object \<Rightarrow> string \<Rightarrow> goval option" where
  "fields_of o1 = mget (obj_Fields o1)"

text \<open>A run of \<open>SetField\<close> calls.\<close>

fun SetAll :: "Object \<Rightarrow> (string \<times> goval) list \<Rightarrow> Object result" where
  "SetAll o1 [] = Ok o1"
| "SetAll o1 ((f, v) # fvs) = rbind (SetField o1 f v) (\<lambda>o2. SetAll o2 fvs)"

lemma SetAll_Ok:
  "SetAll o1 fvs = Ok o2 \<Longrightarrow> fields_of o2 = fields_of o1 ++ map_of (rev fvs)"
proof (induction fvs arbitrary: o1)
  case (Cons fv fvs)
  then show ?case
    by (cases fv) (auto simp: fields_of_def fun_eq_iff map_add_def split: option.splits
        dest!: SetField_Ok)
qed simp

lemma SetField_not_nil: "SetField o1 f v = Ok o2 \<Longrightarrow> obj_Fields o2 \<noteq> NilMap"
  by (cases "obj_Fields o1") (auto simp: SetField_def)

lemma SetAll_total: "obj_Fields o1 \<noteq> NilMap \<Longrightarrow> \<exists>o2. SetAll o1 fvs = Ok o2"
proof (induction fvs arbitrary: o1)
  case (Cons fv fvs)
  obtain f v where fv: "fv = (f, v)" by force
  obtain o2 where o2: "SetField o1 f v = Ok o2"
    using SetField_total Cons.prems by blast
  then obtain o3 where "SetAll o2 fvs = Ok o3"
    using Cons.IH SetField_not_nil by blast
  with fv o2 show ?case by simp
qed simp

lemma GetInt64_text:
  assumes "fields_of o1 f = Some (VStr (FormatInt i @ s))"
    and "in_int64 i" and "s = [] \<or> \<not> is_digit (hd s)"
  shows "GetInt64 o1 f = (word_of_int i, True)"
  using assms Sscanf_d_FormatInt [of s i]
  by (simp add: GetInt64_def fields_of_def scan_int64_def)

lemma SetAll_rest:
  "SetAll o1 fvs = Ok o2 \<Longrightarrow> obj_TableName o2 = obj_TableName o1 \<and> obj_ID o2 = obj_ID o1 \<and>
     (wf_map (obj_Fields o1) \<longrightarrow> wf_map (obj_Fields o2))"
proof (induction fvs arbitrary: o1)
  case (Cons fv fvs)
  then show ?case
    by (cases fv) (auto simp: SetField_def dest: wf_mset_entry)
qed simp

section \<open>Properties\<close>

text \<open>After any sequence of SetField calls on a new object, GetField of a name returns the value last set
  under it, or nil and false when none was, and the name and ID of the object are unchanged.\<close>

theorem SetAll_GetField:
  "\<exists>o1. SetAll object_New fvs = Ok o1 \<and> obj_TableName o1 = [] \<and> obj_ID o1 = [] \<and> wf_map (obj_Fields o1) \<and>
     GetField o1 n = (case map_of (rev fvs) n of None \<Rightarrow> (VNil, False) | Some v \<Rightarrow> (v, True))"
proof -
  have "obj_Fields object_New \<noteq> NilMap" by (simp add: object_New_def make_map_def)
  then obtain o1 where o1: "SetAll object_New fvs = Ok o1" using SetAll_total by blast
  have "fields_of object_New = Map.empty" by (rule ext) (simp add: fields_of_def object_New_def)
  with SetAll_Ok [OF o1] have "mget (obj_Fields o1) n = map_of (rev fvs) n" by (simp add: fields_of_def)
  with o1 SetAll_rest [OF o1] show ?thesis by (simp add: GetField_def object_New_def)
qed

text \<open>The decimal text of any 64-bit integer, stored as a string or as bytes and followed by anything that
  is not a digit, is read back by GetInt64 as that integer.\<close>

theorem GetInt64_decimal:
  assumes "in_int64 i" and "s = [] \<or> \<not> is_digit (hd s)" and "SetField o1 f v = Ok o2"
    and "v = VStr (FormatInt i @ s) \<or> v = VBytes (Some (FormatInt i @ s))"
  shows "GetInt64 o2 f = (word_of_int i, True)"
  using assms SetField_Ok [OF assms(3)] Sscanf_d_FormatInt [OF assms(2), of i]
  by (auto simp: GetInt64_def scan_int64_def bytes_text_def)

lemma GetInt64_decimal_witness:
  "\<exists>o2. SetField object_New ''age'' (VStr (FormatInt (-42) @ '' years'')) = Ok o2 \<and>
     GetInt64 o2 ''age'' = (-42, True)"
proof -
  let ?v = "VStr (FormatInt (-42) @ '' years'')"
  obtain o2 where o2: "SetField object_New ''age'' ?v = Ok o2"
    by (simp add: SetField_def object_New_def make_map_def)
  with GetInt64_decimal [OF _ _ o2, of "-42" "'' years''"] show ?thesis
    by (simp add: in_int64_def is_digit_def)
qed

lemma sint_of_uint64: "sint (u :: 64 word) = (if uint u < 2 ^ 63 then uint u else uint u - 2 ^ 64)"
proof -
  have "sint u = (uint u + 2 ^ 63) mod 2 ^ 64 - 2 ^ 63"
    by (simp add: sint_uint signed_take_bit_eq_take_bit_shift take_bit_eq_mod)
  moreover have u: "0 \<le> uint u" "uint u < 2 ^ 64"
    using uint_range_size [of u] by (simp_all add: word_size)
  moreover have "(uint u + 2 ^ 63) mod 2 ^ 64 = uint u - 2 ^ 63" if "\<not> uint u < 2 ^ 63"
  proof -
    have "(uint u + 2 ^ 63) mod 2 ^ 64 = ((uint u - 2 ^ 63) + 2 ^ 64) mod 2 ^ 64"
      by (rule arg_cong [of _ _ "\<lambda>k. k mod 2 ^ 64"]) simp
    also have "\<dots> = uint u - 2 ^ 63" using that u by (simp only: mod_add_self2) simp
    finally show ?thesis .
  qed
  ultimately show ?thesis by (cases "uint u < 2 ^ 63") simp_all
qed

text \<open>C30: GetInt64 reads the decimal text of an integer, stored as a string or as bytes and followed by
  anything but a digit, as that integer when it is in the range of int64, and reports a failure
  otherwise; a uint64 field is reported as read whatever it holds, and comes out negative from 2^63
  on; a uint32 field keeps its value.\<close>

theorem GetInt64_bounds:
  assumes "fields_of o1 f = Some v" and "s = [] \<or> \<not> is_digit (hd s)"
  shows "(v = VStr (FormatInt i @ s) \<or> v = VBytes (Some (FormatInt i @ s)) \<longrightarrow>
      GetInt64 o1 f = (if - (2 ^ 63) \<le> i \<and> i < 2 ^ 63 then (word_of_int i, True) else (0, False))) \<and>
    (v = VUint64 u \<longrightarrow>
      GetInt64 o1 f = (u, True) \<and> sint u = (if uint u < 2 ^ 63 then uint u else uint u - 2 ^ 64)) \<and>
    (v = VUint32 k \<longrightarrow> (\<exists>w. GetInt64 o1 f = (w, True) \<and> sint w = uint k))"
proof (intro conjI impI)
  show "GetInt64 o1 f = (if - (2 ^ 63) \<le> i \<and> i < 2 ^ 63 then (word_of_int i, True) else (0, False))"
    if "v = VStr (FormatInt i @ s) \<or> v = VBytes (Some (FormatInt i @ s))"
    using that assms Sscanf_d_FormatInt [OF assms(2), of i]
    by (auto simp: GetInt64_def fields_of_def scan_int64_def bytes_text_def in_int64_def)
  have "uint k < 2 ^ 32" using uint_range_size [of k] by (simp add: word_size)
  then have "sint (ucast k :: 64 word) = uint k"
    by (simp add: sint_of_uint64 unsigned_ucast_eq take_bit_int_eq_self)
  then show "\<exists>w. GetInt64 o1 f = (w, True) \<and> sint w = uint k" if "v = VUint32 k"
    using that assms(1) by (simp add: GetInt64_def fields_of_def)
qed (use assms(1) in \<open>simp_all add: GetInt64_def fields_of_def sint_of_uint64\<close>)

lemma GetInt64_bounds_witness:
  "\<exists>o2 o3. SetField object_New ''id'' (VStr (FormatInt (2 ^ 63))) = Ok o2 \<and> GetInt64 o2 ''id'' = (0, False) \<and>
     SetField object_New ''id'' (VUint64 (2 ^ 63)) = Ok o3 \<and> sint (fst (GetInt64 o3 ''id'')) = - (2 ^ 63)"
proof -
  obtain o2 where o2: "SetField object_New ''id'' (VStr (FormatInt (2 ^ 63))) = Ok o2"
    by (simp add: SetField_def object_New_def make_map_def)
  obtain o3 where o3: "SetField object_New ''id'' (VUint64 (2 ^ 63)) = Ok o3"
    by (simp add: SetField_def object_New_def make_map_def)
  show ?thesis
    using o2 o3 SetField_Ok [OF o2] SetField_Ok [OF o3]
      GetInt64_bounds [of o2 "''id''" "VStr (FormatInt (2 ^ 63))" "[]" "2 ^ 63"]
      GetInt64_bounds [of o3 "''id''" "VUint64 (2 ^ 63)" "[]" 0 "2 ^ 63"]
    by (simp add: fields_of_def)
qed

text \<open>GetString panics exactly on a nil string pointer.\<close>

theorem GetString_nil_pointer:
  "GetString o1 f = Panic p \<longleftrightarrow> p = nil_deref \<and> fields_of o1 f = Some (VNilPtr TStr)"
proof (cases "fields_of o1 f")
  case (Some v)
  then show ?thesis
    by (cases v) (auto simp: GetString_def fields_of_def split: goval.splits)
qed (simp add: GetString_def fields_of_def)

end
