(* ===== verification/SqlDb.thy ===== *)
theory SqlDb
  imports GoSchema GoObject
begin

text \<open>
  The part of the package \<open>database/sql\<close> that the adapters use, over a driver that is a parameter.
  The driver (go-sqlite3, pgx, go-sql-driver, godror, go-mssqldb) is a record of functions on its
  own state, of which nothing is assumed here; \<open>DB\<close> and \<open>Tx\<close> are handles, and the package's own
  bookkeeping (closed handles, finished transactions) and its conversion of column values are
  modelled. Texts of the package's own conversion errors are abbreviated.
\<close>

section \<open>The parameters\<close>

text \<open>
  Functions of the standard library whose results the model does not need to know: printing and
  parsing of floating point numbers and times, \<open>%v\<close> of composite values, JSON encoding of a
  value and of an object (its table name, identifier and fields).
\<close>

record golib =
  lib_fmt_float :: "goval \<Rightarrow> string"
  lib_parse_float :: "string \<Rightarrow> 64 word result"
  lib_fmt_time :: "int \<Rightarrow> string"
  lib_fmt_other :: "goval \<Rightarrow> string"
  lib_json_value :: "goval \<Rightarrow> string result"
  lib_json_object :: "Object \<Rightarrow> string result"

text \<open>What a statement runs on: a connection of the pool of a \<open>DB\<close>, or a transaction.\<close>

datatype conn = OnDB nat | OnTx nat

text \<open>
  The driver. \<open>drv_exec\<close> gives an error, or the result whose \<open>RowsAffected\<close> may itself be an
  error. \<open>drv_query\<close> gives an error, or the column names, the rows as driver values, and the error
  that ended the iteration, if one did.
\<close>

type_synonym rowset = "string list \<times> goval list list \<times> goerr option"

record 'd env = golib +
  drv_open :: "string \<Rightarrow> string \<Rightarrow> 'd \<Rightarrow> nat result \<times> 'd"
  drv_ping :: "nat \<Rightarrow> 'd \<Rightarrow> unit result \<times> 'd"
  drv_exec :: "conn \<Rightarrow> string \<Rightarrow> goval list \<Rightarrow> 'd \<Rightarrow> (goerr + int) result \<times> 'd"
  drv_query :: "conn \<Rightarrow> string \<Rightarrow> goval list \<Rightarrow> 'd \<Rightarrow> rowset result \<times> 'd"
  drv_begin :: "nat \<Rightarrow> nat \<Rightarrow> 'd \<Rightarrow> unit result \<times> 'd"
  drv_commit :: "nat \<Rightarrow> 'd \<Rightarrow> unit result \<times> 'd"
  drv_rollback :: "nat \<Rightarrow> 'd \<Rightarrow> unit result \<times> 'd"
  drv_close :: "nat \<Rightarrow> 'd \<Rightarrow> unit result \<times> 'd"

text \<open>
  The state of the package: which handles are closed, which transactions are finished, the number
  of the next transaction, and the driver's state. It is extended by each adapter's own fields.
\<close>

record 'd sqlst =
  db_closed :: "nat \<Rightarrow> bool"
  tx_done :: "nat \<Rightarrow> bool"
  tx_next :: nat
  drv :: 'd

section \<open>Statements\<close>

text \<open>Run a driver function on the driver's part of the state.\<close>

definition on_driver :: "('d \<Rightarrow> 'a result \<times> 'd) \<Rightarrow> (('d, 'z) sqlst_scheme, 'a) go" where
  "on_driver f = (\<lambda>w. case f (drv w) of (r, d) \<Rightarrow> (r, w\<lparr>drv := d\<rparr>))"

definition db_closed_error :: goerr where
  "db_closed_error = Err ''sql: database is closed''"

text \<open>A statement on a nil handle panics, on a closed handle or a finished transaction it fails.\<close>

definition use_db :: "nat option \<Rightarrow> (conn \<Rightarrow> (('d, 'z) sqlst_scheme, 'a) go) \<Rightarrow>
    (('d, 'z) sqlst_scheme, 'a) go" where
  "use_db db k = (\<lambda>w. case db of
      None \<Rightarrow> (Panic nil_deref, w)
    | Some n \<Rightarrow> if db_closed w n then (Error db_closed_error, w) else k (OnDB n) w)"

definition use_tx :: "nat option \<Rightarrow> (conn \<Rightarrow> (('d, 'z) sqlst_scheme, 'a) go) \<Rightarrow>
    (('d, 'z) sqlst_scheme, 'a) go" where
  "use_tx tx k = (\<lambda>w. case tx of
      None \<Rightarrow> (Panic nil_deref, w)
    | Some n \<Rightarrow> if tx_done w n then (Error ErrTxDone, w) else k (OnTx n) w)"

definition sql_Exec :: "('d, 'e) env_scheme \<Rightarrow> conn \<Rightarrow> string \<Rightarrow> goval list \<Rightarrow>
    (('d, 'z) sqlst_scheme, goerr + int) go" where
  "sql_Exec E c q args = on_driver (drv_exec E c q args)"

definition db_Exec :: "('d, 'e) env_scheme \<Rightarrow> nat option \<Rightarrow> string \<Rightarrow> goval list \<Rightarrow>
    (('d, 'z) sqlst_scheme, goerr + int) go" where
  "db_Exec E db q args = use_db db (\<lambda>c. sql_Exec E c q args)"

definition tx_Exec :: "('d, 'e) env_scheme \<Rightarrow> nat option \<Rightarrow> string \<Rightarrow> goval list \<Rightarrow>
    (('d, 'z) sqlst_scheme, goerr + int) go" where
  "tx_Exec E tx q args = use_tx tx (\<lambda>c. sql_Exec E c q args)"

text \<open>\<open>n, err := res.RowsAffected(); if err != nil { return err }\<close>\<close>

definition RowsAffected :: "goerr + int \<Rightarrow> ('w, int) go" where
  "RowsAffected res = (case res of Inl e \<Rightarrow> fail e | Inr n \<Rightarrow> ret n)"

text \<open>The line breaks and indentation inside a statement that the source writes over several lines.\<close>

definition newline_tabs :: "nat \<Rightarrow> string" where
  "newline_tabs n = CHR 0x0A # replicate n (CHR 0x09)"

section \<open>Scanning a column value into a pointer\<close>

text \<open>
  \<open>%v\<close> of a value, and the text a column value has when it is scanned into a string: integers and
  booleans as in the source, floating point numbers, times and composites by the library.
\<close>

definition Sprint_v :: "'e golib_scheme \<Rightarrow> goval \<Rightarrow> string" where
  "Sprint_v L v = (case v of
      VNil \<Rightarrow> ''<nil>''
    | VStr s \<Rightarrow> s
    | VBool b \<Rightarrow> (if b then ''true'' else ''false'')
    | VInt i \<Rightarrow> FormatInt (sint i)
    | VInt64 i \<Rightarrow> FormatInt (sint i)
    | VUint64 u \<Rightarrow> FormatInt (uint u)
    | VUint32 u \<Rightarrow> FormatInt (uint u)
    | VFloat64 f \<Rightarrow> lib_fmt_float L v
    | VFloat32 f \<Rightarrow> lib_fmt_float L v
    | _ \<Rightarrow> lib_fmt_other L v)"

definition as_string :: "'e golib_scheme \<Rightarrow> goval \<Rightarrow> string" where
  "as_string L v = (case v of
      VBytes b \<Rightarrow> bytes_text b
    | VTime t \<Rightarrow> lib_fmt_time L t
    | _ \<Rightarrow> Sprint_v L v)"

text \<open>The scalars that have a text of their own when scanned into a string or bytes.\<close>

definition scalar_text :: "'e golib_scheme \<Rightarrow> goval \<Rightarrow> string option" where
  "scalar_text L v = (case v of
      VStr s \<Rightarrow> Some s
    | VBytes b \<Rightarrow> Some (bytes_text b)
    | VTime t \<Rightarrow> Some (lib_fmt_time L t)
    | VBool b \<Rightarrow> Some (Sprint_v L v)
    | VInt64 i \<Rightarrow> Some (Sprint_v L v)
    | VFloat64 f \<Rightarrow> Some (Sprint_v L v)
    | _ \<Rightarrow> None)"

definition null_error :: "string \<Rightarrow> 'a result" where
  "null_error t = Error (Err (''converting NULL to '' @ t @ '' is unsupported''))"

definition scan_error :: "'a result" where
  "scan_error = Error (Err ''unsupported Scan, storing driver.Value type into type'')"

definition parse_bool :: "string \<Rightarrow> bool result" where
  "parse_bool s =
     (if s \<in> set [''1'', ''t'', ''T'', ''true'', ''TRUE'', ''True''] then Ok True
      else if s \<in> set [''0'', ''f'', ''F'', ''false'', ''FALSE'', ''False''] then Ok False
      else Error (Err ''sql/driver: couldn't convert into type bool''))"

text \<open>\<open>convertAssign\<close> into a destination of the given type.\<close>

fun convertAssign :: "'e golib_scheme \<Rightarrow> gty \<Rightarrow> goval \<Rightarrow> goval result" where
  "convertAssign L TStr src = (case src of
      VNil \<Rightarrow> null_error ''string''
    | _ \<Rightarrow> (case scalar_text L src of Some s \<Rightarrow> Ok (VStr s) | None \<Rightarrow> scan_error))"
| "convertAssign L TInt64 src = (case src of
      VNil \<Rightarrow> null_error ''int64''
    | VInt64 i \<Rightarrow> Ok src
    | _ \<Rightarrow> rbind (ParseInt (as_string L src)) (\<lambda>i. Ok (VInt64 i)))"
| "convertAssign L TInt src = (case src of
      VNil \<Rightarrow> null_error ''int''
    | _ \<Rightarrow> rbind (ParseInt (as_string L src)) (\<lambda>i. Ok (VInt i)))"
| "convertAssign L TFloat64 src = (case src of
      VNil \<Rightarrow> null_error ''float64''
    | VFloat64 f \<Rightarrow> Ok src
    | _ \<Rightarrow> rbind (lib_parse_float L (as_string L src)) (\<lambda>f. Ok (VFloat64 f)))"
| "convertAssign L TBytes src = (case src of
      VNil \<Rightarrow> Ok (VBytes None)
    | VBytes b \<Rightarrow> Ok (VBytes (Some (bytes_text b)))
    | _ \<Rightarrow> (case scalar_text L src of Some s \<Rightarrow> Ok (VBytes (Some s)) | None \<Rightarrow> scan_error))"
| "convertAssign L TBool src = (case src of
      VBool b \<Rightarrow> Ok src
    | VStr s \<Rightarrow> rbind (parse_bool s) (\<lambda>b. Ok (VBool b))
    | VBytes s \<Rightarrow> rbind (parse_bool (bytes_text s)) (\<lambda>b. Ok (VBool b))
    | VInt64 i \<Rightarrow> if i = 1 then Ok (VBool True) else if i = 0 then Ok (VBool False)
        else Error (Err ''sql/driver: couldn't convert into type bool'')
    | _ \<Rightarrow> Error (Err ''sql/driver: couldn't convert into type bool''))"
| "convertAssign L TTime src = (case src of VTime t \<Rightarrow> Ok src | _ \<Rightarrow> scan_error)"
| "convertAssign L TUUID src = scan_error"
| "convertAssign L TAny src = Ok src"
| "convertAssign L (TPtr t) src = (case src of
      VNil \<Rightarrow> Ok (VNilPtr t)
    | _ \<Rightarrow> rbind (convertAssign L t src) (\<lambda>v. Ok (VPtr v)))"

text \<open>
  A destination pointer: the type of the variable it points to and what the variable holds.
  \<open>new(T)\<close> points to a zero value.
\<close>

datatype cell = Cell gty goval

fun cell_type :: "cell \<Rightarrow> gty" where
  "cell_type (Cell t v) = t"

fun cell_value :: "cell \<Rightarrow> goval" where
  "cell_value (Cell t v) = v"

definition new_cell :: "gty \<Rightarrow> cell" where
  "new_cell t = Cell t (zero_value t)"

text \<open>
  \<open>Row.Scan\<close>: the numbers of columns and destinations must agree, and each column is converted in
  turn; the first failure names its column.
\<close>

fun scan_columns :: "'e golib_scheme \<Rightarrow> nat \<Rightarrow> string list \<Rightarrow> goval list \<Rightarrow> cell list \<Rightarrow> cell list result" where
  "scan_columns L i cols (src # srcs) (Cell t old # cs) =
     rbind (wrap_error (''sql: Scan error on column index '' @ dec i @ '', name '' @
              (case cols of [] \<Rightarrow> [] | c # _ \<Rightarrow> c) @ '': '') (convertAssign L t src)) (\<lambda>v.
     rbind (scan_columns L (Suc i) (drop 1 cols) srcs cs) (\<lambda>rest. Ok (Cell t v # rest)))"
| "scan_columns L i cols srcs cs = Ok cs"

definition Scan_row :: "'e golib_scheme \<Rightarrow> string list \<Rightarrow> goval list \<Rightarrow> cell list \<Rightarrow> cell list result" where
  "Scan_row L cols srcs cs =
     (if length srcs \<noteq> length cs
      then Error (Err (''sql: expected '' @ dec (length srcs) @ '' destination arguments in Scan, not '' @
                   dec (length cs)))
      else scan_columns L 0 cols srcs cs)"

text \<open>\<open>QueryRowContext(...).Scan(...)\<close>: only the first row is looked at.\<close>

definition scan_first :: "'e golib_scheme \<Rightarrow> rowset \<Rightarrow> cell list \<Rightarrow> cell list result" where
  "scan_first L rs cs = (case rs of (cols, rows, err) \<Rightarrow>
     (case rows of
        [] \<Rightarrow> (case err of None \<Rightarrow> Error ErrNoRows | Some e \<Rightarrow> Error e)
      | r # _ \<Rightarrow> Scan_row L cols r cs))"

definition sql_QueryRow :: "('d, 'e) env_scheme \<Rightarrow> conn \<Rightarrow> string \<Rightarrow> goval list \<Rightarrow> cell list \<Rightarrow>
    (('d, 'z) sqlst_scheme, cell list) go" where
  "sql_QueryRow E c q args cs =
     seq (on_driver (drv_query E c q args)) (\<lambda>rs. pure (scan_first E rs cs))"

definition db_QueryRow :: "('d, 'e) env_scheme \<Rightarrow> nat option \<Rightarrow> string \<Rightarrow> goval list \<Rightarrow> cell list \<Rightarrow>
    (('d, 'z) sqlst_scheme, cell list) go" where
  "db_QueryRow E db q args cs = use_db db (\<lambda>c. sql_QueryRow E c q args cs)"

definition tx_QueryRow :: "('d, 'e) env_scheme \<Rightarrow> nat option \<Rightarrow> string \<Rightarrow> goval list \<Rightarrow> cell list \<Rightarrow>
    (('d, 'z) sqlst_scheme, cell list) go" where
  "tx_QueryRow E tx q args cs = use_tx tx (\<lambda>c. sql_QueryRow E c q args cs)"

text \<open>
  \<open>db.Query(...)\<close> followed by a loop over \<open>rows.Next()\<close> that scans every row into fresh variables of
  the given types, and by \<open>rows.Err()\<close>.
\<close>

fun scan_rows :: "'e golib_scheme \<Rightarrow> gty list \<Rightarrow> string list \<Rightarrow> goval list list \<Rightarrow>
    goval list list result" where
  "scan_rows L ts cols [] = Ok []"
| "scan_rows L ts cols (r # rs) =
     rbind (Scan_row L cols r (map new_cell ts)) (\<lambda>cs.
     rbind (scan_rows L ts cols rs) (\<lambda>rest. Ok (map cell_value cs # rest)))"

definition query_all :: "('d, 'e) env_scheme \<Rightarrow> nat option \<Rightarrow> string \<Rightarrow> goval list \<Rightarrow> gty list \<Rightarrow>
    (('d, 'z) sqlst_scheme, goval list list) go" where
  "query_all E db q args ts =
     use_db db (\<lambda>c.
     seq (on_driver (drv_query E c q args)) (\<lambda>(cols, rows, err).
     seq (pure (scan_rows E ts cols rows)) (\<lambda>vss.
     case err of None \<Rightarrow> ret vss | Some e \<Rightarrow> fail e)))"

section \<open>Handles and transactions\<close>

definition sql_Open :: "('d, 'e) env_scheme \<Rightarrow> string \<Rightarrow> string \<Rightarrow> (('d, 'z) sqlst_scheme, nat) go" where
  "sql_Open E driverName connStr = on_driver (drv_open E driverName connStr)"

definition db_Ping :: "('d, 'e) env_scheme \<Rightarrow> nat \<Rightarrow> (('d, 'z) sqlst_scheme, unit) go" where
  "db_Ping E n = use_db (Some n) (\<lambda>c. on_driver (drv_ping E n))"

text \<open>\<open>DB.Close\<close>: closing twice is allowed and does nothing.\<close>

definition db_Close :: "('d, 'e) env_scheme \<Rightarrow> nat \<Rightarrow> (('d, 'z) sqlst_scheme, unit) go" where
  "db_Close E n = (\<lambda>w. if db_closed w n then (Ok (), w)
     else on_driver (drv_close E n) (w\<lparr>db_closed := (db_closed w)(n := True)\<rparr>))"

definition db_BeginTx :: "('d, 'e) env_scheme \<Rightarrow> nat option \<Rightarrow> (('d, 'z) sqlst_scheme, nat) go" where
  "db_BeginTx E db = use_db db (\<lambda>c w.
     seq (on_driver (drv_begin E (case c of OnDB n \<Rightarrow> n | OnTx n \<Rightarrow> n) (tx_next w))) (\<lambda>_.
     seq (modify (\<lambda>w. w\<lparr>tx_done := (tx_done w)(tx_next w := False), tx_next := Suc (tx_next w)\<rparr>)) (\<lambda>_.
     ret (tx_next w))) w)"

text \<open>
  \<open>Tx.Commit\<close> and \<open>Tx.Rollback\<close> mark the transaction finished before they ask the driver, so a
  second call finds it finished whatever the first one returned.
\<close>

definition tx_Commit :: "('d, 'e) env_scheme \<Rightarrow> nat \<Rightarrow> (('d, 'z) sqlst_scheme, unit) go" where
  "tx_Commit E n = use_tx (Some n) (\<lambda>c.
     seq (modify (\<lambda>w. w\<lparr>tx_done := (tx_done w)(n := True)\<rparr>)) (\<lambda>_.
     on_driver (drv_commit E n)))"

definition tx_Rollback :: "('d, 'e) env_scheme \<Rightarrow> nat \<Rightarrow> (('d, 'z) sqlst_scheme, unit) go" where
  "tx_Rollback E n = use_tx (Some n) (\<lambda>c.
     seq (modify (\<lambda>w. w\<lparr>tx_done := (tx_done w)(n := True)\<rparr>)) (\<lambda>_.
     on_driver (drv_rollback E n)))"

section \<open>Lemmas\<close>

lemma convertAssign_type: "convertAssign L t src = Ok v \<Longrightarrow> has_type v t"
  by (induction L t src arbitrary: v rule: convertAssign.induct)
     (auto simp: null_error_def scan_error_def split: goval.splits option.splits if_splits)

lemma scan_columns_types:
  "scan_columns L i cols srcs cs = Ok cs' \<Longrightarrow> map cell_type cs' = map cell_type cs"
  by (induction L i cols srcs cs arbitrary: cs' rule: scan_columns.induct) auto

definition well_typed_cell :: "cell \<Rightarrow> bool" where
  "well_typed_cell c = has_type (cell_value c) (cell_type c)"

lemma well_typed_new [simp]: "well_typed_cell (new_cell t)"
  by (simp add: well_typed_cell_def new_cell_def)

lemma cell_type_new [simp]: "cell_type (new_cell t) = t"
  by (simp add: new_cell_def)

lemma scan_columns_well_typed:
  "scan_columns L i cols srcs cs = Ok cs' \<Longrightarrow> list_all well_typed_cell cs \<Longrightarrow>
     list_all well_typed_cell cs'"
  by (induction L i cols srcs cs arbitrary: cs' rule: scan_columns.induct)
     (auto simp: well_typed_cell_def dest: convertAssign_type)

lemma Scan_row_types:
  "Scan_row L cols srcs cs = Ok cs' \<Longrightarrow> map cell_type cs' = map cell_type cs"
  by (auto simp: Scan_row_def scan_columns_types split: if_splits)

lemma Scan_row_well_typed:
  "Scan_row L cols srcs cs = Ok cs' \<Longrightarrow> list_all well_typed_cell cs \<Longrightarrow> list_all well_typed_cell cs'"
  by (auto simp: Scan_row_def dest: scan_columns_well_typed split: if_splits)

lemma scan_first_types:
  "scan_first L rs cs = Ok cs' \<Longrightarrow> map cell_type cs' = map cell_type cs"
  by (auto simp: scan_first_def Scan_row_types split: prod.splits list.splits option.splits)

lemma scan_first_well_typed:
  "scan_first L rs cs = Ok cs' \<Longrightarrow> list_all well_typed_cell cs \<Longrightarrow> list_all well_typed_cell cs'"
  by (auto simp: scan_first_def dest: Scan_row_well_typed split: prod.splits list.splits option.splits)

end
