(* ===== verification/Common.thy ===== *)
theory Common
  imports SqlDb
begin

text \<open>
  The package \<open>storage/common\<close> (types.go, utils.go, base.go) and the debug switch of
  src/storage/storage.go: validation, the columns, placeholders and values of INSERT and UPDATE,
  the scanner that maps a row to an object, the shared find and delete, and the base adapter with
  its transaction methods.
\<close>

section \<open>Column kinds and the field scanner (types.go)\<close>

text \<open>The groups of case labels that the scanning switches of all SQL adapters share.\<close>

datatype kind = KText | KInt | KReal | KBlob | KBool | KJson | KTime | KOther

definition kind_of :: "string \<Rightarrow> kind" where
  "kind_of u =
     (if u \<in> set [''TEXT'', ''VARCHAR'', ''CHAR''] then KText
      else if u \<in> set [''INTEGER'', ''INT''] then KInt
      else if u \<in> set [''REAL'', ''FLOAT''] then KReal
      else if u = ''BLOB'' then KBlob
      else if u = ''BOOLEAN'' then KBool
      else if u = ''JSON'' then KJson
      else if u \<in> set [''DATETIME'', ''TIMESTAMP'', ''DATE'', ''TIME'', ''UUID'', ''CLOB'', ''XML'']
      then KTime
      else KOther)"

definition col_kind :: "ColumnData \<Rightarrow> kind" where
  "col_kind f = kind_of (ToUpper (col_DataType f))"

record FieldScanner =
  fs_ColumnPointers :: "cell list"
  fs_FieldTypes :: "string list"
  fs_FieldNames :: "string list"
  fs_Fields :: "ColumnData gomap"

definition nullable_cell :: "bool \<Rightarrow> gty \<Rightarrow> cell" where
  "nullable_cell nullable t = (if nullable then new_cell (TPtr t) else new_cell t)"

text \<open>The pointer that \<open>NewFieldScanner\<close> allocates for a field.\<close>

definition scanner_pointer :: "ColumnData \<Rightarrow> cell" where
  "scanner_pointer field = (case col_kind field of
      KText \<Rightarrow> nullable_cell (col_Nullable field) TStr
    | KInt \<Rightarrow> nullable_cell (col_Nullable field) TInt64
    | KReal \<Rightarrow> new_cell TFloat64
    | KBlob \<Rightarrow> new_cell TBytes
    | KBool \<Rightarrow> new_cell TBool
    | KJson \<Rightarrow> nullable_cell (col_Nullable field) TStr
    | KTime \<Rightarrow> nullable_cell (col_Nullable field) TStr
    | KOther \<Rightarrow> new_cell TStr)"

definition NewFieldScanner :: "TableSchema \<Rightarrow> FieldScanner" where
  "NewFieldScanner tbl =
     (let fieldNames = tab_FieldOrder tbl
      in \<lparr>fs_ColumnPointers = map (\<lambda>n. scanner_pointer (field_of (tab_Fields tbl) n)) fieldNames,
          fs_FieldTypes = map (\<lambda>n. col_DataType (field_of (tab_Fields tbl) n)) fieldNames,
          fs_FieldNames = fieldNames,
          fs_Fields = tab_Fields tbl\<rparr>)"

definition bad_assertion :: "'a result" where
  "bad_assertion = Panic ''interface conversion: interface {} is of another type''"

definition index_error :: "'a result" where
  "index_error = Panic ''runtime error: index out of range''"

text \<open>\<open>*p.(*T)\<close>: the assertion panics when the pointer has another type.\<close>

definition deref_as :: "gty \<Rightarrow> cell \<Rightarrow> goval result" where
  "deref_as t c = (if cell_type c = t then Ok (cell_value c) else bad_assertion)"

text \<open>
  \<open>if ptr, ok := p.(**T); ok && ptr != nil && *ptr != nil { **ptr } else { nil }\<close>: a pointer of
  another type takes the else branch.
\<close>

definition deref_nullable :: "gty \<Rightarrow> cell \<Rightarrow> goval" where
  "deref_nullable t c =
     (if cell_type c = TPtr t then (case cell_value c of VPtr v \<Rightarrow> v | _ \<Rightarrow> VNil) else VNil)"

definition read_cell :: "bool \<Rightarrow> gty \<Rightarrow> cell \<Rightarrow> goval result" where
  "read_cell nullable t c = (if nullable then Ok (deref_nullable t c) else deref_as t c)"

text \<open>A case of a scanning switch that assigns the field, and a switch without a matching case.\<close>

definition assigns :: "goval result \<Rightarrow> goval option result" where
  "assigns r = rbind r (\<lambda>v. Ok (Some v))"

definition no_case :: "goval option result" where
  "no_case = Ok None"

definition scanner_value :: "ColumnData \<Rightarrow> string \<Rightarrow> cell \<Rightarrow> goval option result" where
  "scanner_value field fieldType c = (case kind_of (ToUpper fieldType) of
      KText \<Rightarrow> assigns (read_cell (col_Nullable field) TStr c)
    | KInt \<Rightarrow> assigns (read_cell (col_Nullable field) TInt64 c)
    | KReal \<Rightarrow> assigns (deref_as TFloat64 c)
    | KBlob \<Rightarrow> assigns (deref_as TBytes c)
    | KBool \<Rightarrow> assigns (deref_as TBool c)
    | KJson \<Rightarrow> assigns (read_cell (col_Nullable field) TStr c)
    | KTime \<Rightarrow> assigns (read_cell (col_Nullable field) TStr c)
    | KOther \<Rightarrow> assigns (deref_as TStr c))"

text \<open>
  The loop that fills an object's fields: \<open>sw\<close> is the switch over the field's type, given the
  column and the field type and pointer of the same index.
\<close>

definition store_field :: "goval gomap \<Rightarrow> string \<Rightarrow> goval option \<Rightarrow> goval gomap result" where
  "store_field m n vo = (case vo of None \<Rightarrow> Ok m | Some v \<Rightarrow> mset_entry m n v)"

fun fill_fields :: "(ColumnData \<Rightarrow> string \<Rightarrow> cell \<Rightarrow> goval option result) \<Rightarrow> ColumnData gomap \<Rightarrow>
    string list \<Rightarrow> string list \<Rightarrow> cell list \<Rightarrow> goval gomap \<Rightarrow> goval gomap result" where
  "fill_fields sw F [] ts cs m = Ok m"
| "fill_fields sw F (n # ns) [] cs m = index_error"
| "fill_fields sw F (n # ns) (t # ts) [] m = index_error"
| "fill_fields sw F (n # ns) (t # ts) (c # cs) m =
     rbind (sw (field_of F n) t c) (\<lambda>vo.
     rbind (store_field m (col_Name (field_of F n)) vo) (\<lambda>m'.
     fill_fields sw F ns ts cs m'))"

text \<open>
  \<open>if idValue, exists := obj.Fields["id"]; exists && idValue != nil { obj.ID = idValue.(string) }\<close>
\<close>

definition assign_ID :: "Object \<Rightarrow> Object result" where
  "assign_ID o1 = (case mget (obj_Fields o1) ''id'' of
      None \<Rightarrow> Ok o1
    | Some v \<Rightarrow> (case v of
        VNil \<Rightarrow> Ok o1
      | VStr s \<Rightarrow> Ok (o1\<lparr>obj_ID := s\<rparr>)
      | _ \<Rightarrow> bad_assertion))"

definition ScanToObject :: "FieldScanner \<Rightarrow> string \<Rightarrow> Object result" where
  "ScanToObject fs tableName =
     rbind (fill_fields scanner_value (fs_Fields fs) (fs_FieldNames fs) (fs_FieldTypes fs)
              (fs_ColumnPointers fs) make_map) (\<lambda>m.
     assign_ID \<lparr>obj_TableName = tableName, obj_ID = [], obj_Fields = m\<rparr>)"

definition GetColumns :: "FieldScanner \<Rightarrow> string list" where
  "GetColumns fs = map (\<lambda>n. col_Name (field_of (fs_Fields fs) n)) (fs_FieldNames fs)"

section \<open>Validation and statement data (utils.go)\<close>

definition ValidateConnection :: "nat option \<Rightarrow> unit result" where
  "ValidateConnection db = (case db of None \<Rightarrow> Error (Err ''not connected'') | Some n \<Rightarrow> Ok ())"

definition ValidateSchema :: "Schema option \<Rightarrow> unit result" where
  "ValidateSchema sch = (case sch of None \<Rightarrow> Error (Err ''schema not initialized'') | Some s \<Rightarrow> Ok ())"

definition ValidateFindByKeyParams :: "string \<Rightarrow> string \<Rightarrow> string \<Rightarrow> unit result" where
  "ValidateFindByKeyParams tblName key val =
     (if tblName = [] \<or> key = [] \<or> val = []
      then Error (Err ''table name, key, and value must not be empty'') else Ok ())"

definition ValidateTransaction :: "nat option \<Rightarrow> unit result" where
  "ValidateTransaction tx = (case tx of None \<Rightarrow> Error (Err ''transaction is nil'') | Some n \<Rightarrow> Ok ())"

definition field_not_found :: "string \<Rightarrow> string \<Rightarrow> 'a result" where
  "field_not_found name tblName =
     Error (Err (''field '' @ name @ '' not found in table '' @ tblName @ '' schema''))"

definition table_not_found :: "string \<Rightarrow> 'a result" where
  "table_not_found tblName = Error (Err (''table '' @ tblName @ '' not found in schema''))"

lemma error_results [simp]:
  "field_not_found n t \<noteq> Ok x"
  "table_not_found t \<noteq> Ok x"
  "field_not_found n t \<noteq> Panic p"
  "table_not_found t \<noteq> Panic p"
  "bad_assertion \<noteq> Ok x"
  "index_error \<noteq> Ok x"
  by (simp_all add: field_not_found_def table_not_found_def bad_assertion_def index_error_def)

text \<open>
  The value bound for a field: JSON columns get the JSON text of the value, every other column the
  value itself.
\<close>

definition bind_value :: "'e golib_scheme \<Rightarrow> string \<Rightarrow> ColumnData \<Rightarrow> goval \<Rightarrow> goval result" where
  "bind_value L name schField field =
     (if ToLower (col_DataType schField) = ''json''
      then rbind (wrap_error (''failed to marshal JSON field '' @ name @ '': '') (lib_json_value L field))
             (\<lambda>j. Ok (VStr j))
      else Ok field)"

text \<open>
  The loop of an INSERT over the object's fields: \<open>quote\<close> writes a column name, \<open>ph\<close> the
  placeholder of an index, \<open>enc\<close> is the value bound for a field. The field \<open>id\<close> (in any letter
  case) is skipped; a field that the table does not have ends the loop with an error.
\<close>

fun insert_loop :: "(string \<Rightarrow> ColumnData \<Rightarrow> goval \<Rightarrow> goval result) \<Rightarrow> (string \<Rightarrow> string) \<Rightarrow>
    (nat \<Rightarrow> string) \<Rightarrow> TableSchema \<Rightarrow> nat \<Rightarrow> (string \<times> goval) list \<Rightarrow>
    (string list \<times> string list \<times> goval list) result" where
  "insert_loop enc quote ph tbl i [] = Ok ([], [], [])"
| "insert_loop enc quote ph tbl i ((name, field) # fs) =
     (if ToLower name = ''id'' then insert_loop enc quote ph tbl i fs
      else case mget (tab_Fields tbl) name of
        None \<Rightarrow> field_not_found name (tab_TableName tbl)
      | Some schField \<Rightarrow>
          rbind (enc name schField field) (\<lambda>v.
          rbind (insert_loop enc quote ph tbl (Suc i) fs) (\<lambda>(cs, ps, vs).
          Ok (quote name # cs, ph i # ps, v # vs))))"

definition PrepareInsertData :: "'e golib_scheme \<Rightarrow> Object \<Rightarrow> TableSchema \<Rightarrow> (nat \<Rightarrow> string) \<Rightarrow>
    (string list \<times> string list \<times> goval list) result" where
  "PrepareInsertData L obj tbl placeholderFunc =
     rbind (insert_loop (bind_value L) (\<lambda>n. n) placeholderFunc tbl 2 (entries (obj_Fields obj)))
       (\<lambda>(cs, ps, vs). Ok (''id'' # cs, placeholderFunc 1 # ps, VStr (obj_ID obj) # vs))"

text \<open>
  The loop of an UPDATE: \<open>clause\<close> writes the assignment of a column at an index, \<open>enc\<close> is the value
  bound for a field.
\<close>

fun update_loop :: "(string \<Rightarrow> goval \<Rightarrow> goval) \<Rightarrow> (string \<Rightarrow> nat \<Rightarrow> string) \<Rightarrow> nat \<Rightarrow>
    (string \<times> goval) list \<Rightarrow> string list \<times> goval list" where
  "update_loop enc clause i [] = ([], [])"
| "update_loop enc clause i ((name, v) # fs) =
     (if ToLower name = ''id'' then update_loop enc clause i fs
      else (case update_loop enc clause (Suc i) fs of
        (ss, vs) \<Rightarrow> (clause name i # ss, enc name v # vs)))"

text \<open>
  \<open>make([]string, 0, len(obj.Fields)-1)\<close> panics for an object without fields: the capacity is
  negative.
\<close>

definition make_set_clauses :: "goval gomap \<Rightarrow> unit result" where
  "make_set_clauses m = (if mlen m = 0 then Panic ''runtime error: makeslice: cap out of range'' else Ok ())"

definition PrepareUpdateData :: "Object \<Rightarrow> (nat \<Rightarrow> string) \<Rightarrow> (string list \<times> goval list) result" where
  "PrepareUpdateData obj placeholderFunc =
     rbind (make_set_clauses (obj_Fields obj)) (\<lambda>_.
     (case update_loop (\<lambda>n v. v) (\<lambda>n i. n @ '' = '' @ placeholderFunc i) 1 (entries (obj_Fields obj)) of
       (ss, vs) \<Rightarrow> Ok (ss, vs @ [VStr (obj_ID obj)])))"

section \<open>Finding and deleting (utils.go)\<close>

text \<open>
  The end of a find: no row is a nil object without an error, any other scan error is returned, and
  a scanned row becomes an object.
\<close>

definition finish_find :: "('w, cell list) go \<Rightarrow> (cell list \<Rightarrow> Object result) \<Rightarrow>
    ('w, Object option) go" where
  "finish_find m build = catch m
     (\<lambda>e. if is_no_rows e then ret None else fail e)
     (\<lambda>cs. pure (rbind (build cs) (\<lambda>o1. Ok (Some o1))))"

definition CommonFindByKey :: "('d, 'e) env_scheme \<Rightarrow> nat option \<Rightarrow> Schema option \<Rightarrow> string \<Rightarrow>
    string \<Rightarrow> string \<Rightarrow> (string list \<Rightarrow> string \<Rightarrow> string \<Rightarrow> string) \<Rightarrow>
    (('d, 'z) sqlst_scheme, Object option) go" where
  "CommonFindByKey E db sch tblName key val queryFunc =
     seq (pure (ValidateConnection db)) (\<lambda>_.
     seq (pure (ValidateFindByKeyParams tblName key val)) (\<lambda>_.
     seq (pure (GetTable sch tblName)) (\<lambda>(tbl, ok).
     if \<not> ok then pure (table_not_found tblName)
     else
       let fieldScanner = NewFieldScanner tbl;
           columns = GetColumns fieldScanner;
           query = queryFunc columns (tab_TableName tbl) (col_Name (field_of (tab_Fields tbl) key))
       in finish_find (db_QueryRow E db query [VStr val] (fs_ColumnPointers fieldScanner))
            (\<lambda>cs. ScanToObject (fieldScanner\<lparr>fs_ColumnPointers := cs\<rparr>) (tab_TableName tbl)))))"

definition CommonFindByKeyTx :: "('d, 'e) env_scheme \<Rightarrow> nat option \<Rightarrow> Schema option \<Rightarrow> string \<Rightarrow>
    string \<Rightarrow> string \<Rightarrow> (string list \<Rightarrow> string \<Rightarrow> string \<Rightarrow> string) \<Rightarrow>
    (('d, 'z) sqlst_scheme, Object option) go" where
  "CommonFindByKeyTx E tx sch tblName key val queryFunc =
     seq (pure (ValidateTransaction tx)) (\<lambda>_.
     seq (pure (ValidateFindByKeyParams tblName key val)) (\<lambda>_.
     seq (pure (GetTable sch tblName)) (\<lambda>(tbl, ok).
     if \<not> ok then pure (table_not_found tblName)
     else
       let fieldScanner = NewFieldScanner tbl;
           columns = GetColumns fieldScanner;
           query = queryFunc columns (tab_TableName tbl) (col_Name (field_of (tab_Fields tbl) key))
       in finish_find (tx_QueryRow E tx query [VStr val] (fs_ColumnPointers fieldScanner))
            (\<lambda>cs. ScanToObject (fieldScanner\<lparr>fs_ColumnPointers := cs\<rparr>) (tab_TableName tbl)))))"

text \<open>\<open>n, err := res.RowsAffected(); if err != nil { return false, err }; return n > 0, nil\<close>\<close>

definition any_rows :: "goerr + int \<Rightarrow> ('w, bool) go" where
  "any_rows res = seq (RowsAffected res) (\<lambda>n. ret (0 < n))"

definition CommonDeleteByID :: "('d, 'e) env_scheme \<Rightarrow> nat option \<Rightarrow> string \<Rightarrow> string \<Rightarrow>
    (string \<Rightarrow> string) \<Rightarrow> goval list \<Rightarrow> (('d, 'z) sqlst_scheme, bool) go" where
  "CommonDeleteByID E db tblName id1 queryFunc args =
     seq (pure (ValidateConnection db)) (\<lambda>_.
     seq (db_Exec E db (queryFunc tblName) (VStr id1 # args)) any_rows)"

definition CommonDeleteByIDTx :: "('d, 'e) env_scheme \<Rightarrow> nat option \<Rightarrow> string \<Rightarrow> string \<Rightarrow>
    (string \<Rightarrow> string) \<Rightarrow> goval list \<Rightarrow> (('d, 'z) sqlst_scheme, bool) go" where
  "CommonDeleteByIDTx E tx tblName id1 queryFunc args =
     seq (pure (ValidateTransaction tx)) (\<lambda>_.
     seq (tx_Exec E tx (queryFunc tblName) (VStr id1 # args)) any_rows)"

section \<open>Transactions (utils.go)\<close>

definition TM_BeginTx :: "('d, 'e) env_scheme \<Rightarrow> nat option \<Rightarrow> (('d, 'z) sqlst_scheme, nat) go" where
  "TM_BeginTx E db = seq (pure (ValidateConnection db)) (\<lambda>_. db_BeginTx E db)"

definition TM_CommitTx :: "('d, 'e) env_scheme \<Rightarrow> nat option \<Rightarrow> (('d, 'z) sqlst_scheme, unit) go" where
  "TM_CommitTx E tx = seq (pure (ValidateTransaction tx)) (\<lambda>_.
     case tx of None \<Rightarrow> panic nil_deref | Some n \<Rightarrow> tx_Commit E n)"

definition TM_RollbackTx :: "('d, 'e) env_scheme \<Rightarrow> nat option \<Rightarrow> (('d, 'z) sqlst_scheme, unit) go" where
  "TM_RollbackTx E tx = seq (pure (ValidateTransaction tx)) (\<lambda>_.
     case tx of None \<Rightarrow> panic nil_deref | Some n \<Rightarrow> tx_Rollback E n)"

section \<open>The base adapter (base.go)\<close>

text \<open>
  \<open>BaseSQLStorage\<close>: the handle, the schema, and the embedded \<open>TransactionMethods\<close> with a handle of
  its own. The adapter's fields extend the state of \<open>database/sql\<close>.
\<close>

record 'd adst = "'d sqlst" +
  ad_DB :: "nat option"
  ad_Sch :: "Schema option"
  ad_TM_DB :: "nat option"

definition NewBaseSQLStorage :: "('d, 'z) adst_scheme \<Rightarrow> ('d, 'z) adst_scheme" where
  "NewBaseSQLStorage w = w\<lparr>ad_DB := None, ad_Sch := None, ad_TM_DB := None\<rparr>"

definition SetDB :: "nat option \<Rightarrow> (('d, 'z) adst_scheme, unit) go" where
  "SetDB db = modify (\<lambda>w. w\<lparr>ad_DB := db, ad_TM_DB := db\<rparr>)"

definition SetSchema :: "Schema option \<Rightarrow> (('d, 'z) adst_scheme, unit) go" where
  "SetSchema sch = modify (\<lambda>w. w\<lparr>ad_Sch := sch\<rparr>)"

definition GetSchema :: "('d, 'z) adst_scheme \<Rightarrow> Schema option" where
  "GetSchema w = ad_Sch w"

definition GetDB :: "('d, 'z) adst_scheme \<Rightarrow> nat option" where
  "GetDB w = ad_DB w"

definition Base_ResetConnection :: "('d, 'e) env_scheme \<Rightarrow> (('d, 'z) adst_scheme, unit) go" where
  "Base_ResetConnection E = seq (gets ad_DB) (\<lambda>db.
     case db of Some n \<Rightarrow> db_Close E n | None \<Rightarrow> ret ())"

definition Base_FindByID :: "string \<Rightarrow> string \<Rightarrow>
    (string \<Rightarrow> string \<Rightarrow> string \<Rightarrow> ('w, Object option) go) \<Rightarrow> ('w, Object option) go" where
  "Base_FindByID tblName id1 findByKeyFunc = findByKeyFunc tblName ''id'' id1"

definition Base_FindByIDTx :: "nat option \<Rightarrow> string \<Rightarrow> string \<Rightarrow>
    (nat option \<Rightarrow> string \<Rightarrow> string \<Rightarrow> string \<Rightarrow> ('w, Object option) go) \<Rightarrow> ('w, Object option) go" where
  "Base_FindByIDTx tx tblName id1 findByKeyTxFunc = findByKeyTxFunc tx tblName ''id'' id1"

definition Base_ValidateConnection :: "(('d, 'z) adst_scheme, unit) go" where
  "Base_ValidateConnection = seq (gets ad_DB) (\<lambda>db. pure (ValidateConnection db))"

definition Base_ValidateSchema :: "(('d, 'z) adst_scheme, unit) go" where
  "Base_ValidateSchema = seq (gets ad_Sch) (\<lambda>sch. pure (ValidateSchema sch))"

definition Base_GetTable :: "string \<Rightarrow> (('d, 'z) adst_scheme, TableSchema) go" where
  "Base_GetTable tableName =
     seq Base_ValidateSchema (\<lambda>_.
     seq (gets ad_Sch) (\<lambda>sch.
     seq (pure (GetTable sch tableName)) (\<lambda>(tbl, ok).
     if \<not> ok then pure (table_not_found tableName) else ret tbl)))"

section \<open>The debug switch (storage.go)\<close>

text \<open>\<open>debug\<close> is the value of the environment variable DEBUG, empty when it is not set.\<close>

definition IsDebugEnabled :: "string \<Rightarrow> bool" where
  "IsDebugEnabled debug \<longleftrightarrow> debug \<noteq> [] \<and> debug \<noteq> ''0'' \<and> debug \<noteq> ''false''"

end
