(* ===== verification/Orm.thy ===== *)
theory Orm
  imports Common
begin

text \<open>
  The interface \<open>Storage\<close> (src/storage/storage.go) as a record of its methods on a world, and the ORM
  (src/orm/orm.go), which passes every call to the storage it was given. A nil storage panics.
\<close>

section \<open>The interface\<close>

record 'w Storage =
  st_Connect :: "string \<Rightarrow> ('w, unit) go"
  st_CreateTables :: "Schema option \<Rightarrow> ('w, unit) go"
  st_Insert :: "Object \<Rightarrow> ('w, string \<times> bool) go"
  st_Update :: "Object \<Rightarrow> ('w, bool) go"
  st_Upsert :: "Object \<Rightarrow> ('w, string \<times> bool) go"
  st_FindByID :: "string \<Rightarrow> string \<Rightarrow> ('w, Object option) go"
  st_FindByKey :: "string \<Rightarrow> string \<Rightarrow> string \<Rightarrow> ('w, Object option) go"
  st_DeleteByID :: "string \<Rightarrow> string \<Rightarrow> ('w, bool) go"
  st_ResetConnection :: "('w, unit) go"
  st_AlterTable :: "string \<Rightarrow> string \<Rightarrow> string \<Rightarrow> bool \<Rightarrow> ('w, unit) go"
  st_BeginTx :: "('w, nat) go"
  st_CommitTx :: "nat option \<Rightarrow> ('w, unit) go"
  st_RollbackTx :: "nat option \<Rightarrow> ('w, unit) go"
  st_InsertTx :: "nat option \<Rightarrow> Object \<Rightarrow> ('w, string \<times> bool) go"
  st_UpdateTx :: "nat option \<Rightarrow> Object \<Rightarrow> ('w, bool) go"
  st_UpsertTx :: "nat option \<Rightarrow> Object \<Rightarrow> ('w, string \<times> bool) go"
  st_FindByIDTx :: "nat option \<Rightarrow> string \<Rightarrow> string \<Rightarrow> ('w, Object option) go"
  st_FindByKeyTx :: "nat option \<Rightarrow> string \<Rightarrow> string \<Rightarrow> string \<Rightarrow> ('w, Object option) go"
  st_DeleteByIDTx :: "nat option \<Rightarrow> string \<Rightarrow> string \<Rightarrow> ('w, bool) go"

record 'w ORM =
  orm_Schema :: "Schema option"
  orm_Storage :: "'w Storage option"

definition orm_New :: "Schema option \<Rightarrow> 'w ORM" where
  "orm_New schema = \<lparr>orm_Schema = schema, orm_Storage = None\<rparr>"

definition orm_WithStorage :: "'w ORM \<Rightarrow> 'w Storage option \<Rightarrow> 'w ORM" where
  "orm_WithStorage orm storage = orm\<lparr>orm_Storage := storage\<rparr>"

text \<open>A method call on the storage interface.\<close>

definition on_storage :: "'w ORM \<Rightarrow> ('w Storage \<Rightarrow> ('w, 'a) go) \<Rightarrow> ('w, 'a) go" where
  "on_storage orm f = (case orm_Storage orm of None \<Rightarrow> panic nil_deref | Some st \<Rightarrow> f st)"

section \<open>The methods\<close>

definition orm_Connect :: "'w ORM \<Rightarrow> string \<Rightarrow> ('w, unit) go" where
  "orm_Connect orm connStr = on_storage orm (\<lambda>st. st_Connect st connStr)"

definition orm_Insert :: "'w ORM \<Rightarrow> Object \<Rightarrow> ('w, string \<times> bool) go" where
  "orm_Insert orm obj = on_storage orm (\<lambda>st. st_Insert st obj)"

definition orm_Upsert :: "'w ORM \<Rightarrow> Object \<Rightarrow> ('w, string \<times> bool) go" where
  "orm_Upsert orm obj = on_storage orm (\<lambda>st. st_Upsert st obj)"

text \<open>The lookup by identifier asks the storage for the key \<open>id\<close>.\<close>

definition orm_FindByID :: "'w ORM \<Rightarrow> string \<Rightarrow> string \<Rightarrow> ('w, Object option) go" where
  "orm_FindByID orm tblName id1 = on_storage orm (\<lambda>st. st_FindByKey st tblName ''id'' id1)"

definition orm_FindByKey :: "'w ORM \<Rightarrow> string \<Rightarrow> string \<Rightarrow> string \<Rightarrow> ('w, Object option) go" where
  "orm_FindByKey orm tblName key val = on_storage orm (\<lambda>st. st_FindByKey st tblName key val)"

definition orm_DeleteByID :: "'w ORM \<Rightarrow> string \<Rightarrow> string \<Rightarrow> ('w, bool) go" where
  "orm_DeleteByID orm tblName id1 = on_storage orm (\<lambda>st. st_DeleteByID st tblName id1)"

definition orm_ResetConnection :: "'w ORM \<Rightarrow> ('w, unit) go" where
  "orm_ResetConnection orm = on_storage orm (\<lambda>st. st_ResetConnection st)"

definition orm_BeginTx :: "'w ORM \<Rightarrow> ('w, nat) go" where
  "orm_BeginTx orm = on_storage orm (\<lambda>st. st_BeginTx st)"

definition orm_CommitTx :: "'w ORM \<Rightarrow> nat option \<Rightarrow> ('w, unit) go" where
  "orm_CommitTx orm tx = on_storage orm (\<lambda>st. st_CommitTx st tx)"

definition orm_RollbackTx :: "'w ORM \<Rightarrow> nat option \<Rightarrow> ('w, unit) go" where
  "orm_RollbackTx orm tx = on_storage orm (\<lambda>st. st_RollbackTx st tx)"

definition orm_InsertTx :: "'w ORM \<Rightarrow> nat option \<Rightarrow> Object \<Rightarrow> ('w, string \<times> bool) go" where
  "orm_InsertTx orm tx obj = on_storage orm (\<lambda>st. st_InsertTx st tx obj)"

definition orm_UpdateTx :: "'w ORM \<Rightarrow> nat option \<Rightarrow> Object \<Rightarrow> ('w, bool) go" where
  "orm_UpdateTx orm tx obj = on_storage orm (\<lambda>st. st_UpdateTx st tx obj)"

definition orm_UpsertTx :: "'w ORM \<Rightarrow> nat option \<Rightarrow> Object \<Rightarrow> ('w, string \<times> bool) go" where
  "orm_UpsertTx orm tx obj = on_storage orm (\<lambda>st. st_UpsertTx st tx obj)"

definition orm_FindByIDTx :: "'w ORM \<Rightarrow> nat option \<Rightarrow> string \<Rightarrow> string \<Rightarrow> ('w, Object option) go" where
  "orm_FindByIDTx orm tx tblName id1 = on_storage orm (\<lambda>st. st_FindByIDTx st tx tblName id1)"

definition orm_FindByKeyTx :: "'w ORM \<Rightarrow> nat option \<Rightarrow> string \<Rightarrow> string \<Rightarrow> string \<Rightarrow> ('w, Object option) go" where
  "orm_FindByKeyTx orm tx tblName key val = on_storage orm (\<lambda>st. st_FindByKeyTx st tx tblName key val)"

definition orm_DeleteByIDTx :: "'w ORM \<Rightarrow> nat option \<Rightarrow> string \<Rightarrow> string \<Rightarrow> ('w, bool) go" where
  "orm_DeleteByIDTx orm tx tblName id1 = on_storage orm (\<lambda>st. st_DeleteByIDTx st tx tblName id1)"

lemmas orm_defs =
  orm_Connect_def orm_Insert_def orm_Upsert_def orm_FindByID_def orm_FindByKey_def
  orm_DeleteByID_def orm_ResetConnection_def orm_BeginTx_def orm_CommitTx_def orm_RollbackTx_def
  orm_InsertTx_def orm_UpdateTx_def orm_UpsertTx_def orm_FindByIDTx_def orm_FindByKeyTx_def
  orm_DeleteByIDTx_def on_storage_def

definition orm_on :: "'w Storage \<Rightarrow> 'w ORM" where
  "orm_on st = orm_WithStorage (orm_New None) (Some st)"

lemma orm_on_storage [simp]: "orm_Storage (orm_on st) = Some st"
  by (simp add: orm_on_def orm_WithStorage_def)

section \<open>What a storage promises\<close>

text \<open>The equations between the methods of one storage that the ORM's lookups rely on.\<close>

locale keyed_storage =
  fixes st :: "'w Storage"
  assumes by_id: "st_FindByID st t i = st_FindByKey st t ''id'' i"
    and by_id_tx: "st_FindByIDTx st tx t i = st_FindByKeyTx st tx t ''id'' i"
    and upsert: "st_Upsert st obj = st_Insert st obj"
    and upsert_tx: "st_UpsertTx st tx obj = st_InsertTx st tx obj"
begin

lemma orm_by_id: "orm_FindByID (orm_on st) t i = st_FindByID st t i"
  by (simp add: orm_defs by_id)

lemma orm_upsert: "orm_Upsert (orm_on st) obj = orm_Insert (orm_on st) obj"
  by (simp add: orm_defs upsert)

lemma orm_upsert_tx: "orm_UpsertTx (orm_on st) tx obj = orm_InsertTx (orm_on st) tx obj"
  by (simp add: orm_defs upsert_tx)

end

text \<open>A nil transaction is refused by every transaction method before anything is done.\<close>

definition nil_tx :: goerr where
  "nil_tx = Err ''transaction is nil''"

locale tx_guarded =
  fixes st :: "'w Storage"
  assumes insert_nil: "st_InsertTx st None obj w = (Error nil_tx, w)"
    and update_nil: "st_UpdateTx st None obj w = (Error nil_tx, w)"
    and find_nil: "st_FindByKeyTx st None t k v w = (Error nil_tx, w)"
    and delete_nil: "st_DeleteByIDTx st None t i w = (Error nil_tx, w)"
    and commit_nil: "st_CommitTx st None w = (Error nil_tx, w)"
    and rollback_nil: "st_RollbackTx st None w = (Error nil_tx, w)"

text \<open>
  The life of a transaction: \<open>over\<close> tells which transactions have ended. Committing or rolling back
  ends a transaction whatever the call returns, and one that has ended accepts neither.
\<close>

locale tx_lifecycle =
  fixes st :: "'w Storage"
    and over :: "'w \<Rightarrow> nat \<Rightarrow> bool"
  assumes commit_ends: "over (snd (st_CommitTx st (Some n) w)) n"
    and rollback_ends: "over (snd (st_RollbackTx st (Some n) w)) n"
    and commit_over: "over w n \<Longrightarrow> st_CommitTx st (Some n) w = (Error ErrTxDone, w)"
    and rollback_over: "over w n \<Longrightarrow> st_RollbackTx st (Some n) w = (Error ErrTxDone, w)"
begin

text \<open>How a transaction is ended, and that it is ended once.\<close>

definition finishes :: "('w, unit) go \<Rightarrow> nat \<Rightarrow> bool" where
  "finishes m n \<longleftrightarrow> m = st_CommitTx st (Some n) \<or> m = st_RollbackTx st (Some n)"

lemma ended_once:
  assumes "finishes m n" and "finishes m' n"
  shows "m' (snd (m w)) = (Error ErrTxDone, snd (m w))"
proof -
  have "over (snd (m w)) n"
    using assms(1) commit_ends rollback_ends by (auto simp: finishes_def)
  with assms(2) show ?thesis
    by (auto simp: finishes_def commit_over rollback_over)
qed

end

text \<open>A storage of SQL transactions has both.\<close>

locale sql_storage = keyed_storage st + tx_guarded st + tx_lifecycle st over
  for st :: "'w Storage" and over :: "'w \<Rightarrow> nat \<Rightarrow> bool"
begin

lemma upsert_nil: "st_UpsertTx st None obj w = (Error nil_tx, w)"
  by (simp add: upsert_tx insert_nil)

lemma find_id_nil: "st_FindByIDTx st None t i w = (Error nil_tx, w)"
  by (simp add: by_id_tx find_nil)

lemma orm_double_commit:
  "orm_CommitTx (orm_on st) (Some n) (snd (orm_CommitTx (orm_on st) (Some n) w)) =
     (Error ErrTxDone, snd (orm_CommitTx (orm_on st) (Some n) w))"
  using ended_once [of "st_CommitTx st (Some n)" n "st_CommitTx st (Some n)" w]
  by (simp add: orm_defs finishes_def)

lemma orm_rollback_after_commit:
  "orm_RollbackTx (orm_on st) (Some n) (snd (orm_CommitTx (orm_on st) (Some n) w)) =
     (Error ErrTxDone, snd (orm_CommitTx (orm_on st) (Some n) w))"
  using ended_once [of "st_CommitTx st (Some n)" n "st_RollbackTx st (Some n)" w]
  by (simp add: orm_defs finishes_def)

end

end
