(* ===== verification/SqlText.thy ===== *)
theory SqlText
  imports Common
begin

text \<open>
  The statement texts and the loops that several adapters write in the same way: the pieces of
  INSERT, UPDATE, SELECT and DELETE, the creation of tables one after the other, and the pointers
  for a list of columns. Each adapter's own function is in its own theory.
\<close>

definition insert_text :: "string \<Rightarrow> string \<Rightarrow> string list \<Rightarrow> string list \<Rightarrow> string" where
  "insert_text verb tbl columns placeholders =
     verb @ '' '' @ tbl @ '' ('' @ Join columns '', '' @ '') VALUES ('' @ Join placeholders '', '' @ '')''"

definition update_text :: "string \<Rightarrow> string list \<Rightarrow> string \<Rightarrow> string" where
  "update_text tbl setClauses cond =
     ''UPDATE '' @ tbl @ '' SET '' @ Join setClauses '', '' @ '' WHERE '' @ cond"

definition select_text :: "string list \<Rightarrow> string \<Rightarrow> string \<Rightarrow> string" where
  "select_text columns tbl cond =
     ''SELECT '' @ Join columns '', '' @ '' FROM '' @ tbl @ '' WHERE '' @ cond"

definition delete_text :: "string \<Rightarrow> string \<Rightarrow> string" where
  "delete_text tbl cond = ''DELETE FROM '' @ tbl @ '' WHERE '' @ cond"

text \<open>\<open>"?"\<close>, \<open>fmt.Sprintf("$%d", i)\<close> and \<open>fmt.Sprintf(":%d", i)\<close>\<close>

definition question_mark :: "nat \<Rightarrow> string" where
  "question_mark i = ''?''"

definition dollar :: "nat \<Rightarrow> string" where
  "dollar i = ''$'' @ dec i"

definition colon :: "nat \<Rightarrow> string" where
  "colon i = '':'' @ dec i"

text \<open>The loop \<open>for i := 1; i < len(columns); i++\<close> of the conflict clause.\<close>

definition conflict_clauses :: "string list \<Rightarrow> string list \<Rightarrow> string list result" where
  "conflict_clauses columns placeholders =
     (if length placeholders < length columns then index_error
      else Ok (map2 (\<lambda>c p. c @ '' = '' @ p) (drop 1 columns) (drop 1 placeholders)))"

text \<open>\<open>for _, table := range schema.Tables\<close>, one statement per table.\<close>

definition create_each :: "(TableSchema \<Rightarrow> ('w, unit) go) \<Rightarrow> Schema option \<Rightarrow> ('w, unit) go" where
  "create_each f sch = (case sch of
      None \<Rightarrow> panic nil_deref
    | Some s \<Rightarrow> each (\<lambda>kt. f (snd kt)) (entries (sch_Tables s)))"

definition create_error :: "TableSchema \<Rightarrow> string" where
  "create_error table = ''failed to create table '' @ tab_TableName table @ '': ''"

definition alter_error :: "string \<Rightarrow> string" where
  "alter_error tableName = ''failed to alter table '' @ tableName @ '': ''"

definition null_clause :: "bool \<Rightarrow> string" where
  "null_clause nullable = (if nullable then '' NULL'' else '' NOT NULL'')"

text \<open>The column texts of CREATE TABLE: every column but \<open>id\<close>, in the order of the range.\<close>

definition column_texts :: "(ColumnData \<Rightarrow> string) \<Rightarrow> TableSchema \<Rightarrow> string" where
  "column_texts body table =
     concat (map (\<lambda>kf. if col_Name (snd kf) = ''id'' then [] else body (snd kf))
       (entries (tab_Fields table)))"

text \<open>The pointers for a list of columns; an unsupported type ends the loop with an error.\<close>

fun pointer_loop :: "(ColumnData \<Rightarrow> cell result) \<Rightarrow> ColumnData list \<Rightarrow> cell list result" where
  "pointer_loop ptr [] = Ok []"
| "pointer_loop ptr (f # fs) =
     rbind (ptr f) (\<lambda>c. rbind (pointer_loop ptr fs) (\<lambda>cs. Ok (c # cs)))"

definition unsupported_type :: "ColumnData \<Rightarrow> 'a result" where
  "unsupported_type f =
     Error (Err (''unsupported data type '' @ col_DataType f @ '' for field '' @ col_Name f))"

text \<open>A statement without a result that matters: \<open>_, err := db.ExecContext(...)\<close>.\<close>

definition exec_only :: "('w, goerr + int) go \<Rightarrow> ('w, unit) go" where
  "exec_only m = seq m (\<lambda>_. ret ())"

text \<open>
  \<open>if err := s.ValidateConnection(); err != nil { return errors.New("not connected") }\<close>: an adapter
  replaces the base adapter's error by one of its own; and the lookup that some adapters make on the
  schema pointer directly.
\<close>

definition require_connection :: "(('d, 'z) adst_scheme, unit) go" where
  "require_connection = catch Base_ValidateConnection (\<lambda>e. fail (Err ''not connected'')) ret"

definition require_schema :: "(('d, 'z) adst_scheme, unit) go" where
  "require_schema = catch Base_ValidateSchema (\<lambda>e. fail (Err ''schema not initialized'')) ret"

definition lookup_table :: "string \<Rightarrow> (('d, 'z) adst_scheme, TableSchema) go" where
  "lookup_table tblName =
     seq (gets GetSchema) (\<lambda>sch.
     seq (pure (GetTable sch tblName)) (\<lambda>(tbl, ok).
     if \<not> ok then pure (table_not_found tblName) else ret tbl))"

text \<open>\<open>if tx == nil { return errors.New("transaction is nil") }\<close>\<close>

definition require_tx :: "nat option \<Rightarrow> ('w, unit) go" where
  "require_tx tx = (if tx = None then fail (Err ''transaction is nil'') else ret ())"

definition require_find_params :: "string \<Rightarrow> string \<Rightarrow> string \<Rightarrow> ('w, unit) go" where
  "require_find_params tblName key val =
     (if tblName = [] \<or> key = [] \<or> val = []
      then fail (Err ''table name, key, and value must not be empty'') else ret ())"

text \<open>\<open>tx.Commit()\<close> and \<open>tx.Rollback()\<close> after a nil check, \<open>Close\<close> of a handle that may be nil.\<close>

definition commit_checked :: "('d, 'e) env_scheme \<Rightarrow> nat option \<Rightarrow> (('d, 'z) sqlst_scheme, unit) go" where
  "commit_checked E tx = seq (require_tx tx) (\<lambda>_.
     case tx of None \<Rightarrow> panic nil_deref | Some n \<Rightarrow> tx_Commit E n)"

definition rollback_checked :: "('d, 'e) env_scheme \<Rightarrow> nat option \<Rightarrow> (('d, 'z) sqlst_scheme, unit) go" where
  "rollback_checked E tx = seq (require_tx tx) (\<lambda>_.
     case tx of None \<Rightarrow> panic nil_deref | Some n \<Rightarrow> tx_Rollback E n)"

definition close_handle :: "('d, 'e) env_scheme \<Rightarrow> nat option \<Rightarrow> (('d, 'z) sqlst_scheme, unit) go" where
  "close_handle E db = (case db of Some n \<Rightarrow> db_Close E n | None \<Rightarrow> ret ())"

end
