(* ===== verification/Sqlite.thy ===== *)
theory Sqlite
  imports SqlText
begin

text \<open>
  The SQLite adapter (src/storage/sqlite/sqlite.go) over the base adapter of \<open>storage/common\<close>.
\<close>

definition sqlite_New :: "('d, 'z) adst_scheme \<Rightarrow> ('d, 'z) adst_scheme" where
  "sqlite_New w = NewBaseSQLStorage w"

definition sqlite_Connect :: "('d, 'e) env_scheme \<Rightarrow> string \<Rightarrow> (('d, 'z) adst_scheme, unit) go" where
  "sqlite_Connect E connStr =
     seq (sql_Open E ''sqlite3'' connStr) (\<lambda>db. SetDB (Some db))"

definition sqlite_create_query :: "'e golib_scheme \<Rightarrow> TableSchema \<Rightarrow> string" where
  "sqlite_create_query L table =
     ''CREATE TABLE IF NOT EXISTS '' @ tab_TableName table @ '' (id TEXT PRIMARY KEY'' @
     column_texts (\<lambda>field.
       '', '' @ col_Name field @ '' '' @ col_DataType field @
       null_clause (col_Nullable field) @
       (if col_Default field \<noteq> VNil then '' DEFAULT ''@ [CHR 0x27] @ Sprint_v L (col_Default field) @ [CHR 0x27] else []) @
       (if col_Unique field then '' UNIQUE'' else []) @
       (if col_AutoIncrement field then '' AUTOINCREMENT'' else []) @
       (if col_PrimaryKey field then '' PRIMARY KEY'' else [])) table @
     '')''"

definition sqlite_CreateTables :: "('d, 'e) env_scheme \<Rightarrow> Schema option \<Rightarrow> (('d, 'z) adst_scheme, unit) go" where
  "sqlite_CreateTables E sch =
     seq Base_ValidateConnection (\<lambda>_.
     seq (create_each (\<lambda>table. seq (gets GetDB) (\<lambda>db.
            wrapping (create_error table) (exec_only (db_Exec E db (sqlite_create_query E table) [])))) sch) (\<lambda>_.
     SetSchema sch))"

definition sqlite_Insert :: "('d, 'e) env_scheme \<Rightarrow> Object \<Rightarrow> (('d, 'z) adst_scheme, string \<times> bool) go" where
  "sqlite_Insert E obj =
     seq Base_ValidateConnection (\<lambda>_.
     seq (pure (lib_json_object E obj)) (\<lambda>data.
     seq (Base_GetTable (obj_TableName obj)) (\<lambda>tbl.
     seq (pure (PrepareInsertData E obj tbl question_mark)) (\<lambda>(columns, placeholders, vals).
     seq (gets GetDB) (\<lambda>db.
     seq (db_Exec E db (insert_text ''INSERT OR REPLACE INTO'' (tab_TableName tbl) columns placeholders) vals) (\<lambda>_.
     ret (data, True)))))))"

definition sqlite_Update :: "('d, 'e) env_scheme \<Rightarrow> Object \<Rightarrow> (('d, 'z) adst_scheme, bool) go" where
  "sqlite_Update E obj =
     seq Base_ValidateConnection (\<lambda>_.
     seq (Base_GetTable (obj_TableName obj)) (\<lambda>tbl.
     seq (pure (PrepareUpdateData obj question_mark)) (\<lambda>(setClauses, vals).
     seq (gets GetDB) (\<lambda>db.
     seq (db_Exec E db (update_text (tab_TableName tbl) setClauses ''id = ?'') vals) any_rows))))"

definition sqlite_Upsert :: "('d, 'e) env_scheme \<Rightarrow> Object \<Rightarrow> (('d, 'z) adst_scheme, string \<times> bool) go" where
  "sqlite_Upsert E obj = sqlite_Insert E obj"

definition sqlite_FindByKey :: "('d, 'e) env_scheme \<Rightarrow> string \<Rightarrow> string \<Rightarrow> string \<Rightarrow>
    (('d, 'z) adst_scheme, Object option) go" where
  "sqlite_FindByKey E tblName key val =
     seq (gets GetDB) (\<lambda>db. seq (gets GetSchema) (\<lambda>sch.
     CommonFindByKey E db sch tblName key val
       (\<lambda>columns tableName keyField. select_text columns tableName (keyField @ '' = ?''))))"

definition sqlite_FindByID :: "('d, 'e) env_scheme \<Rightarrow> string \<Rightarrow> string \<Rightarrow>
    (('d, 'z) adst_scheme, Object option) go" where
  "sqlite_FindByID E tblName id1 = Base_FindByID tblName id1 (sqlite_FindByKey E)"

definition sqlite_DeleteByID :: "('d, 'e) env_scheme \<Rightarrow> string \<Rightarrow> string \<Rightarrow> (('d, 'z) adst_scheme, bool) go" where
  "sqlite_DeleteByID E tblName id1 =
     seq (gets GetDB) (\<lambda>db.
     CommonDeleteByID E db tblName id1 (\<lambda>tableName. delete_text tableName ''id = ?'') [])"

definition sqlite_ResetConnection :: "('d, 'e) env_scheme \<Rightarrow> (('d, 'z) adst_scheme, unit) go" where
  "sqlite_ResetConnection E = Base_ResetConnection E"

definition sqlite_BeginTx :: "('d, 'e) env_scheme \<Rightarrow> (('d, 'z) adst_scheme, nat) go" where
  "sqlite_BeginTx E = seq (gets ad_TM_DB) (\<lambda>db. TM_BeginTx E db)"

definition sqlite_CommitTx :: "('d, 'e) env_scheme \<Rightarrow> nat option \<Rightarrow> (('d, 'z) adst_scheme, unit) go" where
  "sqlite_CommitTx E tx = TM_CommitTx E tx"

definition sqlite_RollbackTx :: "('d, 'e) env_scheme \<Rightarrow> nat option \<Rightarrow> (('d, 'z) adst_scheme, unit) go" where
  "sqlite_RollbackTx E tx = TM_RollbackTx E tx"

text \<open>
  The transaction's insert binds \<open>obj.Fields[schField.Name]\<close>, the value under the column's own
  name, where \<open>Insert\<close> binds the value the range yields.
\<close>

definition sqlite_tx_bind :: "'e golib_scheme \<Rightarrow> Object \<Rightarrow> string \<Rightarrow> ColumnData \<Rightarrow> goval \<Rightarrow> goval result" where
  "sqlite_tx_bind L obj name schField field =
     (if ToLower (col_DataType schField) = ''json''
      then bind_value L name schField field
      else Ok (case mget (obj_Fields obj) (col_Name schField) of None \<Rightarrow> VNil | Some v \<Rightarrow> v))"

definition sqlite_InsertTx :: "('d, 'e) env_scheme \<Rightarrow> nat option \<Rightarrow> Object \<Rightarrow>
    (('d, 'z) adst_scheme, string \<times> bool) go" where
  "sqlite_InsertTx E tx obj =
     seq (require_tx tx) (\<lambda>_.
     seq (pure (lib_json_object E obj)) (\<lambda>data.
     seq Base_ValidateSchema (\<lambda>_.
     seq (lookup_table (obj_TableName obj)) (\<lambda>tbl.
     seq (pure (insert_loop (sqlite_tx_bind E obj) (\<lambda>n. n) question_mark tbl 2 (entries (obj_Fields obj)))) (\<lambda>(cs, ps, vs).
     seq (tx_Exec E tx (''INSERT OR REPLACE INTO '' @ tab_TableName tbl @ '' ('' @
            (''id'' @ concat (map (\<lambda>c. '', '' @ c) cs)) @ '') VALUES ('' @
            (''?'' @ concat (map (\<lambda>p. '', ?'') ps)) @ '')'') (VStr (obj_ID obj) # vs)) (\<lambda>_.
     ret (data, True)))))))"

definition sqlite_UpdateTx :: "('d, 'e) env_scheme \<Rightarrow> nat option \<Rightarrow> Object \<Rightarrow> (('d, 'z) adst_scheme, bool) go" where
  "sqlite_UpdateTx E tx obj =
     seq (require_tx tx) (\<lambda>_.
     seq (lookup_table (obj_TableName obj)) (\<lambda>tbl.
     seq (pure (make_set_clauses (obj_Fields obj))) (\<lambda>_.
     case update_loop (\<lambda>n v. v) (\<lambda>n i. n @ '' = ?'') 1 (entries (obj_Fields obj)) of (setClauses, vals) \<Rightarrow>
     seq (tx_Exec E tx (update_text (tab_TableName tbl) setClauses ''id = ?'')
            (vals @ [VStr (obj_ID obj)])) any_rows)))"

definition sqlite_tx_pointer :: "ColumnData \<Rightarrow> cell result" where
  "sqlite_tx_pointer field = (case col_kind field of
      KText \<Rightarrow> Ok (nullable_cell (col_Nullable field) TStr)
    | KInt \<Rightarrow> Ok (nullable_cell (col_Nullable field) TInt64)
    | KReal \<Rightarrow> Ok (new_cell TFloat64)
    | KBlob \<Rightarrow> Ok (new_cell TBytes)
    | KBool \<Rightarrow> Ok (new_cell TBool)
    | KTime \<Rightarrow> Ok (nullable_cell (col_Nullable field) TStr)
    | KJson \<Rightarrow> Ok (nullable_cell (col_Nullable field) TStr)
    | KOther \<Rightarrow> unsupported_type field)"

definition sqlite_tx_value :: "ColumnData \<Rightarrow> string \<Rightarrow> cell \<Rightarrow> goval option result" where
  "sqlite_tx_value field fieldType c = (case kind_of (ToUpper fieldType) of
      KText \<Rightarrow> assigns (read_cell (col_Nullable field) TStr c)
    | KInt \<Rightarrow> assigns (read_cell (col_Nullable field) TInt64 c)
    | KReal \<Rightarrow> assigns (deref_as TFloat64 c)
    | KBlob \<Rightarrow> assigns (deref_as TBytes c)
    | KBool \<Rightarrow> assigns (deref_as TBool c)
    | KTime \<Rightarrow> assigns (read_cell (col_Nullable field) TStr c)
    | KJson \<Rightarrow> assigns (read_cell (col_Nullable field) TStr c)
    | KOther \<Rightarrow> no_case)"

definition sqlite_FindByKeyTx :: "('d, 'e) env_scheme \<Rightarrow> nat option \<Rightarrow> string \<Rightarrow> string \<Rightarrow> string \<Rightarrow>
    (('d, 'z) adst_scheme, Object option) go" where
  "sqlite_FindByKeyTx E tx tblName key val =
     seq (require_tx tx) (\<lambda>_.
     seq (require_find_params tblName key val) (\<lambda>_.
     seq (lookup_table tblName) (\<lambda>tbl.
     let fieldNames = tab_FieldOrder tbl;
         cols = map (field_of (tab_Fields tbl)) fieldNames;
         columns = map col_Name cols;
         fieldTypes = map col_DataType cols
     in
     seq (pure (pointer_loop sqlite_tx_pointer cols)) (\<lambda>columnPointers.
     finish_find
       (tx_QueryRow E tx (select_text columns (tab_TableName tbl)
          (col_Name (field_of (tab_Fields tbl) key) @ '' = ?'')) [VStr val] columnPointers)
       (\<lambda>cs. rbind (fill_fields sqlite_tx_value (tab_Fields tbl) fieldNames fieldTypes cs make_map)
          (\<lambda>m. assign_ID \<lparr>obj_TableName = tab_TableName tbl, obj_ID = [], obj_Fields = m\<rparr>))))))"

definition sqlite_FindByIDTx :: "('d, 'e) env_scheme \<Rightarrow> nat option \<Rightarrow> string \<Rightarrow> string \<Rightarrow>
    (('d, 'z) adst_scheme, Object option) go" where
  "sqlite_FindByIDTx E tx tblName id1 = sqlite_FindByKeyTx E tx tblName ''id'' id1"

definition sqlite_DeleteByIDTx :: "('d, 'e) env_scheme \<Rightarrow> nat option \<Rightarrow> string \<Rightarrow> string \<Rightarrow>
    (('d, 'z) adst_scheme, bool) go" where
  "sqlite_DeleteByIDTx E tx tblName id1 =
     seq (require_tx tx) (\<lambda>_.
     seq (tx_Exec E tx (delete_text tblName ''id = ?'') [VStr id1]) any_rows)"

definition sqlite_UpsertTx :: "('d, 'e) env_scheme \<Rightarrow> nat option \<Rightarrow> Object \<Rightarrow>
    (('d, 'z) adst_scheme, string \<times> bool) go" where
  "sqlite_UpsertTx E tx obj = sqlite_InsertTx E tx obj"

definition sqlite_AlterTable :: "('d, 'e) env_scheme \<Rightarrow> string \<Rightarrow> string \<Rightarrow> string \<Rightarrow> bool \<Rightarrow>
    (('d, 'z) adst_scheme, unit) go" where
  "sqlite_AlterTable E tableName columnName dataType nullable =
     seq Base_ValidateConnection (\<lambda>_.
     let nullableClause = (if nullable then ''NULL'' else ''NOT NULL'')
     in seq (gets GetDB) (\<lambda>db.
        wrapping (alter_error tableName)
          (exec_only (db_Exec E db (''ALTER TABLE '' @ tableName @ '' ADD COLUMN '' @ columnName @ '' '' @
             dataType @ '' '' @ nullableClause) []))))"

end
