(* ===== verification/Postgres.thy ===== *)
theory Postgres
  imports SqlText
begin

text \<open>The PostgreSQL adapter (src/storage/postgres/postgres.go) over the base adapter.\<close>

definition postgres_New :: "('d, 'z) adst_scheme \<Rightarrow> ('d, 'z) adst_scheme" where
  "postgres_New w = NewBaseSQLStorage w"

text \<open>\<open>pgx.ParseConfig\<close> and \<open>stdlib.OpenDB\<close> are the driver's; a handle that does not answer is dropped.\<close>

definition postgres_Connect :: "('d, 'e) env_scheme \<Rightarrow> string \<Rightarrow> (('d, 'z) adst_scheme, unit) go" where
  "postgres_Connect E connStr =
     seq (on_driver (drv_open E ''pgx'' connStr)) (\<lambda>db.
     seq (db_Ping E db) (\<lambda>_.
     SetDB (Some db)))"

definition postgres_mapDataType :: "string \<Rightarrow> string" where
  "postgres_mapDataType dataType =
     (let u = ToUpper dataType in
      if u \<in> set [''TEXT'', ''VARCHAR'', ''CHAR''] then ''TEXT''
      else if u \<in> set [''INTEGER'', ''INT''] then ''INTEGER''
      else if u \<in> set [''REAL'', ''FLOAT''] then ''REAL''
      else if u = ''BLOB'' then ''BYTEA''
      else if u = ''BOOLEAN'' then ''BOOLEAN''
      else if u = ''JSON'' then ''JSONB''
      else if u \<in> set [''DATETIME'', ''TIMESTAMP''] then ''TIMESTAMP''
      else if u = ''DATE'' then ''DATE''
      else if u = ''TIME'' then ''TIME''
      else if u = ''UUID'' then ''UUID''
      else ''TEXT'')"

definition postgres_create_query :: "'e golib_scheme \<Rightarrow> TableSchema \<Rightarrow> string" where
  "postgres_create_query L table =
     ''CREATE TABLE IF NOT EXISTS '' @ tab_TableName table @ '' (id TEXT PRIMARY KEY'' @
     column_texts (\<lambda>field.
       '', '' @ col_Name field @ '' '' @ postgres_mapDataType (col_DataType field) @
       null_clause (col_Nullable field) @
       (if col_Default field \<noteq> VNil then '' DEFAULT ''@ [CHR 0x27] @ Sprint_v L (col_Default field) @ [CHR 0x27] else []) @
       (if col_Unique field then '' UNIQUE'' else [])) table @
     '')''"

definition postgres_CreateTables :: "('d, 'e) env_scheme \<Rightarrow> Schema option \<Rightarrow> (('d, 'z) adst_scheme, unit) go" where
  "postgres_CreateTables E sch =
     seq Base_ValidateConnection (\<lambda>_.
     seq (create_each (\<lambda>table. seq (gets GetDB) (\<lambda>db.
            wrapping (create_error table) (exec_only (db_Exec E db (postgres_create_query E table) [])))) sch) (\<lambda>_.
     SetSchema sch))"

definition postgres_buildUpdateClause :: "string list \<Rightarrow> string list \<Rightarrow> string result" where
  "postgres_buildUpdateClause columns placeholders =
     rbind (conflict_clauses columns placeholders) (\<lambda>updateClauses. Ok (Join updateClauses '', ''))"

definition upsert_conflict_text :: "string \<Rightarrow> string list \<Rightarrow> string list \<Rightarrow> string \<Rightarrow> string" where
  "upsert_conflict_text tbl columns placeholders clause =
     insert_text ''INSERT INTO'' tbl columns placeholders @ '' ON CONFLICT (id) DO UPDATE SET '' @ clause"

definition postgres_Insert :: "('d, 'e) env_scheme \<Rightarrow> Object \<Rightarrow> (('d, 'z) adst_scheme, string \<times> bool) go" where
  "postgres_Insert E obj =
     seq Base_ValidateConnection (\<lambda>_.
     seq (pure (lib_json_object E obj)) (\<lambda>data.
     seq (Base_GetTable (obj_TableName obj)) (\<lambda>tbl.
     seq (pure (PrepareInsertData E obj tbl dollar)) (\<lambda>(columns, placeholders, vals).
     seq (pure (postgres_buildUpdateClause columns placeholders)) (\<lambda>clause.
     seq (gets GetDB) (\<lambda>db.
     seq (db_Exec E db (upsert_conflict_text (tab_TableName tbl) columns placeholders clause) vals) (\<lambda>_.
     ret (data, True))))))))"

definition postgres_Update :: "('d, 'e) env_scheme \<Rightarrow> Object \<Rightarrow> (('d, 'z) adst_scheme, bool) go" where
  "postgres_Update E obj =
     seq Base_ValidateConnection (\<lambda>_.
     seq (Base_GetTable (obj_TableName obj)) (\<lambda>tbl.
     seq (pure (PrepareUpdateData obj dollar)) (\<lambda>(setClauses, vals).
     seq (gets GetDB) (\<lambda>db.
     seq (db_Exec E db (update_text (tab_TableName tbl) setClauses
            (''id = '' @ dollar (length setClauses + 1))) vals) any_rows))))"

definition postgres_Upsert :: "('d, 'e) env_scheme \<Rightarrow> Object \<Rightarrow> (('d, 'z) adst_scheme, string \<times> bool) go" where
  "postgres_Upsert E obj = postgres_Insert E obj"

definition postgres_FindByKey :: "('d, 'e) env_scheme \<Rightarrow> string \<Rightarrow> string \<Rightarrow> string \<Rightarrow>
    (('d, 'z) adst_scheme, Object option) go" where
  "postgres_FindByKey E tblName key val =
     seq (gets GetDB) (\<lambda>db. seq (gets GetSchema) (\<lambda>sch.
     CommonFindByKey E db sch tblName key val
       (\<lambda>columns tableName keyField. select_text columns tableName (keyField @ '' = $1''))))"

definition postgres_FindByID :: "('d, 'e) env_scheme \<Rightarrow> string \<Rightarrow> string \<Rightarrow>
    (('d, 'z) adst_scheme, Object option) go" where
  "postgres_FindByID E tblName id1 = Base_FindByID tblName id1 (postgres_FindByKey E)"

definition postgres_DeleteByID :: "('d, 'e) env_scheme \<Rightarrow> string \<Rightarrow> string \<Rightarrow> (('d, 'z) adst_scheme, bool) go" where
  "postgres_DeleteByID E tblName id1 =
     seq (gets GetDB) (\<lambda>db.
     CommonDeleteByID E db tblName id1 (\<lambda>tableName. delete_text tableName ''id = $1'') [])"

definition postgres_ResetConnection :: "('d, 'e) env_scheme \<Rightarrow> (('d, 'z) adst_scheme, unit) go" where
  "postgres_ResetConnection E = Base_ResetConnection E"

definition postgres_BeginTx :: "('d, 'e) env_scheme \<Rightarrow> (('d, 'z) adst_scheme, nat) go" where
  "postgres_BeginTx E = seq (gets ad_TM_DB) (\<lambda>db. TM_BeginTx E db)"

definition postgres_CommitTx :: "('d, 'e) env_scheme \<Rightarrow> nat option \<Rightarrow> (('d, 'z) adst_scheme, unit) go" where
  "postgres_CommitTx E tx = TM_CommitTx E tx"

definition postgres_RollbackTx :: "('d, 'e) env_scheme \<Rightarrow> nat option \<Rightarrow> (('d, 'z) adst_scheme, unit) go" where
  "postgres_RollbackTx E tx = TM_RollbackTx E tx"

definition postgres_InsertTx :: "('d, 'e) env_scheme \<Rightarrow> nat option \<Rightarrow> Object \<Rightarrow>
    (('d, 'z) adst_scheme, string \<times> bool) go" where
  "postgres_InsertTx E tx obj =
     seq (require_tx tx) (\<lambda>_.
     seq (pure (lib_json_object E obj)) (\<lambda>data.
     seq Base_ValidateSchema (\<lambda>_.
     seq (lookup_table (obj_TableName obj)) (\<lambda>tbl.
     seq (pure (insert_loop (bind_value E) (\<lambda>n. n) dollar tbl 2 (entries (obj_Fields obj)))) (\<lambda>(cs, ps, vs).
     let columns = ''id'' # cs; placeholders = ''$1'' # ps; vals = VStr (obj_ID obj) # vs in
     seq (pure (postgres_buildUpdateClause columns placeholders)) (\<lambda>clause.
     seq (tx_Exec E tx (upsert_conflict_text (tab_TableName tbl) columns placeholders clause) vals) (\<lambda>_.
     ret (data, True))))))))"

definition postgres_UpdateTx :: "('d, 'e) env_scheme \<Rightarrow> nat option \<Rightarrow> Object \<Rightarrow> (('d, 'z) adst_scheme, bool) go" where
  "postgres_UpdateTx E tx obj =
     seq (require_tx tx) (\<lambda>_.
     seq (lookup_table (obj_TableName obj)) (\<lambda>tbl.
     seq (pure (make_set_clauses (obj_Fields obj))) (\<lambda>_.
     case update_loop (\<lambda>n v. v) (\<lambda>n i. n @ '' = '' @ dollar i) 1 (entries (obj_Fields obj)) of (setClauses, vals) \<Rightarrow>
     let paramIndex = 1 + length setClauses in
     seq (tx_Exec E tx (update_text (tab_TableName tbl) setClauses (''id = '' @ dollar paramIndex))
            (vals @ [VStr (obj_ID obj)])) any_rows)))"

definition postgres_tx_pointer :: "ColumnData \<Rightarrow> cell result" where
  "postgres_tx_pointer field = (case col_kind field of
      KText \<Rightarrow> Ok (nullable_cell (col_Nullable field) TStr)
    | KInt \<Rightarrow> Ok (nullable_cell (col_Nullable field) TInt64)
    | KReal \<Rightarrow> Ok (new_cell TFloat64)
    | KBlob \<Rightarrow> Ok (new_cell TBytes)
    | KBool \<Rightarrow> Ok (new_cell TBool)
    | KJson \<Rightarrow> Ok (new_cell TStr)
    | KTime \<Rightarrow> Ok (new_cell TStr)
    | KOther \<Rightarrow> unsupported_type field)"

text \<open>
  The JSON case looks for a \<open>**string\<close> when the column is nullable, although the pointer it
  allocated is a \<open>*string\<close>.
\<close>

definition postgres_tx_value :: "ColumnData \<Rightarrow> string \<Rightarrow> cell \<Rightarrow> goval option result" where
  "postgres_tx_value field fieldType c = (case kind_of (ToUpper fieldType) of
      KText \<Rightarrow> assigns (read_cell (col_Nullable field) TStr c)
    | KInt \<Rightarrow> assigns (read_cell (col_Nullable field) TInt64 c)
    | KReal \<Rightarrow> assigns (deref_as TFloat64 c)
    | KBlob \<Rightarrow> assigns (deref_as TBytes c)
    | KBool \<Rightarrow> assigns (deref_as TBool c)
    | KJson \<Rightarrow> assigns (read_cell (col_Nullable field) TStr c)
    | KTime \<Rightarrow> assigns (deref_as TStr c)
    | KOther \<Rightarrow> no_case)"

definition postgres_FindByKeyTx :: "('d, 'e) env_scheme \<Rightarrow> nat option \<Rightarrow> string \<Rightarrow> string \<Rightarrow> string \<Rightarrow>
    (('d, 'z) adst_scheme, Object option) go" where
  "postgres_FindByKeyTx E tx tblName key val =
     seq (require_tx tx) (\<lambda>_.
     seq (require_find_params tblName key val) (\<lambda>_.
     seq (lookup_table tblName) (\<lambda>tbl.
     let fieldNames = tab_FieldOrder tbl;
         cols = map (field_of (tab_Fields tbl)) fieldNames;
         columns = map col_Name cols;
         fieldTypes = map col_DataType cols
     in
     seq (pure (pointer_loop postgres_tx_pointer cols)) (\<lambda>columnPointers.
     finish_find
       (tx_QueryRow E tx (select_text columns (tab_TableName tbl)
          (col_Name (field_of (tab_Fields tbl) key) @ '' = $1'')) [VStr val] columnPointers)
       (\<lambda>cs. rbind (fill_fields postgres_tx_value (tab_Fields tbl) fieldNames fieldTypes cs make_map)
          (\<lambda>m. assign_ID \<lparr>obj_TableName = tab_TableName tbl, obj_ID = [], obj_Fields = m\<rparr>))))))"

definition postgres_FindByIDTx :: "('d, 'e) env_scheme \<Rightarrow> nat option \<Rightarrow> string \<Rightarrow> string \<Rightarrow>
    (('d, 'z) adst_scheme, Object option) go" where
  "postgres_FindByIDTx E tx tblName id1 = postgres_FindByKeyTx E tx tblName ''id'' id1"

definition postgres_DeleteByIDTx :: "('d, 'e) env_scheme \<Rightarrow> nat option \<Rightarrow> string \<Rightarrow> string \<Rightarrow>
    (('d, 'z) adst_scheme, bool) go" where
  "postgres_DeleteByIDTx E tx tblName id1 =
     seq (require_tx tx) (\<lambda>_.
     seq (tx_Exec E tx (delete_text tblName ''id = $1'') [VStr id1]) any_rows)"

definition postgres_UpsertTx :: "('d, 'e) env_scheme \<Rightarrow> nat option \<Rightarrow> Object \<Rightarrow>
    (('d, 'z) adst_scheme, string \<times> bool) go" where
  "postgres_UpsertTx E tx obj = postgres_InsertTx E tx obj"

definition postgres_AlterTable :: "('d, 'e) env_scheme \<Rightarrow> string \<Rightarrow> string \<Rightarrow> string \<Rightarrow> bool \<Rightarrow>
    (('d, 'z) adst_scheme, unit) go" where
  "postgres_AlterTable E tableName columnName dataType nullable =
     seq Base_ValidateConnection (\<lambda>_.
     let pgDataType = postgres_mapDataType dataType;
         nullableClause = (if nullable then ''NULL'' else ''NOT NULL'')
     in seq (gets GetDB) (\<lambda>db.
        wrapping (alter_error tableName)
          (exec_only (db_Exec E db (''ALTER TABLE '' @ tableName @ '' ADD COLUMN '' @ columnName @ '' '' @
             pgDataType @ '' '' @ nullableClause) []))))"

end
