(* ===== verification/Yugabyte.thy ===== *)
theory Yugabyte
  imports SqlText
begin

text \<open>The YugabyteDB adapter (src/storage/yugabyte/yugabyte.go) over the base adapter.\<close>

definition yugabyte_New :: "('d, 'z) adst_scheme \<Rightarrow> ('d, 'z) adst_scheme" where
  "yugabyte_New w = NewBaseSQLStorage w"

definition yugabyte_Connect :: "('d, 'e) env_scheme \<Rightarrow> string \<Rightarrow> (('d, 'z) adst_scheme, unit) go" where
  "yugabyte_Connect E connStr =
     seq (sql_Open E ''pgx'' connStr) (\<lambda>db. SetDB (Some db))"

definition yugabyte_mapDataType :: "string \<Rightarrow> string" where
  "yugabyte_mapDataType dataType =
     (let u = ToUpper dataType in
      if u \<in> set [''TEXT'', ''VARCHAR'', ''CHAR''] then ''TEXT''
      else if u \<in> set [''INTEGER'', ''INT''] then ''INTEGER''
      else if u \<in> set [''REAL'', ''FLOAT''] then ''REAL''
      else if u = ''BLOB'' then ''BYTEA''
      else if u = ''BOOLEAN'' then ''BOOLEAN''
      else if u = ''JSON'' then ''JSONB''
      else if u \<in> set [''DATETIME'', ''TIMESTAMP''] then ''TIMESTAMP''
      else if u = ''DATE'' then ''DATE''
      else if u = ''TIME'' then ''TIME''
      else if u = ''UUID'' then ''UUID''
      else ''TEXT'')"

definition yugabyte_create_query :: "'e golib_scheme \<Rightarrow> TableSchema \<Rightarrow> string" where
  "yugabyte_create_query L table =
     ''CREATE TABLE IF NOT EXISTS '' @ tab_TableName table @ '' (id TEXT PRIMARY KEY'' @
     column_texts (\<lambda>field.
       '', '' @ col_Name field @ '' '' @ yugabyte_mapDataType (col_DataType field) @
       null_clause (col_Nullable field) @
       (if col_Default field \<noteq> VNil then '' DEFAULT ''@ [CHR 0x27] @ Sprint_v L (col_Default field) @ [CHR 0x27] else []) @
       (if col_Unique field then '' UNIQUE'' else [])) table @
     '')''"

definition yugabyte_CreateTables :: "('d, 'e) env_scheme \<Rightarrow> Schema option \<Rightarrow> (('d, 'z) adst_scheme, unit) go" where
  "yugabyte_CreateTables E sch =
     seq require_connection (\<lambda>_.
     seq (create_each (\<lambda>table. seq (gets GetDB) (\<lambda>db.
            wrapping (create_error table) (exec_only (db_Exec E db (yugabyte_create_query E table) [])))) sch) (\<lambda>_.
     SetSchema sch))"

definition yugabyte_buildUpdateClause :: "string list \<Rightarrow> string list \<Rightarrow> string result" where
  "yugabyte_buildUpdateClause columns placeholders =
     rbind (conflict_clauses columns placeholders) (\<lambda>updateClauses. Ok (Join updateClauses '', ''))"

text \<open>The statement that \<open>Insert\<close> and \<open>InsertTx\<close> build: its text and its values.\<close>

definition yugabyte_insert_stmt :: "'e golib_scheme \<Rightarrow> Object \<Rightarrow> TableSchema \<Rightarrow> (string \<times> goval list) result" where
  "yugabyte_insert_stmt L obj tbl =
     rbind (insert_loop (bind_value L) (\<lambda>n. n) dollar tbl 2 (entries (obj_Fields obj))) (\<lambda>(cs, ps, vs).
     let columns = ''id'' # cs; placeholders = ''$1'' # ps; vals = VStr (obj_ID obj) # vs in
     rbind (yugabyte_buildUpdateClause columns placeholders) (\<lambda>clause.
     Ok (insert_text ''INSERT INTO'' (tab_TableName tbl) columns placeholders @
           '' ON CONFLICT (id) DO UPDATE SET '' @ clause, vals)))"

definition yugabyte_Insert :: "('d, 'e) env_scheme \<Rightarrow> Object \<Rightarrow> (('d, 'z) adst_scheme, string \<times> bool) go" where
  "yugabyte_Insert E obj =
     seq require_connection (\<lambda>_.
     seq (pure (lib_json_object E obj)) (\<lambda>data.
     seq require_schema (\<lambda>_.
     seq (lookup_table (obj_TableName obj)) (\<lambda>tbl.
     seq (pure (yugabyte_insert_stmt E obj tbl)) (\<lambda>(query, vals).
     seq (gets GetDB) (\<lambda>db.
     seq (db_Exec E db query vals) (\<lambda>_.
     ret (data, True))))))))"

text \<open>The statement that \<open>Update\<close> and \<open>UpdateTx\<close> build.\<close>

definition yugabyte_update_stmt :: "Object \<Rightarrow> TableSchema \<Rightarrow> (string \<times> goval list) result" where
  "yugabyte_update_stmt obj tbl =
     rbind (make_set_clauses (obj_Fields obj)) (\<lambda>_.
     case update_loop (\<lambda>n v. v) (\<lambda>n i. n @ '' = '' @ dollar i) 1 (entries (obj_Fields obj)) of (setClauses, vals) \<Rightarrow>
     let paramIndex = 1 + length setClauses in
     Ok (update_text (tab_TableName tbl) setClauses (''id = '' @ dollar paramIndex),
         vals @ [VStr (obj_ID obj)]))"

definition yugabyte_Update :: "('d, 'e) env_scheme \<Rightarrow> Object \<Rightarrow> (('d, 'z) adst_scheme, bool) go" where
  "yugabyte_Update E obj =
     seq require_connection (\<lambda>_.
     seq (lookup_table (obj_TableName obj)) (\<lambda>tbl.
     seq (pure (yugabyte_update_stmt obj tbl)) (\<lambda>(query, vals).
     seq (gets GetDB) (\<lambda>db.
     seq (db_Exec E db query vals) any_rows))))"

definition yugabyte_Upsert :: "('d, 'e) env_scheme \<Rightarrow> Object \<Rightarrow> (('d, 'z) adst_scheme, string \<times> bool) go" where
  "yugabyte_Upsert E obj = yugabyte_Insert E obj"

text \<open>
  The finder's switch stores a value or a pointer into the object's fields before the scan and hands
  the address of the local variable \<open>columnPointer\<close> to the scan. The scan then points that variable
  at a new value; what the fields hold is not touched. \<open>yugabyte_pointer\<close> gives the destination and
  what is stored (nothing in the date and time case).
\<close>

definition yugabyte_cell :: "gty \<Rightarrow> cell" where
  "yugabyte_cell t = Cell (TPtr t) (VPtr (zero_value t))"

definition yugabyte_pointer :: "ColumnData \<Rightarrow> (cell \<times> goval option) result" where
  "yugabyte_pointer field = (case col_kind field of
      KText \<Rightarrow> if col_Nullable field
        then Ok (yugabyte_cell (TPtr TStr), Some (VPtr (zero_value (TPtr TStr))))
        else Ok (yugabyte_cell TStr, Some (zero_value TStr))
    | KInt \<Rightarrow> if col_Nullable field
        then Ok (yugabyte_cell (TPtr TInt64), Some (VPtr (zero_value (TPtr TInt64))))
        else Ok (yugabyte_cell TInt64, Some (zero_value TInt64))
    | KReal \<Rightarrow> Ok (yugabyte_cell TFloat64, Some (VPtr (zero_value TFloat64)))
    | KBlob \<Rightarrow> Ok (yugabyte_cell TBytes, Some (VPtr (zero_value TBytes)))
    | KBool \<Rightarrow> Ok (yugabyte_cell TBool, Some (VPtr (zero_value TBool)))
    | KJson \<Rightarrow> Ok (yugabyte_cell TStr, Some (VPtr (zero_value TStr)))
    | KTime \<Rightarrow> Ok (yugabyte_cell TStr, None)
    | KOther \<Rightarrow> unsupported_type field)"

fun yugabyte_loop :: "ColumnData list \<Rightarrow> goval gomap \<Rightarrow> (cell list \<times> goval gomap) result" where
  "yugabyte_loop [] m = Ok ([], m)"
| "yugabyte_loop (f # fs) m =
     rbind (yugabyte_pointer f) (\<lambda>(c, vo).
     rbind (store_field m (col_Name f) vo) (\<lambda>m.
     rbind (yugabyte_loop fs m) (\<lambda>(cs, m). Ok (c # cs, m))))"

definition yugabyte_FindByKey :: "('d, 'e) env_scheme \<Rightarrow> string \<Rightarrow> string \<Rightarrow> string \<Rightarrow>
    (('d, 'z) adst_scheme, Object option) go" where
  "yugabyte_FindByKey E tblName key val =
     seq (require_find_params tblName key val) (\<lambda>_.
     seq (lookup_table tblName) (\<lambda>tbl.
     let cols = map snd (entries (tab_Fields tbl)) in
     seq (pure (yugabyte_loop cols make_map)) (\<lambda>(columnPointers, m).
     seq (gets GetDB) (\<lambda>db.
     finish_find
       (db_QueryRow E db (select_text (map col_Name cols) (tab_TableName tbl)
          (col_Name (field_of (tab_Fields tbl) key) @ '' = $1'')) [VStr val] columnPointers)
       (\<lambda>cs. Ok \<lparr>obj_TableName = tab_TableName tbl, obj_ID = [], obj_Fields = m\<rparr>)))))"

definition yugabyte_FindByID :: "('d, 'e) env_scheme \<Rightarrow> string \<Rightarrow> string \<Rightarrow>
    (('d, 'z) adst_scheme, Object option) go" where
  "yugabyte_FindByID E tblName id1 = yugabyte_FindByKey E tblName ''id'' id1"

definition yugabyte_DeleteByID :: "('d, 'e) env_scheme \<Rightarrow> string \<Rightarrow> string \<Rightarrow> (('d, 'z) adst_scheme, bool) go" where
  "yugabyte_DeleteByID E tblName id1 =
     seq require_connection (\<lambda>_.
     seq (gets GetDB) (\<lambda>db.
     seq (db_Exec E db (delete_text tblName ''id = $1'') [VStr id1]) any_rows))"

definition yugabyte_ResetConnection :: "('d, 'e) env_scheme \<Rightarrow> (('d, 'z) adst_scheme, unit) go" where
  "yugabyte_ResetConnection E = seq (gets GetDB) (close_handle E)"

definition yugabyte_BeginTx :: "('d, 'e) env_scheme \<Rightarrow> (('d, 'z) adst_scheme, nat) go" where
  "yugabyte_BeginTx E = seq require_connection (\<lambda>_. seq (gets GetDB) (db_BeginTx E))"

definition yugabyte_CommitTx :: "('d, 'e) env_scheme \<Rightarrow> nat option \<Rightarrow> (('d, 'z) adst_scheme, unit) go" where
  "yugabyte_CommitTx E tx = commit_checked E tx"

definition yugabyte_RollbackTx :: "('d, 'e) env_scheme \<Rightarrow> nat option \<Rightarrow> (('d, 'z) adst_scheme, unit) go" where
  "yugabyte_RollbackTx E tx = rollback_checked E tx"

definition yugabyte_InsertTx :: "('d, 'e) env_scheme \<Rightarrow> nat option \<Rightarrow> Object \<Rightarrow>
    (('d, 'z) adst_scheme, string \<times> bool) go" where
  "yugabyte_InsertTx E tx obj =
     seq (require_tx tx) (\<lambda>_.
     seq (pure (lib_json_object E obj)) (\<lambda>data.
     seq require_schema (\<lambda>_.
     seq (lookup_table (obj_TableName obj)) (\<lambda>tbl.
     seq (pure (yugabyte_insert_stmt E obj tbl)) (\<lambda>(query, vals).
     seq (tx_Exec E tx query vals) (\<lambda>_.
     ret (data, True)))))))"

definition yugabyte_UpdateTx :: "('d, 'e) env_scheme \<Rightarrow> nat option \<Rightarrow> Object \<Rightarrow> (('d, 'z) adst_scheme, bool) go" where
  "yugabyte_UpdateTx E tx obj =
     seq (require_tx tx) (\<lambda>_.
     seq (lookup_table (obj_TableName obj)) (\<lambda>tbl.
     seq (pure (yugabyte_update_stmt obj tbl)) (\<lambda>(query, vals).
     seq (tx_Exec E tx query vals) any_rows)))"

definition yugabyte_FindByKeyTx :: "('d, 'e) env_scheme \<Rightarrow> nat option \<Rightarrow> string \<Rightarrow> string \<Rightarrow> string \<Rightarrow>
    (('d, 'z) adst_scheme, Object option) go" where
  "yugabyte_FindByKeyTx E tx tblName key val =
     seq (require_tx tx) (\<lambda>_.
     seq (require_find_params tblName key val) (\<lambda>_.
     seq (lookup_table tblName) (\<lambda>tbl.
     let cols = map snd (entries (tab_Fields tbl)) in
     seq (pure (yugabyte_loop cols make_map)) (\<lambda>(columnPointers, m).
     finish_find
       (tx_QueryRow E tx (select_text (map col_Name cols) (tab_TableName tbl)
          (col_Name (field_of (tab_Fields tbl) key) @ '' = $1'')) [VStr val] columnPointers)
       (\<lambda>cs. Ok \<lparr>obj_TableName = tab_TableName tbl, obj_ID = [], obj_Fields = m\<rparr>)))))"

definition yugabyte_FindByIDTx :: "('d, 'e) env_scheme \<Rightarrow> nat option \<Rightarrow> string \<Rightarrow> string \<Rightarrow>
    (('d, 'z) adst_scheme, Object option) go" where
  "yugabyte_FindByIDTx E tx tblName id1 = yugabyte_FindByKeyTx E tx tblName ''id'' id1"

definition yugabyte_DeleteByIDTx :: "('d, 'e) env_scheme \<Rightarrow> nat option \<Rightarrow> string \<Rightarrow> string \<Rightarrow>
    (('d, 'z) adst_scheme, bool) go" where
  "yugabyte_DeleteByIDTx E tx tblName id1 =
     seq (require_tx tx) (\<lambda>_.
     seq (tx_Exec E tx (delete_text tblName ''id = $1'') [VStr id1]) any_rows)"

definition yugabyte_UpsertTx :: "('d, 'e) env_scheme \<Rightarrow> nat option \<Rightarrow> Object \<Rightarrow>
    (('d, 'z) adst_scheme, string \<times> bool) go" where
  "yugabyte_UpsertTx E tx obj = yugabyte_InsertTx E tx obj"

definition yugabyte_AlterTable :: "('d, 'e) env_scheme \<Rightarrow> string \<Rightarrow> string \<Rightarrow> string \<Rightarrow> bool \<Rightarrow>
    (('d, 'z) adst_scheme, unit) go" where
  "yugabyte_AlterTable E tableName columnName dataType nullable =
     seq Base_ValidateConnection (\<lambda>_.
     let ybDataType = yugabyte_mapDataType dataType;
         nullableClause = (if nullable then ''NULL'' else ''NOT NULL'')
     in seq (gets GetDB) (\<lambda>db.
        wrapping (alter_error tableName)
          (exec_only (db_Exec E db (''ALTER TABLE '' @ tableName @ '' ADD COLUMN '' @ columnName @ '' '' @
             ybDataType @ '' '' @ nullableClause) []))))"

end
