(* ===== verification/Cockroach.thy ===== *)
theory Cockroach
  imports SqlText
begin

text \<open>
  The CockroachDB adapter (src/storage/cockroach/cockroach.go). It keeps a \<open>pgxpool.Pool\<close> beside the
  \<open>DB\<close> handle of the base adapter and runs its statements outside transactions on the pool. The pool
  is a parameter; a query on it yields the values stored through the given pointers, whose types the
  language fixes.
\<close>

record 'd crenv = "'d env" +
  pool_new :: "string \<Rightarrow> 'd \<Rightarrow> nat result \<times> 'd"
  pool_db :: "nat \<Rightarrow> 'd \<Rightarrow> nat result \<times> 'd"
  pool_exec :: "nat \<Rightarrow> string \<Rightarrow> goval list \<Rightarrow> 'd \<Rightarrow> int result \<times> 'd"
  pool_query :: "nat \<Rightarrow> string \<Rightarrow> goval list \<Rightarrow> gty list \<Rightarrow> 'd \<Rightarrow> goval list result \<times> 'd"
  pool_close :: "nat \<Rightarrow> 'd \<Rightarrow> unit result \<times> 'd"

record 'd crst = "'d adst" +
  cr_pool :: "nat option"

definition cockroach_New :: "('d, 'z) crst_scheme \<Rightarrow> ('d, 'z) crst_scheme" where
  "cockroach_New w = (NewBaseSQLStorage w)\<lparr>cr_pool := None\<rparr>"

definition cockroach_Connect :: "('d, 'e) crenv_scheme \<Rightarrow> string \<Rightarrow> (('d, 'z) crst_scheme, unit) go" where
  "cockroach_Connect E connStr =
     seq (on_driver (pool_new E connStr)) (\<lambda>pool.
     seq (modify (\<lambda>w. w\<lparr>cr_pool := Some pool\<rparr>)) (\<lambda>_.
     seq (on_driver (pool_db E pool)) (\<lambda>db. SetDB (Some db))))"

definition require_pool :: "(('d, 'z) crst_scheme, nat) go" where
  "require_pool = seq (gets cr_pool) (\<lambda>pool.
     case pool of None \<Rightarrow> fail (Err ''not connected'') | Some p \<Rightarrow> ret p)"

definition cockroach_mapDataType :: "string \<Rightarrow> string" where
  "cockroach_mapDataType dataType =
     (let u = ToUpper dataType in
      if u \<in> set [''TEXT'', ''VARCHAR'', ''CHAR''] then ''STRING''
      else if u \<in> set [''INTEGER'', ''INT''] then ''INT8''
      else if u \<in> set [''REAL'', ''FLOAT''] then ''FLOAT8''
      else if u = ''BLOB'' then ''BYTES''
      else if u = ''BOOLEAN'' then ''BOOL''
      else if u = ''JSON'' then ''JSONB''
      else if u \<in> set [''DATETIME'', ''TIMESTAMP''] then ''TIMESTAMPTZ''
      else if u = ''DATE'' then ''DATE''
      else if u = ''TIME'' then ''TIME''
      else if u = ''UUID'' then ''UUID''
      else ''STRING'')"

definition cockroach_create_query :: "'e golib_scheme \<Rightarrow> TableSchema \<Rightarrow> string" where
  "cockroach_create_query L table =
     ''CREATE TABLE IF NOT EXISTS '' @ tab_TableName table @ '' (id STRING PRIMARY KEY'' @
     column_texts (\<lambda>field.
       '', '' @ col_Name field @ '' '' @ cockroach_mapDataType (col_DataType field) @
       null_clause (col_Nullable field) @
       (if col_Default field \<noteq> VNil then '' DEFAULT ''@ [CHR 0x27] @ Sprint_v L (col_Default field) @ [CHR 0x27] else []) @
       (if col_Unique field then '' UNIQUE'' else [])) table @
     '')''"

definition cockroach_CreateTables :: "('d, 'e) crenv_scheme \<Rightarrow> Schema option \<Rightarrow> (('d, 'z) crst_scheme, unit) go" where
  "cockroach_CreateTables E sch =
     seq require_pool (\<lambda>pool.
     seq (create_each (\<lambda>table.
            wrapping (create_error table)
              (seq (on_driver (pool_exec E pool (cockroach_create_query E table) [])) (\<lambda>_. ret ()))) sch) (\<lambda>_.
     SetSchema sch))"

text \<open>The statements that the plain operations and the transactional ones build in the same way.\<close>

definition cockroach_insert_stmt :: "'e golib_scheme \<Rightarrow> Object \<Rightarrow> TableSchema \<Rightarrow> (string \<times> goval list) result" where
  "cockroach_insert_stmt L obj tbl =
     rbind (insert_loop (bind_value L) (\<lambda>n. n) dollar tbl 2 (entries (obj_Fields obj))) (\<lambda>(cs, ps, vs).
     let columns = ''id'' # cs; placeholders = ''$1'' # ps; vals = VStr (obj_ID obj) # vs in
     Ok (insert_text ''UPSERT INTO'' (tab_TableName tbl) columns placeholders, vals))"

definition cockroach_update_stmt :: "Object \<Rightarrow> TableSchema \<Rightarrow> (string \<times> goval list) result" where
  "cockroach_update_stmt obj tbl =
     rbind (make_set_clauses (obj_Fields obj)) (\<lambda>_.
     case update_loop (\<lambda>n v. v) (\<lambda>n i. n @ '' = '' @ dollar i) 1 (entries (obj_Fields obj)) of (setClauses, vals) \<Rightarrow>
     let paramIndex = 1 + length setClauses in
     Ok (update_text (tab_TableName tbl) setClauses (''id = '' @ dollar paramIndex),
         vals @ [VStr (obj_ID obj)]))"

definition cockroach_Insert :: "('d, 'e) crenv_scheme \<Rightarrow> Object \<Rightarrow> (('d, 'z) crst_scheme, string \<times> bool) go" where
  "cockroach_Insert E obj =
     seq require_pool (\<lambda>pool.
     seq (pure (lib_json_object E obj)) (\<lambda>data.
     seq require_schema (\<lambda>_.
     seq (lookup_table (obj_TableName obj)) (\<lambda>tbl.
     seq (pure (cockroach_insert_stmt E obj tbl)) (\<lambda>(query, vals).
     seq (on_driver (pool_exec E pool query vals)) (\<lambda>_.
     ret (data, True)))))))"

definition cockroach_Update :: "('d, 'e) crenv_scheme \<Rightarrow> Object \<Rightarrow> (('d, 'z) crst_scheme, bool) go" where
  "cockroach_Update E obj =
     seq require_pool (\<lambda>pool.
     seq (lookup_table (obj_TableName obj)) (\<lambda>tbl.
     seq (pure (cockroach_update_stmt obj tbl)) (\<lambda>(query, vals).
     seq (on_driver (pool_exec E pool query vals)) (\<lambda>n. ret (0 < n)))))"

definition cockroach_Upsert :: "('d, 'e) crenv_scheme \<Rightarrow> Object \<Rightarrow> (('d, 'z) crst_scheme, string \<times> bool) go" where
  "cockroach_Upsert E obj = cockroach_Insert E obj"

text \<open>
  The finder stores each pointer in the object's fields before the scan and replaces it by the
  value it points to afterwards. \<open>crdb_pointer\<close> is the type of the pointer's target.
\<close>

definition crdb_pointer :: "ColumnData \<Rightarrow> gty result" where
  "crdb_pointer field = (case col_kind field of
      KText \<Rightarrow> Ok (if col_Nullable field then TPtr TStr else TStr)
    | KInt \<Rightarrow> Ok (if col_Nullable field then TPtr TInt64 else TInt64)
    | KReal \<Rightarrow> Ok TFloat64
    | KBlob \<Rightarrow> Ok TBytes
    | KBool \<Rightarrow> Ok TBool
    | KJson \<Rightarrow> Ok TStr
    | KTime \<Rightarrow> Ok TStr
    | KOther \<Rightarrow> unsupported_type field)"

fun crdb_loop :: "ColumnData list \<Rightarrow> goval gomap \<Rightarrow> (cell list \<times> goval gomap) result" where
  "crdb_loop [] m = Ok ([], m)"
| "crdb_loop (f # fs) m =
     rbind (crdb_pointer f) (\<lambda>t.
     rbind (mset_entry m (col_Name f) (VPtr (zero_value t))) (\<lambda>m.
     rbind (crdb_loop fs m) (\<lambda>(cs, m). Ok (new_cell t # cs, m))))"

text \<open>\<open>ptr := p.(**T); if *ptr != nil { **ptr } else { nil }\<close>\<close>

definition deref_ptr :: "gty \<Rightarrow> cell \<Rightarrow> goval result" where
  "deref_ptr t c = rbind (deref_as (TPtr t) c) (\<lambda>v. Ok (case v of VPtr u \<Rightarrow> u | _ \<Rightarrow> VNil))"

text \<open>
  The second switch gives the value and whether its case sets the identifier when the column is
  \<open>id\<close>. In \<open>FindByKeyTx\<close> JSON columns share the case of the dates, so \<open>json_id\<close> is true there.
\<close>

definition crdb_value :: "bool \<Rightarrow> ColumnData \<Rightarrow> cell \<Rightarrow> (goval option \<times> bool) result" where
  "crdb_value json_id field c = (case col_kind field of
      KText \<Rightarrow> if col_Nullable field
        then rbind (deref_ptr TStr c) (\<lambda>v. Ok (Some v, False))
        else rbind (deref_as TStr c) (\<lambda>v. Ok (Some v, True))
    | KInt \<Rightarrow> if col_Nullable field
        then rbind (deref_ptr TInt64 c) (\<lambda>v. Ok (Some v, False))
        else rbind (deref_as TInt64 c) (\<lambda>v. Ok (Some v, False))
    | KReal \<Rightarrow> rbind (deref_as TFloat64 c) (\<lambda>v. Ok (Some v, False))
    | KBlob \<Rightarrow> rbind (deref_as TBytes c) (\<lambda>v. Ok (Some v, False))
    | KBool \<Rightarrow> rbind (deref_as TBool c) (\<lambda>v. Ok (Some v, False))
    | KJson \<Rightarrow> rbind (deref_as TStr c) (\<lambda>v. Ok (Some v, json_id))
    | KTime \<Rightarrow> rbind (deref_as TStr c) (\<lambda>v. Ok (Some v, True))
    | KOther \<Rightarrow> Ok (None, False))"

definition crdb_set_id :: "ColumnData \<Rightarrow> goval option \<Rightarrow> bool \<Rightarrow> Object \<Rightarrow> Object" where
  "crdb_set_id field vo sets o1 =
     (if sets \<and> col_Name field = ''id''
      then (case vo of Some (VStr s) \<Rightarrow> o1\<lparr>obj_ID := s\<rparr> | _ \<Rightarrow> o1) else o1)"

fun crdb_fill :: "bool \<Rightarrow> ColumnData list \<Rightarrow> cell list \<Rightarrow> Object \<Rightarrow> Object result" where
  "crdb_fill json_id [] cs o1 = Ok o1"
| "crdb_fill json_id (f # fs) [] o1 = index_error"
| "crdb_fill json_id (f # fs) (c # cs) o1 =
     rbind (crdb_value json_id f c) (\<lambda>(vo, sets).
     rbind (store_field (obj_Fields o1) (col_Name f) vo) (\<lambda>m.
     crdb_fill json_id fs cs (crdb_set_id f vo sets (o1\<lparr>obj_Fields := m\<rparr>))))"

text \<open>\<open>s.pool.QueryRow(...).Scan(...)\<close>; a nil pool panics.\<close>

definition pool_QueryRow :: "('d, 'e) crenv_scheme \<Rightarrow> nat option \<Rightarrow> string \<Rightarrow> goval list \<Rightarrow> cell list \<Rightarrow>
    (('d, 'z) crst_scheme, cell list) go" where
  "pool_QueryRow E pool q args cs = (case pool of
      None \<Rightarrow> panic nil_deref
    | Some p \<Rightarrow> seq (on_driver (pool_query E p q args (map cell_type cs))) (\<lambda>vs.
        ret (map2 Cell (map cell_type cs) vs)))"

definition cockroach_FindByKey :: "('d, 'e) crenv_scheme \<Rightarrow> string \<Rightarrow> string \<Rightarrow> string \<Rightarrow>
    (('d, 'z) crst_scheme, Object option) go" where
  "cockroach_FindByKey E tblName key val =
     seq (require_find_params tblName key val) (\<lambda>_.
     seq (lookup_table tblName) (\<lambda>tbl.
     let cols = map (field_of (tab_Fields tbl)) (tab_FieldOrder tbl) in
     seq (pure (crdb_loop cols make_map)) (\<lambda>(columnPointers, m).
     seq (gets cr_pool) (\<lambda>pool.
     finish_find
       (pool_QueryRow E pool (select_text (map col_Name cols) (tab_TableName tbl)
          (col_Name (field_of (tab_Fields tbl) key) @ '' = $1'')) [VStr val] columnPointers)
       (\<lambda>cs. crdb_fill False cols cs \<lparr>obj_TableName = tab_TableName tbl, obj_ID = [], obj_Fields = m\<rparr>)))))"

definition cockroach_FindByID :: "('d, 'e) crenv_scheme \<Rightarrow> string \<Rightarrow> string \<Rightarrow>
    (('d, 'z) crst_scheme, Object option) go" where
  "cockroach_FindByID E tblName id1 = cockroach_FindByKey E tblName ''id'' id1"

definition cockroach_DeleteByID :: "('d, 'e) crenv_scheme \<Rightarrow> string \<Rightarrow> string \<Rightarrow> (('d, 'z) crst_scheme, bool) go" where
  "cockroach_DeleteByID E tblName id1 =
     seq require_pool (\<lambda>pool.
     seq (on_driver (pool_exec E pool (delete_text tblName ''id = $1'') [VStr id1])) (\<lambda>n. ret (0 < n)))"

definition cockroach_ResetConnection :: "('d, 'e) crenv_scheme \<Rightarrow> (('d, 'z) crst_scheme, unit) go" where
  "cockroach_ResetConnection E =
     seq (gets cr_pool) (\<lambda>pool.
     seq (case pool of None \<Rightarrow> ret () | Some p \<Rightarrow> on_driver (pool_close E p)) (\<lambda>_.
     Base_ResetConnection E))"

definition cockroach_BeginTx :: "('d, 'e) crenv_scheme \<Rightarrow> (('d, 'z) crst_scheme, nat) go" where
  "cockroach_BeginTx E = seq require_connection (\<lambda>_. seq (gets GetDB) (db_BeginTx E))"

definition cockroach_CommitTx :: "('d, 'e) crenv_scheme \<Rightarrow> nat option \<Rightarrow> (('d, 'z) crst_scheme, unit) go" where
  "cockroach_CommitTx E tx = commit_checked E tx"

definition cockroach_RollbackTx :: "('d, 'e) crenv_scheme \<Rightarrow> nat option \<Rightarrow> (('d, 'z) crst_scheme, unit) go" where
  "cockroach_RollbackTx E tx = rollback_checked E tx"

definition cockroach_InsertTx :: "('d, 'e) crenv_scheme \<Rightarrow> nat option \<Rightarrow> Object \<Rightarrow>
    (('d, 'z) crst_scheme, string \<times> bool) go" where
  "cockroach_InsertTx E tx obj =
     seq (require_tx tx) (\<lambda>_.
     seq (pure (lib_json_object E obj)) (\<lambda>data.
     seq require_schema (\<lambda>_.
     seq (lookup_table (obj_TableName obj)) (\<lambda>tbl.
     seq (pure (cockroach_insert_stmt E obj tbl)) (\<lambda>(query, vals).
     seq (tx_Exec E tx query vals) (\<lambda>_.
     ret (data, True)))))))"

definition cockroach_UpdateTx :: "('d, 'e) crenv_scheme \<Rightarrow> nat option \<Rightarrow> Object \<Rightarrow> (('d, 'z) crst_scheme, bool) go" where
  "cockroach_UpdateTx E tx obj =
     seq (require_tx tx) (\<lambda>_.
     seq (lookup_table (obj_TableName obj)) (\<lambda>tbl.
     seq (pure (cockroach_update_stmt obj tbl)) (\<lambda>(query, vals).
     seq (tx_Exec E tx query vals) any_rows)))"

definition cockroach_FindByKeyTx :: "('d, 'e) crenv_scheme \<Rightarrow> nat option \<Rightarrow> string \<Rightarrow> string \<Rightarrow> string \<Rightarrow>
    (('d, 'z) crst_scheme, Object option) go" where
  "cockroach_FindByKeyTx E tx tblName key val =
     seq (require_tx tx) (\<lambda>_.
     seq (require_find_params tblName key val) (\<lambda>_.
     seq (lookup_table tblName) (\<lambda>tbl.
     let cols = map (field_of (tab_Fields tbl)) (tab_FieldOrder tbl) in
     seq (pure (crdb_loop cols make_map)) (\<lambda>(columnPointers, m).
     finish_find
       (tx_QueryRow E tx (select_text (map col_Name cols) (tab_TableName tbl)
          (col_Name (field_of (tab_Fields tbl) key) @ '' = $1'')) [VStr val] columnPointers)
       (\<lambda>cs. crdb_fill True cols cs \<lparr>obj_TableName = tab_TableName tbl, obj_ID = [], obj_Fields = m\<rparr>)))))"

definition cockroach_FindByIDTx :: "('d, 'e) crenv_scheme \<Rightarrow> nat option \<Rightarrow> string \<Rightarrow> string \<Rightarrow>
    (('d, 'z) crst_scheme, Object option) go" where
  "cockroach_FindByIDTx E tx tblName id1 = cockroach_FindByKeyTx E tx tblName ''id'' id1"

definition cockroach_DeleteByIDTx :: "('d, 'e) crenv_scheme \<Rightarrow> nat option \<Rightarrow> string \<Rightarrow> string \<Rightarrow>
    (('d, 'z) crst_scheme, bool) go" where
  "cockroach_DeleteByIDTx E tx tblName id1 =
     seq (require_tx tx) (\<lambda>_.
     seq (tx_Exec E tx (delete_text tblName ''id = $1'') [VStr id1]) any_rows)"

definition cockroach_UpsertTx :: "('d, 'e) crenv_scheme \<Rightarrow> nat option \<Rightarrow> Object \<Rightarrow>
    (('d, 'z) crst_scheme, string \<times> bool) go" where
  "cockroach_UpsertTx E tx obj = cockroach_InsertTx E tx obj"

definition cockroach_AlterTable :: "('d, 'e) crenv_scheme \<Rightarrow> string \<Rightarrow> string \<Rightarrow> string \<Rightarrow> bool \<Rightarrow>
    (('d, 'z) crst_scheme, unit) go" where
  "cockroach_AlterTable E tableName columnName dataType nullable =
     seq Base_ValidateConnection (\<lambda>_.
     let crdbDataType = cockroach_mapDataType dataType;
         nullableClause = (if nullable then ''NULL'' else ''NOT NULL'')
     in seq (gets GetDB) (\<lambda>db.
        wrapping (alter_error tableName)
          (exec_only (db_Exec E db (''ALTER TABLE '' @ tableName @ '' ADD COLUMN '' @ columnName @ '' '' @
             crdbDataType @ '' '' @ nullableClause) []))))"

end
