(* ===== verification/Tidb.thy ===== *)
theory Tidb
  imports SqlText
begin

text \<open>The TiDB adapter (src/storage/tidb/tidb.go) over the base adapter.\<close>

definition tidb_New :: "('d, 'z) adst_scheme \<Rightarrow> ('d, 'z) adst_scheme" where
  "tidb_New w = NewBaseSQLStorage w"

definition tidb_Connect :: "('d, 'e) env_scheme \<Rightarrow> string \<Rightarrow> (('d, 'z) adst_scheme, unit) go" where
  "tidb_Connect E connStr =
     seq (sql_Open E ''mysql'' connStr) (\<lambda>db. SetDB (Some db))"

definition tidb_mapDataType :: "string \<Rightarrow> string" where
  "tidb_mapDataType dataType =
     (let u = ToUpper dataType in
      if u = ''TEXT'' then ''TEXT''
      else if u \<in> set [''VARCHAR'', ''CHAR''] then ''VARCHAR(255)''
      else if u \<in> set [''INTEGER'', ''INT''] then ''BIGINT''
      else if u \<in> set [''REAL'', ''FLOAT''] then ''DOUBLE''
      else if u = ''BLOB'' then ''BLOB''
      else if u = ''BOOLEAN'' then ''BOOLEAN''
      else if u = ''JSON'' then ''JSON''
      else if u \<in> set [''DATETIME'', ''TIMESTAMP''] then ''TIMESTAMP''
      else if u = ''DATE'' then ''DATE''
      else if u = ''TIME'' then ''TIME''
      else if u = ''UUID'' then ''VARCHAR(36)''
      else ''VARCHAR(255)'')"

definition tidb_create_query :: "'e golib_scheme \<Rightarrow> TableSchema \<Rightarrow> string" where
  "tidb_create_query L table =
     ''CREATE TABLE IF NOT EXISTS '' @ tab_TableName table @ '' (id VARCHAR(255) PRIMARY KEY'' @
     column_texts (\<lambda>field.
       '', '' @ col_Name field @ '' '' @ tidb_mapDataType (col_DataType field) @
       null_clause (col_Nullable field) @
       (if col_Default field \<noteq> VNil then '' DEFAULT ''@ [CHR 0x27] @ Sprint_v L (col_Default field) @ [CHR 0x27] else []) @
       (if col_Unique field then '' UNIQUE'' else [])) table @
     '')''"

definition tidb_CreateTables :: "('d, 'e) env_scheme \<Rightarrow> Schema option \<Rightarrow> (('d, 'z) adst_scheme, unit) go" where
  "tidb_CreateTables E sch =
     seq require_connection (\<lambda>_.
     seq (create_each (\<lambda>table. seq (gets GetDB) (\<lambda>db.
            wrapping (create_error table) (exec_only (db_Exec E db (tidb_create_query E table) [])))) sch) (\<lambda>_.
     SetSchema sch))"

definition tidb_insert_stmt :: "'e golib_scheme \<Rightarrow> Object \<Rightarrow> TableSchema \<Rightarrow> (string \<times> goval list) result" where
  "tidb_insert_stmt L obj tbl =
     rbind (insert_loop (bind_value L) (\<lambda>n. n) question_mark tbl 2 (entries (obj_Fields obj))) (\<lambda>(cs, ps, vs).
     Ok (insert_text ''REPLACE INTO'' (tab_TableName tbl) (''id'' # cs) (''?'' # ps), VStr (obj_ID obj) # vs))"

definition tidb_update_stmt :: "Object \<Rightarrow> TableSchema \<Rightarrow> (string \<times> goval list) result" where
  "tidb_update_stmt obj tbl =
     rbind (make_set_clauses (obj_Fields obj)) (\<lambda>_.
     case update_loop (\<lambda>n v. v) (\<lambda>n i. n @ '' = ?'') 1 (entries (obj_Fields obj)) of (setClauses, vals) \<Rightarrow>
     Ok (update_text (tab_TableName tbl) setClauses ''id = ?'', vals @ [VStr (obj_ID obj)]))"

definition tidb_Insert :: "('d, 'e) env_scheme \<Rightarrow> Object \<Rightarrow> (('d, 'z) adst_scheme, string \<times> bool) go" where
  "tidb_Insert E obj =
     seq require_connection (\<lambda>_.
     seq (pure (lib_json_object E obj)) (\<lambda>data.
     seq require_schema (\<lambda>_.
     seq (lookup_table (obj_TableName obj)) (\<lambda>tbl.
     seq (pure (tidb_insert_stmt E obj tbl)) (\<lambda>(query, vals).
     seq (gets GetDB) (\<lambda>db.
     seq (db_Exec E db query vals) (\<lambda>_.
     ret (data, True))))))))"

definition tidb_Update :: "('d, 'e) env_scheme \<Rightarrow> Object \<Rightarrow> (('d, 'z) adst_scheme, bool) go" where
  "tidb_Update E obj =
     seq require_connection (\<lambda>_.
     seq (lookup_table (obj_TableName obj)) (\<lambda>tbl.
     seq (pure (tidb_update_stmt obj tbl)) (\<lambda>(query, vals).
     seq (gets GetDB) (\<lambda>db.
     seq (db_Exec E db query vals) any_rows))))"

definition tidb_Upsert :: "('d, 'e) env_scheme \<Rightarrow> Object \<Rightarrow> (('d, 'z) adst_scheme, string \<times> bool) go" where
  "tidb_Upsert E obj = tidb_Insert E obj"

definition tidb_pointer :: "ColumnData \<Rightarrow> cell result" where
  "tidb_pointer field = (case col_kind field of
      KText \<Rightarrow> Ok (nullable_cell (col_Nullable field) TStr)
    | KInt \<Rightarrow> Ok (nullable_cell (col_Nullable field) TInt64)
    | KReal \<Rightarrow> Ok (new_cell TFloat64)
    | KBlob \<Rightarrow> Ok (new_cell TBytes)
    | KBool \<Rightarrow> Ok (new_cell TBool)
    | KJson \<Rightarrow> Ok (new_cell TStr)
    | KTime \<Rightarrow> Ok (new_cell TStr)
    | KOther \<Rightarrow> unsupported_type field)"

text \<open>\<open>if val := pointer.(**T); *val != nil { **val } else { nil }\<close>\<close>

definition tidb_deref :: "gty \<Rightarrow> cell \<Rightarrow> goval option result" where
  "tidb_deref t c = rbind (deref_as (TPtr t) c) (\<lambda>v. Ok (Some (case v of VPtr u \<Rightarrow> u | _ \<Rightarrow> VNil)))"

definition tidb_value :: "ColumnData \<Rightarrow> cell \<Rightarrow> goval option result" where
  "tidb_value field c = (case col_kind field of
      KText \<Rightarrow> if col_Nullable field then tidb_deref TStr c else assigns (deref_as TStr c)
    | KInt \<Rightarrow> if col_Nullable field then tidb_deref TInt64 c else assigns (deref_as TInt64 c)
    | KReal \<Rightarrow> assigns (deref_as TFloat64 c)
    | KBlob \<Rightarrow> assigns (deref_as TBytes c)
    | KBool \<Rightarrow> assigns (deref_as TBool c)
    | KJson \<Rightarrow> assigns (deref_as TStr c)
    | KTime \<Rightarrow> assigns (deref_as TStr c)
    | KOther \<Rightarrow> no_case)"

text \<open>\<open>if columnName == "id" { obj.ID = obj.Fields[columnName].(string) }\<close>\<close>

definition tidb_set_id :: "string \<Rightarrow> Object \<Rightarrow> Object result" where
  "tidb_set_id columnName o1 =
     (if columnName = ''id''
      then (case mget (obj_Fields o1) columnName of
              Some (VStr s) \<Rightarrow> Ok (o1\<lparr>obj_ID := s\<rparr>) | _ \<Rightarrow> bad_assertion)
      else Ok o1)"

fun tidb_fill :: "ColumnData list \<Rightarrow> cell list \<Rightarrow> Object \<Rightarrow> Object result" where
  "tidb_fill [] cs o1 = Ok o1"
| "tidb_fill (f # fs) [] o1 = index_error"
| "tidb_fill (f # fs) (c # cs) o1 =
     rbind (tidb_value f c) (\<lambda>vo.
     rbind (store_field (obj_Fields o1) (col_Name f) vo) (\<lambda>m.
     rbind (tidb_set_id (col_Name f) (o1\<lparr>obj_Fields := m\<rparr>)) (\<lambda>o2.
     tidb_fill fs cs o2)))"

definition tidb_FindByKey :: "('d, 'e) env_scheme \<Rightarrow> string \<Rightarrow> string \<Rightarrow> string \<Rightarrow>
    (('d, 'z) adst_scheme, Object option) go" where
  "tidb_FindByKey E tblName key val =
     seq (require_find_params tblName key val) (\<lambda>_.
     seq (lookup_table tblName) (\<lambda>tbl.
     let fieldDefs = map snd (entries (tab_Fields tbl)) in
     seq (pure (pointer_loop tidb_pointer fieldDefs)) (\<lambda>columnPointers.
     seq (gets GetDB) (\<lambda>db.
     finish_find
       (db_QueryRow E db (select_text (map col_Name fieldDefs) (tab_TableName tbl)
          (col_Name (field_of (tab_Fields tbl) key) @ '' = ?'')) [VStr val] columnPointers)
       (\<lambda>cs. tidb_fill fieldDefs cs
          \<lparr>obj_TableName = tab_TableName tbl, obj_ID = [], obj_Fields = make_map\<rparr>)))))"

definition tidb_FindByID :: "('d, 'e) env_scheme \<Rightarrow> string \<Rightarrow> string \<Rightarrow>
    (('d, 'z) adst_scheme, Object option) go" where
  "tidb_FindByID E tblName id1 = tidb_FindByKey E tblName ''id'' id1"

definition tidb_DeleteByID :: "('d, 'e) env_scheme \<Rightarrow> string \<Rightarrow> string \<Rightarrow> (('d, 'z) adst_scheme, bool) go" where
  "tidb_DeleteByID E tblName id1 =
     seq require_connection (\<lambda>_.
     seq (gets GetDB) (\<lambda>db.
     seq (db_Exec E db (delete_text tblName ''id = ?'') [VStr id1]) any_rows))"

definition tidb_ResetConnection :: "('d, 'e) env_scheme \<Rightarrow> (('d, 'z) adst_scheme, unit) go" where
  "tidb_ResetConnection E = seq (gets GetDB) (close_handle E)"

definition tidb_BeginTx :: "('d, 'e) env_scheme \<Rightarrow> (('d, 'z) adst_scheme, nat) go" where
  "tidb_BeginTx E = seq require_connection (\<lambda>_. seq (gets GetDB) (db_BeginTx E))"

definition tidb_CommitTx :: "('d, 'e) env_scheme \<Rightarrow> nat option \<Rightarrow> (('d, 'z) adst_scheme, unit) go" where
  "tidb_CommitTx E tx = commit_checked E tx"

definition tidb_RollbackTx :: "('d, 'e) env_scheme \<Rightarrow> nat option \<Rightarrow> (('d, 'z) adst_scheme, unit) go" where
  "tidb_RollbackTx E tx = rollback_checked E tx"

definition tidb_InsertTx :: "('d, 'e) env_scheme \<Rightarrow> nat option \<Rightarrow> Object \<Rightarrow>
    (('d, 'z) adst_scheme, string \<times> bool) go" where
  "tidb_InsertTx E tx obj =
     seq (require_tx tx) (\<lambda>_.
     seq (pure (lib_json_object E obj)) (\<lambda>data.
     seq require_schema (\<lambda>_.
     seq (lookup_table (obj_TableName obj)) (\<lambda>tbl.
     seq (pure (tidb_insert_stmt E obj tbl)) (\<lambda>(query, vals).
     seq (tx_Exec E tx query vals) (\<lambda>_.
     ret (data, True)))))))"

definition tidb_UpdateTx :: "('d, 'e) env_scheme \<Rightarrow> nat option \<Rightarrow> Object \<Rightarrow> (('d, 'z) adst_scheme, bool) go" where
  "tidb_UpdateTx E tx obj =
     seq (require_tx tx) (\<lambda>_.
     seq (lookup_table (obj_TableName obj)) (\<lambda>tbl.
     seq (pure (tidb_update_stmt obj tbl)) (\<lambda>(query, vals).
     seq (tx_Exec E tx query vals) any_rows)))"

definition tidb_FindByKeyTx :: "('d, 'e) env_scheme \<Rightarrow> nat option \<Rightarrow> string \<Rightarrow> string \<Rightarrow> string \<Rightarrow>
    (('d, 'z) adst_scheme, Object option) go" where
  "tidb_FindByKeyTx E tx tblName key val =
     seq (require_tx tx) (\<lambda>_.
     seq (require_find_params tblName key val) (\<lambda>_.
     seq (lookup_table tblName) (\<lambda>tbl.
     let fieldDefs = map snd (entries (tab_Fields tbl)) in
     seq (pure (pointer_loop tidb_pointer fieldDefs)) (\<lambda>columnPointers.
     finish_find
       (tx_QueryRow E tx (select_text (map col_Name fieldDefs) (tab_TableName tbl)
          (col_Name (field_of (tab_Fields tbl) key) @ '' = ?'')) [VStr val] columnPointers)
       (\<lambda>cs. tidb_fill fieldDefs cs
          \<lparr>obj_TableName = tab_TableName tbl, obj_ID = [], obj_Fields = make_map\<rparr>)))))"

definition tidb_FindByIDTx :: "('d, 'e) env_scheme \<Rightarrow> nat option \<Rightarrow> string \<Rightarrow> string \<Rightarrow>
    (('d, 'z) adst_scheme, Object option) go" where
  "tidb_FindByIDTx E tx tblName id1 = tidb_FindByKeyTx E tx tblName ''id'' id1"

definition tidb_DeleteByIDTx :: "('d, 'e) env_scheme \<Rightarrow> nat option \<Rightarrow> string \<Rightarrow> string \<Rightarrow>
    (('d, 'z) adst_scheme, bool) go" where
  "tidb_DeleteByIDTx E tx tblName id1 =
     seq (require_tx tx) (\<lambda>_.
     seq (tx_Exec E tx (delete_text tblName ''id = ?'') [VStr id1]) any_rows)"

definition tidb_UpsertTx :: "('d, 'e) env_scheme \<Rightarrow> nat option \<Rightarrow> Object \<Rightarrow>
    (('d, 'z) adst_scheme, string \<times> bool) go" where
  "tidb_UpsertTx E tx obj = tidb_InsertTx E tx obj"

definition tidb_AlterTable :: "('d, 'e) env_scheme \<Rightarrow> string \<Rightarrow> string \<Rightarrow> string \<Rightarrow> bool \<Rightarrow>
    (('d, 'z) adst_scheme, unit) go" where
  "tidb_AlterTable E tableName columnName dataType nullable =
     seq Base_ValidateConnection (\<lambda>_.
     let tidbDataType = tidb_mapDataType dataType;
         nullableClause = (if nullable then ''NULL'' else ''NOT NULL'')
     in seq (gets GetDB) (\<lambda>db.
        wrapping (alter_error tableName)
          (exec_only (db_Exec E db (''ALTER TABLE '' @ tableName @ '' ADD COLUMN '' @ columnName @ '' '' @
             tidbDataType @ '' '' @ nullableClause) []))))"

end
