(* ===== verification/Oracle.thy ===== *)
theory Oracle
  imports SqlText
begin

text \<open>
  The Oracle adapter (src/storage/oracle/oracle.go). Names are written in upper case, booleans are
  stored as the numbers 0 and 1, and an insert that fails on a unique constraint is repeated as an
  update. Where the code ranges over the same map a second time, the order of the second range is
  given by a function of the environment (\<open>range_again\<close>, \<open>range_columns_again\<close>): any reordering.
\<close>

record 'd orenv = "'d env" +
  range_again :: "(string \<times> goval) list \<Rightarrow> (string \<times> goval) list"
  range_columns_again :: "(string \<times> ColumnData) list \<Rightarrow> (string \<times> ColumnData) list"

definition oracle_New :: "('d, 'z) adst_scheme \<Rightarrow> ('d, 'z) adst_scheme" where
  "oracle_New w = NewBaseSQLStorage w"

definition oracle_Connect :: "('d, 'e) orenv_scheme \<Rightarrow> string \<Rightarrow> (('d, 'z) adst_scheme, unit) go" where
  "oracle_Connect E connStr =
     seq (sql_Open E ''godror'' connStr) (\<lambda>db.
     seq (db_Ping E db) (\<lambda>_.
     SetDB (Some db)))"

definition oracle_mapDataType :: "string \<Rightarrow> string" where
  "oracle_mapDataType dataType =
     (let u = ToUpper dataType in
      if u \<in> set [''TEXT'', ''VARCHAR'', ''CHAR''] then ''CLOB''
      else if u \<in> set [''INTEGER'', ''INT''] then ''NUMBER(19)''
      else if u \<in> set [''REAL'', ''FLOAT''] then ''BINARY_DOUBLE''
      else if u = ''BLOB'' then ''BLOB''
      else if u = ''BOOLEAN'' then ''NUMBER(1)''
      else if u = ''JSON'' then ''CLOB''
      else if u \<in> set [''DATETIME'', ''TIMESTAMP''] then ''TIMESTAMP''
      else if u = ''DATE'' then ''DATE''
      else if u = ''TIME'' then ''TIMESTAMP''
      else if u = ''UUID'' then ''VARCHAR2(36)''
      else ''CLOB'')"

definition oracle_create_query :: "'e golib_scheme \<Rightarrow> TableSchema \<Rightarrow> string" where
  "oracle_create_query L table =
     ''CREATE TABLE '' @ ToUpper (tab_TableName table) @ '' (id VARCHAR2(255) PRIMARY KEY'' @
     column_texts (\<lambda>field.
       '', '' @ ToUpper (col_Name field) @ '' '' @ oracle_mapDataType (col_DataType field) @
       (if \<not> col_Nullable field then '' NOT NULL'' else []) @
       (if col_Default field \<noteq> VNil
        then '' DEFAULT '' @
          (if ToUpper (col_DataType field) = ''TEXT'' \<or> ToUpper (col_DataType field) = ''VARCHAR''
           then [CHR 0x27] @ Sprint_v L (col_Default field) @ [CHR 0x27]
           else Sprint_v L (col_Default field))
        else [])) table @
     '')''"

definition oracle_check_query :: string where
  "oracle_check_query = ''SELECT COUNT(*) FROM user_tables WHERE table_name = UPPER(:1)''"

definition oracle_unique_query :: "TableSchema \<Rightarrow> ColumnData \<Rightarrow> string" where
  "oracle_unique_query table field =
     (let t = ToUpper (tab_TableName table); f = ToUpper (col_Name field);
          constraintName = ''UK_'' @ t @ ''_'' @ f
      in ''ALTER TABLE '' @ t @ '' ADD CONSTRAINT '' @ constraintName @ '' UNIQUE ('' @ f @ '')'')"

text \<open>
  One table: counted first and skipped when it exists; then created; then the unique constraints,
  whose failures are only logged.
\<close>

definition oracle_create_table :: "('d, 'e) orenv_scheme \<Rightarrow> TableSchema \<Rightarrow> (('d, 'z) adst_scheme, unit) go" where
  "oracle_create_table E table =
     seq (gets GetDB) (\<lambda>db.
     seq (wrapping ''failed to check if table exists: ''
            (db_QueryRow E db oracle_check_query [VStr (tab_TableName table)] [new_cell TInt])) (\<lambda>cs.
     let exists = (case cs of [Cell t (VInt n)] \<Rightarrow> 0 < sint n | _ \<Rightarrow> False) in
     if exists then ret () else
     seq (wrapping (create_error table) (exec_only (db_Exec E db (oracle_create_query E table) []))) (\<lambda>_.
     each (\<lambda>kf. if col_Unique (snd kf) \<and> col_Name (snd kf) \<noteq> ''id''
                 then catch (db_Exec E db (oracle_unique_query table (snd kf)) [])
                        (\<lambda>e. ret ()) (\<lambda>_. ret ())
                 else ret ())
       (range_columns_again E (entries (tab_Fields table))))))"

definition oracle_CreateTables :: "('d, 'e) orenv_scheme \<Rightarrow> Schema option \<Rightarrow> (('d, 'z) adst_scheme, unit) go" where
  "oracle_CreateTables E sch =
     seq require_connection (\<lambda>_.
     seq (create_each (oracle_create_table E) sch) (\<lambda>_.
     SetSchema sch))"

text \<open>The number stored for a boolean; a value of another type is passed on as it is.\<close>

definition bool_number :: "goval \<Rightarrow> goval" where
  "bool_number v = (case v of VBool b \<Rightarrow> VInt (if b then 1 else 0) | _ \<Rightarrow> v)"

definition oracle_bind :: "'e golib_scheme \<Rightarrow> string \<Rightarrow> ColumnData \<Rightarrow> goval \<Rightarrow> goval result" where
  "oracle_bind L name schField field =
     (if ToLower (col_DataType schField) = ''json'' then bind_value L name schField field
      else if ToLower (col_DataType schField) = ''boolean'' then Ok (bool_number field)
      else Ok field)"

definition oracle_insert_stmt :: "'e golib_scheme \<Rightarrow> Object \<Rightarrow> TableSchema \<Rightarrow> (string \<times> goval list) result" where
  "oracle_insert_stmt L obj tbl =
     rbind (insert_loop (oracle_bind L) ToUpper colon tbl 2 (entries (obj_Fields obj))) (\<lambda>(cs, ps, vs).
     Ok (insert_text ''INSERT INTO'' (ToUpper (tab_TableName tbl)) (''ID'' # cs) ('':1'' # ps),
         VStr (obj_ID obj) # vs))"

text \<open>\<open>fs\<close> lists the object's fields in the order of the second range.\<close>

definition oracle_fallback_stmt :: "'e golib_scheme \<Rightarrow> (string \<times> goval) list \<Rightarrow> Object \<Rightarrow> TableSchema \<Rightarrow>
    (string \<times> goval list) result" where
  "oracle_fallback_stmt L fs obj tbl =
     rbind (insert_loop (oracle_bind L) ToUpper colon tbl 1 fs) (\<lambda>(cs, ps, vs).
     let updateColumns = map2 (\<lambda>c p. c @ '' = '' @ p) cs ps;
         updateParamIndex = 1 + length cs
     in Ok (update_text (ToUpper (tab_TableName tbl)) updateColumns (''ID = '' @ colon updateParamIndex),
            vs @ [VStr (obj_ID obj)]))"

definition unique_violation :: "goerr \<Rightarrow> bool" where
  "unique_violation e \<longleftrightarrow>
     Contains (ToLower (error_text e)) ''unique'' \<or> Contains (ToLower (error_text e)) ''ora-00001''"

text \<open>Insert, and update instead when a unique constraint is in the way; \<open>run\<close> executes on the handle.\<close>

definition oracle_insert_or_update :: "(string \<Rightarrow> goval list \<Rightarrow> ('w, goerr + int) go) \<Rightarrow>
    'e golib_scheme \<Rightarrow> (string \<times> goval) list \<Rightarrow> Object \<Rightarrow> TableSchema \<Rightarrow> ('w, unit) go" where
  "oracle_insert_or_update run L fs obj tbl =
     seq (pure (oracle_insert_stmt L obj tbl)) (\<lambda>(insertQuery, vals).
     catch (run insertQuery vals)
       (\<lambda>e. if unique_violation e
             then seq (pure (oracle_fallback_stmt L fs obj tbl)) (\<lambda>(updateQuery, updateValues).
                  exec_only (run updateQuery updateValues))
             else fail e)
       (\<lambda>_. ret ()))"

definition oracle_Insert :: "('d, 'e) orenv_scheme \<Rightarrow> Object \<Rightarrow> (('d, 'z) adst_scheme, string \<times> bool) go" where
  "oracle_Insert E obj =
     seq require_connection (\<lambda>_.
     seq (pure (lib_json_object E obj)) (\<lambda>data.
     seq require_schema (\<lambda>_.
     seq (lookup_table (obj_TableName obj)) (\<lambda>tbl.
     seq (gets GetDB) (\<lambda>db.
     seq (oracle_insert_or_update (db_Exec E db) E (range_again E (entries (obj_Fields obj))) obj tbl) (\<lambda>_.
     ret (data, True)))))))"

text \<open>An update converts booleans but does not encode JSON.\<close>

definition oracle_update_value :: "TableSchema \<Rightarrow> string \<Rightarrow> goval \<Rightarrow> goval" where
  "oracle_update_value tbl name v = (case mget (tab_Fields tbl) name of
      None \<Rightarrow> v
    | Some schField \<Rightarrow> if ToLower (col_DataType schField) = ''boolean'' then bool_number v else v)"

definition oracle_update_stmt :: "Object \<Rightarrow> TableSchema \<Rightarrow> (string \<times> goval list) result" where
  "oracle_update_stmt obj tbl =
     rbind (make_set_clauses (obj_Fields obj)) (\<lambda>_.
     case update_loop (oracle_update_value tbl) (\<lambda>n i. ToUpper n @ '' = '' @ colon i) 1
            (entries (obj_Fields obj)) of (setClauses, vals) \<Rightarrow>
     let paramIndex = 1 + length setClauses in
     Ok (update_text (ToUpper (tab_TableName tbl)) setClauses (''ID = '' @ colon paramIndex),
         vals @ [VStr (obj_ID obj)]))"

definition oracle_Update :: "('d, 'e) orenv_scheme \<Rightarrow> Object \<Rightarrow> (('d, 'z) adst_scheme, bool) go" where
  "oracle_Update E obj =
     seq require_connection (\<lambda>_.
     seq (lookup_table (obj_TableName obj)) (\<lambda>tbl.
     seq (pure (oracle_update_stmt obj tbl)) (\<lambda>(query, vals).
     seq (gets GetDB) (\<lambda>db.
     seq (db_Exec E db query vals) any_rows))))"

definition oracle_Upsert :: "('d, 'e) orenv_scheme \<Rightarrow> Object \<Rightarrow> (('d, 'z) adst_scheme, string \<times> bool) go" where
  "oracle_Upsert E obj = oracle_Insert E obj"

definition oracle_pointer :: "ColumnData \<Rightarrow> cell result" where
  "oracle_pointer field = (case col_kind field of
      KText \<Rightarrow> Ok (nullable_cell (col_Nullable field) TStr)
    | KInt \<Rightarrow> Ok (nullable_cell (col_Nullable field) TInt64)
    | KReal \<Rightarrow> Ok (new_cell TFloat64)
    | KBlob \<Rightarrow> Ok (new_cell TBytes)
    | KBool \<Rightarrow> Ok (new_cell TInt64)
    | KJson \<Rightarrow> Ok (new_cell TStr)
    | KTime \<Rightarrow> Ok (new_cell TStr)
    | KOther \<Rightarrow> unsupported_type field)"

text \<open>The number read back as a boolean: \<open>numVal != 0\<close>.\<close>

definition number_bool :: "cell \<Rightarrow> goval result" where
  "number_bool c = rbind (deref_as TInt64 c) (\<lambda>v.
     case v of VInt64 n \<Rightarrow> Ok (VBool (n \<noteq> 0)) | _ \<Rightarrow> bad_assertion)"

definition oracle_value :: "ColumnData \<Rightarrow> string \<Rightarrow> cell \<Rightarrow> goval option result" where
  "oracle_value field fieldType c = (case kind_of (ToUpper fieldType) of
      KText \<Rightarrow> assigns (read_cell (col_Nullable field) TStr c)
    | KInt \<Rightarrow> assigns (read_cell (col_Nullable field) TInt64 c)
    | KReal \<Rightarrow> assigns (deref_as TFloat64 c)
    | KBlob \<Rightarrow> assigns (deref_as TBytes c)
    | KBool \<Rightarrow> assigns (number_bool c)
    | KJson \<Rightarrow> assigns (read_cell (col_Nullable field) TStr c)
    | KTime \<Rightarrow> assigns (deref_as TStr c)
    | KOther \<Rightarrow> no_case)"

text \<open>Large text columns are compared with \<open>DBMS_LOB.COMPARE\<close>, every other column with \<open>=\<close>.\<close>

definition oracle_where :: "TableSchema \<Rightarrow> string \<Rightarrow> string" where
  "oracle_where tbl key = (case mget (tab_Fields tbl) key of
      Some keyField \<Rightarrow>
        if ToUpper (col_DataType keyField) \<in> set [''TEXT'', ''VARCHAR'', ''CHAR'']
        then ''DBMS_LOB.COMPARE('' @ ToUpper key @ '', :1) = 0''
        else ToUpper key @ '' = :1''
    | None \<Rightarrow> ToUpper key @ '' = :1'')"

definition oracle_FindByKey :: "('d, 'e) orenv_scheme \<Rightarrow> string \<Rightarrow> string \<Rightarrow> string \<Rightarrow>
    (('d, 'z) adst_scheme, Object option) go" where
  "oracle_FindByKey E tblName key val =
     seq (require_find_params tblName key val) (\<lambda>_.
     seq (lookup_table tblName) (\<lambda>tbl.
     let fieldNames = map (\<lambda>kf. col_Name (snd kf)) (entries (tab_Fields tbl));
         cols = map (field_of (tab_Fields tbl)) fieldNames;
         columns = map (\<lambda>f. ToUpper (col_Name f)) cols;
         fieldTypes = map col_DataType cols
     in
     seq (pure (pointer_loop oracle_pointer cols)) (\<lambda>columnPointers.
     seq (gets GetDB) (\<lambda>db.
     finish_find
       (db_QueryRow E db (select_text columns (ToUpper (tab_TableName tbl)) (oracle_where tbl key))
          [VStr val] columnPointers)
       (\<lambda>cs. rbind (fill_fields oracle_value (tab_Fields tbl) fieldNames fieldTypes cs make_map)
          (\<lambda>m. assign_ID \<lparr>obj_TableName = tab_TableName tbl, obj_ID = [], obj_Fields = m\<rparr>))))))"

definition oracle_FindByID :: "('d, 'e) orenv_scheme \<Rightarrow> string \<Rightarrow> string \<Rightarrow>
    (('d, 'z) adst_scheme, Object option) go" where
  "oracle_FindByID E tblName id1 = oracle_FindByKey E tblName ''id'' id1"

definition oracle_DeleteByID :: "('d, 'e) orenv_scheme \<Rightarrow> string \<Rightarrow> string \<Rightarrow> (('d, 'z) adst_scheme, bool) go" where
  "oracle_DeleteByID E tblName id1 =
     seq require_connection (\<lambda>_.
     seq (gets GetDB) (\<lambda>db.
     seq (db_Exec E db (delete_text (ToUpper tblName) ''ID = :1'') [VStr id1]) any_rows))"

definition oracle_ResetConnection :: "('d, 'e) orenv_scheme \<Rightarrow> (('d, 'z) adst_scheme, unit) go" where
  "oracle_ResetConnection E = seq (gets GetDB) (close_handle E)"

definition oracle_BeginTx :: "('d, 'e) orenv_scheme \<Rightarrow> (('d, 'z) adst_scheme, nat) go" where
  "oracle_BeginTx E = seq require_connection (\<lambda>_. seq (gets GetDB) (db_BeginTx E))"

definition oracle_CommitTx :: "('d, 'e) orenv_scheme \<Rightarrow> nat option \<Rightarrow> (('d, 'z) adst_scheme, unit) go" where
  "oracle_CommitTx E tx = commit_checked E tx"

definition oracle_RollbackTx :: "('d, 'e) orenv_scheme \<Rightarrow> nat option \<Rightarrow> (('d, 'z) adst_scheme, unit) go" where
  "oracle_RollbackTx E tx = rollback_checked E tx"

definition oracle_InsertTx :: "('d, 'e) orenv_scheme \<Rightarrow> nat option \<Rightarrow> Object \<Rightarrow>
    (('d, 'z) adst_scheme, string \<times> bool) go" where
  "oracle_InsertTx E tx obj =
     seq (require_tx tx) (\<lambda>_.
     seq (pure (lib_json_object E obj)) (\<lambda>data.
     seq require_schema (\<lambda>_.
     seq (lookup_table (obj_TableName obj)) (\<lambda>tbl.
     seq (oracle_insert_or_update (tx_Exec E tx) E (range_again E (entries (obj_Fields obj))) obj tbl) (\<lambda>_.
     ret (data, True))))))"

definition oracle_UpdateTx :: "('d, 'e) orenv_scheme \<Rightarrow> nat option \<Rightarrow> Object \<Rightarrow> (('d, 'z) adst_scheme, bool) go" where
  "oracle_UpdateTx E tx obj =
     seq (require_tx tx) (\<lambda>_.
     seq (lookup_table (obj_TableName obj)) (\<lambda>tbl.
     seq (pure (oracle_update_stmt obj tbl)) (\<lambda>(query, vals).
     seq (tx_Exec E tx query vals) any_rows)))"

definition oracle_FindByKeyTx :: "('d, 'e) orenv_scheme \<Rightarrow> nat option \<Rightarrow> string \<Rightarrow> string \<Rightarrow> string \<Rightarrow>
    (('d, 'z) adst_scheme, Object option) go" where
  "oracle_FindByKeyTx E tx tblName key val =
     seq (require_tx tx) (\<lambda>_.
     seq (require_find_params tblName key val) (\<lambda>_.
     seq (lookup_table tblName) (\<lambda>tbl.
     let fieldNames = map (\<lambda>kf. col_Name (snd kf)) (entries (tab_Fields tbl));
         cols = map (field_of (tab_Fields tbl)) fieldNames;
         columns = map (\<lambda>f. ToUpper (col_Name f)) cols;
         fieldTypes = map col_DataType cols
     in
     seq (pure (pointer_loop oracle_pointer cols)) (\<lambda>columnPointers.
     finish_find
       (tx_QueryRow E tx (select_text columns (ToUpper (tab_TableName tbl)) (oracle_where tbl key))
          [VStr val] columnPointers)
       (\<lambda>cs. rbind (fill_fields oracle_value (tab_Fields tbl) fieldNames fieldTypes cs make_map)
          (\<lambda>m. assign_ID \<lparr>obj_TableName = tab_TableName tbl, obj_ID = [], obj_Fields = m\<rparr>))))))"

definition oracle_FindByIDTx :: "('d, 'e) orenv_scheme \<Rightarrow> nat option \<Rightarrow> string \<Rightarrow> string \<Rightarrow>
    (('d, 'z) adst_scheme, Object option) go" where
  "oracle_FindByIDTx E tx tblName id1 = oracle_FindByKeyTx E tx tblName ''id'' id1"

definition oracle_DeleteByIDTx :: "('d, 'e) orenv_scheme \<Rightarrow> nat option \<Rightarrow> string \<Rightarrow> string \<Rightarrow>
    (('d, 'z) adst_scheme, bool) go" where
  "oracle_DeleteByIDTx E tx tblName id1 =
     seq (require_tx tx) (\<lambda>_.
     seq (tx_Exec E tx (delete_text (ToUpper tblName) ''ID = :1'') [VStr id1]) any_rows)"

definition oracle_UpsertTx :: "('d, 'e) orenv_scheme \<Rightarrow> nat option \<Rightarrow> Object \<Rightarrow>
    (('d, 'z) adst_scheme, string \<times> bool) go" where
  "oracle_UpsertTx E tx obj = oracle_InsertTx E tx obj"

definition oracle_AlterTable :: "('d, 'e) orenv_scheme \<Rightarrow> string \<Rightarrow> string \<Rightarrow> string \<Rightarrow> bool \<Rightarrow>
    (('d, 'z) adst_scheme, unit) go" where
  "oracle_AlterTable E tableName columnName dataType nullable =
     seq Base_ValidateConnection (\<lambda>_.
     let oracleDataType = oracle_mapDataType dataType;
         nullableClause = (if nullable then ''NULL'' else ''NOT NULL'')
     in seq (gets GetDB) (\<lambda>db.
        wrapping (alter_error tableName)
          (exec_only (db_Exec E db (''ALTER TABLE '' @ tableName @ '' ADD '' @ columnName @ '' '' @
             oracleDataType @ '' '' @ nullableClause) []))))"

end
