(* ===== verification/SqlServer.thy ===== *)
theory SqlServer
  imports SqlText
begin

text \<open>
  The SQL Server adapter (src/storage/sqlserver/sqlserver.go): bracketed names, and a MERGE
  statement for the upsert.
\<close>

definition sqlserver_New :: "('d, 'z) adst_scheme \<Rightarrow> ('d, 'z) adst_scheme" where
  "sqlserver_New w = NewBaseSQLStorage w"

definition sqlserver_Connect :: "('d, 'e) env_scheme \<Rightarrow> string \<Rightarrow> (('d, 'z) adst_scheme, unit) go" where
  "sqlserver_Connect E connStr =
     seq (sql_Open E ''mssql'' connStr) (\<lambda>db.
     seq (db_Ping E db) (\<lambda>_.
     SetDB (Some db)))"

definition sqlserver_mapDataType :: "string \<Rightarrow> string" where
  "sqlserver_mapDataType dataType =
     (let u = ToUpper dataType in
      if u \<in> set [''TEXT'', ''VARCHAR'', ''CHAR''] then ''NVARCHAR(MAX)''
      else if u \<in> set [''INTEGER'', ''INT''] then ''BIGINT''
      else if u \<in> set [''REAL'', ''FLOAT''] then ''FLOAT''
      else if u = ''BLOB'' then ''VARBINARY(MAX)''
      else if u = ''BOOLEAN'' then ''BIT''
      else if u = ''JSON'' then ''NVARCHAR(MAX)''
      else if u \<in> set [''DATETIME'', ''TIMESTAMP''] then ''DATETIME2''
      else if u = ''DATE'' then ''DATE''
      else if u = ''TIME'' then ''TIME''
      else if u = ''UUID'' then ''UNIQUEIDENTIFIER''
      else ''NVARCHAR(MAX)'')"

definition bracket :: "string \<Rightarrow> string" where
  "bracket s = ''['' @ s @ '']''"

definition sqlserver_create_query :: "'e golib_scheme \<Rightarrow> TableSchema \<Rightarrow> string" where
  "sqlserver_create_query L table =
     ''IF NOT EXISTS (SELECT * FROM sysobjects WHERE name='' @ [CHR 0x27] @ tab_TableName table @ [CHR 0x27] @
     '' AND xtype='' @ [CHR 0x27] @ ''U'' @ [CHR 0x27] @ '') CREATE TABLE '' @ bracket (tab_TableName table) @
     '' ([id] NVARCHAR(255) PRIMARY KEY'' @
     column_texts (\<lambda>field.
       '', '' @ bracket (col_Name field) @ '' '' @ sqlserver_mapDataType (col_DataType field) @
       null_clause (col_Nullable field) @
       (if col_Default field \<noteq> VNil
        then '' DEFAULT '' @
          (if ToUpper (col_DataType field) = ''TEXT'' \<or> ToUpper (col_DataType field) = ''VARCHAR''
           then [CHR 0x27] @ Sprint_v L (col_Default field) @ [CHR 0x27]
           else Sprint_v L (col_Default field))
        else []) @
       (if col_Unique field then '' UNIQUE'' else [])) table @
     '')''"

definition sqlserver_CreateTables :: "('d, 'e) env_scheme \<Rightarrow> Schema option \<Rightarrow> (('d, 'z) adst_scheme, unit) go" where
  "sqlserver_CreateTables E sch =
     seq require_connection (\<lambda>_.
     seq (create_each (\<lambda>table. seq (gets GetDB) (\<lambda>db.
            wrapping (create_error table) (exec_only (db_Exec E db (sqlserver_create_query E table) [])))) sch) (\<lambda>_.
     SetSchema sch))"

text \<open>The MERGE text: one placeholder for the identifier and one for each further column.\<close>

definition merge_text :: "string \<Rightarrow> string list \<Rightarrow> string list \<Rightarrow> string" where
  "merge_text tbl columns updateClauses =
     newline_tabs 2 @ ''MERGE '' @ bracket tbl @ '' AS target'' @
     newline_tabs 2 @ ''USING (SELECT '' @ ''?'' @ '' AS [id] '' @
       concat (map (\<lambda>c. '', ? AS '' @ c) (drop 1 columns)) @ '') AS source'' @
     newline_tabs 2 @ ''ON target.[id] = source.[id]'' @
     newline_tabs 2 @ ''WHEN MATCHED THEN'' @
     newline_tabs 3 @ ''UPDATE SET '' @ Join updateClauses '', '' @
     newline_tabs 2 @ ''WHEN NOT MATCHED THEN'' @
     newline_tabs 3 @ ''INSERT ('' @ Join columns '', '' @ '') VALUES ('' @
       Join (map (\<lambda>c. ''source.'' @ c) columns) '', '' @ '');''"

definition sqlserver_insert_stmt :: "'e golib_scheme \<Rightarrow> Object \<Rightarrow> TableSchema \<Rightarrow> (string \<times> goval list) result" where
  "sqlserver_insert_stmt L obj tbl =
     rbind (insert_loop (bind_value L) (\<lambda>n. n) question_mark tbl 2 (entries (obj_Fields obj))) (\<lambda>(ns, ps, vs).
     let columns = ''[id]'' # map bracket ns;
         updateClauses = map (\<lambda>n. bracket n @ '' = source.'' @ bracket n) ns
     in Ok (merge_text (tab_TableName tbl) columns updateClauses, VStr (obj_ID obj) # vs))"

definition sqlserver_Insert :: "('d, 'e) env_scheme \<Rightarrow> Object \<Rightarrow> (('d, 'z) adst_scheme, string \<times> bool) go" where
  "sqlserver_Insert E obj =
     seq require_connection (\<lambda>_.
     seq (pure (lib_json_object E obj)) (\<lambda>data.
     seq require_schema (\<lambda>_.
     seq (lookup_table (obj_TableName obj)) (\<lambda>tbl.
     seq (pure (sqlserver_insert_stmt E obj tbl)) (\<lambda>(query, vals).
     seq (gets GetDB) (\<lambda>db.
     seq (db_Exec E db query vals) (\<lambda>_.
     ret (data, True))))))))"

definition sqlserver_update_stmt :: "Object \<Rightarrow> TableSchema \<Rightarrow> (string \<times> goval list) result" where
  "sqlserver_update_stmt obj tbl =
     rbind (make_set_clauses (obj_Fields obj)) (\<lambda>_.
     case update_loop (\<lambda>n v. v) (\<lambda>n i. bracket n @ '' = ?'') 1 (entries (obj_Fields obj)) of (setClauses, vals) \<Rightarrow>
     Ok (update_text (bracket (tab_TableName tbl)) setClauses ''[id] = ?'', vals @ [VStr (obj_ID obj)]))"

definition sqlserver_Update :: "('d, 'e) env_scheme \<Rightarrow> Object \<Rightarrow> (('d, 'z) adst_scheme, bool) go" where
  "sqlserver_Update E obj =
     seq require_connection (\<lambda>_.
     seq (lookup_table (obj_TableName obj)) (\<lambda>tbl.
     seq (pure (sqlserver_update_stmt obj tbl)) (\<lambda>(query, vals).
     seq (gets GetDB) (\<lambda>db.
     seq (db_Exec E db query vals) any_rows))))"

definition sqlserver_Upsert :: "('d, 'e) env_scheme \<Rightarrow> Object \<Rightarrow> (('d, 'z) adst_scheme, string \<times> bool) go" where
  "sqlserver_Upsert E obj = sqlserver_Insert E obj"

definition sqlserver_pointer :: "ColumnData \<Rightarrow> cell result" where
  "sqlserver_pointer field = (case col_kind field of
      KText \<Rightarrow> Ok (nullable_cell (col_Nullable field) TStr)
    | KInt \<Rightarrow> Ok (nullable_cell (col_Nullable field) TInt64)
    | KReal \<Rightarrow> Ok (new_cell TFloat64)
    | KBlob \<Rightarrow> Ok (new_cell TBytes)
    | KBool \<Rightarrow> Ok (new_cell TBool)
    | KJson \<Rightarrow> Ok (new_cell TStr)
    | KTime \<Rightarrow> Ok (new_cell TStr)
    | KOther \<Rightarrow> unsupported_type field)"

definition sqlserver_value :: "ColumnData \<Rightarrow> string \<Rightarrow> cell \<Rightarrow> goval option result" where
  "sqlserver_value field fieldType c = (case kind_of (ToUpper fieldType) of
      KText \<Rightarrow> assigns (read_cell (col_Nullable field) TStr c)
    | KInt \<Rightarrow> assigns (read_cell (col_Nullable field) TInt64 c)
    | KReal \<Rightarrow> assigns (deref_as TFloat64 c)
    | KBlob \<Rightarrow> assigns (deref_as TBytes c)
    | KBool \<Rightarrow> assigns (deref_as TBool c)
    | KJson \<Rightarrow> assigns (read_cell (col_Nullable field) TStr c)
    | KTime \<Rightarrow> assigns (deref_as TStr c)
    | KOther \<Rightarrow> no_case)"

definition sqlserver_FindByKey :: "('d, 'e) env_scheme \<Rightarrow> string \<Rightarrow> string \<Rightarrow> string \<Rightarrow>
    (('d, 'z) adst_scheme, Object option) go" where
  "sqlserver_FindByKey E tblName key val =
     seq (require_find_params tblName key val) (\<lambda>_.
     seq (lookup_table tblName) (\<lambda>tbl.
     let fieldNames = map (\<lambda>kf. col_Name (snd kf)) (entries (tab_Fields tbl));
         cols = map (field_of (tab_Fields tbl)) fieldNames;
         columns = map (\<lambda>f. bracket (col_Name f)) cols;
         fieldTypes = map col_DataType cols
     in
     seq (pure (pointer_loop sqlserver_pointer cols)) (\<lambda>columnPointers.
     seq (gets GetDB) (\<lambda>db.
     finish_find
       (db_QueryRow E db (select_text columns (bracket (tab_TableName tbl)) (bracket key @ '' = ?''))
          [VStr val] columnPointers)
       (\<lambda>cs. rbind (fill_fields sqlserver_value (tab_Fields tbl) fieldNames fieldTypes cs make_map)
          (\<lambda>m. assign_ID \<lparr>obj_TableName = tab_TableName tbl, obj_ID = [], obj_Fields = m\<rparr>))))))"

definition sqlserver_FindByID :: "('d, 'e) env_scheme \<Rightarrow> string \<Rightarrow> string \<Rightarrow>
    (('d, 'z) adst_scheme, Object option) go" where
  "sqlserver_FindByID E tblName id1 = sqlserver_FindByKey E tblName ''id'' id1"

definition sqlserver_DeleteByID :: "('d, 'e) env_scheme \<Rightarrow> string \<Rightarrow> string \<Rightarrow> (('d, 'z) adst_scheme, bool) go" where
  "sqlserver_DeleteByID E tblName id1 =
     seq require_connection (\<lambda>_.
     seq (gets GetDB) (\<lambda>db.
     seq (db_Exec E db (delete_text (bracket tblName) ''[id] = ?'') [VStr id1]) any_rows))"

definition sqlserver_ResetConnection :: "('d, 'e) env_scheme \<Rightarrow> (('d, 'z) adst_scheme, unit) go" where
  "sqlserver_ResetConnection E = seq (gets GetDB) (close_handle E)"

definition sqlserver_BeginTx :: "('d, 'e) env_scheme \<Rightarrow> (('d, 'z) adst_scheme, nat) go" where
  "sqlserver_BeginTx E = seq require_connection (\<lambda>_. seq (gets GetDB) (db_BeginTx E))"

definition sqlserver_CommitTx :: "('d, 'e) env_scheme \<Rightarrow> nat option \<Rightarrow> (('d, 'z) adst_scheme, unit) go" where
  "sqlserver_CommitTx E tx = commit_checked E tx"

definition sqlserver_RollbackTx :: "('d, 'e) env_scheme \<Rightarrow> nat option \<Rightarrow> (('d, 'z) adst_scheme, unit) go" where
  "sqlserver_RollbackTx E tx = rollback_checked E tx"

definition sqlserver_InsertTx :: "('d, 'e) env_scheme \<Rightarrow> nat option \<Rightarrow> Object \<Rightarrow>
    (('d, 'z) adst_scheme, string \<times> bool) go" where
  "sqlserver_InsertTx E tx obj =
     seq (require_tx tx) (\<lambda>_.
     seq (pure (lib_json_object E obj)) (\<lambda>data.
     seq require_schema (\<lambda>_.
     seq (lookup_table (obj_TableName obj)) (\<lambda>tbl.
     seq (pure (sqlserver_insert_stmt E obj tbl)) (\<lambda>(query, vals).
     seq (tx_Exec E tx query vals) (\<lambda>_.
     ret (data, True)))))))"

definition sqlserver_UpdateTx :: "('d, 'e) env_scheme \<Rightarrow> nat option \<Rightarrow> Object \<Rightarrow> (('d, 'z) adst_scheme, bool) go" where
  "sqlserver_UpdateTx E tx obj =
     seq (require_tx tx) (\<lambda>_.
     seq (lookup_table (obj_TableName obj)) (\<lambda>tbl.
     seq (pure (sqlserver_update_stmt obj tbl)) (\<lambda>(query, vals).
     seq (tx_Exec E tx query vals) any_rows)))"

definition sqlserver_FindByKeyTx :: "('d, 'e) env_scheme \<Rightarrow> nat option \<Rightarrow> string \<Rightarrow> string \<Rightarrow> string \<Rightarrow>
    (('d, 'z) adst_scheme, Object option) go" where
  "sqlserver_FindByKeyTx E tx tblName key val =
     seq (require_tx tx) (\<lambda>_.
     seq (require_find_params tblName key val) (\<lambda>_.
     seq (lookup_table tblName) (\<lambda>tbl.
     let fieldNames = map (\<lambda>kf. col_Name (snd kf)) (entries (tab_Fields tbl));
         cols = map (field_of (tab_Fields tbl)) fieldNames;
         columns = map (\<lambda>f. bracket (col_Name f)) cols;
         fieldTypes = map col_DataType cols
     in
     seq (pure (pointer_loop sqlserver_pointer cols)) (\<lambda>columnPointers.
     finish_find
       (tx_QueryRow E tx (select_text columns (bracket (tab_TableName tbl)) (bracket key @ '' = ?''))
          [VStr val] columnPointers)
       (\<lambda>cs. rbind (fill_fields sqlserver_value (tab_Fields tbl) fieldNames fieldTypes cs make_map)
          (\<lambda>m. assign_ID \<lparr>obj_TableName = tab_TableName tbl, obj_ID = [], obj_Fields = m\<rparr>))))))"

definition sqlserver_FindByIDTx :: "('d, 'e) env_scheme \<Rightarrow> nat option \<Rightarrow> string \<Rightarrow> string \<Rightarrow>
    (('d, 'z) adst_scheme, Object option) go" where
  "sqlserver_FindByIDTx E tx tblName id1 = sqlserver_FindByKeyTx E tx tblName ''id'' id1"

definition sqlserver_DeleteByIDTx :: "('d, 'e) env_scheme \<Rightarrow> nat option \<Rightarrow> string \<Rightarrow> string \<Rightarrow>
    (('d, 'z) adst_scheme, bool) go" where
  "sqlserver_DeleteByIDTx E tx tblName id1 =
     seq (require_tx tx) (\<lambda>_.
     seq (tx_Exec E tx (delete_text (bracket tblName) ''[id] = ?'') [VStr id1]) any_rows)"

definition sqlserver_UpsertTx :: "('d, 'e) env_scheme \<Rightarrow> nat option \<Rightarrow> Object \<Rightarrow>
    (('d, 'z) adst_scheme, string \<times> bool) go" where
  "sqlserver_UpsertTx E tx obj = sqlserver_InsertTx E tx obj"

definition sqlserver_AlterTable :: "('d, 'e) env_scheme \<Rightarrow> string \<Rightarrow> string \<Rightarrow> string \<Rightarrow> bool \<Rightarrow>
    (('d, 'z) adst_scheme, unit) go" where
  "sqlserver_AlterTable E tableName columnName dataType nullable =
     seq Base_ValidateConnection (\<lambda>_.
     let sqlServerDataType = sqlserver_mapDataType dataType;
         nullableClause = (if nullable then ''NULL'' else ''NOT NULL'')
     in seq (gets GetDB) (\<lambda>db.
        wrapping (alter_error tableName)
          (exec_only (db_Exec E db (''ALTER TABLE '' @ bracket tableName @ '' ADD '' @ bracket columnName @ '' '' @
             sqlServerDataType @ '' '' @ nullableClause) []))))"

end
