(* ===== verification/Scylla.thy ===== *)
theory Scylla
  imports SqlText
begin

text \<open>
  The ScyllaDB adapter (src/storage/scylla/scylla.go). It does not use the base adapter: it keeps a
  session, the cluster configuration, the keyspace and the schema, and it takes the schema's write
  lock around its operations. The driver (gocql) and \<open>time.ParseDuration\<close> are parameters.
\<close>

section \<open>State and parameters\<close>

datatype consistency =
    CAny | COne | CTwo | CThree | CQuorum | CAll | CLocalOne | CLocalQuorum | CEachQuorum

text \<open>The fields of \<open>gocql.ClusterConfig\<close> that the code sets; durations are in nanoseconds.\<close>

record ClusterConfig =
  cl_Hosts :: "string list"
  cl_Keyspace :: string
  cl_Consistency :: consistency
  cl_ProtoVersion :: nat
  cl_ConnectTimeout :: int
  cl_Timeout :: int

text \<open>
  The driver: opening and closing a session, executing a statement, and reading the first row of a
  query into pointers: the scanned pointers if \<open>Scan\<close> returned true, and what \<open>Close\<close> returns.
\<close>

record 'd scenv = golib +
  sc_parse_duration :: "string \<Rightarrow> int result"
  sc_uuid_string :: "string \<Rightarrow> string"
  sc_create_session :: "ClusterConfig \<Rightarrow> 'd \<Rightarrow> nat result \<times> 'd"
  sc_close_session :: "nat \<Rightarrow> 'd \<Rightarrow> 'd"
  sc_exec :: "nat \<Rightarrow> string \<Rightarrow> goval list \<Rightarrow> 'd \<Rightarrow> unit result \<times> 'd"
  sc_iter :: "nat \<Rightarrow> string \<Rightarrow> goval list \<Rightarrow> cell list \<Rightarrow> 'd \<Rightarrow>
    (cell list option \<times> unit result) result \<times> 'd"

record 'd scst =
  sc_session :: "nat option"
  sc_cluster :: "ClusterConfig option"
  sc_keyspace :: string
  sc_sch :: "Schema option"
  sc_drv :: 'd

definition scylla_New :: "'d \<Rightarrow> 'd scst" where
  "scylla_New d = \<lparr>sc_session = None, sc_cluster = None, sc_keyspace = [], sc_sch = None, sc_drv = d\<rparr>"

definition on_scylla :: "('d \<Rightarrow> 'a result \<times> 'd) \<Rightarrow> ('d scst, 'a) go" where
  "on_scylla f = (\<lambda>w. case f (sc_drv w) of (r, d) \<Rightarrow> (r, w\<lparr>sc_drv := d\<rparr>))"

section \<open>Connecting\<close>

definition scylla_parseConsistency :: "string \<Rightarrow> consistency result" where
  "scylla_parseConsistency val = (let v = ToLower val in
     if v = ''any'' then Ok CAny
     else if v = ''one'' then Ok COne
     else if v = ''two'' then Ok CTwo
     else if v = ''three'' then Ok CThree
     else if v = ''quorum'' then Ok CQuorum
     else if v = ''all'' then Ok CAll
     else if v = ''localone'' then Ok CLocalOne
     else if v = ''localquorum'' then Ok CLocalQuorum
     else if v = ''eachquorum'' then Ok CEachQuorum
     else Error (Err (''unsupported consistency level: '' @ val)))"

text \<open>One option: a text that is not of the form key=value is skipped, as is an unknown key.\<close>

definition scylla_option :: "('d, 'e) scenv_scheme \<Rightarrow> string \<Rightarrow> ClusterConfig \<Rightarrow> ClusterConfig result" where
  "scylla_option E opt cluster = (case Split opt (CHR ''='') of
      [key, val] \<Rightarrow>
        if key = ''consistency''
        then rbind (scylla_parseConsistency val) (\<lambda>c. Ok (cluster\<lparr>cl_Consistency := c\<rparr>))
        else if key = ''timeout''
        then rbind (wrap_error ''invalid timeout format: '' (sc_parse_duration E val)) (\<lambda>d.
               Ok (cluster\<lparr>cl_Timeout := d, cl_ConnectTimeout := d\<rparr>))
        else Ok cluster
    | _ \<Rightarrow> Ok cluster)"

fun scylla_options :: "('d, 'e) scenv_scheme \<Rightarrow> string list \<Rightarrow> ClusterConfig \<Rightarrow> ClusterConfig result" where
  "scylla_options E [] cluster = Ok cluster"
| "scylla_options E (opt # opts) cluster = rbind (scylla_option E opt cluster) (scylla_options E opts)"

definition scylla_parseConnectionOptions :: "('d, 'e) scenv_scheme \<Rightarrow> ClusterConfig \<Rightarrow> string \<Rightarrow>
    ClusterConfig result" where
  "scylla_parseConnectionOptions E cluster options = scylla_options E (Split options (CHR ''&'')) cluster"

definition ten_seconds :: int where
  "ten_seconds = 10000000000"

definition scylla_Connect :: "('d, 'e) scenv_scheme \<Rightarrow> string \<Rightarrow> ('d scst, unit) go" where
  "scylla_Connect E connStr = (case Split connStr (CHR ''/'') of
      [hostPart, keyspaceAndOptions] \<Rightarrow>
        let hosts = Split hostPart (CHR '','');
            keyspaceParts = Split keyspaceAndOptions (CHR ''?'');
            keyspace = hd keyspaceParts;
            cluster = \<lparr>cl_Hosts = hosts, cl_Keyspace = keyspace, cl_Consistency = CQuorum,
              cl_ProtoVersion = 4, cl_ConnectTimeout = ten_seconds, cl_Timeout = ten_seconds\<rparr>
        in
        seq (modify (\<lambda>w. w\<lparr>sc_keyspace := keyspace\<rparr>)) (\<lambda>_.
        seq (pure (case keyspaceParts of
               _ # options # _ \<Rightarrow>
                 wrap_error ''failed to parse connection options: ''
                   (scylla_parseConnectionOptions E cluster options)
             | _ \<Rightarrow> Ok cluster)) (\<lambda>cluster.
        seq (wrapping ''failed to create ScyllaDB session: ''
               (on_scylla (sc_create_session E cluster))) (\<lambda>session.
        modify (\<lambda>w. w\<lparr>sc_session := Some session, sc_cluster := Some cluster\<rparr>))))
    | _ \<Rightarrow> fail (Err ''invalid connection string format, expected: hosts/keyspace?options''))"

section \<open>Data types\<close>

definition scylla_mapDataType :: "string \<Rightarrow> string" where
  "scylla_mapDataType dataType = (let u = ToUpper dataType in
     if u \<in> set [''TEXT'', ''VARCHAR'', ''CHAR''] then ''text''
     else if u \<in> set [''INTEGER'', ''INT''] then ''bigint''
     else if u \<in> set [''REAL'', ''FLOAT''] then ''double''
     else if u = ''BLOB'' then ''blob''
     else if u = ''BOOLEAN'' then ''boolean''
     else if u = ''JSON'' then ''text''
     else if u \<in> set [''DATETIME'', ''TIMESTAMP''] then ''timestamp''
     else if u = ''DATE'' then ''date''
     else if u = ''TIME'' then ''time''
     else if u = ''UUID'' then ''uuid''
     else ''text'')"

definition scylla_mapDataTypeForScylla :: "string \<Rightarrow> string" where
  "scylla_mapDataTypeForScylla dataType = (let u = ToUpper dataType in
     if u \<in> set [''TEXT'', ''VARCHAR'', ''CHAR''] then ''text''
     else if u \<in> set [''INTEGER'', ''INT''] then ''int''
     else if u = ''BIGINT'' then ''bigint''
     else if u \<in> set [''REAL'', ''FLOAT''] then ''float''
     else if u = ''DOUBLE'' then ''double''
     else if u = ''BOOLEAN'' then ''boolean''
     else if u = ''JSON'' then ''text''
     else if u = ''TIMESTAMP'' then ''timestamp''
     else if u = ''UUID'' then ''uuid''
     else if u = ''BLOB'' then ''blob''
     else ''text'')"

section \<open>The lock around an operation\<close>

text \<open>
  \<open>s.sch.Lock(); defer s.sch.Unlock()\<close> around the rest of a method: the lock is released when the
  method returns or panics; a method that blocks keeps it.
\<close>

definition scylla_Lock :: "('d scst, unit) go" where
  "scylla_Lock = (\<lambda>w. case schema_Lock (sc_sch w) of
      Ok sc \<Rightarrow> (Ok (), w\<lparr>sc_sch := Some sc\<rparr>)
    | Error e \<Rightarrow> (Error e, w) | Panic p \<Rightarrow> (Panic p, w) | Deadlock \<Rightarrow> (Deadlock, w))"

definition scylla_Unlock :: "('d scst, unit) go" where
  "scylla_Unlock = (\<lambda>w. case schema_Unlock (sc_sch w) of
      Ok sc \<Rightarrow> (Ok (), w\<lparr>sc_sch := Some sc\<rparr>)
    | Error e \<Rightarrow> (Error e, w) | Panic p \<Rightarrow> (Panic p, w) | Deadlock \<Rightarrow> (Deadlock, w))"

definition scylla_locked :: "('d scst, 'a) go \<Rightarrow> ('d scst, 'a) go" where
  "scylla_locked m = seq scylla_Lock (\<lambda>_ w. case m w of
      (Deadlock, w') \<Rightarrow> (Deadlock, w')
    | (r, w') \<Rightarrow> seq scylla_Unlock (\<lambda>_. pure r) w')"

definition scylla_GetTable :: "string \<Rightarrow> ('d scst, TableSchema) go" where
  "scylla_GetTable tblName =
     seq (gets sc_sch) (\<lambda>sch.
     seq (pure (GetTable sch tblName)) (\<lambda>(tbl, ok).
     if \<not> ok then pure (table_not_found tblName) else ret tbl))"

text \<open>\<open>if s.session == nil { return errors.New("not connected") }\<close>\<close>

definition scylla_session :: "string \<Rightarrow> ('d scst, nat) go" where
  "scylla_session msg = seq (gets sc_session) (\<lambda>s. case s of
      None \<Rightarrow> fail (Err msg) | Some n \<Rightarrow> ret n)"

section \<open>Operations\<close>

definition scylla_create_query :: "string \<Rightarrow> TableSchema \<Rightarrow> string" where
  "scylla_create_query keyspace table =
     ''CREATE TABLE IF NOT EXISTS '' @ keyspace @ ''.'' @ tab_TableName table @ '' (id text PRIMARY KEY'' @
     column_texts (\<lambda>field. '', '' @ col_Name field @ '' '' @ scylla_mapDataType (col_DataType field)) table @
     '')''"

definition scylla_CreateTables :: "('d, 'e) scenv_scheme \<Rightarrow> Schema option \<Rightarrow> ('d scst, unit) go" where
  "scylla_CreateTables E sch =
     seq (scylla_session ''not connected'') (\<lambda>session.
     seq (gets sc_keyspace) (\<lambda>keyspace.
     seq (wrapping (''failed to create keyspace '' @ keyspace @ '': '')
            (on_scylla (sc_exec E session (''CREATE KEYSPACE IF NOT EXISTS '' @ keyspace @
               '' WITH REPLICATION = {'' @ [CHR 0x27] @ ''class'' @ [CHR 0x27] @ '': '' @
               [CHR 0x27] @ ''SimpleStrategy'' @ [CHR 0x27] @ '', '' @
               [CHR 0x27] @ ''replication_factor'' @ [CHR 0x27] @ '': 3}'') []))) (\<lambda>_.
     seq (create_each (\<lambda>table.
            wrapping (create_error table)
              (on_scylla (sc_exec E session (scylla_create_query keyspace table) []))) sch) (\<lambda>_.
     modify (\<lambda>w. w\<lparr>sc_sch := sch\<rparr>)))))"

definition scylla_Insert :: "('d, 'e) scenv_scheme \<Rightarrow> Object \<Rightarrow> ('d scst, string \<times> bool) go" where
  "scylla_Insert E obj =
     seq (scylla_session ''not connected'') (\<lambda>session.
     seq (pure (lib_json_object E obj)) (\<lambda>data.
     seq (gets sc_sch) (\<lambda>sch.
     if sch = None then fail (Err ''schema not initialized'')
     else scylla_locked (
       seq (scylla_GetTable (obj_TableName obj)) (\<lambda>tbl.
       seq (pure (PrepareInsertData E obj tbl question_mark)) (\<lambda>(columns, placeholders, vals).
       seq (gets sc_keyspace) (\<lambda>keyspace.
       seq (on_scylla (sc_exec E session
              (insert_text ''INSERT INTO'' (keyspace @ ''.'' @ tab_TableName tbl) columns placeholders)
              vals)) (\<lambda>_.
       ret (data, True)))))))))"

definition scylla_Update :: "('d, 'e) scenv_scheme \<Rightarrow> Object \<Rightarrow> ('d scst, bool) go" where
  "scylla_Update E obj =
     seq (scylla_session ''not connected'') (\<lambda>session.
     scylla_locked (
       seq (scylla_GetTable (obj_TableName obj)) (\<lambda>tbl.
       seq (pure (PrepareUpdateData obj question_mark)) (\<lambda>(setClauses, vals).
       seq (gets sc_keyspace) (\<lambda>keyspace.
       seq (on_scylla (sc_exec E session
              (update_text (keyspace @ ''.'' @ tab_TableName tbl) setClauses ''id = ?'') vals)) (\<lambda>_.
       ret True))))))"

definition scylla_Upsert :: "('d, 'e) scenv_scheme \<Rightarrow> Object \<Rightarrow> ('d scst, string \<times> bool) go" where
  "scylla_Upsert E obj = scylla_Insert E obj"

text \<open>The pointers and values of a find; the date and time columns use \<open>time.Time\<close>.\<close>

definition scylla_type :: "string \<Rightarrow> gty" where
  "scylla_type dataType = (let u = ToUpper dataType in
     if u \<in> set [''TEXT'', ''VARCHAR'', ''CHAR''] then TStr
     else if u \<in> set [''INTEGER'', ''INT''] then TInt64
     else if u \<in> set [''REAL'', ''FLOAT''] then TFloat64
     else if u = ''BLOB'' then TBytes
     else if u = ''BOOLEAN'' then TBool
     else if u = ''JSON'' then TStr
     else if u \<in> set [''DATETIME'', ''TIMESTAMP'', ''DATE'', ''TIME''] then TTime
     else if u = ''UUID'' then TUUID
     else TStr)"

definition scylla_value :: "('d, 'e) scenv_scheme \<Rightarrow> ColumnData \<Rightarrow> string \<Rightarrow> cell \<Rightarrow> goval option result" where
  "scylla_value E field fieldType c =
     assigns (rbind (deref_as (scylla_type fieldType) c) (\<lambda>v. Ok (case v of
        VUUID u \<Rightarrow> VStr (sc_uuid_string E u) | _ \<Rightarrow> v)))"

definition scylla_FindByKey :: "('d, 'e) scenv_scheme \<Rightarrow> string \<Rightarrow> string \<Rightarrow> string \<Rightarrow>
    ('d scst, Object option) go" where
  "scylla_FindByKey E tblName key val =
     seq (require_find_params tblName key val) (\<lambda>_.
     seq (scylla_session ''not connected'') (\<lambda>session.
     scylla_locked (
       seq (scylla_GetTable tblName) (\<lambda>tbl.
       seq (gets sc_keyspace) (\<lambda>keyspace.
       let fieldNames = map (\<lambda>kf. col_Name (snd kf)) (entries (tab_Fields tbl));
           cols = map (field_of (tab_Fields tbl)) fieldNames
       in
       seq (on_scylla (sc_iter E session
              (select_text (map col_Name cols) (keyspace @ ''.'' @ tab_TableName tbl) (key @ '' = ?''))
              [VStr val] (map (\<lambda>f. new_cell (scylla_type (col_DataType f))) cols))) (\<lambda>(scanned, closed).
       case scanned of
         None \<Rightarrow> seq (pure closed) (\<lambda>_. ret None)
       | Some cs \<Rightarrow>
           pure (rbind (fill_fields (scylla_value E) (tab_Fields tbl) fieldNames
                          (map col_DataType cols) cs make_map) (\<lambda>m.
                 rbind (assign_ID \<lparr>obj_TableName = tab_TableName tbl, obj_ID = [], obj_Fields = m\<rparr>)
                   (\<lambda>o1. Ok (Some o1))))))))))"

definition scylla_FindByID :: "('d, 'e) scenv_scheme \<Rightarrow> string \<Rightarrow> string \<Rightarrow> ('d scst, Object option) go" where
  "scylla_FindByID E tblName id1 = scylla_FindByKey E tblName ''id'' id1"

definition scylla_DeleteByID :: "('d, 'e) scenv_scheme \<Rightarrow> string \<Rightarrow> string \<Rightarrow> ('d scst, bool) go" where
  "scylla_DeleteByID E tblName id1 =
     seq (scylla_session ''not connected'') (\<lambda>session.
     seq (gets sc_keyspace) (\<lambda>keyspace.
     seq (on_scylla (sc_exec E session (delete_text (keyspace @ ''.'' @ tblName) ''id = ?'') [VStr id1])) (\<lambda>_.
     ret True)))"

definition scylla_ResetConnection :: "('d, 'e) scenv_scheme \<Rightarrow> ('d scst, unit) go" where
  "scylla_ResetConnection E = seq (gets sc_session) (\<lambda>s. case s of
      None \<Rightarrow> ret ()
    | Some n \<Rightarrow> modify (\<lambda>w. w\<lparr>sc_drv := sc_close_session E n (sc_drv w), sc_session := None\<rparr>))"

definition scylla_AlterTable :: "('d, 'e) scenv_scheme \<Rightarrow> string \<Rightarrow> string \<Rightarrow> string \<Rightarrow> bool \<Rightarrow>
    ('d scst, unit) go" where
  "scylla_AlterTable E tableName columnName dataType nullable =
     seq (scylla_session ''not connected to ScyllaDB'') (\<lambda>session.
     seq (gets sc_keyspace) (\<lambda>keyspace.
     wrapping (alter_error tableName)
       (on_scylla (sc_exec E session (''ALTER TABLE '' @ keyspace @ ''.'' @ tableName @ '' ADD '' @
          columnName @ '' '' @ scylla_mapDataTypeForScylla dataType) []))))"

section \<open>Transactions\<close>

text \<open>Every transaction method returns the same error.\<close>

definition no_transactions :: "('w, 'a) go" where
  "no_transactions = fail (Err ''ScyllaDB does not support SQL-style transactions'')"

definition scylla_BeginTx :: "('d scst, nat) go" where
  "scylla_BeginTx = no_transactions"

definition scylla_CommitTx :: "nat option \<Rightarrow> ('d scst, unit) go" where
  "scylla_CommitTx tx = no_transactions"

definition scylla_RollbackTx :: "nat option \<Rightarrow> ('d scst, unit) go" where
  "scylla_RollbackTx tx = no_transactions"

definition scylla_InsertTx :: "nat option \<Rightarrow> Object \<Rightarrow> ('d scst, string \<times> bool) go" where
  "scylla_InsertTx tx obj = no_transactions"

definition scylla_UpdateTx :: "nat option \<Rightarrow> Object \<Rightarrow> ('d scst, bool) go" where
  "scylla_UpdateTx tx obj = no_transactions"

definition scylla_UpsertTx :: "nat option \<Rightarrow> Object \<Rightarrow> ('d scst, string \<times> bool) go" where
  "scylla_UpsertTx tx obj = scylla_InsertTx tx obj"

definition scylla_FindByIDTx :: "nat option \<Rightarrow> string \<Rightarrow> string \<Rightarrow> ('d scst, Object option) go" where
  "scylla_FindByIDTx tx tblName id1 = no_transactions"

definition scylla_FindByKeyTx :: "nat option \<Rightarrow> string \<Rightarrow> string \<Rightarrow> string \<Rightarrow> ('d scst, Object option) go" where
  "scylla_FindByKeyTx tx tblName key val = no_transactions"

definition scylla_DeleteByIDTx :: "nat option \<Rightarrow> string \<Rightarrow> string \<Rightarrow> ('d scst, bool) go" where
  "scylla_DeleteByIDTx tx tblName id1 = no_transactions"

section \<open>Lemmas\<close>

text \<open>The write lock is taken and never given back once \<open>GetTable\<close> asks for the read lock.\<close>

definition with_writer :: "Schema \<Rightarrow> Schema" where
  "with_writer sc = sc\<lparr>sch_mu := (sch_mu sc)\<lparr>mu_writer := True\<rparr>\<rparr>"

lemma scylla_Lock_eq:
  "scylla_Lock w = (case sc_sch w of
      None \<Rightarrow> (Panic nil_deref, w)
    | Some sc \<Rightarrow> if mu_writer (sch_mu sc) \<or> 0 < mu_readers (sch_mu sc) then (Deadlock, w)
        else (Ok (), w\<lparr>sc_sch := Some (with_writer sc)\<rparr>))"
  by (auto simp: scylla_Lock_def schema_Lock_def mu_Lock_def with_writer_def split: option.splits)

lemma scylla_GetTable_locked:
  "sc_sch w = Some (with_writer sc) \<Longrightarrow> scylla_GetTable n w = (Deadlock, w)"
  by (simp add: scylla_GetTable_def go_simps GetTable_eq with_writer_def)

lemma scylla_locked_GetTable:
  assumes "sc_sch w = Some sc" and "sch_mu sc = free_mutex"
  shows "scylla_locked (seq (scylla_GetTable n) k) w =
           (Deadlock, w\<lparr>sc_sch := Some (with_writer sc)\<rparr>)"
  using assms
  by (simp add: scylla_locked_def scylla_Lock_eq free_mutex_def seq_def
        scylla_GetTable_locked [where sc = sc])

end
