(* ===== verification/S3.thy ===== *)
theory S3
  imports SqlText
begin

text \<open>
  The S3 adapter (src/storage/s3/s3.go): objects as JSON documents under keys built from the table
  name and the identifier. The bucket service, the AWS configuration, the URL parser, the JSON
  encoder and the clock are parameters; times are in nanoseconds and 0 is the zero \<open>time.Time\<close>.
\<close>

section \<open>State and parameters\<close>

record S3Object =
  so_ID :: string
  so_TableName :: string
  so_Fields :: "goval gomap"
  so_CreatedAt :: int
  so_UpdatedAt :: int

record s3url =
  url_Scheme :: string
  url_Host :: string
  url_Path :: string
  url_Query :: "(string \<times> string) list"

text \<open>A client: the region and the endpoint it was built with.\<close>

type_synonym s3client = "string \<times> string"

text \<open>
  The service, each call on a client and a bucket. \<open>s3_get\<close> gives an error, or the body, whose
  reading may fail; \<open>s3_page\<close> is one page of a listing: the keys, and the token of the next page.
\<close>

record 'd s3env = golib +
  s3_url_parse :: "string \<Rightarrow> s3url result"
  s3_rfc3339 :: "int \<Rightarrow> string"
  s3_json_schema :: "Schema option \<Rightarrow> string result"
  s3_json_table :: "TableSchema \<Rightarrow> int \<Rightarrow> string result"
  s3_encode :: "S3Object \<Rightarrow> string result"
  s3_decode :: "string \<Rightarrow> S3Object result"
  s3_now :: "'d \<Rightarrow> int result \<times> 'd"
  s3_config :: "string \<Rightarrow> 'd \<Rightarrow> unit result \<times> 'd"
  s3_head :: "s3client \<Rightarrow> string \<Rightarrow> 'd \<Rightarrow> unit result \<times> 'd"
  s3_get :: "s3client \<Rightarrow> string \<Rightarrow> string \<Rightarrow> 'd \<Rightarrow> string result result \<times> 'd"
  s3_put :: "s3client \<Rightarrow> string \<Rightarrow> string \<Rightarrow> string \<Rightarrow> (string \<times> string) list \<Rightarrow> 'd \<Rightarrow> unit result \<times> 'd"
  s3_delete :: "s3client \<Rightarrow> string \<Rightarrow> string \<Rightarrow> 'd \<Rightarrow> unit result \<times> 'd"
  s3_page :: "s3client \<Rightarrow> string \<Rightarrow> string \<Rightarrow> string option \<Rightarrow> 'd \<Rightarrow>
    (string list \<times> string option) result \<times> 'd"

record 'd s3st =
  s3_client :: "s3client option"
  s3_uploader :: bool
  s3_bucket :: string
  s3_prefix :: string
  s3_region :: string
  s3_sch :: "Schema option"
  s3_verbose :: bool
  s3_drv :: 'd

definition s3_New :: "'d \<Rightarrow> 'd s3st" where
  "s3_New d = \<lparr>s3_client = None, s3_uploader = False, s3_bucket = [], s3_prefix = [], s3_region = [],
     s3_sch = None, s3_verbose = False, s3_drv = d\<rparr>"

definition on_s3 :: "('d \<Rightarrow> 'a result \<times> 'd) \<Rightarrow> ('d s3st, 'a) go" where
  "on_s3 f = (\<lambda>w. case f (s3_drv w) of (r, d) \<Rightarrow> (r, w\<lparr>s3_drv := d\<rparr>))"

section \<open>Connecting\<close>

text \<open>\<open>query.Get\<close>: the empty string when the key is missing.\<close>

definition query_Get :: "(string \<times> string) list \<Rightarrow> string \<Rightarrow> string" where
  "query_Get q k = (case map_of q k of None \<Rightarrow> [] | Some v \<Rightarrow> v)"

definition s3_norm_prefix :: "string \<Rightarrow> string" where
  "s3_norm_prefix path =
     (let p = TrimPrefix path ''/''
      in if p \<noteq> [] \<and> \<not> HasSuffix p ''/'' then p @ ''/'' else p)"

definition s3_Connect :: "('d, 'e) s3env_scheme \<Rightarrow> string \<Rightarrow> ('d s3st, unit) go" where
  "s3_Connect E connStr =
     seq (pure (wrap_error ''invalid connection string: '' (s3_url_parse E connStr))) (\<lambda>u.
     if url_Scheme u \<noteq> ''s3''
     then fail (Err (''invalid scheme: expected s3, got '' @ url_Scheme u))
     else
       let region0 = query_Get (url_Query u) ''region'';
           region = (if region0 = [] then ''us-east-1'' else region0);
           endpoint = query_Get (url_Query u) ''endpoint''
       in
       seq (modify (\<lambda>w. w\<lparr>s3_bucket := url_Host u, s3_prefix := s3_norm_prefix (url_Path u),
              s3_region := region, s3_verbose := (query_Get (url_Query u) ''verbose'' = ''true'')\<rparr>)) (\<lambda>_.
       seq (wrapping ''failed to load AWS config: '' (on_s3 (s3_config E region))) (\<lambda>_.
       seq (modify (\<lambda>w. w\<lparr>s3_client := Some (region, endpoint), s3_uploader := True\<rparr>)) (\<lambda>_.
       wrapping (''failed to access bucket '' @ url_Host u @ '': '')
         (on_s3 (s3_head E (region, endpoint) (url_Host u)))))))"

definition s3_connected :: "('d s3st, s3client) go" where
  "s3_connected = seq (gets s3_client) (\<lambda>c. case c of
      None \<Rightarrow> fail (Err ''not connected to S3'') | Some cl \<Rightarrow> ret cl)"

section \<open>Keys and calls\<close>

definition s3_getObjectKey :: "string \<Rightarrow> string \<Rightarrow> string \<Rightarrow> string" where
  "s3_getObjectKey prefix tableName id1 =
     prefix @ ''tables/'' @ tableName @ ''/objects/'' @ id1 @ ''.json''"

definition s3_object_key :: "string \<Rightarrow> string \<Rightarrow> ('d s3st, string) go" where
  "s3_object_key tableName id1 = gets (\<lambda>w. s3_getObjectKey (s3_prefix w) tableName id1)"

definition s3_GetObject :: "('d, 'e) s3env_scheme \<Rightarrow> s3client \<Rightarrow> string \<Rightarrow> ('d s3st, string result) go" where
  "s3_GetObject E cl key = seq (gets s3_bucket) (\<lambda>b. on_s3 (s3_get E cl b key))"

text \<open>
  \<open>s.uploader.Upload\<close>: on a nil uploader it panics; the metadata always ends in a time stamp.
\<close>

definition s3_Upload :: "('d, 'e) s3env_scheme \<Rightarrow> s3client \<Rightarrow> string \<Rightarrow> string \<Rightarrow>
    (string \<times> string) list \<Rightarrow> ('d s3st, unit) go" where
  "s3_Upload E cl key body meta =
     seq (gets s3_bucket) (\<lambda>b.
     seq (on_s3 (s3_now E)) (\<lambda>now.
     seq (gets s3_uploader) (\<lambda>up.
     if \<not> up then panic nil_deref
     else on_s3 (s3_put E cl b key body (meta @ [(''ddao-timestamp'', s3_rfc3339 E now)])))))"

text \<open>The existence check that precedes a change: \<open>NoSuchKey\<close> is told from every other error.\<close>

definition s3_exists :: "('d, 'e) s3env_scheme \<Rightarrow> s3client \<Rightarrow> string \<Rightarrow> ('d s3st, bool) go" where
  "s3_exists E cl key = catch (s3_GetObject E cl key)
     (\<lambda>e. if is_no_such_key e then ret False else fail (Wrap ''failed to check if object exists: '' e))
     (\<lambda>_. ret True)"

section \<open>Tables\<close>

definition s3_create_table :: "('d, 'e) s3env_scheme \<Rightarrow> s3client \<Rightarrow> TableSchema \<Rightarrow> ('d s3st, unit) go" where
  "s3_create_table E cl table =
     seq (on_s3 (s3_now E)) (\<lambda>now.
     seq (pure (wrap_error (''failed to marshal table metadata for '' @ tab_TableName table @ '': '')
            (s3_json_table E table now))) (\<lambda>body.
     seq (gets s3_prefix) (\<lambda>prefix.
     wrapping (''failed to upload table metadata for '' @ tab_TableName table @ '': '')
       (s3_Upload E cl (prefix @ ''tables/'' @ tab_TableName table @ ''/_metadata.json'') body
          [(''ddao-type'', ''table-metadata''), (''ddao-table'', tab_TableName table)]))))"

definition s3_CreateTables :: "('d, 'e) s3env_scheme \<Rightarrow> Schema option \<Rightarrow> ('d s3st, unit) go" where
  "s3_CreateTables E sch =
     seq s3_connected (\<lambda>cl.
     seq (modify (\<lambda>w. w\<lparr>s3_sch := sch\<rparr>)) (\<lambda>_.
     seq (pure (wrap_error ''failed to marshal schema: '' (s3_json_schema E sch))) (\<lambda>body.
     seq (gets s3_prefix) (\<lambda>prefix.
     seq (wrapping ''failed to upload schema: ''
            (s3_Upload E cl (prefix @ ''_schema.json'') body [(''ddao-type'', ''schema'')])) (\<lambda>_.
     create_each (s3_create_table E cl) sch)))))"

section \<open>Objects\<close>

definition s3_object_meta :: "Object \<Rightarrow> (string \<times> string) list" where
  "s3_object_meta obj =
     [(''ddao-type'', ''object''), (''ddao-table'', obj_TableName obj), (''ddao-id'', obj_ID obj)]"

text \<open>A new document has the creation time only; one that replaces another has both times.\<close>

definition s3_Insert :: "('d, 'e) s3env_scheme \<Rightarrow> Object \<Rightarrow> ('d s3st, string \<times> bool) go" where
  "s3_Insert E obj =
     seq s3_connected (\<lambda>cl.
     seq (s3_object_key (obj_TableName obj) (obj_ID obj)) (\<lambda>key.
     seq (s3_exists E cl key) (\<lambda>found.
     seq (on_s3 (s3_now E)) (\<lambda>created_at.
     seq (if found then on_s3 (s3_now E) else ret 0) (\<lambda>updated_at.
     seq (pure (wrap_error ''failed to marshal object: ''
            (s3_encode E \<lparr>so_ID = obj_ID obj, so_TableName = obj_TableName obj,
               so_Fields = obj_Fields obj, so_CreatedAt = created_at, so_UpdatedAt = updated_at\<rparr>))) (\<lambda>body.
     seq (wrapping ''failed to upload object: '' (s3_Upload E cl key body (s3_object_meta obj))) (\<lambda>_.
     ret (body, \<not> found))))))))"

text \<open>An update writes a document whose creation time is the zero time.\<close>

definition s3_Update :: "('d, 'e) s3env_scheme \<Rightarrow> Object \<Rightarrow> ('d s3st, bool) go" where
  "s3_Update E obj =
     seq s3_connected (\<lambda>cl.
     seq (s3_object_key (obj_TableName obj) (obj_ID obj)) (\<lambda>key.
     seq (s3_exists E cl key) (\<lambda>found.
     if \<not> found then ret False
     else
       seq (on_s3 (s3_now E)) (\<lambda>updated_at.
       seq (pure (wrap_error ''failed to marshal object: ''
              (s3_encode E \<lparr>so_ID = obj_ID obj, so_TableName = obj_TableName obj,
                 so_Fields = obj_Fields obj, so_CreatedAt = 0, so_UpdatedAt = updated_at\<rparr>))) (\<lambda>body.
       seq (wrapping ''failed to upload updated object: ''
              (s3_Upload E cl key body (s3_object_meta obj))) (\<lambda>_.
       ret True))))))"

definition s3_Upsert :: "('d, 'e) s3env_scheme \<Rightarrow> Object \<Rightarrow> ('d s3st, string \<times> bool) go" where
  "s3_Upsert E obj = s3_Insert E obj"

definition to_object :: "S3Object \<Rightarrow> Object" where
  "to_object so = \<lparr>obj_TableName = so_TableName so, obj_ID = so_ID so, obj_Fields = so_Fields so\<rparr>"

definition s3_FindByID :: "('d, 'e) s3env_scheme \<Rightarrow> string \<Rightarrow> string \<Rightarrow> ('d s3st, Object option) go" where
  "s3_FindByID E tblName id1 =
     seq s3_connected (\<lambda>cl.
     seq (s3_object_key tblName id1) (\<lambda>key.
     catch (s3_GetObject E cl key)
       (\<lambda>e. if is_no_such_key e then ret None else fail (Wrap ''failed to get object from S3: '' e))
       (\<lambda>body.
         seq (pure (wrap_error ''failed to read object data: '' body)) (\<lambda>objData.
         seq (pure (wrap_error ''failed to unmarshal object: '' (s3_decode E objData))) (\<lambda>so.
         ret (Some (to_object so)))))))"

text \<open>
  The document under one key, if it can be read and its field prints as the wanted value; every
  error skips the key.
\<close>

definition s3_match :: "('d, 'e) s3env_scheme \<Rightarrow> s3client \<Rightarrow> string \<Rightarrow> string \<Rightarrow> string \<Rightarrow>
    ('d s3st, Object option) go" where
  "s3_match E cl key val k =
     catch (s3_GetObject E cl k) (\<lambda>e. ret None) (\<lambda>body.
     catch (pure body) (\<lambda>e. ret None) (\<lambda>objData.
     catch (pure (s3_decode E objData)) (\<lambda>e. ret None) (\<lambda>so.
     ret (case mget (so_Fields so) key of
            None \<Rightarrow> None
          | Some fieldValue \<Rightarrow> if Sprint_v E fieldValue = val then Some (to_object so) else None))))"

fun s3_scan_keys :: "('d, 'e) s3env_scheme \<Rightarrow> s3client \<Rightarrow> string \<Rightarrow> string \<Rightarrow> string list \<Rightarrow>
    ('d s3st, Object option) go" where
  "s3_scan_keys E cl key val [] = ret None"
| "s3_scan_keys E cl key val (k # ks) =
     (if HasSuffix k ''.json''
      then seq (s3_match E cl key val k) (\<lambda>found. case found of
             None \<Rightarrow> s3_scan_keys E cl key val ks
           | Some o1 \<Rightarrow> ret (Some o1))
      else s3_scan_keys E cl key val ks)"

text \<open>
  The loop over the pages of a listing. A service that always announces another page keeps the loop
  going: the fuel is the number of pages looked at, and a run that uses it up is one that has not
  returned.
\<close>

fun s3_scan_pages :: "('d, 'e) s3env_scheme \<Rightarrow> nat \<Rightarrow> s3client \<Rightarrow> string \<Rightarrow> string \<Rightarrow> string \<Rightarrow>
    string option \<Rightarrow> ('d s3st, Object option) go" where
  "s3_scan_pages E 0 cl prefix key val token = pure Deadlock"
| "s3_scan_pages E (Suc n) cl prefix key val token =
     seq (gets s3_bucket) (\<lambda>b.
     seq (wrapping ''failed to list objects: '' (on_s3 (s3_page E cl b prefix token))) (\<lambda>(ks, next_token).
     seq (s3_scan_keys E cl key val ks) (\<lambda>found. case found of
         Some o1 \<Rightarrow> ret (Some o1)
       | None \<Rightarrow> (case next_token of
           None \<Rightarrow> ret None
         | Some t \<Rightarrow> s3_scan_pages E n cl prefix key val (Some t)))))"

definition s3_FindByKey :: "('d, 'e) s3env_scheme \<Rightarrow> nat \<Rightarrow> string \<Rightarrow> string \<Rightarrow> string \<Rightarrow>
    ('d s3st, Object option) go" where
  "s3_FindByKey E fuel tblName key val =
     seq s3_connected (\<lambda>cl.
     seq (gets s3_prefix) (\<lambda>prefix.
     s3_scan_pages E fuel cl (prefix @ ''tables/'' @ tblName @ ''/objects/'') key val None))"

definition s3_DeleteByID :: "('d, 'e) s3env_scheme \<Rightarrow> string \<Rightarrow> string \<Rightarrow> ('d s3st, bool) go" where
  "s3_DeleteByID E tblName id1 =
     seq s3_connected (\<lambda>cl.
     seq (s3_object_key tblName id1) (\<lambda>key.
     seq (s3_exists E cl key) (\<lambda>found.
     if \<not> found then ret False
     else
       seq (gets s3_bucket) (\<lambda>b.
       seq (wrapping ''failed to delete object: '' (on_s3 (s3_delete E cl b key))) (\<lambda>_.
       ret True)))))"

definition s3_ResetConnection :: "('d s3st, unit) go" where
  "s3_ResetConnection = modify (\<lambda>w. w\<lparr>s3_client := None, s3_uploader := False\<rparr>)"

section \<open>Transactions and schema changes\<close>

text \<open>\<open>BeginTx\<close> returns a transaction value that no other method looks at.\<close>

definition s3_BeginTx :: "('d s3st, nat) go" where
  "s3_BeginTx = ret 0"

definition s3_CommitTx :: "nat option \<Rightarrow> ('d s3st, unit) go" where
  "s3_CommitTx tx = ret ()"

definition s3_RollbackTx :: "nat option \<Rightarrow> ('d s3st, unit) go" where
  "s3_RollbackTx tx = ret ()"

definition s3_InsertTx :: "('d, 'e) s3env_scheme \<Rightarrow> nat option \<Rightarrow> Object \<Rightarrow> ('d s3st, string \<times> bool) go" where
  "s3_InsertTx E tx obj = s3_Insert E obj"

definition s3_UpdateTx :: "('d, 'e) s3env_scheme \<Rightarrow> nat option \<Rightarrow> Object \<Rightarrow> ('d s3st, bool) go" where
  "s3_UpdateTx E tx obj = s3_Update E obj"

definition s3_UpsertTx :: "('d, 'e) s3env_scheme \<Rightarrow> nat option \<Rightarrow> Object \<Rightarrow> ('d s3st, string \<times> bool) go" where
  "s3_UpsertTx E tx obj = s3_InsertTx E tx obj"

definition s3_FindByIDTx :: "('d, 'e) s3env_scheme \<Rightarrow> nat option \<Rightarrow> string \<Rightarrow> string \<Rightarrow>
    ('d s3st, Object option) go" where
  "s3_FindByIDTx E tx tblName id1 = s3_FindByID E tblName id1"

definition s3_FindByKeyTx :: "('d, 'e) s3env_scheme \<Rightarrow> nat \<Rightarrow> nat option \<Rightarrow> string \<Rightarrow> string \<Rightarrow> string \<Rightarrow>
    ('d s3st, Object option) go" where
  "s3_FindByKeyTx E fuel tx tblName key val = s3_FindByKey E fuel tblName key val"

definition s3_DeleteByIDTx :: "('d, 'e) s3env_scheme \<Rightarrow> nat option \<Rightarrow> string \<Rightarrow> string \<Rightarrow>
    ('d s3st, bool) go" where
  "s3_DeleteByIDTx E tx tblName id1 = s3_DeleteByID E tblName id1"

definition s3_AlterTable :: "string \<Rightarrow> string \<Rightarrow> string \<Rightarrow> bool \<Rightarrow> ('d s3st, unit) go" where
  "s3_AlterTable tableName columnName dataType nullable =
     fail (Err (''S3 storage does not support ALTER TABLE operations - schema changes are handled '' @
                ''dynamically during object operations''))"

end
