(* ===== verification/Backends.thy ===== *)
theory Backends
  imports Orm Sqlite Postgres Yugabyte Cockroach Tidb Oracle SqlServer Scylla S3
begin

text \<open>
  The storages that the \<open>New\<close> functions of the adapters return, as values of the interface, and the
  contracts of \<open>Orm\<close> that each of them keeps.
\<close>

section \<open>The storages\<close>

definition sqlite_storage :: "('d, 'e) env_scheme \<Rightarrow> (('d, 'z) adst_scheme) Storage" where
  "sqlite_storage E =
     \<lparr>st_Connect = sqlite_Connect E, st_CreateTables = sqlite_CreateTables E,
      st_Insert = sqlite_Insert E, st_Update = sqlite_Update E, st_Upsert = sqlite_Upsert E,
      st_FindByID = sqlite_FindByID E, st_FindByKey = sqlite_FindByKey E,
      st_DeleteByID = sqlite_DeleteByID E, st_ResetConnection = sqlite_ResetConnection E,
      st_AlterTable = sqlite_AlterTable E, st_BeginTx = sqlite_BeginTx E,
      st_CommitTx = sqlite_CommitTx E, st_RollbackTx = sqlite_RollbackTx E,
      st_InsertTx = sqlite_InsertTx E, st_UpdateTx = sqlite_UpdateTx E,
      st_UpsertTx = sqlite_UpsertTx E, st_FindByIDTx = sqlite_FindByIDTx E,
      st_FindByKeyTx = sqlite_FindByKeyTx E, st_DeleteByIDTx = sqlite_DeleteByIDTx E\<rparr>"

definition postgres_storage :: "('d, 'e) env_scheme \<Rightarrow> (('d, 'z) adst_scheme) Storage" where
  "postgres_storage E =
     \<lparr>st_Connect = postgres_Connect E, st_CreateTables = postgres_CreateTables E,
      st_Insert = postgres_Insert E, st_Update = postgres_Update E,
      st_Upsert = postgres_Upsert E, st_FindByID = postgres_FindByID E,
      st_FindByKey = postgres_FindByKey E, st_DeleteByID = postgres_DeleteByID E,
      st_ResetConnection = postgres_ResetConnection E, st_AlterTable = postgres_AlterTable E,
      st_BeginTx = postgres_BeginTx E, st_CommitTx = postgres_CommitTx E,
      st_RollbackTx = postgres_RollbackTx E, st_InsertTx = postgres_InsertTx E,
      st_UpdateTx = postgres_UpdateTx E, st_UpsertTx = postgres_UpsertTx E,
      st_FindByIDTx = postgres_FindByIDTx E, st_FindByKeyTx = postgres_FindByKeyTx E,
      st_DeleteByIDTx = postgres_DeleteByIDTx E\<rparr>"

definition yugabyte_storage :: "('d, 'e) env_scheme \<Rightarrow> (('d, 'z) adst_scheme) Storage" where
  "yugabyte_storage E =
     \<lparr>st_Connect = yugabyte_Connect E, st_CreateTables = yugabyte_CreateTables E,
      st_Insert = yugabyte_Insert E, st_Update = yugabyte_Update E,
      st_Upsert = yugabyte_Upsert E, st_FindByID = yugabyte_FindByID E,
      st_FindByKey = yugabyte_FindByKey E, st_DeleteByID = yugabyte_DeleteByID E,
      st_ResetConnection = yugabyte_ResetConnection E, st_AlterTable = yugabyte_AlterTable E,
      st_BeginTx = yugabyte_BeginTx E, st_CommitTx = yugabyte_CommitTx E,
      st_RollbackTx = yugabyte_RollbackTx E, st_InsertTx = yugabyte_InsertTx E,
      st_UpdateTx = yugabyte_UpdateTx E, st_UpsertTx = yugabyte_UpsertTx E,
      st_FindByIDTx = yugabyte_FindByIDTx E, st_FindByKeyTx = yugabyte_FindByKeyTx E,
      st_DeleteByIDTx = yugabyte_DeleteByIDTx E\<rparr>"

definition cockroach_storage :: "('d, 'e) crenv_scheme \<Rightarrow> (('d, 'z) crst_scheme) Storage" where
  "cockroach_storage E =
     \<lparr>st_Connect = cockroach_Connect E, st_CreateTables = cockroach_CreateTables E,
      st_Insert = cockroach_Insert E, st_Update = cockroach_Update E,
      st_Upsert = cockroach_Upsert E, st_FindByID = cockroach_FindByID E,
      st_FindByKey = cockroach_FindByKey E, st_DeleteByID = cockroach_DeleteByID E,
      st_ResetConnection = cockroach_ResetConnection E, st_AlterTable = cockroach_AlterTable E,
      st_BeginTx = cockroach_BeginTx E, st_CommitTx = cockroach_CommitTx E,
      st_RollbackTx = cockroach_RollbackTx E, st_InsertTx = cockroach_InsertTx E,
      st_UpdateTx = cockroach_UpdateTx E, st_UpsertTx = cockroach_UpsertTx E,
      st_FindByIDTx = cockroach_FindByIDTx E, st_FindByKeyTx = cockroach_FindByKeyTx E,
      st_DeleteByIDTx = cockroach_DeleteByIDTx E\<rparr>"

definition tidb_storage :: "('d, 'e) env_scheme \<Rightarrow> (('d, 'z) adst_scheme) Storage" where
  "tidb_storage E =
     \<lparr>st_Connect = tidb_Connect E, st_CreateTables = tidb_CreateTables E,
      st_Insert = tidb_Insert E, st_Update = tidb_Update E, st_Upsert = tidb_Upsert E,
      st_FindByID = tidb_FindByID E, st_FindByKey = tidb_FindByKey E,
      st_DeleteByID = tidb_DeleteByID E, st_ResetConnection = tidb_ResetConnection E,
      st_AlterTable = tidb_AlterTable E, st_BeginTx = tidb_BeginTx E,
      st_CommitTx = tidb_CommitTx E, st_RollbackTx = tidb_RollbackTx E,
      st_InsertTx = tidb_InsertTx E, st_UpdateTx = tidb_UpdateTx E,
      st_UpsertTx = tidb_UpsertTx E, st_FindByIDTx = tidb_FindByIDTx E,
      st_FindByKeyTx = tidb_FindByKeyTx E, st_DeleteByIDTx = tidb_DeleteByIDTx E\<rparr>"

definition oracle_storage :: "('d, 'e) orenv_scheme \<Rightarrow> (('d, 'z) adst_scheme) Storage" where
  "oracle_storage E =
     \<lparr>st_Connect = oracle_Connect E, st_CreateTables = oracle_CreateTables E,
      st_Insert = oracle_Insert E, st_Update = oracle_Update E, st_Upsert = oracle_Upsert E,
      st_FindByID = oracle_FindByID E, st_FindByKey = oracle_FindByKey E,
      st_DeleteByID = oracle_DeleteByID E, st_ResetConnection = oracle_ResetConnection E,
      st_AlterTable = oracle_AlterTable E, st_BeginTx = oracle_BeginTx E,
      st_CommitTx = oracle_CommitTx E, st_RollbackTx = oracle_RollbackTx E,
      st_InsertTx = oracle_InsertTx E, st_UpdateTx = oracle_UpdateTx E,
      st_UpsertTx = oracle_UpsertTx E, st_FindByIDTx = oracle_FindByIDTx E,
      st_FindByKeyTx = oracle_FindByKeyTx E, st_DeleteByIDTx = oracle_DeleteByIDTx E\<rparr>"

definition sqlserver_storage :: "('d, 'e) env_scheme \<Rightarrow> (('d, 'z) adst_scheme) Storage" where
  "sqlserver_storage E =
     \<lparr>st_Connect = sqlserver_Connect E, st_CreateTables = sqlserver_CreateTables E,
      st_Insert = sqlserver_Insert E, st_Update = sqlserver_Update E,
      st_Upsert = sqlserver_Upsert E, st_FindByID = sqlserver_FindByID E,
      st_FindByKey = sqlserver_FindByKey E, st_DeleteByID = sqlserver_DeleteByID E,
      st_ResetConnection = sqlserver_ResetConnection E, st_AlterTable = sqlserver_AlterTable E,
      st_BeginTx = sqlserver_BeginTx E, st_CommitTx = sqlserver_CommitTx E,
      st_RollbackTx = sqlserver_RollbackTx E, st_InsertTx = sqlserver_InsertTx E,
      st_UpdateTx = sqlserver_UpdateTx E, st_UpsertTx = sqlserver_UpsertTx E,
      st_FindByIDTx = sqlserver_FindByIDTx E, st_FindByKeyTx = sqlserver_FindByKeyTx E,
      st_DeleteByIDTx = sqlserver_DeleteByIDTx E\<rparr>"

definition scylla_storage :: "('d, 'e) scenv_scheme \<Rightarrow> ('d scst) Storage" where
  "scylla_storage E =
     \<lparr>st_Connect = scylla_Connect E, st_CreateTables = scylla_CreateTables E,
      st_Insert = scylla_Insert E, st_Update = scylla_Update E, st_Upsert = scylla_Upsert E,
      st_FindByID = scylla_FindByID E, st_FindByKey = scylla_FindByKey E,
      st_DeleteByID = scylla_DeleteByID E, st_ResetConnection = scylla_ResetConnection E,
      st_AlterTable = scylla_AlterTable E, st_BeginTx = scylla_BeginTx,
      st_CommitTx = scylla_CommitTx, st_RollbackTx = scylla_RollbackTx,
      st_InsertTx = scylla_InsertTx, st_UpdateTx = scylla_UpdateTx,
      st_UpsertTx = scylla_UpsertTx, st_FindByIDTx = scylla_FindByIDTx,
      st_FindByKeyTx = scylla_FindByKeyTx, st_DeleteByIDTx = scylla_DeleteByIDTx\<rparr>"

definition s3_storage :: "('d, 'e) s3env_scheme \<Rightarrow> nat \<Rightarrow> ('d s3st) Storage" where
  "s3_storage E fuel =
     \<lparr>st_Connect = s3_Connect E, st_CreateTables = s3_CreateTables E,
      st_Insert = s3_Insert E, st_Update = s3_Update E, st_Upsert = s3_Upsert E,
      st_FindByID = s3_FindByID E, st_FindByKey = s3_FindByKey E fuel,
      st_DeleteByID = s3_DeleteByID E, st_ResetConnection = s3_ResetConnection,
      st_AlterTable = s3_AlterTable, st_BeginTx = s3_BeginTx, st_CommitTx = s3_CommitTx,
      st_RollbackTx = s3_RollbackTx, st_InsertTx = s3_InsertTx E, st_UpdateTx = s3_UpdateTx E,
      st_UpsertTx = s3_UpsertTx E, st_FindByIDTx = s3_FindByIDTx E,
      st_FindByKeyTx = s3_FindByKeyTx E fuel, st_DeleteByIDTx = s3_DeleteByIDTx E\<rparr>"

section \<open>The contracts\<close>

lemmas guard_simps =
  require_tx_def commit_checked_def rollback_checked_def TM_CommitTx_def TM_RollbackTx_def
  ValidateTransaction_def nil_tx_def

text \<open>The outcome of ending a transaction in \<open>database/sql\<close>.\<close>

lemma tx_finish_done:
  "tx_done (snd (tx_Commit E n w)) n"
  "tx_done (snd (tx_Rollback E n w)) n"
  by (auto simp: tx_Commit_def tx_Rollback_def use_tx_def seq_def modify_def on_driver_def
        split: prod.splits)

lemma tx_finish_twice:
  "tx_done w n \<Longrightarrow> tx_Commit E n w = (Error ErrTxDone, w)"
  "tx_done w n \<Longrightarrow> tx_Rollback E n w = (Error ErrTxDone, w)"
  by (simp_all add: tx_Commit_def tx_Rollback_def use_tx_def)

interpretation sqlite_st: sql_storage "sqlite_storage E" tx_done for E
  by unfold_locales (simp_all add: guard_simps tx_finish_done tx_finish_twice
      sqlite_storage_def sqlite_FindByID_def sqlite_FindByIDTx_def sqlite_Upsert_def
      sqlite_UpsertTx_def sqlite_InsertTx_def sqlite_UpdateTx_def sqlite_FindByKeyTx_def
      sqlite_DeleteByIDTx_def sqlite_CommitTx_def sqlite_RollbackTx_def Base_FindByID_def
      Base_FindByIDTx_def CommonFindByKeyTx_def CommonDeleteByIDTx_def)

interpretation postgres_st: sql_storage "postgres_storage E" tx_done for E
  by unfold_locales (simp_all add: guard_simps tx_finish_done tx_finish_twice
      postgres_storage_def postgres_FindByID_def postgres_FindByIDTx_def postgres_Upsert_def
      postgres_UpsertTx_def postgres_InsertTx_def postgres_UpdateTx_def postgres_FindByKeyTx_def
      postgres_DeleteByIDTx_def postgres_CommitTx_def postgres_RollbackTx_def Base_FindByID_def
      Base_FindByIDTx_def CommonFindByKeyTx_def CommonDeleteByIDTx_def)

interpretation yugabyte_st: sql_storage "yugabyte_storage E" tx_done for E
  by unfold_locales (simp_all add: guard_simps tx_finish_done tx_finish_twice
      yugabyte_storage_def yugabyte_FindByID_def yugabyte_FindByIDTx_def yugabyte_Upsert_def
      yugabyte_UpsertTx_def yugabyte_InsertTx_def yugabyte_UpdateTx_def yugabyte_FindByKeyTx_def
      yugabyte_DeleteByIDTx_def yugabyte_CommitTx_def yugabyte_RollbackTx_def Base_FindByID_def
      Base_FindByIDTx_def CommonFindByKeyTx_def CommonDeleteByIDTx_def)

interpretation cockroach_st: sql_storage "cockroach_storage E" tx_done for E
  by unfold_locales (simp_all add: guard_simps tx_finish_done tx_finish_twice
      cockroach_storage_def cockroach_FindByID_def cockroach_FindByIDTx_def cockroach_Upsert_def
      cockroach_UpsertTx_def cockroach_InsertTx_def cockroach_UpdateTx_def cockroach_FindByKeyTx_def
      cockroach_DeleteByIDTx_def cockroach_CommitTx_def cockroach_RollbackTx_def Base_FindByID_def
      Base_FindByIDTx_def CommonFindByKeyTx_def CommonDeleteByIDTx_def)

interpretation tidb_st: sql_storage "tidb_storage E" tx_done for E
  by unfold_locales (simp_all add: guard_simps tx_finish_done tx_finish_twice
      tidb_storage_def tidb_FindByID_def tidb_FindByIDTx_def tidb_Upsert_def
      tidb_UpsertTx_def tidb_InsertTx_def tidb_UpdateTx_def tidb_FindByKeyTx_def
      tidb_DeleteByIDTx_def tidb_CommitTx_def tidb_RollbackTx_def Base_FindByID_def
      Base_FindByIDTx_def CommonFindByKeyTx_def CommonDeleteByIDTx_def)

interpretation oracle_st: sql_storage "oracle_storage E" tx_done for E
  by unfold_locales (simp_all add: guard_simps tx_finish_done tx_finish_twice
      oracle_storage_def oracle_FindByID_def oracle_FindByIDTx_def oracle_Upsert_def
      oracle_UpsertTx_def oracle_InsertTx_def oracle_UpdateTx_def oracle_FindByKeyTx_def
      oracle_DeleteByIDTx_def oracle_CommitTx_def oracle_RollbackTx_def Base_FindByID_def
      Base_FindByIDTx_def CommonFindByKeyTx_def CommonDeleteByIDTx_def)

interpretation sqlserver_st: sql_storage "sqlserver_storage E" tx_done for E
  by unfold_locales (simp_all add: guard_simps tx_finish_done tx_finish_twice
      sqlserver_storage_def sqlserver_FindByID_def sqlserver_FindByIDTx_def sqlserver_Upsert_def
      sqlserver_UpsertTx_def sqlserver_InsertTx_def sqlserver_UpdateTx_def sqlserver_FindByKeyTx_def
      sqlserver_DeleteByIDTx_def sqlserver_CommitTx_def sqlserver_RollbackTx_def Base_FindByID_def
      Base_FindByIDTx_def CommonFindByKeyTx_def CommonDeleteByIDTx_def)

text \<open>ScyllaDB keeps the equations between its methods; it has no transactions.\<close>

interpretation scylla_st: keyed_storage "scylla_storage E" for E
  by unfold_locales (simp_all add: scylla_storage_def scylla_FindByID_def scylla_FindByIDTx_def
      scylla_FindByKeyTx_def scylla_Upsert_def scylla_UpsertTx_def)

end
