(* ===== verification/InfoSchema.thy ===== *)
theory InfoSchema
  imports SqlDb
begin

text \<open>
  The schema readers of the package \<open>infoschema\<close> (types.go, parser.go and sqlite_adapter.go under
  src/schema/parser/infoschema): the rows of the catalog become columns and indexes, and those
  become a schema. A nullable Go pointer in a struct is an \<open>option\<close>.
\<close>

section \<open>Rows of the catalog\<close>

record InfoSchemaTable =
  it_TableCatalog :: string
  it_TableSchema :: string
  it_TableName :: string
  it_TableType :: string
  it_Engine :: string
  it_Version :: "64 word option"
  it_RowFormat :: string
  it_TableRows :: "64 word option"
  it_AvgRowLength :: "64 word option"
  it_DataLength :: "64 word option"
  it_MaxDataLength :: "64 word option"
  it_IndexLength :: "64 word option"
  it_DataFree :: "64 word option"
  it_AutoIncrement :: "64 word option"
  it_CreateTime :: "int option"
  it_UpdateTime :: "int option"
  it_CheckTime :: "int option"
  it_TableCollation :: string
  it_Checksum :: "64 word option"
  it_CreateOptions :: string
  it_TableComment :: string

record InfoSchemaColumn =
  ic_TableCatalog :: string
  ic_TableSchema :: string
  ic_TableName :: string
  ic_ColumnName :: string
  ic_OrdinalPosition :: "64 word"
  ic_ColumnDefault :: "string option"
  ic_IsNullable :: string
  ic_DataType :: string
  ic_CharacterMaximumLength :: "64 word option"
  ic_CharacterOctetLength :: "64 word option"
  ic_NumericPrecision :: "64 word option"
  ic_NumericScale :: "64 word option"
  ic_DatetimePrecision :: "64 word option"
  ic_CharacterSetName :: "string option"
  ic_CollationName :: "string option"
  ic_ColumnType :: string
  ic_ColumnKey :: string
  ic_Extra :: string
  ic_Privileges :: string
  ic_ColumnComment :: string
  ic_GenerationExpression :: string
  ic_SrsId :: "64 word option"

record InfoSchemaIndex =
  ix_TableCatalog :: string
  ix_TableSchema :: string
  ix_TableName :: string
  ix_NonUnique :: "64 word"
  ix_IndexSchema :: string
  ix_IndexName :: string
  ix_SeqInIndex :: "64 word"
  ix_ColumnName :: string
  ix_Collation :: string
  ix_Cardinality :: "64 word option"
  ix_SubPart :: "64 word option"
  ix_Packed :: "string option"
  ix_Nullable :: string
  ix_IndexType :: string
  ix_Comment :: string
  ix_IndexComment :: string
  ix_IsVisible :: string
  ix_Expression :: "string option"

definition str_of :: "goval \<Rightarrow> string" where
  "str_of v = (case v of VStr s \<Rightarrow> s | _ \<Rightarrow> [])"

definition int_of :: "goval \<Rightarrow> 64 word" where
  "int_of v = (case v of VInt i \<Rightarrow> i | _ \<Rightarrow> 0)"

definition bool_of :: "goval \<Rightarrow> bool" where
  "bool_of v = (case v of VBool b \<Rightarrow> b | _ \<Rightarrow> False)"

definition str_ptr :: "goval \<Rightarrow> string option" where
  "str_ptr v = (case v of VPtr (VStr s) \<Rightarrow> Some s | _ \<Rightarrow> None)"

definition int_ptr :: "goval \<Rightarrow> 64 word option" where
  "int_ptr v = (case v of VPtr (VInt i) \<Rightarrow> Some i | _ \<Rightarrow> None)"

definition int64_ptr :: "goval \<Rightarrow> 64 word option" where
  "int64_ptr v = (case v of VPtr (VInt64 i) \<Rightarrow> Some i | _ \<Rightarrow> None)"

definition time_ptr :: "goval \<Rightarrow> int option" where
  "time_ptr v = (case v of VPtr (VTime t) \<Rightarrow> Some t | _ \<Rightarrow> None)"

text \<open>The types of the variables a row is scanned into, and the struct they make up.\<close>

definition table_types :: "gty list" where
  "table_types =
     [TStr, TStr, TStr, TStr, TStr, TPtr TInt64, TStr, TPtr TInt64, TPtr TInt64, TPtr TInt64,
      TPtr TInt64, TPtr TInt64, TPtr TInt64, TPtr TInt64, TPtr TTime, TPtr TTime, TPtr TTime,
      TStr, TPtr TInt64, TStr, TStr]"

definition table_of_row :: "goval list \<Rightarrow> InfoSchemaTable" where
  "table_of_row vs =
     \<lparr>it_TableCatalog = str_of (vs ! 0), it_TableSchema = str_of (vs ! 1),
      it_TableName = str_of (vs ! 2), it_TableType = str_of (vs ! 3),
      it_Engine = str_of (vs ! 4), it_Version = int64_ptr (vs ! 5),
      it_RowFormat = str_of (vs ! 6), it_TableRows = int64_ptr (vs ! 7),
      it_AvgRowLength = int64_ptr (vs ! 8), it_DataLength = int64_ptr (vs ! 9),
      it_MaxDataLength = int64_ptr (vs ! 10), it_IndexLength = int64_ptr (vs ! 11),
      it_DataFree = int64_ptr (vs ! 12), it_AutoIncrement = int64_ptr (vs ! 13),
      it_CreateTime = time_ptr (vs ! 14), it_UpdateTime = time_ptr (vs ! 15),
      it_CheckTime = time_ptr (vs ! 16), it_TableCollation = str_of (vs ! 17),
      it_Checksum = int64_ptr (vs ! 18), it_CreateOptions = str_of (vs ! 19),
      it_TableComment = str_of (vs ! 20)\<rparr>"

definition column_types :: "gty list" where
  "column_types =
     [TStr, TStr, TStr, TStr, TInt, TPtr TStr, TStr, TStr, TPtr TInt, TPtr TInt, TPtr TInt,
      TPtr TInt, TPtr TInt, TPtr TStr, TPtr TStr, TStr, TStr, TStr, TStr, TStr, TStr, TPtr TInt]"

definition column_of_row :: "goval list \<Rightarrow> InfoSchemaColumn" where
  "column_of_row vs =
     \<lparr>ic_TableCatalog = str_of (vs ! 0), ic_TableSchema = str_of (vs ! 1),
      ic_TableName = str_of (vs ! 2), ic_ColumnName = str_of (vs ! 3),
      ic_OrdinalPosition = int_of (vs ! 4), ic_ColumnDefault = str_ptr (vs ! 5),
      ic_IsNullable = str_of (vs ! 6), ic_DataType = str_of (vs ! 7),
      ic_CharacterMaximumLength = int_ptr (vs ! 8), ic_CharacterOctetLength = int_ptr (vs ! 9),
      ic_NumericPrecision = int_ptr (vs ! 10), ic_NumericScale = int_ptr (vs ! 11),
      ic_DatetimePrecision = int_ptr (vs ! 12), ic_CharacterSetName = str_ptr (vs ! 13),
      ic_CollationName = str_ptr (vs ! 14), ic_ColumnType = str_of (vs ! 15),
      ic_ColumnKey = str_of (vs ! 16), ic_Extra = str_of (vs ! 17),
      ic_Privileges = str_of (vs ! 18), ic_ColumnComment = str_of (vs ! 19),
      ic_GenerationExpression = str_of (vs ! 20), ic_SrsId = int_ptr (vs ! 21)\<rparr>"

definition index_types :: "gty list" where
  "index_types =
     [TStr, TStr, TStr, TInt, TStr, TStr, TInt, TStr, TStr, TPtr TInt64, TPtr TInt, TPtr TStr,
      TStr, TStr, TStr, TStr, TStr, TPtr TStr]"

definition index_of_row :: "goval list \<Rightarrow> InfoSchemaIndex" where
  "index_of_row vs =
     \<lparr>ix_TableCatalog = str_of (vs ! 0), ix_TableSchema = str_of (vs ! 1),
      ix_TableName = str_of (vs ! 2), ix_NonUnique = int_of (vs ! 3),
      ix_IndexSchema = str_of (vs ! 4), ix_IndexName = str_of (vs ! 5),
      ix_SeqInIndex = int_of (vs ! 6), ix_ColumnName = str_of (vs ! 7),
      ix_Collation = str_of (vs ! 8), ix_Cardinality = int64_ptr (vs ! 9),
      ix_SubPart = int_ptr (vs ! 10), ix_Packed = str_ptr (vs ! 11),
      ix_Nullable = str_of (vs ! 12), ix_IndexType = str_of (vs ! 13),
      ix_Comment = str_of (vs ! 14), ix_IndexComment = str_of (vs ! 15),
      ix_IsVisible = str_of (vs ! 16), ix_Expression = str_ptr (vs ! 17)\<rparr>"

section \<open>The statements\<close>

definition tables_query :: string where
  "tables_query =
     newline_tabs 2 @ ''SELECT'' @
     newline_tabs 3 @ ''table_catalog, table_schema, table_name, table_type,'' @
     newline_tabs 3 @ ''COALESCE(engine, '' @ [CHR 0x27, CHR 0x27] @ '') as engine,'' @
     newline_tabs 3 @ ''version,'' @
     newline_tabs 3 @ ''COALESCE(row_format, '' @ [CHR 0x27, CHR 0x27] @ '') as row_format,'' @
     newline_tabs 3 @ ''table_rows, avg_row_length, data_length, max_data_length,'' @
     newline_tabs 3 @ ''index_length, data_free, auto_increment,'' @
     newline_tabs 3 @ ''create_time, update_time, check_time,'' @
     newline_tabs 3 @ ''COALESCE(table_collation, '' @ [CHR 0x27, CHR 0x27] @ '') as table_collation,'' @
     newline_tabs 3 @ ''checksum,'' @
     newline_tabs 3 @ ''COALESCE(create_options, '' @ [CHR 0x27, CHR 0x27] @ '') as create_options,'' @
     newline_tabs 3 @ ''COALESCE(table_comment, '' @ [CHR 0x27, CHR 0x27] @ '') as table_comment'' @
     newline_tabs 2 @ ''FROM information_schema.tables'' @
     newline_tabs 2 @ ''WHERE table_schema = ? AND table_type = '' @ [CHR 0x27] @ ''BASE TABLE'' @ [CHR 0x27] @
     newline_tabs 2 @ ''ORDER BY table_name''"

definition columns_query :: string where
  "columns_query =
     newline_tabs 2 @ ''SELECT'' @
     newline_tabs 3 @ ''table_catalog, table_schema, table_name, column_name,'' @
     newline_tabs 3 @ ''ordinal_position, column_default, is_nullable, data_type,'' @
     newline_tabs 3 @ ''character_maximum_length, character_octet_length,'' @
     newline_tabs 3 @ ''numeric_precision, numeric_scale, datetime_precision,'' @
     newline_tabs 3 @ ''character_set_name, collation_name, column_type,'' @
     newline_tabs 3 @ ''column_key, extra, privileges, column_comment,'' @
     newline_tabs 3 @ ''COALESCE(generation_expression, '' @ [CHR 0x27, CHR 0x27] @ '') as generation_expression,'' @
     newline_tabs 3 @ ''srs_id'' @
     newline_tabs 2 @ ''FROM information_schema.columns'' @
     newline_tabs 2 @ ''WHERE table_schema = ? AND table_name = ?'' @
     newline_tabs 2 @ ''ORDER BY ordinal_position''"

definition statistics_query :: string where
  "statistics_query =
     newline_tabs 2 @ ''SELECT'' @
     newline_tabs 3 @ ''table_catalog, table_schema, table_name, non_unique,'' @
     newline_tabs 3 @ ''index_schema, index_name, seq_in_index, column_name,'' @
     newline_tabs 3 @ ''COALESCE(collation, '' @ [CHR 0x27, CHR 0x27] @ '') as collation, cardinality, sub_part,'' @
     newline_tabs 3 @ ''packed, nullable, index_type,'' @
     newline_tabs 3 @ ''COALESCE(comment, '' @ [CHR 0x27, CHR 0x27] @ '') as comment,'' @
     newline_tabs 3 @ ''COALESCE(index_comment, '' @ [CHR 0x27, CHR 0x27] @ '') as index_comment,'' @
     newline_tabs 3 @ ''COALESCE(is_visible, '' @ [CHR 0x27] @ ''YES'' @ [CHR 0x27] @ '') as is_visible,'' @
     newline_tabs 3 @ ''expression'' @
     newline_tabs 2 @ ''FROM information_schema.statistics'' @
     newline_tabs 2 @ ''WHERE table_schema = ? AND table_name = ?'' @
     newline_tabs 2 @ ''ORDER BY index_name, seq_in_index''"

definition databases_query :: string where
  "databases_query = ''SELECT DISTINCT table_schema FROM information_schema.tables WHERE table_type = '' @
     [CHR 0x27] @ ''BASE TABLE'' @ [CHR 0x27] @ '' ORDER BY table_schema''"

definition table_names_query :: string where
  "table_names_query = ''SELECT table_name FROM information_schema.tables WHERE table_schema = ? AND table_type = '' @
     [CHR 0x27] @ ''BASE TABLE'' @ [CHR 0x27] @ '' ORDER BY table_name''"

section \<open>The parser of information_schema (parser.go)\<close>

text \<open>
  \<open>is_range\<close> is the order in which the \<open>range\<close> over the map of indexes visits its keys.
\<close>

record 'd isenv = "'d env" +
  is_range :: "string list \<Rightarrow> string list"

definition parser_getTables :: "('d, 'e) env_scheme \<Rightarrow> nat option \<Rightarrow> string \<Rightarrow>
    (('d, 'z) sqlst_scheme, InfoSchemaTable list) go" where
  "parser_getTables E db databaseName =
     seq (query_all E db tables_query [VStr databaseName] table_types) (\<lambda>vss. ret (map table_of_row vss))"

definition parser_getColumns :: "('d, 'e) env_scheme \<Rightarrow> nat option \<Rightarrow> string \<Rightarrow> string \<Rightarrow>
    (('d, 'z) sqlst_scheme, InfoSchemaColumn list) go" where
  "parser_getColumns E db schemaName tableName =
     seq (query_all E db columns_query [VStr schemaName, VStr tableName] column_types) (\<lambda>vss.
     ret (map column_of_row vss))"

definition parser_getIndexes :: "('d, 'e) env_scheme \<Rightarrow> nat option \<Rightarrow> string \<Rightarrow> string \<Rightarrow>
    (('d, 'z) sqlst_scheme, InfoSchemaIndex list) go" where
  "parser_getIndexes E db schemaName tableName =
     seq (query_all E db statistics_query [VStr schemaName, VStr tableName] index_types) (\<lambda>vss.
     ret (map index_of_row vss))"

definition parser_convertColumn :: "InfoSchemaColumn \<Rightarrow> ColumnData" where
  "parser_convertColumn column = zero_column\<lparr>
     col_Name := ic_ColumnName column,
     col_DataType := ic_DataType column,
     col_Nullable := (ic_IsNullable column = ''YES''),
     col_Comment := ic_ColumnComment column,
     col_Default := (case ic_ColumnDefault column of None \<Rightarrow> VNil | Some d \<Rightarrow> VStr d),
     col_PrimaryKey := (ic_ColumnKey column = ''PRI''),
     col_Unique := (ic_ColumnKey column = ''UNI''),
     col_Index := (ic_ColumnKey column = ''MUL'' \<or> ic_ColumnKey column = ''UNI'' \<or>
       ic_ColumnKey column = ''PRI''),
     col_AutoIncrement := Contains (ToUpper (ic_Extra column)) ''AUTO_INCREMENT''\<rparr>"

text \<open>
  The two maps that the loop over the index rows builds: the columns of each index (only the keys
  are used), and which indexes are unique. \<open>PRIMARY\<close> is left out.
\<close>

fun parser_index_maps :: "InfoSchemaIndex list \<Rightarrow> (string \<times> string list) list \<Rightarrow> (string \<times> bool) list \<Rightarrow>
    (string \<times> string list) list \<times> (string \<times> bool) list" where
  "parser_index_maps [] im um = (im, um)"
| "parser_index_maps (ix # ixs) im um =
     (if ix_IndexName ix = ''PRIMARY'' then parser_index_maps ixs im um
      else parser_index_maps ixs
        (AList.update (ix_IndexName ix)
           ((case map_of im (ix_IndexName ix) of None \<Rightarrow> [] | Some cs \<Rightarrow> cs) @ [ix_ColumnName ix]) im)
        (if ix_NonUnique ix = 0 then AList.update (ix_IndexName ix) True um else um))"

definition add_index :: "bool \<Rightarrow> string \<Rightarrow> TableSchema \<Rightarrow> TableSchema" where
  "add_index uniq name t =
     (let t = t\<lparr>tab_Indexes := tab_Indexes t @ [name]\<rparr>
      in if uniq then t\<lparr>tab_UniqueKeys := tab_UniqueKeys t @ [name]\<rparr> else t)"

definition parser_processIndexes :: "'d isenv \<Rightarrow> TableSchema \<Rightarrow> InfoSchemaIndex list \<Rightarrow> TableSchema" where
  "parser_processIndexes E tableSchema indexes =
     (case parser_index_maps indexes [] [] of (indexMap, uniqueIndexes) \<Rightarrow>
       foldl (\<lambda>t name. add_index (map_of uniqueIndexes name = Some True) name t) tableSchema
         (is_range E (map fst indexMap)))"

definition parser_parseTable :: "'d isenv \<Rightarrow> nat option \<Rightarrow> InfoSchemaTable \<Rightarrow>
    (('d, 'z) sqlst_scheme, TableSchema) go" where
  "parser_parseTable E db table =
     seq (wrapping ''failed to get columns: ''
            (parser_getColumns E db (it_TableSchema table) (it_TableName table))) (\<lambda>columns.
     seq (pure (AddFields ((NewTableSchema (it_TableName table))\<lparr>tab_Comment := it_TableComment table\<rparr>)
            (map parser_convertColumn columns))) (\<lambda>tableSchema.
     seq (wrapping ''failed to get indexes: ''
            (parser_getIndexes E db (it_TableSchema table) (it_TableName table))) (\<lambda>indexes.
     ret (parser_processIndexes E tableSchema indexes))))"

text \<open>The loop that parses the tables one after the other and adds them to the schema.\<close>

fun parse_tables :: "('a \<Rightarrow> string) \<Rightarrow> ('a \<Rightarrow> ('w, TableSchema) go) \<Rightarrow> Schema \<Rightarrow> 'a list \<Rightarrow>
    ('w, Schema) go" where
  "parse_tables nm parse s [] = ret s"
| "parse_tables nm parse s (t # ts) =
     seq (wrapping (''failed to parse table '' @ nm t @ '': '') (parse t)) (\<lambda>tableSchema.
     seq (pure (AddTable s (Some tableSchema))) (\<lambda>s'. parse_tables nm parse s' ts))"

definition parser_ParseSchema :: "'d isenv \<Rightarrow> nat option \<Rightarrow> string \<Rightarrow> (('d, 'z) sqlst_scheme, Schema) go" where
  "parser_ParseSchema E db databaseName =
     seq (pure (SetDatabaseName schema_New databaseName)) (\<lambda>s.
     seq (wrapping ''failed to get tables: '' (parser_getTables E db databaseName)) (\<lambda>tables.
     parse_tables it_TableName (parser_parseTable E db) s tables))"

definition table_missing :: "string \<Rightarrow> string \<Rightarrow> goerr" where
  "table_missing tableName databaseName =
     Err (''table '' @ tableName @ '' not found in database '' @ databaseName)"

definition parser_ParseTableFromName :: "'d isenv \<Rightarrow> nat option \<Rightarrow> string \<Rightarrow> string \<Rightarrow>
    (('d, 'z) sqlst_scheme, TableSchema) go" where
  "parser_ParseTableFromName E db databaseName tableName =
     seq (wrapping ''failed to get tables: '' (parser_getTables E db databaseName)) (\<lambda>tables.
     case filter (\<lambda>t. it_TableName t = tableName) tables of
       t # _ \<Rightarrow> parser_parseTable E db t
     | [] \<Rightarrow> fail (table_missing tableName databaseName))"

definition parser_GetDatabaseNames :: "('d, 'e) env_scheme \<Rightarrow> nat option \<Rightarrow>
    (('d, 'z) sqlst_scheme, string list) go" where
  "parser_GetDatabaseNames E db =
     seq (query_all E db databases_query [] [TStr]) (\<lambda>vss. ret (map (\<lambda>vs. str_of (hd vs)) vss))"

definition parser_GetTableNames :: "('d, 'e) env_scheme \<Rightarrow> nat option \<Rightarrow> string \<Rightarrow>
    (('d, 'z) sqlst_scheme, string list) go" where
  "parser_GetTableNames E db databaseName =
     seq (query_all E db table_names_query [VStr databaseName] [TStr]) (\<lambda>vss.
     ret (map (\<lambda>vs. str_of (hd vs)) vss))"

section \<open>The SQLite adapter (sqlite_adapter.go)\<close>

record SQLiteColumn =
  sc_Name :: string
  sc_Type :: string
  sc_NotNull :: bool
  sc_DefaultValue :: goval
  sc_PrimaryKey :: bool

record SQLiteIndex =
  si_Name :: string
  si_Unique :: bool
  si_Columns :: "string list"

definition lite_tables_query :: string where
  "lite_tables_query = ''SELECT name FROM sqlite_master WHERE type='' @ [CHR 0x27] @ ''table'' @ [CHR 0x27] @
     '' AND name NOT LIKE '' @ [CHR 0x27] @ ''sqlite_%'' @ [CHR 0x27]"

definition lite_getTables :: "('d, 'e) env_scheme \<Rightarrow> nat option \<Rightarrow> (('d, 'z) sqlst_scheme, string list) go" where
  "lite_getTables E db =
     seq (query_all E db lite_tables_query [] [TStr]) (\<lambda>vss. ret (map (\<lambda>vs. str_of (hd vs)) vss))"

definition lite_column_types :: "gty list" where
  "lite_column_types = [TInt, TStr, TStr, TBool, TAny, TBool]"

definition lite_column_of_row :: "goval list \<Rightarrow> SQLiteColumn" where
  "lite_column_of_row vs =
     \<lparr>sc_Name = str_of (vs ! 1), sc_Type = str_of (vs ! 2), sc_NotNull = bool_of (vs ! 3),
      sc_DefaultValue = vs ! 4, sc_PrimaryKey = bool_of (vs ! 5)\<rparr>"

definition lite_getColumns :: "('d, 'e) env_scheme \<Rightarrow> nat option \<Rightarrow> string \<Rightarrow>
    (('d, 'z) sqlst_scheme, SQLiteColumn list) go" where
  "lite_getColumns E db tableName =
     seq (query_all E db (''PRAGMA table_info('' @ tableName @ '')'') [] lite_column_types) (\<lambda>vss.
     ret (map lite_column_of_row vss))"

definition lite_getIndexColumns :: "('d, 'e) env_scheme \<Rightarrow> nat option \<Rightarrow> string \<Rightarrow>
    (('d, 'z) sqlst_scheme, string list) go" where
  "lite_getIndexColumns E db indexName =
     seq (query_all E db (''PRAGMA index_info('' @ indexName @ '')'') [] [TInt, TInt, TStr]) (\<lambda>vss.
     ret (map (\<lambda>vs. str_of (vs ! 2)) vss))"

text \<open>The loop over the names of the indexes, each with a query of its own for the columns.\<close>

fun lite_index_columns :: "('d, 'e) env_scheme \<Rightarrow> nat option \<Rightarrow> (string \<times> bool) list \<Rightarrow>
    (('d, 'z) sqlst_scheme, SQLiteIndex list) go" where
  "lite_index_columns E db [] = ret []"
| "lite_index_columns E db ((name, uniq) # infos) =
     seq (lite_getIndexColumns E db name) (\<lambda>columns.
     seq (lite_index_columns E db infos) (\<lambda>indexes.
     ret (\<lparr>si_Name = name, si_Unique = uniq, si_Columns = columns\<rparr> # indexes)))"

definition lite_getIndexes :: "('d, 'e) env_scheme \<Rightarrow> nat option \<Rightarrow> string \<Rightarrow>
    (('d, 'z) sqlst_scheme, SQLiteIndex list) go" where
  "lite_getIndexes E db tableName =
     seq (query_all E db (''PRAGMA index_list('' @ tableName @ '')'') [] [TInt, TStr, TBool, TStr, TStr]) (\<lambda>vss.
     lite_index_columns E db (map (\<lambda>vs. (str_of (vs ! 1), bool_of (vs ! 2))) vss))"

definition lite_convertColumn :: "SQLiteColumn \<Rightarrow> ColumnData" where
  "lite_convertColumn column = zero_column\<lparr>
     col_Name := sc_Name column,
     col_DataType := sc_Type column,
     col_Nullable := (\<not> sc_NotNull column),
     col_PrimaryKey := sc_PrimaryKey column,
     col_Default := sc_DefaultValue column,
     col_AutoIncrement := (sc_PrimaryKey column \<and> ToUpper (sc_Type column) = ''INTEGER'')\<rparr>"

definition lite_processIndexes :: "TableSchema \<Rightarrow> SQLiteIndex list \<Rightarrow> TableSchema" where
  "lite_processIndexes tableSchema indexes =
     foldl (\<lambda>t ix. if HasPrefix (si_Name ix) ''sqlite_autoindex_'' then t
                  else add_index (si_Unique ix) (si_Name ix) t) tableSchema indexes"

text \<open>\<open>if field, exists := t.Fields[n]; exists { change field; t.Fields[n] = field }\<close>\<close>

definition change_field :: "(ColumnData \<Rightarrow> ColumnData) \<Rightarrow> string \<Rightarrow> TableSchema \<Rightarrow> TableSchema result" where
  "change_field f n t = (case mget (tab_Fields t) n of
      None \<Rightarrow> Ok t
    | Some c \<Rightarrow> rbind (mset_entry (tab_Fields t) n (f c)) (\<lambda>fs. Ok (t\<lparr>tab_Fields := fs\<rparr>)))"

definition mark_unique :: "ColumnData \<Rightarrow> ColumnData" where
  "mark_unique c = c\<lparr>col_Unique := True, col_Index := True\<rparr>"

definition mark_index :: "ColumnData \<Rightarrow> ColumnData" where
  "mark_index c = c\<lparr>col_Index := True\<rparr>"

fun mark_columns :: "string list \<Rightarrow> TableSchema \<Rightarrow> TableSchema result" where
  "mark_columns [] t = Ok t"
| "mark_columns (n # ns) t = rbind (change_field mark_index n t) (mark_columns ns)"

definition lite_constrain :: "SQLiteIndex \<Rightarrow> TableSchema \<Rightarrow> TableSchema result" where
  "lite_constrain index t =
     rbind (case si_Columns index of
              [n] \<Rightarrow> if si_Unique index then change_field mark_unique n t else Ok t
            | _ \<Rightarrow> Ok t)
       (mark_columns (si_Columns index))"

fun lite_updateColumnConstraints :: "SQLiteIndex list \<Rightarrow> TableSchema \<Rightarrow> TableSchema result" where
  "lite_updateColumnConstraints [] t = Ok t"
| "lite_updateColumnConstraints (ix # ixs) t =
     rbind (lite_constrain ix t) (lite_updateColumnConstraints ixs)"

definition lite_parseTable :: "('d, 'e) env_scheme \<Rightarrow> nat option \<Rightarrow> string \<Rightarrow>
    (('d, 'z) sqlst_scheme, TableSchema) go" where
  "lite_parseTable E db tableName =
     seq (wrapping ''failed to get columns: '' (lite_getColumns E db tableName)) (\<lambda>columns.
     seq (pure (AddFields (NewTableSchema tableName) (map lite_convertColumn columns))) (\<lambda>tableSchema.
     seq (wrapping ''failed to get indexes: '' (lite_getIndexes E db tableName)) (\<lambda>indexes.
     pure (lite_updateColumnConstraints indexes (lite_processIndexes tableSchema indexes)))))"

definition lite_ParseSchema :: "('d, 'e) env_scheme \<Rightarrow> nat option \<Rightarrow> string \<Rightarrow>
    (('d, 'z) sqlst_scheme, Schema) go" where
  "lite_ParseSchema E db databaseName =
     seq (pure (SetDatabaseName schema_New databaseName)) (\<lambda>s.
     seq (wrapping ''failed to get tables: '' (lite_getTables E db)) (\<lambda>tables.
     parse_tables (\<lambda>n. n) (lite_parseTable E db) s tables))"

definition lite_ParseTableFromName :: "('d, 'e) env_scheme \<Rightarrow> nat option \<Rightarrow> string \<Rightarrow> string \<Rightarrow>
    (('d, 'z) sqlst_scheme, TableSchema) go" where
  "lite_ParseTableFromName E db databaseName tableName =
     seq (wrapping ''failed to get tables: '' (lite_getTables E db)) (\<lambda>tables.
     if tableName \<in> set tables then lite_parseTable E db tableName
     else fail (table_missing tableName databaseName))"

definition lite_GetTableNames :: "('d, 'e) env_scheme \<Rightarrow> nat option \<Rightarrow> string \<Rightarrow>
    (('d, 'z) sqlst_scheme, string list) go" where
  "lite_GetTableNames E db databaseName = lite_getTables E db"

end
