(* ===== verification/Locking.thy ===== *)
theory Locking
  imports GoSchema
begin

text \<open>
  Goroutines that share one schema (src/schema/schema.go): what each method does to the mutex and to
  the schema, as a list of instructions, and the interleavings of any number of goroutines as a step
  relation. The mutex is the one of \<open>GoSchema\<close>, with the order of \<open>sync.RWMutex\<close>: \<open>Lock\<close> first
  announces a writer, which keeps new readers and other writers out, and then waits for the readers
  that are left. An instruction that would block has no step. After an \<open>Unlock\<close> a new writer may be
  announced before the readers that waited have run; Go lets them in at once, which is the run where they go
  first.
\<close>

section \<open>Programs\<close>

datatype instr =
    ILock
  | IUnlock
  | IRLock
  | IRUnlock
  | ILoad string
  | IStore string TableSchema
  | IName string

fun is_store :: "instr \<Rightarrow> bool" where
  "is_store (IStore n t) = True"
| "is_store (IName n) = True"
| "is_store (ILoad n) = False"
| "is_store ILock = False"
| "is_store IUnlock = False"
| "is_store IRLock = False"
| "is_store IRUnlock = False"

fun is_access :: "instr \<Rightarrow> bool" where
  "is_access (IStore n t) = True"
| "is_access (IName n) = True"
| "is_access (ILoad n) = True"
| "is_access ILock = False"
| "is_access IUnlock = False"
| "is_access IRLock = False"
| "is_access IRUnlock = False"

definition prog_SetDatabaseName :: "string \<Rightarrow> instr list" where
  "prog_SetDatabaseName name = [ILock, IName name, IUnlock]"

definition prog_AddTable :: "TableSchema option \<Rightarrow> instr list" where
  "prog_AddTable table = (case table of
      None \<Rightarrow> []
    | Some t \<Rightarrow> [ILock, IStore (tab_TableName t) t, IUnlock])"

definition prog_GetTable :: "string \<Rightarrow> instr list" where
  "prog_GetTable name = [IRLock, ILoad name, IRUnlock]"

text \<open>
  The head of \<open>Insert\<close>, \<open>Update\<close> and \<open>FindByKey\<close> of the ScyllaDB adapter: \<open>GetTable\<close> inside
  \<open>s.sch.Lock()\<close>.
\<close>

definition prog_scylla :: "string \<Rightarrow> instr list" where
  "prog_scylla name = ILock # prog_GetTable name @ [IUnlock]"

text \<open>What a goroutine holds, and the programs that take and give back one lock at a time.\<close>

datatype held = Free | Reading | Writing

fun disciplined :: "held \<Rightarrow> instr list \<Rightarrow> bool" where
  "disciplined h [] = (h = Free)"
| "disciplined h (i # p) = (case i of
      ILock \<Rightarrow> h = Free \<and> disciplined Writing p
    | IUnlock \<Rightarrow> h = Writing \<and> disciplined Free p
    | IRLock \<Rightarrow> h = Free \<and> disciplined Reading p
    | IRUnlock \<Rightarrow> h = Reading \<and> disciplined Free p
    | ILoad n \<Rightarrow> h \<noteq> Free \<and> disciplined h p
    | IStore n t \<Rightarrow> h = Writing \<and> disciplined h p
    | IName n \<Rightarrow> h = Writing \<and> disciplined h p)"

lemma disciplined_append:
  "disciplined h p \<Longrightarrow> disciplined Free q \<Longrightarrow> disciplined h (p @ q)"
  by (induction h p rule: disciplined.induct) (auto split: instr.splits)

lemma disciplined_methods [simp]:
  "disciplined Free (prog_SetDatabaseName n)"
  "disciplined Free (prog_AddTable t)"
  "disciplined Free (prog_GetTable n)"
  by (simp_all add: prog_SetDatabaseName_def prog_AddTable_def prog_GetTable_def split: option.splits)

lemma not_disciplined_scylla: "\<not> disciplined Free (prog_scylla n)"
  by (simp add: prog_scylla_def prog_GetTable_def)

section \<open>Steps\<close>

text \<open>
  The schema, what is left of each goroutine's program, what it holds, and the writer that is
  announced and waits in \<open>Lock\<close>. A load of a table that is
  not there panics after the deferred \<open>RUnlock\<close> is registered, so it goes on to give the lock back.
\<close>

record conf =
  cf_sch :: Schema
  cf_todo :: "nat \<Rightarrow> instr list"
  cf_held :: "nat \<Rightarrow> held"
  cf_wait :: "nat option"

definition advance :: "conf \<Rightarrow> nat \<Rightarrow> instr list \<Rightarrow> held \<Rightarrow> Schema \<Rightarrow> conf" where
  "advance c i p h s =
     c\<lparr>cf_sch := s, cf_todo := (cf_todo c)(i := p), cf_held := (cf_held c)(i := h)\<rparr>"

inductive step :: "conf \<Rightarrow> conf \<Rightarrow> bool" where
  announce: "cf_todo c i = ILock # p \<Longrightarrow> cf_wait c = None \<Longrightarrow> \<not> mu_writer (sch_mu (cf_sch c)) \<Longrightarrow>
     step c (c\<lparr>cf_wait := Some i\<rparr>)"
| lock: "cf_todo c i = ILock # p \<Longrightarrow> cf_wait c = Some i \<Longrightarrow> schema_Lock (Some (cf_sch c)) = Ok s \<Longrightarrow>
     step c ((advance c i p Writing s)\<lparr>cf_wait := None\<rparr>)"
| unlock: "cf_todo c i = IUnlock # p \<Longrightarrow> schema_Unlock (Some (cf_sch c)) = Ok s \<Longrightarrow>
     step c (advance c i p Free s)"
| rlock: "cf_todo c i = IRLock # p \<Longrightarrow> cf_wait c = None \<Longrightarrow> schema_RLock (Some (cf_sch c)) = Ok s \<Longrightarrow>
     step c (advance c i p Reading s)"
| runlock: "cf_todo c i = IRUnlock # p \<Longrightarrow> schema_RUnlock (Some (cf_sch c)) = Ok s \<Longrightarrow>
     step c (advance c i p Free s)"
| load: "cf_todo c i = ILoad n # p \<Longrightarrow>
     step c (advance c i p (cf_held c i) (cf_sch c))"
| store: "cf_todo c i = IStore n t # p \<Longrightarrow> mset_entry (sch_Tables (cf_sch c)) n t = Ok ts \<Longrightarrow>
     step c (advance c i p (cf_held c i) ((cf_sch c)\<lparr>sch_Tables := ts\<rparr>))"
| name: "cf_todo c i = IName n # p \<Longrightarrow>
     step c (advance c i p (cf_held c i) ((cf_sch c)\<lparr>sch_DatabaseName := n\<rparr>))"

inductive reachable :: "conf \<Rightarrow> conf \<Rightarrow> bool" for c0 where
  start: "reachable c0 c0"
| more: "reachable c0 c \<Longrightarrow> step c c' \<Longrightarrow> reachable c0 c'"

inductive_cases stepE: "step c c'"

lemma advance_simps [simp]:
  "cf_sch (advance c i p h s) = s"
  "cf_todo (advance c i p h s) = (cf_todo c)(i := p)"
  "cf_held (advance c i p h s) = (cf_held c)(i := h)"
  "cf_wait (advance c i p h s) = cf_wait c"
  by (simp_all add: advance_def)

text \<open>A fresh schema with goroutines that have not begun.\<close>

definition fresh :: "(nat \<Rightarrow> instr list) \<Rightarrow> conf" where
  "fresh ps = \<lparr>cf_sch = schema_New, cf_todo = ps, cf_held = (\<lambda>i. Free), cf_wait = None\<rparr>"

definition running :: "conf \<Rightarrow> nat set" where
  "running c = {i. cf_todo c i \<noteq> []}"

definition readers :: "conf \<Rightarrow> nat set" where
  "readers c = {i. cf_held c i = Reading}"

section \<open>The invariant\<close>

text \<open>
  The mutex counts exactly the goroutines that hold it: one writer and no reader, or readers only;
  every remaining program fits what its goroutine holds, and the announced writer is at a \<open>Lock\<close>.
\<close>

definition lock_inv :: "conf \<Rightarrow> bool" where
  "lock_inv c \<longleftrightarrow>
     (\<forall>i. disciplined (cf_held c i) (cf_todo c i)) \<and>
     finite (running c) \<and> finite (readers c) \<and>
     mu_readers (sch_mu (cf_sch c)) = card (readers c) \<and>
     mu_writer (sch_mu (cf_sch c)) = (\<exists>i. cf_held c i = Writing) \<and>
     (\<forall>i j. cf_held c i = Writing \<longrightarrow> i \<noteq> j \<longrightarrow> cf_held c j = Free) \<and>
     sch_Tables (cf_sch c) \<noteq> NilMap \<and>
     (\<forall>i. cf_wait c = Some i \<longrightarrow> (\<exists>p. cf_todo c i = ILock # p))"

lemma lock_inv_fresh:
  assumes "\<And>i. disciplined Free (ps i)" and "finite {i. ps i \<noteq> []}"
  shows "lock_inv (fresh ps)"
  using assms
  by (simp add: lock_inv_def fresh_def running_def readers_def schema_New_def free_mutex_def make_map_def)

lemma mutex_Ok:
  "schema_Lock (Some s) = Ok s' \<longleftrightarrow> \<not> mu_writer (sch_mu s) \<and> mu_readers (sch_mu s) = 0 \<and>
     s' = s\<lparr>sch_mu := (sch_mu s)\<lparr>mu_writer := True\<rparr>\<rparr>"
  "schema_Unlock (Some s) = Ok s' \<longleftrightarrow> mu_writer (sch_mu s) \<and>
     s' = s\<lparr>sch_mu := (sch_mu s)\<lparr>mu_writer := False\<rparr>\<rparr>"
  "schema_RLock (Some s) = Ok s' \<longleftrightarrow> \<not> mu_writer (sch_mu s) \<and>
     s' = s\<lparr>sch_mu := (sch_mu s)\<lparr>mu_readers := Suc (mu_readers (sch_mu s))\<rparr>\<rparr>"
  "schema_RUnlock (Some s) = Ok s' \<longleftrightarrow> 0 < mu_readers (sch_mu s) \<and>
     s' = s\<lparr>sch_mu := (sch_mu s)\<lparr>mu_readers := mu_readers (sch_mu s) - 1\<rparr>\<rparr>"
  by (auto simp: schema_Lock_def schema_Unlock_def schema_RLock_def schema_RUnlock_def
        mu_Lock_def mu_Unlock_def mu_RLock_def mu_RUnlock_def)

text \<open>The sets after one goroutine has moved.\<close>

lemma running_advance: "finite (running c) \<Longrightarrow> finite (running (advance c i p h s))"
  by (rule finite_subset [of _ "insert i (running c)"]) (auto simp: running_def)

lemma conf_wait [simp]:
  "running (c\<lparr>cf_wait := w\<rparr>) = running c" "readers (c\<lparr>cf_wait := w\<rparr>) = readers c"
  by (simp_all add: running_def readers_def)

lemma readers_advance:
  "readers (advance c i p h s) = (if h = Reading then insert i (readers c) else readers c - {i})"
  by (auto simp: readers_def)

lemma no_readers: "finite (readers c) \<Longrightarrow> card (readers c) = 0 \<Longrightarrow> cf_held c i \<noteq> Reading"
  by (auto simp: readers_def)

lemma lock_inv_held:
  assumes "lock_inv c"
  shows "disciplined (cf_held c i) (cf_todo c i)"
    and "cf_held c i = Writing \<Longrightarrow> i \<noteq> j \<Longrightarrow> cf_held c j = Free"
  using assms by (auto simp: lock_inv_def)

lemma lock_inv_announce:
  "lock_inv c \<Longrightarrow> cf_todo c i = ILock # p \<Longrightarrow> lock_inv (c\<lparr>cf_wait := Some i\<rparr>)"
  by (simp add: lock_inv_def)

lemma lock_inv_lock:
  assumes inv: "lock_inv c" and todo: "cf_todo c i = ILock # p"
    and ok: "schema_Lock (Some (cf_sch c)) = Ok s"
  shows "lock_inv ((advance c i p Writing s)\<lparr>cf_wait := None\<rparr>)"
proof -
  have free: "cf_held c j = Free" for j
    using inv ok no_readers [of c j] by (cases "cf_held c j") (auto simp: lock_inv_def mutex_Ok)
  have "disciplined Writing p"
    using lock_inv_held(1) [OF inv, of i] todo by simp
  with inv ok free show ?thesis
    by (auto simp: lock_inv_def mutex_Ok readers_advance running_advance readers_def)
qed

lemma lock_inv_unlock:
  assumes inv: "lock_inv c" and todo: "cf_todo c i = IUnlock # p"
    and ok: "schema_Unlock (Some (cf_sch c)) = Ok s"
  shows "lock_inv (advance c i p Free s)"
proof -
  have d: "disciplined Free p" "cf_held c i = Writing"
    using lock_inv_held(1) [OF inv, of i] todo by simp_all
  have free: "cf_held c j = Free" if "j \<noteq> i" for j
    using lock_inv_held(2) [OF inv d(2), of j] that by simp
  have "disciplined Free (cf_todo c j)" if "j \<noteq> i" for j
    using lock_inv_held(1) [OF inv, of j] free [OF that] by simp
  moreover have "readers c - {i} = readers c"
    using d(2) by (auto simp: readers_def)
  ultimately show ?thesis
    using inv ok d free todo by (auto simp: lock_inv_def mutex_Ok readers_advance running_advance)
qed

lemma lock_inv_rlock:
  assumes inv: "lock_inv c" and todo: "cf_todo c i = IRLock # p"
    and ok: "schema_RLock (Some (cf_sch c)) = Ok s"
  shows "lock_inv (advance c i p Reading s)"
proof -
  have d: "disciplined Reading p" "cf_held c i = Free"
    using lock_inv_held(1) [OF inv, of i] todo by simp_all
  have "i \<notin> readers c" using d(2) by (simp add: readers_def)
  with inv ok d todo show ?thesis
    by (auto simp: lock_inv_def mutex_Ok readers_advance running_advance)
qed

lemma lock_inv_runlock:
  assumes inv: "lock_inv c" and todo: "cf_todo c i = IRUnlock # p"
    and ok: "schema_RUnlock (Some (cf_sch c)) = Ok s"
  shows "lock_inv (advance c i p Free s)"
proof -
  have d: "disciplined Free p" "cf_held c i = Reading"
    using lock_inv_held(1) [OF inv, of i] todo by simp_all
  have "i \<in> readers c" using d(2) by (simp add: readers_def)
  moreover have "cf_held c j \<noteq> Writing" for j
    using lock_inv_held(2) [OF inv, of j i] d(2) by (cases "j = i") auto
  ultimately show ?thesis
    using inv ok d todo by (auto simp: lock_inv_def mutex_Ok readers_advance running_advance)
qed

lemma lock_inv_access:
  assumes inv: "lock_inv c" and todo: "cf_todo c i = a # p" and acc: "is_access a"
    and s: "sch_mu s = sch_mu (cf_sch c)" "sch_Tables s \<noteq> NilMap"
  shows "lock_inv (advance c i p (cf_held c i) s)"
proof -
  have "disciplined (cf_held c i) p"
    using lock_inv_held(1) [OF inv, of i] todo acc by (cases a) auto
  moreover have "a \<noteq> ILock" using acc by auto
  ultimately show ?thesis
    using inv s todo by (auto simp: lock_inv_def readers_advance running_advance insert_absorb readers_def)
qed

lemma lock_inv_tables: "lock_inv c \<Longrightarrow> sch_Tables (cf_sch c) \<noteq> NilMap"
  by (simp add: lock_inv_def)

lemma lock_inv_step: "step c c' \<Longrightarrow> lock_inv c \<Longrightarrow> lock_inv c'"
proof (induction rule: step.induct)
  case (load c i n p)
  then show ?case by (intro lock_inv_access) (auto dest: lock_inv_tables)
next
  case (store c i n t p ts)
  moreover have "ts \<noteq> NilMap" using store(2) by (cases "sch_Tables (cf_sch c)") auto
  ultimately show ?case by (intro lock_inv_access) auto
next
  case (name c i n p)
  then show ?case by (intro lock_inv_access) (auto dest: lock_inv_tables)
qed (auto intro: lock_inv_announce lock_inv_lock lock_inv_unlock lock_inv_rlock lock_inv_runlock)

lemma lock_inv_reachable: "reachable c0 c \<Longrightarrow> lock_inv c0 \<Longrightarrow> lock_inv c"
  by (induction rule: reachable.induct) (auto intro: lock_inv_step)

section \<open>What the mutex gives\<close>

lemma access_held:
  assumes "lock_inv c" and "cf_todo c i = a # p"
  shows "is_access a \<Longrightarrow> cf_held c i \<noteq> Free" and "is_store a \<Longrightarrow> cf_held c i = Writing"
  using lock_inv_held(1) [OF assms(1), of i] assms(2) by (cases a; auto)+

text \<open>Some goroutine can move: one that holds the lock if there is one, any other one if not.\<close>

lemma held_moves:
  assumes inv: "lock_inv c" and held: "cf_held c i \<noteq> Free"
  shows "\<exists>c'. step c c'"
proof -
  have d: "disciplined (cf_held c i) (cf_todo c i)"
    using lock_inv_held(1) [OF inv] .
  with held obtain a p where todo: "cf_todo c i = a # p"
    by (cases "cf_todo c i") auto
  show ?thesis
  proof (cases a)
    case (IStore n t)
    obtain ts where "mset_entry (sch_Tables (cf_sch c)) n t = Ok ts"
      using lock_inv_tables [OF inv] by (cases "sch_Tables (cf_sch c)") auto
    with todo IStore show ?thesis by (blast intro: step.store)
  next
    case IUnlock
    with d todo have "mu_writer (sch_mu (cf_sch c))"
      using inv by (auto simp: lock_inv_def)
    with todo IUnlock show ?thesis by (blast intro: step.unlock iffD2 [OF mutex_Ok(2)])
  next
    case IRUnlock
    with d todo have "i \<in> readers c" by (simp add: readers_def)
    then have "0 < mu_readers (sch_mu (cf_sch c))"
      using inv by (auto simp: lock_inv_def card_gt_0_iff)
    with todo IRUnlock show ?thesis by (blast intro: step.runlock iffD2 [OF mutex_Ok(4)])
  qed (use d held todo in \<open>auto intro: step.load step.name\<close>)
qed

lemma free_moves:
  assumes inv: "lock_inv c" and free: "\<And>j. cf_held c j = Free" and todo: "cf_todo c i \<noteq> []"
  shows "\<exists>c'. step c c'"
proof -
  have mu: "\<not> mu_writer (sch_mu (cf_sch c))" "mu_readers (sch_mu (cf_sch c)) = 0"
    using inv free by (simp_all add: lock_inv_def readers_def)
  show ?thesis
  proof (cases "cf_wait c")
    case None
    obtain a p where ap: "cf_todo c i = a # p" using todo by (cases "cf_todo c i") auto
    have "disciplined Free (a # p)" using lock_inv_held(1) [OF inv, of i] free ap by simp
    then consider "a = ILock" | "a = IRLock" by (cases a) auto
    then show ?thesis
      using ap mu None by cases (blast intro: step.announce step.rlock iffD2 [OF mutex_Ok(3)])+
  next
    case (Some j)
    then obtain p where "cf_todo c j = ILock # p" using inv by (auto simp: lock_inv_def)
    with Some mu show ?thesis by (blast intro: step.lock iffD2 [OF mutex_Ok(1)])
  qed
qed

lemma lock_inv_progress: "lock_inv c \<Longrightarrow> running c \<noteq> {} \<Longrightarrow> \<exists>c'. step c c'"
  using held_moves free_moves by (fastforce simp: running_def)

text \<open>Every instruction is one step, and a \<open>Lock\<close> two: what is left bounds the steps to come.\<close>

definition todo_length :: "conf \<Rightarrow> nat" where
  "todo_length c = (\<Sum>i\<in>running c. length (cf_todo c i))"

definition work :: "conf \<Rightarrow> nat" where
  "work c = 2 * todo_length c - (case cf_wait c of None \<Rightarrow> 0 | Some i \<Rightarrow> 1)"

lemma todo_length_advance:
  assumes todo: "cf_todo c i = a # p" and fin: "finite (running c)"
    and c': "cf_todo c' = (cf_todo c)(i := p)"
  shows "todo_length c = Suc (todo_length c')"
proof -
  let ?R = "running c"
  have i: "i \<in> ?R" using todo by (simp add: running_def)
  have sub: "running c' \<subseteq> ?R" using todo c' by (auto simp: running_def split: if_splits)
  have "todo_length c' = (\<Sum>j\<in>?R. length (cf_todo c' j))"
    unfolding todo_length_def using sub fin by (intro sum.mono_neutral_left) (auto simp: running_def)
  also have "\<dots> = length p + (\<Sum>j\<in>?R - {i}. length (cf_todo c j))"
    using fin i c' by (simp add: sum.remove [of ?R i])
  finally show ?thesis
    using fin i todo by (simp add: todo_length_def sum.remove [of ?R i])
qed

lemma todo_length_pos: "cf_todo c i = a # p \<Longrightarrow> finite (running c) \<Longrightarrow> 0 < todo_length c"
  using todo_length_advance [where c' = "c\<lparr>cf_todo := (cf_todo c)(i := p)\<rparr>"] by fastforce

lemma step_shape:
  "step c c' \<Longrightarrow> \<exists>i a p. cf_todo c i = a # p \<and>
     (cf_todo c' = (cf_todo c)(i := p) \<and> (cf_wait c' = cf_wait c \<or> cf_wait c' = None) \<or>
      cf_todo c' = cf_todo c \<and> running c' = running c \<and> cf_wait c = None \<and> cf_wait c' = Some i)"
  by (erule stepE) (auto split: if_splits)

lemma step_work:
  assumes "step c c'" and fin: "finite (running c)"
  shows "work c' < work c"
proof -
  obtain i a p where t: "cf_todo c i = a # p" and
    c': "cf_todo c' = (cf_todo c)(i := p) \<and> (cf_wait c' = cf_wait c \<or> cf_wait c' = None) \<or>
      cf_todo c' = cf_todo c \<and> running c' = running c \<and> cf_wait c = None \<and> cf_wait c' = Some i"
    using step_shape [OF assms(1)] by blast
  note pos = todo_length_pos [OF t fin]
  show ?thesis
  proof (cases "cf_todo c' = (cf_todo c)(i := p)")
    case True
    with c' t have "cf_wait c' = cf_wait c \<or> cf_wait c' = None" by (auto simp: fun_upd_idem_iff)
    with todo_length_advance [OF t fin True] show ?thesis
      by (auto simp: work_def split: option.splits)
  next
    case False
    with c' pos show ?thesis by (simp add: work_def todo_length_def)
  qed
qed

lemma reachable_power: "(step ^^ n) c0 c \<Longrightarrow> reachable c0 c"
  by (induction n arbitrary: c) (auto intro: reachable.intros)

lemma run_bound: "(step ^^ n) c0 c \<Longrightarrow> lock_inv c0 \<Longrightarrow> n + work c \<le> work c0"
proof (induction n arbitrary: c)
  case (Suc n)
  from Suc.prems(1) obtain b where b: "(step ^^ n) c0 b" "step b c" by auto
  have "lock_inv b" using lock_inv_reachable [OF reachable_power [OF b(1)] Suc.prems(2)] .
  then have "work c < work b" using step_work [OF b(2)] by (simp add: lock_inv_def)
  with Suc.IH [OF b(1) Suc.prems(2)] show ?case by simp
qed simp

text \<open>The tables that are there or that some goroutine is still going to add: none is ever lost.\<close>

definition promised :: "conf \<Rightarrow> string set" where
  "promised c = set (mkeys (sch_Tables (cf_sch c))) \<union> {n. \<exists>i t. IStore n t \<in> set (cf_todo c i)}"

lemma promised_advance:
  assumes "cf_todo c i = a # p" and "\<forall>n t. a = IStore n t \<longrightarrow> n \<in> set (mkeys (sch_Tables (cf_sch c')))"
    and "cf_todo c' = (cf_todo c)(i := p)" and "set (mkeys (sch_Tables (cf_sch c))) \<subseteq> set (mkeys (sch_Tables (cf_sch c')))"
  shows "promised c \<subseteq> promised c'"
proof
  fix n assume "n \<in> promised c"
  then consider "n \<in> set (mkeys (sch_Tables (cf_sch c)))" | j t where "IStore n t \<in> set (cf_todo c j)"
    by (auto simp: promised_def)
  then show "n \<in> promised c'"
    using assms by cases (auto simp: promised_def split: if_splits, metis set_ConsD)
qed

lemma step_promised:
  assumes "step c c'"
  shows "promised c \<subseteq> promised c'"
  using assms
proof cases
  case (announce i p)
  then show ?thesis by (simp add: promised_def)
next
  case (lock i p s)
  then show ?thesis by (intro promised_advance [OF lock(2)]) (auto simp: mutex_Ok)
next
  case (unlock i p s)
  then show ?thesis by (intro promised_advance [OF unlock(2)]) (auto simp: mutex_Ok)
next
  case (rlock i p s)
  then show ?thesis by (intro promised_advance [OF rlock(2)]) (auto simp: mutex_Ok)
next
  case (runlock i p s)
  then show ?thesis by (intro promised_advance [OF runlock(2)]) (auto simp: mutex_Ok)
next
  case (load i n p)
  then show ?thesis by (intro promised_advance [OF load(2)]) auto
next
  case (store i n t p ts)
  then show ?thesis by (intro promised_advance [OF store(2)]) (auto simp: set_mkeys_mset_entry [OF store(3)])
next
  case (name i n p)
  then show ?thesis by (intro promised_advance [OF name(2)]) auto
qed

lemma run_promised: "reachable c0 c \<Longrightarrow> promised c0 \<subseteq> promised c"
  by (induction rule: reachable.induct) (auto dest: step_promised)

text \<open>A configuration without a next step has run every program, and the mutex is free again.\<close>

lemma stuck_done:
  assumes inv: "lock_inv c" and stuck: "\<nexists>c'. step c c'"
  shows "cf_todo c i = []" and "sch_mu (cf_sch c) = free_mutex"
proof -
  have done1: "cf_todo c i = []" for i
    using lock_inv_progress [OF inv] stuck by (auto simp: running_def)
  then show "cf_todo c i = []" .
  have "cf_held c i = Free" for i using lock_inv_held(1) [OF inv, of i] done1 by simp
  then show "sch_mu (cf_sch c) = free_mutex" using inv by (simp add: lock_inv_def readers_def free_mutex_def)
qed

lemma runs_on: "lock_inv c \<Longrightarrow> \<exists>d. reachable c d \<and> (\<forall>i. cf_todo d i = [])"
proof (induction "work c" arbitrary: c rule: less_induct)
  case less
  show ?case
  proof (cases "\<exists>c'. step c c'")
    case True
    then obtain c' where c': "step c c'" by blast
    have "work c' < work c" using step_work [OF c'] less.prems by (simp add: lock_inv_def)
    with less.hyps lock_inv_step [OF c' less.prems] obtain d where d: "reachable c' d" "\<forall>i. cf_todo d i = []" by blast
    have "reachable c d" using d(1) c' by (induction rule: reachable.induct) (blast intro: reachable.intros)+
    with d(2) show ?thesis by blast
  qed (use stuck_done(1) [OF less.prems] reachable.start in blast)
qed

section \<open>A lock inside the lock\<close>

text \<open>
  A goroutine that holds the write lock and wants the read lock of the same mutex: it never moves
  again, and no other goroutine gets the lock.
\<close>

definition self_locked :: "conf \<Rightarrow> nat \<Rightarrow> instr list \<Rightarrow> bool" where
  "self_locked c i p \<longleftrightarrow> cf_todo c i = IRLock # p \<and> mu_writer (sch_mu (cf_sch c)) \<and>
     (\<forall>j. j \<noteq> i \<longrightarrow> cf_held c j = Free \<and> disciplined Free (cf_todo c j))"

lemma self_locked_no_step: "self_locked c i p \<Longrightarrow> \<not> step c c'"
proof
  assume stuck: "self_locked c i p" and "step c c'"
  from this(2) show False
  proof (cases rule: step.cases)
    case (announce j q)
    then show ?thesis using stuck by (simp add: self_locked_def)
  next
    case (lock j q s)
    then show ?thesis using stuck by (auto simp: self_locked_def mutex_Ok)
  next
    case (rlock j q s)
    then show ?thesis using stuck by (auto simp: self_locked_def mutex_Ok)
  next
    case (unlock j q s)
    then show ?thesis using stuck by (cases "j = i") (auto simp: self_locked_def)
  next
    case (runlock j q s)
    then show ?thesis using stuck by (cases "j = i") (auto simp: self_locked_def)
  next
    case (load j n q)
    then show ?thesis using stuck by (cases "j = i") (auto simp: self_locked_def)
  next
    case (store j n t q ts)
    then show ?thesis using stuck by (cases "j = i") (auto simp: self_locked_def)
  next
    case (name j n q)
    then show ?thesis using stuck by (cases "j = i") (auto simp: self_locked_def)
  qed
qed

text \<open>One goroutine put to rest: the steps of the others do not notice.\<close>

definition idle :: "nat \<Rightarrow> conf \<Rightarrow> conf" where
  "idle i c = c\<lparr>cf_todo := (cf_todo c)(i := []), cf_wait := if cf_wait c = Some i then None else cf_wait c\<rparr>"

lemma idle_simps [simp]:
  "cf_sch (idle i c) = cf_sch c"
  "cf_held (idle i c) = cf_held c"
  "cf_todo (idle i c) = (cf_todo c)(i := [])"
  "cf_wait (idle i c) = (if cf_wait c = Some i then None else cf_wait c)"
  by (simp_all add: idle_def)

lemma idle_advance:
  "j \<noteq> i \<Longrightarrow> idle i (advance c j p h s) = advance (idle i c) j p h s"
  "j \<noteq> i \<Longrightarrow> idle i ((advance c j p h s)\<lparr>cf_wait := None\<rparr>) = (advance (idle i c) j p h s)\<lparr>cf_wait := None\<rparr>"
  by (simp_all add: idle_def advance_def fun_upd_twist)

lemma idle_announce:
  "cf_wait c = None \<Longrightarrow> idle i (c\<lparr>cf_wait := Some i\<rparr>) = idle i c"
  "j \<noteq> i \<Longrightarrow> idle i (c\<lparr>cf_wait := Some j\<rparr>) = (idle i c)\<lparr>cf_wait := Some j\<rparr>"
  by (simp_all add: idle_def)

lemma step_others: "step c c' \<Longrightarrow> cf_todo c' i = cf_todo c i \<Longrightarrow> idle i c' = idle i c \<or> step (idle i c) (idle i c')"
proof (induction rule: step.induct)
  case (announce c j p)
  then show ?case
    using step.announce [of "idle i c" j p] by (cases "j = i") (simp_all add: idle_announce)
next
  case (load c j n p)
  then have "j \<noteq> i" by auto
  with load step.load [of "idle i c" j n p] show ?case by (simp add: idle_advance)
next
  case (name c j n p)
  then have "j \<noteq> i" by auto
  with name step.name [of "idle i c" j n p] show ?case by (simp add: idle_advance)
next
  case (store c j n t p ts)
  then have "j \<noteq> i" by auto
  with store step.store [of "idle i c" j n t p ts] show ?case by (simp add: idle_advance)
next
  case (lock c j p s)
  then have "j \<noteq> i" by auto
  with lock step.lock [of "idle i c" j p s] show ?case by (simp add: idle_advance)
next
  case (unlock c j p s)
  then have "j \<noteq> i" by auto
  with unlock step.unlock [of "idle i c" j p s] show ?case by (simp add: idle_advance)
next
  case (rlock c j p s)
  then have "j \<noteq> i" by auto
  with rlock step.rlock [of "idle i c" j p s] show ?case by (simp add: idle_advance)
next
  case (runlock c j p s)
  then have "j \<noteq> i" by auto
  with runlock step.runlock [of "idle i c" j p s] show ?case by (simp add: idle_advance)
qed

lemma step_lock_self:
  assumes "step c c'" and "cf_todo c i = ILock # p" and "cf_todo c' i \<noteq> cf_todo c i"
  obtains s where "schema_Lock (Some (cf_sch c)) = Ok s" and "c' = (advance c i p Writing s)\<lparr>cf_wait := None\<rparr>"
  using assms by (elim stepE) (auto split: if_splits)

lemma scylla_stuck:
  assumes "reachable c0 c" and "cf_todo c0 i = ILock # IRLock # p" and "lock_inv (idle i c0)"
  shows "(cf_todo c i = ILock # IRLock # p \<and> lock_inv (idle i c)) \<or> self_locked c i p"
  using assms
proof (induction rule: reachable.induct)
  case (more c c')
  then consider (before) "cf_todo c i = ILock # IRLock # p" "lock_inv (idle i c)"
    | (stuck) "self_locked c i p" by blast
  then show ?case
  proof cases
    case before
    show ?thesis
    proof (cases "cf_todo c' i = cf_todo c i")
      case True
      with before more.hyps step_others lock_inv_step show ?thesis by metis
    next
      case False
      then obtain s where s: "schema_Lock (Some (cf_sch c)) = Ok s" "c' = (advance c i (IRLock # p) Writing s)\<lparr>cf_wait := None\<rparr>"
        using step_lock_self [OF more.hyps(2) before(1)] by blast
      have "cf_held c j = Free" for j
        using before(2) s(1) no_readers [of "idle i c" j]
        by (cases "cf_held c j") (auto simp: lock_inv_def mutex_Ok)
      moreover from this have "disciplined Free (cf_todo c j)" if "j \<noteq> i" for j
        using lock_inv_held(1) [OF before(2), of j] that by simp
      ultimately show ?thesis
        using s by (auto simp: self_locked_def mutex_Ok)
    qed
  qed (use more.hyps(2) self_locked_no_step in blast)
qed simp

section \<open>Properties\<close>

text \<open>The calls of one goroutine, and a fresh schema with one goroutine for each list of calls.\<close>

datatype call = SetName string | Add "TableSchema option" | Get string

fun prog_of :: "call \<Rightarrow> instr list" where
  "prog_of (SetName n) = prog_SetDatabaseName n"
| "prog_of (Add t) = prog_AddTable t"
| "prog_of (Get n) = prog_GetTable n"

definition prog_calls :: "call list \<Rightarrow> instr list" where
  "prog_calls cs = concat (map prog_of cs)"

definition goroutines :: "instr list list \<Rightarrow> conf" where
  "goroutines ps = fresh (\<lambda>i. if i < length ps then ps ! i else [])"

lemma disciplined_calls [simp]: "disciplined Free (prog_calls cs)"
proof (induction cs)
  case (Cons x cs)
  then show ?case by (cases x) (simp_all add: prog_calls_def disciplined_append)
qed (simp add: prog_calls_def)

lemma lock_inv_goroutines: "lock_inv (goroutines (map prog_calls css))"
  unfolding goroutines_def
proof (rule lock_inv_fresh)
  show "finite {i. (if i < length (map prog_calls css) then map prog_calls css ! i else []) \<noteq> []}"
    by (rule finite_subset [of _ "{..<length css}"]) auto
qed simp

lemma lock_inv_idle_goroutines:
  "lock_inv (idle 0 (goroutines (p # map prog_calls css)))"
proof -
  let ?ps = "[] # map prog_calls css"
  have "idle 0 (goroutines (p # map prog_calls css)) = goroutines ?ps"
    by (auto simp: idle_def goroutines_def fresh_def)
  also have "goroutines ?ps = goroutines (map prog_calls ([] # css))"
    by (simp add: prog_calls_def)
  finally show ?thesis by (simp only: lock_inv_goroutines)
qed

text \<open>C16: Goroutines that call SetDatabaseName, AddTable and GetTable on one schema, any number of them,
  any number of calls each and in any interleaving, never race: when one of them is about to change
  the schema, no other one is about to read or change it.\<close>

theorem no_data_race:
  assumes run: "reachable (goroutines (map prog_calls css)) c"
    and i: "cf_todo c i = a # p" and j: "cf_todo c j = b # q"
    and store: "is_store a" and acc: "is_access b"
  shows "i = j"
proof -
  have inv: "lock_inv c" using run lock_inv_goroutines by (rule lock_inv_reachable)
  show ?thesis
    using access_held(2) [OF inv i store] access_held(1) [OF inv j acc] lock_inv_held(2) [OF inv] by metis
qed

lemma promised_calls:
  assumes "cs \<in> set css" and "Add (Some t) \<in> set cs"
  shows "tab_TableName t \<in> promised (goroutines (map prog_calls css))"
proof -
  obtain i where i: "i < length css" "cs = css ! i" using assms(1) by (auto simp: in_set_conv_nth)
  have "IStore (tab_TableName t) t \<in> set (prog_calls cs)"
    using assms(2) by (force simp: prog_calls_def prog_AddTable_def)
  with i show ?thesis by (auto simp: promised_def goroutines_def fresh_def intro!: exI [of _ i])
qed

lemma work_calls: "work (goroutines (map prog_calls css)) = 2 * (\<Sum>cs\<leftarrow>css. length (prog_calls cs))"
proof -
  let ?c = "goroutines (map prog_calls css)"
  have todo: "cf_todo ?c i = (if i < length css then prog_calls (css ! i) else [])" for i
    by (simp add: goroutines_def fresh_def)
  have "todo_length ?c = (\<Sum>i<length css. length (cf_todo ?c i))"
    unfolding todo_length_def by (intro sum.mono_neutral_left) (auto simp: running_def todo split: if_splits)
  also have "\<dots> = (\<Sum>cs\<leftarrow>css. length (prog_calls cs))"
    by (simp add: todo sum_list_sum_nth atLeast0LessThan)
  finally show ?thesis by (simp add: work_def goroutines_def fresh_def)
qed


text \<open>
  The order of the mutex matters: a goroutine that took the read lock twice, one inside the other,
  could block for ever with a writer that is announced in between.
\<close>

theorem nested_read_blocks:
  "\<exists>c. reachable (goroutines [IRLock # prog_GetTable n @ [IRUnlock], prog_SetDatabaseName d]) c \<and>
     cf_todo c 0 \<noteq> [] \<and> cf_todo c 1 \<noteq> [] \<and> (\<nexists>c'. step c c')"
proof -
  let ?c0 = "goroutines [IRLock # prog_GetTable n @ [IRUnlock], prog_SetDatabaseName d]"
  let ?c1 = "advance ?c0 0 (prog_GetTable n @ [IRUnlock]) Reading (schema_New\<lparr>sch_mu := \<lparr>mu_readers = 1, mu_writer = False\<rparr>\<rparr>)"
  let ?c2 = "?c1\<lparr>cf_wait := Some 1\<rparr>"
  have "step ?c0 ?c1"
    by (rule step.rlock) (simp_all add: goroutines_def fresh_def mutex_Ok schema_New_def free_mutex_def)
  moreover have "step ?c1 ?c2"
    by (rule step.announce) (simp_all add: goroutines_def fresh_def prog_SetDatabaseName_def)
  ultimately have "reachable ?c0 ?c2" by (blast intro: reachable.intros)
  moreover have "\<not> step ?c2 c'" for c'
    by (auto elim!: stepE simp: goroutines_def fresh_def prog_GetTable_def prog_SetDatabaseName_def mutex_Ok split: if_splits)
  ultimately show ?thesis
    by (intro exI [of _ ?c2]) (simp add: goroutines_def fresh_def prog_GetTable_def prog_SetDatabaseName_def)
qed

text \<open>C18: A goroutine that runs Insert, Update or FindByKey of the ScyllaDB adapter beside any goroutines
  that use the schema: in every configuration reached it has not begun, or nothing at all can move
  any more, with the goroutine waiting for the read lock inside its own write lock.\<close>

theorem scylla_deadlocks:
  assumes run: "reachable (goroutines ((prog_scylla n @ rest) # map prog_calls css)) c"
  shows "cf_todo c 0 = prog_scylla n @ rest \<or>
    (cf_todo c 0 = prog_GetTable n @ IUnlock # rest \<and> (\<nexists>c'. step c c'))"
proof -
  let ?init = "goroutines ((prog_scylla n @ rest) # map prog_calls css)"
  let ?p = "ILoad n # IRUnlock # IUnlock # rest"
  have "cf_todo ?init 0 = ILock # IRLock # ?p"
    by (simp add: goroutines_def fresh_def prog_scylla_def prog_GetTable_def)
  from scylla_stuck [OF run this lock_inv_idle_goroutines] show ?thesis
    using self_locked_no_step [of c 0 ?p] by (auto simp: self_locked_def prog_scylla_def prog_GetTable_def)
qed

section \<open>Witnesses\<close>

text \<open>Two goroutines, the first of which has taken the write lock.\<close>

definition two_calls :: "instr list list" where
  "two_calls = map prog_calls [[SetName ''shop''], [Get ''people'', Add None]]"

definition two_conf :: conf where
  "two_conf = advance (goroutines two_calls) 0 [IName ''shop'', IUnlock] Writing
     (schema_New\<lparr>sch_mu := \<lparr>mu_readers = 0, mu_writer = True\<rparr>\<rparr>)"

text \<open>A goroutine takes the write lock of a schema that nobody uses.\<close>

lemma takes_lock:
  assumes "cf_todo c i = ILock # p" and "cf_wait c = None" and "cf_sch c = schema_New"
  shows "(step ^^ 2) c (advance c i p Writing (schema_New\<lparr>sch_mu := \<lparr>mu_readers = 0, mu_writer = True\<rparr>\<rparr>))"
proof -
  let ?s = "schema_New\<lparr>sch_mu := \<lparr>mu_readers = 0, mu_writer = True\<rparr>\<rparr>"
  have "step c (c\<lparr>cf_wait := Some i\<rparr>)"
    using assms by (intro step.announce) (simp_all add: schema_New_def free_mutex_def)
  moreover have "step (c\<lparr>cf_wait := Some i\<rparr>) ((advance (c\<lparr>cf_wait := Some i\<rparr>) i p Writing ?s)\<lparr>cf_wait := None\<rparr>)"
    using assms by (intro step.lock) (simp_all add: mutex_Ok schema_New_def free_mutex_def)
  moreover have "(advance (c\<lparr>cf_wait := Some i\<rparr>) i p Writing ?s)\<lparr>cf_wait := None\<rparr> = advance c i p Writing ?s"
    using assms(2) by (simp add: advance_def)
  ultimately show ?thesis by (auto simp: numeral_2_eq_2)
qed

lemma two_conf_run: "(step ^^ 2) (goroutines two_calls) two_conf"
  unfolding two_conf_def
  by (rule takes_lock) (simp_all add: goroutines_def fresh_def two_calls_def prog_calls_def prog_SetDatabaseName_def)

lemmas two_conf_reached = reachable_power [OF two_conf_run]

lemma two_conf_todo:
  "cf_todo two_conf 0 = IName ''shop'' # [IUnlock]"
  "cf_todo two_conf 1 = IRLock # [ILoad ''people'', IRUnlock]"
  by (simp_all add: two_conf_def goroutines_def fresh_def two_calls_def prog_calls_def
        prog_GetTable_def prog_AddTable_def)

lemma no_data_race_witness:
  "cf_todo two_conf 0 = IName ''shop'' # [IUnlock] \<and> is_store (IName ''shop'') \<and> (0::nat) = 0"
  using two_conf_todo(1) no_data_race [OF two_conf_reached [unfolded two_calls_def] two_conf_todo(1) two_conf_todo(1)]
  by simp


lemma scylla_deadlocks_witness:
  "\<exists>c. reachable (goroutines [prog_scylla ''people'' @ [], prog_calls [Get ''people'']]) c \<and>
     cf_todo c 0 = prog_GetTable ''people'' @ [IUnlock] \<and> (\<nexists>c'. step c c')"
proof -
  let ?init = "goroutines ((prog_scylla ''people'' @ []) # map prog_calls [[Get ''people'']])"
  let ?c = "advance ?init 0 (prog_GetTable ''people'' @ [IUnlock]) Writing
     (schema_New\<lparr>sch_mu := \<lparr>mu_readers = 0, mu_writer = True\<rparr>\<rparr>)"
  have run: "reachable ?init ?c"
    by (rule reachable_power, rule takes_lock) (simp_all add: goroutines_def fresh_def prog_scylla_def)
  with scylla_deadlocks [OF run] show ?thesis
    by (intro exI [of _ ?c]) (simp add: prog_scylla_def)
qed

end
