(* ===== verification/CommonProps.thy ===== *)
theory CommonProps
  imports Common
begin

text \<open>
  What the shared parts of \<open>storage/common\<close> compute: the columns, placeholders and values of INSERT and
  UPDATE, and the object that a scanned row becomes.
\<close>

section \<open>What the loops compute\<close>

text \<open>The fields that become columns of their own: all but \<open>id\<close> in any letter case.\<close>

definition non_id :: "(string \<times> goval) list \<Rightarrow> (string \<times> goval) list" where
  "non_id fs = filter (\<lambda>(n, v). ToLower n \<noteq> ''id'') fs"

lemma non_id_simps [simp]:
  "non_id [] = []"
  "non_id ((n, v) # fs) = (if ToLower n = ''id'' then non_id fs else (n, v) # non_id fs)"
  by (simp_all add: non_id_def)

text \<open>The value bound for one field: the column exists and its encoding succeeds.\<close>

definition binds :: "(string \<Rightarrow> ColumnData \<Rightarrow> goval \<Rightarrow> goval result) \<Rightarrow> TableSchema \<Rightarrow>
    string \<times> goval \<Rightarrow> goval \<Rightarrow> bool" where
  "binds enc tbl nv u \<longleftrightarrow> (\<exists>c. mget (tab_Fields tbl) (fst nv) = Some c \<and> enc (fst nv) c (snd nv) = Ok u)"

text \<open>The indexes i, i + 1, ... of n placeholders.\<close>

fun count_from :: "nat \<Rightarrow> nat \<Rightarrow> nat list" where
  "count_from i 0 = []"
| "count_from i (Suc n) = i # count_from (Suc i) n"

lemma count_from_upt: "count_from i n = [i..<i + n]"
  by (induction n arbitrary: i) (simp_all add: upt_conv_Cons)

lemma length_count_from [simp]: "length (count_from i n) = n"
  by (simp add: count_from_upt)

lemma insert_loop_iff:
  "insert_loop enc quote ph tbl i fs = Ok (cs, ps, vs) \<longleftrightarrow>
     cs = map (\<lambda>nv. quote (fst nv)) (non_id fs) \<and>
     ps = map ph (count_from i (length (non_id fs))) \<and>
     list_all2 (binds enc tbl) (non_id fs) vs"
proof (induction fs arbitrary: i cs ps vs)
  case (Cons nv fs)
  obtain n v where nv: "nv = (n, v)" by force
  show ?case
  proof (cases "ToLower n = ''id''")
    case False
    show ?thesis
    proof (cases "mget (tab_Fields tbl) n")
      case None
      with nv False show ?thesis by (simp add: binds_def list_all2_Cons1)
    next
      case (Some c)
      with nv False Cons.IH [of "Suc i"] show ?thesis
        by (auto simp: binds_def list_all2_Cons1)
    qed
  qed (simp add: nv Cons.IH)
qed auto

lemma update_loop_eq:
  "update_loop enc clause i fs =
     (map2 (\<lambda>nv k. clause (fst nv) k) (non_id fs) (count_from i (length (non_id fs))),
      map (\<lambda>nv. enc (fst nv) (snd nv)) (non_id fs))"
proof (induction fs arbitrary: i)
  case (Cons nv fs)
  obtain n v where nv: "nv = (n, v)" by force
  show ?case
    by (cases "ToLower n = ''id''") (simp_all add: nv Cons.IH)
qed simp

text \<open>Values paired with a reordering of the fields are reordered in the same way.\<close>

lemma list_all2_reorder:
  assumes "mset xs' = mset xs" and "list_all2 P xs ys"
  shows "\<exists>ys'. list_all2 P xs' ys' \<and> mset (zip xs' ys') = mset (zip xs ys)"
proof -
  have "list_all2 (\<lambda>x z. x = fst z \<and> P (fst z) (snd z)) xs (zip xs ys)"
    using assms(2) by (induction rule: list_all2_induct) auto
  from list_all2_reorder_left_invariance [OF this assms(1)]
  obtain zs where zs: "list_all2 (\<lambda>x z. x = fst z \<and> P (fst z) (snd z)) xs' zs"
      "mset zs = mset (zip xs ys)" by blast
  from zs(1) have "list_all2 P xs' (map snd zs)" and "zip xs' (map snd zs) = zs"
    by (induction rule: list_all2_induct) auto
  with zs(2) show ?thesis by (intro exI [of _ "map snd zs"]) simp
qed

lemma prepare_insert_iff:
  "PrepareInsertData L obj tbl ph = Ok (cs, ps, vs) \<longleftrightarrow>
     cs = ''id'' # map fst (non_id (entries (obj_Fields obj))) \<and>
     ps = map ph (count_from 1 (length cs)) \<and>
     (\<exists>us. vs = VStr (obj_ID obj) # us \<and>
       list_all2 (binds (bind_value L) tbl) (non_id (entries (obj_Fields obj))) us)"
  by (auto simp: PrepareInsertData_def insert_loop_iff numeral_2_eq_2)

text \<open>C26: PrepareInsertData succeeds exactly when every field but the identifier is a column of the table
  and can be bound; then the columns are id and the field names in the order of the range, the
  placeholders are numbered from 1 in step with them, and the values are the identifier and the
  bound field values.\<close>

theorem PrepareInsertData_iff:
  "PrepareInsertData L obj tbl ph = Ok (cs, ps, vs) \<longleftrightarrow>
     cs = ''id'' # map fst (non_id (entries (obj_Fields obj))) \<and>
     ps = map ph (count_from 1 (length cs)) \<and>
     (\<exists>us. vs = VStr (obj_ID obj) # us \<and>
       list_all2 (binds (bind_value L) tbl) (non_id (entries (obj_Fields obj))) us)"
  by (rule prepare_insert_iff)

text \<open>The order in which Go visits the fields of an object is unspecified: for any two orders
  PrepareInsertData gives the same placeholders and the same pairs of a column and its value.\<close>

theorem PrepareInsertData_order:
  assumes "mset (entries (obj_Fields o2)) = mset (entries (obj_Fields o1))" and "obj_ID o2 = obj_ID o1"
    and "PrepareInsertData L o1 tbl ph = Ok (cs, ps, vs)"
  shows "\<exists>cs' vs'. PrepareInsertData L o2 tbl ph = Ok (cs', ps, vs') \<and>
           mset (zip cs' vs') = mset (zip cs vs)"
proof -
  let ?n1 = "non_id (entries (obj_Fields o1))" and ?n2 = "non_id (entries (obj_Fields o2))"
  obtain us where us: "vs = VStr (obj_ID o1) # us" "list_all2 (binds (bind_value L) tbl) ?n1 us"
    and cs: "cs = ''id'' # map fst ?n1" and ps: "ps = map ph (count_from 1 (length cs))"
    using assms(3) by (auto simp: prepare_insert_iff)
  have perm: "mset ?n2 = mset ?n1" using assms(1) by (simp add: non_id_def)
  from list_all2_reorder [OF this us(2)] obtain us'
    where us': "list_all2 (binds (bind_value L) tbl) ?n2 us'" "mset (zip ?n2 us') = mset (zip ?n1 us)"
    by blast
  have "mset (zip (map fst ?n2) us') = mset (zip (map fst ?n1) us)"
    using arg_cong [OF us'(2), of "image_mset (\<lambda>(nv, u). (fst nv, u))"]
    by (simp add: zip_map1 case_prod_unfold)
  moreover have "length ?n2 = length ?n1" using perm by (rule mset_eq_length)
  ultimately show ?thesis
    using assms(2) us us' cs ps by (auto simp: prepare_insert_iff)
qed

lemma map2_first: "length ks = length xs \<Longrightarrow> map2 (\<lambda>x k. g x) xs ks = map g xs"
  by (simp add: list_eq_iff_nth_eq)

lemma prepare_update_eq:
  "PrepareUpdateData obj ph =
     (if mlen (obj_Fields obj) = 0 then Panic ''runtime error: makeslice: cap out of range''
      else let fs = non_id (entries (obj_Fields obj))
           in Ok (map2 (\<lambda>nv k. fst nv @ '' = '' @ ph k) fs (count_from 1 (length fs)),
                  map snd fs @ [VStr (obj_ID obj)]))"
  by (simp add: PrepareUpdateData_def make_set_clauses_def update_loop_eq Let_def)

text \<open>The clauses and values of an UPDATE; an object without any field panics.\<close>

theorem PrepareUpdateData_eq:
  "PrepareUpdateData obj ph =
     (if mlen (obj_Fields obj) = 0 then Panic ''runtime error: makeslice: cap out of range''
      else let fs = non_id (entries (obj_Fields obj))
           in Ok (map2 (\<lambda>nv k. fst nv @ '' = '' @ ph k) fs (count_from 1 (length fs)),
                  map snd fs @ [VStr (obj_ID obj)]))"
  by (rule prepare_update_eq)

text \<open>A field of a JSON column that an INSERT binds as its JSON text is bound as the Go value itself by an
  UPDATE of the same object.\<close>

theorem json_field_bound_raw_on_update:
  assumes "(n, v) \<in> set (entries (obj_Fields obj))" and "ToLower n \<noteq> ''id''"
    and "mget (tab_Fields tbl) n = Some c" and "ToLower (col_DataType c) = ''json''"
    and "PrepareInsertData L obj tbl ph = Ok (cs, ps, vs)"
  shows "\<exists>j. lib_json_value L v = Ok j \<and> (n, VStr j) \<in> set (zip cs vs) \<and>
    (\<exists>ss us. PrepareUpdateData obj ph = Ok (ss, us) \<and> v \<in> set us)"
proof -
  let ?fs = "non_id (entries (obj_Fields obj))"
  obtain us where us: "vs = VStr (obj_ID obj) # us" "list_all2 (binds (bind_value L) tbl) ?fs us"
    and cs: "cs = ''id'' # map fst ?fs"
    using assms(5) by (auto simp: prepare_insert_iff)
  have mem: "(n, v) \<in> set ?fs" using assms(1,2) by (simp add: non_id_def)
  then obtain k where k: "k < length ?fs" "?fs ! k = (n, v)" by (auto simp: in_set_conv_nth)
  with us(2) have "binds (bind_value L) tbl (n, v) (us ! k)" by (auto simp: list_all2_conv_all_nth)
  with assms(3,4) obtain j where j: "lib_json_value L v = Ok j" "us ! k = VStr j"
    by (auto simp: binds_def bind_value_def)
  have "(n, VStr j) \<in> set (zip (map fst ?fs) us)"
    using k j us(2) by (auto simp: in_set_zip list_all2_conv_all_nth intro!: exI [of _ k])
  moreover have "v \<in> set (map snd ?fs)" using mem by force
  moreover have "mlen (obj_Fields obj) \<noteq> 0" using assms(1) by (auto simp: mlen_def)
  ultimately show ?thesis
    using j us cs by (auto simp: prepare_update_eq Let_def)
qed

section \<open>Scanning a row into an object\<close>

text \<open>What a scanned cell holds once the pointer of a nullable column is followed.\<close>

definition plain :: "cell \<Rightarrow> goval" where
  "plain c = (case cell_value c of VPtr v \<Rightarrow> v | VNilPtr t \<Rightarrow> VNil | v \<Rightarrow> v)"

lemma fill_fields_all:
  assumes "list_all2 (\<lambda>(n, t, c) v. sw (field_of F n) t c = Ok (Some v)) (zip ns (zip ts cs)) vs"
    and "length ts = length ns" and "length cs = length ns" and "m \<noteq> NilMap" and "wf_map m"
  shows "\<exists>m'. fill_fields sw F ns ts cs m = Ok m' \<and> m' \<noteq> NilMap \<and> wf_map m' \<and>
    mget m' = mget m ++ map_of (rev (zip (map (\<lambda>n. col_Name (field_of F n)) ns) vs))"
  using assms
proof (induction ns arbitrary: ts cs vs m)
  case (Cons n ns)
  obtain t ts1 c cs1 where tc: "ts = t # ts1" "cs = c # cs1"
    using Cons.prems by (cases ts; cases cs) auto
  with Cons.prems(1) obtain v vs1 where v: "vs = v # vs1" "sw (field_of F n) t c = Ok (Some v)"
    and rest: "list_all2 (\<lambda>(n, t, c) v. sw (field_of F n) t c = Ok (Some v)) (zip ns (zip ts1 cs1)) vs1"
    by (auto simp: list_all2_Cons1)
  obtain m1 where m1: "mset_entry m (col_Name (field_of F n)) v = Ok m1" "m1 \<noteq> NilMap"
    using Cons.prems(4) by (cases m) auto
  from Cons.IH [OF rest _ _ m1(2) wf_mset_entry [OF m1(1) Cons.prems(5)]] tc Cons.prems(2,3) obtain m' where
    "fill_fields sw F ns ts1 cs1 m1 = Ok m'" "m' \<noteq> NilMap" "wf_map m'"
    "mget m' = mget m1 ++ map_of (rev (zip (map (\<lambda>n. col_Name (field_of F n)) ns) vs1))"
    by auto
  with tc v m1 mget_mset_entry [OF m1(1)] show ?case
    by (simp add: store_field_def)
qed simp

lemma scanner_value_plain:
  assumes "cell_type c = cell_type (scanner_pointer f)" and "well_typed_cell c"
  shows "scanner_value f (col_DataType f) c = Ok (Some (plain c))"
proof -
  obtain t v where c: "c = Cell t v" by (cases c)
  have "col_kind f = kind_of (ToUpper (col_DataType f))" by (simp add: col_kind_def)
  with assms c show ?thesis
    by (cases "kind_of (ToUpper (col_DataType f))"; cases "col_Nullable f"; cases v)
       (simp_all add: scanner_value_def scanner_pointer_def nullable_cell_def assigns_def read_cell_def
          deref_as_def deref_nullable_def well_typed_cell_def plain_def split: goval.splits)
qed

lemma wf_table_field:
  assumes "wf_table tbl" and "n \<in> set (tab_FieldOrder tbl)"
  shows "mget (tab_Fields tbl) n = Some (field_of (tab_Fields tbl) n)"
    and "col_Name (field_of (tab_Fields tbl) n) = n"
proof -
  from assms obtain c where c: "mget (tab_Fields tbl) n = Some c"
    unfolding wf_table_def using mget_None_iff [of "tab_Fields tbl" n] by auto
  with assms(1) show "mget (tab_Fields tbl) n = Some (field_of (tab_Fields tbl) n)"
    and "col_Name (field_of (tab_Fields tbl) n) = n"
    by (auto simp: field_of_def wf_table_def)
qed

lemma wf_table_names:
  "wf_table tbl \<Longrightarrow> map (\<lambda>n. col_Name (field_of (tab_Fields tbl) n)) (tab_FieldOrder tbl) = tab_FieldOrder tbl"
  by (simp add: wf_table_field(2) map_idI)

lemma NewFieldScanner_simps [simp]:
  "fs_ColumnPointers (NewFieldScanner tbl) = map (\<lambda>n. scanner_pointer (field_of (tab_Fields tbl) n)) (tab_FieldOrder tbl)"
  "fs_FieldTypes (NewFieldScanner tbl) = map (\<lambda>n. col_DataType (field_of (tab_Fields tbl) n)) (tab_FieldOrder tbl)"
  "fs_FieldNames (NewFieldScanner tbl) = tab_FieldOrder tbl"
  "fs_Fields (NewFieldScanner tbl) = tab_Fields tbl"
  by (simp_all add: NewFieldScanner_def Let_def)

lemma GetColumns_wf: "wf_table tbl \<Longrightarrow> GetColumns (NewFieldScanner tbl) = tab_FieldOrder tbl"
  by (simp add: GetColumns_def wf_table_names)

lemma scanner_cells_well_typed: "list_all well_typed_cell (fs_ColumnPointers (NewFieldScanner tbl))"
  by (auto simp: list_all_iff scanner_pointer_def nullable_cell_def split: kind.splits)

text \<open>The column kinds that are scanned into a string, so that an identifier can be read from them.\<close>

definition string_kind :: "kind \<Rightarrow> bool" where
  "string_kind k \<longleftrightarrow> k \<noteq> KInt \<and> k \<noteq> KReal \<and> k \<noteq> KBlob \<and> k \<noteq> KBool"

lemma plain_string:
  assumes "cell_type c = cell_type (scanner_pointer f)" and "well_typed_cell c" and "string_kind (col_kind f)"
  shows "plain c = VNil \<or> (\<exists>s. plain c = VStr s)"
proof -
  obtain t v where c: "c = Cell t v" by (cases c)
  with assms show ?thesis
    by (cases "col_kind f"; cases "col_Nullable f"; cases v)
       (simp_all add: scanner_pointer_def nullable_cell_def well_typed_cell_def plain_def string_kind_def
          split: goval.splits)
qed

definition object_of :: "string \<Rightarrow> string list \<Rightarrow> goval list \<Rightarrow> Object \<Rightarrow> bool" where
  "object_of T cols vals o1 \<longleftrightarrow>
     obj_TableName o1 = T \<and> obj_Fields o1 \<noteq> NilMap \<and> wf_map (obj_Fields o1) \<and>
     fields_of o1 = map_of (rev (zip cols vals)) \<and>
     obj_ID o1 = (case fields_of o1 ''id'' of Some (VStr s) \<Rightarrow> s | _ \<Rightarrow> [])"

lemma assign_ID_string:
  assumes "\<And>v. mget (obj_Fields o1) ''id'' = Some v \<Longrightarrow> v = VNil \<or> (\<exists>s. v = VStr s)"
    and "obj_ID o1 = []"
  shows "assign_ID o1 = Ok (o1\<lparr>obj_ID := (case fields_of o1 ''id'' of Some (VStr s) \<Rightarrow> s | _ \<Rightarrow> [])\<rparr>)"
proof (cases "mget (obj_Fields o1) ''id''")
  case None
  with assms(2) show ?thesis by (cases o1) (simp add: assign_ID_def fields_of_def)
next
  case (Some v)
  with assms show ?thesis
    by (cases o1) (auto simp: assign_ID_def fields_of_def)
qed

lemma mget_empty: "mget make_map = Map.empty"
  by (rule ext) simp

lemma make_map_not_nil: "make_map \<noteq> NilMap"
  by (simp add: make_map_def)

lemma scan_to_object:
  assumes wf: "wf_table tbl" and scan: "scan_first L rs (fs_ColumnPointers (NewFieldScanner tbl)) = Ok cs"
    and id: "''id'' \<in> set (tab_FieldOrder tbl) \<Longrightarrow> string_kind (col_kind (field_of (tab_Fields tbl) ''id''))"
  shows "\<exists>o1. ScanToObject ((NewFieldScanner tbl)\<lparr>fs_ColumnPointers := cs\<rparr>) T = Ok o1 \<and>
     object_of T (tab_FieldOrder tbl) (map plain cs) o1"
proof -
  let ?F = "tab_Fields tbl" and ?ns = "tab_FieldOrder tbl"
  let ?ptr = "\<lambda>n. scanner_pointer (field_of ?F n)"
  have types: "map cell_type cs = map (\<lambda>n. cell_type (?ptr n)) ?ns"
    using scan_first_types [OF scan] by (simp add: comp_def)
  then have len: "length cs = length ?ns" by (metis length_map)
  have type: "cell_type (cs ! i) = cell_type (?ptr (?ns ! i))" if "i < length ?ns" for i
    using that types len by (metis nth_map)
  have typed: "well_typed_cell (cs ! i)" if "i < length ?ns" for i
    using that len scan_first_well_typed [OF scan scanner_cells_well_typed] by (simp add: list_all_length)
  have "list_all2 (\<lambda>(n, t, c) v. scanner_value (field_of ?F n) t c = Ok (Some v))
      (zip ?ns (zip (map (\<lambda>n. col_DataType (field_of ?F n)) ?ns) cs)) (map plain cs)"
    using len by (auto simp: list_all2_conv_all_nth scanner_value_plain type typed)
  from fill_fields_all [OF this, of make_map] len obtain m where
    m: "fill_fields scanner_value ?F ?ns (map (\<lambda>n. col_DataType (field_of ?F n)) ?ns) cs make_map = Ok m"
      "m \<noteq> NilMap" "wf_map m"
    and get: "mget m = map_of (rev (zip ?ns (map plain cs)))"
    by (auto simp: wf_table_names [OF wf] make_map_not_nil mget_empty)
  have "v = VNil \<or> (\<exists>s. v = VStr s)" if "mget m ''id'' = Some v" for v
  proof -
    from that get have "(''id'', v) \<in> set (zip ?ns (map plain cs))" by (auto dest: map_of_SomeD)
    then obtain i where i: "i < length ?ns" "?ns ! i = ''id''" "v = plain (cs ! i)"
      using len by (auto simp: in_set_zip)
    with id have "string_kind (col_kind (field_of ?F (?ns ! i)))" by (metis nth_mem)
    with i type [OF i(1)] typed [OF i(1)] show ?thesis by (metis plain_string)
  qed
  then show ?thesis
    using m get assign_ID_string [of "\<lparr>obj_TableName = T, obj_ID = [], obj_Fields = m\<rparr>"]
    by (auto simp: ScanToObject_def object_of_def fields_of_def)
qed

text \<open>C22: A row that scans into the pointers NewFieldScanner allocated is turned into an object without a
  panic, whatever the driver returned, when the identifier column is of a text kind: the object has
  exactly the table's columns, each with the scanned value or nil for NULL, and the identifier
  column's text as its ID.\<close>

theorem ScanToObject_total:
  assumes wf: "wf_table tbl" and scan: "scan_first L rs (fs_ColumnPointers (NewFieldScanner tbl)) = Ok cs"
    and id: "''id'' \<in> set (tab_FieldOrder tbl) \<Longrightarrow> string_kind (col_kind (field_of (tab_Fields tbl) ''id''))"
  shows "\<exists>o1. ScanToObject ((NewFieldScanner tbl)\<lparr>fs_ColumnPointers := cs\<rparr>) T = Ok o1 \<and>
     object_of T (tab_FieldOrder tbl) (map plain cs) o1"
  using assms by (rule scan_to_object)

text \<open>NULL can be read in a nullable column of every kind but floating point, boolean and unknown.\<close>

theorem nullable_column_reads_null:
  "is_ok (convertAssign L (cell_type (scanner_pointer (f\<lparr>col_Nullable := True\<rparr>))) VNil) \<longleftrightarrow>
     col_kind f \<notin> {KReal, KBool, KOther}"
  by (cases "col_kind f") (simp_all add: scanner_pointer_def col_kind_def nullable_cell_def null_error_def)

section \<open>Concrete inputs\<close>

text \<open>A table of people, two orders of the fields of one object, and a library with fixed answers.\<close>

definition sample_lib :: golib where
  "sample_lib = \<lparr>lib_fmt_float = (\<lambda>v. ''0''), lib_parse_float = (\<lambda>s. Ok 0), lib_fmt_time = (\<lambda>t. ''now''),
     lib_fmt_other = (\<lambda>v. ''map[]''), lib_json_value = (\<lambda>v. Ok ''{}''), lib_json_object = (\<lambda>o1. Ok ''{}'')\<rparr>"

definition people_columns :: "ColumnData list" where
  "people_columns =
     [zero_column\<lparr>col_Name := ''id'', col_DataType := ''text'', col_PrimaryKey := True\<rparr>,
      zero_column\<lparr>col_Name := ''name'', col_DataType := ''text''\<rparr>,
      zero_column\<lparr>col_Name := ''meta'', col_DataType := ''json'', col_Nullable := True\<rparr>]"

definition people :: TableSchema where
  "people = (NewTableSchema ''people'')\<lparr>
     tab_Fields := GoMap (map (\<lambda>c. (col_Name c, c)) people_columns),
     tab_FieldOrder := map col_Name people_columns, tab_PrimaryKey := ''id''\<rparr>"

definition ann :: Object where
  "ann = \<lparr>obj_TableName = ''people'', obj_ID = ''1'',
     obj_Fields = GoMap [(''name'', VStr ''Ann''), (''meta'', VMap [])]\<rparr>"

lemma people_built: "AddFields (NewTableSchema ''people'') people_columns = Ok people"
  by (simp add: people_def people_columns_def AddField_def NewTableSchema_def make_map_def zero_column_def Let_def)

lemma wf_people: "wf_table people"
  using AddFields_wf [OF wf_NewTableSchema people_built] .

lemmas people_simps = people_def people_columns_def zero_column_def NewTableSchema_def mget_def field_of_def
  non_id_def ToLower_def lower_char_def

lemma people_order: "tab_FieldOrder people = [''id'', ''name'', ''meta'']" "tab_TableName people = ''people''"
  by (simp_all add: people_simps)

lemma ann_insert:
  "PrepareInsertData sample_lib ann people (\<lambda>i. ''?'') =
     Ok ([''id'', ''name'', ''meta''], [''?'', ''?'', ''?''], [VStr ''1'', VStr ''Ann'', VStr ''{}''])"
  by (simp add: PrepareInsertData_def ann_def people_simps bind_value_def sample_lib_def)

lemma PrepareInsertData_order_witness:
  "\<exists>cs vs. PrepareInsertData sample_lib (ann\<lparr>obj_Fields := GoMap (rev (entries (obj_Fields ann)))\<rparr>) people (\<lambda>i. ''?'') =
       Ok (cs, [''?'', ''?'', ''?''], vs) \<and>
     mset (zip cs vs) = mset (zip [''id'', ''name'', ''meta''] [VStr ''1'', VStr ''Ann'', VStr ''{}''])"
  by (rule PrepareInsertData_order [OF _ _ ann_insert]) (simp_all add: ann_def)

lemma json_field_bound_raw_on_update_witness:
  "\<exists>ss us. PrepareUpdateData ann (\<lambda>i. ''?'') = Ok (ss, us) \<and> VMap [] \<in> set us"
  using json_field_bound_raw_on_update [OF _ _ _ _ ann_insert, of "''meta''" "VMap []"]
  by (simp add: ann_def people_simps)

lemma ScanToObject_total_witness:
  "\<exists>cs o1. scan_first sample_lib ([''id'', ''name'', ''meta''], [[VStr ''1'', VStr ''Ann'', VNil]], None)
       (fs_ColumnPointers (NewFieldScanner people)) = Ok cs \<and>
     ScanToObject ((NewFieldScanner people)\<lparr>fs_ColumnPointers := cs\<rparr>) ''people'' = Ok o1 \<and>
     obj_ID o1 = ''1'' \<and> fields_of o1 ''meta'' = Some VNil"
proof -
  let ?rs = "([''id'', ''name'', ''meta''], [[VStr ''1'', VStr ''Ann'', VNil]], None)"
  let ?cs = "[Cell TStr (VStr ''1''), Cell TStr (VStr ''Ann''), Cell (TPtr TStr) (VNilPtr TStr)]"
  have scan: "scan_first sample_lib ?rs (fs_ColumnPointers (NewFieldScanner people)) = Ok ?cs"
    by (simp add: scan_first_def Scan_row_def people_simps scanner_pointer_def col_kind_def kind_of_def
          ToUpper_def upper_char_def nullable_cell_def new_cell_def scalar_text_def)
  have "string_kind (col_kind (field_of (tab_Fields people) ''id''))"
    by (simp add: people_simps string_kind_def col_kind_def kind_of_def ToUpper_def upper_char_def)
  with ScanToObject_total [OF wf_people scan] obtain o1 where
    o1: "ScanToObject ((NewFieldScanner people)\<lparr>fs_ColumnPointers := ?cs\<rparr>) ''people'' = Ok o1"
      "object_of ''people'' (tab_FieldOrder people) (map plain ?cs) o1" by blast
  then have "obj_ID o1 = ''1''" "fields_of o1 ''meta'' = Some VNil"
    by (simp_all add: object_of_def people_simps plain_def)
  with scan o1(1) show ?thesis by blast
qed

end
