(* ===== verification/AdapterProps.thy ===== *)
theory AdapterProps
  imports Backends CommonProps
begin

text \<open>
  What the adapters do beyond the shared code: the statements inside and outside of a transaction,
  the placeholders of a statement, and what the finders of the single adapters return.
\<close>

section \<open>The same statement inside and outside of a transaction\<close>

text \<open>An adapter with a handle, open, and a schema, free of locks, that holds the table.\<close>

definition ready :: "('d, 'z) adst_scheme \<Rightarrow> nat \<Rightarrow> TableSchema \<Rightarrow> bool" where
  "ready w n tbl \<longleftrightarrow> ad_DB w = Some n \<and> \<not> db_closed w n \<and>
     (\<exists>s. ad_Sch w = Some s \<and> \<not> mu_writer (sch_mu s) \<and> mget (sch_Tables s) (tab_TableName tbl) = Some tbl)"

lemma ready_simps:
  assumes "ready w n tbl"
  shows "ad_DB w = Some n" and "\<not> db_closed w n" and "GetDB w = Some n"
    and "Base_ValidateConnection w = (Ok (), w)" and "Base_ValidateSchema w = (Ok (), w)"
    and "require_connection w = (Ok (), w)" and "require_schema w = (Ok (), w)"
    and "Base_GetTable (tab_TableName tbl) w = (Ok tbl, w)"
    and "lookup_table (tab_TableName tbl) w = (Ok tbl, w)"
    and "GetTable (ad_Sch w) (tab_TableName tbl) = Ok (tbl, True)"
  using assms
  by (auto simp: ready_def GetDB_def Base_ValidateConnection_def Base_ValidateSchema_def ValidateConnection_def
        ValidateSchema_def Base_GetTable_def lookup_table_def GetSchema_def GetTable_eq require_connection_def
        require_schema_def go_simps)

text \<open>Run a statement and report the JSON text, as every \<open>Insert\<close> does at its end.\<close>

definition then_report :: "string \<Rightarrow> ('w, 'a) go \<Rightarrow> ('w, string \<times> bool) go" where
  "then_report data m = seq m (\<lambda>_. ret (data, True))"

lemma seq_pure_fun: "seq (pure r) f w = (case r of Ok x \<Rightarrow> f x w | Error e \<Rightarrow> (Error e, w) | Panic p \<Rightarrow> (Panic p, w) | Deadlock \<Rightarrow> (Deadlock, w))"
  by (cases r) (simp_all add: go_simps)

lemma seq_pure_Deadlock [simp]: "seq (pure Deadlock) f = pure Deadlock"
  by (simp add: go_simps)

lemma insert_loop_cong:
  assumes "\<And>n v c. (n, v) \<in> set fs \<Longrightarrow> mget (tab_Fields tbl) n = Some c \<Longrightarrow> enc n c v = enc' n c v"
  shows "insert_loop enc quote ph tbl i fs = insert_loop enc' quote ph tbl i fs"
  using assms
proof (induction fs arbitrary: i)
  case (Cons nv fs)
  obtain n v where nv: "nv = (n, v)" by force
  have "insert_loop enc quote ph tbl j fs = insert_loop enc' quote ph tbl j fs" for j
    by (rule Cons.IH) (use Cons.prems in auto)
  with Cons.prems [of n v] nv show ?case by (auto split: option.splits)
qed simp

lemma sqlite_tx_bind_eq:
  assumes wf: "wf_table tbl" "wf_map (obj_Fields obj)"
    and nv: "(n, v) \<in> set (entries (obj_Fields obj))" and c: "mget (tab_Fields tbl) n = Some c"
  shows "sqlite_tx_bind L obj n c v = bind_value L n c v"
proof -
  have "col_Name c = n" using wf(1) c by (simp add: wf_table_def)
  with mget_entry [OF wf(2) nv] show ?thesis by (simp add: sqlite_tx_bind_def bind_value_def)
qed

lemma concat_Join: "x @ concat (map (\<lambda>c. sep @ c) cs) = Join (x # cs) sep"
  by (induction cs arbitrary: x) (simp_all, metis append.assoc)

lemma question_texts:
  "insert_loop enc quote question_mark tbl i fs = Ok (cs, ps, vs) \<Longrightarrow>
     map (\<lambda>p. '', ?'') ps = map (\<lambda>c. '', '' @ c) ps"
  by (auto simp: insert_loop_iff question_mark_def)

lemma sqlite_InsertTx_run:
  assumes w: "ready w n tbl" and t: "\<not> tx_done w t" and wf: "wf_table tbl" "wf_map (obj_Fields obj)"
    and obj: "obj_TableName obj = tab_TableName tbl" and data: "lib_json_object E obj = Ok data"
  shows "sqlite_InsertTx E (Some t) obj w =
    seq (pure (PrepareInsertData E obj tbl question_mark)) (\<lambda>(cs, ps, vs).
      then_report data (sql_Exec E (OnTx t) (insert_text ''INSERT OR REPLACE INTO'' (tab_TableName tbl) cs ps) vs)) w"
proof -
  let ?loop = "insert_loop (bind_value E) (\<lambda>n. n) question_mark tbl 2 (entries (obj_Fields obj))"
  have loop: "insert_loop (sqlite_tx_bind E obj) (\<lambda>n. n) question_mark tbl 2 (entries (obj_Fields obj)) = ?loop"
    by (rule insert_loop_cong) (rule sqlite_tx_bind_eq [OF wf])
  show ?thesis
  proof (cases ?loop)
    case (Ok x)
    obtain cs ps vs where x: "x = (cs, ps, vs)" by (cases x)
    have q: "''?'' @ concat (map (\<lambda>p. '', ?'') ps) = Join (''?'' # ps) '', ''"
      using question_texts [OF Ok [unfolded x]] by (simp only: concat_Join)
    have "''INSERT OR REPLACE INTO '' @ tab_TableName tbl @ '' ('' @
            (''id'' @ concat (map (\<lambda>c. '', '' @ c) cs)) @ '') VALUES ('' @
            (''?'' @ concat (map (\<lambda>p. '', ?'') ps)) @ '')'' =
          insert_text ''INSERT OR REPLACE INTO'' (tab_TableName tbl) (''id'' # cs) (''?'' # ps)"
      unfolding q concat_Join insert_text_def by simp
    note stmt = this [simplified]
    from Ok x t ready_simps [OF w] obj data loop show ?thesis
      by (simp add: sqlite_InsertTx_def PrepareInsertData_def require_tx_def then_report_def tx_Exec_def use_tx_def
          question_mark_def seq_def stmt)
  qed (use t ready_simps [OF w] obj data loop in
      \<open>simp_all add: sqlite_InsertTx_def PrepareInsertData_def require_tx_def seq_def fail_def panic_def pure_def\<close>)
qed

text \<open>C25: The SQLite adapter's Insert and InsertTx are written separately, but prepare the same statement
  with the same arguments, or fail with the same error, and run it on the handle and on the
  transaction; both report the object's JSON text.\<close>

theorem sqlite_InsertTx_same_statement:
  assumes w: "ready w n tbl" and t: "\<not> tx_done w t" and wf: "wf_table tbl" "wf_map (obj_Fields obj)"
    and obj: "obj_TableName obj = tab_TableName tbl" and data: "lib_json_object E obj = Ok data"
  shows "\<exists>r. sqlite_Insert E obj w =
        seq (pure r) (\<lambda>(q, vs). then_report data (sql_Exec E (OnDB n) q vs)) w \<and>
      sqlite_InsertTx E (Some t) obj w =
        seq (pure r) (\<lambda>(q, vs). then_report data (sql_Exec E (OnTx t) q vs)) w"
proof -
  let ?r = "rbind (PrepareInsertData E obj tbl question_mark) (\<lambda>(cs, ps, vs).
     Ok (insert_text ''INSERT OR REPLACE INTO'' (tab_TableName tbl) cs ps, vs))"
  have "sqlite_Insert E obj w = seq (pure ?r) (\<lambda>(q, vs). then_report data (sql_Exec E (OnDB n) q vs)) w"
    using ready_simps [OF w] obj data
    by (cases "PrepareInsertData E obj tbl question_mark")
       (auto simp: sqlite_Insert_def then_report_def db_Exec_def use_db_def seq_def gets_def)
  moreover have "sqlite_InsertTx E (Some t) obj w =
      seq (pure ?r) (\<lambda>(q, vs). then_report data (sql_Exec E (OnTx t) q vs)) w"
    by (cases "PrepareInsertData E obj tbl question_mark")
       (auto simp: sqlite_InsertTx_run [OF assms] seq_def pure_def)
  ultimately show ?thesis by blast
qed

text \<open>The PostgreSQL adapter's Insert and InsertTx prepare the same statement with the same arguments, and
  so do Update and UpdateTx; they differ only in running on the handle or on the transaction.\<close>

theorem postgres_tx_same_statements:
  assumes w: "ready w n tbl" and t: "\<not> tx_done w t"
    and obj: "obj_TableName obj = tab_TableName tbl" and data: "lib_json_object E obj = Ok data"
  shows "\<exists>r s. postgres_Insert E obj w =
        seq (pure r) (\<lambda>(q, vs). then_report data (sql_Exec E (OnDB n) q vs)) w \<and>
      postgres_InsertTx E (Some t) obj w =
        seq (pure r) (\<lambda>(q, vs). then_report data (sql_Exec E (OnTx t) q vs)) w \<and>
      postgres_Update E obj w = seq (pure s) (\<lambda>(q, vs). seq (sql_Exec E (OnDB n) q vs) any_rows) w \<and>
      postgres_UpdateTx E (Some t) obj w = seq (pure s) (\<lambda>(q, vs). seq (sql_Exec E (OnTx t) q vs) any_rows) w"
proof -
  let ?loop = "insert_loop (bind_value E) (\<lambda>n. n) dollar tbl 2 (entries (obj_Fields obj))"
  let ?r = "rbind ?loop (\<lambda>(cs, ps, vs).
     rbind (postgres_buildUpdateClause (''id'' # cs) (''$1'' # ps)) (\<lambda>clause.
     Ok (upsert_conflict_text (tab_TableName tbl) (''id'' # cs) (''$1'' # ps) clause, VStr (obj_ID obj) # vs)))"
  let ?s = "rbind (PrepareUpdateData obj dollar) (\<lambda>(ss, vs).
     Ok (update_text (tab_TableName tbl) ss (''id = '' @ dollar (length ss + 1)), vs))"
  have one: "dollar 1 = ''$1''" by (simp add: dollar_def dec.simps digit_char_def)
  note simps = ready_simps [OF w] obj data one
  have "postgres_Insert E obj w = seq (pure ?r) (\<lambda>(q, vs). then_report data (sql_Exec E (OnDB n) q vs)) w"
    using simps
    by (cases ?loop) (auto simp: postgres_Insert_def PrepareInsertData_def then_report_def db_Exec_def use_db_def
        seq_def gets_def split: result.splits)
  moreover have "postgres_InsertTx E (Some t) obj w =
      seq (pure ?r) (\<lambda>(q, vs). then_report data (sql_Exec E (OnTx t) q vs)) w"
    using simps t
    by (cases ?loop) (auto simp: postgres_InsertTx_def require_tx_def Let_def then_report_def tx_Exec_def use_tx_def
        seq_def fail_def panic_def split: result.splits)
  moreover have "postgres_Update E obj w = seq (pure ?s) (\<lambda>(q, vs). seq (sql_Exec E (OnDB n) q vs) any_rows) w"
    using simps
    by (cases "PrepareUpdateData obj dollar") (auto simp: postgres_Update_def db_Exec_def use_db_def seq_def gets_def)
  moreover have "postgres_UpdateTx E (Some t) obj w = seq (pure ?s) (\<lambda>(q, vs). seq (sql_Exec E (OnTx t) q vs) any_rows) w"
    using simps t
    by (cases "make_set_clauses (obj_Fields obj)") (auto simp: postgres_UpdateTx_def PrepareUpdateData_def
        require_tx_def tx_Exec_def use_tx_def seq_def fail_def panic_def Let_def split: prod.splits)
  ultimately show ?thesis by blast
qed

section \<open>What the finders return\<close>

lemma finish_find_Some:
  assumes "finish_find m build w = (Ok (Some o1), w')"
  obtains cs where "m w = (Ok cs, w')" and "build cs = Ok o1"
  using assms by (auto simp: finish_find_def go_simps split: prod.splits result.splits if_splits)

lemma QueryRow_types:
  assumes "tx_QueryRow E tx q args ps w = (Ok cs, w') \<or> db_QueryRow E db q args ps w = (Ok cs, w')"
  shows "map cell_type cs = map cell_type ps"
  using assms
  by (auto simp: tx_QueryRow_def db_QueryRow_def use_tx_def use_db_def sql_QueryRow_def go_simps
        dest: scan_first_types split: option.splits if_splits prod.splits result.splits)

lemmas tx_QueryRow_types = QueryRow_types [OF disjI1]
lemmas db_QueryRow_types = QueryRow_types [OF disjI2]

text \<open>The field under one name, when no other column of the loop has that name.\<close>

lemma fill_fields_other:
  "fill_fields sw F ns ts cs m = Ok m' \<Longrightarrow> x \<notin> set (map (\<lambda>n. col_Name (field_of F n)) ns) \<Longrightarrow>
     mget m' x = mget m x"
proof (induction sw F ns ts cs m rule: fill_fields.induct)
  case (4 sw F n ns t ts c cs m)
  then obtain vo m1 where m1: "sw (field_of F n) t c = Ok vo" "store_field m (col_Name (field_of F n)) vo = Ok m1"
      "fill_fields sw F ns ts cs m1 = Ok m'" by auto
  then have "mget m' x = mget m1 x" using "4.IH" [OF m1] "4.prems" by simp
  also have "\<dots> = mget m x"
    using m1(2) "4.prems"(2) by (auto simp: store_field_def dest!: mget_mset_entry split: option.splits)
  finally show ?case .
qed auto

lemma fill_fields_at:
  assumes "fill_fields sw F ns ts cs m = Ok m'" and "k < length ns"
    and "distinct (map (\<lambda>n. col_Name (field_of F n)) ns)"
  shows "k < length ts \<and> k < length cs \<and> (\<exists>vo. sw (field_of F (ns ! k)) (ts ! k) (cs ! k) = Ok vo \<and>
    (\<forall>v. vo = Some v \<longrightarrow> mget m' (col_Name (field_of F (ns ! k))) = Some v))"
  using assms
proof (induction sw F ns ts cs m arbitrary: k rule: fill_fields.induct)
  case (4 sw F n ns t ts c cs m)
  then obtain vo m1 where vo: "sw (field_of F n) t c = Ok vo"
    and m1: "store_field m (col_Name (field_of F n)) vo = Ok m1" "fill_fields sw F ns ts cs m1 = Ok m'"
    by auto
  show ?case
  proof (cases k)
    case 0
    have "mget m' (col_Name (field_of F n)) = mget m1 (col_Name (field_of F n))"
      using fill_fields_other [OF m1(2)] "4.prems"(3) by auto
    moreover have "\<forall>v. vo = Some v \<longrightarrow> mget m1 (col_Name (field_of F n)) = Some v"
      using m1(1) by (auto simp: store_field_def dest!: mget_mset_entry)
    ultimately show ?thesis using 0 vo by simp
  next
    case (Suc j)
    with "4.IH" [OF vo m1(1,2), of j] "4.prems" show ?thesis by simp
  qed
qed auto

lemma assign_ID_fields: "assign_ID o1 = Ok o2 \<Longrightarrow> obj_Fields o2 = obj_Fields o1"
  by (auto simp: assign_ID_def split: option.splits goval.splits)

lemma pointer_loop_types:
  "pointer_loop ptr fs = Ok cs \<Longrightarrow> length cs = length fs \<and> (\<forall>k<length fs. ptr (fs ! k) = Ok (cs ! k))"
  by (induction fs arbitrary: cs) (auto simp: nth_Cons split: nat.splits)

text \<open>
  The body that three finders share: pointers for the columns, a row scanned into them, and the
  fields filled from them. \<open>sw\<close> is told apart by the pointer it gets for one column.
\<close>

lemma found_field:
  assumes wf: "wf_table tbl" and ns: "distinct ns" "set ns \<subseteq> set (tab_FieldOrder tbl)"
    and ptrs: "pointer_loop ptr (map (field_of (tab_Fields tbl)) ns) = Ok ps"
    and types: "map cell_type cs = map cell_type ps"
    and fill: "rbind (fill_fields sw (tab_Fields tbl) ns (map col_DataType (map (field_of (tab_Fields tbl)) ns)) cs make_map)
        (\<lambda>m. assign_ID \<lparr>obj_TableName = T, obj_ID = [], obj_Fields = m\<rparr>) = Ok o1"
    and n: "n \<in> set ns"
    and sw: "\<And>c p. ptr (field_of (tab_Fields tbl) n) = Ok p \<Longrightarrow> cell_type c = cell_type p \<Longrightarrow>
       sw (field_of (tab_Fields tbl) n) (col_DataType (field_of (tab_Fields tbl) n)) c = Ok (Some v)"
  shows "fields_of o1 n = Some v"
proof -
  let ?F = "tab_Fields tbl"
  from fill obtain m where m: "fill_fields sw ?F ns (map col_DataType (map (field_of ?F) ns)) cs make_map = Ok m"
    and o1: "obj_Fields o1 = m" by (auto dest: assign_ID_fields)
  obtain k where k: "k < length ns" "ns ! k = n" using n by (auto simp: in_set_conv_nth)
  have "map (\<lambda>n. col_Name (field_of ?F n)) ns = ns"
    using wf_table_field(2) [OF wf] ns(2) by (intro map_idI) auto
  with fill_fields_at [OF m k(1)] ns(1) k obtain vo where
    vo: "k < length cs" "sw (field_of ?F n) (col_DataType (field_of ?F n)) (cs ! k) = Ok vo"
      "\<forall>u. vo = Some u \<longrightarrow> mget m (col_Name (field_of ?F n)) = Some u" by auto
  have "ptr (field_of ?F n) = Ok (ps ! k)" "length ps = length ns"
    using pointer_loop_types [OF ptrs] k by auto
  moreover have "cell_type (cs ! k) = cell_type (ps ! k)"
    using types vo(1) k(1) calculation(2) by (metis length_map nth_map)
  ultimately have "vo = Some v" using sw [of "ps ! k" "cs ! k"] vo(2) by simp
  moreover have "col_Name (field_of ?F n) = n" using wf_table_field(2) [OF wf] n ns(2) by auto
  ultimately show ?thesis using vo(3) o1 by (simp add: fields_of_def)
qed

lemma finder_field:
  assumes wf: "wf_table tbl" and ns: "distinct ns" "set ns \<subseteq> set (tab_FieldOrder tbl)" and n: "n \<in> set ns"
    and ptrs: "pointer_loop ptr (map (field_of (tab_Fields tbl)) ns) = Ok ps"
    and find: "finish_find m (\<lambda>cs. rbind (fill_fields sw (tab_Fields tbl) ns
          (map col_DataType (map (field_of (tab_Fields tbl)) ns)) cs make_map)
        (\<lambda>m. assign_ID \<lparr>obj_TableName = T, obj_ID = [], obj_Fields = m\<rparr>)) w = (Ok (Some o1), w')"
    and m: "\<And>cs w'. m w = (Ok cs, w') \<Longrightarrow> map cell_type cs = map cell_type ps"
    and sw: "\<And>c p. ptr (field_of (tab_Fields tbl) n) = Ok p \<Longrightarrow> cell_type c = cell_type p \<Longrightarrow>
       sw (field_of (tab_Fields tbl) n) (col_DataType (field_of (tab_Fields tbl) n)) c = Ok (Some v)"
  shows "fields_of o1 n = Some v"
proof -
  from finish_find_Some [OF find] obtain cs where cs: "m w = (Ok cs, w')"
    "rbind (fill_fields sw (tab_Fields tbl) ns (map col_DataType (map (field_of (tab_Fields tbl)) ns)) cs make_map)
        (\<lambda>m. assign_ID \<lparr>obj_TableName = T, obj_ID = [], obj_Fields = m\<rparr>) = Ok o1" by blast
  show ?thesis by (rule found_field [OF wf ns ptrs m [OF cs(1)] cs(2) n sw])
qed

text \<open>The columns in the order of a range over the table's fields.\<close>

lemma range_names:
  assumes "wf_table tbl"
  shows "map (\<lambda>kf. col_Name (snd kf)) (entries (tab_Fields tbl)) = mkeys (tab_Fields tbl)"
    and "distinct (mkeys (tab_Fields tbl))" and "set (mkeys (tab_Fields tbl)) = set (tab_FieldOrder tbl)"
proof -
  have "col_Name c = n" if "(n, c) \<in> set (entries (tab_Fields tbl))" for n c
    using assms mget_entry [OF _ that] by (simp add: wf_table_def)
  then show "map (\<lambda>kf. col_Name (snd kf)) (entries (tab_Fields tbl)) = mkeys (tab_Fields tbl)"
    by (auto simp: mkeys_def)
qed (use assms in \<open>simp_all add: wf_table_def wf_map_def\<close>)

lemma lookup_table_eq: "GetTable (ad_Sch w) T = Ok (tbl, True) \<Longrightarrow> lookup_table T w = (Ok tbl, w)"
  by (simp add: lookup_table_def go_simps GetSchema_def)

lemmas json_switches =
  postgres_tx_pointer_def postgres_tx_value_def oracle_pointer_def oracle_value_def
  sqlserver_pointer_def sqlserver_value_def col_kind_def assigns_def read_cell_def deref_nullable_def

lemmas finder_defs =
  postgres_FindByKeyTx_def oracle_FindByKey_def oracle_FindByKeyTx_def sqlserver_FindByKey_def
  sqlserver_FindByKeyTx_def require_tx_def require_find_params_def

text \<open>Whatever a nullable JSON column holds, an object found inside a PostgreSQL transaction has nil in
  that field.\<close>

theorem postgres_tx_json_lost:
  assumes find: "postgres_FindByKeyTx E (Some t) T key val w = (Ok (Some o1), w')"
    and tbl: "GetTable (ad_Sch w) T = Ok (tbl, True)" and wf: "wf_table tbl" "distinct (tab_FieldOrder tbl)"
    and n: "n \<in> set (tab_FieldOrder tbl)" "col_Nullable (field_of (tab_Fields tbl) n)"
      "col_kind (field_of (tab_Fields tbl) n) = KJson"
  shows "fields_of o1 n = Some VNil"
proof -
  from find lookup_table_eq [OF tbl] obtain ps where
    ps: "pointer_loop postgres_tx_pointer (map (field_of (tab_Fields tbl)) (tab_FieldOrder tbl)) = Ok ps"
    and f: "finish_find (tx_QueryRow E (Some t) (select_text (map col_Name (map (field_of (tab_Fields tbl)) (tab_FieldOrder tbl)))
          (tab_TableName tbl) (col_Name (field_of (tab_Fields tbl) key) @ '' = $1'')) [VStr val] ps)
       (\<lambda>cs. rbind (fill_fields postgres_tx_value (tab_Fields tbl) (tab_FieldOrder tbl)
            (map col_DataType (map (field_of (tab_Fields tbl)) (tab_FieldOrder tbl))) cs make_map)
          (\<lambda>m. assign_ID \<lparr>obj_TableName = tab_TableName tbl, obj_ID = [], obj_Fields = m\<rparr>)) w = (Ok (Some o1), w')"
    by (auto simp: finder_defs seq_def fail_def Let_def split: if_splits result.splits prod.splits)
  show ?thesis
    by (rule finder_field [OF wf subset_refl n(1) ps f])
      (use n in \<open>auto simp: json_switches dest: tx_QueryRow_types\<close>)
qed

text \<open>The Oracle adapter loses a nullable JSON value in the same way, inside and outside of a transaction.\<close>

theorem oracle_json_lost:
  assumes find: "oracle_FindByKey E T key val w = (Ok (Some o1), w') \<or>
      oracle_FindByKeyTx E (Some t) T key val w = (Ok (Some o1), w')"
    and tbl: "GetTable (ad_Sch w) T = Ok (tbl, True)" and wf: "wf_table tbl"
    and n: "n \<in> set (tab_FieldOrder tbl)" "col_Nullable (field_of (tab_Fields tbl) n)"
      "col_kind (field_of (tab_Fields tbl) n) = KJson"
  shows "fields_of o1 n = Some VNil"
proof -
  let ?ns = "mkeys (tab_Fields tbl)" and ?cols = "map (field_of (tab_Fields tbl)) (mkeys (tab_Fields tbl))"
  let ?q = "select_text (map (\<lambda>f. ToUpper (col_Name f)) ?cols) (ToUpper (tab_TableName tbl)) (oracle_where tbl key)"
  note ns = range_names(2) [OF wf] equalityD1 [OF range_names(3) [OF wf]]
  have n': "n \<in> set ?ns" using n(1) range_names(3) [OF wf] by simp
  from find consider (db) "oracle_FindByKey E T key val w = (Ok (Some o1), w')"
    | (tx) "oracle_FindByKeyTx E (Some t) T key val w = (Ok (Some o1), w')" by blast
  then show ?thesis
  proof cases
  case db
  with lookup_table_eq [OF tbl] obtain ps where
    ps: "pointer_loop oracle_pointer ?cols = Ok ps"
    and f: "finish_find (db_QueryRow E (GetDB w) ?q [VStr val] ps)
        (\<lambda>cs. rbind (fill_fields oracle_value (tab_Fields tbl) ?ns (map col_DataType ?cols) cs make_map)
          (\<lambda>m. assign_ID \<lparr>obj_TableName = tab_TableName tbl, obj_ID = [], obj_Fields = m\<rparr>)) w = (Ok (Some o1), w')"
    by (auto simp: finder_defs seq_def fail_def gets_def Let_def range_names(1) [OF wf]
        simp del: map_map split: if_splits result.splits prod.splits)
  show ?thesis
    by (rule finder_field [OF wf ns n' ps f])
      (use n in \<open>auto simp: json_switches dest: tx_QueryRow_types db_QueryRow_types\<close>)
  next
  case tx
  with lookup_table_eq [OF tbl] obtain ps where
    ps: "pointer_loop oracle_pointer ?cols = Ok ps"
    and f: "finish_find (tx_QueryRow E (Some t) ?q [VStr val] ps)
        (\<lambda>cs. rbind (fill_fields oracle_value (tab_Fields tbl) ?ns (map col_DataType ?cols) cs make_map)
          (\<lambda>m. assign_ID \<lparr>obj_TableName = tab_TableName tbl, obj_ID = [], obj_Fields = m\<rparr>)) w = (Ok (Some o1), w')"
    by (auto simp: finder_defs seq_def fail_def gets_def Let_def range_names(1) [OF wf]
        simp del: map_map split: if_splits result.splits prod.splits)
  show ?thesis
    by (rule finder_field [OF wf ns n' ps f])
      (use n in \<open>auto simp: json_switches dest: tx_QueryRow_types db_QueryRow_types\<close>)
  qed
qed

text \<open>So does the SQL Server adapter.\<close>

theorem sqlserver_json_lost:
  assumes find: "sqlserver_FindByKey E T key val w = (Ok (Some o1), w') \<or>
      sqlserver_FindByKeyTx E (Some t) T key val w = (Ok (Some o1), w')"
    and tbl: "GetTable (ad_Sch w) T = Ok (tbl, True)" and wf: "wf_table tbl"
    and n: "n \<in> set (tab_FieldOrder tbl)" "col_Nullable (field_of (tab_Fields tbl) n)"
      "col_kind (field_of (tab_Fields tbl) n) = KJson"
  shows "fields_of o1 n = Some VNil"
proof -
  let ?ns = "mkeys (tab_Fields tbl)" and ?cols = "map (field_of (tab_Fields tbl)) (mkeys (tab_Fields tbl))"
  let ?q = "select_text (map (\<lambda>f. bracket (col_Name f)) ?cols) (bracket (tab_TableName tbl)) (bracket key @ '' = ?'')"
  note ns = range_names(2) [OF wf] equalityD1 [OF range_names(3) [OF wf]]
  have n': "n \<in> set ?ns" using n(1) range_names(3) [OF wf] by simp
  from find consider (db) "sqlserver_FindByKey E T key val w = (Ok (Some o1), w')"
    | (tx) "sqlserver_FindByKeyTx E (Some t) T key val w = (Ok (Some o1), w')" by blast
  then show ?thesis
  proof cases
  case db
  with lookup_table_eq [OF tbl] obtain ps where
    ps: "pointer_loop sqlserver_pointer ?cols = Ok ps"
    and f: "finish_find (db_QueryRow E (GetDB w) ?q [VStr val] ps)
        (\<lambda>cs. rbind (fill_fields sqlserver_value (tab_Fields tbl) ?ns (map col_DataType ?cols) cs make_map)
          (\<lambda>m. assign_ID \<lparr>obj_TableName = tab_TableName tbl, obj_ID = [], obj_Fields = m\<rparr>)) w = (Ok (Some o1), w')"
    by (auto simp: finder_defs seq_def fail_def gets_def Let_def range_names(1) [OF wf]
        simp del: map_map split: if_splits result.splits prod.splits)
  show ?thesis
    by (rule finder_field [OF wf ns n' ps f])
      (use n in \<open>auto simp: json_switches dest: tx_QueryRow_types db_QueryRow_types\<close>)
  next
  case tx
  with lookup_table_eq [OF tbl] obtain ps where
    ps: "pointer_loop sqlserver_pointer ?cols = Ok ps"
    and f: "finish_find (tx_QueryRow E (Some t) ?q [VStr val] ps)
        (\<lambda>cs. rbind (fill_fields sqlserver_value (tab_Fields tbl) ?ns (map col_DataType ?cols) cs make_map)
          (\<lambda>m. assign_ID \<lparr>obj_TableName = tab_TableName tbl, obj_ID = [], obj_Fields = m\<rparr>)) w = (Ok (Some o1), w')"
    by (auto simp: finder_defs seq_def fail_def gets_def Let_def range_names(1) [OF wf]
        simp del: map_map split: if_splits result.splits prod.splits)
  show ?thesis
    by (rule finder_field [OF wf ns n' ps f])
      (use n in \<open>auto simp: json_switches dest: tx_QueryRow_types db_QueryRow_types\<close>)
  qed
qed

lemma lookup_table_Ok:
  "lookup_table T w = (Ok tbl, w1) \<Longrightarrow> GetTable (ad_Sch w) T = Ok (tbl, True) \<and> w1 = w"
  by (auto simp: lookup_table_def go_simps GetSchema_def table_not_found_def dest: GetTable_True
        split: if_splits result.splits prod.splits)

lemma yugabyte_find_shape:
  assumes "yugabyte_FindByKey E T k v w = (Ok (Some o0), w')"
  shows "\<exists>tbl cs. GetTable (ad_Sch w) T = Ok (tbl, True) \<and>
    yugabyte_loop (map snd (entries (tab_Fields tbl))) make_map = Ok (cs, obj_Fields o0) \<and>
    obj_TableName o0 = tab_TableName tbl \<and> obj_ID o0 = []"
proof -
  from assms have "T \<noteq> [] \<and> k \<noteq> [] \<and> v \<noteq> []"
    by (auto simp: yugabyte_FindByKey_def require_find_params_def split: if_splits)
  with assms have "seq (lookup_table T) (\<lambda>tbl. let cols = map snd (entries (tab_Fields tbl)) in
      seq (pure (yugabyte_loop cols make_map)) (\<lambda>(columnPointers, m).
      seq (gets GetDB) (\<lambda>db. finish_find
        (db_QueryRow E db (select_text (map col_Name cols) (tab_TableName tbl)
           (col_Name (field_of (tab_Fields tbl) k) @ '' = $1'')) [VStr v] columnPointers)
        (\<lambda>cs. Ok \<lparr>obj_TableName = tab_TableName tbl, obj_ID = [], obj_Fields = m\<rparr>)))) w = (Ok (Some o0), w')"
    by (simp add: yugabyte_FindByKey_def require_find_params_def)
  then obtain tbl wb where lk: "lookup_table T w = (Ok tbl, wb)"
    and rest: "seq (pure (yugabyte_loop (map snd (entries (tab_Fields tbl))) make_map)) (\<lambda>(columnPointers, m).
      seq (gets GetDB) (\<lambda>db. finish_find
        (db_QueryRow E db (select_text (map col_Name (map snd (entries (tab_Fields tbl)))) (tab_TableName tbl)
           (col_Name (field_of (tab_Fields tbl) k) @ '' = $1'')) [VStr v] columnPointers)
        (\<lambda>cs. Ok \<lparr>obj_TableName = tab_TableName tbl, obj_ID = [], obj_Fields = m\<rparr>))) wb = (Ok (Some o0), w')"
    unfolding Let_def by (rule seq_OkE)
  from rest obtain cs m where l: "yugabyte_loop (map snd (entries (tab_Fields tbl))) make_map = Ok (cs, m)"
    and f: "finish_find (db_QueryRow E (GetDB wb) (select_text (map col_Name (map snd (entries (tab_Fields tbl)))) (tab_TableName tbl)
           (col_Name (field_of (tab_Fields tbl) k) @ '' = $1'')) [VStr v] cs)
        (\<lambda>cs. Ok \<lparr>obj_TableName = tab_TableName tbl, obj_ID = [], obj_Fields = m\<rparr>) wb = (Ok (Some o0), w')"
    by (cases "yugabyte_loop (map snd (entries (tab_Fields tbl))) make_map") (auto simp: seq_gets)
  from f have "Ok \<lparr>obj_TableName = tab_TableName tbl, obj_ID = [], obj_Fields = m\<rparr> = Ok o0"
    by (rule finish_find_Some)
  then have "o0 = \<lparr>obj_TableName = tab_TableName tbl, obj_ID = [], obj_Fields = m\<rparr>" by simp
  with lookup_table_Ok [OF lk] l show ?thesis by auto
qed

text \<open>What YugabyteDB's FindByKey returns does not depend on the row found: two successful finds in tables
  of the same schema return the same object, with an empty ID and the zero values of the columns,
  for any keys, values and databases.\<close>

theorem yugabyte_find_ignores_row:
  assumes "yugabyte_FindByKey E1 T k1 v1 w1 = (Ok (Some o1), w1')"
    and "yugabyte_FindByKey E2 T k2 v2 w2 = (Ok (Some o2), w2')"
    and "ad_Sch w1 = ad_Sch w2"
  shows "o1 = o2 \<and> obj_ID o1 = []"
proof -
  from yugabyte_find_shape [OF assms(1)] obtain tbl cs where t1: "GetTable (ad_Sch w1) T = Ok (tbl, True)"
    "yugabyte_loop (map snd (entries (tab_Fields tbl))) make_map = Ok (cs, obj_Fields o1)"
    "obj_TableName o1 = tab_TableName tbl" "obj_ID o1 = []" by blast
  from yugabyte_find_shape [OF assms(2)] obtain tbl' cs' where t2: "GetTable (ad_Sch w2) T = Ok (tbl', True)"
    "yugabyte_loop (map snd (entries (tab_Fields tbl'))) make_map = Ok (cs', obj_Fields o2)"
    "obj_TableName o2 = tab_TableName tbl'" "obj_ID o2 = []" by blast
  have "tbl' = tbl" using t1(1) t2(1) assms(3) by simp
  with t1 t2 show ?thesis by (cases o1; cases o2) simp
qed

text \<open>C37: When the INSERT of the Oracle adapter hits a unique constraint and the UPDATE that follows it
  runs without an error, Insert reports the object as created, whatever number of rows the update
  changed, zero included.\<close>

theorem oracle_insert_reports_success:
  assumes w: "ready w n tbl" and obj: "obj_TableName obj = tab_TableName tbl" and data: "lib_json_object E obj = Ok data"
    and stmt: "oracle_insert_stmt E obj tbl = Ok (q, vs)"
    and ins: "drv_exec E (OnDB n) q vs (drv w) = (Error e, d)" and uniq: "unique_violation e"
    and upd: "oracle_fallback_stmt E (range_again E (entries (obj_Fields obj))) obj tbl = Ok (q', vs')"
    and run: "drv_exec E (OnDB n) q' vs' d = (Ok res, d')"
  shows "oracle_Insert E obj w = (Ok (data, True), w\<lparr>drv := d'\<rparr>)"
proof -
  note r = ready_simps [OF w]
  have exec: "db_Exec E (Some n) q vs w = (Error e, w\<lparr>drv := d\<rparr>)"
    using r(2) ins by (simp add: db_Exec_def use_db_def sql_Exec_def on_driver_def)
  have exec': "db_Exec E (Some n) q' vs' (w\<lparr>drv := d\<rparr>) = (Ok res, w\<lparr>drv := d'\<rparr>)"
    using r(2) run by (simp add: db_Exec_def use_db_def sql_Exec_def on_driver_def)
  have "oracle_insert_or_update (db_Exec E (Some n)) E (range_again E (entries (obj_Fields obj))) obj tbl w =
      (Ok (), w\<lparr>drv := d'\<rparr>)"
    by (simp add: oracle_insert_or_update_def stmt catch_def exec uniq upd exec_only_def seq_def exec')
  then show ?thesis
    by (simp add: oracle_Insert_def seq_def gets_def r data obj)
qed

lemma upper_lower_char: "upper_char (lower_char c) = upper_char c"
  by (cases c) (auto simp: lower_char_def upper_char_def Let_def)

lemma ToUpper_ToLower: "ToUpper (ToLower s) = ToUpper s"
  by (simp add: ToUpper_def ToLower_def upper_lower_char)

lemma boolean_kind:
  assumes "ToLower (col_DataType f) = ''boolean''"
  shows "col_kind f = KBool"
proof -
  have "ToUpper (col_DataType f) = ToUpper ''boolean''"
    using ToUpper_ToLower [of "col_DataType f"] assms by simp
  also have "\<dots> = ''BOOLEAN''" by code_simp
  finally show ?thesis by (simp add: col_kind_def kind_of_def)
qed

text \<open>A boolean bound for a boolean column of the Oracle adapter becomes a number, and that number scanned
  into the pointer FindByKey allocates for the column is read back as the boolean.\<close>

theorem oracle_boolean_roundtrip:
  assumes "ToLower (col_DataType f) = ''boolean''" and "oracle_bind L n f (VBool b) = Ok (VInt i)"
    and "oracle_pointer f = Ok p" and "convertAssign L (cell_type p) (VInt64 i) = Ok u"
  shows "oracle_value f (col_DataType f) (Cell (cell_type p) u) = Ok (Some (VBool b))"
  using assms boolean_kind [OF assms(1)]
  by (auto simp: oracle_bind_def bool_number_def oracle_pointer_def oracle_value_def col_kind_def assigns_def
      number_bool_def deref_as_def)

section \<open>Placeholders\<close>

lemma count_list_append [simp]: "count_list (xs @ ys) x = count_list xs x + count_list ys x"
  by (induction xs) auto

lemma count_Join:
  "count_list (Join xs sep) c = sum_list (map (\<lambda>x. count_list x c) xs) + (length xs - 1) * count_list sep c"
  by (induction xs sep rule: Join.induct) auto

lemma count_concat: "count_list (concat xs) c = sum_list (map (\<lambda>x. count_list x c) xs)"
  by (induction xs) auto

lemma count_none: "c \<notin> set x \<Longrightarrow> count_list x c = 0"
  by (simp add: count_list_0_iff)

lemma sum_none: "(\<And>x. x \<in> set xs \<Longrightarrow> g x = 0) \<Longrightarrow> sum_list (map g xs) = (0::nat)"
  by (induction xs) auto

lemma sum_one: "(\<And>x. x \<in> set xs \<Longrightarrow> g x = 1) \<Longrightarrow> sum_list (map g xs) = (length xs :: nat)"
  by (induction xs) auto

lemma non_id_names: "nv \<in> set (non_id (entries m)) \<Longrightarrow> fst nv \<in> set (mkeys m)"
  by (auto simp: non_id_def mkeys_def)

text \<open>For table and field names without question marks, the MERGE statement of the SQL Server adapter has
  exactly as many placeholders as values are bound.\<close>

theorem sqlserver_merge_placeholders:
  assumes stmt: "sqlserver_insert_stmt L obj tbl = Ok (q, vs)"
    and tbl: "CHR ''?'' \<notin> set (tab_TableName tbl)"
    and names: "\<forall>n\<in>set (mkeys (obj_Fields obj)). CHR ''?'' \<notin> set n"
  shows "count_list q (CHR ''?'') = length vs"
proof -
  let ?fs = "non_id (entries (obj_Fields obj))"
  from stmt obtain us where q: "q = merge_text (tab_TableName tbl) (''[id]'' # map bracket (map fst ?fs))
      (map (\<lambda>n. bracket n @ '' = source.'' @ bracket n) (map fst ?fs))"
    and vs: "vs = VStr (obj_ID obj) # us" "list_all2 (binds (bind_value L) tbl) ?fs us"
    by (auto simp: sqlserver_insert_stmt_def insert_loop_iff Let_def)
  have free: "count_list (bracket (fst nv)) (CHR ''?'') = 0" if "nv \<in> set ?fs" for nv
    using non_id_names [OF that] names by (auto simp: bracket_def intro!: count_none)
  have "count_list (bracket (tab_TableName tbl)) (CHR ''?'') = 0"
    using tbl by (auto simp: bracket_def intro: count_none)
  then show ?thesis
    using list_all2_lengthD [OF vs(2)]
    by (simp add: q vs(1) merge_text_def newline_tabs_def count_Join count_concat comp_def free
        sum_none sum_one count_none cong: map_cong)
qed

text \<open>For table and field names without question marks, the INSERT and the UPDATE statement of the SQLite
  adapter have exactly as many placeholders as values are bound.\<close>

theorem sqlite_placeholders:
  assumes tbl: "CHR ''?'' \<notin> set (tab_TableName tbl)"
    and names: "\<forall>n\<in>set (mkeys (obj_Fields obj)). CHR ''?'' \<notin> set n"
    and ins: "PrepareInsertData L obj tbl question_mark = Ok (cs, ps, vs)"
    and upd: "PrepareUpdateData obj question_mark = Ok (ss, us)"
  shows "count_list (insert_text ''INSERT OR REPLACE INTO'' (tab_TableName tbl) cs ps) (CHR ''?'') = length vs \<and>
    count_list (update_text (tab_TableName tbl) ss ''id = ?'') (CHR ''?'') = length us"
proof -
  let ?fs = "non_id (entries (obj_Fields obj))"
  obtain xs where cs: "cs = ''id'' # map fst ?fs" and ps: "ps = map question_mark (count_from 1 (length cs))"
    and vs: "vs = VStr (obj_ID obj) # xs" "list_all2 (binds (bind_value L) tbl) ?fs xs"
    using ins unfolding prepare_insert_iff by blast
  have ss: "ss = map (\<lambda>nv. fst nv @ '' = ?'') ?fs" and us: "us = map snd ?fs @ [VStr (obj_ID obj)]"
    using upd by (auto simp: prepare_update_eq question_mark_def map2_first Let_def split: if_splits)
  have free: "count_list (fst nv) (CHR ''?'') = 0" if "nv \<in> set ?fs" for nv
    using non_id_names [OF that] names by (auto intro!: count_none)
  have ins1: "count_list (Join cs '', '') (CHR ''?'') = 0"
    by (simp add: cs count_Join comp_def sum_none free)
  have ins2: "count_list (Join ps '', '') (CHR ''?'') = length cs"
    by (simp add: ps count_Join comp_def question_mark_def sum_list_replicate map_replicate_const)
  have upd1: "count_list (Join ss '', '') (CHR ''?'') = length ?fs"
    by (simp add: ss count_Join comp_def free sum_one)
  have "length vs = length cs" and "length us = Suc (length ?fs)"
    using list_all2_lengthD [OF vs(2)] by (simp_all add: vs(1) cs us)
  with tbl show ?thesis
    by (simp add: insert_text_def update_text_def ins1 ins2 upd1 count_none)
qed

lemma dollar_inj: "dollar i = dollar j \<longleftrightarrow> i = j"
  by (simp add: dollar_def dec_inj)

text \<open>The numbered placeholders of an INSERT of the PostgreSQL adapter are distinct, one for each column
  and value, and its conflict clause sets every column but the identifier to the placeholder of that
  same column.\<close>

theorem postgres_placeholders:
  assumes "PrepareInsertData L obj tbl dollar = Ok (cs, ps, vs)"
  shows "distinct ps \<and> length ps = length vs \<and> length cs = length vs \<and>
    postgres_buildUpdateClause cs ps = Ok (Join (map2 (\<lambda>c p. c @ '' = '' @ p) (tl cs) (tl ps)) '', '')"
proof -
  let ?fs = "non_id (entries (obj_Fields obj))"
  obtain xs where cs: "cs = ''id'' # map fst ?fs" and ps: "ps = map dollar (count_from 1 (length cs))"
    and vs: "vs = VStr (obj_ID obj) # xs" "list_all2 (binds (bind_value L) tbl) ?fs xs"
    using assms unfolding prepare_insert_iff by blast
  have "inj_on dollar A" for A by (simp add: inj_on_def dollar_inj)
  then have "distinct ps" by (simp add: ps distinct_map count_from_upt)
  with list_all2_lengthD [OF vs(2)] show ?thesis
    by (simp add: cs ps vs(1) postgres_buildUpdateClause_def conflict_clauses_def drop_Suc)
qed

section \<open>A demo driver\<close>

text \<open>
  The witnesses run on a driver that answers every query with the same row and reports one row for
  every statement.
\<close>

definition demo_env :: "goval list \<Rightarrow> unit orenv" where
  "demo_env row = \<lparr>lib_fmt_float = (\<lambda>v. ''0''), lib_parse_float = (\<lambda>s. Ok 0), lib_fmt_time = (\<lambda>t. ''now''),
     lib_fmt_other = (\<lambda>v. ''map[]''), lib_json_value = (\<lambda>v. Ok ''{}''), lib_json_object = (\<lambda>o1. Ok ''{}''),
     drv_open = (\<lambda>n s d. (Ok 0, d)), drv_ping = (\<lambda>n d. (Ok (), d)),
     drv_exec = (\<lambda>c q args d. (if take 6 q = ''INSERT'' then Error (Err ''ORA-00001'') else Ok (Inr 1), d)),
     drv_query = (\<lambda>c q args d. (Ok ([], [row], None), d)),
     drv_begin = (\<lambda>n t d. (Ok (), d)), drv_commit = (\<lambda>n d. (Ok (), d)), drv_rollback = (\<lambda>n d. (Ok (), d)),
     drv_close = (\<lambda>n d. (Ok (), d)), range_again = (\<lambda>fs. fs), range_columns_again = (\<lambda>fs. fs)\<rparr>"

definition demo_world :: "unit adst" where
  "demo_world = \<lparr>db_closed = (\<lambda>n. False), tx_done = (\<lambda>n. False), tx_next = 0, drv = (),
     ad_DB = Some 0, ad_Sch = Some (schema_New\<lparr>sch_Tables := GoMap [(''people'', people)]\<rparr>), ad_TM_DB = Some 0\<rparr>"

lemma demo_ready: "ready demo_world 0 people"
  by (simp add: ready_def demo_world_def schema_New_def free_mutex_def mget_def people_simps)

lemma demo_table: "GetTable (ad_Sch demo_world) ''people'' = Ok (people, True)"
  using ready_simps(10) [OF demo_ready] by (simp add: people_simps)

lemma demo_lookup: "lookup_table ''people'' demo_world = (Ok people, demo_world)"
  by (rule lookup_table_eq [OF demo_table])

lemma wf_ann: "wf_map (obj_Fields ann)"
  by (simp add: ann_def wf_map_def mkeys_def)

lemma sqlite_InsertTx_same_statement_witness:
  "\<exists>r. sqlite_Insert (demo_env []) ann demo_world =
        seq (pure r) (\<lambda>(q, vs). then_report ''{}'' (sql_Exec (demo_env []) (OnDB 0) q vs)) demo_world \<and>
      sqlite_InsertTx (demo_env []) (Some 0) ann demo_world =
        seq (pure r) (\<lambda>(q, vs). then_report ''{}'' (sql_Exec (demo_env []) (OnTx 0) q vs)) demo_world"
  by (rule sqlite_InsertTx_same_statement [OF demo_ready _ wf_people wf_ann])
     (simp_all add: demo_world_def ann_def people_simps demo_env_def)

lemma postgres_tx_same_statements_witness:
  "\<exists>r s. postgres_Insert (demo_env []) ann demo_world =
        seq (pure r) (\<lambda>(q, vs). then_report ''{}'' (sql_Exec (demo_env []) (OnDB 0) q vs)) demo_world \<and>
      postgres_InsertTx (demo_env []) (Some 0) ann demo_world =
        seq (pure r) (\<lambda>(q, vs). then_report ''{}'' (sql_Exec (demo_env []) (OnTx 0) q vs)) demo_world \<and>
      postgres_Update (demo_env []) ann demo_world =
        seq (pure s) (\<lambda>(q, vs). seq (sql_Exec (demo_env []) (OnDB 0) q vs) any_rows) demo_world \<and>
      postgres_UpdateTx (demo_env []) (Some 0) ann demo_world =
        seq (pure s) (\<lambda>(q, vs). seq (sql_Exec (demo_env []) (OnTx 0) q vs) any_rows) demo_world"
  by (rule postgres_tx_same_statements [OF demo_ready])
     (simp_all add: demo_world_def ann_def people_simps demo_env_def)

definition demo_row :: "goval list" where
  "demo_row = [VStr ''1'', VStr ''Ann'', VStr ''{}'']"

lemma demo_query [simp]:
  "drv_query (demo_env row) = (\<lambda>c q args d. (Ok ([], [row], None), d))"
  by (simp add: demo_env_def)

lemma demo_world_simps [simp]:
  "db_closed demo_world n = False" "tx_done demo_world n = False" "GetDB demo_world = Some 0"
  "ad_DB demo_world = Some 0"
  by (simp_all add: demo_world_def GetDB_def)

lemma demo_meta: "field_of (tab_Fields people) ''meta'' = zero_column\<lparr>col_Name := ''meta'', col_DataType := ''json'', col_Nullable := True\<rparr>"
  by (simp add: people_simps)

lemma demo_meta_json: "''meta'' \<in> set (tab_FieldOrder people)" "col_Nullable (field_of (tab_Fields people) ''meta'')"
   "col_kind (field_of (tab_Fields people) ''meta'') = KJson" "distinct (tab_FieldOrder people)"
  by (simp_all add: people_simps col_kind_def kind_of_def ToUpper_def upper_char_def)


lemmas run_simps = finder_defs demo_lookup Let_def go_simps finish_find_def tx_QueryRow_def use_tx_def
  db_QueryRow_def use_db_def sql_QueryRow_def on_driver_def people_order
lemmas row_simps = people_simps json_switches kind_of_def ToUpper_def upper_char_def demo_row_def scan_first_def
  Scan_row_def nullable_cell_def new_cell_def scalar_text_def assign_ID_def store_field_def deref_as_def
  make_map_def number_bool_def

lemma postgres_demo_find:
  "\<exists>o1. postgres_FindByKeyTx (demo_env demo_row) (Some 0) ''people'' ''id'' ''1'' demo_world = (Ok (Some o1), demo_world)"
  by (simp add: run_simps) (simp add: row_simps)

lemma oracle_demo_find:
  "\<exists>o1. oracle_FindByKey (demo_env demo_row) ''people'' ''id'' ''1'' demo_world = (Ok (Some o1), demo_world)"
  by (simp add: run_simps) (simp add: row_simps)

lemma sqlserver_demo_find:
  "\<exists>o1. sqlserver_FindByKey (demo_env demo_row) ''people'' ''id'' ''1'' demo_world = (Ok (Some o1), demo_world)"
  by (simp add: run_simps) (simp add: row_simps)

lemma postgres_tx_json_lost_witness:
  "\<exists>o1. postgres_FindByKeyTx (demo_env demo_row) (Some 0) ''people'' ''id'' ''1'' demo_world =
      (Ok (Some o1), demo_world) \<and> demo_row ! 2 = VStr ''{}'' \<and> fields_of o1 ''meta'' = Some VNil"
  using postgres_demo_find postgres_tx_json_lost [OF _ demo_table wf_people demo_meta_json(4,1-3)]
  by (auto simp: demo_row_def)

lemma oracle_json_lost_witness:
  "\<exists>o1. oracle_FindByKey (demo_env demo_row) ''people'' ''id'' ''1'' demo_world =
      (Ok (Some o1), demo_world) \<and> fields_of o1 ''meta'' = Some VNil"
  using oracle_demo_find oracle_json_lost [OF disjI1 demo_table wf_people demo_meta_json(1-3)] by blast

lemma sqlserver_json_lost_witness:
  "\<exists>o1. sqlserver_FindByKey (demo_env demo_row) ''people'' ''id'' ''1'' demo_world =
      (Ok (Some o1), demo_world) \<and> fields_of o1 ''meta'' = Some VNil"
  using sqlserver_demo_find sqlserver_json_lost [OF disjI1 demo_table wf_people demo_meta_json(1-3)] by blast

lemma yugabyte_demo_find:
  "\<exists>o1. yugabyte_FindByKey (demo_env demo_row) ''people'' ''id'' ''1'' demo_world = (Ok (Some o1), demo_world)"
  by (simp add: run_simps yugabyte_FindByKey_def yugabyte_pointer_def) (simp add: row_simps yugabyte_pointer_def yugabyte_cell_def)

lemma yugabyte_demo_find_other:
  "\<exists>o1. yugabyte_FindByKey (demo_env [VStr ''2'', VStr ''Bob'', VStr ''[]'']) ''people'' ''id'' ''2'' demo_world =
     (Ok (Some o1), demo_world)"
  by (simp add: run_simps yugabyte_FindByKey_def yugabyte_pointer_def) (simp add: row_simps yugabyte_pointer_def yugabyte_cell_def)

lemma yugabyte_find_ignores_row_witness:
  "\<exists>o1. yugabyte_FindByKey (demo_env demo_row) ''people'' ''id'' ''1'' demo_world = (Ok (Some o1), demo_world) \<and>
     yugabyte_FindByKey (demo_env [VStr ''2'', VStr ''Bob'', VStr ''[]'']) ''people'' ''id'' ''2'' demo_world =
     (Ok (Some o1), demo_world) \<and> obj_ID o1 = []"
  using yugabyte_demo_find yugabyte_demo_find_other yugabyte_find_ignores_row [OF _ _ refl] by blast

lemma oracle_insert_reports_success_witness:
  "oracle_Insert (demo_env []) ann demo_world = (Ok (''{}'', True), demo_world)"
proof -
  let ?E = "demo_env []" and ?t = people
  obtain q vs q' vs' where stmt: "oracle_insert_stmt ?E ann ?t = Ok (q, vs)"
     "oracle_fallback_stmt ?E (range_again ?E (entries (obj_Fields ann))) ann ?t = Ok (q', vs')"
     and q: "take 6 q = ''INSERT''" "take 6 q' = ''UPDATE''"
    by (simp add: oracle_insert_stmt_def oracle_fallback_stmt_def ann_def people_simps demo_env_def oracle_bind_def
        bind_value_def insert_text_def update_text_def Let_def)
  have "unique_violation (Err ''ORA-00001'')" by code_simp
  with stmt q show ?thesis
    using oracle_insert_reports_success [OF demo_ready, of ann ?E "''{}''" q vs "Err ''ORA-00001''" "()" q' vs'
        "Inr 1" "()"]
    by (simp add: demo_env_def ann_def people_simps)
qed

lemma oracle_boolean_roundtrip_witness:
  "oracle_value (zero_column\<lparr>col_DataType := ''boolean''\<rparr>) ''boolean'' (Cell TInt64 (VInt64 1)) =
     Ok (Some (VBool True))"
  using oracle_boolean_roundtrip [of "zero_column\<lparr>col_DataType := ''boolean''\<rparr>" sample_lib "''ok''" True 1
      "new_cell TInt64" "VInt64 1"]
  by (simp add: zero_column_def ToLower_def lower_char_def oracle_bind_def bool_number_def oracle_pointer_def
      col_kind_def kind_of_def ToUpper_def upper_char_def new_cell_def)

lemma sqlserver_merge_placeholders_witness:
  "\<exists>q vs. sqlserver_insert_stmt sample_lib ann people = Ok (q, vs) \<and> count_list q (CHR ''?'') = 3"
proof -
  obtain q vs where stmt: "sqlserver_insert_stmt sample_lib ann people = Ok (q, vs)" "length vs = 3"
    by (simp add: sqlserver_insert_stmt_def ann_def people_simps bind_value_def sample_lib_def Let_def)
  moreover have "\<forall>n\<in>set (mkeys (obj_Fields ann)). CHR ''?'' \<notin> set n" "CHR ''?'' \<notin> set (tab_TableName people)"
    by (simp_all add: ann_def mkeys_def people_simps)
  ultimately show ?thesis using sqlserver_merge_placeholders [OF stmt(1)] by simp
qed

lemma sqlite_placeholders_witness:
  "\<exists>cs ps vs. PrepareInsertData sample_lib ann people question_mark = Ok (cs, ps, vs) \<and>
     count_list (insert_text ''INSERT OR REPLACE INTO'' ''people'' cs ps) (CHR ''?'') = 3"
proof -
  obtain cs ps vs ss us where stmt: "PrepareInsertData sample_lib ann people question_mark = Ok (cs, ps, vs)" "length vs = 3"
      "PrepareUpdateData ann question_mark = Ok (ss, us)"
    by (simp add: PrepareInsertData_def PrepareUpdateData_def make_set_clauses_def ann_def people_simps bind_value_def
        sample_lib_def Let_def question_mark_def mlen_def)
  moreover have "\<forall>n\<in>set (mkeys (obj_Fields ann)). CHR ''?'' \<notin> set n" "CHR ''?'' \<notin> set (tab_TableName people)"
    by (simp_all add: ann_def mkeys_def people_simps)
  ultimately show ?thesis using sqlite_placeholders [of people ann sample_lib cs ps vs ss us] by (simp add: people_order)
qed

lemma postgres_placeholders_witness:
  "\<exists>cs ps vs. PrepareInsertData sample_lib ann people dollar = Ok (cs, ps, vs) \<and> distinct ps \<and> length ps = 3"
proof -
  obtain cs ps vs where stmt: "PrepareInsertData sample_lib ann people dollar = Ok (cs, ps, vs)" "length vs = 3"
    by (simp add: PrepareInsertData_def ann_def people_simps bind_value_def sample_lib_def)
  then show ?thesis using postgres_placeholders [OF stmt(1)] by simp
qed

end
