(* ===== verification/TableStore.thy ===== *)
theory TableStore
  imports Orm CommonProps
begin

text \<open>
  Tables of rows as keyed stores, and what a storage promises that keeps them: \<open>Insert\<close>, \<open>Update\<close>,
  \<open>FindByKey\<close> and \<open>DeleteByID\<close> do to a database, a map from table names and identifiers to rows, what
  the corresponding map operations do. \<open>Refinement\<close> shows that the SQLite adapter is such a storage;
  the example applications rely on it.
\<close>

section \<open>Tables and values\<close>

type_synonym row = "string \<Rightarrow> goval"
type_synonym store = "string \<Rightarrow> row option"
type_synonym database = "string \<Rightarrow> store"

text \<open>
  A timestamp that the driver reads back as the instant it names, with a text that is the one it was
  given: a date, the time to the second, and \<open>Z\<close> or an offset that is not zero, as
  \<open>time.Time.Format(time.RFC3339)\<close> writes it.
\<close>

definition number_at :: "string \<Rightarrow> nat \<Rightarrow> nat \<Rightarrow> nat" where
  "number_at s i n = of_digits (take n (drop i s))"

definition digits_at :: "string \<Rightarrow> nat \<Rightarrow> nat \<Rightarrow> bool" where
  "digits_at s i n = list_all is_digit (take n (drop i s))"

definition leap_year :: "nat \<Rightarrow> bool" where
  "leap_year y \<longleftrightarrow> y mod 4 = 0 \<and> (y mod 100 \<noteq> 0 \<or> y mod 400 = 0)"

definition month_days :: "nat \<Rightarrow> nat \<Rightarrow> nat" where
  "month_days y m =
     (if m = 2 then (if leap_year y then 29 else 28) else if m \<in> set [4, 6, 9, 11] then 30 else 31)"

definition zone_text :: "string \<Rightarrow> bool" where
  "zone_text z \<longleftrightarrow> z = ''Z'' \<or>
     (length z = 6 \<and> z ! 0 \<in> set ''+-'' \<and> z ! 3 = CHR '':'' \<and> digits_at z 1 2 \<and> digits_at z 4 2 \<and>
      number_at z 1 2 < 24 \<and> number_at z 4 2 < 60 \<and> number_at z 1 2 + number_at z 4 2 \<noteq> 0)"

definition time_text :: "string \<Rightarrow> bool" where
  "time_text s \<longleftrightarrow>
     19 \<le> length s \<and> zone_text (drop 19 s) \<and>
     s ! 4 = CHR ''-'' \<and> s ! 7 = CHR ''-'' \<and> s ! 10 = CHR ''T'' \<and> s ! 13 = CHR '':'' \<and> s ! 16 = CHR '':'' \<and>
     digits_at s 0 4 \<and> digits_at s 5 2 \<and> digits_at s 8 2 \<and> digits_at s 11 2 \<and> digits_at s 14 2 \<and>
     digits_at s 17 2 \<and>
     1 \<le> number_at s 5 2 \<and> number_at s 5 2 \<le> 12 \<and> 1 \<le> number_at s 8 2 \<and>
     number_at s 8 2 \<le> month_days (number_at s 0 4) (number_at s 5 2) \<and>
     number_at s 11 2 < 24 \<and> number_at s 14 2 < 60 \<and> number_at s 17 2 < 60"

text \<open>Text that SQLite's numeric affinity cannot take for a number.\<close>

definition no_number :: "string \<Rightarrow> bool" where
  "no_number s \<longleftrightarrow> s = [] \<or>
     \<not> is_digit (hd s) \<and> hd s \<notin> set ''+-. '' \<and> \<not> (9 \<le> (of_char (hd s) :: nat) \<and> (of_char (hd s) :: nat) \<le> 13)"

text \<open>
  Values that a column gives back as they were stored: text, integers, finite numbers (not the
  negative zero) and booleans in columns of those types; JSON text that is not taken for a number; timestamps; NULL in a
  nullable column.
\<close>

definition fits :: "ColumnData \<Rightarrow> goval \<Rightarrow> bool" where
  "fits f v = (case col_kind f of
      KText \<Rightarrow> has_type v TStr \<or> col_Nullable f \<and> v = VNil
    | KInt \<Rightarrow> has_type v TInt64 \<or> col_Nullable f \<and> v = VNil
    | KReal \<Rightarrow> (case v of VFloat64 x \<Rightarrow> float_trunc 11 52 (unat x) \<noteq> None \<and> x \<noteq> 2 ^ 63 | _ \<Rightarrow> False)
    | KBool \<Rightarrow> has_type v TBool
    | KJson \<Rightarrow> (case v of VStr s \<Rightarrow> no_number s | _ \<Rightarrow> False) \<or> col_Nullable f \<and> v = VNil
    | KTime \<Rightarrow> (case v of VStr s \<Rightarrow> time_text s | _ \<Rightarrow> False) \<or> col_Nullable f \<and> v = VNil
    | _ \<Rightarrow> False)"

text \<open>
  The tables of the statement: an \<open>id\<close> column that is text, and columns of the kinds above that are
  not keys; only text columns are declared unique.
\<close>

definition plain_column :: "ColumnData \<Rightarrow> bool" where
  "plain_column f \<longleftrightarrow> \<not> col_PrimaryKey f \<and> \<not> col_AutoIncrement f \<and>
     col_kind f \<in> {KText, KInt, KReal, KBool, KJson, KTime} \<and> (col_Unique f \<longrightarrow> col_kind f = KText)"

definition plain_table :: "TableSchema \<Rightarrow> bool" where
  "plain_table tbl \<longleftrightarrow>
     wf_table tbl \<and> distinct (tab_FieldOrder tbl) \<and> ''id'' \<in> set (tab_FieldOrder tbl) \<and>
     tab_TableName tbl \<noteq> [] \<and>
     col_kind (field_of (tab_Fields tbl) ''id'') = KText \<and>
     \<not> col_Nullable (field_of (tab_Fields tbl) ''id'') \<and>
     (\<forall>n\<in>set (tab_FieldOrder tbl). ToLower n = ''id'' \<longrightarrow> n = ''id'') \<and>
     (\<forall>n\<in>set (tab_FieldOrder tbl). n \<noteq> ''id'' \<longrightarrow> plain_column (field_of (tab_Fields tbl) n))"

text \<open>Assignments to columns of the table, and those that make up a whole row.\<close>

definition good_values :: "TableSchema \<Rightarrow> (string \<times> goval) list \<Rightarrow> bool" where
  "good_values tbl nvs \<longleftrightarrow> distinct (map fst nvs) \<and>
     (\<forall>(n, v)\<in>set nvs. n \<in> set (tab_FieldOrder tbl) \<and> n \<noteq> ''id'' \<and> fits (field_of (tab_Fields tbl) n) v)"

definition whole_row :: "TableSchema \<Rightarrow> (string \<times> goval) list \<Rightarrow> bool" where
  "whole_row tbl nvs \<longleftrightarrow> good_values tbl nvs \<and>
     (\<forall>n\<in>set (tab_FieldOrder tbl). n \<noteq> ''id'' \<longrightarrow> n \<in> set (map fst nvs) \<or>
        col_Default (field_of (tab_Fields tbl) n) = VNil \<and> fits (field_of (tab_Fields tbl) n) VNil)"

definition new_row :: "string \<Rightarrow> (string \<times> goval) list \<Rightarrow> row" where
  "new_row i nvs = (\<lambda>n. if n = ''id'' then VStr i else case map_of nvs n of Some v \<Rightarrow> v | None \<Rightarrow> VNil)"

definition changed_row :: "row \<Rightarrow> (string \<times> goval) list \<Rightarrow> row" where
  "changed_row r nvs = (\<lambda>n. case map_of nvs n of Some v \<Rightarrow> v | None \<Rightarrow> r n)"

text \<open>
  Rows that agree on a unique column. A REPLACE drops the rows that the new row clashes with; an
  UPDATE to such a row is refused.
\<close>

definition clash :: "TableSchema \<Rightarrow> row \<Rightarrow> row \<Rightarrow> bool" where
  "clash tbl r r' \<longleftrightarrow>
     (\<exists>n\<in>set (tab_FieldOrder tbl). n \<noteq> ''id'' \<and> col_Unique (field_of (tab_Fields tbl) n) \<and> r n \<noteq> VNil \<and> r n = r' n)"

definition replace_row :: "TableSchema \<Rightarrow> string \<Rightarrow> row \<Rightarrow> store \<Rightarrow> store" where
  "replace_row tbl i r s = (\<lambda>j. if j = i then Some r
     else case s j of None \<Rightarrow> None | Some r' \<Rightarrow> if clash tbl r r' then None else Some r')"

definition taken :: "TableSchema \<Rightarrow> string \<Rightarrow> row \<Rightarrow> store \<Rightarrow> bool" where
  "taken tbl i r s \<longleftrightarrow> (\<exists>j r'. j \<noteq> i \<and> s j = Some r' \<and> clash tbl r r')"

text \<open>
  An UPDATE of the row of an identifier: whether there was one, or nothing when the change is refused,
  and the rows afterwards; and the outcome of the call that reports it.
\<close>

definition update_row :: "TableSchema \<Rightarrow> string \<Rightarrow> (string \<times> goval) list \<Rightarrow> store \<Rightarrow> bool option \<times> store" where
  "update_row tbl i nvs s = (case s i of
      None \<Rightarrow> (Some False, s)
    | Some r \<Rightarrow> if taken tbl i (changed_row r nvs) s then (None, s)
        else (Some True, s(i \<mapsto> changed_row r nvs)))"

definition reports :: "(bool \<Rightarrow> 'a) \<Rightarrow> bool option \<Rightarrow> 'a result \<Rightarrow> bool" where
  "reports f b a \<longleftrightarrow> (case b of None \<Rightarrow> \<exists>e. a = Error e | Some x \<Rightarrow> a = Ok (f x))"

definition no_unique :: "TableSchema \<Rightarrow> bool" where
  "no_unique tbl \<longleftrightarrow>
     (\<forall>n\<in>set (tab_FieldOrder tbl). n \<noteq> ''id'' \<longrightarrow> \<not> col_Unique (field_of (tab_Fields tbl) n))"

lemma no_unique_simps:
  assumes "no_unique tbl"
  shows "\<not> clash tbl r r'" and "replace_row tbl i r s = s(i \<mapsto> r)" and "\<not> taken tbl i r s"
  using assms by (auto simp: no_unique_def clash_def replace_row_def taken_def fun_eq_iff split: option.splits)

text \<open>Every row has its identifier and values that fit the columns.\<close>

definition row_fits :: "TableSchema \<Rightarrow> string \<Rightarrow> row \<Rightarrow> bool" where
  "row_fits tbl i r \<longleftrightarrow> r ''id'' = VStr i \<and>
     (\<forall>n\<in>set (tab_FieldOrder tbl). n \<noteq> ''id'' \<longrightarrow> fits (field_of (tab_Fields tbl) n) (r n))"

definition store_fits :: "TableSchema \<Rightarrow> store \<Rightarrow> bool" where
  "store_fits tbl s \<longleftrightarrow> (\<forall>i r. s i = Some r \<longrightarrow> row_fits tbl i r)"

lemma new_row_fits: "whole_row tbl nvs \<Longrightarrow> row_fits tbl i (new_row i nvs)"
  by (auto simp: whole_row_def good_values_def row_fits_def new_row_def map_of_eq_None_iff image_iff
        split: option.splits dest!: map_of_SomeD)

lemma changed_row_fits:
  "row_fits tbl i r \<Longrightarrow> good_values tbl nvs \<Longrightarrow> row_fits tbl i (changed_row r nvs)"
  by (auto simp: good_values_def row_fits_def changed_row_def split: option.splits dest!: map_of_SomeD)

lemma store_fits_row: "store_fits tbl s \<Longrightarrow> s i = Some r \<Longrightarrow> row_fits tbl i r"
  by (simp add: store_fits_def)

lemma store_fits_upd: "store_fits tbl s \<Longrightarrow> row_fits tbl i r \<Longrightarrow> store_fits tbl (s(i \<mapsto> r))"
  by (simp add: store_fits_def)

lemma store_fits_del: "store_fits tbl s \<Longrightarrow> store_fits tbl (s(i := None))"
  by (simp add: store_fits_def)

lemma update_row_fits:
  assumes "store_fits tbl s" and "good_values tbl nvs"
  shows "store_fits tbl (snd (update_row tbl i nvs s))"
  using assms by (auto simp: update_row_def changed_row_fits store_fits_row store_fits_upd split: option.splits)

lemma replace_row_fits: "store_fits tbl s \<Longrightarrow> row_fits tbl i r \<Longrightarrow> store_fits tbl (replace_row tbl i r s)"
  by (auto simp: store_fits_def replace_row_def split: if_splits option.splits)

section \<open>The abstract store\<close>

text \<open>The values an INSERT binds, and the objects and changes the store accepts.\<close>

definition stored :: "'e golib_scheme \<Rightarrow> TableSchema \<Rightarrow> Object \<Rightarrow> (string \<times> goval) list" where
  "stored L tbl obj = map (\<lambda>(n, v). (n, case bind_value L n (field_of (tab_Fields tbl) n) v of Ok u \<Rightarrow> u | _ \<Rightarrow> VNil))
     (non_id (entries (obj_Fields obj)))"

definition changes :: "Object \<Rightarrow> (string \<times> goval) list" where
  "changes obj = non_id (entries (obj_Fields obj))"

definition insertable :: "'e golib_scheme \<Rightarrow> TableSchema \<Rightarrow> Object \<Rightarrow> bool" where
  "insertable L tbl obj \<longleftrightarrow> obj_TableName obj = tab_TableName tbl \<and> is_ok (lib_json_object L obj) \<and>
     (\<forall>(n, v)\<in>set (non_id (entries (obj_Fields obj))). is_ok (bind_value L n (field_of (tab_Fields tbl) n) v)) \<and>
     whole_row tbl (stored L tbl obj)"

definition updatable :: "TableSchema \<Rightarrow> Object \<Rightarrow> bool" where
  "updatable tbl obj \<longleftrightarrow> obj_TableName obj = tab_TableName tbl \<and> changes obj \<noteq> [] \<and> good_values tbl (changes obj)"

datatype op = OInsert Object | OUpdate Object | OFind string | ODelete string

text \<open>What a caller sees: the created and found flags, a refused update, and of a found object its identifier and fields.\<close>

datatype answer =
    AInsert bool
  | AUpdate bool
  | ARefused
  | AFind "(string \<times> (string \<Rightarrow> goval option)) option"
  | ADelete bool

definition row_view :: "TableSchema \<Rightarrow> string \<Rightarrow> row \<Rightarrow> string \<times> (string \<Rightarrow> goval option)" where
  "row_view tbl i r = (i, \<lambda>n. if n \<in> set (tab_FieldOrder tbl) then Some (r n) else None)"

fun spec_op :: "'e golib_scheme \<Rightarrow> TableSchema \<Rightarrow> op \<Rightarrow> store \<Rightarrow> answer \<times> store" where
  "spec_op L tbl (OInsert obj) s = (AInsert True, replace_row tbl (obj_ID obj) (new_row (obj_ID obj) (stored L tbl obj)) s)"
| "spec_op L tbl (OUpdate obj) s = (case update_row tbl (obj_ID obj) (changes obj) s of
      (None, s') \<Rightarrow> (ARefused, s')
    | (Some b, s') \<Rightarrow> (AUpdate b, s'))"
| "spec_op L tbl (OFind i) s = (AFind (map_option (row_view tbl i) (s i)), s)"
| "spec_op L tbl (ODelete i) s = (ADelete (s i \<noteq> None), s(i := None))"

fun spec_ops :: "'e golib_scheme \<Rightarrow> TableSchema \<Rightarrow> op list \<Rightarrow> store \<Rightarrow> answer list \<times> store" where
  "spec_ops L tbl [] s = ([], s)"
| "spec_ops L tbl (p # ps) s = (case spec_op L tbl p s of (a, s1) \<Rightarrow>
     (case spec_ops L tbl ps s1 of (as, s2) \<Rightarrow> (a # as, s2)))"

fun good_op :: "'e golib_scheme \<Rightarrow> TableSchema \<Rightarrow> op \<Rightarrow> bool" where
  "good_op L tbl (OInsert obj) = insertable L tbl obj"
| "good_op L tbl (OUpdate obj) = updatable tbl obj"
| "good_op L tbl (OFind i) = (i \<noteq> [])"
| "good_op L tbl (ODelete i) = True"


definition object_view :: "Object \<Rightarrow> string \<times> (string \<Rightarrow> goval option)" where
  "object_view o1 = (obj_ID o1, fields_of o1)"

text \<open>The object of a row.\<close>

definition row_object :: "TableSchema \<Rightarrow> string \<Rightarrow> row \<Rightarrow> Object \<Rightarrow> bool" where
  "row_object tbl i r o1 \<longleftrightarrow> obj_TableName o1 = tab_TableName tbl \<and> wf_map (obj_Fields o1) \<and>
     obj_Fields o1 \<noteq> NilMap \<and> object_view o1 = row_view tbl i r"

text \<open>A find by a key: an object of some row with that key, or none if there is no such row.\<close>

definition found :: "TableSchema \<Rightarrow> store \<Rightarrow> string \<Rightarrow> string \<Rightarrow> Object option \<Rightarrow> bool" where
  "found tbl s k x res \<longleftrightarrow> (case res of
      None \<Rightarrow> \<forall>i r. s i = Some r \<longrightarrow> r k \<noteq> VStr x
    | Some o1 \<Rightarrow> \<exists>i r. s i = Some r \<and> r k = VStr x \<and> row_object tbl i r o1)"

lemma found_id:
  assumes "store_fits tbl s"
  shows "found tbl s ''id'' i res \<longleftrightarrow> (case res of
      None \<Rightarrow> s i = None | Some o1 \<Rightarrow> \<exists>r. s i = Some r \<and> row_object tbl i r o1)"
proof -
  have id: "s j = Some r \<Longrightarrow> r ''id'' = VStr j" for j r
    using assms by (simp add: store_fits_def row_fits_def)
  have key: "(s j = Some r \<and> r ''id'' = VStr i) = (j = i \<and> s i = Some r)" for j r
    using id [of j r] by auto
  show ?thesis
  proof (cases res)
    case None
    have "(\<forall>j r. \<not> (s j = Some r \<and> r ''id'' = VStr i)) = (s i = None)"
      unfolding key by (cases "s i") auto
    with None show ?thesis by (simp add: found_def)
  next
    case (Some o1)
    have "(\<exists>j r. (s j = Some r \<and> r ''id'' = VStr i) \<and> row_object tbl j r o1) = (\<exists>r. s i = Some r \<and> row_object tbl i r o1)"
      unfolding key by blast
    with Some show ?thesis by (simp add: found_def conj_assoc)
  qed
qed

section \<open>The contract of a storage of tables\<close>

definition key_column :: "TableSchema \<Rightarrow> string \<Rightarrow> bool" where
  "key_column tbl k \<longleftrightarrow> k \<in> set (tab_FieldOrder tbl) \<and> col_kind (field_of (tab_Fields tbl) k) = KText"

lemma key_column_id: "plain_table tbl \<Longrightarrow> key_column tbl ''id''"
  by (simp add: plain_table_def key_column_def)

locale record_store =
  fixes st :: "'w Storage" and L :: "'e golib_scheme" and db :: "'w \<Rightarrow> database"
    and open_on :: "'w \<Rightarrow> bool" and tables :: "string \<Rightarrow> TableSchema option"
  assumes table_plain: "tables T = Some tbl \<Longrightarrow> plain_table tbl \<and> tab_TableName tbl = T"
    and rows_fit: "open_on w \<Longrightarrow> tables T = Some tbl \<Longrightarrow> store_fits tbl (db w T)"
    and inserts: "open_on w \<Longrightarrow> tables T = Some tbl \<Longrightarrow> insertable L tbl obj \<Longrightarrow>
      \<exists>data w'. st_Insert st obj w = (Ok (data, True), w') \<and> open_on w' \<and>
        db w' = (db w)(T := replace_row tbl (obj_ID obj) (new_row (obj_ID obj) (stored L tbl obj)) (db w T))"
    and updates: "open_on w \<Longrightarrow> tables T = Some tbl \<Longrightarrow> updatable tbl obj \<Longrightarrow>
      \<exists>a w'. st_Update st obj w = (a, w') \<and> open_on w' \<and>
        reports (\<lambda>b. b) (fst (update_row tbl (obj_ID obj) (changes obj) (db w T))) a \<and>
        db w' = (db w)(T := snd (update_row tbl (obj_ID obj) (changes obj) (db w T)))"
    and finds: "open_on w \<Longrightarrow> tables T = Some tbl \<Longrightarrow> key_column tbl k \<Longrightarrow> x \<noteq> [] \<Longrightarrow>
      \<exists>res w'. st_FindByKey st T k x w = (Ok res, w') \<and> open_on w' \<and> db w' = db w \<and> found tbl (db w T) k x res"
    and finds_none: "open_on w \<Longrightarrow> tables T = Some tbl \<Longrightarrow> \<exists>e. st_FindByKey st T k [] w = (Error e, w)"
    and deletes: "open_on w \<Longrightarrow> tables T = Some tbl \<Longrightarrow>
      \<exists>w'. st_DeleteByID st T i w = (Ok (db w T i \<noteq> None), w') \<and> open_on w' \<and>
        db w' = (db w)(T := (db w T)(i := None))"
begin

lemma finds_id:
  assumes "open_on w" and "tables T = Some tbl" and "i \<noteq> []"
  obtains res w' where "st_FindByKey st T ''id'' i w = (Ok res, w')" and "open_on w'" and "db w' = db w"
    and "db w T i = None \<Longrightarrow> res = None"
    and "\<And>r. db w T i = Some r \<Longrightarrow> \<exists>o1. res = Some o1 \<and> row_object tbl i r o1"
proof -
  have "key_column tbl ''id''" using assms(2) table_plain key_column_id by blast
  from finds [OF assms(1,2) this assms(3)] obtain res w' where
    res: "st_FindByKey st T ''id'' i w = (Ok res, w')" "open_on w'" "db w' = db w" "found tbl (db w T) ''id'' i res"
    by blast
  have "case res of None \<Rightarrow> db w T i = None | Some o1 \<Rightarrow> \<exists>r. db w T i = Some r \<and> row_object tbl i r o1"
    using res(4) found_id [OF rows_fit [OF assms(1,2)]] by simp
  with that res(1-3) show thesis by (auto split: option.splits)
qed

end

section \<open>Tables from column lists\<close>

text \<open>The table that \<open>AddField\<close> builds from an \<open>id\<close> column and columns that are not keys.\<close>

definition columns_table :: "string \<Rightarrow> ColumnData list \<Rightarrow> TableSchema" where
  "columns_table T cs = (NewTableSchema T)\<lparr>tab_Fields := GoMap (map (\<lambda>c. (col_Name c, c)) cs),
     tab_FieldOrder := map col_Name cs, tab_PrimaryKey := ''id''\<rparr>"

fun plain_columns :: "ColumnData list \<Rightarrow> bool" where
  "plain_columns [] = False"
| "plain_columns (i # cs) \<longleftrightarrow>
     col_Name i = ''id'' \<and> col_kind i = KText \<and> \<not> col_Nullable i \<and> col_PrimaryKey i \<and> \<not> col_AutoIncrement i \<and>
     distinct (map col_Name cs) \<and>
     list_all (\<lambda>c. col_Name c \<noteq> [] \<and> ToLower (col_Name c) \<noteq> ''id'' \<and> plain_column c) cs"

lemma AList_update_fresh: "k \<notin> fst ` set l \<Longrightarrow> AList.update k v l = l @ [(k, v)]"
  by (induction l) auto

lemma AddFields_plain:
  assumes "tab_Fields t = GoMap l" and "distinct (map fst l @ map col_Name cs)"
    and "list_all (\<lambda>c. col_Name c \<noteq> [] \<and> \<not> col_PrimaryKey c \<and> \<not> col_AutoIncrement c) cs"
  shows "AddFields t cs = Ok (t\<lparr>tab_Fields := GoMap (l @ map (\<lambda>c. (col_Name c, c)) cs),
     tab_FieldOrder := tab_FieldOrder t @ map col_Name cs\<rparr>)"
  using assms
proof (induction cs arbitrary: t l)
  case (Cons c cs)
  let ?t = "t\<lparr>tab_Fields := GoMap (l @ [(col_Name c, c)]), tab_FieldOrder := tab_FieldOrder t @ [col_Name c]\<rparr>"
  have "AddField t c = Ok ?t"
    using Cons.prems by (simp add: AddField_def Let_def AList_update_fresh)
  moreover have "AddFields ?t cs = Ok (?t\<lparr>tab_Fields := GoMap ((l @ [(col_Name c, c)]) @ map (\<lambda>c. (col_Name c, c)) cs),
     tab_FieldOrder := tab_FieldOrder ?t @ map col_Name cs\<rparr>)"
    using Cons.prems by (intro Cons.IH) auto
  ultimately show ?case by simp
qed simp

lemma AddFields_columns:
  assumes "plain_columns cs"
  shows "AddFields (NewTableSchema T) cs = Ok (columns_table T cs)"
proof -
  obtain i cs' where cs: "cs = i # cs'" using assms by (cases cs) auto
  have id: "ToLower ''id'' = ''id''" by (simp add: ToLower_def lower_char_def)
  let ?t = "(NewTableSchema T)\<lparr>tab_Fields := GoMap [(''id'', i)], tab_FieldOrder := [''id''], tab_PrimaryKey := ''id''\<rparr>"
  have first: "AddField (NewTableSchema T) i = Ok ?t"
    using assms cs by (simp add: AddField_def Let_def NewTableSchema_def make_map_def)
  have "AddFields ?t cs' = Ok (?t\<lparr>tab_Fields := GoMap ([(''id'', i)] @ map (\<lambda>c. (col_Name c, c)) cs'),
     tab_FieldOrder := tab_FieldOrder ?t @ map col_Name cs'\<rparr>)"
    using assms cs id by (intro AddFields_plain) (auto simp: list_all_iff plain_column_def)
  with first cs assms show ?thesis
    by (simp add: columns_table_def NewTableSchema_def)
qed

lemma columns_table_simps [simp]:
  "tab_TableName (columns_table T cs) = T"
  "tab_FieldOrder (columns_table T cs) = map col_Name cs"
  "tab_Fields (columns_table T cs) = GoMap (map (\<lambda>c. (col_Name c, c)) cs)"
  by (simp_all add: columns_table_def NewTableSchema_def)

lemma columns_field:
  assumes "distinct (map col_Name cs)" and "c \<in> set cs"
  shows "field_of (GoMap (map (\<lambda>c. (col_Name c, c)) cs)) (col_Name c) = c"
proof -
  have "map_of (map (\<lambda>c. (col_Name c, c)) cs) (col_Name c) = Some c"
    using assms by (intro map_of_is_SomeI) (auto simp: comp_def)
  then show ?thesis by (simp add: field_of_def mget_def)
qed

lemma plain_columns_table:
  assumes cs: "plain_columns cs" and T: "T \<noteq> []"
  shows "plain_table (columns_table T cs)"
proof -
  obtain i cs' where i: "cs = i # cs'" using cs by (cases cs) auto
  have id: "ToLower ''id'' = ''id''" by (simp add: ToLower_def lower_char_def)
  have dist: "distinct (map col_Name cs)" using cs id by (auto simp: i list_all_iff)
  have field: "field_of (GoMap (map (\<lambda>c. (col_Name c, c)) cs)) (col_Name c) = c" if "c \<in> set cs" for c
    using columns_field [OF dist that] .
  have "field_of (GoMap (map (\<lambda>c. (col_Name c, c)) cs)) ''id'' = i" using field [of i] cs by (simp add: i)
  moreover have "wf_table (columns_table T cs)"
    using AddFields_wf [OF wf_NewTableSchema AddFields_columns [OF cs]] .
  ultimately show ?thesis
    using cs T dist field by (auto simp: plain_table_def i list_all_iff)
qed

text \<open>An assignment to a field of a row's object, and the UPDATE that writes it.\<close>

lemma SetField_row_object:
  assumes "row_object tbl i r o1" and "n \<in> set (tab_FieldOrder tbl)" and "n \<noteq> ''id''"
  obtains o2 where "SetField o1 n v = Ok o2" and "row_object tbl i (r(n := v)) o2"
proof -
  obtain m where m: "mset_entry (obj_Fields o1) n v = Ok m" "m \<noteq> NilMap"
    using assms(1) by (cases "obj_Fields o1") (auto simp: row_object_def)
  with assms mget_mset_entry [OF m(1)] wf_mset_entry [OF m(1)]
  have "row_object tbl i (r(n := v)) (o1\<lparr>obj_Fields := m\<rparr>)"
    by (auto simp: row_object_def object_view_def row_view_def fields_of_def fun_eq_iff)
  with m(1) that show thesis by (simp add: SetField_def)
qed

lemma row_object_update:
  assumes o1: "row_object tbl i r o1" and r: "row_fits tbl i r" and tbl: "plain_table tbl"
    and n: "n \<in> set (tab_FieldOrder tbl)" "n \<noteq> ''id''"
    and old: "row_fits tbl i r0" "\<And>m. m \<notin> set (tab_FieldOrder tbl) \<Longrightarrow> r0 m = r m"
  shows "updatable tbl o1" and "changed_row r0 (changes o1) = r" and "obj_ID o1 = i"
proof -
  have fields: "map_of (entries (obj_Fields o1)) m = (if m \<in> set (tab_FieldOrder tbl) then Some (r m) else None)" for m
    using o1 by (simp add: row_object_def object_view_def row_view_def fields_of_def mget_def fun_eq_iff)
  have dist: "distinct (map fst (entries (obj_Fields o1)))"
    using o1 by (simp add: row_object_def wf_map_def mkeys_def)
  have id: "m = ''id''" if "m \<in> set (tab_FieldOrder tbl)" "ToLower m = ''id''" for m
    using tbl that by (simp add: plain_table_def)
  have low: "ToLower ''id'' = ''id''" by (simp add: ToLower_def lower_char_def)
  have pair: "(m, v) \<in> set (changes o1) \<longleftrightarrow> m \<in> set (tab_FieldOrder tbl) \<and> m \<noteq> ''id'' \<and> v = r m" for m v
  proof -
    have "(m, v) \<in> set (entries (obj_Fields o1)) \<longleftrightarrow> m \<in> set (tab_FieldOrder tbl) \<and> v = r m"
      using fields [of m] map_of_eq_Some_iff [OF dist, of m v] by (auto split: if_splits)
    then show ?thesis using id [of m] low by (auto simp: changes_def non_id_def)
  qed
  have cdist: "distinct (map fst (changes o1))"
    using dist by (auto simp: changes_def non_id_def distinct_map inj_on_def)
  show "obj_ID o1 = i" using o1 by (simp add: row_object_def object_view_def row_view_def)
  have "changes o1 \<noteq> []" using pair [of n "r n"] n by auto
  with pair cdist o1 r show "updatable tbl o1"
    by (auto simp: updatable_def good_values_def row_fits_def row_object_def)
  show "changed_row r0 (changes o1) = r"
  proof
    fix m
    have "map_of (changes o1) m = (if m \<in> set (tab_FieldOrder tbl) \<and> m \<noteq> ''id'' then Some (r m) else None)"
      using pair cdist by (auto simp: map_of_eq_None_iff intro: map_of_is_SomeI)
    with old r show "changed_row r0 (changes o1) m = r m"
      by (auto simp: changed_row_def row_fits_def)
  qed
qed

context record_store
begin

lemma updates_back:
  assumes w: "open_on w" and T: "tables T = Some tbl" and old: "db w T i = Some r0"
    and o1: "row_object tbl i r o1" and r: "row_fits tbl i r"
    and n: "n \<in> set (tab_FieldOrder tbl)" "n \<noteq> ''id''"
    and same: "\<And>m. m \<notin> set (tab_FieldOrder tbl) \<Longrightarrow> r0 m = r m"
  obtains a w' where "st_Update st o1 w = (a, w')" and "open_on w'"
    and "taken tbl i r (db w T) \<Longrightarrow> (\<exists>e. a = Error e) \<and> db w' = db w"
    and "\<not> taken tbl i r (db w T) \<Longrightarrow> a = Ok True \<and> db w' = (db w)(T := (db w T)(i \<mapsto> r))"
proof -
  have tbl: "plain_table tbl" using T table_plain by blast
  note upd = row_object_update [OF o1 r tbl n store_fits_row [OF rows_fit [OF w T] old] same]
  from updates [OF w T upd(1)] obtain a w' where
    w': "st_Update st o1 w = (a, w')" "open_on w'"
      "reports (\<lambda>b. b) (fst (update_row tbl i (changes o1) (db w T))) a"
      "db w' = (db w)(T := snd (update_row tbl i (changes o1) (db w T)))" using upd(3) by auto
  have "update_row tbl i (changes o1) (db w T) =
      (if taken tbl i r (db w T) then (None, db w T) else (Some True, (db w T)(i \<mapsto> r)))"
    using old upd(2) by (simp add: update_row_def)
  with w' that show thesis by (simp add: reports_def split: if_splits)
qed

lemma updates_row:
  assumes w: "open_on w" and T: "tables T = Some tbl" and old: "db w T i = Some r0" and un: "no_unique tbl"
    and o1: "row_object tbl i r o1" and r: "row_fits tbl i r"
    and n: "n \<in> set (tab_FieldOrder tbl)" "n \<noteq> ''id''"
    and same: "\<And>m. m \<notin> set (tab_FieldOrder tbl) \<Longrightarrow> r0 m = r m"
  obtains w' where "st_Update st o1 w = (Ok True, w')" and "open_on w'" and "db w' = (db w)(T := (db w T)(i \<mapsto> r))"
  using updates_back [OF w T old o1 r n same] no_unique_simps(3) [OF un] that by metis

end

end
