(* ===== verification/Refinement.thy ===== *)
theory Refinement
  imports Backends TableStore
begin

text \<open>
  The SQLite adapter as an implementation of the stores of \<open>TableStore\<close>. What the database answers to
  the adapter's four statements is the hypothesis \<open>sqlite_answers\<close>; it states the documented behaviour
  of SQLite and of its driver for the tables of \<open>plain_table\<close> and for values that fit their columns.
\<close>

section \<open>What the database answers\<close>

text \<open>
  The driver's value for a stored value: the value itself, and for text any value with that text
  (the driver gives the text of a timestamp as the time it names).
\<close>

definition gives :: "'e golib_scheme \<Rightarrow> goval \<Rightarrow> goval \<Rightarrow> bool" where
  "gives L v u = (case v of VStr s \<Rightarrow> scalar_text L u = Some s | _ \<Rightarrow> u = v)"

definition matching :: "store \<Rightarrow> string \<Rightarrow> string \<Rightarrow> row set" where
  "matching s k x = {r. (\<exists>i. s i = Some r) \<and> r k = VStr x}"

text \<open>
  What a connection answers in the states of \<open>P\<close>, which a statement does not leave; \<open>rows\<close> is the
  database the connection sees.
\<close>

definition insert_answers :: "('d, 'e) env_scheme \<Rightarrow> conn \<Rightarrow> ('d \<Rightarrow> bool) \<Rightarrow> ('d \<Rightarrow> database) \<Rightarrow> TableSchema \<Rightarrow> bool" where
  "insert_answers E c P rows tbl \<longleftrightarrow> (\<forall>i nvs d. P d \<longrightarrow> whole_row tbl nvs \<longrightarrow>
     (\<exists>d'. drv_exec E c
        (insert_text ''INSERT OR REPLACE INTO'' (tab_TableName tbl) (''id'' # map fst nvs)
           (replicate (Suc (length nvs)) ''?'')) (VStr i # map snd nvs) d = (Ok (Inr 1), d') \<and> P d' \<and>
      rows d' = (rows d)(tab_TableName tbl := replace_row tbl i (new_row i nvs) (rows d (tab_TableName tbl)))))"

definition update_answers :: "('d, 'e) env_scheme \<Rightarrow> conn \<Rightarrow> ('d \<Rightarrow> bool) \<Rightarrow> ('d \<Rightarrow> database) \<Rightarrow> TableSchema \<Rightarrow> bool" where
  "update_answers E c P rows tbl \<longleftrightarrow> (\<forall>i nvs d. P d \<longrightarrow> good_values tbl nvs \<longrightarrow> nvs \<noteq> [] \<longrightarrow>
     (\<exists>a d'. drv_exec E c
        (update_text (tab_TableName tbl) (map (\<lambda>nv. fst nv @ '' = ?'') nvs) ''id = ?'')
        (map snd nvs @ [VStr i]) d = (a, d') \<and> P d' \<and>
      reports (\<lambda>b. Inr (if b then 1 else 0)) (fst (update_row tbl i nvs (rows d (tab_TableName tbl)))) a \<and>
      rows d' = (rows d)(tab_TableName tbl := snd (update_row tbl i nvs (rows d (tab_TableName tbl))))))"

definition select_answers :: "('d, 'e) env_scheme \<Rightarrow> conn \<Rightarrow> ('d \<Rightarrow> bool) \<Rightarrow> ('d \<Rightarrow> database) \<Rightarrow> TableSchema \<Rightarrow> bool" where
  "select_answers E c P rows tbl \<longleftrightarrow> (\<forall>k x d. P d \<longrightarrow>
     key_column tbl k \<longrightarrow>
     (\<exists>rs uss d'. drv_query E c (select_text (tab_FieldOrder tbl) (tab_TableName tbl) (k @ '' = ?'')) [VStr x] d =
        (Ok (tab_FieldOrder tbl, uss, None), d') \<and> P d' \<and> rows d' = rows d \<and>
      set rs = matching (rows d (tab_TableName tbl)) k x \<and>
      list_all2 (\<lambda>r us. list_all2 (gives E) (map r (tab_FieldOrder tbl)) us) rs uss))"

definition delete_answers :: "('d, 'e) env_scheme \<Rightarrow> conn \<Rightarrow> ('d \<Rightarrow> bool) \<Rightarrow> ('d \<Rightarrow> database) \<Rightarrow> TableSchema \<Rightarrow> bool" where
  "delete_answers E c P rows tbl \<longleftrightarrow> (\<forall>i d. P d \<longrightarrow>
     (\<exists>d'. drv_exec E c (delete_text (tab_TableName tbl) ''id = ?'') [VStr i] d =
        (Ok (Inr (if rows d (tab_TableName tbl) i = None then 0 else 1)), d') \<and> P d' \<and>
      rows d' = (rows d)(tab_TableName tbl := (rows d (tab_TableName tbl))(i := None))))"

definition conn_answers :: "('d, 'e) env_scheme \<Rightarrow> conn \<Rightarrow> ('d \<Rightarrow> bool) \<Rightarrow> ('d \<Rightarrow> database) \<Rightarrow> TableSchema \<Rightarrow> bool" where
  "conn_answers E c P rows tbl \<longleftrightarrow> insert_answers E c P rows tbl \<and> update_answers E c P rows tbl \<and>
     select_answers E c P rows tbl \<and> delete_answers E c P rows tbl"

text \<open>Every handle answers in the states of \<open>P\<close>; in all states.\<close>

definition handle_answers :: "('d, 'e) env_scheme \<Rightarrow> ('d \<Rightarrow> bool) \<Rightarrow> ('d \<Rightarrow> database) \<Rightarrow> TableSchema \<Rightarrow> bool" where
  "handle_answers E P rows tbl \<longleftrightarrow> (\<forall>n. conn_answers E (OnDB n) P rows tbl)"

definition sqlite_answers :: "('d, 'e) env_scheme \<Rightarrow> ('d \<Rightarrow> database) \<Rightarrow> TableSchema \<Rightarrow> bool" where
  "sqlite_answers E rows tbl \<longleftrightarrow> handle_answers E (\<lambda>d. True) rows tbl"

lemma insert_answersD:
  assumes "conn_answers E c P rows tbl" and "P d" and "whole_row tbl nvs"
  obtains d' where "drv_exec E c
      (insert_text ''INSERT OR REPLACE INTO'' (tab_TableName tbl) (''id'' # map fst nvs)
         (replicate (Suc (length nvs)) ''?'')) (VStr i # map snd nvs) d = (Ok (Inr 1), d')" and "P d'"
    and "rows d' = (rows d)(tab_TableName tbl := replace_row tbl i (new_row i nvs) (rows d (tab_TableName tbl)))"
  using assms unfolding conn_answers_def insert_answers_def by blast

lemma update_answersD:
  assumes "conn_answers E c P rows tbl" and "P d" and "good_values tbl nvs" and "nvs \<noteq> []"
  obtains a d' where "drv_exec E c
      (update_text (tab_TableName tbl) (map (\<lambda>nv. fst nv @ '' = ?'') nvs) ''id = ?'')
      (map snd nvs @ [VStr i]) d = (a, d')" and "P d'"
    and "reports (\<lambda>b. Inr (if b then 1 else 0)) (fst (update_row tbl i nvs (rows d (tab_TableName tbl)))) a"
    and "rows d' = (rows d)(tab_TableName tbl := snd (update_row tbl i nvs (rows d (tab_TableName tbl))))"
  using assms unfolding conn_answers_def update_answers_def by blast

lemma select_answersD:
  assumes "select_answers E c P rows tbl" and "P d" and "key_column tbl k"
  obtains rs uss d' where
    "drv_query E c (select_text (tab_FieldOrder tbl) (tab_TableName tbl) (k @ '' = ?'')) [VStr x] d =
        (Ok (tab_FieldOrder tbl, uss, None), d')" and "P d'" and "rows d' = rows d"
    and "set rs = matching (rows d (tab_TableName tbl)) k x"
    and "list_all2 (\<lambda>r us. list_all2 (gives E) (map r (tab_FieldOrder tbl)) us) rs uss"
  using assms unfolding select_answers_def by blast

lemma delete_answersD:
  assumes "conn_answers E c P rows tbl" and "P d"
  obtains d' where "drv_exec E c (delete_text (tab_TableName tbl) ''id = ?'') [VStr i] d =
        (Ok (Inr (if rows d (tab_TableName tbl) i = None then 0 else 1)), d')" and "P d'"
    and "rows d' = (rows d)(tab_TableName tbl := (rows d (tab_TableName tbl))(i := None))"
  using assms unfolding conn_answers_def delete_answers_def by blast

lemma conn_selects: "conn_answers E c P rows tbl \<Longrightarrow> select_answers E c P rows tbl"
  by (simp add: conn_answers_def)

section \<open>The adapter's operations\<close>

fun sqlite_op :: "('d, 'e) env_scheme \<Rightarrow> string \<Rightarrow> op \<Rightarrow> (('d, 'z) adst_scheme, answer) go" where
  "sqlite_op E T (OInsert obj) = seq (sqlite_Insert E obj) (\<lambda>(data, created). ret (AInsert created))"
| "sqlite_op E T (OUpdate obj) = catch (sqlite_Update E obj) (\<lambda>e. ret ARefused) (\<lambda>b. ret (AUpdate b))"
| "sqlite_op E T (OFind i) = seq (sqlite_FindByID E T i) (\<lambda>o1. ret (AFind (map_option object_view o1)))"
| "sqlite_op E T (ODelete i) = seq (sqlite_DeleteByID E T i) (\<lambda>b. ret (ADelete b))"

fun sqlite_ops :: "('d, 'e) env_scheme \<Rightarrow> string \<Rightarrow> op list \<Rightarrow> (('d, 'z) adst_scheme, answer list) go" where
  "sqlite_ops E T [] = ret []"
| "sqlite_ops E T (p # ps) = seq (sqlite_op E T p) (\<lambda>a. seq (sqlite_ops E T ps) (\<lambda>as. ret (a # as)))"

text \<open>The adapter has an open handle and a schema, free of locks, that holds the table.\<close>

definition serves :: "('d, 'z) adst_scheme \<Rightarrow> TableSchema \<Rightarrow> bool" where
  "serves w tbl \<longleftrightarrow> (\<exists>n s. ad_DB w = Some n \<and> \<not> db_closed w n \<and> ad_Sch w = Some s \<and>
     \<not> mu_writer (sch_mu s) \<and> mget (sch_Tables s) (tab_TableName tbl) = Some tbl)"

lemma serves_drv [simp]: "serves (w\<lparr>drv := d\<rparr>) tbl = serves w tbl"
  by (simp add: serves_def)

lemma servesE:
  assumes "serves w tbl"
  obtains n where "ad_DB w = Some n" and "\<not> db_closed w n"
    and "Base_ValidateConnection w = (Ok (), w)"
    and "Base_GetTable (tab_TableName tbl) w = (Ok tbl, w)"
    and "GetTable (ad_Sch w) (tab_TableName tbl) = Ok (tbl, True)"
  using assms
  by (auto simp: serves_def Base_ValidateConnection_def Base_GetTable_def Base_ValidateSchema_def
        ValidateConnection_def ValidateSchema_def GetTable_eq go_simps)

lemma map_question [simp]: "map question_mark (count_from i n) = replicate n ''?''"
  by (induction n arbitrary: i) (simp_all add: question_mark_def)

lemma whole_row_columns:
  "whole_row tbl nvs \<Longrightarrow> (n, v) \<in> set nvs \<Longrightarrow> n \<in> set (tab_FieldOrder tbl)"
  by (auto simp: whole_row_def good_values_def)

lemma stored_names: "map fst (stored L tbl obj) = map fst (non_id (entries (obj_Fields obj)))"
  by (simp add: stored_def case_prod_unfold comp_def)

lemma insertable_prepares:
  assumes "plain_table tbl" and "insertable L tbl obj"
  shows "PrepareInsertData L obj tbl question_mark =
    Ok (''id'' # map fst (stored L tbl obj), replicate (Suc (length (stored L tbl obj))) ''?'',
        VStr (obj_ID obj) # map snd (stored L tbl obj))"
proof -
  let ?fs = "non_id (entries (obj_Fields obj))" and ?F = "tab_Fields tbl"
  have wf: "wf_table tbl" using assms(1) by (simp add: plain_table_def)
  have "binds (bind_value L) tbl nv (case bind_value L (fst nv) (field_of ?F (fst nv)) (snd nv) of Ok u \<Rightarrow> u | _ \<Rightarrow> VNil)"
    if "nv \<in> set ?fs" for nv
  proof -
    have "fst nv \<in> set (map fst (stored L tbl obj))" using that by (simp add: stored_names)
    then have "fst nv \<in> set (tab_FieldOrder tbl)"
      using assms(2) whole_row_columns by (fastforce simp: insertable_def)
    moreover have "is_ok (bind_value L (fst nv) (field_of ?F (fst nv)) (snd nv))"
      using assms(2) that by (auto simp: insertable_def)
    ultimately show ?thesis
      using wf_table_field(1) [OF wf]
      by (cases "bind_value L (fst nv) (field_of ?F (fst nv)) (snd nv)") (auto simp: binds_def)
  qed
  then have "list_all2 (binds (bind_value L) tbl) ?fs (map snd (stored L tbl obj))"
    by (auto simp: stored_def list_all2_conv_all_nth case_prod_unfold comp_def)
  moreover have "length (stored L tbl obj) = length ?fs" by (simp add: stored_def)
  ultimately show ?thesis
    by (simp add: prepare_insert_iff stored_names) (simp add: question_mark_def)
qed

lemma updatable_prepares:
  assumes "updatable tbl obj"
  shows "PrepareUpdateData obj question_mark =
    Ok (map (\<lambda>nv. fst nv @ '' = ?'') (changes obj), map snd (changes obj) @ [VStr (obj_ID obj)])"
proof -
  have "mlen (obj_Fields obj) \<noteq> 0" using assms by (auto simp: updatable_def changes_def mlen_def)
  moreover have "map2 (\<lambda>nv k. fst nv @ '' = '' @ question_mark k) (changes obj) (count_from 1 (length (changes obj))) =
      map (\<lambda>nv. fst nv @ '' = ?'') (changes obj)"
    by (simp add: question_mark_def map2_first)
  ultimately show ?thesis by (simp add: prepare_update_eq changes_def Let_def)
qed

lemma any_rows_reports:
  assumes "reports (\<lambda>b. Inr (if b then 1 else 0)) x a"
  obtains a' where "seq (pure a) any_rows w = (a', w)" and "reports (\<lambda>b. b) x a'"
  using assms by (cases x) (auto simp: reports_def any_rows_def RowsAffected_def)

lemma refine_insert:
  assumes eng: "handle_answers E P rows tbl" and P: "P (drv w)" and tbl: "plain_table tbl" and w: "serves w tbl"
    and obj: "insertable E tbl obj"
  shows "\<exists>data d. sqlite_Insert E obj w = (Ok (data, True), w\<lparr>drv := d\<rparr>) \<and> P d \<and>
    rows d = (rows (drv w))(tab_TableName tbl :=
      replace_row tbl (obj_ID obj) (new_row (obj_ID obj) (stored E tbl obj)) (rows (drv w) (tab_TableName tbl)))"
proof -
  let ?nvs = "stored E tbl obj"
  from w obtain n where n: "ad_DB w = Some n" "\<not> db_closed w n"
    "Base_ValidateConnection w = (Ok (), w)" "Base_GetTable (tab_TableName tbl) w = (Ok tbl, w)"
    by (rule servesE)
  obtain data where data: "lib_json_object E obj = Ok data"
    using obj by (cases "lib_json_object E obj") (auto simp: insertable_def)
  have row: "whole_row tbl ?nvs" and name: "obj_TableName obj = tab_TableName tbl"
    using obj by (simp_all add: insertable_def)
  obtain d where
    d: "drv_exec E (OnDB n) (insert_text ''INSERT OR REPLACE INTO'' (tab_TableName tbl) (''id'' # map fst ?nvs)
          (replicate (Suc (length ?nvs)) ''?'')) (VStr (obj_ID obj) # map snd ?nvs) (drv w) = (Ok (Inr 1), d)" "P d"
    and rows: "rows d = (rows (drv w))(tab_TableName tbl :=
      replace_row tbl (obj_ID obj) (new_row (obj_ID obj) ?nvs) (rows (drv w) (tab_TableName tbl)))"
    using insert_answersD [OF eng [unfolded handle_answers_def, rule_format] P row] by metis
  show ?thesis
    using n data insertable_prepares [OF tbl obj] name d rows
    by (intro exI [of _ data] exI [of _ d]) (simp add: sqlite_Insert_def go_simps GetDB_def db_Exec_def use_db_def sql_Exec_def on_driver_def
        del: replicate_Suc)
qed

lemma refine_update:
  assumes eng: "handle_answers E P rows tbl" and P: "P (drv w)" and tbl: "plain_table tbl" and w: "serves w tbl"
    and obj: "updatable tbl obj"
  shows "\<exists>a d. sqlite_Update E obj w = (a, w\<lparr>drv := d\<rparr>) \<and> P d \<and>
    reports (\<lambda>b. b) (fst (update_row tbl (obj_ID obj) (changes obj) (rows (drv w) (tab_TableName tbl)))) a \<and>
    rows d = (rows (drv w))(tab_TableName tbl :=
      snd (update_row tbl (obj_ID obj) (changes obj) (rows (drv w) (tab_TableName tbl))))"
proof -
  let ?nvs = "changes obj"
  from w obtain n where n: "ad_DB w = Some n" "\<not> db_closed w n"
    "Base_ValidateConnection w = (Ok (), w)" "Base_GetTable (tab_TableName tbl) w = (Ok tbl, w)"
    by (rule servesE)
  have good: "good_values tbl ?nvs" "?nvs \<noteq> []" and name: "obj_TableName obj = tab_TableName tbl"
    using obj by (simp_all add: updatable_def)
  obtain a d where
    d: "drv_exec E (OnDB n) (update_text (tab_TableName tbl) (map (\<lambda>nv. fst nv @ '' = ?'') ?nvs) ''id = ?'')
          (map snd ?nvs @ [VStr (obj_ID obj)]) (drv w) = (a, d)"
    and rep: "reports (\<lambda>b. Inr (if b then 1 else 0))
        (fst (update_row tbl (obj_ID obj) ?nvs (rows (drv w) (tab_TableName tbl)))) a"
    and "P d" and rows: "rows d = (rows (drv w))(tab_TableName tbl :=
        snd (update_row tbl (obj_ID obj) ?nvs (rows (drv w) (tab_TableName tbl))))"
    using update_answersD [OF eng [unfolded handle_answers_def, rule_format] P good] by metis
  have run: "sqlite_Update E obj w = seq (pure a) any_rows (w\<lparr>drv := d\<rparr>)"
    using n updatable_prepares [OF obj] name d
    by (simp add: sqlite_Update_def seq_def gets_def GetDB_def db_Exec_def use_db_def sql_Exec_def on_driver_def)
  obtain a' where "seq (pure a) any_rows (w\<lparr>drv := d\<rparr>) = (a', w\<lparr>drv := d\<rparr>)"
      "reports (\<lambda>b. b) (fst (update_row tbl (obj_ID obj) ?nvs (rows (drv w) (tab_TableName tbl)))) a'"
    by (rule any_rows_reports [OF rep])
  with run \<open>P d\<close> rows show ?thesis by auto
qed

lemma refine_delete:
  assumes eng: "handle_answers E P rows tbl" and P: "P (drv w)" and w: "serves w tbl"
  shows "\<exists>d. sqlite_DeleteByID E (tab_TableName tbl) i w =
      (Ok (rows (drv w) (tab_TableName tbl) i \<noteq> None), w\<lparr>drv := d\<rparr>) \<and> P d \<and>
    rows d = (rows (drv w))(tab_TableName tbl := (rows (drv w) (tab_TableName tbl))(i := None))"
proof -
  from w obtain n where n: "ad_DB w = Some n" "\<not> db_closed w n" by (rule servesE)
  obtain d where
    d: "drv_exec E (OnDB n) (delete_text (tab_TableName tbl) ''id = ?'') [VStr i] (drv w) =
        (Ok (Inr (if rows (drv w) (tab_TableName tbl) i = None then 0 else 1)), d)" "P d"
       "rows d = (rows (drv w))(tab_TableName tbl := (rows (drv w) (tab_TableName tbl))(i := None))"
    using delete_answersD [OF eng [unfolded handle_answers_def, rule_format] P] by metis
  then show ?thesis
    using n by (intro exI [of _ d]) (simp add: sqlite_DeleteByID_def go_simps GetDB_def CommonDeleteByID_def ValidateConnection_def
        db_Exec_def use_db_def sql_Exec_def on_driver_def any_rows_def RowsAffected_def)
qed

text \<open>The driver's value for a value that fits its column is scanned into that column's pointer and read back.\<close>

lemma fits_scans:
  assumes "fits f v" and "gives L v u"
  shows "\<exists>c. convertAssign L (cell_type (scanner_pointer f)) u = Ok c \<and>
     plain (Cell (cell_type (scanner_pointer f)) c) = v"
proof (cases "string_kind (col_kind f) \<and> v \<noteq> VNil")
  case True
  with assms(1) obtain s where s: "v = VStr s"
    by (auto simp: fits_def string_kind_def split: kind.splits goval.splits)
  with assms(2) have "scalar_text L u = Some s" "u \<noteq> VNil"
    by (auto simp: gives_def scalar_text_def)
  then have str: "convertAssign L TStr u = Ok (VStr s)"
    by (cases u) simp_all
  with \<open>u \<noteq> VNil\<close> have ptr: "convertAssign L (TPtr TStr) u = Ok (VPtr (VStr s))"
    by (cases u) simp_all
  from True assms(1) str ptr show ?thesis
    by (cases "col_kind f"; cases "col_Nullable f")
       (simp_all add: fits_def string_kind_def scanner_pointer_def nullable_cell_def plain_def s)
next
  case False
  then have "u = v" using assms by (auto simp: gives_def fits_def string_kind_def split: goval.splits kind.splits)
  with False assms(1) show ?thesis
    by (cases "col_kind f"; cases "col_Nullable f"; cases v)
       (simp_all add: fits_def scanner_pointer_def nullable_cell_def plain_def string_kind_def)
qed

lemma scan_columns_fit:
  assumes "list_all2 (\<lambda>p (v, u). \<exists>c. convertAssign L (cell_type p) u = Ok c \<and> plain (Cell (cell_type p) c) = v)
    ps (zip vs us)" and "length us = length vs"
  shows "\<exists>cs. scan_columns L i cols us ps = Ok cs \<and> map plain cs = vs"
  using assms
proof (induction us arbitrary: i cols ps vs)
  case (Cons u us)
  then obtain v vs1 where vs: "vs = v # vs1" by (cases vs) auto
  with Cons.prems(1) obtain p ps1 c where ps: "ps = p # ps1" "convertAssign L (cell_type p) u = Ok c"
    "plain (Cell (cell_type p) c) = v"
    and rest: "list_all2 (\<lambda>p (v, u). \<exists>c. convertAssign L (cell_type p) u = Ok c \<and> plain (Cell (cell_type p) c) = v)
      ps1 (zip vs1 us)" by (auto simp: list_all2_Cons2)
  obtain cs where "scan_columns L (Suc i) (drop 1 cols) us ps1 = Ok cs" "map plain cs = vs1"
    using Cons.IH [OF rest] Cons.prems(2) vs by auto
  moreover obtain t old where "p = Cell t old" by (cases p)
  ultimately show ?case using ps vs by simp
qed simp

lemma map_of_rev: "distinct (map fst kvs) \<Longrightarrow> map_of (rev kvs) = map_of kvs"
  by (subst map_of_inject_set) (simp_all add: rev_map [symmetric])

lemma map_of_rev_zip:
  "distinct ns \<Longrightarrow> map_of (rev (zip ns (map r ns))) = (\<lambda>n. if n \<in> set ns then Some (r n) else None)"
  by (simp add: map_of_rev map_of_zip_map)

lemma row_scans:
  assumes tbl: "plain_table tbl" and row: "row_fits tbl i r"
    and us: "list_all2 (gives L) (map r (tab_FieldOrder tbl)) us"
  shows "\<exists>cs. Scan_row L cols us (fs_ColumnPointers (NewFieldScanner tbl)) = Ok cs \<and>
    map plain cs = map r (tab_FieldOrder tbl)"
proof -
  let ?F = "tab_Fields tbl" and ?ns = "tab_FieldOrder tbl"
  have fit: "fits (field_of ?F n) (r n)" if "n \<in> set ?ns" for n
    using tbl row that by (cases "n = ''id''") (auto simp: plain_table_def row_fits_def fits_def)
  have len: "length us = length ?ns" using us by (simp add: list_all2_conv_all_nth)
  have "list_all2 (\<lambda>p (v, u). \<exists>c. convertAssign L (cell_type p) u = Ok c \<and> plain (Cell (cell_type p) c) = v)
      (map (\<lambda>n. scanner_pointer (field_of ?F n)) ?ns) (zip (map r ?ns) us)"
    using us fit by (auto simp: list_all2_conv_all_nth intro!: fits_scans)
  from scan_columns_fit [OF this] len show ?thesis by (simp add: Scan_row_def)
qed

lemma row_object_of:
  assumes tbl: "plain_table tbl" and row: "row_fits tbl i r"
    and o1: "object_of (tab_TableName tbl) (tab_FieldOrder tbl) (map r (tab_FieldOrder tbl)) o1"
  shows "row_object tbl i r o1"
proof -
  have id: "''id'' \<in> set (tab_FieldOrder tbl)" and dist: "distinct (tab_FieldOrder tbl)"
    using tbl by (simp_all add: plain_table_def)
  have "fields_of o1 = (\<lambda>n. if n \<in> set (tab_FieldOrder tbl) then Some (r n) else None)"
    using o1 dist by (simp add: object_of_def map_of_rev_zip)
  with o1 row id show ?thesis
    by (simp add: row_object_def object_view_def row_view_def object_of_def row_fits_def)
qed

text \<open>What a find makes of the rows that match, on the connection that gave them.\<close>

lemma matching_found:
  assumes tbl: "plain_table tbl" and fit: "store_fits tbl s" and rs: "set rs = matching s k x"
    and uss: "list_all2 (\<lambda>r us. list_all2 (gives E) (map r (tab_FieldOrder tbl)) us) rs uss"
    and m: "m w = (scan_first E (tab_FieldOrder tbl, uss, None) (fs_ColumnPointers (NewFieldScanner tbl)), w')"
  obtains res where "finish_find m
      (\<lambda>cs. ScanToObject ((NewFieldScanner tbl)\<lparr>fs_ColumnPointers := cs\<rparr>) (tab_TableName tbl)) w = (Ok res, w')"
    and "found tbl s k x res"
proof -
  let ?ns = "tab_FieldOrder tbl"
  have wf: "wf_table tbl" and kind: "string_kind (col_kind (field_of (tab_Fields tbl) ''id''))"
    using tbl by (simp_all add: plain_table_def string_kind_def)
  show thesis
  proof (cases rs)
    case Nil
    with rs have "found tbl s k x None" by (auto simp: found_def matching_def)
    moreover from Nil uss have "uss = []" by simp
    ultimately show thesis
      using m by (intro that [of None]) (simp_all add: finish_find_def go_simps scan_first_def)
  next
    case (Cons r rest)
    then obtain us where us: "list_all2 (gives E) (map r ?ns) us" "\<exists>uss'. uss = us # uss'"
      using uss by (auto simp: list_all2_Cons1)
    have "r \<in> matching s k x" using rs Cons by auto
    then obtain i where i: "s i = Some r" "r k = VStr x" by (auto simp: matching_def)
    then have row: "row_fits tbl i r" using fit by (simp add: store_fits_def)
    from row_scans [OF tbl row us(1)] obtain cs where
      scan: "Scan_row E ?ns us (fs_ColumnPointers (NewFieldScanner tbl)) = Ok cs" "map plain cs = map r ?ns" by blast
    with us(2) have cs: "scan_first E (?ns, uss, None) (fs_ColumnPointers (NewFieldScanner tbl)) = Ok cs"
      "map plain cs = map r ?ns" by (auto simp: scan_first_def simp del: NewFieldScanner_simps)
    from scan_to_object [OF wf cs(1) kind] obtain o1 where
      o1: "ScanToObject ((NewFieldScanner tbl)\<lparr>fs_ColumnPointers := cs\<rparr>) (tab_TableName tbl) = Ok o1"
        "object_of (tab_TableName tbl) ?ns (map r ?ns) o1" using cs(2) by metis
    have "found tbl s k x (Some o1)"
      using i row_object_of [OF tbl row o1(2)] by (auto simp: found_def)
    with m cs(1) o1(1) show thesis
      by (intro that [of "Some o1"]) (simp_all add: finish_find_def go_simps)
  qed
qed

text \<open>Reading needs less: the handles have to answer a SELECT only.\<close>

definition handle_selects :: "('d, 'e) env_scheme \<Rightarrow> ('d \<Rightarrow> bool) \<Rightarrow> ('d \<Rightarrow> database) \<Rightarrow> TableSchema \<Rightarrow> bool" where
  "handle_selects E P rows tbl \<longleftrightarrow> (\<forall>n. select_answers E (OnDB n) P rows tbl)"

lemma handle_answers_selects: "handle_answers E P rows tbl \<Longrightarrow> handle_selects E P rows tbl"
  by (simp add: handle_answers_def handle_selects_def conn_selects)

lemma refine_find_key:
  assumes eng: "handle_selects E P rows tbl" and P: "P (drv w)" and tbl: "plain_table tbl" and w: "serves w tbl"
    and fit: "store_fits tbl (rows (drv w) (tab_TableName tbl))" and k: "key_column tbl k" and x: "x \<noteq> []"
  shows "\<exists>res d. sqlite_FindByKey E (tab_TableName tbl) k x w = (Ok res, w\<lparr>drv := d\<rparr>) \<and> P d \<and> rows d = rows (drv w) \<and>
    found tbl (rows (drv w) (tab_TableName tbl)) k x res"
proof -
  let ?ns = "tab_FieldOrder tbl" and ?s = "rows (drv w) (tab_TableName tbl)"
  have wf: "wf_table tbl" and T: "tab_TableName tbl \<noteq> []" using tbl by (simp_all add: plain_table_def)
  have kn: "k \<in> set ?ns" using k by (simp add: key_column_def)
  have "k \<noteq> []" using wf wf_table_field [OF wf kn] by (auto simp: wf_table_def)
  from w obtain n where n: "ad_DB w = Some n" "\<not> db_closed w n"
    "GetTable (ad_Sch w) (tab_TableName tbl) = Ok (tbl, True)" by (rule servesE)
  have find: "sqlite_FindByKey E (tab_TableName tbl) k x w =
      finish_find (db_QueryRow E (Some n) (select_text ?ns (tab_TableName tbl) (k @ '' = ?'')) [VStr x]
          (fs_ColumnPointers (NewFieldScanner tbl)))
        (\<lambda>cs. ScanToObject ((NewFieldScanner tbl)\<lparr>fs_ColumnPointers := cs\<rparr>) (tab_TableName tbl)) w"
    using n x T kn \<open>k \<noteq> []\<close>
    by (simp add: sqlite_FindByKey_def seq_gets GetDB_def GetSchema_def
        CommonFindByKey_def ValidateConnection_def ValidateFindByKeyParams_def Let_def GetColumns_wf [OF wf]
        wf_table_field(2) [OF wf] del: NewFieldScanner_simps)
  obtain rs uss d where
    q: "drv_query E (OnDB n) (select_text ?ns (tab_TableName tbl) (k @ '' = ?'')) [VStr x] (drv w) =
        (Ok (?ns, uss, None), d)" "P d" and rows: "rows d = rows (drv w)"
    and rs: "set rs = matching ?s k x"
    and uss: "list_all2 (\<lambda>r us. list_all2 (gives E) (map r ?ns) us) rs uss"
    using select_answersD [OF eng [unfolded handle_selects_def, rule_format] P k] by metis
  let ?m = "db_QueryRow E (Some n) (select_text ?ns (tab_TableName tbl) (k @ '' = ?'')) [VStr x]
      (fs_ColumnPointers (NewFieldScanner tbl))"
  have m: "?m w = (scan_first E (?ns, uss, None) (fs_ColumnPointers (NewFieldScanner tbl)), w\<lparr>drv := d\<rparr>)"
    using n q by (simp add: db_QueryRow_def use_db_def sql_QueryRow_def go_simps on_driver_def)
  obtain res where "finish_find ?m (\<lambda>cs. ScanToObject ((NewFieldScanner tbl)\<lparr>fs_ColumnPointers := cs\<rparr>) (tab_TableName tbl)) w = (Ok res, w\<lparr>drv := d\<rparr>)"
    "found tbl ?s k x res"
    by (rule matching_found [where m = ?m, OF tbl fit rs uss m])
  with find q(2) rows show ?thesis by auto
qed

lemma refine_find:
  assumes eng: "handle_selects E P rows tbl" and P: "P (drv w)" and tbl: "plain_table tbl" and w: "serves w tbl"
    and fit: "store_fits tbl (rows (drv w) (tab_TableName tbl))" and i: "i \<noteq> []"
  shows "\<exists>res d. sqlite_FindByID E (tab_TableName tbl) i w = (Ok res, w\<lparr>drv := d\<rparr>) \<and> P d \<and> rows d = rows (drv w) \<and>
    map_option object_view res = map_option (row_view tbl i) (rows (drv w) (tab_TableName tbl) i)"
proof -
  from refine_find_key [of E P rows, OF eng P tbl w fit key_column_id [OF tbl] i] obtain res d where
    res: "sqlite_FindByKey E (tab_TableName tbl) ''id'' i w = (Ok res, w\<lparr>drv := d\<rparr>)" "P d" "rows d = rows (drv w)"
      "found tbl (rows (drv w) (tab_TableName tbl)) ''id'' i res" by blast
  have "map_option object_view res = map_option (row_view tbl i) (rows (drv w) (tab_TableName tbl) i)"
    using res(4) found_id [OF fit] by (auto simp: row_object_def split: option.splits)
  with res(1-3) show ?thesis by (auto simp: sqlite_FindByID_def Base_FindByID_def)
qed

section \<open>Every run\<close>

lemma spec_op_fits: "store_fits tbl s \<Longrightarrow> good_op L tbl p \<Longrightarrow> store_fits tbl (snd (spec_op L tbl p s))"
proof (cases p)
  case (OUpdate obj)
  assume "store_fits tbl s" "good_op L tbl p"
  then show ?thesis
    using OUpdate update_row_fits [of tbl s "changes obj" "obj_ID obj"]
    by (auto simp: updatable_def split: prod.splits option.splits)
qed (auto simp: insertable_def new_row_fits replace_row_fits store_fits_del)

lemma refine_op:
  assumes eng: "handle_answers E P rows tbl" and P: "P (drv w)" and tbl: "plain_table tbl" and w: "serves w tbl"
    and fit: "store_fits tbl (rows (drv w) (tab_TableName tbl))" and p: "good_op E tbl p"
  shows "\<exists>d. sqlite_op E (tab_TableName tbl) p w =
      (Ok (fst (spec_op E tbl p (rows (drv w) (tab_TableName tbl)))), w\<lparr>drv := d\<rparr>) \<and> P d \<and>
    rows d = (rows (drv w))(tab_TableName tbl := snd (spec_op E tbl p (rows (drv w) (tab_TableName tbl))))"
proof (cases p)
  case (OInsert obj)
  with p refine_insert [of E P rows, OF eng P tbl w, of obj] show ?thesis by (auto simp: go_simps)
next
  case (OUpdate obj)
  with p have "updatable tbl obj" by simp
  from refine_update [of E P rows, OF eng P tbl w this] obtain a d where
    d: "sqlite_Update E obj w = (a, w\<lparr>drv := d\<rparr>)" "P d"
      "reports (\<lambda>b. b) (fst (update_row tbl (obj_ID obj) (changes obj) (rows (drv w) (tab_TableName tbl)))) a"
      "rows d = (rows (drv w))(tab_TableName tbl :=
        snd (update_row tbl (obj_ID obj) (changes obj) (rows (drv w) (tab_TableName tbl))))" by blast
  then show ?thesis
    using OUpdate by (intro exI [of _ d])
      (auto simp: catch_def reports_def split: prod.splits option.splits)
next
  case (OFind i)
  with p have "i \<noteq> []" by simp
  from refine_find [of E P rows, OF handle_answers_selects [OF eng] P tbl w fit this] OFind show ?thesis by (auto simp: seq_def)
next
  case (ODelete i)
  with refine_delete [of E P rows, OF eng P w, of i] show ?thesis by (auto simp: go_simps)
qed


section \<open>The adapter as a storage of tables\<close>

text \<open>The adapter has an open handle and this schema, free of locks; every table holds rows that fit it.\<close>

definition serving :: "Schema \<Rightarrow> ('d \<Rightarrow> database) \<Rightarrow> ('d, 'z) adst_scheme \<Rightarrow> bool" where
  "serving S rows w \<longleftrightarrow> (\<exists>n. ad_DB w = Some n \<and> ad_TM_DB w = Some n \<and> \<not> db_closed w n) \<and> ad_Sch w = Some S \<and> \<not> mu_writer (sch_mu S) \<and>
     (\<forall>T tbl. mget (sch_Tables S) T = Some tbl \<longrightarrow> store_fits tbl (rows (drv w) T))"

definition plain_schema :: "Schema \<Rightarrow> bool" where
  "plain_schema S \<longleftrightarrow> (\<forall>(T, tbl)\<in>set (entries (sch_Tables S)). plain_table tbl \<and> tab_TableName tbl = T)"

definition sqlite_serves :: "('d, 'e) env_scheme \<Rightarrow> ('d \<Rightarrow> database) \<Rightarrow> Schema \<Rightarrow> bool" where
  "sqlite_serves E rows S \<longleftrightarrow> (\<forall>(T, tbl)\<in>set (entries (sch_Tables S)). sqlite_answers E rows tbl)"

lemma serving_drv:
  assumes "serving S rows w"
    and "\<And>T tbl. mget (sch_Tables S) T = Some tbl \<Longrightarrow> store_fits tbl (rows d T)"
  shows "serving S rows (w\<lparr>drv := d\<rparr>)"
  using assms by (simp add: serving_def)

text \<open>The same of handles that answer in the states of \<open>P\<close>.\<close>

definition handle_serves :: "('d, 'e) env_scheme \<Rightarrow> ('d \<Rightarrow> bool) \<Rightarrow> ('d \<Rightarrow> database) \<Rightarrow> Schema \<Rightarrow> bool" where
  "handle_serves E P rows S \<longleftrightarrow> (\<forall>(T, tbl)\<in>set (entries (sch_Tables S)). handle_answers E P rows tbl)"

lemma sqlite_serves_handle: "sqlite_serves E rows S \<longleftrightarrow> handle_serves E (\<lambda>d. True) rows S"
  by (simp add: sqlite_serves_def handle_serves_def sqlite_answers_def)

text \<open>What the laws of a storage of tables need of one table of the schema.\<close>

lemma serving_table:
  assumes "plain_schema S" and "serving S rows w" and "mget (sch_Tables S) T = Some tbl"
  shows "plain_table tbl" and "handle_serves E P rows S \<Longrightarrow> handle_answers E P rows tbl" and "tab_TableName tbl = T"
    and "serves w tbl" and "store_fits tbl (rows (drv w) (tab_TableName tbl))"
    and "rows d = rows (drv w) \<Longrightarrow> serving S rows (w\<lparr>drv := d\<rparr>)"
    and "rows d = (rows (drv w))(tab_TableName tbl := s) \<Longrightarrow> store_fits tbl s \<Longrightarrow> serving S rows (w\<lparr>drv := d\<rparr>)"
proof -
  show "plain_table tbl" "handle_serves E P rows S \<Longrightarrow> handle_answers E P rows tbl" and name: "tab_TableName tbl = T"
    using assms(1,3) by (auto simp: plain_schema_def handle_serves_def dest: mget_Some_in)
  show "serves w tbl" "store_fits tbl (rows (drv w) (tab_TableName tbl))"
    using assms(2,3) name by (auto simp: serving_def serves_def)
  show "serving S rows (w\<lparr>drv := d\<rparr>)" if "rows d = rows (drv w)"
    using assms(2) that by (simp add: serving_def)
  show "serving S rows (w\<lparr>drv := d\<rparr>)" if "rows d = (rows (drv w))(tab_TableName tbl := s)" and "store_fits tbl s"
    using assms(2,3) that name by (simp add: serving_def)
qed

lemma handle_record_store:
  assumes S: "plain_schema S" and E: "handle_serves E P rows S"
  shows "record_store (sqlite_storage E) E (\<lambda>w. rows (drv w)) (\<lambda>w. serving S rows w \<and> P (drv w)) (mget (sch_Tables S))"
proof (rule record_store.intro)
  show "plain_table tbl \<and> tab_TableName tbl = T" if "mget (sch_Tables S) T = Some tbl" for T tbl
    using S that by (auto simp: plain_schema_def dest: mget_Some_in)
  show "store_fits tbl (rows (drv w) T)" if "serving S rows w \<and> P (drv w)" "mget (sch_Tables S) T = Some tbl" for w T tbl
    using that by (simp add: serving_def)
next
  fix w T tbl obj
  assume w: "serving S rows w \<and> P (drv w)" and T: "mget (sch_Tables S) T = Some tbl" and obj: "insertable E tbl obj"
  note t = serving_table [OF S conjunct1 [OF w] T]
  from refine_insert [of E P rows, OF t(2) [OF E] conjunct2 [OF w] t(1,4) obj] obtain data d where
    d: "sqlite_Insert E obj w = (Ok (data, True), w\<lparr>drv := d\<rparr>)" "P d"
      "rows d = (rows (drv w))(tab_TableName tbl :=
         replace_row tbl (obj_ID obj) (new_row (obj_ID obj) (stored E tbl obj)) (rows (drv w) (tab_TableName tbl)))"
    by blast
  have "row_fits tbl (obj_ID obj) (new_row (obj_ID obj) (stored E tbl obj))"
    using obj by (simp add: insertable_def new_row_fits)
  from t(7) [OF d(3) replace_row_fits [OF t(5) this]] d t(3)
  show "\<exists>data w'. st_Insert (sqlite_storage E) obj w = (Ok (data, True), w') \<and> (serving S rows w' \<and> P (drv w')) \<and>
      rows (drv w') = (rows (drv w))(T :=
        replace_row tbl (obj_ID obj) (new_row (obj_ID obj) (stored E tbl obj)) (rows (drv w) T))"
    by (intro exI [of _ data] exI [of _ "w\<lparr>drv := d\<rparr>"]) (simp add: sqlite_storage_def)
next
  fix w T tbl obj
  assume w: "serving S rows w \<and> P (drv w)" and T: "mget (sch_Tables S) T = Some tbl" and obj: "updatable tbl obj"
  note t = serving_table [OF S conjunct1 [OF w] T]
  from refine_update [of E P rows, OF t(2) [OF E] conjunct2 [OF w] t(1,4) obj] obtain a d where
    d: "sqlite_Update E obj w = (a, w\<lparr>drv := d\<rparr>)" "P d"
      "reports (\<lambda>b. b) (fst (update_row tbl (obj_ID obj) (changes obj) (rows (drv w) (tab_TableName tbl)))) a"
      "rows d = (rows (drv w))(tab_TableName tbl :=
        snd (update_row tbl (obj_ID obj) (changes obj) (rows (drv w) (tab_TableName tbl))))" by blast
  have "good_values tbl (changes obj)" using obj by (simp add: updatable_def)
  from t(7) [OF d(4) update_row_fits [OF t(5) this]] d t(3)
  show "\<exists>a w'. st_Update (sqlite_storage E) obj w = (a, w') \<and> (serving S rows w' \<and> P (drv w')) \<and>
      reports (\<lambda>b. b) (fst (update_row tbl (obj_ID obj) (changes obj) (rows (drv w) T))) a \<and>
      rows (drv w') = (rows (drv w))(T := snd (update_row tbl (obj_ID obj) (changes obj) (rows (drv w) T)))"
    by (intro exI [of _ a] exI [of _ "w\<lparr>drv := d\<rparr>"]) (simp add: sqlite_storage_def)
next
  fix w T tbl k and x :: string
  assume w: "serving S rows w \<and> P (drv w)" and T: "mget (sch_Tables S) T = Some tbl" and k: "key_column tbl k" "x \<noteq> []"
  note t = serving_table [OF S conjunct1 [OF w] T]
  from refine_find_key [of E P rows, OF handle_answers_selects [OF t(2) [OF E]] conjunct2 [OF w] t(1,4,5) k] obtain res d where
    d: "sqlite_FindByKey E (tab_TableName tbl) k x w = (Ok res, w\<lparr>drv := d\<rparr>)" "P d" "rows d = rows (drv w)"
      "found tbl (rows (drv w) (tab_TableName tbl)) k x res" by blast
  with t(6) [OF d(3)] t(3)
  show "\<exists>res w'. st_FindByKey (sqlite_storage E) T k x w = (Ok res, w') \<and> (serving S rows w' \<and> P (drv w')) \<and>
      rows (drv w') = rows (drv w) \<and> found tbl (rows (drv w) T) k x res"
    by (intro exI [of _ res] exI [of _ "w\<lparr>drv := d\<rparr>"]) (simp add: sqlite_storage_def)
next
  show "\<exists>e. st_FindByKey (sqlite_storage E) T k [] w = (Error e, w)"
    if "serving S rows w \<and> P (drv w)" "mget (sch_Tables S) T = Some tbl" for w T tbl k
    using serving_table(4) [OF S conjunct1 [OF that(1)] that(2)]
    by (auto simp: sqlite_storage_def sqlite_FindByKey_def serves_def GetDB_def GetSchema_def CommonFindByKey_def
        ValidateConnection_def ValidateFindByKeyParams_def go_defs)
next
  fix w T tbl i
  assume w: "serving S rows w \<and> P (drv w)" and T: "mget (sch_Tables S) T = Some tbl"
  note t = serving_table [OF S conjunct1 [OF w] T]
  from refine_delete [of E P rows, OF t(2) [OF E] conjunct2 [OF w] t(4), of i] obtain d where
    d: "sqlite_DeleteByID E (tab_TableName tbl) i w =
        (Ok (rows (drv w) (tab_TableName tbl) i \<noteq> None), w\<lparr>drv := d\<rparr>)" "P d"
      "rows d = (rows (drv w))(tab_TableName tbl := (rows (drv w) (tab_TableName tbl))(i := None))" by blast
  from t(7) [OF d(3) store_fits_del [OF t(5)]] d t(3)
  show "\<exists>w'. st_DeleteByID (sqlite_storage E) T i w = (Ok (rows (drv w) T i \<noteq> None), w') \<and> (serving S rows w' \<and> P (drv w')) \<and>
      rows (drv w') = (rows (drv w))(T := (rows (drv w) T)(i := None))"
    by (intro exI [of _ "w\<lparr>drv := d\<rparr>"]) (simp add: sqlite_storage_def)
qed

lemma sqlite_record_store:
  assumes "plain_schema S" and "sqlite_serves E rows S"
  shows "record_store (sqlite_storage E) E (\<lambda>w. rows (drv w)) (serving S rows) (mget (sch_Tables S))"
  using handle_record_store [OF assms(1) assms(2) [unfolded sqlite_serves_handle]] by simp

end
