(* ===== verification/SqliteEngine.thy ===== *)
theory SqliteEngine
  imports Refinement
begin

text \<open>
  A database that answers the SQLite adapter as \<open>sqlite_answers\<close> says, for every schema of plain tables
  whose table and column names are identifiers: it reads the statement, keeps each table as a list of
  identified rows, and is executable. The witnesses of the theorems about the adapter and about the
  example applications run on it.
\<close>

section \<open>The words of a statement\<close>

definition unpunct :: "char \<Rightarrow> char" where
  "unpunct c = (if c \<in> set ''(),'' then CHR '' '' else c)"

definition sql_words :: "string \<Rightarrow> string list" where
  "sql_words q = Fields (map unpunct q)"

definition blank :: "char \<Rightarrow> bool" where
  "blank c \<longleftrightarrow> is_space (unpunct c)"

lemma sql_words_sep: "blank c \<Longrightarrow> sql_words (s @ c # t) = sql_words s @ sql_words t"
  by (simp add: sql_words_def blank_def Fields_append)

definition plain_name :: "string \<Rightarrow> bool" where
  "plain_name n \<longleftrightarrow> n \<noteq> [] \<and> list_all (\<lambda>c. \<not> blank c) n \<and> n \<notin> set [''VALUES'', ''FROM'', ''WHERE'']"

lemma sql_words_word: "n \<noteq> [] \<Longrightarrow> list_all (\<lambda>c. \<not> blank c) n \<Longrightarrow> sql_words n = [n]"
proof -
  assume n: "n \<noteq> []" "list_all (\<lambda>c. \<not> blank c) n"
  then have same: "\<forall>c\<in>set n. unpunct c = c \<and> \<not> is_space c"
    by (auto simp: list_all_iff blank_def unpunct_def is_space_def split: if_splits)
  then have "map unpunct n = n" by (simp add: map_idI)
  with n(1) same show ?thesis by (simp add: sql_words_def Fields_word)
qed

lemma sql_words_plain: "plain_name n \<Longrightarrow> sql_words n = [n]"
  by (simp add: plain_name_def sql_words_word)

lemma blanks [simp]: "blank CHR '' ''" "blank CHR '',''" "blank CHR ''(''" "blank CHR '')''"
  by (simp_all add: blank_def unpunct_def is_space_def)

text \<open>A text between two blanks is read apart from what stands before and after it.\<close>

lemma sql_words_mid: "blank b \<Longrightarrow> blank c \<Longrightarrow> sql_words (x @ (b # m @ [c]) @ y) = sql_words x @ sql_words m @ sql_words y"
  by (simp add: sql_words_sep)

lemma sql_words_nil [simp]: "sql_words [] = []"
  by (simp add: sql_words_def)

lemma sql_words_cons_blank [simp]: "blank c \<Longrightarrow> sql_words (c # s) = sql_words s"
  using sql_words_sep [of c "[]" s] by simp

lemma sql_words_parts:
  "sql_words (''INSERT OR REPLACE INTO'' @ '' '' @ y) = [''INSERT'', ''OR'', ''REPLACE'', ''INTO''] @ sql_words y"
  "sql_words (''UPDATE '' @ y) = ''UPDATE'' # sql_words y"
  "sql_words (''SELECT '' @ y) = ''SELECT'' # sql_words y"
  "sql_words (''DELETE FROM '' @ y) = [''DELETE'', ''FROM''] @ sql_words y"
  "sql_words (x @ '' ('' @ y) = sql_words x @ sql_words y"
  "sql_words (x @ '') VALUES ('' @ y) = sql_words x @ [''VALUES''] @ sql_words y"
  "sql_words (x @ '')'') = sql_words x"
  "sql_words (x @ '' SET '' @ y) = sql_words x @ [''SET''] @ sql_words y"
  "sql_words (x @ '' WHERE '' @ y) = sql_words x @ [''WHERE''] @ sql_words y"
  "sql_words (x @ '' FROM '' @ y) = sql_words x @ [''FROM''] @ sql_words y"
  "sql_words (x @ '' = ?'') = sql_words x @ [''='', ''?'']"
  "sql_words ''id = ?'' = [''id'', ''='', ''?'']"
  "sql_words (x @ '', '' @ y) = sql_words x @ sql_words y"
proof -
  have b: "blank CHR '' ''" by simp
  have w: "sql_words ''INSERT'' = [''INSERT'']" "sql_words ''OR'' = [''OR'']" "sql_words ''REPLACE'' = [''REPLACE'']"
    "sql_words ''INTO'' = [''INTO'']" "sql_words ''UPDATE'' = [''UPDATE'']" "sql_words ''SELECT'' = [''SELECT'']"
    "sql_words ''DELETE'' = [''DELETE'']" "sql_words ''FROM'' = [''FROM'']" "sql_words ''VALUES'' = [''VALUES'']"
    "sql_words ''SET'' = [''SET'']" "sql_words ''WHERE'' = [''WHERE'']" "sql_words ''='' = [''='']"
    "sql_words ''?'' = [''?'']" "sql_words ''id'' = [''id'']"
    by (simp_all add: sql_words_def unpunct_def is_space_def)
  show "sql_words (''INSERT OR REPLACE INTO'' @ '' '' @ y) = [''INSERT'', ''OR'', ''REPLACE'', ''INTO''] @ sql_words y"
    using sql_words_sep [OF b, of "''INSERT''" "''OR REPLACE INTO '' @ y"]
      sql_words_sep [OF b, of "''OR''" "''REPLACE INTO '' @ y"]
      sql_words_sep [OF b, of "''REPLACE''" "''INTO '' @ y"] sql_words_sep [OF b, of "''INTO''" y] w by simp
  show "sql_words (''UPDATE '' @ y) = ''UPDATE'' # sql_words y"
    using sql_words_sep [OF b, of "''UPDATE''" y] w by simp
  show "sql_words (''SELECT '' @ y) = ''SELECT'' # sql_words y"
    using sql_words_sep [OF b, of "''SELECT''" y] w by simp
  show "sql_words (''DELETE FROM '' @ y) = [''DELETE'', ''FROM''] @ sql_words y"
    using sql_words_sep [OF b, of "''DELETE''" "''FROM '' @ y"] sql_words_sep [OF b, of "''FROM''" y] w by simp
  show "sql_words (x @ '' ('' @ y) = sql_words x @ sql_words y"
    by (simp add: sql_words_sep)
  show "sql_words (x @ '') VALUES ('' @ y) = sql_words x @ [''VALUES''] @ sql_words y"
    using sql_words_sep [OF b, of "''VALUES''" "''('' @ y"] w by (simp add: sql_words_sep)
  show "sql_words (x @ '')'') = sql_words x"
    using sql_words_sep [of "CHR '')''" x "[]"] by simp
  show "sql_words (x @ '' SET '' @ y) = sql_words x @ [''SET''] @ sql_words y"
    using sql_words_sep [OF b, of "''SET''" y] w by (simp add: sql_words_sep)
  show "sql_words (x @ '' WHERE '' @ y) = sql_words x @ [''WHERE''] @ sql_words y"
    using sql_words_sep [OF b, of "''WHERE''" y] w by (simp add: sql_words_sep)
  show "sql_words (x @ '' FROM '' @ y) = sql_words x @ [''FROM''] @ sql_words y"
    using sql_words_sep [OF b, of "''FROM''" y] w by (simp add: sql_words_sep)
  show "sql_words (x @ '' = ?'') = sql_words x @ [''='', ''?'']"
    using sql_words_sep [OF b, of "''=''" "''?''"] w by (simp add: sql_words_sep)
  show "sql_words ''id = ?'' = [''id'', ''='', ''?'']"
    by (simp add: sql_words_def unpunct_def is_space_def)
  show "sql_words (x @ '', '' @ y) = sql_words x @ sql_words y"
    by (simp add: sql_words_sep)
qed

lemma sql_words_Join: "sql_words (Join xs '', '') = concat (map sql_words xs)"
proof (induction xs "'', ''" rule: Join.induct)
  case (3 x y xs)
  then show ?case
    unfolding Join.simps(3) by (simp only: sql_words_parts) simp
qed simp_all

lemma sql_words_names: "list_all plain_name ns \<Longrightarrow> concat (map sql_words ns) = ns"
  by (induction ns) (simp_all add: sql_words_plain)

lemma words_insert:
  assumes "plain_name T" and "list_all plain_name ns"
  shows "sql_words (insert_text ''INSERT OR REPLACE INTO'' T ns ps) =
    [''INSERT'', ''OR'', ''REPLACE'', ''INTO'', T] @ ns @ [''VALUES''] @ concat (map sql_words ps)"
  unfolding insert_text_def
  by (simp only: sql_words_parts sql_words_Join sql_words_names [OF assms(2)] sql_words_plain [OF assms(1)]) simp

lemma words_update:
  assumes "plain_name T" and "list_all plain_name ns"
  shows "sql_words (update_text T (map (\<lambda>n. n @ '' = ?'') ns) ''id = ?'') =
    [''UPDATE'', T, ''SET''] @ concat (map (\<lambda>n. [n, ''='', ''?'']) ns) @ [''WHERE'', ''id'', ''='', ''?'']"
proof -
  have "sql_words (n @ '' = ?'') = [n, ''='', ''?'']" if "n \<in> set ns" for n
    using that assms(2) unfolding sql_words_parts by (simp add: sql_words_plain list_all_iff)
  then have "map (sql_words \<circ> (\<lambda>n. n @ '' = ?'')) ns = map (\<lambda>n. [n, ''='', ''?'']) ns"
    by (intro map_cong) (simp_all only: comp_def)
  then have "concat (map sql_words (map (\<lambda>n. n @ '' = ?'') ns)) = concat (map (\<lambda>n. [n, ''='', ''?'']) ns)"
    by (simp only: map_map)
  then show ?thesis
    unfolding update_text_def
    by (simp only: sql_words_parts sql_words_Join sql_words_plain [OF assms(1)]) simp
qed

lemma words_select:
  assumes "plain_name T" and "list_all plain_name ns" and "plain_name k"
  shows "sql_words (select_text ns T (k @ '' = ?'')) = [''SELECT''] @ ns @ [''FROM'', T, ''WHERE'', k, ''='', ''?'']"
  unfolding select_text_def
  by (simp only: sql_words_parts sql_words_Join sql_words_names [OF assms(2)]
      sql_words_plain [OF assms(1)] sql_words_plain [OF assms(3)]) simp

lemma words_delete:
  assumes "plain_name T"
  shows "sql_words (delete_text T ''id = ?'') = [''DELETE'', ''FROM'', T, ''WHERE'', ''id'', ''='', ''?'']"
  unfolding delete_text_def
  by (simp only: sql_words_parts sql_words_plain [OF assms]) simp

section \<open>The engine\<close>

type_synonym tables = "string \<Rightarrow> (string \<times> row) list"

definition eng_rows :: "tables \<Rightarrow> database" where
  "eng_rows d T = map_of (d T)"

definition eng_list :: "tables \<Rightarrow> string \<Rightarrow> (string \<times> row) list" where
  "eng_list d T = AList.clearjunk (d T)"

definition arg_text :: "goval \<Rightarrow> string" where
  "arg_text v = (case v of VStr s \<Rightarrow> s | _ \<Rightarrow> [])"

fun third_words :: "string list \<Rightarrow> string list" where
  "third_words (n # e # q # ws) = n # third_words ws"
| "third_words ws = []"

definition before :: "string \<Rightarrow> string list \<Rightarrow> string list" where
  "before w ws = takeWhile (\<lambda>x. x \<noteq> w) ws"

definition table_or_none :: "Schema \<Rightarrow> string \<Rightarrow> TableSchema" where
  "table_or_none S T = (case mget (sch_Tables S) T of Some tbl \<Rightarrow> tbl | None \<Rightarrow> NewTableSchema T)"

definition eng_insert :: "Schema \<Rightarrow> string \<Rightarrow> string list \<Rightarrow> goval list \<Rightarrow> tables \<Rightarrow> tables" where
  "eng_insert S T ns args d =
     (let i = arg_text (hd args); r = new_row i (zip ns (tl args))
      in d(T := (i, r) # filter (\<lambda>(j, r'). j \<noteq> i \<and> \<not> clash (table_or_none S T) r r') (eng_list d T)))"

definition eng_update :: "Schema \<Rightarrow> string \<Rightarrow> string list \<Rightarrow> goval list \<Rightarrow> tables \<Rightarrow> (goerr + int) result \<times> tables" where
  "eng_update S T ns args d =
     (let i = arg_text (last args)
      in case map_of (d T) i of
           None \<Rightarrow> (Ok (Inr 0), d)
         | Some r \<Rightarrow>
             (let r1 = changed_row r (zip ns (butlast args))
              in if list_ex (\<lambda>(j, r'). j \<noteq> i \<and> clash (table_or_none S T) r1 r') (eng_list d T)
                 then (Error (Err ''UNIQUE constraint failed''), d)
                 else (Ok (Inr 1), d(T := AList.update i r1 (d T)))))"

definition eng_exec :: "Schema \<Rightarrow> string \<Rightarrow> goval list \<Rightarrow> tables \<Rightarrow> (goerr + int) result \<times> tables" where
  "eng_exec S q args d =
     (let ws = sql_words q
      in if hd ws = ''INSERT'' then (Ok (Inr 1), eng_insert S (ws ! 4) (tl (before ''VALUES'' (drop 5 ws))) args d)
         else if hd ws = ''UPDATE'' then eng_update S (ws ! 1) (third_words (before ''WHERE'' (drop 3 ws))) args d
         else if hd ws = ''DELETE''
         then (let i = arg_text (hd args)
               in (Ok (Inr (if map_of (d (ws ! 2)) i = None then 0 else 1)),
                   d(ws ! 2 := AList.delete i (d (ws ! 2)))))
         else if hd ws = ''CREATE'' then (Ok (Inr 0), d)
         else (Error (Err ''syntax error''), d))"

definition eng_query :: "string \<Rightarrow> goval list \<Rightarrow> tables \<Rightarrow> rowset result \<times> tables" where
  "eng_query q args d =
     (let ws = sql_words q; ns = before ''FROM'' (tl ws); rest = drop (Suc (length ns)) ws
      in (Ok (ns, map (\<lambda>(i, r). map r ns)
                (filter (\<lambda>(i, r). r (rest ! 3) = hd args) (eng_list d (rest ! 1))), None), d))"

definition eng_env :: "golib \<Rightarrow> Schema \<Rightarrow> tables env" where
  "eng_env L S = golib.extend L
     (env.fields (\<lambda>n s d. (Ok 0, d)) (\<lambda>n d. (Ok (), d)) (\<lambda>c. eng_exec S) (\<lambda>c. eng_query)
        (\<lambda>n t d. (Ok (), d)) (\<lambda>n d. (Ok (), d)) (\<lambda>n d. (Ok (), d)) (\<lambda>n d. (Ok (), d)))"

lemma eng_env_simps [simp]:
  "drv_exec (eng_env L S) = (\<lambda>c. eng_exec S)"
  "drv_query (eng_env L S) = (\<lambda>c. eng_query)"
  "lib_json_object (eng_env L S) = lib_json_object L"
  "lib_json_value (eng_env L S) = lib_json_value L"
  "lib_fmt_time (eng_env L S) = lib_fmt_time L"
  by (simp_all add: eng_env_def golib.extend_def env.fields_def)

section \<open>It answers as SQLite does\<close>

lemma map_of_eng_list: "map_of (eng_list d T) = eng_rows d T"
  by (simp add: eng_list_def eng_rows_def map_of_clearjunk)

lemma distinct_eng_list: "distinct (map fst (eng_list d T))"
  by (simp add: eng_list_def)

lemma eng_list_member: "(i, r) \<in> set (eng_list d T) \<longleftrightarrow> eng_rows d T i = Some r"
  using map_of_eq_Some_iff [OF distinct_eng_list] by (simp add: map_of_eng_list)

lemma map_of_filter_distinct:
  "distinct (map fst l) \<Longrightarrow>
     map_of (filter P l) k = (case map_of l k of None \<Rightarrow> None | Some v \<Rightarrow> if P (k, v) then Some v else None)"
  by (induction l) (auto simp: map_of_eq_None_iff split: option.splits)

lemma before_word: "w \<notin> set ws \<Longrightarrow> before w (ws @ w # rest) = ws"
  by (induction ws) (auto simp: before_def)

lemma third_words_clauses: "third_words (concat (map (\<lambda>n. [n, ''='', ''?'']) ns)) = ns"
  by (induction ns) simp_all

definition named_schema :: "Schema \<Rightarrow> bool" where
  "named_schema S \<longleftrightarrow> wf_map (sch_Tables S) \<and>
     (\<forall>(T, tbl)\<in>set (entries (sch_Tables S)). plain_name T \<and> list_all plain_name (tab_FieldOrder tbl))"

lemma eng_insert_answers:
  assumes tbl: "mget (sch_Tables S) (tab_TableName tbl) = Some tbl" and T: "plain_name (tab_TableName tbl)"
    and ns: "list_all plain_name (tab_FieldOrder tbl)" and id: "plain_name ''id''"
  shows "insert_answers (eng_env L S) c (\<lambda>d. True) eng_rows tbl"
  unfolding insert_answers_def
proof (intro allI impI exI conjI)
  fix i nvs and d :: tables
  let ?T = "tab_TableName tbl" and ?r = "new_row i nvs"
  assume "whole_row tbl nvs"
  then have "list_all plain_name (''id'' # map fst nvs)"
    using ns id by (auto simp: whole_row_def good_values_def list_all_iff)
  then have w: "sql_words (insert_text ''INSERT OR REPLACE INTO'' ?T (''id'' # map fst nvs) ps) =
      [''INSERT'', ''OR'', ''REPLACE'', ''INTO'', ?T] @ (''id'' # map fst nvs) @ [''VALUES''] @ concat (map sql_words ps)"
    and v: "''VALUES'' \<notin> set (map fst nvs)" for ps
    using words_insert [OF T] by (auto simp: list_all_iff plain_name_def)
  have b: "before ''VALUES'' ((''id'' # map fst nvs) @ ''VALUES'' # rest) = ''id'' # map fst nvs" for rest
    using v by (intro before_word) auto
  show "drv_exec (eng_env L S) c (insert_text ''INSERT OR REPLACE INTO'' ?T (''id'' # map fst nvs)
      (replicate (Suc (length nvs)) ''?'')) (VStr i # map snd nvs) d = (Ok (Inr 1), eng_insert S ?T (map fst nvs) (VStr i # map snd nvs) d)"
    using b by (simp add: eng_exec_def w Let_def)
  show True ..
  show "eng_rows (eng_insert S ?T (map fst nvs) (VStr i # map snd nvs) d) =
      (eng_rows d)(?T := replace_row tbl i ?r (eng_rows d ?T))"
    by (auto simp: eng_insert_def Let_def arg_text_def zip_map_fst_snd table_or_none_def tbl eng_rows_def [abs_def]
        replace_row_def map_of_filter_distinct [OF distinct_eng_list] map_of_eng_list fun_eq_iff split: option.splits)
qed

lemma eng_update_answers:
  assumes tbl: "mget (sch_Tables S) (tab_TableName tbl) = Some tbl" and T: "plain_name (tab_TableName tbl)"
    and ns: "list_all plain_name (tab_FieldOrder tbl)"
  shows "update_answers (eng_env L S) c (\<lambda>d. True) eng_rows tbl"
  unfolding update_answers_def
proof (intro allI impI)
  fix i and d :: tables and nvs :: "(string \<times> goval) list"
  let ?T = "tab_TableName tbl" and ?args = "map snd nvs @ [VStr i]"
  assume "good_values tbl nvs"
  then have names: "list_all plain_name (map fst nvs)"
    using ns by (auto simp: good_values_def list_all_iff)
  have w: "sql_words (update_text ?T (map (\<lambda>nv. fst nv @ '' = ?'') nvs) ''id = ?'') =
      [''UPDATE'', ?T, ''SET''] @ concat (map (\<lambda>n. [n, ''='', ''?'']) (map fst nvs)) @ ''WHERE'' # [''id'', ''='', ''?'']"
    using words_update [OF T names] by (simp add: comp_def)
  have "''WHERE'' \<notin> set (concat (map (\<lambda>n. [n, ''='', ''?'']) (map fst nvs)))"
    using names by (auto simp: list_all_iff plain_name_def)
  from before_word [OF this, of "[''id'', ''='', ''?'']"]
  have run: "drv_exec (eng_env L S) c (update_text ?T (map (\<lambda>nv. fst nv @ '' = ?'') nvs) ''id = ?'') ?args d =
      eng_update S ?T (map fst nvs) ?args d"
    by (simp add: eng_exec_def w Let_def third_words_clauses del: map_map)
  have ex: "list_ex (\<lambda>(j, r'). j \<noteq> i \<and> clash tbl r r') (eng_list d ?T) \<longleftrightarrow> taken tbl i r (eng_rows d ?T)" for r
    by (auto simp: list_ex_iff taken_def eng_list_member)
  obtain a d' where res: "eng_update S ?T (map fst nvs) ?args d = (a, d')" by force
  have "reports (\<lambda>b. Inr (if b then 1 else 0)) (fst (update_row tbl i nvs (eng_rows d ?T))) a \<and>
      eng_rows d' = (eng_rows d)(?T := snd (update_row tbl i nvs (eng_rows d ?T)))"
  proof (cases "map_of (d ?T) i")
    case None
    with res show ?thesis
      by (auto simp: eng_update_def arg_text_def update_row_def eng_rows_def reports_def fun_eq_iff)
  next
    case (Some r)
    then have old: "eng_rows d ?T i = Some r" by (simp add: eng_rows_def)
    have new: "eng_rows (d(?T := AList.update i r1 (d ?T))) = (eng_rows d)(?T := (eng_rows d ?T)(i \<mapsto> r1))" for r1
      by (rule ext) (simp add: eng_rows_def update_conv')
    show ?thesis
      using res Some ex [of "changed_row r nvs"] new old
      by (auto simp: eng_update_def arg_text_def update_row_def reports_def Let_def zip_map_fst_snd
          table_or_none_def tbl split: if_splits)
  qed
  with run res show "\<exists>a d'. drv_exec (eng_env L S) c (update_text ?T (map (\<lambda>nv. fst nv @ '' = ?'') nvs) ''id = ?'') ?args d = (a, d') \<and> True \<and>
      reports (\<lambda>b. Inr (if b then 1 else 0)) (fst (update_row tbl i nvs (eng_rows d ?T))) a \<and>
      eng_rows d' = (eng_rows d)(?T := snd (update_row tbl i nvs (eng_rows d ?T)))" by auto
qed

lemma gives_refl: "gives L v v"
  by (cases v) (simp_all add: gives_def scalar_text_def)

lemma eng_select_answers:
  assumes T: "plain_name (tab_TableName tbl)" and ns: "list_all plain_name (tab_FieldOrder tbl)"
  shows "select_answers (eng_env L S) c (\<lambda>d. True) eng_rows tbl"
  unfolding select_answers_def
proof (intro allI impI)
  fix k x and d :: tables
  let ?T = "tab_TableName tbl" and ?ns = "tab_FieldOrder tbl"
  let ?rs = "map snd (filter (\<lambda>(i, r). r k = VStr x) (eng_list d ?T))"
  assume "key_column tbl k"
  then have k: "plain_name k" using ns by (simp add: key_column_def list_all_iff)
  have "''FROM'' \<notin> set ?ns" using ns by (auto simp: list_all_iff plain_name_def)
  from before_word [OF this, of "[?T, ''WHERE'', k, ''='', ''?'']"]
  have run: "drv_query (eng_env L S) c (select_text ?ns ?T (k @ '' = ?'')) [VStr x] d =
      (Ok (?ns, map (\<lambda>r. map r ?ns) ?rs, None), d)"
    by (simp add: eng_query_def words_select [OF T ns k] Let_def comp_def case_prod_unfold)
  have "set ?rs = matching (eng_rows d ?T) k x"
    by (force simp: matching_def eng_list_member image_iff)
  moreover have "list_all2 (\<lambda>r us. list_all2 (gives (eng_env L S)) (map r ?ns) us) ?rs (map (\<lambda>r. map r ?ns) ?rs)"
    by (simp add: list_all2_conv_all_nth gives_refl)
  ultimately show "\<exists>rs uss d'. drv_query (eng_env L S) c (select_text ?ns ?T (k @ '' = ?'')) [VStr x] d =
        (Ok (?ns, uss, None), d') \<and> True \<and> eng_rows d' = eng_rows d \<and> set rs = matching (eng_rows d ?T) k x \<and>
      list_all2 (\<lambda>r us. list_all2 (gives (eng_env L S)) (map r ?ns) us) rs uss"
    using run by blast
qed

lemma eng_delete_answers:
  assumes T: "plain_name (tab_TableName tbl)"
  shows "delete_answers (eng_env L S) c (\<lambda>d. True) eng_rows tbl"
  unfolding delete_answers_def
proof (intro allI impI exI conjI)
  fix i and d :: tables
  let ?T = "tab_TableName tbl"
  show "drv_exec (eng_env L S) c (delete_text ?T ''id = ?'') [VStr i] d =
      (Ok (Inr (if eng_rows d ?T i = None then 0 else 1)), d(?T := AList.delete i (d ?T)))"
    by (simp add: eng_exec_def words_delete [OF T] Let_def arg_text_def eng_rows_def)
  show True ..
  show "eng_rows (d(?T := AList.delete i (d ?T))) = (eng_rows d)(?T := (eng_rows d ?T)(i := None))"
    by (rule ext) (simp add: eng_rows_def delete_conv')
qed

theorem engine_serves:
  assumes "plain_schema S" and "named_schema S"
  shows "sqlite_serves (eng_env L S) eng_rows S"
proof -
  have "sqlite_answers (eng_env L S) eng_rows tbl" if "(T, tbl) \<in> set (entries (sch_Tables S))" for T tbl
  proof -
    from that assms have T: "tab_TableName tbl = T" "plain_name T" "list_all plain_name (tab_FieldOrder tbl)"
      and get: "mget (sch_Tables S) T = Some tbl"
      by (auto simp: plain_schema_def named_schema_def mget_entry)
    have "plain_name ''id''" by (simp add: plain_name_def blank_def unpunct_def is_space_def)
    with T get show ?thesis
      by (simp add: sqlite_answers_def handle_answers_def conn_answers_def eng_insert_answers eng_update_answers eng_select_answers eng_delete_answers)
  qed
  then show ?thesis by (auto simp: sqlite_serves_def)
qed

section \<open>The table of people\<close>

definition people_schema :: Schema where
  "people_schema = schema_New\<lparr>sch_Tables := GoMap [(''people'', people)]\<rparr>"

abbreviation people_env :: "tables env" where
  "people_env \<equiv> eng_env sample_lib people_schema"

definition eng_world :: "Schema \<Rightarrow> tables adst" where
  "eng_world S = \<lparr>db_closed = (\<lambda>n. False), tx_done = (\<lambda>n. False), tx_next = 0, drv = (\<lambda>T. []),
     ad_DB = Some 0, ad_Sch = Some S, ad_TM_DB = Some 0\<rparr>"

lemma eng_world_empty [simp]: "eng_rows (drv (eng_world S)) = (\<lambda>T. Map.empty)"
  by (rule ext) (simp add: eng_world_def eng_rows_def)

lemma eng_world_serving: "\<not> mu_writer (sch_mu S) \<Longrightarrow> serving S eng_rows (eng_world S)"
  by (simp add: serving_def store_fits_def) (simp add: eng_world_def)

lemma people_plain: "plain_table people"
  using wf_people
  by (simp add: plain_table_def plain_column_def people_simps col_kind_def kind_of_def ToUpper_def upper_char_def)

lemma people_schemas: "plain_schema people_schema" "named_schema people_schema" "\<not> mu_writer (sch_mu people_schema)"
  by (simp_all add: plain_schema_def named_schema_def people_schema_def schema_New_def people_plain people_order
      wf_map_def mkeys_def plain_name_def blank_def unpunct_def is_space_def free_mutex_def)

interpretation people_store: record_store "sqlite_storage people_env" people_env "\<lambda>w. eng_rows (drv w)"
    "serving people_schema eng_rows" "mget (sch_Tables people_schema)"
  by (rule sqlite_record_store [OF people_schemas(1) engine_serves [OF people_schemas(1,2)]])

lemma people_table: "mget (sch_Tables people_schema) ''people'' = Some people"
  by (simp add: people_schema_def mget_def)

lemma people_served: "serves (eng_world people_schema) people"
  by (simp add: serves_def eng_world_def people_schemas people_table people_order)

lemma people_answers: "sqlite_answers people_env eng_rows people"
  using engine_serves [OF people_schemas(1,2), of sample_lib]
  by (simp add: sqlite_serves_def people_schema_def)

definition people_ops :: "op list" where
  "people_ops = [OInsert ann, OFind ''1'',
     OUpdate (ann\<lparr>obj_Fields := GoMap [(''name'', VStr ''Anne'')]\<rparr>), OFind ''2'', ODelete ''1'', OFind ''1'']"

lemma ann_stored: "stored people_env people ann = [(''name'', VStr ''Ann''), (''meta'', VStr ''{}'')]"
  by (simp add: stored_def ann_def people_simps bind_value_def sample_lib_def)

lemma people_ops_good: "\<forall>p\<in>set people_ops. good_op people_env people p"
proof -
  have "insertable people_env people ann"
    unfolding insertable_def ann_stored
    by (simp add: ann_def whole_row_def good_values_def people_simps bind_value_def fits_def col_kind_def
        kind_of_def ToUpper_def upper_char_def no_number_def is_digit_def sample_lib_def)
  moreover have "updatable people (ann\<lparr>obj_Fields := GoMap [(''name'', VStr ''Anne'')]\<rparr>)"
    by (simp add: updatable_def changes_def ann_def good_values_def people_simps fits_def col_kind_def
        kind_of_def ToUpper_def upper_char_def)
  ultimately show ?thesis by (simp add: people_ops_def)
qed

lemma people_unique: "no_unique people"
  by (simp add: no_unique_def people_simps)


end
