(* ===== verification/S3Props.thy ===== *)
theory S3Props
  imports Refinement Backends
begin

text \<open>
  The S3 adapter as an implementation of a document store: a table is a map from identifiers to
  field maps. What the bucket service and the JSON encoder answer is the hypothesis \<open>s3_answers\<close>.
\<close>

section \<open>What the service answers\<close>

text \<open>
  \<open>bodies\<close> is the content of the bucket: reading a missing key gives a \<open>NoSuchKey\<close> error, and writing
  and deleting change one key. \<open>view\<close> is what the JSON encoder makes of a field map (numbers come
  back as floating point numbers): a document that was encoded decodes to itself up to \<open>view\<close>.
  Decoding any other body gives a value or an error.
\<close>

definition json_laws :: "('d, 'e) s3env_scheme \<Rightarrow> (goval gomap \<Rightarrow> goval gomap) \<Rightarrow> bool" where
  "json_laws E view \<longleftrightarrow>
     (\<forall>so body. s3_encode E so = Ok body \<longrightarrow> s3_decode E body = Ok (so\<lparr>so_Fields := view (so_Fields so)\<rparr>)) \<and>
     (\<forall>body. is_ok (s3_decode E body) \<or> (\<exists>e. s3_decode E body = Error e))"

definition s3_answers :: "('d, 'e) s3env_scheme \<Rightarrow> ('d \<Rightarrow> string \<Rightarrow> string option) \<Rightarrow>
    (goval gomap \<Rightarrow> goval gomap) \<Rightarrow> bool" where
  "s3_answers E bodies view \<longleftrightarrow>
     (\<forall>cl b k d. bodies d k = None \<longrightarrow> (\<exists>e. is_no_such_key e \<and> s3_get E cl b k d = (Error e, d))) \<and>
     (\<forall>cl b k body d. bodies d k = Some body \<longrightarrow> s3_get E cl b k d = (Ok (Ok body), d)) \<and>
     (\<forall>cl b k body meta d. \<exists>d'. s3_put E cl b k body meta d = (Ok (), d') \<and>
        bodies d' = (bodies d)(k \<mapsto> body)) \<and>
     (\<forall>cl b k d. \<exists>d'. s3_delete E cl b k d = (Ok (), d') \<and> bodies d' = (bodies d)(k := None)) \<and>
     (\<forall>d. \<exists>t d'. s3_now E d = (Ok t, d') \<and> bodies d' = bodies d) \<and>
     json_laws E view"

lemma s3_answersD:
  assumes "s3_answers E bodies view"
  shows "bodies d k = None \<Longrightarrow> \<exists>e. is_no_such_key e \<and> s3_get E cl b k d = (Error e, d)"
    and "bodies d k = Some body \<Longrightarrow> s3_get E cl b k d = (Ok (Ok body), d)"
    and "\<exists>d'. s3_put E cl b k body meta d = (Ok (), d') \<and> bodies d' = (bodies d)(k \<mapsto> body)"
    and "\<exists>d'. s3_delete E cl b k d = (Ok (), d') \<and> bodies d' = (bodies d)(k := None)"
    and "\<exists>t d'. s3_now E d = (Ok t, d') \<and> bodies d' = bodies d"
    and "json_laws E view"
  using assms unfolding s3_answers_def by blast+

lemma json_lawsD:
  "json_laws E view \<Longrightarrow> s3_encode E so = Ok body \<Longrightarrow> s3_decode E body = Ok (so\<lparr>so_Fields := view (so_Fields so)\<rparr>)"
  "json_laws E view \<Longrightarrow> is_ok (s3_decode E body) \<or> (\<exists>e. s3_decode E body = Error e)"
  by (simp_all add: json_laws_def)

section \<open>Keys\<close>

lemma no_slash_prefix:
  "x @ ''/'' @ y = x' @ ''/'' @ y' \<Longrightarrow> CHR ''/'' \<notin> set x \<Longrightarrow> CHR ''/'' \<notin> set x' \<Longrightarrow> x = x' \<and> y = y'"
proof (induction x arbitrary: x')
  case Nil then show ?case by (cases x') auto
next
  case (Cons a x) then show ?case by (cases x') auto
qed

text \<open>Objects of tables whose names have no slash are kept under different keys, unless table and
  identifier are the same.\<close>

theorem s3_keys_distinct:
  assumes "CHR ''/'' \<notin> set T" and "CHR ''/'' \<notin> set T'"
  shows "s3_getObjectKey p T i = s3_getObjectKey p T' i' \<longleftrightarrow> T = T' \<and> i = i'"
proof
  assume "s3_getObjectKey p T i = s3_getObjectKey p T' i'"
  then have "T @ ''/'' @ (''objects/'' @ i @ ''.json'') = T' @ ''/'' @ (''objects/'' @ i' @ ''.json'')"
    by (simp add: s3_getObjectKey_def)
  from no_slash_prefix [OF this assms] show "T = T' \<and> i = i'" by simp
qed simp

lemma s3_key_id [simp]: "s3_getObjectKey p T i = s3_getObjectKey p T j \<longleftrightarrow> i = j"
  by (simp add: s3_getObjectKey_def)

section \<open>The abstract store\<close>

type_synonym docs = "string \<Rightarrow> goval gomap option"

fun doc_op :: "(goval gomap \<Rightarrow> goval gomap) \<Rightarrow> op \<Rightarrow> docs \<Rightarrow> answer \<times> docs" where
  "doc_op view (OInsert obj) s = (AInsert (s (obj_ID obj) = None), s(obj_ID obj \<mapsto> view (obj_Fields obj)))"
| "doc_op view (OUpdate obj) s = (case s (obj_ID obj) of
      None \<Rightarrow> (AUpdate False, s)
    | Some m \<Rightarrow> (AUpdate True, s(obj_ID obj \<mapsto> view (obj_Fields obj))))"
| "doc_op view (OFind i) s = (AFind (map_option (\<lambda>m. (i, mget m)) (s i)), s)"
| "doc_op view (ODelete i) s = (ADelete (s i \<noteq> None), s(i := None))"

fun doc_ops :: "(goval gomap \<Rightarrow> goval gomap) \<Rightarrow> op list \<Rightarrow> docs \<Rightarrow> answer list \<times> docs" where
  "doc_ops view [] s = ([], s)"
| "doc_ops view (p # ps) s = (case doc_op view p s of (a, s1) \<Rightarrow>
     (case doc_ops view ps s1 of (as, s2) \<Rightarrow> (a # as, s2)))"

fun s3_op :: "('d, 'e) s3env_scheme \<Rightarrow> string \<Rightarrow> op \<Rightarrow> ('d s3st, answer) go" where
  "s3_op E T (OInsert obj) = seq (s3_Insert E obj) (\<lambda>(data, created). ret (AInsert created))"
| "s3_op E T (OUpdate obj) = seq (s3_Update E obj) (\<lambda>b. ret (AUpdate b))"
| "s3_op E T (OFind i) = seq (s3_FindByID E T i) (\<lambda>o1. ret (AFind (map_option object_view o1)))"
| "s3_op E T (ODelete i) = seq (s3_DeleteByID E T i) (\<lambda>b. ret (ADelete b))"

fun s3_ops :: "('d, 'e) s3env_scheme \<Rightarrow> string \<Rightarrow> op list \<Rightarrow> ('d s3st, answer list) go" where
  "s3_ops E T [] = ret []"
| "s3_ops E T (p # ps) = seq (s3_op E T p) (\<lambda>a. seq (s3_ops E T ps) (\<lambda>as. ret (a # as)))"

text \<open>Objects of the table whose fields the JSON encoder takes, at every time the clock can show.\<close>

definition clock :: "('d, 'e) s3env_scheme \<Rightarrow> int \<Rightarrow> bool" where
  "clock E t \<longleftrightarrow> t = 0 \<or> (\<exists>d d'. s3_now E d = (Ok t, d'))"

definition encodable :: "('d, 'e) s3env_scheme \<Rightarrow> string \<Rightarrow> Object \<Rightarrow> bool" where
  "encodable E T obj \<longleftrightarrow> obj_TableName obj = T \<and>
     (\<forall>c u. clock E c \<longrightarrow> clock E u \<longrightarrow>
        is_ok (s3_encode E \<lparr>so_ID = obj_ID obj, so_TableName = T, so_Fields = obj_Fields obj,
          so_CreatedAt = c, so_UpdatedAt = u\<rparr>))"

lemma clock_zero [simp]: "clock E 0"
  by (simp add: clock_def)

lemma encodable_body:
  assumes "encodable E T obj" and "clock E c" and "clock E u"
  obtains body where "s3_encode E \<lparr>so_ID = obj_ID obj, so_TableName = T, so_Fields = obj_Fields obj,
        so_CreatedAt = c, so_UpdatedAt = u\<rparr> = Ok body"
proof -
  from assms have "is_ok (s3_encode E \<lparr>so_ID = obj_ID obj, so_TableName = T, so_Fields = obj_Fields obj,
        so_CreatedAt = c, so_UpdatedAt = u\<rparr>)" by (simp add: encodable_def)
  with that show thesis by (auto elim: is_ok.elims)
qed

fun doc_good :: "('d, 'e) s3env_scheme \<Rightarrow> string \<Rightarrow> op \<Rightarrow> bool" where
  "doc_good E T (OInsert obj) = encodable E T obj"
| "doc_good E T (OUpdate obj) = encodable E T obj"
| "doc_good E T _ = True"

text \<open>The document under a key, and the adapter, connected, over a bucket that holds the table \<open>s\<close>.\<close>

definition doc_at :: "('d, 'e) s3env_scheme \<Rightarrow> (string \<Rightarrow> string option) \<Rightarrow> string \<Rightarrow> S3Object option" where
  "doc_at E B k = (case B k of None \<Rightarrow> None | Some body \<Rightarrow> (case s3_decode E body of Ok so \<Rightarrow> Some so | _ \<Rightarrow> None))"

definition slot :: "('d, 'e) s3env_scheme \<Rightarrow> (string \<Rightarrow> string option) \<Rightarrow> string \<Rightarrow> string \<Rightarrow> string \<Rightarrow>
    goval gomap option \<Rightarrow> bool" where
  "slot E B prefix T i x = (case x of
      None \<Rightarrow> B (s3_getObjectKey prefix T i) = None
    | Some m \<Rightarrow> \<exists>so. doc_at E B (s3_getObjectKey prefix T i) = Some so \<and>
        so_ID so = i \<and> so_TableName so = T \<and> so_Fields so = m)"

definition holds :: "('d, 'e) s3env_scheme \<Rightarrow> ('d \<Rightarrow> string \<Rightarrow> string option) \<Rightarrow> string \<Rightarrow> 'd s3st \<Rightarrow> docs \<Rightarrow> bool" where
  "holds E bodies T w s \<longleftrightarrow> s3_client w \<noteq> None \<and> s3_uploader w \<and>
     (\<forall>i. slot E (bodies (s3_drv w)) (s3_prefix w) T i (s i))"

lemma slot_other [simp]: "i \<noteq> j \<Longrightarrow> slot E (B(s3_getObjectKey p T j := x)) p T i y = slot E B p T i y"
  by (cases y) (simp_all add: slot_def doc_at_def)

lemma holds_client: "holds E bodies T w s \<Longrightarrow> \<exists>cl. s3_connected w = (Ok cl, w) \<and> s3_client w = Some cl \<and> s3_uploader w"
  by (auto simp: holds_def s3_connected_def go_simps)

lemma holds_None: "holds E bodies T w s \<Longrightarrow> s i = None \<Longrightarrow>
    bodies (s3_drv w) (s3_getObjectKey (s3_prefix w) T i) = None"
  by (auto simp: holds_def slot_def dest!: spec [of _ i])

lemma holds_Some:
  assumes "holds E bodies T w s" and "s i = Some m"
  obtains body so where "bodies (s3_drv w) (s3_getObjectKey (s3_prefix w) T i) = Some body"
    and "s3_decode E body = Ok so" and "so_ID so = i" and "so_TableName so = T" and "so_Fields so = m"
proof -
  from assms have "slot E (bodies (s3_drv w)) (s3_prefix w) T i (Some m)"
    unfolding holds_def by metis
  with that show thesis by (auto simp: slot_def doc_at_def split: option.splits result.splits)
qed

lemma holds_put:
  assumes "holds E bodies T w s" and "bodies d = (bodies (s3_drv w))(s3_getObjectKey (s3_prefix w) T i \<mapsto> body)"
    and "s3_decode E body = Ok so" and "so_ID so = i" and "so_TableName so = T"
  shows "holds E bodies T (w\<lparr>s3_drv := d\<rparr>) (s(i \<mapsto> so_Fields so))"
proof -
  have "slot E (bodies d) (s3_prefix w) T j ((s(i \<mapsto> so_Fields so)) j)" for j
    using assms by (cases "j = i") (auto simp: holds_def slot_def [where x = "Some _"] doc_at_def)
  with assms(1) show ?thesis by (simp add: holds_def)
qed

lemma holds_delete:
  assumes "holds E bodies T w s" and "bodies d = (bodies (s3_drv w))(s3_getObjectKey (s3_prefix w) T i := None)"
  shows "holds E bodies T (w\<lparr>s3_drv := d\<rparr>) (s(i := None))"
proof -
  have "slot E (bodies d) (s3_prefix w) T j ((s(i := None)) j)" for j
    using assms by (cases "j = i") (auto simp: holds_def slot_def [where x = None])
  with assms(1) show ?thesis by (simp add: holds_def)
qed

section \<open>The calls\<close>

lemma s3_now_run:
  assumes "s3_answers E bodies view"
  shows "\<exists>t d. on_s3 (s3_now E) w = (Ok t, w\<lparr>s3_drv := d\<rparr>) \<and> bodies d = bodies (s3_drv w) \<and> clock E t"
proof -
  from s3_answersD(5) [OF assms, of "s3_drv w"] obtain t d where
    "s3_now E (s3_drv w) = (Ok t, d)" "bodies d = bodies (s3_drv w)" by blast
  then show ?thesis by (intro exI [of _ t] exI [of _ d]) (auto simp: on_s3_def clock_def)
qed

lemma s3_exists_run:
  assumes "s3_answers E bodies view" and "holds E bodies T w s"
  shows "s3_exists E cl (s3_getObjectKey (s3_prefix w) T i) w = (Ok (s i \<noteq> None), w)"
proof (cases "s i")
  case None
  from s3_answersD(1) [OF assms(1) holds_None [OF assms(2) None]] obtain e where
    "is_no_such_key e" "s3_get E cl (s3_bucket w) (s3_getObjectKey (s3_prefix w) T i) (s3_drv w) = (Error e, s3_drv w)"
    by blast
  with None show ?thesis by (simp add: s3_exists_def s3_GetObject_def go_simps on_s3_def)
next
  case (Some m)
  from holds_Some [OF assms(2) Some] obtain body where
    "bodies (s3_drv w) (s3_getObjectKey (s3_prefix w) T i) = Some body" by blast
  from s3_answersD(2) [OF assms(1) this] Some show ?thesis
    by (simp add: s3_exists_def s3_GetObject_def go_simps on_s3_def)
qed

lemma s3_Upload_run:
  assumes "s3_answers E bodies view" and "s3_uploader w"
  shows "\<exists>d. s3_Upload E cl k body meta w = (Ok (), w\<lparr>s3_drv := d\<rparr>) \<and> bodies d = (bodies (s3_drv w))(k \<mapsto> body)"
proof -
  from s3_now_run [OF assms(1)] obtain t d where
    t: "on_s3 (s3_now E) w = (Ok t, w\<lparr>s3_drv := d\<rparr>)" "bodies d = bodies (s3_drv w)" by blast
  from s3_answersD(3) [OF assms(1), of cl "s3_bucket w" k body "meta @ [(''ddao-timestamp'', s3_rfc3339 E t)]" d]
  obtain d' where "s3_put E cl (s3_bucket w) k body (meta @ [(''ddao-timestamp'', s3_rfc3339 E t)]) d = (Ok (), d')"
    "bodies d' = (bodies d)(k \<mapsto> body)" by blast
  with t assms(2) show ?thesis
    by (intro exI [of _ d']) (simp add: s3_Upload_def seq_def gets_def on_s3_def)
qed

lemma s3_Insert_run:
  assumes E: "s3_answers E bodies view" and h: "holds E bodies T w s" and obj: "encodable E T obj"
  shows "\<exists>body d. s3_Insert E obj w = (Ok (body, s (obj_ID obj) = None), w\<lparr>s3_drv := d\<rparr>) \<and>
    holds E bodies T (w\<lparr>s3_drv := d\<rparr>) (s(obj_ID obj \<mapsto> view (obj_Fields obj)))"
proof -
  let ?i = "obj_ID obj" and ?k = "s3_getObjectKey (s3_prefix w) T (obj_ID obj)"
  from holds_client [OF h] obtain cl where cl: "s3_connected w = (Ok cl, w)" "s3_uploader w" by blast
  have T: "obj_TableName obj = T" using obj by (simp add: encodable_def)
  from s3_now_run [OF E] obtain t d where
    t: "on_s3 (s3_now E) w = (Ok t, w\<lparr>s3_drv := d\<rparr>)" "bodies d = bodies (s3_drv w)" "clock E t" by blast
  have "\<exists>u d'. (if s ?i \<noteq> None then on_s3 (s3_now E) else ret 0) (w\<lparr>s3_drv := d\<rparr>) = (Ok u, w\<lparr>s3_drv := d'\<rparr>) \<and>
      bodies d' = bodies (s3_drv w) \<and> clock E u"
    using s3_now_run [OF E, of "w\<lparr>s3_drv := d\<rparr>"] t(2) by (cases "s ?i") auto
  then obtain u d' where u: "(if s ?i \<noteq> None then on_s3 (s3_now E) else ret 0) (w\<lparr>s3_drv := d\<rparr>) =
      (Ok u, w\<lparr>s3_drv := d'\<rparr>)" "bodies d' = bodies (s3_drv w)" "clock E u" by blast
  let ?so = "\<lparr>so_ID = ?i, so_TableName = T, so_Fields = obj_Fields obj, so_CreatedAt = t, so_UpdatedAt = u\<rparr>"
  obtain body where body: "s3_encode E ?so = Ok body" by (rule encodable_body [OF obj t(3) u(3)])
  from s3_Upload_run [OF E, of "w\<lparr>s3_drv := d'\<rparr>" cl ?k body "s3_object_meta obj"] cl(2) u(2) obtain d2 where
    up: "s3_Upload E cl ?k body (s3_object_meta obj) (w\<lparr>s3_drv := d'\<rparr>) = (Ok (), w\<lparr>s3_drv := d2\<rparr>)"
      "bodies d2 = (bodies (s3_drv w))(?k \<mapsto> body)" by auto
  have "s3_Insert E obj w = (Ok (body, s ?i = None), w\<lparr>s3_drv := d2\<rparr>)"
    using cl(1) s3_exists_run [OF E h, of cl ?i] t(1) u(1) up(1) body T
    by (simp add: s3_Insert_def seq_def s3_object_key_def gets_def wrapping_def)
  moreover from holds_put [OF h up(2) json_lawsD(1) [OF s3_answersD(6) [OF E] body]]
  have "holds E bodies T (w\<lparr>s3_drv := d2\<rparr>) (s(?i \<mapsto> view (obj_Fields obj)))" by simp
  ultimately show ?thesis by blast
qed

text \<open>The creation time of the document that an update writes is the zero time.\<close>

lemma s3_Update_run:
  assumes E: "s3_answers E bodies view" and h: "holds E bodies T w s" and obj: "encodable E T obj"
    and old: "s (obj_ID obj) = Some m"
  shows "\<exists>u d. s3_Update E obj w = (Ok True, w\<lparr>s3_drv := d\<rparr>) \<and>
    holds E bodies T (w\<lparr>s3_drv := d\<rparr>) (s(obj_ID obj \<mapsto> view (obj_Fields obj))) \<and>
    doc_at E (bodies d) (s3_getObjectKey (s3_prefix w) T (obj_ID obj)) =
      Some \<lparr>so_ID = obj_ID obj, so_TableName = T, so_Fields = view (obj_Fields obj),
        so_CreatedAt = 0, so_UpdatedAt = u\<rparr>"
proof -
  let ?i = "obj_ID obj" and ?k = "s3_getObjectKey (s3_prefix w) T (obj_ID obj)"
  from holds_client [OF h] obtain cl where cl: "s3_connected w = (Ok cl, w)" "s3_uploader w" by blast
  have T: "obj_TableName obj = T" using obj by (simp add: encodable_def)
  from s3_now_run [OF E] obtain u d where
    u: "on_s3 (s3_now E) w = (Ok u, w\<lparr>s3_drv := d\<rparr>)" "bodies d = bodies (s3_drv w)" "clock E u" by blast
  let ?so = "\<lparr>so_ID = ?i, so_TableName = T, so_Fields = obj_Fields obj, so_CreatedAt = 0, so_UpdatedAt = u\<rparr>"
  obtain body where body: "s3_encode E ?so = Ok body" by (rule encodable_body [OF obj clock_zero u(3)])
  from s3_Upload_run [OF E, of "w\<lparr>s3_drv := d\<rparr>" cl ?k body "s3_object_meta obj"] cl(2) u(2) obtain d2 where
    up: "s3_Upload E cl ?k body (s3_object_meta obj) (w\<lparr>s3_drv := d\<rparr>) = (Ok (), w\<lparr>s3_drv := d2\<rparr>)"
      "bodies d2 = (bodies (s3_drv w))(?k \<mapsto> body)" by auto
  have "s3_Update E obj w = (Ok True, w\<lparr>s3_drv := d2\<rparr>)"
    using cl(1) s3_exists_run [OF E h, of cl ?i] u(1) up(1) body T old
    by (simp add: s3_Update_def seq_def s3_object_key_def gets_def wrapping_def)
  moreover note dec = json_lawsD(1) [OF s3_answersD(6) [OF E] body]
  moreover from holds_put [OF h up(2) dec]
  have "holds E bodies T (w\<lparr>s3_drv := d2\<rparr>) (s(?i \<mapsto> view (obj_Fields obj)))" by simp
  ultimately show ?thesis
    by (intro exI [of _ u] exI [of _ d2]) (simp add: doc_at_def up(2))
qed

lemma s3_Find_run:
  assumes E: "s3_answers E bodies view" and h: "holds E bodies T w s"
  shows "\<exists>o1. s3_FindByID E T i w = (Ok o1, w) \<and>
    map_option object_view o1 = map_option (\<lambda>m. (i, mget m)) (s i)"
proof -
  from holds_client [OF h] obtain cl where cl: "s3_connected w = (Ok cl, w)" by blast
  show ?thesis
  proof (cases "s i")
    case None
    from s3_answersD(1) [OF E holds_None [OF h None]] obtain e where
      "is_no_such_key e" "s3_get E cl (s3_bucket w) (s3_getObjectKey (s3_prefix w) T i) (s3_drv w) = (Error e, s3_drv w)"
      by blast
    then have "s3_FindByID E T i w = (Ok None, w)"
      using cl by (simp add: s3_FindByID_def seq_def s3_object_key_def s3_GetObject_def gets_def on_s3_def catch_def)
    with None show ?thesis by simp
  next
    case (Some m)
    from holds_Some [OF h Some] obtain body so where
      b: "bodies (s3_drv w) (s3_getObjectKey (s3_prefix w) T i) = Some body" "s3_decode E body = Ok so"
        "so_ID so = i" "so_TableName so = T" "so_Fields so = m" by blast
    have "s3_FindByID E T i w = (Ok (Some (to_object so)), w)"
      using cl s3_answersD(2) [OF E b(1)] b(2)
      by (simp add: s3_FindByID_def seq_def s3_object_key_def s3_GetObject_def gets_def on_s3_def catch_def)
    with Some b show ?thesis by (simp add: object_view_def to_object_def fields_of_def)
  qed
qed

lemma s3_Delete_run:
  assumes E: "s3_answers E bodies view" and h: "holds E bodies T w s"
  shows "\<exists>w'. s3_DeleteByID E T i w = (Ok (s i \<noteq> None), w') \<and> holds E bodies T w' (s(i := None))"
proof -
  from holds_client [OF h] obtain cl where cl: "s3_connected w = (Ok cl, w)" by blast
  show ?thesis
  proof (cases "s i")
    case None
    then have "s3_DeleteByID E T i w = (Ok False, w)"
      using cl s3_exists_run [OF E h, of cl i] by (simp add: s3_DeleteByID_def seq_def s3_object_key_def gets_def)
    moreover have "s(i := None) = s" using None by auto
    ultimately show ?thesis using None h by simp
  next
    case (Some m)
    from s3_answersD(4) [OF E, of cl "s3_bucket w" "s3_getObjectKey (s3_prefix w) T i" "s3_drv w"] obtain d where
      d: "s3_delete E cl (s3_bucket w) (s3_getObjectKey (s3_prefix w) T i) (s3_drv w) = (Ok (), d)"
        "bodies d = (bodies (s3_drv w))(s3_getObjectKey (s3_prefix w) T i := None)" by blast
    have "s3_DeleteByID E T i w = (Ok True, w\<lparr>s3_drv := d\<rparr>)"
      using cl s3_exists_run [OF E h, of cl i] Some d(1)
      by (simp add: s3_DeleteByID_def seq_def s3_object_key_def gets_def on_s3_def wrapping_def)
    with Some holds_delete [OF h d(2)] show ?thesis by simp
  qed
qed

lemma s3_op_run:
  assumes E: "s3_answers E bodies view" and h: "holds E bodies T w s" and good: "doc_good E T p"
  shows "\<exists>w'. s3_op E T p w = (Ok (fst (doc_op view p s)), w') \<and> holds E bodies T w' (snd (doc_op view p s))"
proof (cases p)
  case (OInsert obj)
  with s3_Insert_run [OF E h, of obj] good show ?thesis by (auto simp: seq_def)
next
  case (OUpdate obj)
  show ?thesis
  proof (cases "s (obj_ID obj)")
    case None
    from holds_client [OF h] obtain cl where cl: "s3_connected w = (Ok cl, w)" by blast
    have "s3_Update E obj w = (Ok False, w)"
      using cl s3_exists_run [OF E h, of cl "obj_ID obj"] None good OUpdate
      by (simp add: s3_Update_def seq_def s3_object_key_def gets_def encodable_def)
    with None OUpdate h show ?thesis by (simp add: seq_def)
  next
    case (Some m)
    with s3_Update_run [OF E h, of obj m] good OUpdate show ?thesis by (auto simp: seq_def)
  qed
next
  case (OFind i)
  with s3_Find_run [OF E h, of i] h show ?thesis by (auto simp: seq_def)
next
  case (ODelete i)
  with s3_Delete_run [OF E h, of i] show ?thesis by (auto simp: seq_def)
qed

text \<open>C15: Over a bucket service that keeps what it is given, any sequence of Insert, Update, FindByID and
  DeleteByID calls of the S3 adapter on a table acts on a map from identifiers to documents: Insert
  reports whether the document is new, Update replaces the whole document of an existing identifier,
  and a find returns the fields as JSON gives them back.\<close>

theorem s3_refines_documents:
  assumes "s3_answers E bodies view" and "holds E bodies T w s" and "\<forall>p\<in>set ps. doc_good E T p"
  shows "\<exists>w'. s3_ops E T ps w = (Ok (fst (doc_ops view ps s)), w') \<and>
           holds E bodies T w' (snd (doc_ops view ps s))"
  using assms(2,3)
proof (induction ps arbitrary: w s)
  case (Cons p ps)
  from s3_op_run [OF assms(1) Cons.prems(1)] Cons.prems(2) obtain w1 where
    w1: "s3_op E T p w = (Ok (fst (doc_op view p s)), w1)" "holds E bodies T w1 (snd (doc_op view p s))" by auto
  from Cons.IH [OF w1(2)] Cons.prems(2) obtain w2 where
    "s3_ops E T ps w1 = (Ok (fst (doc_ops view ps (snd (doc_op view p s)))), w2)"
    "holds E bodies T w2 (snd (doc_ops view ps (snd (doc_op view p s))))" by auto
  with w1(1) show ?case by (simp add: seq_def case_prod_beta)
qed simp

text \<open>C35: An update of an existing document on S3 succeeds and writes a document whose creation time is
  the zero time: the time the document was created at is lost.\<close>

theorem s3_update_loses_creation_time:
  assumes "s3_answers E bodies view" and "holds E bodies T w s" and "encodable E T obj"
    and "s (obj_ID obj) = Some m"
  shows "\<exists>w' so. s3_Update E obj w = (Ok True, w') \<and>
    doc_at E (bodies (s3_drv w')) (s3_getObjectKey (s3_prefix w) T (obj_ID obj)) = Some so \<and>
    so_CreatedAt so = 0 \<and> so_Fields so = view (obj_Fields obj)"
  using s3_Update_run [OF assms] by auto

text \<open>C36: Rolling back a transaction on S3 undoes nothing: an object inserted in it is found after the
  rollback.\<close>

theorem s3_rollback_keeps_insert:
  assumes "s3_answers E bodies view" and "holds E bodies T w s" and "encodable E T obj"
  shows "\<exists>o1 w'. seq (s3_InsertTx E tx obj) (\<lambda>_. seq (s3_RollbackTx tx) (\<lambda>_. s3_FindByID E T (obj_ID obj))) w =
      (Ok (Some o1), w') \<and> obj_ID o1 = obj_ID obj \<and> fields_of o1 = mget (view (obj_Fields obj))"
proof -
  from s3_Insert_run [OF assms] obtain body d where
    ins: "s3_Insert E obj w = (Ok (body, s (obj_ID obj) = None), w\<lparr>s3_drv := d\<rparr>)"
      "holds E bodies T (w\<lparr>s3_drv := d\<rparr>) (s(obj_ID obj \<mapsto> view (obj_Fields obj)))" by blast
  from s3_Find_run [OF assms(1) ins(2), of "obj_ID obj"] ins(1) show ?thesis
    by (auto simp: seq_def s3_InsertTx_def s3_RollbackTx_def object_view_def)
qed

section \<open>Looking for a field value\<close>

text \<open>
  A listing of the bucket: from one token, the number of pages to the end and all the keys on them.
\<close>

inductive listing :: "('d, 'e) s3env_scheme \<Rightarrow> s3client \<Rightarrow> string \<Rightarrow> string \<Rightarrow> 'd \<Rightarrow> string option \<Rightarrow>
    nat \<Rightarrow> string list \<Rightarrow> bool" for E cl b prefix d where
  last_page: "s3_page E cl b prefix token d = (Ok (ks, None), d) \<Longrightarrow> listing E cl b prefix d token 1 ks"
| more_pages: "s3_page E cl b prefix token d = (Ok (ks, Some t), d) \<Longrightarrow> listing E cl b prefix d (Some t) n rest \<Longrightarrow>
    listing E cl b prefix d token (Suc n) (ks @ rest)"

definition doc_matches :: "'e golib_scheme \<Rightarrow> string \<Rightarrow> string \<Rightarrow> S3Object \<Rightarrow> bool" where
  "doc_matches L key val so = (case mget (so_Fields so) key of None \<Rightarrow> False | Some v \<Rightarrow> Sprint_v L v = val)"

text \<open>The documents of a list of keys, and the first of them that has the value.\<close>

definition listed_docs :: "('d, 'e) s3env_scheme \<Rightarrow> (string \<Rightarrow> string option) \<Rightarrow> string list \<Rightarrow> S3Object list" where
  "listed_docs E B ks = List.map_filter (doc_at E B) (filter (\<lambda>k. HasSuffix k ''.json'') ks)"

lemma listed_docs_simps [simp]:
  "listed_docs E B [] = []"
  "listed_docs E B (k # ks) = (if HasSuffix k ''.json'' then (case doc_at E B k of None \<Rightarrow> [] | Some so \<Rightarrow> [so]) else []) @
     listed_docs E B ks"
  "listed_docs E B (ks @ ks') = listed_docs E B ks @ listed_docs E B ks'"
  by (auto simp: listed_docs_def List.map_filter_def split: option.splits)

lemma s3_match_run:
  assumes "s3_answers E bodies view"
  shows "s3_match E cl key val k w = (Ok (case doc_at E (bodies (s3_drv w)) k of None \<Rightarrow> None
      | Some so \<Rightarrow> if doc_matches E key val so then Some (to_object so) else None), w)"
proof (cases "bodies (s3_drv w) k")
  case None
  from s3_answersD(1) [OF assms None] obtain e where
    "s3_get E cl (s3_bucket w) k (s3_drv w) = (Error e, s3_drv w)" by blast
  with None show ?thesis
    by (simp add: s3_match_def s3_GetObject_def go_simps on_s3_def doc_at_def)
next
  case (Some body)
  from s3_answersD(2) [OF assms Some] have get: "s3_get E cl (s3_bucket w) k (s3_drv w) = (Ok (Ok body), s3_drv w)" .
  from json_lawsD(2) [OF s3_answersD(6) [OF assms]] consider
    (so) so where "s3_decode E body = Ok so" | (bad) e where "s3_decode E body = Error e"
    by (metis is_ok.elims(2))
  then show ?thesis
    by cases (simp_all add: s3_match_def s3_GetObject_def go_simps on_s3_def doc_at_def doc_matches_def get Some
        split: option.splits)
qed

lemma s3_scan_keys_run:
  assumes "s3_answers E bodies view"
  shows "s3_scan_keys E cl key val ks w =
    (Ok (map_option to_object (find (doc_matches E key val) (listed_docs E (bodies (s3_drv w)) ks))), w)"
  using s3_match_run [OF assms, of cl key val _ w]
  by (induction ks) (auto simp: seq_def split: option.splits)

lemma find_append: "find P (xs @ ys) = (case find P xs of None \<Rightarrow> find P ys | Some x \<Rightarrow> Some x)"
  by (induction xs) auto

lemma s3_scan_pages_run:
  assumes "s3_answers E bodies view" and "listing E cl (s3_bucket w) prefix (s3_drv w) token n ks" and "n \<le> fuel"
  shows "s3_scan_pages E fuel cl prefix key val token w =
    (Ok (map_option to_object (find (doc_matches E key val) (listed_docs E (bodies (s3_drv w)) ks))), w)"
  using assms(2,3)
proof (induction arbitrary: fuel)
  case (last_page token ks)
  then obtain f where "fuel = Suc f" by (cases fuel) auto
  with last_page s3_scan_keys_run [OF assms(1), of cl key val ks w] show ?case
    by (auto simp: seq_def gets_def on_s3_def wrapping_def split: option.splits)
next
  case (more_pages token ks t n rest)
  then obtain f where "fuel = Suc f" "n \<le> f" by (cases fuel) auto
  with more_pages s3_scan_keys_run [OF assms(1), of cl key val ks w] show ?case
    by (auto simp: seq_def gets_def on_s3_def wrapping_def find_append split: option.splits)
qed

text \<open>C27: When the listing of a table's keys ends after n pages, FindByKey returns once it may look at n
  pages, and returns the first listed document whose field prints as the wanted value, or none;
  documents that cannot be read are skipped.\<close>

theorem s3_FindByKey_first_match:
  assumes "s3_answers E bodies view" and "s3_client w = Some cl"
    and "listing E cl (s3_bucket w) (s3_prefix w @ ''tables/'' @ T @ ''/objects/'') (s3_drv w) None n ks"
    and "n \<le> fuel"
  shows "s3_FindByKey E fuel T key val w =
    (Ok (map_option to_object (find (doc_matches E key val) (listed_docs E (bodies (s3_drv w)) ks))), w)"
  using s3_scan_pages_run [OF assms(1,3,4)] assms(2)
  by (simp add: s3_FindByKey_def s3_connected_def seq_def gets_def)

text \<open>C34: The ORM's FindByID asks a storage for the key id: on S3, which looks for a field of that name,
  it finds nothing where the storage's own FindByID finds the object, when the stored documents have
  no such field.\<close>

theorem s3_orm_misses_objects:
  assumes "s3_answers E bodies view" and "holds E bodies T w s" and "s i = Some m"
    and "s3_client w = Some cl"
    and "listing E cl (s3_bucket w) (s3_prefix w @ ''tables/'' @ T @ ''/objects/'') (s3_drv w) None n ks"
    and "n \<le> fuel"
    and "\<forall>so\<in>set (listed_docs E (bodies (s3_drv w)) ks). mget (so_Fields so) ''id'' = None"
  shows "\<exists>o1. st_FindByID (s3_storage E fuel) T i w = (Ok (Some o1), w) \<and> obj_ID o1 = i \<and>
    orm_FindByID (orm_on (s3_storage E fuel)) T i w = (Ok None, w)"
proof -
  have "find (doc_matches E ''id'' i) (listed_docs E (bodies (s3_drv w)) ks) = None"
    using assms(7) by (auto simp: find_None_iff doc_matches_def)
  then have "s3_FindByKey E fuel T ''id'' i w = (Ok None, w)"
    using s3_scan_pages_run [OF assms(1,5,6), of "''id''" i] assms(4)
    by (simp add: s3_FindByKey_def s3_connected_def seq_def gets_def)
  with s3_Find_run [OF assms(1,2), of i] assms(3) show ?thesis
    by (auto simp: s3_storage_def orm_defs object_view_def)
qed

section \<open>A demo bucket\<close>

text \<open>
  Two samples of an object, every document of them at the times the clock shows, and a service that
  keeps its bodies in a map, knows the encoding of these documents, and lists one key per page.
\<close>

definition anne :: Object where
  "anne = ann\<lparr>obj_Fields := GoMap [(''name'', VStr ''Anne'')]\<rparr>"

definition bob :: Object where
  "bob = \<lparr>obj_TableName = ''people'', obj_ID = ''2'', obj_Fields = GoMap [(''name'', VStr ''Bob'')]\<rparr>"

fun demo_doc :: "Object \<times> int \<times> int \<Rightarrow> S3Object" where
  "demo_doc (obj, c, u) = \<lparr>so_ID = obj_ID obj, so_TableName = obj_TableName obj, so_Fields = obj_Fields obj,
     so_CreatedAt = c, so_UpdatedAt = u\<rparr>"

definition demo_docs :: "(string \<times> S3Object) list" where
  "demo_docs = zip [''a'', ''b'', ''c'', ''d'', ''e'', ''f'', ''g'', ''h'']
     (map demo_doc [(anne, 0, 0), (anne, 0, 5), (anne, 5, 0), (anne, 5, 5),
                    (bob, 0, 0), (bob, 0, 5), (bob, 5, 0), (bob, 5, 5)])"

type_synonym bucket = "(string \<times> string) list"

definition bucket_env :: "bucket s3env" where
  "bucket_env = golib.extend sample_lib
     (s3env.fields (\<lambda>s. Error (Err ''url'')) (\<lambda>t. ''now'') (\<lambda>s. Ok ''{}'') (\<lambda>t i. Ok ''{}'')
        (\<lambda>so. case find (\<lambda>p. snd p = so) demo_docs of None \<Rightarrow> Error (Err ''json'') | Some p \<Rightarrow> Ok (fst p))
        (\<lambda>s. case map_of demo_docs s of None \<Rightarrow> Error (Err ''json'') | Some so \<Rightarrow> Ok so)
        (\<lambda>d. (Ok 5, d)) (\<lambda>r d. (Ok (), d)) (\<lambda>c b d. (Ok (), d))
        (\<lambda>c b k d. (case map_of d k of None \<Rightarrow> Error (NoSuchKey k) | Some body \<Rightarrow> Ok (Ok body), d))
        (\<lambda>c b k body meta d. (Ok (), AList.update k body d))
        (\<lambda>c b k d. (Ok (), AList.delete k d))
        (\<lambda>c b p token d. (Ok (case token of None \<Rightarrow> (map fst (take 1 d), Some ''rest'')
            | Some t \<Rightarrow> (map fst (drop 1 d), None)), d)))"

lemma bucket_env_simps [simp]:
  "s3_encode bucket_env = (\<lambda>so. case find (\<lambda>p. snd p = so) demo_docs of None \<Rightarrow> Error (Err ''json'') | Some p \<Rightarrow> Ok (fst p))"
  "s3_decode bucket_env = (\<lambda>s. case map_of demo_docs s of None \<Rightarrow> Error (Err ''json'') | Some so \<Rightarrow> Ok so)"
  "s3_now bucket_env = (\<lambda>d. (Ok 5, d))"
  "s3_get bucket_env = (\<lambda>c b k d. (case map_of d k of None \<Rightarrow> Error (NoSuchKey k) | Some body \<Rightarrow> Ok (Ok body), d))"
  "s3_put bucket_env = (\<lambda>c b k body meta d. (Ok (), AList.update k body d))"
  "s3_delete bucket_env = (\<lambda>c b k d. (Ok (), AList.delete k d))"
  "s3_page bucket_env = (\<lambda>c b p token d. (Ok (case token of None \<Rightarrow> (map fst (take 1 d), Some ''rest'')
            | Some t \<Rightarrow> (map fst (drop 1 d), None)), d))"
  by (simp_all add: bucket_env_def golib.extend_def s3env.fields_def sample_lib_def)

lemma demo_laws: "json_laws bucket_env (\<lambda>m. m)"
proof -
  have "map_of demo_docs body = Some so" if "find (\<lambda>p. snd p = so) demo_docs = Some (body, so')" for so so' body
    using that by (auto simp: demo_docs_def split: if_splits)
  then show ?thesis
    by (auto simp: json_laws_def split: option.splits)
qed

lemma demo_answers: "s3_answers bucket_env map_of (\<lambda>m. m)"
  unfolding s3_answers_def
  using demo_laws by (auto simp: update_conv' delete_conv')

lemma demo_encodable: "encodable bucket_env ''people'' anne" "encodable bucket_env ''people'' bob"
  by (auto simp: encodable_def clock_def demo_docs_def anne_def ann_def bob_def)

definition bucket_world :: "bucket s3st" where
  "bucket_world = \<lparr>s3_client = Some (''r'', []), s3_uploader = True, s3_bucket = ''b'', s3_prefix = [],
     s3_region = ''r'', s3_sch = None, s3_verbose = False,
     s3_drv = [(''tables/people/objects/1.json'', ''b'')]\<rparr>"

lemma demo_holds: "holds bucket_env map_of ''people'' bucket_world [''1'' \<mapsto> obj_Fields anne]"
  by (auto simp: holds_def slot_def doc_at_def bucket_world_def s3_getObjectKey_def demo_docs_def anne_def ann_def)

lemma s3_keys_distinct_witness:
  "s3_getObjectKey [] ''a'' ''b/objects/c'' \<noteq> s3_getObjectKey [] ''b'' ''c'' \<and>
   s3_getObjectKey [] ''a'' ''b/objects/c'' = s3_getObjectKey [] ''a/objects/b'' ''c''"
  using s3_keys_distinct [of "''a''" "''b''" "[]" "''b/objects/c''" "''c''"]
  by (simp add: s3_getObjectKey_def)

lemma s3_refines_documents_witness:
  "\<exists>w'. s3_ops bucket_env ''people'' [OInsert bob, OUpdate bob, OFind ''1'', OFind ''3'', ODelete ''1'', ODelete ''1''] bucket_world =
     (Ok [AInsert True, AUpdate True, AFind (Some (''1'', mget (obj_Fields anne))), AFind None,
          ADelete True, ADelete False], w')"
proof -
  let ?ps = "[OInsert bob, OUpdate bob, OFind ''1'', OFind ''3'', ODelete ''1'', ODelete ''1'']"
  have "\<forall>p\<in>set ?ps. doc_good bucket_env ''people'' p" by (simp add: demo_encodable)
  from s3_refines_documents [OF demo_answers demo_holds this] obtain w' where
    "s3_ops bucket_env ''people'' ?ps bucket_world =
       (Ok (fst (doc_ops (\<lambda>m. m) ?ps [''1'' \<mapsto> obj_Fields anne])), w')" by blast
  then show ?thesis by (simp add: bob_def del: s3_ops.simps)
qed

lemma s3_update_loses_creation_time_witness:
  "\<exists>w' so. s3_Update bucket_env anne bucket_world = (Ok True, w') \<and>
    doc_at bucket_env (map_of (s3_drv w')) ''tables/people/objects/1.json'' = Some so \<and> so_CreatedAt so = 0"
  using s3_update_loses_creation_time [OF demo_answers demo_holds demo_encodable(1), of "obj_Fields anne"]
  by (simp add: s3_getObjectKey_def bucket_world_def anne_def ann_def) blast

lemma s3_rollback_keeps_insert_witness:
  "\<exists>o1 w'. seq (s3_InsertTx bucket_env (Some 0) bob)
      (\<lambda>_. seq (s3_RollbackTx (Some 0)) (\<lambda>_. s3_FindByID bucket_env ''people'' ''2'')) bucket_world =
    (Ok (Some o1), w') \<and> fields_of o1 ''name'' = Some (VStr ''Bob'')"
  using s3_rollback_keeps_insert [OF demo_answers demo_holds demo_encodable(2), of "Some 0"]
  by (auto simp: bob_def mget_def)

lemma demo_listing: "listing bucket_env cl b p (s3_drv bucket_world) None 2 [''tables/people/objects/1.json'']"
proof -
  have "listing bucket_env cl b p (s3_drv bucket_world) (Some ''rest'') 1 []"
    by (rule last_page) (simp add: bucket_world_def)
  from more_pages [OF _ this, of None "[''tables/people/objects/1.json'']"] show ?thesis
    by (simp add: bucket_world_def numeral_2_eq_2)
qed

lemma demo_listed: "listed_docs bucket_env (map_of (s3_drv bucket_world)) [''tables/people/objects/1.json''] =
    [demo_doc (anne, 0, 5)]"
  by (simp add: doc_at_def bucket_world_def demo_docs_def HasSuffix_def anne_def ann_def)

lemma s3_FindByKey_first_match_witness:
  "s3_FindByKey bucket_env 2 ''people'' ''name'' ''Anne'' bucket_world = (Ok (Some anne), bucket_world)"
proof -
  have "s3_client bucket_world = Some (''r'', [])" by (simp add: bucket_world_def)
  from s3_FindByKey_first_match [OF demo_answers this demo_listing order_refl] demo_listed show ?thesis
    by (simp add: doc_matches_def Sprint_v_def to_object_def anne_def ann_def mget_def)
qed

lemma s3_orm_misses_objects_witness:
  "\<exists>o1. st_FindByID (s3_storage bucket_env 2) ''people'' ''1'' bucket_world = (Ok (Some o1), bucket_world) \<and>
    orm_FindByID (orm_on (s3_storage bucket_env 2)) ''people'' ''1'' bucket_world = (Ok None, bucket_world)"
proof -
  have "s3_client bucket_world = Some (''r'', [])" by (simp add: bucket_world_def)
  moreover have "\<forall>so\<in>set (listed_docs bucket_env (map_of (s3_drv bucket_world)) [''tables/people/objects/1.json'']).
      mget (so_Fields so) ''id'' = None"
    unfolding demo_listed by (simp add: anne_def mget_def)
  moreover have "[''1'' \<mapsto> obj_Fields anne] ''1'' = Some (obj_Fields anne)" by simp
  ultimately show ?thesis
    using s3_orm_misses_objects [OF demo_answers demo_holds _ _ demo_listing order_refl] by blast
qed

end
