(* ===== verification/InfoProps.thy ===== *)
theory InfoProps
  imports InfoSchema AdapterProps
begin

text \<open>
  What the schema readers make of the rows of a catalog: the table built from the columns, the
  constraints that the indexes put on them, and the rows that cannot be read.
\<close>

section \<open>Constraints from indexes\<close>

text \<open>A column after the indexes: unique when one unique index has it as its only column, indexed when any has it.\<close>

definition constrained :: "SQLiteIndex list \<Rightarrow> string \<Rightarrow> ColumnData \<Rightarrow> ColumnData" where
  "constrained ixs n c = c\<lparr>
     col_Unique := (col_Unique c \<or> (\<exists>ix\<in>set ixs. si_Unique ix \<and> si_Columns ix = [n])),
     col_Index := (col_Index c \<or> (\<exists>ix\<in>set ixs. n \<in> set (si_Columns ix)))\<rparr>"

text \<open>\<open>changes_to\<close>: only the fields of the table change, each by a function of its name.\<close>

definition changes_to :: "TableSchema \<Rightarrow> (string \<Rightarrow> ColumnData \<Rightarrow> ColumnData) \<Rightarrow> TableSchema \<Rightarrow> bool" where
  "changes_to t f t' \<longleftrightarrow> wf_table t' \<and> t'\<lparr>tab_Fields := NilMap\<rparr> = t\<lparr>tab_Fields := NilMap\<rparr> \<and>
     (\<forall>n. mget (tab_Fields t') n = map_option (f n) (mget (tab_Fields t) n))"

lemma changes_to_refl: "wf_table t \<Longrightarrow> (\<And>n c. mget (tab_Fields t) n = Some c \<Longrightarrow> f n c = c) \<Longrightarrow> changes_to t f t"
  by (simp add: changes_to_def) (metis (no_types, lifting) not_None_eq option.simps(8,9))

lemma changes_to_trans:
  assumes "changes_to t f t1" and "changes_to t1 g t2" and "\<And>n c. h n c = g n (f n c)"
  shows "changes_to t h t2"
proof -
  have "mget (tab_Fields t2) n = map_option (h n) (mget (tab_Fields t) n)" for n
    using assms by (cases "mget (tab_Fields t) n") (auto simp: changes_to_def)
  with assms(1,2) show ?thesis by (simp add: changes_to_def)
qed

lemma changes_to_wf: "changes_to t f t' \<Longrightarrow> wf_table t'"
  by (simp add: changes_to_def)

lemma change_field_run:
  assumes wf: "wf_table t" and nm: "\<And>c. col_Name (f c) = col_Name c"
  shows "\<exists>t'. change_field f n t = Ok t' \<and> changes_to t (\<lambda>m c. if m = n then f c else c) t'"
proof (cases "mget (tab_Fields t) n")
  case None
  then have "changes_to t (\<lambda>m c. if m = n then f c else c) t" by (intro changes_to_refl [OF wf]) auto
  with None show ?thesis by (simp add: change_field_def)
next
  case (Some c)
  with wf obtain fs where fs: "mset_entry (tab_Fields t) n (f c) = Ok fs"
    by (cases "tab_Fields t") (auto simp: wf_table_def)
  have "n \<in> set (mkeys (tab_Fields t))" using Some mget_None_iff [of "tab_Fields t" n] by force
  then have keys: "set (mkeys fs) = set (mkeys (tab_Fields t))"
    using set_mkeys_mset_entry [OF fs] by auto
  have get: "mget fs m = map_option (\<lambda>c. if m = n then f c else c) (mget (tab_Fields t) m)" for m
    using mget_mset_entry [OF fs] Some by (cases "mget (tab_Fields t) m") auto
  have "wf_table (t\<lparr>tab_Fields := fs\<rparr>)"
    using wf Some mget_mset_entry [OF fs] wf_mset_entry [OF fs] keys nm fs
    by (cases "tab_Fields t") (auto simp: wf_table_def)
  with get have "changes_to t (\<lambda>m c. if m = n then f c else c) (t\<lparr>tab_Fields := fs\<rparr>)"
    by (simp add: changes_to_def)
  with Some fs show ?thesis by (simp add: change_field_def)
qed

lemma mark_columns_run:
  "wf_table t \<Longrightarrow> \<exists>t'. mark_columns ns t = Ok t' \<and>
     changes_to t (\<lambda>m c. c\<lparr>col_Index := (col_Index c \<or> m \<in> set ns)\<rparr>) t'"
proof (induction ns arbitrary: t)
  case Nil then show ?case by (auto intro: changes_to_refl)
next
  case (Cons n ns)
  from change_field_run [OF Cons.prems, of mark_index n] obtain t1 where
    t1: "change_field mark_index n t = Ok t1" "changes_to t (\<lambda>m c. if m = n then mark_index c else c) t1"
    by (auto simp: mark_index_def)
  from Cons.IH [OF changes_to_wf [OF t1(2)]] obtain t2 where
    t2: "mark_columns ns t1 = Ok t2"
      "changes_to t1 (\<lambda>m c. c\<lparr>col_Index := (col_Index c \<or> m \<in> set ns)\<rparr>) t2" by blast
  have "changes_to t (\<lambda>m c. c\<lparr>col_Index := (col_Index c \<or> m \<in> set (n # ns))\<rparr>) t2"
    by (rule changes_to_trans [OF t1(2) t2(2)]) (simp add: mark_index_def)
  with t1(1) t2(1) show ?case by simp
qed

lemma lite_constrain_run:
  assumes "wf_table t"
  shows "\<exists>t'. lite_constrain ix t = Ok t' \<and> changes_to t (constrained [ix]) t'"
proof -
  let ?f = "\<lambda>m c. if si_Unique ix \<and> si_Columns ix = [m] then mark_unique c else c"
  have "\<exists>t1. (case si_Columns ix of [n] \<Rightarrow> if si_Unique ix then change_field mark_unique n t else Ok t | _ \<Rightarrow> Ok t) =
      Ok t1 \<and> changes_to t ?f t1"
  proof (cases "\<exists>n. si_Columns ix = [n] \<and> si_Unique ix")
    case True
    then obtain n where n: "si_Columns ix = [n]" "si_Unique ix" by blast
    from change_field_run [OF assms, of mark_unique n] n show ?thesis
      by (simp add: mark_unique_def eq_commute)
  next
    case False
    then have "changes_to t ?f t" by (intro changes_to_refl [OF assms]) auto
    with False show ?thesis by (auto split: list.splits)
  qed
  then obtain t1 where
    t1: "(case si_Columns ix of [n] \<Rightarrow> if si_Unique ix then change_field mark_unique n t else Ok t | _ \<Rightarrow> Ok t) = Ok t1"
      "changes_to t ?f t1" by blast
  from mark_columns_run [OF changes_to_wf [OF t1(2)], of "si_Columns ix"] obtain t2 where
    t2: "mark_columns (si_Columns ix) t1 = Ok t2"
      "changes_to t1 (\<lambda>m c. c\<lparr>col_Index := (col_Index c \<or> m \<in> set (si_Columns ix))\<rparr>) t2" by blast
  have "changes_to t (constrained [ix]) t2"
    by (rule changes_to_trans [OF t1(2) t2(2)]) (auto simp: constrained_def mark_unique_def)
  with t1(1) t2(1) show ?thesis by (auto simp: lite_constrain_def)
qed

lemma update_constraints_run:
  "wf_table t \<Longrightarrow> \<exists>t'. lite_updateColumnConstraints ixs t = Ok t' \<and> changes_to t (constrained ixs) t'"
proof (induction ixs arbitrary: t)
  case Nil then show ?case by (auto simp: constrained_def intro: changes_to_refl)
next
  case (Cons ix ixs)
  from lite_constrain_run [OF Cons.prems] obtain t1 where
    t1: "lite_constrain ix t = Ok t1" "changes_to t (constrained [ix]) t1" by blast
  from Cons.IH [OF changes_to_wf [OF t1(2)]] obtain t2 where
    t2: "lite_updateColumnConstraints ixs t1 = Ok t2" "changes_to t1 (constrained ixs) t2" by blast
  have "changes_to t (constrained (ix # ixs)) t2"
    by (rule changes_to_trans [OF t1(2) t2(2)]) (auto simp: constrained_def)
  with t1(1) t2(1) show ?case by simp
qed

section \<open>A table read from SQLite\<close>

definition visible :: "SQLiteIndex list \<Rightarrow> SQLiteIndex list" where
  "visible ixs = filter (\<lambda>ix. \<not> HasPrefix (si_Name ix) ''sqlite_autoindex_'') ixs"

lemma lite_processIndexes_run:
  "lite_processIndexes t ixs = t\<lparr>tab_Indexes := tab_Indexes t @ map si_Name (visible ixs),
     tab_UniqueKeys := tab_UniqueKeys t @ map si_Name (filter si_Unique (visible ixs))\<rparr>"
proof (induction ixs arbitrary: t)
  case Nil then show ?case by (simp add: lite_processIndexes_def visible_def)
next
  case (Cons ix ixs)
  have "lite_processIndexes t (ix # ixs) =
      lite_processIndexes (if HasPrefix (si_Name ix) ''sqlite_autoindex_'' then t else add_index (si_Unique ix) (si_Name ix) t) ixs"
    by (simp add: lite_processIndexes_def)
  then show ?case unfolding Cons.IH by (simp add: visible_def add_index_def Let_def)
qed

lemma AddFields_indexes:
  "AddFields ts fs = Ok ts' \<Longrightarrow> tab_Indexes ts' = tab_Indexes ts \<and> tab_UniqueKeys ts' = tab_UniqueKeys ts"
proof (induction fs arbitrary: ts)
  case (Cons f fs)
  then obtain ts1 where f: "AddField ts f = Ok ts1" and fs: "AddFields ts1 fs = Ok ts'" by auto
  from f have "tab_Indexes ts1 = tab_Indexes ts \<and> tab_UniqueKeys ts1 = tab_UniqueKeys ts"
    by (auto simp: AddField_def Let_def split: if_splits)
  with Cons.IH [OF fs] show ?case by simp
qed simp

lemma NewTableSchema_indexes: "tab_Indexes (NewTableSchema n) = []" "tab_UniqueKeys (NewTableSchema n) = []"
  by (simp_all add: NewTableSchema_def)

text \<open>C24: From the columns and indexes that the SQLite pragmas report for a table, parseTable builds a
  well-formed table with these columns in their order; a column is unique when a unique index has it
  as its only column, indexed when any index has it, and the table lists the indexes and unique keys
  that SQLite did not create itself.\<close>

theorem lite_parseTable_describes:
  assumes cols: "lite_getColumns E db T w = (Ok cols, w1)" and ixs: "lite_getIndexes E db T w1 = (Ok ixs, w2)"
    and names: "distinct (map sc_Name cols)" "[] \<notin> set (map sc_Name cols)"
  shows "\<exists>t. lite_parseTable E db T w = (Ok t, w2) \<and> wf_table t \<and> tab_TableName t = T \<and>
    tab_FieldOrder t = map sc_Name cols \<and>
    (\<forall>c\<in>set cols. mget (tab_Fields t) (sc_Name c) = Some (constrained ixs (sc_Name c) (lite_convertColumn c))) \<and>
    tab_Indexes t = map si_Name (visible ixs) \<and>
    tab_UniqueKeys t = map si_Name (filter si_Unique (visible ixs))"
proof -
  let ?cs = "map lite_convertColumn cols"
  have conv: "col_Name (lite_convertColumn c) = sc_Name c" for c by (simp add: lite_convertColumn_def)
  obtain t0 where t0: "AddFields (NewTableSchema T) ?cs = Ok t0"
    using AddFields_total [of "NewTableSchema T"] by (auto simp: table_simps make_map_def)
  note facts = AddFields_Ok [OF t0]
  have nc: "named_columns ?cs = ?cs"
    unfolding named_columns_def by (rule filter_True) (use names(2) in \<open>force simp: conv\<close>)
  let ?t1 = "lite_processIndexes t0 ixs"
  have wf1: "wf_table ?t1"
    using AddFields_wf [OF wf_NewTableSchema t0] by (auto simp: lite_processIndexes_run wf_table_def)
  from update_constraints_run [OF this] obtain t where
    t: "lite_updateColumnConstraints ixs ?t1 = Ok t" "changes_to ?t1 (constrained ixs) t" by blast
  have run: "lite_parseTable E db T w = (Ok t, w2)"
    by (simp add: lite_parseTable_def seq_def wrapping_def cols ixs t0 t(1))
  have rest: "t\<lparr>tab_Fields := NilMap\<rparr> = ?t1\<lparr>tab_Fields := NilMap\<rparr>"
    using t(2) by (simp add: changes_to_def)
  note rests = arg_cong [OF rest, of tab_TableName] arg_cong [OF rest, of tab_FieldOrder]
    arg_cong [OF rest, of tab_Indexes] arg_cong [OF rest, of tab_UniqueKeys]
  have "mget (tab_Fields t0) (sc_Name c) = Some (lite_convertColumn c)" if "c \<in> set cols" for c
  proof -
    have "distinct (map fst (rev (map (\<lambda>f. (col_Name f, f)) ?cs)))"
      using names(1) by (simp add: rev_map [symmetric] comp_def conv)
    from map_of_is_SomeI [OF this, of "sc_Name c" "lite_convertColumn c"] that show ?thesis
      using facts(4) by (force simp: nc table_simps conv)
  qed
  then have "\<forall>c\<in>set cols. mget (tab_Fields t) (sc_Name c) = Some (constrained ixs (sc_Name c) (lite_convertColumn c))"
    using t(2) by (simp add: changes_to_def lite_processIndexes_run)
  with run changes_to_wf [OF t(2)] rests facts(1,2) AddFields_indexes [OF t0] show ?thesis
    by (simp add: lite_processIndexes_run nc conv comp_def table_simps NewTableSchema_indexes)
qed

section \<open>Rows that cannot be read\<close>

lemma scan_rows_Ok:
  "scan_rows L ts cols rows = Ok vss \<Longrightarrow> r \<in> set rows \<Longrightarrow> \<exists>cs. Scan_row L cols r (map new_cell ts) = Ok cs"
  by (induction L ts cols rows arbitrary: vss rule: scan_rows.induct) auto

lemma scan_columns_at:
  "scan_columns L i cols srcs cs = Ok cs' \<Longrightarrow> k < length srcs \<Longrightarrow> k < length cs \<Longrightarrow>
     \<exists>v. convertAssign L (cell_type (cs ! k)) (srcs ! k) = Ok v"
proof (induction L i cols srcs cs arbitrary: cs' k rule: scan_columns.induct)
  case (1 L i cols src srcs t old cs)
  then obtain v rest where v: "convertAssign L t src = Ok v"
    and rest: "scan_columns L (Suc i) (drop 1 cols) srcs cs = Ok rest"
    by (auto elim!: wrap_error.elims)
  show ?case
  proof (cases k)
    case 0 with v show ?thesis by simp
  next
    case (Suc j) with "1.IH" [OF _ rest] "1.prems" v show ?thesis by auto
  qed
qed auto

text \<open>A table with a composite primary key cannot be parsed: PRAGMA table_info numbers the columns of the
  key, and the second one's number 2 does not scan into the bool the SQLite adapter reads it into.\<close>

theorem lite_composite_key_unreadable:
  assumes "drv_query E (OnDB n) (''PRAGMA table_info('' @ T @ '')'') [] (drv w) = (Ok (names, rows, err), d)"
    and "r \<in> set rows" and "length r = 6" and "r ! 5 = VInt64 k" and "k \<noteq> 0" and "k \<noteq> 1"
  shows "\<not> is_ok (fst (lite_parseTable E (Some n) T w))"
proof
  assume "is_ok (fst (lite_parseTable E (Some n) T w))"
  then obtain t w' where "lite_parseTable E (Some n) T w = (Ok t, w')"
    by (metis is_ok.elims(2) prod.collapse)
  then obtain cols w1 where "lite_getColumns E (Some n) T w = (Ok cols, w1)"
    unfolding lite_parseTable_def
    by (auto simp: seq_def wrapping_def split: prod.splits result.splits)
  then obtain vss where "scan_rows E lite_column_types names rows = Ok vss"
    using assms(1)
    by (auto simp: lite_getColumns_def query_all_def use_db_def seq_def on_driver_def split: if_splits result.splits)
  from scan_rows_Ok [OF this assms(2)] obtain cs where
    cs: "Scan_row E names r (map new_cell lite_column_types) = Ok cs" by blast
  then have "scan_columns E 0 names r (map new_cell lite_column_types) = Ok cs"
    by (auto simp: Scan_row_def split: if_splits)
  from scan_columns_at [OF this, of 5] assms(3-6) show False
    by (simp add: lite_column_types_def)
qed

section \<open>Indexes of information_schema\<close>

lemma index_maps_run:
  "parser_index_maps ixs im um = (im', um') \<Longrightarrow> distinct (map fst im) \<Longrightarrow>
     distinct (map fst im') \<and>
     set (map fst im') = set (map fst im) \<union> (ix_IndexName ` set ixs - {''PRIMARY''}) \<and>
     (\<forall>n. map_of um' n = Some True \<longleftrightarrow> map_of um n = Some True \<or>
        n \<noteq> ''PRIMARY'' \<and> (\<exists>ix\<in>set ixs. ix_IndexName ix = n \<and> ix_NonUnique ix = 0))"
proof (induction ixs im um arbitrary: im' um' rule: parser_index_maps.induct)
  case (2 ix ixs im um)
  show ?case
  proof (cases "ix_IndexName ix = ''PRIMARY''")
    case True with "2.IH"(1) "2.prems" show ?thesis by auto
  next
    case False
    let ?im = "AList.update (ix_IndexName ix)
           ((case map_of im (ix_IndexName ix) of None \<Rightarrow> [] | Some cs \<Rightarrow> cs) @ [ix_ColumnName ix]) im"
    have "distinct (map fst ?im)" using "2.prems"(2) by (simp add: distinct_update)
    with "2.IH"(2) [OF False, of im' um'] "2.prems" False show ?thesis
      by (auto simp: update_conv' dom_update)
  qed
qed auto

text \<open>For any order in which Go visits a map, processIndexes appends to the table's indexes each index
  name of the rows but PRIMARY once, and to its unique keys, in the same order, those with a row
  marked unique.\<close>

theorem parser_processIndexes_names:
  assumes "\<And>ks. distinct ks \<Longrightarrow> mset (is_range E ks) = mset ks"
  shows "\<exists>ns. distinct ns \<and> set ns = ix_IndexName ` set ixs - {''PRIMARY''} \<and>
    parser_processIndexes E t ixs = t\<lparr>tab_Indexes := tab_Indexes t @ ns,
      tab_UniqueKeys := tab_UniqueKeys t @
        filter (\<lambda>n. \<exists>ix\<in>set ixs. ix_IndexName ix = n \<and> ix_NonUnique ix = 0) ns\<rparr>"
proof -
  obtain im um where maps: "parser_index_maps ixs [] [] = (im, um)" by force
  from index_maps_run [OF this] have im: "distinct (map fst im)"
      "set (map fst im) = ix_IndexName ` set ixs - {''PRIMARY''}"
    and um: "\<And>n. map_of um n = Some True \<longleftrightarrow>
        n \<noteq> ''PRIMARY'' \<and> (\<exists>ix\<in>set ixs. ix_IndexName ix = n \<and> ix_NonUnique ix = 0)" by auto
  let ?ns = "is_range E (map fst im)"
  have ns: "distinct ?ns" "set ?ns = set (map fst im)"
    using assms [OF im(1)] im(1) by (metis mset_eq_imp_distinct_iff, metis set_mset_mset)
  have fold: "foldl (\<lambda>t name. add_index (P name) name t) t xs = t\<lparr>tab_Indexes := tab_Indexes t @ xs,
      tab_UniqueKeys := tab_UniqueKeys t @ filter P xs\<rparr>" for P xs and t :: TableSchema
    by (induction xs arbitrary: t) (simp_all add: add_index_def Let_def)
  have "filter (\<lambda>n. map_of um n = Some True) ?ns =
      filter (\<lambda>n. \<exists>ix\<in>set ixs. ix_IndexName ix = n \<and> ix_NonUnique ix = 0) ?ns"
    using ns(2) im(2) by (intro filter_cong) (auto simp: um)
  then have "parser_processIndexes E t ixs = t\<lparr>tab_Indexes := tab_Indexes t @ ?ns,
      tab_UniqueKeys := tab_UniqueKeys t @
        filter (\<lambda>n. \<exists>ix\<in>set ixs. ix_IndexName ix = n \<and> ix_NonUnique ix = 0) ?ns\<rparr>"
    by (simp add: parser_processIndexes_def maps fold)
  with ns im(2) show ?thesis by blast
qed

section \<open>A demo catalog\<close>

text \<open>A database whose table \<open>people\<close> has two columns and one unique index, and one with a composite key.\<close>

definition catalog_env :: "unit orenv" where
  "catalog_env = (demo_env [])\<lparr>drv_query := (\<lambda>c q args d. (
     if q = ''PRAGMA table_info(people)''
     then Ok ([], [[VInt64 0, VStr ''id'', VStr ''TEXT'', VInt64 1, VNil, VInt64 1],
                   [VInt64 1, VStr ''name'', VStr ''TEXT'', VInt64 0, VNil, VInt64 0]], None)
     else if q = ''PRAGMA index_list(people)''
     then Ok ([], [[VInt64 0, VStr ''by_name'', VInt64 1, VStr ''c'', VStr ''0'']], None)
     else if q = ''PRAGMA index_info(by_name)''
     then Ok ([], [[VInt64 0, VInt64 1, VStr ''name'']], None)
     else if q = ''PRAGMA table_info(pairs)''
     then Ok ([], [[VInt64 0, VStr ''a'', VStr ''TEXT'', VInt64 1, VNil, VInt64 1],
                   [VInt64 1, VStr ''b'', VStr ''TEXT'', VInt64 1, VNil, VInt64 2]], None)
     else Error (Err ''no such table''), d))\<rparr>"

lemma catalog_query [simp]: "drv_query catalog_env = (\<lambda>c q args d. (
     if q = ''PRAGMA table_info(people)''
     then Ok ([], [[VInt64 0, VStr ''id'', VStr ''TEXT'', VInt64 1, VNil, VInt64 1],
                   [VInt64 1, VStr ''name'', VStr ''TEXT'', VInt64 0, VNil, VInt64 0]], None)
     else if q = ''PRAGMA index_list(people)''
     then Ok ([], [[VInt64 0, VStr ''by_name'', VInt64 1, VStr ''c'', VStr ''0'']], None)
     else if q = ''PRAGMA index_info(by_name)''
     then Ok ([], [[VInt64 0, VInt64 1, VStr ''name'']], None)
     else if q = ''PRAGMA table_info(pairs)''
     then Ok ([], [[VInt64 0, VStr ''a'', VStr ''TEXT'', VInt64 1, VNil, VInt64 1],
                   [VInt64 1, VStr ''b'', VStr ''TEXT'', VInt64 1, VNil, VInt64 2]], None)
     else Error (Err ''no such table''), d))"
  by (simp add: catalog_env_def)

lemma int_scan: "ParseInt (as_string L (VInt64 i)) = Ok i"
proof -
  have "in_int64 (sint i)" using sint_ge [of i] sint_lt [of i] by (simp add: in_int64_def)
  then show ?thesis by (simp add: as_string_def Sprint_v_def ParseInt_FormatInt)
qed

lemmas catalog_simps = query_all_def use_db_def go_simps on_driver_def Scan_row_def new_cell_def int_scan scalar_text_def

lemma people_catalog:
  "lite_getColumns catalog_env (Some 0) ''people'' demo_world =
     (Ok [\<lparr>sc_Name = ''id'', sc_Type = ''TEXT'', sc_NotNull = True, sc_DefaultValue = VNil, sc_PrimaryKey = True\<rparr>,
          \<lparr>sc_Name = ''name'', sc_Type = ''TEXT'', sc_NotNull = False, sc_DefaultValue = VNil, sc_PrimaryKey = False\<rparr>],
      demo_world)"
  "lite_getIndexes catalog_env (Some 0) ''people'' demo_world =
     (Ok [\<lparr>si_Name = ''by_name'', si_Unique = True, si_Columns = [''name'']\<rparr>], demo_world)"
  by (simp_all add: lite_getColumns_def lite_getIndexes_def lite_getIndexColumns_def lite_column_types_def catalog_simps
      lite_column_of_row_def str_of_def bool_of_def)

lemma lite_parseTable_describes_witness:
  "\<exists>t. lite_parseTable catalog_env (Some 0) ''people'' demo_world = (Ok t, demo_world) \<and>
     tab_FieldOrder t = [''id'', ''name''] \<and> tab_UniqueKeys t = [''by_name''] \<and>
     map_option col_Unique (mget (tab_Fields t) ''name'') = Some True \<and>
     map_option col_Unique (mget (tab_Fields t) ''id'') = Some False"
  using lite_parseTable_describes [OF people_catalog]
  by (auto simp: constrained_def lite_convertColumn_def zero_column_def visible_def HasPrefix_def)

lemma lite_composite_key_unreadable_witness:
  "\<not> is_ok (fst (lite_parseTable catalog_env (Some 0) ''pairs'' demo_world))"
  by (rule lite_composite_key_unreadable
        [where r = "[VInt64 1, VStr ''b'', VStr ''TEXT'', VInt64 1, VNil, VInt64 2]" and k = 2]) auto

definition ordered_env :: "unit isenv" where
  "ordered_env = env.extend (env.truncate (demo_env [])) (isenv.fields (\<lambda>ks. ks))"

definition sample_index :: InfoSchemaIndex where
  "sample_index = index_of_row (replicate 18 VNil)"

lemma parser_processIndexes_names_witness:
  "\<exists>ns. distinct ns \<and> set ns = {''a'', ''b''} \<and>
     tab_Indexes (parser_processIndexes ordered_env (NewTableSchema ''t'')
       [sample_index\<lparr>ix_IndexName := ''a''\<rparr>, sample_index\<lparr>ix_IndexName := ''PRIMARY''\<rparr>,
        sample_index\<lparr>ix_IndexName := ''b'', ix_NonUnique := 1\<rparr>, sample_index\<lparr>ix_IndexName := ''a''\<rparr>]) = ns"
  (is "\<exists>ns. _ \<and> _ \<and> tab_Indexes (parser_processIndexes _ _ ?ixs) = ns")
proof -
  have "mset (is_range ordered_env ks) = mset ks" for ks
    by (simp add: ordered_env_def env.extend_def isenv.fields_def)
  note names = parser_processIndexes_names [OF this, of _ "NewTableSchema ''t''"]
  define ixs where "ixs = ?ixs"
  obtain ns where ns: "distinct ns" "set ns = ix_IndexName ` set ixs - {''PRIMARY''}"
    and t: "parser_processIndexes ordered_env (NewTableSchema ''t'') ixs = (NewTableSchema ''t'')\<lparr>
      tab_Indexes := tab_Indexes (NewTableSchema ''t'') @ ns,
      tab_UniqueKeys := tab_UniqueKeys (NewTableSchema ''t'') @
        filter (\<lambda>n. \<exists>ix\<in>set ixs. ix_IndexName ix = n \<and> ix_NonUnique ix = 0) ns\<rparr>"
    using names [of ixs] by blast
  have "tab_Indexes (parser_processIndexes ordered_env (NewTableSchema ''t'') ixs) = ns"
    unfolding t by (simp add: NewTableSchema_indexes)
  moreover have "ix_IndexName ` set ixs - {''PRIMARY''} = {''a'', ''b''}" by (auto simp: ixs_def)
  ultimately show ?thesis unfolding ixs_def [symmetric] using ns by simp
qed

end
