(* ===== verification/StorageProps.thy ===== *)
theory StorageProps
  imports AdapterProps Backends
begin

text \<open>
  What holds of every SQL storage alike: transactions end once, a nil transaction is refused, and a
  handle that was reset takes no more statements. The ScyllaDB adapter, which has no transactions:
  what it makes of a connection string, and which of its operations never return.
\<close>

section \<open>Transactions\<close>

text \<open>The storages that share the state of the base adapter; CockroachDB has a pool beside it.\<close>

definition sql_storages :: "('d, 'e) orenv_scheme \<Rightarrow> (('d, 'z) adst_scheme) Storage list" where
  "sql_storages E = [sqlite_storage E, postgres_storage E, yugabyte_storage E, tidb_storage E,
     oracle_storage E, sqlserver_storage E]"

lemma sql_storages_contract: "st \<in> set (sql_storages E) \<Longrightarrow> sql_storage st tx_done"
  using sqlite_st.sql_storage_axioms postgres_st.sql_storage_axioms yugabyte_st.sql_storage_axioms
    tidb_st.sql_storage_axioms oracle_st.sql_storage_axioms sqlserver_st.sql_storage_axioms
  by (auto simp: sql_storages_def)

definition ends_tx :: "'w Storage \<Rightarrow> nat \<Rightarrow> ('w, unit) go \<Rightarrow> bool" where
  "ends_tx st n m \<longleftrightarrow> m = st_CommitTx st (Some n) \<or> m = st_RollbackTx st (Some n)"

lemma sql_storage_ends:
  assumes "sql_storage st tx_done" and "ends_tx st n m" and "ends_tx st n m'"
  shows "m' (snd (m w)) = (Error ErrTxDone, snd (m w))"
  using tx_lifecycle.ended_once [of st tx_done m n m' w] assms
  by (simp add: ends_tx_def tx_lifecycle.finishes_def sql_storage_def)

text \<open>C21: For each of the seven SQL storages: after a commit or a rollback of a transaction, whatever
  that call returned, a second commit or rollback of it fails with sql.ErrTxDone and changes
  nothing.\<close>

theorem transactions_end_once:
  assumes "st \<in> set (sql_storages E)" and "ends_tx st n m" and "ends_tx st n m'"
  shows "m' (snd (m w)) = (Error ErrTxDone, snd (m w)) \<and>
    (\<forall>k k' v. ends_tx (cockroach_storage C) n k \<longrightarrow> ends_tx (cockroach_storage C) n k' \<longrightarrow>
       k' (snd (k v)) = (Error ErrTxDone, snd (k v)))"
  using sql_storage_ends [OF sql_storages_contract [OF assms(1)] assms(2,3)]
    sql_storage_ends [OF cockroach_st.sql_storage_axioms] by blast

text \<open>Every method that takes a transaction refuses a nil one and leaves the world as it was.\<close>

definition refuses_nil :: "'w Storage \<Rightarrow> 'w \<Rightarrow> bool" where
  "refuses_nil st w \<longleftrightarrow>
     (\<forall>obj. st_InsertTx st None obj w = (Error nil_tx, w) \<and> st_UpdateTx st None obj w = (Error nil_tx, w) \<and>
        st_UpsertTx st None obj w = (Error nil_tx, w)) \<and>
     (\<forall>t i. st_FindByIDTx st None t i w = (Error nil_tx, w) \<and> st_DeleteByIDTx st None t i w = (Error nil_tx, w)) \<and>
     (\<forall>t k x. st_FindByKeyTx st None t k x w = (Error nil_tx, w)) \<and>
     st_CommitTx st None w = (Error nil_tx, w) \<and> st_RollbackTx st None w = (Error nil_tx, w)"

lemma sql_storage_refuses_nil:
  assumes "sql_storage st over"
  shows "refuses_nil st w"
proof -
  from assms have guarded: "tx_guarded st" by (simp add: sql_storage_def)
  show ?thesis
    using sql_storage.upsert_nil [OF assms] sql_storage.find_id_nil [OF assms] tx_guarded.insert_nil [OF guarded]
      tx_guarded.update_nil [OF guarded] tx_guarded.find_nil [OF guarded] tx_guarded.delete_nil [OF guarded]
      tx_guarded.commit_nil [OF guarded] tx_guarded.rollback_nil [OF guarded]
    by (simp add: refuses_nil_def)
qed

text \<open>C28: Each of the seven SQL storages refuses a nil transaction in all its eight transaction methods
  with the error "transaction is nil", and does nothing else.\<close>

theorem nil_transaction_refused:
  "list_all (\<lambda>st. refuses_nil st w) (sql_storages E) \<and> refuses_nil (cockroach_storage C) v"
  using sql_storage_refuses_nil [OF sql_storages_contract]
    sql_storage_refuses_nil [OF cockroach_st.sql_storage_axioms] by (auto simp: list_all_iff)

lemmas tx_statements =
  sqlite_DeleteByIDTx_def postgres_DeleteByIDTx_def yugabyte_DeleteByIDTx_def tidb_DeleteByIDTx_def
  oracle_DeleteByIDTx_def sqlserver_DeleteByIDTx_def CommonDeleteByIDTx_def ValidateTransaction_def
  require_tx_def tx_Exec_def use_tx_def

lemmas storage_defs =
  sqlite_storage_def postgres_storage_def yugabyte_storage_def tidb_storage_def oracle_storage_def
  sqlserver_storage_def

lemma ended_delete:
  "tx_done w n \<Longrightarrow> st \<in> set (sql_storages E) \<Longrightarrow> st_DeleteByIDTx st (Some n) t i w = (Error ErrTxDone, w)"
  by (auto simp: sql_storages_def storage_defs tx_statements seq_def)

lemmas handle_statements =
  sqlite_DeleteByID_def postgres_DeleteByID_def yugabyte_DeleteByID_def tidb_DeleteByID_def
  oracle_DeleteByID_def sqlserver_DeleteByID_def CommonDeleteByID_def 
  sqlite_BeginTx_def postgres_BeginTx_def yugabyte_BeginTx_def tidb_BeginTx_def oracle_BeginTx_def
  sqlserver_BeginTx_def
  sqlite_ResetConnection_def postgres_ResetConnection_def yugabyte_ResetConnection_def
  tidb_ResetConnection_def oracle_ResetConnection_def sqlserver_ResetConnection_def

lemmas connection_simps =
  Base_ResetConnection_def db_Close_def close_handle_def seq_def gets_def GetDB_def ValidateConnection_def
  require_connection_def TM_BeginTx_def db_BeginTx_def db_Exec_def use_db_def on_driver_def fail_def
  catch_def Base_ValidateConnection_def

text \<open>A handle the base adapter and its transaction manager share, closed.\<close>

definition shut :: "('d, 'z) adst_scheme \<Rightarrow> bool" where
  "shut w \<longleftrightarrow> (\<exists>n. ad_DB w = Some n \<and> ad_TM_DB w = Some n \<and> db_closed w n)"

lemma reset_shuts:
  assumes "ad_DB w = Some n" and "ad_TM_DB w = Some n" and "st \<in> set (sql_storages E)"
  shows "shut (snd (st_ResetConnection st w))"
  using assms(3)
  by (auto simp: sql_storages_def storage_defs handle_statements connection_simps assms(1,2) shut_def split: prod.splits)

lemma shut_refuses:
  assumes "shut w" and "st \<in> set (sql_storages E)"
  shows "st_DeleteByID st t i w = (Error db_closed_error, w)" "st_BeginTx st w = (Error db_closed_error, w)"
  using assms
  by (auto simp: sql_storages_def storage_defs handle_statements connection_simps shut_def)

text \<open>
  The pool of CockroachDB: closing it returns, and a closed pool stays closed, also when handles are closed,
  and refuses every statement.
\<close>

definition pool_closes :: "('d, 'e) crenv_scheme \<Rightarrow> nat \<Rightarrow> ('d \<Rightarrow> bool) \<Rightarrow> goerr \<Rightarrow> bool" where
  "pool_closes C p gone e \<longleftrightarrow>
     (\<forall>d. \<exists>d'. pool_close C p d = (Ok (), d') \<and> gone d') \<and> (\<forall>n d. gone d \<longrightarrow> gone (snd (drv_close C n d))) \<and>
     (\<forall>q args d. gone d \<longrightarrow> pool_exec C p q args d = (Error e, d))"

lemma cockroach_reset_refuses:
  assumes "ad_DB v = Some m" and "cr_pool v = Some p" and pool: "pool_closes C p gone e"
  shows "let v' = snd (st_ResetConnection (cockroach_storage C) v) in
    st_DeleteByID (cockroach_storage C) t i v' = (Error e, v') \<and>
    st_BeginTx (cockroach_storage C) v' = (Error db_closed_error, v')"
proof -
  obtain d where d: "pool_close C p (drv v) = (Ok (), d)" "gone d"
    using pool unfolding pool_closes_def by blast
  obtain r d' where d': "drv_close C m d = (r, d')" by force
  have "gone d'" using pool d(2) d' unfolding pool_closes_def by (metis snd_conv)
  then have "pool_exec C p q args d = (Error e, d)" "pool_exec C p q args d' = (Error e, d')" for q args
    using pool d(2) by (auto simp: pool_closes_def)
  with d(1) d' assms(1,2) show ?thesis
    by (cases "db_closed v m"; cases r)
      (simp_all add: Let_def cockroach_storage_def cockroach_ResetConnection_def cockroach_DeleteByID_def cockroach_BeginTx_def
        require_pool_def connection_simps ret_def)
qed

text \<open>C29: After ResetConnection of any of the seven SQL storages with an open handle, DeleteByID and
  BeginTx fail and change nothing: the handle stays in place, closed. The error is "sql: database is
  closed"; DeleteByID of CockroachDB runs on the pool, which is closed too, and returns the error of
  a closed pool.\<close>

theorem reset_handle_refuses:
  assumes "ad_DB w = Some n" and "ad_TM_DB w = Some n" and "st \<in> set (sql_storages E)"
    and "ad_DB v = Some m" and "cr_pool v = Some p" and "pool_closes C p gone e"
  shows "(let w' = snd (st_ResetConnection st w) in
      st_DeleteByID st t i w' = (Error db_closed_error, w') \<and> st_BeginTx st w' = (Error db_closed_error, w')) \<and>
    (let v' = snd (st_ResetConnection (cockroach_storage C) v) in
      st_DeleteByID (cockroach_storage C) t i v' = (Error e, v') \<and>
      st_BeginTx (cockroach_storage C) v' = (Error db_closed_error, v'))"
  using shut_refuses [OF reset_shuts [OF assms(1,2,3)] assms(3)] cockroach_reset_refuses [OF assms(4,5,6)] by (simp add: Let_def)

lemma transactions_end_once_witness:
  "st_RollbackTx (postgres_storage (demo_env [])) (Some 3)
      (snd (st_CommitTx (postgres_storage (demo_env [])) (Some 3) demo_world)) =
    (Error ErrTxDone, snd (st_CommitTx (postgres_storage (demo_env [])) (Some 3) demo_world))"
  by (rule transactions_end_once [of "postgres_storage (demo_env [])" "demo_env []" 3
      "st_CommitTx (postgres_storage (demo_env [])) (Some 3)", THEN conjunct1])
     (simp_all add: sql_storages_def ends_tx_def)

text \<open>A pool that is open or not.\<close>

definition pool_env :: "bool crenv" where
  "pool_env = env.extend (golib.extend sample_lib (env.fields (\<lambda>n s d. (Ok 0, d)) (\<lambda>n d. (Ok (), d))
       (\<lambda>c q args d. (Ok (Inr 1), d)) (\<lambda>c q args d. (Ok ([], [], None), d)) (\<lambda>n t d. (Ok (), d))
       (\<lambda>n d. (Ok (), d)) (\<lambda>n d. (Ok (), d)) (\<lambda>n d. (Ok (), d))))
     (crenv.fields (\<lambda>c d. (Ok 1, True)) (\<lambda>n d. (Ok 1, d))
       (\<lambda>n q args d. (if d then Ok 1 else Error (Err ''closed pool''), d)) (\<lambda>n q args ts d. (Error ErrNoRows, d))
       (\<lambda>n d. (Ok (), False)))"

definition pool_world :: "bool crst" where
  "pool_world = \<lparr>db_closed = (\<lambda>n. False), tx_done = (\<lambda>n. False), tx_next = 0, drv = True,
     ad_DB = Some 1, ad_Sch = None, ad_TM_DB = None, cr_pool = Some 1\<rparr>"

lemma reset_handle_refuses_witness:
  "(let w' = snd (st_ResetConnection (tidb_storage (demo_env [])) demo_world) in
     st_DeleteByID (tidb_storage (demo_env [])) ''people'' ''1'' w' = (Error db_closed_error, w') \<and>
     st_BeginTx (tidb_storage (demo_env [])) w' = (Error db_closed_error, w')) \<and>
   (let v' = snd (st_ResetConnection (cockroach_storage pool_env) pool_world) in
     st_DeleteByID (cockroach_storage pool_env) ''people'' ''1'' v' = (Error (Err ''closed pool''), v') \<and>
     st_BeginTx (cockroach_storage pool_env) v' = (Error db_closed_error, v'))"
proof (rule reset_handle_refuses [where n = 0 and E = "demo_env []" and m = 1 and p = 1])
  show "pool_closes pool_env 1 Not (Err ''closed pool'')"
    by (simp add: pool_closes_def pool_env_def golib.extend_def env.extend_def env.fields_def crenv.fields_def)
      (rule exI [of _ False], simp)
qed (simp_all add: demo_world_def pool_world_def sql_storages_def)

section \<open>ScyllaDB\<close>

text \<open>C33: On a connected ScyllaDB adapter with a schema nothing reaches the session: Update never
  returns, Insert and Upsert return only the error of an object that cannot be written as JSON, and
  FindByKey and FindByID only the error of empty parameters; otherwise they take the schema's write
  lock and then ask for its read lock, and the write lock stays taken.\<close>

theorem scylla_operations_block:
  assumes "sc_session w = Some n" and "sc_sch w = Some sc" and "sch_mu sc = free_mutex"
  shows "let empty = (Error (Err ''table name, key, and value must not be empty''), w)
    in scylla_Update E obj w = (Deadlock, w\<lparr>sc_sch := Some (with_writer sc)\<rparr>) \<and>
      scylla_Insert E obj w = (case lib_json_object E obj of
          Ok data \<Rightarrow> (Deadlock, w\<lparr>sc_sch := Some (with_writer sc)\<rparr>)
        | Error e \<Rightarrow> (Error e, w) | Panic p \<Rightarrow> (Panic p, w) | Deadlock \<Rightarrow> (Deadlock, w)) \<and>
      scylla_Upsert E obj w = scylla_Insert E obj w \<and>
      scylla_FindByKey E T k v w = (if T = [] \<or> k = [] \<or> v = [] then empty else (Deadlock, w\<lparr>sc_sch := Some (with_writer sc)\<rparr>)) \<and>
      scylla_FindByID E T v w = (if T = [] \<or> v = [] then empty else (Deadlock, w\<lparr>sc_sch := Some (with_writer sc)\<rparr>))"
proof -
  have session: "seq (scylla_session msg) f w = f n w" for msg and f :: "nat \<Rightarrow> ('a scst, 'x) go"
    using assms(1) by (simp add: scylla_session_def seq_def gets_def)
  note blocks = scylla_locked_GetTable [OF assms(2,3)]
  have update: "scylla_Update E obj w = (Deadlock, w\<lparr>sc_sch := Some (with_writer sc)\<rparr>)"
    by (simp add: scylla_Update_def session blocks)
  have insert: "scylla_Insert E obj w = (case lib_json_object E obj of
          Ok data \<Rightarrow> (Deadlock, w\<lparr>sc_sch := Some (with_writer sc)\<rparr>)
        | Error e \<Rightarrow> (Error e, w) | Panic p \<Rightarrow> (Panic p, w) | Deadlock \<Rightarrow> (Deadlock, w))"
    using assms(2) by (cases "lib_json_object E obj") (simp_all add: scylla_Insert_def session seq_gets blocks)
  have find: "scylla_FindByKey E T k v w = (if T = [] \<or> k = [] \<or> v = []
      then (Error (Err ''table name, key, and value must not be empty''), w)
      else (Deadlock, w\<lparr>sc_sch := Some (with_writer sc)\<rparr>))" for k
    by (simp add: scylla_FindByKey_def session blocks require_find_params_def)
  show ?thesis
    by (simp add: Let_def update insert find scylla_Upsert_def scylla_FindByID_def)
qed

lemma Split_Join:
  "xs \<noteq> [] \<Longrightarrow> \<forall>x\<in>set xs. sep \<notin> set x \<Longrightarrow> Split (Join xs [sep]) sep = xs"
  by (induction xs "[sep]" rule: Join.induct) (auto simp: Split_no_sep Split_append_sep)

lemma set_Join: "set (Join xs sep) \<subseteq> (\<Union>x\<in>set xs. set x) \<union> set sep"
  by (induction xs sep rule: Join.induct) auto

text \<open>C32: Connecting with hosts/keyspace?consistency=c&timeout=t, built from host names, a keyspace, a
  consistency level and a duration without the separator characters, opens a session with exactly
  these hosts, this keyspace and level, and the duration as both timeouts.\<close>

theorem scylla_connection_string:
  assumes hosts: "hosts \<noteq> []" "\<forall>h\<in>set hosts. CHR '','' \<notin> set h \<and> CHR ''/'' \<notin> set h"
    and ks: "CHR ''/'' \<notin> set ks" "CHR ''?'' \<notin> set ks"
    and c: "scylla_parseConsistency c = Ok level" "set c \<inter> {CHR ''/'', CHR ''?'', CHR ''&'', CHR ''=''} = {}"
    and t: "sc_parse_duration E t = Ok d" "set t \<inter> {CHR ''/'', CHR ''?'', CHR ''&'', CHR ''=''} = {}"
    and session: "sc_create_session E \<lparr>cl_Hosts = hosts, cl_Keyspace = ks, cl_Consistency = level,
        cl_ProtoVersion = 4, cl_ConnectTimeout = d, cl_Timeout = d\<rparr> (sc_drv w) = (Ok n, s)"
  shows "scylla_Connect E (Join hosts '','' @ ''/'' @ ks @ ''?consistency='' @ c @ ''&timeout='' @ t) w =
    (Ok (), w\<lparr>sc_session := Some n, sc_cluster := Some \<lparr>cl_Hosts = hosts, cl_Keyspace = ks,
        cl_Consistency = level, cl_ProtoVersion = 4, cl_ConnectTimeout = d, cl_Timeout = d\<rparr>,
        sc_keyspace := ks, sc_drv := s\<rparr>)"
proof -
  let ?opts = "''consistency='' @ c @ ''&timeout='' @ t"
  have "CHR ''/'' \<notin> set (Join hosts '','')" using hosts(2) set_Join [of hosts "'',''"] by auto
  from Split_append_sep [OF this, of "ks @ ''?'' @ ?opts"]
  have parts: "Split (Join hosts '','' @ ''/'' @ ks @ ''?'' @ ?opts) (CHR ''/'') = [Join hosts '','', ks @ ''?'' @ ?opts]"
    using ks(1) c(2) t(2) by (simp add: Split_no_sep)
  have "Split (Join hosts '','') (CHR '','') = hosts" using hosts by (intro Split_Join) auto
  moreover from Split_append_sep [OF ks(2), of ?opts]
  have "Split (ks @ ''?'' @ ?opts) (CHR ''?'') = [ks, ?opts]"
    using c(2) t(2) by (simp add: Split_no_sep)
  moreover have "Split ?opts (CHR ''&'') = [''consistency='' @ c, ''timeout='' @ t]"
    using Split_append_sep [of "CHR ''&''" "''consistency='' @ c" "''timeout='' @ t"] c(2) t(2)
    by (simp add: Split_no_sep)
  moreover have "Split (''consistency='' @ c) (CHR ''='') = [''consistency'', c]"
    using Split_append_sep [of "CHR ''=''" "''consistency''" c] c(2) by (simp add: Split_no_sep)
  moreover have "Split (''timeout='' @ t) (CHR ''='') = [''timeout'', t]"
    using Split_append_sep [of "CHR ''=''" "''timeout''" t] t(2) by (simp add: Split_no_sep)
  ultimately show ?thesis
    using parts c(1) t(1) session
    by (simp add: scylla_Connect_def scylla_parseConnectionOptions_def scylla_option_def Let_def
        seq_def modify_def wrapping_def on_scylla_def)
qed

text \<open>A demo session, and a driver that accepts everything.\<close>

definition scylla_env :: "string list scenv" where
  "scylla_env = golib.extend sample_lib
     (scenv.fields (\<lambda>s. Ok 5000000000) (\<lambda>u. u) (\<lambda>c d. (Ok 1, d)) (\<lambda>n d. d)
        (\<lambda>n q args d. (Ok (), q # d)) (\<lambda>n q args cs d. (Ok (None, Ok ()), d)))"

definition scylla_world :: "string list scst" where
  "scylla_world = (scylla_New [])\<lparr>sc_session := Some 1,
     sc_sch := Some (schema_New\<lparr>sch_Tables := GoMap [(''people'', people)]\<rparr>)\<rparr>"

lemma scylla_env_simps [simp]:
  "sc_parse_duration scylla_env = (\<lambda>s. Ok 5000000000)" "sc_create_session scylla_env = (\<lambda>c d. (Ok 1, d))"
  "lib_json_object scylla_env = (\<lambda>o1. Ok ''{}'')"
  by (simp_all add: scylla_env_def golib.extend_def scenv.fields_def sample_lib_def)

lemma scylla_operations_block_witness:
  "fst (scylla_Insert scylla_env ann scylla_world) = Deadlock \<and> fst (scylla_Update scylla_env ann scylla_world) = Deadlock \<and>
   fst (scylla_FindByKey scylla_env ''people'' ''id'' ''1'' scylla_world) = Deadlock"
proof -
  let ?sc = "schema_New\<lparr>sch_Tables := GoMap [(''people'', people)]\<rparr>"
  have "sc_session scylla_world = Some 1" "sc_sch scylla_world = Some ?sc" "sch_mu ?sc = free_mutex"
    by (simp_all add: scylla_world_def schema_New_def)
  from scylla_operations_block [OF this, of scylla_env ann "''people''" "''id''" "''1''"]
  show ?thesis by (simp add: Let_def)
qed

lemma scylla_connection_string_witness:
  "scylla_Connect scylla_env ''h1,h2/shop?consistency=one&timeout=5s'' (scylla_New []) =
    (Ok (), (scylla_New [])\<lparr>sc_session := Some 1, sc_cluster := Some \<lparr>cl_Hosts = [''h1'', ''h2''], cl_Keyspace = ''shop'',
        cl_Consistency = COne, cl_ProtoVersion = 4, cl_ConnectTimeout = 5000000000, cl_Timeout = 5000000000\<rparr>,
        sc_keyspace := ''shop''\<rparr>)"
proof -
  have "scylla_parseConsistency ''one'' = Ok COne"
    by (simp add: scylla_parseConsistency_def ToLower_def lower_char_def)
  from scylla_connection_string [OF _ _ _ _ this, of "[''h1'', ''h2'']" "''shop''" scylla_env "''5s''" 5000000000
      "scylla_New []" 1 "[]"]
  show ?thesis by (simp add: scylla_New_def)
qed

end
