(* ===== verification/Host.thy ===== *)
theory Host
  imports Orm
begin

text \<open>
  What the example applications use of the process they run in: the clock, the random bytes, and the
  storage behind their ORM, whose state \<open>'w\<close> is the storage's own. The clock and the random bytes are
  given as the sequences of what the successive calls return. Times are in nanoseconds.
\<close>

section \<open>The process\<close>

record 'w host =
  hw_store :: 'w
  hw_clock :: "nat \<Rightarrow> int"
  hw_ticks :: nat
  hw_random :: "nat \<Rightarrow> nat \<Rightarrow> string result"
  hw_draws :: nat

text \<open>\<open>time.Now()\<close>, \<open>rand.Read(make([]byte, n))\<close>, and a call of the storage.\<close>

definition time_Now :: "('w host, int) go" where
  "time_Now = (\<lambda>h. (Ok (hw_clock h (hw_ticks h)), h\<lparr>hw_ticks := Suc (hw_ticks h)\<rparr>))"

definition rand_Read :: "nat \<Rightarrow> ('w host, string) go" where
  "rand_Read n = (\<lambda>h. (hw_random h (hw_draws h) n, h\<lparr>hw_draws := Suc (hw_draws h)\<rparr>))"

definition on_store :: "('w, 'a) go \<Rightarrow> ('w host, 'a) go" where
  "on_store m = (\<lambda>h. case m (hw_store h) of (r, w) \<Rightarrow> (r, h\<lparr>hw_store := w\<rparr>))"

text \<open>\<open>orm.Storage.Update(ctx, obj)\<close>, which the ORM itself does not offer.\<close>

definition storage_Update :: "'w ORM \<Rightarrow> Object \<Rightarrow> ('w, bool) go" where
  "storage_Update orm obj = on_storage orm (\<lambda>st. st_Update st obj)"

text \<open>
  The functions of the standard library and of \<open>golang.org/x/crypto/bcrypt\<close> whose results the model
  does not need to know. A bcrypt hash draws a salt: the number of the draw is an argument.
\<close>

record applib =
  app_rfc3339 :: "int \<Rightarrow> string"
  app_parse_rfc3339 :: "string \<Rightarrow> int result"
  app_sha256 :: "string \<Rightarrow> string"
  app_bcrypt :: "string \<Rightarrow> nat \<Rightarrow> string result"
  app_bcrypt_check :: "string \<Rightarrow> string \<Rightarrow> unit result"
  app_json_map :: "goval gomap \<Rightarrow> string result"
  app_json_parse :: "string \<Rightarrow> goval gomap result"

section \<open>Values\<close>

text \<open>\<open>hex.EncodeToString\<close>, which \<open>fmt.Sprintf("%x", ...)\<close> of a byte array prints as well.\<close>

definition hex_digit :: "nat \<Rightarrow> char" where
  "hex_digit n = ''0123456789abcdef'' ! n"

definition EncodeToString :: "string \<Rightarrow> string" where
  "EncodeToString bs = concat (map (\<lambda>c. [hex_digit (of_char c div 16), hex_digit (of_char c mod 16)]) bs)"

text \<open>\<open>v.(string)\<close> of a field: a value of another type, nil and a missing field panic.\<close>

definition as_text :: "goval option \<Rightarrow> string result" where
  "as_text v = (case v of Some (VStr s) \<Rightarrow> Ok s | _ \<Rightarrow> bad_assertion)"

text \<open>A text field that is taken when it is there, and a time field that is taken when it can be parsed.\<close>

definition text_field :: "Object \<Rightarrow> string \<Rightarrow> string result" where
  "text_field obj n = rbind (GetString obj n) (\<lambda>(s, ok). Ok (if ok then s else []))"

definition time_field :: "applib \<Rightarrow> Object \<Rightarrow> string \<Rightarrow> int result" where
  "time_field A obj n = rbind (GetString obj n) (\<lambda>(s, ok).
     Ok (if ok then (case app_parse_rfc3339 A s of Ok t \<Rightarrow> t | _ \<Rightarrow> 0) else 0))"

text \<open>\<open>time.Unix(0, 0)\<close> is \<open>unix_epoch\<close> nanoseconds after the zero time.\<close>

definition unix_epoch :: int where
  "unix_epoch = 62135596800 * 1000000000"

text \<open>A line break.\<close>

definition eol :: string where
  "eol = [CHR 0x0A]"

lemma time_Now_apply: "time_Now h = (Ok (hw_clock h (hw_ticks h)), h\<lparr>hw_ticks := Suc (hw_ticks h)\<rparr>)"
  by (simp add: time_Now_def)

lemma on_store_apply: "m (hw_store h) = (r, w) \<Longrightarrow> on_store m h = (r, h\<lparr>hw_store := w\<rparr>)"
  by (simp add: on_store_def)

end
