(* ===== verification/Ldap.thy ===== *)
theory Ldap
  imports Host
begin

text \<open>
  The LDAP example (src/examples/ldapd): its schema (schema.go), the directory operations on the tables
  \<open>entries\<close> and \<open>users\<close> (models.go), and the text protocol (server.go). The network loops of \<open>Start\<close> and
  \<open>handleConnection\<close>, TLS and log output are left out: \<open>processMessage\<close> is what answers one message.
\<close>

section \<open>The schema\<close>

definition ldap_entry_columns :: "ColumnData list" where
  "ldap_entry_columns =
     [zero_column\<lparr>col_Name := ''id'', col_DataType := ''text'', col_PrimaryKey := True,
        col_Comment := ''Distinguished Name (DN) - unique identifier''\<rparr>,
      zero_column\<lparr>col_Name := ''parent_dn'', col_DataType := ''text'', col_Nullable := True, col_Index := True,
        col_Comment := ''Parent DN for hierarchical structure''\<rparr>,
      zero_column\<lparr>col_Name := ''object_class'', col_DataType := ''text'', col_Index := True,
        col_Comment := ''LDAP object class (e.g., person, organizationalUnit)''\<rparr>,
      zero_column\<lparr>col_Name := ''attributes'', col_DataType := ''json'', col_Comment := ''LDAP attributes as JSON''\<rparr>,
      zero_column\<lparr>col_Name := ''created_at'', col_DataType := ''datetime'', col_Comment := ''Creation timestamp''\<rparr>,
      zero_column\<lparr>col_Name := ''updated_at'', col_DataType := ''datetime'', col_Nullable := True,
        col_Comment := ''Last update timestamp''\<rparr>]"

definition ldap_user_columns :: "ColumnData list" where
  "ldap_user_columns =
     [zero_column\<lparr>col_Name := ''id'', col_DataType := ''text'', col_PrimaryKey := True, col_Comment := ''User DN''\<rparr>,
      zero_column\<lparr>col_Name := ''password_hash'', col_DataType := ''text'',
        col_Comment := ''Hashed password for authentication''\<rparr>,
      zero_column\<lparr>col_Name := ''salt'', col_DataType := ''text'', col_Comment := ''Password salt''\<rparr>,
      zero_column\<lparr>col_Name := ''last_login'', col_DataType := ''datetime'', col_Nullable := True,
        col_Comment := ''Last login timestamp''\<rparr>,
      zero_column\<lparr>col_Name := ''created_at'', col_DataType := ''datetime'', col_Comment := ''Creation timestamp''\<rparr>]"

definition ldap_group_columns :: "ColumnData list" where
  "ldap_group_columns =
     [zero_column\<lparr>col_Name := ''id'', col_DataType := ''text'', col_PrimaryKey := True, col_Comment := ''Group ID''\<rparr>,
      zero_column\<lparr>col_Name := ''group_dn'', col_DataType := ''text'', col_Unique := True, col_Comment := ''Group DN''\<rparr>,
      zero_column\<lparr>col_Name := ''member_dn'', col_DataType := ''text'', col_Index := True, col_Comment := ''Member DN''\<rparr>,
      zero_column\<lparr>col_Name := ''created_at'', col_DataType := ''datetime'', col_Comment := ''Creation timestamp''\<rparr>]"

definition createLDAPSchema :: "Schema result" where
  "createLDAPSchema =
     rbind (SetDatabaseName schema_New ''ldapd'') (\<lambda>sch.
     rbind (AddFields (NewTableSchema ''entries'') ldap_entry_columns) (\<lambda>entryTable.
     rbind (AddFields (NewTableSchema ''users'') ldap_user_columns) (\<lambda>userTable.
     rbind (AddFields (NewTableSchema ''groups'') ldap_group_columns) (\<lambda>groupTable.
     rbind (AddTable sch (Some entryTable)) (\<lambda>sch.
     rbind (AddTable sch (Some userTable)) (\<lambda>sch.
     AddTable sch (Some groupTable)))))))"

section \<open>The directory (models.go)\<close>

record LDAPEntry =
  le_DN :: string
  le_ParentDN :: string
  le_ObjectClass :: string
  le_Attributes :: string
  le_CreatedAt :: string
  le_UpdatedAt :: string

record 'w LDAPServer =
  srv_port :: int
  srv_baseDN :: string
  srv_bindDN :: string
  srv_bindPW :: string
  srv_orm :: "'w ORM"
  srv_verbose :: bool

definition NewLDAPServer :: "int \<Rightarrow> string \<Rightarrow> string \<Rightarrow> string \<Rightarrow> 'w ORM \<Rightarrow> bool \<Rightarrow> 'w LDAPServer" where
  "NewLDAPServer port baseDN bindDN bindPW ormInstance verbose =
     \<lparr>srv_port = port, srv_baseDN = baseDN, srv_bindDN = bindDN, srv_bindPW = bindPW,
      srv_orm = ormInstance, srv_verbose = verbose\<rparr>"

definition parse_part :: "string \<Rightarrow> (string \<times> string) list \<Rightarrow> (string \<times> string) list" where
  "parse_part part attributes =
     (case SplitN2 part CHR ''='' of [k, v] \<Rightarrow> AList.update k v attributes | _ \<Rightarrow> attributes)"

definition parseAttributes :: "string \<Rightarrow> string gomap" where
  "parseAttributes attributesStr = GoMap (fold parse_part (Fields attributesStr) [])"

definition getParentDN :: "string \<Rightarrow> string" where
  "getParentDN dn = (case SplitN2 dn CHR '','' of [a, b] \<Rightarrow> b | _ \<Rightarrow> [])"

definition hashPassword :: "applib \<Rightarrow> string \<Rightarrow> string \<Rightarrow> string" where
  "hashPassword A password salt = EncodeToString (app_sha256 A (password @ salt))"

text \<open>A field that is read when it is there and not nil.\<close>

definition optional_text :: "Object \<Rightarrow> string \<Rightarrow> string result" where
  "optional_text entry n = (case mget (obj_Fields entry) n of
      None \<Rightarrow> Ok [] | Some VNil \<Rightarrow> Ok [] | v \<Rightarrow> as_text v)"

definition ldap_entry :: "Object \<Rightarrow> LDAPEntry result" where
  "ldap_entry entry =
     rbind (as_text (mget (obj_Fields entry) ''object_class'')) (\<lambda>oc.
     rbind (as_text (mget (obj_Fields entry) ''attributes'')) (\<lambda>attrs.
     rbind (as_text (mget (obj_Fields entry) ''created_at'')) (\<lambda>created.
     rbind (optional_text entry ''parent_dn'') (\<lambda>parent.
     rbind (optional_text entry ''updated_at'') (\<lambda>updated.
     Ok \<lparr>le_DN = obj_ID entry, le_ParentDN = parent, le_ObjectClass = oc, le_Attributes = attrs,
       le_CreatedAt = created, le_UpdatedAt = updated\<rparr>)))))"

definition searchEntries :: "'w LDAPServer \<Rightarrow> string \<Rightarrow> string \<Rightarrow> ('w host, LDAPEntry list) go" where
  "searchEntries s baseDN fltr =
     (if fltr = [] \<or> Contains fltr ''objectClass''
      then catch (on_store (orm_FindByID (srv_orm s) ''entries'' baseDN)) (\<lambda>e. ret [])
        (\<lambda>entry. case entry of
           None \<Rightarrow> ret []
         | Some entry \<Rightarrow> seq (pure (ldap_entry entry)) (\<lambda>e. ret [e]))
      else ret [])"

definition createUser :: "applib \<Rightarrow> 'w LDAPServer \<Rightarrow> string \<Rightarrow> string \<Rightarrow> ('w host, unit) go" where
  "createUser A s dn password =
     seq (wrapping ''failed to generate salt: '' (rand_Read 16)) (\<lambda>saltBytes.
     let salt = EncodeToString saltBytes;
         passwordHash = hashPassword A password salt
     in
     seq time_Now (\<lambda>now.
     let user = \<lparr>obj_TableName = ''users'', obj_ID = dn, obj_Fields = GoMap
           [(''password_hash'', VStr passwordHash), (''salt'', VStr salt),
            (''created_at'', VStr (app_rfc3339 A now))]\<rparr>
     in
     seq (wrapping ''failed to insert user: '' (on_store (orm_Insert (srv_orm s) user))) (\<lambda>(data, created).
     if \<not> created then fail (Err (''user with DN '' @ dn @ '' already exists''))
     else ret ())))"

definition entry_class :: "string gomap \<Rightarrow> string" where
  "entry_class attributes = (case mget attributes ''objectClass'' of Some oc \<Rightarrow> oc | None \<Rightarrow> ''person'')"

definition addEntry :: "applib \<Rightarrow> 'w LDAPServer \<Rightarrow> string \<Rightarrow> string \<Rightarrow> ('w host, unit) go" where
  "addEntry A s dn attributesStr =
     (let attributes = parseAttributes attributesStr;
          objectClass = entry_class attributes;
          parentDN = getParentDN dn
      in
      seq time_Now (\<lambda>now.
      let entry = \<lparr>obj_TableName = ''entries'', obj_ID = dn, obj_Fields = GoMap
            [(''parent_dn'', VStr parentDN), (''object_class'', VStr objectClass),
             (''attributes'', VStr attributesStr), (''created_at'', VStr (app_rfc3339 A now))]\<rparr>
      in
      seq (wrapping ''failed to insert entry: '' (on_store (orm_Insert (srv_orm s) entry))) (\<lambda>(data, created).
      if \<not> created then fail (Err (''entry with DN '' @ dn @ '' already exists''))
      else if objectClass = ''person'' \<or> objectClass = ''inetOrgPerson''
      then (case mget attributes ''userPassword'' of
          Some password \<Rightarrow> wrapping ''failed to create user record: '' (createUser A s dn password)
        | None \<Rightarrow> ret ())
      else ret ())))"

definition deleteEntry :: "'w LDAPServer \<Rightarrow> string \<Rightarrow> ('w host, unit) go" where
  "deleteEntry s dn =
     seq (wrapping ''failed to delete entry: '' (on_store (orm_DeleteByID (srv_orm s) ''entries'' dn))) (\<lambda>deleted.
     if \<not> deleted then fail (Err (''entry with DN '' @ dn @ '' not found''))
     else catch (on_store (orm_DeleteByID (srv_orm s) ''users'' dn)) (\<lambda>e. ret ()) (\<lambda>b. ret ()))"

definition modifyEntry :: "applib \<Rightarrow> 'w LDAPServer \<Rightarrow> string \<Rightarrow> string \<Rightarrow> ('w host, unit) go" where
  "modifyEntry A s dn attributesStr =
     seq (wrapping ''failed to find entry: '' (on_store (orm_FindByID (srv_orm s) ''entries'' dn))) (\<lambda>entry.
     case entry of
       None \<Rightarrow> fail (Err (''entry with DN '' @ dn @ '' not found''))
     | Some entry \<Rightarrow>
         seq (pure (SetField entry ''attributes'' (VStr attributesStr))) (\<lambda>entry.
         seq time_Now (\<lambda>now.
         seq (pure (SetField entry ''updated_at'' (VStr (app_rfc3339 A now)))) (\<lambda>entry.
         seq (wrapping ''failed to update entry: '' (on_store (storage_Update (srv_orm s) entry))) (\<lambda>updated.
         if \<not> updated then fail (Err (''failed to update entry '' @ dn))
         else ret ())))))"

definition authenticateUser :: "applib \<Rightarrow> 'w LDAPServer \<Rightarrow> string \<Rightarrow> string \<Rightarrow> ('w host, bool) go" where
  "authenticateUser A s dn password =
     seq (wrapping ''failed to find user: '' (on_store (orm_FindByID (srv_orm s) ''users'' dn))) (\<lambda>user.
     case user of
       None \<Rightarrow> ret False
     | Some user \<Rightarrow>
         seq (pure (as_text (mget (obj_Fields user) ''password_hash''))) (\<lambda>storedHash.
         seq (pure (as_text (mget (obj_Fields user) ''salt''))) (\<lambda>salt.
         if storedHash = hashPassword A password salt
         then
           seq time_Now (\<lambda>now.
           seq (pure (SetField user ''last_login'' (VStr (app_rfc3339 A now)))) (\<lambda>user.
           catch (on_store (storage_Update (srv_orm s) user)) (\<lambda>e. ret True) (\<lambda>b. ret True)))
         else ret False)))"

section \<open>The initial directory (models.go)\<close>

definition quoted :: "string \<Rightarrow> string" where
  "quoted s = CHR 0x22 # s @ [CHR 0x22]"

text \<open>The attribute texts that the initial entries are given; the index panics on a base DN without \<open>=\<close>.\<close>

definition base_attributes :: "string \<Rightarrow> string result" where
  "base_attributes baseDN =
     (let parts = Split baseDN CHR ''=''
      in if 1 < length parts
         then Ok (''{'' @ quoted ''o'' @ '': '' @ quoted ''Example Organization'' @ '', '' @ quoted ''dc'' @ '': '' @
                quoted (parts ! 1) @ ''}'')
         else index_error)"

definition admin_attributes :: string where
  "admin_attributes =
     ''{'' @ quoted ''cn'' @ '': '' @ quoted ''admin'' @ '', '' @ quoted ''userPassword'' @ '': '' @ quoted ''admin'' @ ''}''"

definition ou_attributes :: "string \<Rightarrow> string" where
  "ou_attributes ou = ''{'' @ quoted ''ou'' @ '': '' @ quoted ou @ ''}''"

definition insert_entry :: "'w ORM \<Rightarrow> string \<Rightarrow> string \<Rightarrow> (string \<times> goval) list \<Rightarrow> ('w host, unit) go" where
  "insert_entry ormInstance what dn fs =
     seq (wrapping (''failed to create '' @ what @ '': '')
            (on_store (orm_Insert ormInstance
               \<lparr>obj_TableName = ''entries'', obj_ID = dn, obj_Fields = GoMap fs\<rparr>))) (\<lambda>x. ret ())"

text \<open>What is inserted when the base DN is not there yet.\<close>

definition setup_entries :: "applib \<Rightarrow> 'w ORM \<Rightarrow> string \<Rightarrow> string \<Rightarrow> string \<Rightarrow> ('w host, unit) go" where
  "setup_entries A ormInstance baseDN bindDN bindPW =
     seq (pure (base_attributes baseDN)) (\<lambda>attrs.
     seq time_Now (\<lambda>now.
     seq (insert_entry ormInstance ''base DN'' baseDN
            [(''object_class'', VStr ''organization''), (''attributes'', VStr attrs),
             (''created_at'', VStr (app_rfc3339 A now))]) (\<lambda>_.
     seq (wrapping ''failed to create admin user: ''
            (createUser A (NewLDAPServer 0 [] [] [] ormInstance False) bindDN bindPW)) (\<lambda>_.
     seq time_Now (\<lambda>now.
     seq (insert_entry ormInstance ''admin entry'' bindDN
            [(''parent_dn'', VStr baseDN), (''object_class'', VStr ''person''),
             (''attributes'', VStr admin_attributes), (''created_at'', VStr (app_rfc3339 A now))]) (\<lambda>_.
     seq time_Now (\<lambda>now.
     seq (insert_entry ormInstance ''users OU'' (''ou=users,'' @ baseDN)
            [(''parent_dn'', VStr baseDN), (''object_class'', VStr ''organizationalUnit''),
             (''attributes'', VStr (ou_attributes ''users'')), (''created_at'', VStr (app_rfc3339 A now))]) (\<lambda>_.
     seq time_Now (\<lambda>now.
     insert_entry ormInstance ''groups OU'' (''ou=groups,'' @ baseDN)
            [(''parent_dn'', VStr baseDN), (''object_class'', VStr ''organizationalUnit''),
             (''attributes'', VStr (ou_attributes ''groups'')), (''created_at'', VStr (app_rfc3339 A now))])))))))))"

text \<open>An error of the first lookup is taken for a base DN that is not there.\<close>

definition setupInitialData :: "applib \<Rightarrow> 'w ORM \<Rightarrow> string \<Rightarrow> string \<Rightarrow> string \<Rightarrow> ('w host, unit) go" where
  "setupInitialData A ormInstance baseDN bindDN bindPW =
     catch (on_store (orm_FindByID ormInstance ''entries'' baseDN))
       (\<lambda>e. setup_entries A ormInstance baseDN bindDN bindPW)
       (\<lambda>entry. case entry of Some e \<Rightarrow> ret ()
          | None \<Rightarrow> setup_entries A ormInstance baseDN bindDN bindPW)"

section \<open>The protocol (server.go)\<close>

text \<open>The answer of a handler: the text for a value, and the text for an error.\<close>

definition answers :: "('w host, 'a) go \<Rightarrow> string \<Rightarrow> ('a \<Rightarrow> string) \<Rightarrow> ('w host, string) go" where
  "answers m what f = catch m (\<lambda>e. ret (''ERROR: '' @ what @ '' failed: '' @ error_text e @ eol)) (\<lambda>x. ret (f x))"

definition handleBind :: "applib \<Rightarrow> 'w LDAPServer \<Rightarrow> string \<Rightarrow> string \<Rightarrow> ('w host, string) go" where
  "handleBind A s dn password =
     (if dn = srv_bindDN s \<and> password = srv_bindPW s then ret (''OK: Admin bind successful'' @ eol)
      else answers (authenticateUser A s dn password) ''Authentication''
        (\<lambda>authenticated. if authenticated then ''OK: Bind successful'' @ eol else ''ERROR: Invalid credentials'' @ eol))"

definition entry_lines :: "LDAPEntry \<Rightarrow> string" where
  "entry_lines e = ''DN: '' @ le_DN e @ eol @ ''ObjectClass: '' @ le_ObjectClass e @ eol @
     ''Attributes: '' @ le_Attributes e @ eol @ ''---'' @ eol"

definition handleSearch :: "'w LDAPServer \<Rightarrow> string \<Rightarrow> string \<Rightarrow> ('w host, string) go" where
  "handleSearch s baseDN fltr = answers (searchEntries s baseDN fltr) ''Search''
     (\<lambda>es. if es = [] then ''OK: No entries found'' @ eol
           else ''OK: Search results:'' @ eol @ concat (map entry_lines es))"

definition handleAdd :: "applib \<Rightarrow> 'w LDAPServer \<Rightarrow> string \<Rightarrow> string \<Rightarrow> ('w host, string) go" where
  "handleAdd A s dn attributes = answers (addEntry A s dn attributes) ''Add'' (\<lambda>_. ''OK: Entry added'' @ eol)"

definition handleDelete :: "'w LDAPServer \<Rightarrow> string \<Rightarrow> ('w host, string) go" where
  "handleDelete s dn = answers (deleteEntry s dn) ''Delete'' (\<lambda>_. ''OK: Entry deleted'' @ eol)"

definition handleModify :: "applib \<Rightarrow> 'w LDAPServer \<Rightarrow> string \<Rightarrow> string \<Rightarrow> ('w host, string) go" where
  "handleModify A s dn attributes = answers (modifyEntry A s dn attributes) ''Modify'' (\<lambda>_. ''OK: Entry modified'' @ eol)"

definition getHelp :: string where
  "getHelp =
     ''LDAP Server Commands:'' @ eol @
     ''BIND <dn> <password>     - Authenticate with DN and password'' @ eol @
     ''SEARCH <base> [filter]   - Search for entries'' @ eol @
     ''ADD <dn> <attributes>    - Add new entry'' @ eol @
     ''DELETE <dn>              - Delete entry'' @ eol @
     ''MODIFY <dn> <attributes> - Modify entry'' @ eol @
     ''HELP                     - Show this help'' @ eol @ eol @
     ''Example:'' @ eol @
     ''BIND cn=admin,dc=example,dc=com admin'' @ eol @
     ''SEARCH dc=example,dc=com'' @ eol @
     ''ADD cn=john,ou=users,dc=example,dc=com objectClass=person givenName=John sn=Doe'' @ eol"

definition processMessage :: "applib \<Rightarrow> 'w LDAPServer \<Rightarrow> string \<Rightarrow> ('w host, string) go" where
  "processMessage A s message =
     (let parts = Fields (TrimSpace message);
          command = ToUpper (parts ! 0);
          rest = Join (drop 2 parts) '' ''
      in if parts = [] then ret (''ERROR: Empty message'' @ eol)
      else if command = ''BIND'' then
        (if length parts < 3 then ret (''ERROR: BIND requires DN and password'' @ eol)
         else handleBind A s (parts ! 1) rest)
      else if command = ''SEARCH'' then
        (if length parts < 2 then ret (''ERROR: SEARCH requires base DN'' @ eol)
         else handleSearch s (parts ! 1) (if 2 < length parts then rest else []))
      else if command = ''ADD'' then
        (if length parts < 2 then ret (''ERROR: ADD requires DN'' @ eol)
         else handleAdd A s (parts ! 1) rest)
      else if command = ''DELETE'' then
        (if length parts < 2 then ret (''ERROR: DELETE requires DN'' @ eol)
         else handleDelete s (parts ! 1))
      else if command = ''MODIFY'' then
        (if length parts < 2 then ret (''ERROR: MODIFY requires DN'' @ eol)
         else handleModify A s (parts ! 1) rest)
      else if command = ''HELP'' then ret getHelp
      else ret (''ERROR: Unknown command: '' @ command @ eol))"

text \<open>The messages of one connection, answered one after the other.\<close>

fun session :: "applib \<Rightarrow> 'w LDAPServer \<Rightarrow> string list \<Rightarrow> ('w host, string list) go" where
  "session A s [] = ret []"
| "session A s (m # ms) = seq (processMessage A s m) (\<lambda>a. seq (session A s ms) (\<lambda>as. ret (a # as)))"

end
