(* ===== verification/LdapWeb.thy ===== *)
theory LdapWeb
  imports Ldap Backends
begin

text \<open>
  The web interface of the LDAP example (src/examples/ldapd/web.go). A page is named with the data its
  template is given; the HTML text and the style sheet are left out. A handler that writes nothing
  answers with an empty response.
\<close>

record web_request =
  wq_Method :: string
  wq_Path :: string
  wq_FormValue :: "string \<Rightarrow> string"

record 'w WebServer =
  ws_ldapServer :: "'w LDAPServer"
  ws_port :: int

definition NewWebServer :: "'w LDAPServer \<Rightarrow> int \<Rightarrow> 'w WebServer" where
  "NewWebServer ldapServer port = \<lparr>ws_ldapServer = ldapServer, ws_port = port\<rparr>"

datatype web_page =
    HomePage string string int int
  | UsersPage "LDAPEntry list"
  | AddUserPage
  | EntriesPage "LDAPEntry list"
  | AddEntryPage string
  | SearchPage string
  | SearchResults string string "LDAPEntry list" string
  | AuthPage string
  | AuthResult string string bool

datatype web_answer =
    WPage web_page
  | WError string int
  | WRedirect string
  | WStyle
  | WNotFound
  | WNothing

section \<open>Pages\<close>

definition web_handleHome :: "'w WebServer \<Rightarrow> ('w host, web_answer) go" where
  "web_handleHome ws = ret (WPage (HomePage (srv_baseDN (ws_ldapServer ws)) (srv_bindDN (ws_ldapServer ws))
     (srv_port (ws_ldapServer ws)) (ws_port ws)))"

text \<open>The entry of a name as a list, read by \<open>f\<close>; an error of the lookup is taken for a missing entry.\<close>

definition entries_named :: "(Object \<Rightarrow> LDAPEntry result) \<Rightarrow> 'w LDAPServer \<Rightarrow> string \<Rightarrow> ('w host, LDAPEntry list) go" where
  "entries_named f s dn = catch (on_store (orm_FindByID (srv_orm s) ''entries'' dn)) (\<lambda>e. ret [])
     (\<lambda>entry. case entry of
        None \<Rightarrow> ret []
      | Some entry \<Rightarrow> seq (pure (f entry)) (\<lambda>e. ret [e]))"

definition users_entry :: "Object \<Rightarrow> LDAPEntry result" where
  "users_entry entry =
     rbind (as_text (mget (obj_Fields entry) ''object_class'')) (\<lambda>oc.
     rbind (as_text (mget (obj_Fields entry) ''attributes'')) (\<lambda>attrs.
     rbind (as_text (mget (obj_Fields entry) ''created_at'')) (\<lambda>created.
     Ok \<lparr>le_DN = obj_ID entry, le_ParentDN = [], le_ObjectClass = oc, le_Attributes = attrs,
       le_CreatedAt = created, le_UpdatedAt = []\<rparr>)))"

definition showUsers :: "'w WebServer \<Rightarrow> ('w host, web_answer) go" where
  "showUsers ws =
     (let usersOU = ''ou=users,'' @ srv_baseDN (ws_ldapServer ws)
      in seq (entries_named users_entry (ws_ldapServer ws) usersOU) (\<lambda>users. ret (WPage (UsersPage users))))"

definition web_handleUsers :: "'w WebServer \<Rightarrow> web_request \<Rightarrow> ('w host, web_answer) go" where
  "web_handleUsers ws r = (if wq_Method r = ''GET'' then showUsers ws else ret WNothing)"

definition commonDNs :: "'w LDAPServer \<Rightarrow> string list" where
  "commonDNs s = [srv_baseDN s, ''ou=users,'' @ srv_baseDN s, ''ou=groups,'' @ srv_baseDN s, srv_bindDN s]"

fun entries_loop :: "'w LDAPServer \<Rightarrow> string list \<Rightarrow> LDAPEntry list \<Rightarrow> ('w host, LDAPEntry list) go" where
  "entries_loop s [] acc = ret acc"
| "entries_loop s (dn # dns) acc =
     seq (entries_named ldap_entry s dn) (\<lambda>es. entries_loop s dns (acc @ es))"

definition handleEntries :: "'w WebServer \<Rightarrow> ('w host, web_answer) go" where
  "handleEntries ws = seq (entries_loop (ws_ldapServer ws) (commonDNs (ws_ldapServer ws)) [])
     (\<lambda>es. ret (WPage (EntriesPage es)))"

section \<open>Users\<close>

definition web_attributes :: "web_request \<Rightarrow> string" where
  "web_attributes r =
     ''objectClass='' @ wq_FormValue r ''objectClass'' @ '' givenName='' @ wq_FormValue r ''givenName'' @
     '' sn='' @ wq_FormValue r ''sn'' @
     (if wq_FormValue r ''mail'' \<noteq> [] then '' mail='' @ wq_FormValue r ''mail'' else []) @
     '' userPassword='' @ wq_FormValue r ''userPassword''"

definition web_user_dn :: "'w WebServer \<Rightarrow> web_request \<Rightarrow> string" where
  "web_user_dn ws r = ''cn='' @ wq_FormValue r ''cn'' @ '',ou=users,'' @ srv_baseDN (ws_ldapServer ws)"

definition processAddUser :: "applib \<Rightarrow> 'w WebServer \<Rightarrow> web_request \<Rightarrow> ('w host, web_answer) go" where
  "processAddUser A ws r =
     (if wq_FormValue r ''cn'' = [] \<or> wq_FormValue r ''givenName'' = [] \<or> wq_FormValue r ''sn'' = [] \<or>
         wq_FormValue r ''userPassword'' = []
      then ret (WError ''Required fields missing'' 400)
      else catch (addEntry A (ws_ldapServer ws) (web_user_dn ws r) (web_attributes r))
        (\<lambda>e. ret (WError (''Failed to create user: '' @ error_text e) 500))
        (\<lambda>_. ret (WRedirect ''/users'')))"

definition handleAddUser :: "applib \<Rightarrow> 'w WebServer \<Rightarrow> web_request \<Rightarrow> ('w host, web_answer) go" where
  "handleAddUser A ws r =
     (if wq_Method r = ''GET'' then ret (WPage AddUserPage)
      else if wq_Method r = ''POST'' then processAddUser A ws r
      else ret WNothing)"

text \<open>\<open>handleDeleteUser\<close> and \<open>handleDeleteEntry\<close>, which differ in a word and the page that follows.\<close>

definition delete_form :: "string \<Rightarrow> string \<Rightarrow> 'w WebServer \<Rightarrow> web_request \<Rightarrow> ('w host, web_answer) go" where
  "delete_form what page ws r =
     (if wq_Method r \<noteq> ''POST'' then ret (WError ''Method not allowed'' 405)
      else if wq_FormValue r ''dn'' = [] then ret (WError ''DN required'' 400)
      else catch (deleteEntry (ws_ldapServer ws) (wq_FormValue r ''dn''))
        (\<lambda>e. ret (WError (''Failed to delete '' @ what @ '': '' @ error_text e) 500))
        (\<lambda>_. ret (WRedirect page)))"

definition handleDeleteUser :: "'w WebServer \<Rightarrow> web_request \<Rightarrow> ('w host, web_answer) go" where
  "handleDeleteUser = delete_form ''user'' ''/users''"

section \<open>Entries\<close>

definition processAddEntry :: "applib \<Rightarrow> 'w WebServer \<Rightarrow> web_request \<Rightarrow> ('w host, web_answer) go" where
  "processAddEntry A ws r =
     (let dn = wq_FormValue r ''dn''; objectClass = wq_FormValue r ''objectClass''
      in if dn = [] \<or> objectClass = [] then ret (WError ''DN and object class are required'' 400)
         else catch (addEntry A (ws_ldapServer ws) dn
                (''objectClass='' @ objectClass @ '' '' @ wq_FormValue r ''attributes''))
           (\<lambda>e. ret (WError (''Failed to create entry: '' @ error_text e) 500))
           (\<lambda>_. ret (WRedirect ''/entries'')))"

definition handleAddEntry :: "applib \<Rightarrow> 'w WebServer \<Rightarrow> web_request \<Rightarrow> ('w host, web_answer) go" where
  "handleAddEntry A ws r =
     (if wq_Method r = ''GET'' then ret (WPage (AddEntryPage (srv_baseDN (ws_ldapServer ws))))
      else if wq_Method r = ''POST'' then processAddEntry A ws r
      else ret WNothing)"

definition handleDeleteEntry :: "'w WebServer \<Rightarrow> web_request \<Rightarrow> ('w host, web_answer) go" where
  "handleDeleteEntry = delete_form ''entry'' ''/entries''"

section \<open>Search and authentication\<close>

definition processSearch :: "'w WebServer \<Rightarrow> web_request \<Rightarrow> ('w host, web_answer) go" where
  "processSearch ws r =
     (let baseDN = wq_FormValue r ''baseDN''; fltr = wq_FormValue r ''filter''
      in catch (searchEntries (ws_ldapServer ws) baseDN fltr)
        (\<lambda>e. ret (WPage (SearchResults baseDN fltr [] (error_text e))))
        (\<lambda>results. ret (WPage (SearchResults baseDN fltr results []))))"

definition web_handleSearch :: "'w WebServer \<Rightarrow> web_request \<Rightarrow> ('w host, web_answer) go" where
  "web_handleSearch ws r =
     (if wq_Method r = ''GET'' then ret (WPage (SearchPage (srv_baseDN (ws_ldapServer ws))))
      else if wq_Method r = ''POST'' then processSearch ws r
      else ret WNothing)"

definition processAuth :: "applib \<Rightarrow> 'w WebServer \<Rightarrow> web_request \<Rightarrow> ('w host, web_answer) go" where
  "processAuth A ws r =
     (let dn = wq_FormValue r ''dn''
      in seq (handleBind A (ws_ldapServer ws) dn (wq_FormValue r ''password'')) (\<lambda>result.
         ret (WPage (AuthResult dn (TrimSpace result) (Contains result ''OK:'')))))"

definition handleAuth :: "applib \<Rightarrow> 'w WebServer \<Rightarrow> web_request \<Rightarrow> ('w host, web_answer) go" where
  "handleAuth A ws r =
     (if wq_Method r = ''GET'' then ret (WPage (AuthPage (srv_bindDN (ws_ldapServer ws))))
      else if wq_Method r = ''POST'' then processAuth A ws r
      else ret WNothing)"

definition web_handleStatic :: "web_request \<Rightarrow> ('w host, web_answer) go" where
  "web_handleStatic r = (if wq_Path r = ''/static/style.css'' then ret WStyle else ret WNotFound)"

text \<open>
  The routes of \<open>Start\<close>: exact paths, the paths below \<open>/static/\<close> (whose root the mux redirects to), and
  everything else. Paths are clean ones: the mux redirects any other to its clean form.
\<close>

definition web_serve :: "applib \<Rightarrow> 'w WebServer \<Rightarrow> web_request \<Rightarrow> ('w host, web_answer) go" where
  "web_serve A ws r =
     (if wq_Path r = ''/static'' then ret (WRedirect ''/static/'')
      else if wq_Path r = ''/users'' then web_handleUsers ws r
      else if wq_Path r = ''/users/add'' then handleAddUser A ws r
      else if wq_Path r = ''/users/delete'' then handleDeleteUser ws r
      else if wq_Path r = ''/entries'' then handleEntries ws
      else if wq_Path r = ''/entries/add'' then handleAddEntry A ws r
      else if wq_Path r = ''/entries/delete'' then handleDeleteEntry ws r
      else if wq_Path r = ''/search'' then web_handleSearch ws r
      else if wq_Path r = ''/auth'' then handleAuth A ws r
      else if HasPrefix (wq_Path r) ''/static/'' then web_handleStatic r
      else web_handleHome ws)"

section \<open>The program (main.go)\<close>

record ldap_flags =
  fl_port :: int
  fl_webPort :: int
  fl_dbPath :: string
  fl_bindDN :: string
  fl_bindPW :: string
  fl_baseDN :: string
  fl_verbose :: bool

text \<open>The servers that \<open>main\<close> makes, and what it does before it serves: the error that it logs and exits with.\<close>

definition ldap_servers :: "('d, 'e) env_scheme \<Rightarrow> ldap_flags \<Rightarrow> Schema \<Rightarrow> (('d, 'z) adst_scheme) WebServer" where
  "ldap_servers E fl sch =
     NewWebServer
       (NewLDAPServer (fl_port fl) (fl_baseDN fl) (fl_bindDN fl) (fl_bindPW fl)
          (orm_WithStorage (orm_New (Some sch)) (Some (sqlite_storage E))) (fl_verbose fl))
       (fl_webPort fl)"

definition ldap_main :: "('d, 'e) env_scheme \<Rightarrow> applib \<Rightarrow> ldap_flags \<Rightarrow> (('d, 'z) adst_scheme host, ('d, 'z) adst_scheme WebServer) go" where
  "ldap_main E A fl =
     seq (pure createLDAPSchema) (\<lambda>sch.
     let storage = sqlite_storage E; servers = ldap_servers E fl sch
     in
     seq (wrapping ''Failed to connect to database: '' (on_store (st_Connect storage (fl_dbPath fl)))) (\<lambda>_.
     seq (wrapping ''Failed to create tables: '' (on_store (st_CreateTables storage (Some sch)))) (\<lambda>_.
     seq (wrapping ''Failed to setup initial data: ''
            (setupInitialData A (srv_orm (ws_ldapServer servers)) (fl_baseDN fl) (fl_bindDN fl) (fl_bindPW fl))) (\<lambda>_.
     ret servers))))"

text \<open>
  What the two servers answer, one event after the other: a message of the text protocol or a request
  of the web interface. Both work on the same LDAP server.
\<close>

datatype ldap_event = Message string | Request web_request

datatype ldap_answer = Reply string | Response web_answer

fun ldap_serve :: "applib \<Rightarrow> 'w WebServer \<Rightarrow> ldap_event list \<Rightarrow> ('w host, ldap_answer list) go" where
  "ldap_serve A ws [] = ret []"
| "ldap_serve A ws (Message m # evs) =
     seq (processMessage A (ws_ldapServer ws) m) (\<lambda>a. seq (ldap_serve A ws evs) (\<lambda>as. ret (Reply a # as)))"
| "ldap_serve A ws (Request r # evs) =
     seq (web_serve A ws r) (\<lambda>a. seq (ldap_serve A ws evs) (\<lambda>as. ret (Response a # as)))"

end
