(* ===== verification/Times.thy ===== *)
theory Times
  imports TableStore
begin

text \<open>
  Times as the example applications store them, to the second, and time functions to try the
  applications with: seconds are written as the texts of RFC 3339 in a calendar of years of twelve months of
  28 days, and read back. The applications' theorems only ask that a time is written as such a text
  and read back to the second, for the times of some thousand years.
\<close>

definition in_years :: "int \<Rightarrow> bool" where
  "in_years t \<longleftrightarrow> 0 \<le> t \<and> t < 200000000000 * 1000000000"

definition to_second :: "int \<Rightarrow> int" where
  "to_second t = t - t mod 1000000000"

lemma to_second_idem [simp]: "to_second (to_second t) = to_second t"
  by (simp add: to_second_def)

lemma in_years_second: "in_years t \<Longrightarrow> in_years (to_second t)"
  by (auto simp: in_years_def to_second_def minus_mod_eq_mult_div)

definition dig2 :: "nat \<Rightarrow> string" where
  "dig2 n = [digit_char (n div 10), digit_char (n mod 10)]"

definition dig4 :: "nat \<Rightarrow> string" where
  "dig4 n = dig2 (n div 100) @ dig2 (n mod 100)"

definition date_text :: "nat \<Rightarrow> nat \<Rightarrow> nat \<Rightarrow> nat \<Rightarrow> nat \<Rightarrow> nat \<Rightarrow> string" where
  "date_text y mo d h mi s = dig4 y @ ''-'' @ dig2 mo @ ''-'' @ dig2 d @ ''T'' @ dig2 h @ '':'' @ dig2 mi @ '':'' @ dig2 s @ ''Z''"

definition second_text :: "nat \<Rightarrow> string" where
  "second_text n = date_text (n div 86400 div 28 div 12) (n div 86400 div 28 mod 12 + 1) (n div 86400 mod 28 + 1)
     (n mod 86400 div 3600) (n mod 3600 div 60) (n mod 60)"

definition text_second :: "string \<Rightarrow> nat" where
  "text_second x = ((((number_at x 0 4 * 12 + (number_at x 5 2 - 1)) * 28 + (number_at x 8 2 - 1)) * 24 +
     number_at x 11 2) * 60 + number_at x 14 2) * 60 + number_at x 17 2"

definition sample_format :: "int \<Rightarrow> string" where
  "sample_format t = second_text (nat (t div 1000000000))"

definition sample_parse :: "string \<Rightarrow> int result" where
  "sample_parse x = Ok (int (text_second x) * 1000000000)"

lemma dig2_value: "n < 100 \<Longrightarrow> of_digits (dig2 n) = n" "n < 100 \<Longrightarrow> list_all is_digit (dig2 n)"
  by (simp_all add: dig2_def of_digits_def less_mult_imp_div_less)

lemma dig4_value: "n < 10000 \<Longrightarrow> of_digits (dig4 n) = n" "n < 10000 \<Longrightarrow> list_all is_digit (dig4 n)"
  by (simp_all add: dig4_def dig2_def of_digits_def less_mult_imp_div_less)

lemma date_text_parts:
  "number_at (date_text y mo d h mi s) 0 4 = of_digits (dig4 y)" "number_at (date_text y mo d h mi s) 5 2 = of_digits (dig2 mo)"
  "number_at (date_text y mo d h mi s) 8 2 = of_digits (dig2 d)" "number_at (date_text y mo d h mi s) 11 2 = of_digits (dig2 h)"
  "number_at (date_text y mo d h mi s) 14 2 = of_digits (dig2 mi)" "number_at (date_text y mo d h mi s) 17 2 = of_digits (dig2 s)"
  "digits_at (date_text y mo d h mi s) 0 4 = list_all is_digit (dig4 y)" "digits_at (date_text y mo d h mi s) 5 2 = list_all is_digit (dig2 mo)"
  "digits_at (date_text y mo d h mi s) 8 2 = list_all is_digit (dig2 d)" "digits_at (date_text y mo d h mi s) 11 2 = list_all is_digit (dig2 h)"
  "digits_at (date_text y mo d h mi s) 14 2 = list_all is_digit (dig2 mi)" "digits_at (date_text y mo d h mi s) 17 2 = list_all is_digit (dig2 s)"
  by (simp_all add: number_at_def digits_at_def date_text_def dig4_def dig2_def)

lemma date_text_seps:
  "length (date_text y mo d h mi s) = 20" "drop 19 (date_text y mo d h mi s) = ''Z''"
  "date_text y mo d h mi s ! 4 = CHR ''-''" "date_text y mo d h mi s ! 7 = CHR ''-''" "date_text y mo d h mi s ! 10 = CHR ''T''"
  "date_text y mo d h mi s ! 13 = CHR '':''" "date_text y mo d h mi s ! 16 = CHR '':''"
  by (simp_all add: date_text_def dig4_def dig2_def)

lemma date_text_time:
  assumes "y < 10000" and "1 \<le> mo" "mo \<le> 12" and "1 \<le> d" "d \<le> 28" and "h < 24" "mi < 60" "s < 60"
  shows "time_text (date_text y mo d h mi s)"
proof -
  have "d \<le> month_days y mo" using assms(5) by (simp add: month_days_def)
  with assms show ?thesis
    by (simp add: time_text_def date_text_seps date_text_parts dig2_value dig4_value zone_text_def)
qed

lemma mixed_radix: "(n div 3600 mod 24 * 60 + n mod 3600 div 60) * 60 + n mod 60 = (n :: nat) mod 86400"
proof -
  have "n mod 86400 = 3600 * (n div 3600 mod 24) + n mod 3600" using mod_mult2_eq [of n 3600 24] by simp
  moreover have "n mod 3600 = 60 * (n mod 3600 div 60) + n mod 3600 mod 60" by simp
  moreover have "n mod 3600 mod 60 = n mod 60" by (rule mod_mod_cancel) simp
  ultimately show ?thesis by simp
qed

lemma day_and_time:
  "(b * 60 + c) * 60 + d = m \<Longrightarrow> a * 86400 + m = n \<Longrightarrow> ((a * 24 + b) * 60 + c) * 60 + d = (n :: nat)"
  by simp

lemma second_text_back:
  assumes "n < 200000000000"
  shows "time_text (second_text n)" and "text_second (second_text n) = n"
proof -
  let ?dd = "n div 86400"
  have y: "?dd div 28 div 12 < 10000" using assms by linarith
  have h: "n mod 86400 div 3600 < 24" and mi: "n mod 3600 div 60 < 60" by (simp_all add: less_mult_imp_div_less)
  have md: "?dd div 28 mod 12 < 12" "?dd mod 28 < 28" "n mod 60 < 60" by simp_all
  show "time_text (second_text n)"
    unfolding second_text_def
  proof (rule date_text_time)
    show "?dd div 28 mod 12 + 1 \<le> 12" "?dd mod 28 + 1 \<le> 28" using md by linarith+
  qed (use y h mi in simp_all)
  have vals: "of_digits (dig2 (?dd div 28 mod 12 + 1)) = ?dd div 28 mod 12 + 1" "of_digits (dig2 (?dd mod 28 + 1)) = ?dd mod 28 + 1"
    "of_digits (dig2 (n mod 60)) = n mod 60"
    by (rule dig2_value(1), use md in linarith)+
  have "text_second (second_text n) =
      ((((?dd div 28 div 12 * 12 + ?dd div 28 mod 12) * 28 + ?dd mod 28) * 24 + n mod 86400 div 3600) * 60 + n mod 3600 div 60) * 60 + n mod 60"
    unfolding text_second_def second_text_def date_text_parts using y h mi vals by (simp add: dig2_value dig4_value)
  also have "n mod 86400 div 3600 = n div 3600 mod 24"
    using mod_mult2_eq [of n 3600 24] by simp
  also have "(?dd div 28 div 12 * 12 + ?dd div 28 mod 12) * 28 + ?dd mod 28 = ?dd" by simp
  also have "((?dd * 24 + n div 3600 mod 24) * 60 + n mod 3600 div 60) * 60 + n mod 60 = n"
    by (rule day_and_time [OF mixed_radix div_mult_mod_eq])
  finally show "text_second (second_text n) = n" .
qed

lemma sample_time:
  assumes "in_years t"
  shows "time_text (sample_format t)" and "sample_parse (sample_format t) = Ok (to_second t)"
proof -
  have n: "nat (t div 1000000000) < 200000000000" using assms by (simp add: in_years_def) linarith
  show "time_text (sample_format t)" unfolding sample_format_def using second_text_back(1) [OF n] .
  have "0 \<le> t div 1000000000" using assms by (simp add: in_years_def pos_imp_zdiv_nonneg_iff)
  then show "sample_parse (sample_format t) = Ok (to_second t)"
    by (simp add: sample_parse_def sample_format_def second_text_back(2) [OF n] to_second_def minus_mod_eq_mult_div)
qed

end
