(* ===== verification/HostStore.thy ===== *)
theory HostStore
  imports Host TableStore Times
begin

text \<open>
  An application's calls of a storage of tables, through its ORM and in its process: what each call
  returns, and that it changes the rows and nothing else of the process.
\<close>

section \<open>The process after a call\<close>

definition moves :: "('w \<Rightarrow> bool) \<Rightarrow> ('w \<Rightarrow> database) \<Rightarrow> 'w host \<Rightarrow> 'w host \<Rightarrow> database \<Rightarrow> bool" where
  "moves open_on db h h' D \<longleftrightarrow> open_on (hw_store h') \<and> db (hw_store h') = D \<and>
     hw_clock h' = hw_clock h \<and> hw_random h' = hw_random h \<and> hw_ticks h' = hw_ticks h \<and> hw_draws h' = hw_draws h"

lemma moves_store [simp]:
  "moves open_on db h (h\<lparr>hw_store := w\<rparr>) D \<longleftrightarrow> open_on w \<and> db w = D"
  by (auto simp: moves_def)

lemma seq_Ok: "m h = (Ok x, h') \<Longrightarrow> seq m f h = f x h'"
  by (simp add: seq_def)

lemma seq_Error: "m h = (Error e, h') \<Longrightarrow> seq m f h = (Error e, h')"
  by (simp add: seq_def)

lemma catch_Ok: "m h = (Ok x, h') \<Longrightarrow> catch m e f h = f x h'"
  by (simp add: catch_def)

lemma catch_Error: "m h = (Error err, h') \<Longrightarrow> catch m e f h = e err h'"
  by (simp add: catch_def)

lemma wrapping_Ok: "m h = (Ok x, h') \<Longrightarrow> wrapping s m h = (Ok x, h')"
  by (simp add: wrapping_def)

lemma seq_now: "seq time_Now f h = f (hw_clock h (hw_ticks h)) (h\<lparr>hw_ticks := Suc (hw_ticks h)\<rparr>)"
  by (simp add: seq_def time_Now_def)

lemma seq_pure_run: "r = Ok x \<Longrightarrow> seq (pure r) f h = f x h"
  by simp

section \<open>The fields of a row's object\<close>

definition text_of :: "goval \<Rightarrow> string" where
  "text_of v = (case v of VStr s \<Rightarrow> s | _ \<Rightarrow> [])"

lemma text_of_simps [simp]: "text_of (VStr s) = s" "text_of VNil = []"
  by (simp_all add: text_of_def)

lemma row_object_field:
  "row_object tbl i r o1 \<Longrightarrow> n \<in> set (tab_FieldOrder tbl) \<Longrightarrow> mget (obj_Fields o1) n = Some (r n)"
  by (simp add: row_object_def object_view_def row_view_def fields_of_def fun_eq_iff)

lemma row_object_id: "row_object tbl i r o1 \<Longrightarrow> obj_ID o1 = i"
  by (simp add: row_object_def object_view_def row_view_def)

section \<open>Times, lookups and outcomes\<close>

text \<open>
  What is asked of the time functions: times of those years are written as RFC 3339 says and read back
  to the second.
\<close>

definition time_laws :: "applib \<Rightarrow> bool" where
  "time_laws A \<longleftrightarrow> (\<forall>t. in_years t \<longrightarrow>
     time_text (app_rfc3339 A t) \<and> app_parse_rfc3339 A (app_rfc3339 A t) = Ok (to_second t))"

definition read_time :: "applib \<Rightarrow> goval \<Rightarrow> int" where
  "read_time A v = (case app_parse_rfc3339 A (text_of v) of Ok t \<Rightarrow> t | _ \<Rightarrow> 0)"

lemma written_time:
  "time_laws A \<Longrightarrow> in_years t \<Longrightarrow> time_text (app_rfc3339 A t)"
  "time_laws A \<Longrightarrow> in_years t \<Longrightarrow> read_time A (VStr (app_rfc3339 A t)) = to_second t"
  by (simp_all add: time_laws_def read_time_def)

text \<open>A lookup by identifier, for which the empty one names nothing, and one by another key.\<close>

definition look :: "(string \<Rightarrow> 'a option) \<Rightarrow> string \<Rightarrow> 'a option" where
  "look m i = (if i = [] then None else m i)"

definition keyed :: "(string \<Rightarrow> 'a option) \<Rightarrow> ('a \<Rightarrow> string) \<Rightarrow> string \<Rightarrow> 'a option \<Rightarrow> bool" where
  "keyed m key x res \<longleftrightarrow> (case res of
      None \<Rightarrow> x = [] \<or> (\<forall>i v. m i = Some v \<longrightarrow> key v \<noteq> x)
    | Some v \<Rightarrow> x \<noteq> [] \<and> (\<exists>i. m i = Some v) \<and> key v = x)"

text \<open>Calls that neither panic nor block, and those that give a value or any error.\<close>

definition returns :: "'a result \<Rightarrow> bool" where
  "returns r \<longleftrightarrow> (case r of Ok x \<Rightarrow> True | Error e \<Rightarrow> True | _ \<Rightarrow> False)"

definition outcome :: "'a option \<Rightarrow> 'a result \<Rightarrow> bool" where
  "outcome x a \<longleftrightarrow> (case x of None \<Rightarrow> \<exists>e. a = Error e | Some y \<Rightarrow> a = Ok y)"

lemma outcome_simps [simp]: "outcome None (Error e)" "outcome (Some y) a \<longleftrightarrow> a = Ok y"
  by (simp_all add: outcome_def)

lemma returns_cases: "returns r \<Longrightarrow> (\<exists>x. r = Ok x) \<or> (\<exists>e. r = Error e)"
  by (cases r) (simp_all add: returns_def)

text \<open>Fields of a row's object that are texts.\<close>

lemma field_texts:
  assumes "mget (obj_Fields obj) n = Some (VStr x)"
  shows "text_field obj n = Ok x" and "time_field A obj n = Ok (read_time A (VStr x))"
  using assms by (simp_all add: text_field_def time_field_def GetString_def read_time_def)

lemma row_fields:
  assumes "row_object tbl i r obj" and "n \<in> set (tab_FieldOrder tbl)" and "r n = VStr x"
  shows "text_field obj n = Ok x" and "time_field A obj n = Ok (read_time A (VStr x))"
  using field_texts row_object_field [OF assms(1,2)] assms(3) by simp_all

text \<open>A JSON encoder that writes every object of texts and booleans.\<close>

definition plain_objects :: "'e golib_scheme \<Rightarrow> bool" where
  "plain_objects L \<longleftrightarrow> (\<forall>obj. (\<forall>(n, v)\<in>set (entries (obj_Fields obj)). has_type v TStr \<or> has_type v TBool) \<longrightarrow>
     is_ok (lib_json_object L obj))"

section \<open>The process of an application\<close>

text \<open>A process with the same clock and the same random bytes, and a store that is open.\<close>

definition host_kept :: "('w \<Rightarrow> bool) \<Rightarrow> 'w host \<Rightarrow> 'w host \<Rightarrow> bool" where
  "host_kept open_on h h' \<longleftrightarrow> open_on (hw_store h') \<and> hw_clock h' = hw_clock h \<and> hw_random h' = hw_random h"

section \<open>The calls\<close>

context record_store
begin

lemma tick_same: "open_on (hw_store h) \<Longrightarrow> host_kept open_on h (h\<lparr>hw_ticks := t\<rparr>)"
  "open_on (hw_store h) \<Longrightarrow> host_kept open_on h (h\<lparr>hw_draws := k\<rparr>)"
  by (simp_all add: host_kept_def)

lemma same_trans: "host_kept open_on h h1 \<Longrightarrow> host_kept open_on h1 h2 \<Longrightarrow> host_kept open_on h h2"
  by (simp add: host_kept_def)

lemma same_refl: "open_on (hw_store h) \<Longrightarrow> host_kept open_on h h"
  by (simp add: host_kept_def)

lemma moves_kept: "moves open_on db h h' D \<Longrightarrow> host_kept open_on h h'"
  by (simp add: moves_def host_kept_def)

lemma host_find:
  assumes "orm_Storage orm = Some st" and "open_on (hw_store h)" and "tables T = Some tbl" and "i \<noteq> []"
  obtains res h' where "on_store (orm_FindByID orm T i) h = (Ok res, h')"
    and "moves open_on db h h' (db (hw_store h))"
    and "db (hw_store h) T i = None \<longrightarrow> res = None"
    and "\<forall>r. db (hw_store h) T i = Some r \<longrightarrow> (\<exists>o1. res = Some o1 \<and> row_object tbl i r o1)"
proof -
  obtain res w' where w': "st_FindByKey st T ''id'' i (hw_store h) = (Ok res, w')" "open_on w'"
      "db w' = db (hw_store h)" "db (hw_store h) T i = None \<Longrightarrow> res = None"
      "\<And>r. db (hw_store h) T i = Some r \<Longrightarrow> \<exists>o1. res = Some o1 \<and> row_object tbl i r o1"
    using finds_id [OF assms(2-4)] by metis
  from w'(1) have "on_store (orm_FindByID orm T i) h = (Ok res, h\<lparr>hw_store := w'\<rparr>)"
    using assms(1) by (simp add: on_store_def orm_FindByID_def on_storage_def)
  with that w'(2-5) show thesis by simp
qed

text \<open>The empty identifier is refused.\<close>

lemma host_look:
  assumes "orm_Storage orm = Some st" and "open_on (hw_store h)" and "tables T = Some tbl"
  obtains a h' where "on_store (orm_FindByID orm T i) h = (a, h')"
    and "moves open_on db h h' (db (hw_store h))"
    and "i = [] \<longrightarrow> (\<exists>e. a = Error e)"
    and "i \<noteq> [] \<and> db (hw_store h) T i = None \<longrightarrow> a = Ok None"
    and "\<forall>r. i \<noteq> [] \<and> db (hw_store h) T i = Some r \<longrightarrow> (\<exists>o1. a = Ok (Some o1) \<and> row_object tbl i r o1)"
proof (cases "i = []")
  case True
  from finds_none [OF assms(2,3), of "''id''"] obtain e where
    "st_FindByKey st T ''id'' [] (hw_store h) = (Error e, hw_store h)" by blast
  then have "on_store (orm_FindByID orm T i) h = (Error e, h\<lparr>hw_store := hw_store h\<rparr>)"
    using assms(1) True by (simp add: on_store_def orm_FindByID_def on_storage_def)
  with True assms(2) show thesis by (intro that) (auto simp: moves_def)
next
  case False
  obtain res h' where f: "on_store (orm_FindByID orm T i) h = (Ok res, h')"
    "moves open_on db h h' (db (hw_store h))" "db (hw_store h) T i = None \<longrightarrow> res = None"
    "\<forall>r. db (hw_store h) T i = Some r \<longrightarrow> (\<exists>o1. res = Some o1 \<and> row_object tbl i r o1)"
    by (rule host_find [OF assms False])
  show thesis by (rule that [OF f(1,2)]) (use False f(3,4) in auto)
qed

lemma host_look_key:
  assumes "orm_Storage orm = Some st" and "open_on (hw_store h)" and "tables T = Some tbl" and "key_column tbl k"
  obtains a h' where "on_store (orm_FindByKey orm T k x) h = (a, h')"
    and "moves open_on db h h' (db (hw_store h))"
    and "x = [] \<longrightarrow> (\<exists>e. a = Error e)"
    and "x \<noteq> [] \<longrightarrow> (\<exists>res. a = Ok res \<and> found tbl (db (hw_store h) T) k x res)"
proof (cases "x = []")
  case True
  from finds_none [OF assms(2,3), of k] obtain e where "st_FindByKey st T k [] (hw_store h) = (Error e, hw_store h)" by blast
  then have "on_store (orm_FindByKey orm T k x) h = (Error e, h\<lparr>hw_store := hw_store h\<rparr>)"
    using assms(1) True by (simp add: on_store_def orm_FindByKey_def on_storage_def)
  with True assms(2) show thesis by (intro that) (auto simp: moves_def)
next
  case False
  from finds [OF assms(2-4) False] obtain res w' where
    w': "st_FindByKey st T k x (hw_store h) = (Ok res, w')" "open_on w'" "db w' = db (hw_store h)"
      "found tbl (db (hw_store h) T) k x res" by blast
  from w'(1) have "on_store (orm_FindByKey orm T k x) h = (Ok res, h\<lparr>hw_store := w'\<rparr>)"
    using assms(1) by (simp add: on_store_def orm_FindByKey_def on_storage_def)
  with False w' show thesis by (intro that) (auto simp: moves_def)
qed

lemma host_insert:
  assumes "orm_Storage orm = Some st" and "open_on (hw_store h)" and "tables T = Some tbl" and "insertable L tbl obj"
  obtains data h' where "on_store (orm_Insert orm obj) h = (Ok (data, True), h')"
    and "moves open_on db h h' ((db (hw_store h))(T :=
      replace_row tbl (obj_ID obj) (new_row (obj_ID obj) (stored L tbl obj)) (db (hw_store h) T)))"
proof -
  from inserts [OF assms(2-4)] obtain data w' where
    w': "st_Insert st obj (hw_store h) = (Ok (data, True), w')" "open_on w'"
      "db w' = (db (hw_store h))(T :=
        replace_row tbl (obj_ID obj) (new_row (obj_ID obj) (stored L tbl obj)) (db (hw_store h) T))" by blast
  from w'(1) have "on_store (orm_Insert orm obj) h = (Ok (data, True), h\<lparr>hw_store := w'\<rparr>)"
    using assms(1) by (simp add: on_store_def orm_Insert_def on_storage_def)
  with that w'(2,3) show thesis by simp
qed

lemma host_delete:
  assumes "orm_Storage orm = Some st" and "open_on (hw_store h)" and "tables T = Some tbl"
  obtains h' where "on_store (orm_DeleteByID orm T i) h = (Ok (db (hw_store h) T i \<noteq> None), h')"
    and "moves open_on db h h' ((db (hw_store h))(T := (db (hw_store h) T)(i := None)))"
proof -
  from deletes [OF assms(2,3), of i] obtain w' where
    w': "st_DeleteByID st T i (hw_store h) = (Ok (db (hw_store h) T i \<noteq> None), w')" "open_on w'"
      "db w' = (db (hw_store h))(T := (db (hw_store h) T)(i := None))" by blast
  from w'(1) have "on_store (orm_DeleteByID orm T i) h = (Ok (db (hw_store h) T i \<noteq> None), h\<lparr>hw_store := w'\<rparr>)"
    using assms(1) by (simp add: on_store_def orm_DeleteByID_def on_storage_def)
  with that w'(2,3) show thesis by simp
qed

lemma host_update:
  assumes "orm_Storage orm = Some st" and "open_on (hw_store h)" and "tables T = Some tbl" and "updatable tbl obj"
  obtains a h' where "on_store (storage_Update orm obj) h = (a, h')"
    and "moves open_on db h h' ((db (hw_store h))(T := snd (update_row tbl (obj_ID obj) (changes obj) (db (hw_store h) T))))"
    and "reports (\<lambda>b. b) (fst (update_row tbl (obj_ID obj) (changes obj) (db (hw_store h) T))) a"
proof -
  from updates [OF assms(2-4)] obtain a w' where
    w': "st_Update st obj (hw_store h) = (a, w')" "open_on w'"
      "reports (\<lambda>b. b) (fst (update_row tbl (obj_ID obj) (changes obj) (db (hw_store h) T))) a"
      "db w' = (db (hw_store h))(T := snd (update_row tbl (obj_ID obj) (changes obj) (db (hw_store h) T)))" by blast
  from w'(1) have "on_store (storage_Update orm obj) h = (a, h\<lparr>hw_store := w'\<rparr>)"
    using assms(1) by (simp add: on_store_def storage_Update_def on_storage_def)
  with that w'(2-4) show thesis by simp
qed

text \<open>Writing back the object of a row after changing some of its fields.\<close>

lemma host_update_back:
  assumes "orm_Storage orm = Some st" and w: "open_on (hw_store h)" and T: "tables T = Some tbl"
    and old: "db (hw_store h) T i = Some r0"
    and o1: "row_object tbl i r o1" and r: "row_fits tbl i r"
    and n: "n \<in> set (tab_FieldOrder tbl)" "n \<noteq> ''id''"
    and same: "\<And>m. m \<notin> set (tab_FieldOrder tbl) \<Longrightarrow> r0 m = r m"
  obtains a h' where "on_store (storage_Update orm o1) h = (a, h')"
    and "taken tbl i r (db (hw_store h) T) \<Longrightarrow> (\<exists>e. a = Error e) \<and> moves open_on db h h' (db (hw_store h))"
    and "\<not> taken tbl i r (db (hw_store h) T) \<Longrightarrow> a = Ok True \<and>
      moves open_on db h h' ((db (hw_store h))(T := (db (hw_store h) T)(i \<mapsto> r)))"
proof -
  obtain a w' where w': "st_Update st o1 (hw_store h) = (a, w')" "open_on w'"
      "taken tbl i r (db (hw_store h) T) \<Longrightarrow> (\<exists>e. a = Error e) \<and> db w' = db (hw_store h)"
      "\<not> taken tbl i r (db (hw_store h) T) \<Longrightarrow> a = Ok True \<and> db w' = (db (hw_store h))(T := (db (hw_store h) T)(i \<mapsto> r))"
    using updates_back [OF w T old o1 r n same] by metis
  from w'(1) have "on_store (storage_Update orm o1) h = (a, h\<lparr>hw_store := w'\<rparr>)"
    using assms(1) by (simp add: on_store_def storage_Update_def on_storage_def)
  with that w'(2-4) show thesis by simp
qed

lemma host_update_row:
  assumes "orm_Storage orm = Some st" and w: "open_on (hw_store h)" and T: "tables T = Some tbl"
    and old: "db (hw_store h) T i = Some r0" and un: "no_unique tbl"
    and o1: "row_object tbl i r o1" and r: "row_fits tbl i r"
    and n: "n \<in> set (tab_FieldOrder tbl)" "n \<noteq> ''id''"
    and same: "\<And>m. m \<notin> set (tab_FieldOrder tbl) \<Longrightarrow> r0 m = r m"
  obtains h' where "on_store (storage_Update orm o1) h = (Ok True, h')"
    and "moves open_on db h h' ((db (hw_store h))(T := (db (hw_store h) T)(i \<mapsto> r)))"
proof -
  obtain w' where w': "st_Update st o1 (hw_store h) = (Ok True, w')" "open_on w'"
      "db w' = (db (hw_store h))(T := (db (hw_store h) T)(i \<mapsto> r))"
    using updates_row [OF w T old un o1 r n same] by metis
  from w'(1) have "on_store (storage_Update orm o1) h = (Ok True, h\<lparr>hw_store := w'\<rparr>)"
    using assms(1) by (simp add: on_store_def storage_Update_def on_storage_def)
  with that w'(2,3) show thesis by simp
qed

end

section \<open>Objects and rows of text fields\<close>

text \<open>
  Objects whose fields are texts, the values they are stored as, and what is asked of the JSON
  encoder: every text and every object of texts can be encoded, and a text is encoded in quotes.
\<close>

definition text_object :: "string \<Rightarrow> string \<Rightarrow> (string \<times> string) list \<Rightarrow> Object" where
  "text_object T i fs = \<lparr>obj_TableName = T, obj_ID = i, obj_Fields = GoMap (map (\<lambda>(n, s). (n, VStr s)) fs)\<rparr>"

definition json_texts :: "'e golib_scheme \<Rightarrow> bool" where
  "json_texts L \<longleftrightarrow> (\<forall>s. \<exists>t. lib_json_value L (VStr s) = Ok (CHR 0x22 # t)) \<and>
     (\<forall>T i fs. is_ok (lib_json_object L (text_object T i fs)))"

definition json_text :: "'e golib_scheme \<Rightarrow> string \<Rightarrow> string" where
  "json_text L s = (case lib_json_value L (VStr s) of Ok t \<Rightarrow> t | _ \<Rightarrow> [])"

lemma json_texts_value:
  assumes "json_texts L"
  shows "lib_json_value L (VStr s) = Ok (json_text L s)" and "\<exists>t. json_text L s = CHR 0x22 # t"
proof -
  from assms obtain t where "lib_json_value L (VStr s) = Ok (CHR 0x22 # t)"
    unfolding json_texts_def by blast
  then show "lib_json_value L (VStr s) = Ok (json_text L s)" "\<exists>t. json_text L s = CHR 0x22 # t"
    by (simp_all add: json_text_def)
qed

definition stored_text :: "'e golib_scheme \<Rightarrow> TableSchema \<Rightarrow> string \<times> string \<Rightarrow> string \<times> goval" where
  "stored_text L tbl ns = (case ns of (n, s) \<Rightarrow>
     (n, VStr (if ToLower (col_DataType (field_of (tab_Fields tbl) n)) = ''json'' then json_text L s else s)))"

lemma text_object_stored:
  assumes "json_texts L" and "\<forall>(n, s)\<in>set fs. ToLower n \<noteq> ''id''"
  shows "stored L tbl (text_object T i fs) = map (stored_text L tbl) fs"
    and "non_id (entries (obj_Fields (text_object T i fs))) = map (\<lambda>(n, s). (n, VStr s)) fs"
    and "is_ok (bind_value L n (field_of (tab_Fields tbl) n) (VStr s))"
proof -
  note t = json_texts_value(1) [OF assms(1)]
  show non: "non_id (entries (obj_Fields (text_object T i fs))) = map (\<lambda>(n, s). (n, VStr s)) fs"
    using assms(2) by (auto simp: text_object_def non_id_def intro!: filter_True)
  show "is_ok (bind_value L n (field_of (tab_Fields tbl) n) (VStr s))"
    using t by (simp add: bind_value_def)
  show "stored L tbl (text_object T i fs) = map (stored_text L tbl) fs"
    unfolding stored_def non by (auto simp: stored_text_def bind_value_def t)
qed

lemma text_object_insertable:
  assumes L: "json_texts L" and T: "tab_TableName tbl = T" and fs: "\<forall>(n, s)\<in>set fs. ToLower n \<noteq> ''id''"
    and row: "whole_row tbl (map (stored_text L tbl) fs)"
  shows "insertable L tbl (text_object T i fs)"
proof -
  have "is_ok (lib_json_object L (text_object T i fs))" using L by (simp add: json_texts_def)
  with T row text_object_stored [OF L fs] show ?thesis
    by (auto simp: insertable_def text_object_def)
qed

context record_store
begin

lemma host_insert_texts:
  assumes w: "open_on (hw_store h)" and T: "tables T = Some tbl" and L: "json_texts L"
    and fs: "\<forall>(n, x)\<in>set fs. ToLower n \<noteq> ''id''" and row: "whole_row tbl (map (stored_text L tbl) fs)"
    and orm: "orm_Storage orm = Some st"
  obtains data h' where "on_store (orm_Insert orm (text_object T i fs)) h = (Ok (data, True), h')"
    and "moves open_on db h h' ((db (hw_store h))(T :=
      replace_row tbl i (new_row i (map (stored_text L tbl) fs)) (db (hw_store h) T)))"
proof -
  have name: "tab_TableName tbl = T" using T table_plain by blast
  have id: "obj_ID (text_object T i fs) = i" by (simp add: text_object_def)
  obtain data h' where ins: "on_store (orm_Insert orm (text_object T i fs)) h = (Ok (data, True), h')"
    and h': "moves open_on db h h' ((db (hw_store h))(T := replace_row tbl (obj_ID (text_object T i fs))
      (new_row (obj_ID (text_object T i fs)) (stored L tbl (text_object T i fs))) (db (hw_store h) T)))"
    by (rule host_insert [OF orm w T text_object_insertable [OF L name fs row, of i]])
  show thesis
    by (rule that [OF ins]) (use h' in \<open>simp add: id text_object_stored(1) [OF L fs]\<close>)
qed

end

end
