(* ===== verification/LdapRun.thy ===== *)
theory LdapRun
  imports Ldap HostStore SqliteEngine
begin

text \<open>
  The LDAP example as a directory: what each message of the text protocol answers and does, given as an
  abstract directory of entries and users, and that the server's operations over a storage of tables
  implement it.
\<close>

section \<open>The schema\<close>

definition entries_table :: TableSchema where
  "entries_table = columns_table ''entries'' ldap_entry_columns"

definition users_table :: TableSchema where
  "users_table = columns_table ''users'' ldap_user_columns"

definition groups_table :: TableSchema where
  "groups_table = columns_table ''groups'' ldap_group_columns"

definition ldap_schema :: Schema where
  "ldap_schema = schema_New\<lparr>sch_DatabaseName := ''ldapd'',
     sch_Tables := GoMap [(''entries'', entries_table), (''users'', users_table), (''groups'', groups_table)]\<rparr>"

lemmas kind_simps = col_kind_def kind_of_def ToUpper_def upper_char_def

lemma ldap_columns:
  "plain_columns ldap_entry_columns" "plain_columns ldap_user_columns" "plain_columns ldap_group_columns"
  by (simp_all add: ldap_entry_columns_def ldap_user_columns_def ldap_group_columns_def zero_column_def
      plain_column_def kind_simps ToLower_def lower_char_def)

lemmas table_defs = entries_table_def users_table_def groups_table_def

lemma ldap_schema_built: "createLDAPSchema = Ok ldap_schema"
  by (simp add: createLDAPSchema_def AddFields_columns ldap_columns SetDatabaseName_def schema_New_def
      schema_Lock_def schema_Unlock_def mu_Lock_def mu_Unlock_def free_mutex_def AddTable_def make_map_def
      ldap_schema_def table_defs)

lemma ldap_tables:
  "mget (sch_Tables ldap_schema) ''entries'' = Some entries_table"
  "mget (sch_Tables ldap_schema) ''users'' = Some users_table"
  by (simp_all add: ldap_schema_def mget_def)

lemma table_names [simp]:
  "tab_TableName entries_table = ''entries''" "tab_TableName users_table = ''users''"
  "tab_TableName groups_table = ''groups''"
  by (simp_all add: table_defs)

lemma ldap_schemas: "plain_schema ldap_schema" "named_schema ldap_schema" "\<not> mu_writer (sch_mu ldap_schema)"
proof -
  have "plain_table entries_table" "plain_table users_table" "plain_table groups_table"
    by (simp_all add: table_defs plain_columns_table ldap_columns)
  then show "plain_schema ldap_schema" by (simp add: plain_schema_def ldap_schema_def table_names)
  show "named_schema ldap_schema"
    by (simp add: named_schema_def ldap_schema_def table_defs wf_map_def mkeys_def plain_name_def blank_def unpunct_def
        is_space_def ldap_entry_columns_def ldap_user_columns_def ldap_group_columns_def zero_column_def)
  show "\<not> mu_writer (sch_mu ldap_schema)" by (simp add: ldap_schema_def schema_New_def free_mutex_def)
qed

lemma ldap_order:
  "tab_FieldOrder entries_table = [''id'', ''parent_dn'', ''object_class'', ''attributes'', ''created_at'', ''updated_at'']"
  "tab_FieldOrder users_table = [''id'', ''password_hash'', ''salt'', ''last_login'', ''created_at'']"
  by (simp_all add: table_defs ldap_entry_columns_def ldap_user_columns_def zero_column_def)

lemma ldap_fits:
  "fits (field_of (tab_Fields entries_table) ''parent_dn'') (VStr s)"
  "fits (field_of (tab_Fields entries_table) ''parent_dn'') VNil"
  "fits (field_of (tab_Fields entries_table) ''object_class'') (VStr s)"
  "fits (field_of (tab_Fields entries_table) ''attributes'') (VStr s) = no_number s"
  "fits (field_of (tab_Fields entries_table) ''created_at'') (VStr s) = time_text s"
  "fits (field_of (tab_Fields entries_table) ''updated_at'') (VStr s) = time_text s"
  "fits (field_of (tab_Fields entries_table) ''updated_at'') VNil"
  "fits (field_of (tab_Fields users_table) ''password_hash'') (VStr s)"
  "fits (field_of (tab_Fields users_table) ''salt'') (VStr s)"
  "fits (field_of (tab_Fields users_table) ''last_login'') (VStr s) = time_text s"
  "fits (field_of (tab_Fields users_table) ''last_login'') VNil"
  "fits (field_of (tab_Fields users_table) ''created_at'') (VStr s) = time_text s"
  by (simp_all add: table_defs ldap_entry_columns_def ldap_user_columns_def zero_column_def field_of_def mget_def
      fits_def kind_simps)

lemma ldap_fit_texts:
  "fits (field_of (tab_Fields entries_table) ''object_class'') v \<Longrightarrow> \<exists>s. v = VStr s"
  "fits (field_of (tab_Fields entries_table) ''attributes'') v \<Longrightarrow> \<exists>s. v = VStr s"
  "fits (field_of (tab_Fields entries_table) ''created_at'') v \<Longrightarrow> \<exists>s. v = VStr s"
  "fits (field_of (tab_Fields entries_table) ''parent_dn'') v \<Longrightarrow> v = VNil \<or> (\<exists>s. v = VStr s)"
  "fits (field_of (tab_Fields entries_table) ''updated_at'') v \<Longrightarrow> v = VNil \<or> (\<exists>s. v = VStr s)"
  "fits (field_of (tab_Fields users_table) ''password_hash'') v \<Longrightarrow> \<exists>s. v = VStr s"
  "fits (field_of (tab_Fields users_table) ''salt'') v \<Longrightarrow> \<exists>s. v = VStr s"
  by (simp_all add: table_defs ldap_entry_columns_def ldap_user_columns_def zero_column_def field_of_def mget_def
      fits_def kind_simps split: goval.splits)

lemma ldap_unique: "no_unique entries_table" "no_unique users_table"
  by (simp_all add: no_unique_def table_defs ldap_entry_columns_def ldap_user_columns_def zero_column_def field_of_def mget_def)

lemma ldap_json:
  "ToLower (col_DataType (field_of (tab_Fields entries_table) n)) = ''json'' \<longleftrightarrow> n = ''attributes''"
  "ToLower (col_DataType (field_of (tab_Fields users_table) n)) \<noteq> ''json''"
  by (simp_all add: table_defs ldap_entry_columns_def ldap_user_columns_def zero_column_def field_of_def mget_def
      ToLower_def lower_char_def)

lemma ldap_default: "n \<in> set (tab_FieldOrder entries_table) \<Longrightarrow> col_Default (field_of (tab_Fields entries_table) n) = VNil"
  "n \<in> set (tab_FieldOrder users_table) \<Longrightarrow> col_Default (field_of (tab_Fields users_table) n) = VNil"
  by (auto simp: table_defs ldap_entry_columns_def ldap_user_columns_def zero_column_def field_of_def mget_def)

section \<open>The abstract directory\<close>

record dir_user =
  du_hash :: string
  du_salt :: string
  du_login :: string
  du_created :: string

record directory =
  d_entries :: "string \<Rightarrow> LDAPEntry option"
  d_users :: "string \<Rightarrow> dir_user option"

definition entry_of :: "string \<Rightarrow> row \<Rightarrow> LDAPEntry" where
  "entry_of i r = \<lparr>le_DN = i, le_ParentDN = text_of (r ''parent_dn''), le_ObjectClass = text_of (r ''object_class''),
     le_Attributes = text_of (r ''attributes''), le_CreatedAt = text_of (r ''created_at''),
     le_UpdatedAt = text_of (r ''updated_at'')\<rparr>"

definition user_of :: "row \<Rightarrow> dir_user" where
  "user_of r = \<lparr>du_hash = text_of (r ''password_hash''), du_salt = text_of (r ''salt''),
     du_login = text_of (r ''last_login''), du_created = text_of (r ''created_at'')\<rparr>"

definition directory_of :: "database \<Rightarrow> directory" where
  "directory_of D = \<lparr>d_entries = (\<lambda>i. map_option (entry_of i) (D ''entries'' i)),
     d_users = (\<lambda>i. map_option user_of (D ''users'' i))\<rparr>"

text \<open>A message, read as a command; a message that is none is answered by a text of its own.\<close>

datatype command =
    CBind string string
  | CSearch string string
  | CAdd string string
  | CDelete string
  | CModify string string
  | CReply string

definition command_of :: "string \<Rightarrow> command" where
  "command_of message =
     (case Fields message of
        [] \<Rightarrow> CReply (''ERROR: Empty message'' @ eol)
      | name # args \<Rightarrow>
          let command = ToUpper name; rest = Join (tl args) '' ''
          in if command = ''BIND'' then
               (if length args < 2 then CReply (''ERROR: BIND requires DN and password'' @ eol)
                else CBind (hd args) rest)
             else if command = ''SEARCH'' then
               (if args = [] then CReply (''ERROR: SEARCH requires base DN'' @ eol) else CSearch (hd args) rest)
             else if command = ''ADD'' then
               (if args = [] then CReply (''ERROR: ADD requires DN'' @ eol) else CAdd (hd args) rest)
             else if command = ''DELETE'' then
               (if args = [] then CReply (''ERROR: DELETE requires DN'' @ eol) else CDelete (hd args))
             else if command = ''MODIFY'' then
               (if args = [] then CReply (''ERROR: MODIFY requires DN'' @ eol) else CModify (hd args) rest)
             else if command = ''HELP'' then CReply getHelp
             else CReply (''ERROR: Unknown command: '' @ command @ eol))"

text \<open>
  What a command answers and does. Beside the directory there are the numbers of the clock readings
  and of the salts drawn so far; \<open>jt\<close> is the JSON text of a string.
\<close>

definition new_user :: "applib \<Rightarrow> string \<Rightarrow> string \<Rightarrow> string \<Rightarrow> dir_user" where
  "new_user A password salt now =
     \<lparr>du_hash = hashPassword A password salt, du_salt = salt, du_login = [], du_created = now\<rparr>"

definition login_class :: "string \<Rightarrow> bool" where
  "login_class oc \<longleftrightarrow> oc = ''person'' \<or> oc = ''inetOrgPerson''"

fun perform :: "applib \<Rightarrow> (string \<Rightarrow> string) \<Rightarrow> 'w LDAPServer \<Rightarrow> (nat \<Rightarrow> string) \<Rightarrow> (nat \<Rightarrow> string) \<Rightarrow> command \<Rightarrow>
    directory \<times> nat \<times> nat \<Rightarrow> string \<times> directory \<times> nat \<times> nat" where
  "perform A jt s now salt (CBind dn password) (d, t, k) =
     (if dn = srv_bindDN s \<and> password = srv_bindPW s then (''OK: Admin bind successful'' @ eol, d, t, k)
      else case d_users d dn of
          None \<Rightarrow> (''ERROR: Invalid credentials'' @ eol, d, t, k)
        | Some u \<Rightarrow>
            if du_hash u = hashPassword A password (du_salt u)
            then (''OK: Bind successful'' @ eol, d\<lparr>d_users := (d_users d)(dn \<mapsto> u\<lparr>du_login := now t\<rparr>)\<rparr>, Suc t, k)
            else (''ERROR: Invalid credentials'' @ eol, d, t, k))"
| "perform A jt s now salt (CSearch dn fltr) (d, t, k) =
     ((case (if fltr = [] \<or> Contains fltr ''objectClass'' then d_entries d dn else None) of
         None \<Rightarrow> ''OK: No entries found'' @ eol
       | Some e \<Rightarrow> ''OK: Search results:'' @ eol @ entry_lines e), d, t, k)"
| "perform A jt s now salt (CAdd dn attrs) (d, t, k) =
     (let atts = parseAttributes attrs; oc = entry_class atts;
          e = \<lparr>le_DN = dn, le_ParentDN = getParentDN dn, le_ObjectClass = oc, le_Attributes = jt attrs,
               le_CreatedAt = now t, le_UpdatedAt = []\<rparr>;
          d1 = d\<lparr>d_entries := (d_entries d)(dn \<mapsto> e)\<rparr>
      in case (if login_class oc then mget atts ''userPassword'' else None) of
           None \<Rightarrow> (''OK: Entry added'' @ eol, d1, Suc t, k)
         | Some password \<Rightarrow> (''OK: Entry added'' @ eol,
             d1\<lparr>d_users := (d_users d)(dn \<mapsto> new_user A password (salt k) (now (Suc t)))\<rparr>, Suc (Suc t), Suc k))"
| "perform A jt s now salt (CDelete dn) (d, t, k) =
     (case d_entries d dn of
        None \<Rightarrow> (''ERROR: Delete failed: entry with DN '' @ dn @ '' not found'' @ eol, d, t, k)
      | Some e \<Rightarrow> (''OK: Entry deleted'' @ eol,
          d\<lparr>d_entries := (d_entries d)(dn := None), d_users := (d_users d)(dn := None)\<rparr>, t, k))"
| "perform A jt s now salt (CModify dn attrs) (d, t, k) =
     (case d_entries d dn of
        None \<Rightarrow> (''ERROR: Modify failed: entry with DN '' @ dn @ '' not found'' @ eol, d, t, k)
      | Some e \<Rightarrow> (''OK: Entry modified'' @ eol,
          d\<lparr>d_entries := (d_entries d)(dn \<mapsto> e\<lparr>le_Attributes := attrs, le_UpdatedAt := now t\<rparr>)\<rparr>, Suc t, k))"
| "perform A jt s now salt (CReply answer) st = (answer, st)"

fun performs :: "applib \<Rightarrow> (string \<Rightarrow> string) \<Rightarrow> 'w LDAPServer \<Rightarrow> (nat \<Rightarrow> string) \<Rightarrow> (nat \<Rightarrow> string) \<Rightarrow> command list \<Rightarrow>
    directory \<times> nat \<times> nat \<Rightarrow> string list \<times> directory \<times> nat \<times> nat" where
  "performs A jt s now salt [] st = ([], st)"
| "performs A jt s now salt (c # cs) st = (case perform A jt s now salt c st of
      (a, st1) \<Rightarrow> (case performs A jt s now salt cs st1 of (as, st2) \<Rightarrow> (a # as, st2)))"

text \<open>The directory that the server sets up on an empty database.\<close>

definition put_entry :: "(string \<Rightarrow> string) \<Rightarrow> string \<Rightarrow> string \<Rightarrow> string \<Rightarrow> string \<Rightarrow> string \<Rightarrow> directory \<Rightarrow> directory" where
  "put_entry jt dn parent oc attrs now d = d\<lparr>d_entries := (d_entries d)(dn \<mapsto>
     \<lparr>le_DN = dn, le_ParentDN = parent, le_ObjectClass = oc, le_Attributes = jt attrs, le_CreatedAt = now, le_UpdatedAt = []\<rparr>)\<rparr>"

definition put_base :: "(string \<Rightarrow> string) \<Rightarrow> string \<Rightarrow> string \<Rightarrow> string \<Rightarrow> directory \<Rightarrow> directory" where
  "put_base jt dn attrs now d = put_entry jt dn [] ''organization'' attrs now d"

definition initial_directory :: "applib \<Rightarrow> (string \<Rightarrow> string) \<Rightarrow> (nat \<Rightarrow> string) \<Rightarrow> (nat \<Rightarrow> string) \<Rightarrow> string \<Rightarrow> string \<Rightarrow> string \<Rightarrow> string \<Rightarrow>
    directory \<times> nat \<times> nat \<Rightarrow> directory \<times> nat \<times> nat" where
  "initial_directory A jt now salt baseDN attrs bindDN bindPW st = (case st of (d, t, k) \<Rightarrow>
     let d1 = put_base jt baseDN attrs (now t) d;
         d2 = d1\<lparr>d_users := (d_users d)(bindDN \<mapsto> new_user A bindPW (salt k) (now (t + 1)))\<rparr>;
         d3 = put_entry jt bindDN baseDN ''person'' admin_attributes (now (t + 2)) d2;
         d4 = put_entry jt (''ou=users,'' @ baseDN) baseDN ''organizationalUnit'' (ou_attributes ''users'') (now (t + 3)) d3;
         d5 = put_entry jt (''ou=groups,'' @ baseDN) baseDN ''organizationalUnit'' (ou_attributes ''groups'') (now (t + 4)) d4
     in (d5, t + 5, k + 1))"

section \<open>The server's operations\<close>

text \<open>
  The process the server runs in: its clock shows times that are written as RFC 3339 says, and random
  bytes can be read.
\<close>

definition host_ready :: "applib \<Rightarrow> 'w host \<Rightarrow> bool" where
  "host_ready A h \<longleftrightarrow> (\<forall>n. time_text (app_rfc3339 A (hw_clock h n))) \<and> (\<forall>n. \<exists>b. hw_random h n 16 = Ok b)"

definition clock_text :: "applib \<Rightarrow> 'w host \<Rightarrow> nat \<Rightarrow> string" where
  "clock_text A h n = app_rfc3339 A (hw_clock h n)"

definition salt_text :: "'w host \<Rightarrow> nat \<Rightarrow> string" where
  "salt_text h n = (case hw_random h n 16 of Ok b \<Rightarrow> EncodeToString b | _ \<Rightarrow> [])"

lemma directory_of_simps:
  "directory_of (D(''users'' := (D ''users'')(i \<mapsto> r))) =
     (directory_of D)\<lparr>d_users := (d_users (directory_of D))(i \<mapsto> user_of r)\<rparr>"
  "directory_of (D(''entries'' := (D ''entries'')(i \<mapsto> r))) =
     (directory_of D)\<lparr>d_entries := (d_entries (directory_of D))(i \<mapsto> entry_of i r)\<rparr>"
  "directory_of (D(''users'' := (D ''users'')(i := None))) =
     (directory_of D)\<lparr>d_users := (d_users (directory_of D))(i := None)\<rparr>"
  "directory_of (D(''entries'' := (D ''entries'')(i := None))) =
     (directory_of D)\<lparr>d_entries := (d_entries (directory_of D))(i := None)\<rparr>"
  by (simp_all add: directory_of_def fun_eq_iff)

lemma directory_of_lookup [simp]:
  "d_users (directory_of D) i = map_option user_of (D ''users'' i)"
  "d_entries (directory_of D) i = map_option (entry_of i) (D ''entries'' i)"
  by (simp_all add: directory_of_def)

lemma as_text_simps [simp]: "as_text (Some (VStr x)) = Ok x"
  by (simp add: as_text_def)

lemma user_texts:
  assumes "row_fits users_table i r"
  shows "r ''password_hash'' = VStr (du_hash (user_of r))" and "r ''salt'' = VStr (du_salt (user_of r))"
  using assms by (auto simp: row_fits_def ldap_order user_of_def text_of_def dest: ldap_fit_texts(6,7))

lemma user_login: "(user_of r)\<lparr>du_login := t\<rparr> = user_of (r(''last_login'' := VStr t))"
  by (simp add: user_of_def text_of_def)

text \<open>The rows that the server's INSERT statements write.\<close>

lemma stored_entry [simp]:
  "stored_text L entries_table (n, x) = (n, VStr (if n = ''attributes'' then json_text L x else x))"
  by (simp add: stored_text_def ldap_json)

lemma stored_user [simp]: "stored_text L users_table (n, x) = (n, VStr x)"
  by (simp add: stored_text_def ldap_json)

lemma quoted_no_number: "json_texts L \<Longrightarrow> no_number (json_text L x)"
  using json_texts_value(2) [of L x] by (auto simp: no_number_def is_digit_def)

lemma whole_entry:
  assumes "json_texts L" and "time_text t"
  shows "whole_row entries_table (map (stored_text L entries_table)
      [(''parent_dn'', p), (''object_class'', oc), (''attributes'', a), (''created_at'', t)])"
    and "whole_row entries_table (map (stored_text L entries_table)
      [(''object_class'', oc), (''attributes'', a), (''created_at'', t)])"
  using assms by (auto simp: whole_row_def good_values_def ldap_order ldap_fits ldap_default quoted_no_number)

lemma whole_user:
  assumes "time_text t"
  shows "whole_row users_table (map (stored_text L users_table)
      [(''password_hash'', p), (''salt'', x), (''created_at'', t)])"
  using assms by (auto simp: whole_row_def good_values_def ldap_order ldap_fits ldap_default)

lemma entry_of_new:
  "entry_of i (new_row i (map (stored_text L entries_table)
      [(''parent_dn'', p), (''object_class'', oc), (''attributes'', a), (''created_at'', t)])) =
    \<lparr>le_DN = i, le_ParentDN = p, le_ObjectClass = oc, le_Attributes = json_text L a, le_CreatedAt = t, le_UpdatedAt = []\<rparr>"
  "entry_of i (new_row i (map (stored_text L entries_table)
      [(''object_class'', oc), (''attributes'', a), (''created_at'', t)])) =
    \<lparr>le_DN = i, le_ParentDN = [], le_ObjectClass = oc, le_Attributes = json_text L a, le_CreatedAt = t, le_UpdatedAt = []\<rparr>"
  by (simp_all add: entry_of_def new_row_def text_of_def)

lemma user_of_new:
  "user_of (new_row i (map (stored_text L users_table) [(''password_hash'', p), (''salt'', x), (''created_at'', t)])) =
    \<lparr>du_hash = p, du_salt = x, du_login = [], du_created = t\<rparr>"
  by (simp add: user_of_def new_row_def text_of_def)

lemma text_of_cases: "v = VNil \<or> (\<exists>s. v = VStr s) \<Longrightarrow> v = VNil \<and> text_of v = [] \<or> v = VStr (text_of v)"
  by (auto simp: text_of_def)

lemma entry_texts:
  assumes "row_fits entries_table i r"
  shows "r ''object_class'' = VStr (le_ObjectClass (entry_of i r))"
    and "r ''attributes'' = VStr (le_Attributes (entry_of i r))"
    and "r ''created_at'' = VStr (le_CreatedAt (entry_of i r))"
    and "r ''parent_dn'' = VNil \<and> le_ParentDN (entry_of i r) = [] \<or> r ''parent_dn'' = VStr (le_ParentDN (entry_of i r))"
    and "r ''updated_at'' = VNil \<and> le_UpdatedAt (entry_of i r) = [] \<or> r ''updated_at'' = VStr (le_UpdatedAt (entry_of i r))"
proof -
  have f: "fits (field_of (tab_Fields entries_table) n) (r n)"
    if "n \<in> set [''parent_dn'', ''object_class'', ''attributes'', ''created_at'', ''updated_at'']" for n
    using assms that by (auto simp: row_fits_def ldap_order)
  show "r ''object_class'' = VStr (le_ObjectClass (entry_of i r))"
    using ldap_fit_texts(1) [OF f] by (auto simp: entry_of_def text_of_def)
  show "r ''attributes'' = VStr (le_Attributes (entry_of i r))"
    using ldap_fit_texts(2) [OF f] by (auto simp: entry_of_def text_of_def)
  show "r ''created_at'' = VStr (le_CreatedAt (entry_of i r))"
    using ldap_fit_texts(3) [OF f] by (auto simp: entry_of_def text_of_def)
  show "r ''parent_dn'' = VNil \<and> le_ParentDN (entry_of i r) = [] \<or> r ''parent_dn'' = VStr (le_ParentDN (entry_of i r))"
    using text_of_cases [OF ldap_fit_texts(4) [OF f]] by (simp add: entry_of_def)
  show "r ''updated_at'' = VNil \<and> le_UpdatedAt (entry_of i r) = [] \<or> r ''updated_at'' = VStr (le_UpdatedAt (entry_of i r))"
    using text_of_cases [OF ldap_fit_texts(5) [OF f]] by (simp add: entry_of_def)
qed

lemma entry_modified:
  "(entry_of i r)\<lparr>le_Attributes := a, le_UpdatedAt := t\<rparr> = entry_of i (r(''attributes'' := VStr a, ''updated_at'' := VStr t))"
  by (simp add: entry_of_def text_of_def)

lemma ldap_entry_row:
  assumes o1: "row_object entries_table i r o1" and r: "row_fits entries_table i r"
  shows "ldap_entry o1 = Ok (entry_of i r)"
proof -
  note f = row_object_field [OF o1, unfolded ldap_order]
  have id: "obj_ID o1 = i" using o1 by (simp add: row_object_def object_view_def row_view_def)
  have parent: "optional_text o1 ''parent_dn'' = Ok (le_ParentDN (entry_of i r))"
    and updated: "optional_text o1 ''updated_at'' = Ok (le_UpdatedAt (entry_of i r))"
    using entry_texts(4,5) [OF r] f
    by (fastforce simp: optional_text_def)+
  have "mget (obj_Fields o1) ''object_class'' = Some (VStr (le_ObjectClass (entry_of i r)))"
    "mget (obj_Fields o1) ''attributes'' = Some (VStr (le_Attributes (entry_of i r)))"
    "mget (obj_Fields o1) ''created_at'' = Some (VStr (le_CreatedAt (entry_of i r)))"
    using f entry_texts(1-3) [OF r] by simp_all
  with parent updated id show ?thesis by (simp add: ldap_entry_def) (simp add: entry_of_def)
qed

text \<open>A MODIFY whose attribute text the JSON column keeps as it is.\<close>

definition modifies_well :: "string \<Rightarrow> bool" where
  "modifies_well message \<longleftrightarrow> (case command_of message of CModify dn attrs \<Rightarrow> no_number attrs | _ \<Rightarrow> True)"

locale ldap_store = record_store st L db open_on "mget (sch_Tables ldap_schema)"
  for st :: "'w Storage" and L :: "'e golib_scheme" and db :: "'w \<Rightarrow> database" and open_on :: "'w \<Rightarrow> bool" +
  fixes A :: applib and s :: "'w LDAPServer"
  assumes texts: "json_texts L"
    and orm: "orm_Storage (srv_orm s) = Some st"
begin

text \<open>The state of the directory as the process holds it.\<close>

definition dir :: "'w host \<Rightarrow> directory \<times> nat \<times> nat" where
  "dir h = (directory_of (db (hw_store h)), hw_ticks h, hw_draws h)"

text \<open>An operation does what the directory does for a command.\<close>

definition does :: "'w host \<Rightarrow> ('w host, string) go \<Rightarrow> command \<Rightarrow> bool" where
  "does h m c \<longleftrightarrow> (\<exists>h'. m h = (Ok (fst (perform A (json_text L) s (clock_text A h) (salt_text h) c (dir h))), h') \<and>
     host_kept open_on h h' \<and> dir h' = snd (perform A (json_text L) s (clock_text A h) (salt_text h) c (dir h)))"

lemma doesI:
  assumes "m h = (Ok a, h')" and "host_kept open_on h h'"
    and "perform A (json_text L) s (clock_text A h) (salt_text h) c (dir h) = (a, dir h')"
  shows "does h m c"
  using assms by (simp add: does_def)

lemma does_Bind:
  assumes ready: "host_ready A h" and w: "open_on (hw_store h)" and dn: "dn \<noteq> []"
  shows "does h (handleBind A s dn password) (CBind dn password)"
proof (cases "dn = srv_bindDN s \<and> password = srv_bindPW s")
  case True
  then show ?thesis
    using w by (intro doesI [where h' = h]) (simp_all add: handleBind_def host_kept_def dir_def)
next
  case False
  obtain res h1 where f: "on_store (orm_FindByID (srv_orm s) ''users'' dn) h = (Ok res, h1)"
    and h1: "moves open_on db h h1 (db (hw_store h))"
    and none: "db (hw_store h) ''users'' dn = None \<longrightarrow> res = None"
    and some: "\<forall>r. db (hw_store h) ''users'' dn = Some r \<longrightarrow> (\<exists>o1. res = Some o1 \<and> row_object users_table dn r o1)"
    by (rule host_find [OF orm w ldap_tables(2) dn])
  have same: "host_kept open_on h h1" "dir h1 = dir h" using h1 by (simp_all add: host_kept_def moves_def dir_def)
  show ?thesis
  proof (cases "db (hw_store h) ''users'' dn")
    case None
    with f none have "authenticateUser A s dn password h = (Ok False, h1)"
      by (simp add: authenticateUser_def seq_Ok [OF wrapping_Ok])
    with False None same show ?thesis
      by (intro doesI [where h' = h1]) (auto simp: handleBind_def answers_def catch_Ok dir_def)
  next
    case (Some r)
    with some obtain o1 where o1: "res = Some o1" "row_object users_table dn r o1" by blast
    have fit: "row_fits users_table dn r"
      using store_fits_row [OF rows_fit [OF w ldap_tables(2)] Some] .
    note field = row_object_field [OF o1(2)]
    have mem: "''password_hash'' \<in> set (tab_FieldOrder users_table)" "''salt'' \<in> set (tab_FieldOrder users_table)"
      "''last_login'' \<in> set (tab_FieldOrder users_table)" "''last_login'' \<noteq> ''id''"
      by (simp_all only: ldap_order) simp_all
    let ?now = "clock_text A h (hw_ticks h)"
    let ?r = "r(''last_login'' := VStr ?now)"
    show ?thesis
    proof (cases "du_hash (user_of r) = hashPassword A password (du_salt (user_of r))")
      case miss: False
      have "authenticateUser A s dn password h = (Ok False, h1)"
        using f o1(1) miss user_texts [OF fit] field [OF mem(1)] field [OF mem(2)]
        by (simp add: authenticateUser_def seq_Ok [OF wrapping_Ok])
      with False Some miss same show ?thesis
        by (intro doesI [where h' = h1]) (auto simp: handleBind_def answers_def catch_Ok dir_def)
    next
      case hit: True
      obtain o2 where o2: "SetField o1 ''last_login'' (VStr ?now) = Ok o2" "row_object users_table dn ?r o2"
        using SetField_row_object [OF o1(2) mem(3,4)] by metis
      have fit2: "row_fits users_table dn ?r"
        using fit ready by (auto simp: row_fits_def ldap_order ldap_fits host_ready_def clock_text_def)
      let ?h2 = "h1\<lparr>hw_ticks := Suc (hw_ticks h1)\<rparr>"
      have w2: "open_on (hw_store ?h2)" "db (hw_store ?h2) ''users'' dn = Some r"
        using h1 Some by (simp_all add: moves_def)
      obtain h3 where u: "on_store (storage_Update (srv_orm s) o2) ?h2 = (Ok True, h3)"
        and h3: "moves open_on db ?h2 h3 ((db (hw_store ?h2))(''users'' := (db (hw_store ?h2) ''users'')(dn \<mapsto> ?r)))"
        using host_update_row [OF orm w2(1) ldap_tables(2) w2(2) ldap_unique(2) o2(2) fit2 mem(3,4)]
          mem(3) by (metis fun_upd_other)
      have now: "app_rfc3339 A (hw_clock h1 (hw_ticks h1)) = ?now" using h1 by (simp add: moves_def clock_text_def)
      have "authenticateUser A s dn password h = (Ok True, h3)"
        using f o1(1) hit user_texts [OF fit] field [OF mem(1)] field [OF mem(2)] o2(1) u
        by (simp add: authenticateUser_def seq_Ok [OF wrapping_Ok] seq_now now catch_Ok)
      moreover have "host_kept open_on h h3" using h1 h3 by (simp add: host_kept_def moves_def)
      moreover have "dir h3 = (directory_of ((db (hw_store h))(''users'' := (db (hw_store h) ''users'')(dn \<mapsto> ?r))),
          Suc (hw_ticks h), hw_draws h)"
        using h1 h3 by (simp add: moves_def dir_def)
      ultimately show ?thesis
        using False Some hit
        by (intro doesI [where h' = h3])
          (simp_all add: handleBind_def answers_def catch_Ok dir_def directory_of_simps user_login)
    qed
  qed
qed

lemma does_Search:
  assumes w: "open_on (hw_store h)" and dn: "dn \<noteq> []"
  shows "does h (handleSearch s dn fltr) (CSearch dn fltr)"
proof (cases "fltr = [] \<or> Contains fltr ''objectClass''")
  case False
  then show ?thesis
    using w by (intro doesI [where h' = h])
      (simp_all add: handleSearch_def searchEntries_def answers_def catch_def host_kept_def dir_def)
next
  case True
  obtain res h1 where f: "on_store (orm_FindByID (srv_orm s) ''entries'' dn) h = (Ok res, h1)"
    and h1: "moves open_on db h h1 (db (hw_store h))"
    and none: "db (hw_store h) ''entries'' dn = None \<longrightarrow> res = None"
    and some: "\<forall>r. db (hw_store h) ''entries'' dn = Some r \<longrightarrow> (\<exists>o1. res = Some o1 \<and> row_object entries_table dn r o1)"
    by (rule host_find [OF orm w ldap_tables(1) dn])
  have same: "host_kept open_on h h1" "dir h1 = dir h" using h1 by (simp_all add: host_kept_def moves_def dir_def)
  show ?thesis
  proof (cases "db (hw_store h) ''entries'' dn")
    case None
    with True f none same show ?thesis
      by (intro doesI [where h' = h1])
        (auto simp: handleSearch_def searchEntries_def answers_def catch_Ok dir_def)
  next
    case (Some r)
    with some obtain o1 where o1: "res = Some o1" "row_object entries_table dn r o1" by blast
    from ldap_entry_row [OF o1(2) store_fits_row [OF rows_fit [OF w ldap_tables(1)] Some]]
    have "searchEntries s dn fltr h = (Ok [entry_of dn r], h1)"
      using True f o1(1) by (simp add: searchEntries_def catch_Ok)
    with True Some same show ?thesis
      by (intro doesI [where h' = h1]) (auto simp: handleSearch_def answers_def catch_Ok dir_def)
  qed
qed

lemma insert_texts:
  assumes w: "open_on (hw_store h)" and T: "mget (sch_Tables ldap_schema) T = Some tbl" and un: "no_unique tbl"
    and fs: "\<forall>(n, x)\<in>set fs. ToLower n \<noteq> ''id''" and row: "whole_row tbl (map (stored_text L tbl) fs)"
    and orm': "orm_Storage orm1 = Some st"
  obtains data h' where "on_store (orm_Insert orm1 (text_object T i fs)) h = (Ok (data, True), h')"
    and "moves open_on db h h' ((db (hw_store h))(T := (db (hw_store h) T)(i \<mapsto> new_row i (map (stored_text L tbl) fs))))"
  by (rule host_insert_texts [OF w T texts fs row orm', of i]) (use that in \<open>simp add: no_unique_simps [OF un]\<close>)

lemma createUser_run:
  assumes ready: "host_ready A h" and w: "open_on (hw_store h)" and orm': "orm_Storage (srv_orm s1) = Some st"
  obtains h' r where "createUser A s1 dn password h = (Ok (), h')" and "host_kept open_on h h'"
    and "hw_ticks h' = Suc (hw_ticks h)" and "hw_draws h' = Suc (hw_draws h)"
    and "db (hw_store h') = (db (hw_store h))(''users'' := (db (hw_store h) ''users'')(dn \<mapsto> r))"
    and "user_of r = new_user A password (salt_text h (hw_draws h)) (clock_text A h (hw_ticks h))"
proof -
  obtain b where b: "hw_random h (hw_draws h) 16 = Ok b" using ready by (auto simp: host_ready_def)
  let ?salt = "salt_text h (hw_draws h)" and ?now = "clock_text A h (hw_ticks h)"
  have salt: "EncodeToString b = ?salt" by (simp add: salt_text_def b)
  let ?fs = "[(''password_hash'', hashPassword A password ?salt), (''salt'', ?salt), (''created_at'', ?now)]"
  let ?h = "h\<lparr>hw_draws := Suc (hw_draws h), hw_ticks := Suc (hw_ticks h)\<rparr>"
  have read: "rand_Read 16 h = (Ok b, h\<lparr>hw_draws := Suc (hw_draws h)\<rparr>)" by (simp add: rand_Read_def b)
  have t: "time_text ?now" using ready by (simp add: host_ready_def clock_text_def)
  have w': "open_on (hw_store ?h)" using w by simp
  have low: "\<forall>(n, x)\<in>set ?fs. ToLower n \<noteq> ''id''" by (simp add: ToLower_def lower_char_def)
  obtain data h' where ins: "on_store (orm_Insert (srv_orm s1) (text_object ''users'' dn ?fs)) ?h = (Ok (data, True), h')"
    and h': "moves open_on db ?h h' ((db (hw_store ?h))(''users'' := (db (hw_store ?h) ''users'')(dn \<mapsto>
      new_row dn (map (stored_text L users_table) ?fs))))"
    by (rule insert_texts [OF w' ldap_tables(2) ldap_unique(2) low whole_user [OF t] orm'])
  have "createUser A s1 dn password h = (Ok (), h')"
    using ins read
    by (simp add: createUser_def seq_Ok [OF wrapping_Ok] seq_now Let_def salt clock_text_def text_object_def)
  then show thesis
    using that h' user_of_new [of dn L] by (simp add: moves_def host_kept_def new_user_def)
qed

lemma does_Add:
  assumes ready: "host_ready A h" and w: "open_on (hw_store h)"
  shows "does h (handleAdd A s dn attrs) (CAdd dn attrs)"
proof -
  let ?atts = "parseAttributes attrs" and ?now = "clock_text A h (hw_ticks h)"
  let ?oc = "entry_class ?atts"
  let ?fs = "[(''parent_dn'', getParentDN dn), (''object_class'', ?oc), (''attributes'', attrs), (''created_at'', ?now)]"
  let ?r = "new_row dn (map (stored_text L entries_table) ?fs)"
  let ?h = "h\<lparr>hw_ticks := Suc (hw_ticks h)\<rparr>"
  have t: "time_text ?now" using ready by (simp add: host_ready_def clock_text_def)
  have w': "open_on (hw_store ?h)" using w by simp
  have low: "\<forall>(n, x)\<in>set ?fs. ToLower n \<noteq> ''id''" by (simp add: ToLower_def lower_char_def)
  obtain data h1 where ins: "on_store (orm_Insert (srv_orm s) (text_object ''entries'' dn ?fs)) ?h = (Ok (data, True), h1)"
    and h1: "moves open_on db ?h h1 ((db (hw_store ?h))(''entries'' := (db (hw_store ?h) ''entries'')(dn \<mapsto> ?r)))"
    by (rule insert_texts [OF w' ldap_tables(1) ldap_unique(1) low whole_entry(1) [OF texts t] orm])
  have run: "addEntry A s dn attrs h =
      (if login_class ?oc then (case mget ?atts ''userPassword'' of
          Some password \<Rightarrow> wrapping ''failed to create user record: '' (createUser A s dn password)
        | None \<Rightarrow> ret ()) h1 else (Ok (), h1))"
    using ins by (simp add: addEntry_def Let_def seq_now seq_Ok [OF wrapping_Ok] clock_text_def text_object_def
        login_class_def)
  have same1: "host_kept open_on h h1" and dir1: "directory_of (db (hw_store h1)) =
      (directory_of (db (hw_store h)))\<lparr>d_entries := (d_entries (directory_of (db (hw_store h))))(dn \<mapsto> entry_of dn ?r)\<rparr>"
    and ticks1: "hw_ticks h1 = Suc (hw_ticks h)" "hw_draws h1 = hw_draws h"
    using h1 by (simp_all add: host_kept_def moves_def directory_of_simps)
  show ?thesis
  proof (cases "if login_class ?oc then mget ?atts ''userPassword'' else None")
    case None
    then have "addEntry A s dn attrs h = (Ok (), h1)" using run by (auto split: if_splits)
    then show ?thesis
      using None same1 dir1 ticks1 entry_of_new(1) [of dn L]
      by (intro doesI [where h' = h1]) (simp_all add: handleAdd_def answers_def catch_Ok dir_def Let_def)
  next
    case (Some password)
    then have pw: "login_class ?oc" "mget ?atts ''userPassword'' = Some password" by (auto split: if_splits)
    have ready1: "host_ready A h1" and w1: "open_on (hw_store h1)"
      using ready same1 by (simp_all add: host_ready_def host_kept_def)
    obtain h2 r2 where create: "createUser A s dn password h1 = (Ok (), h2)" and same2: "host_kept open_on h1 h2"
      and ticks2: "hw_ticks h2 = Suc (hw_ticks h1)" "hw_draws h2 = Suc (hw_draws h1)"
      and db2: "db (hw_store h2) = (db (hw_store h1))(''users'' := (db (hw_store h1) ''users'')(dn \<mapsto> r2))"
      and user: "user_of r2 = new_user A password (salt_text h1 (hw_draws h1)) (clock_text A h1 (hw_ticks h1))"
      by (rule createUser_run [OF ready1 w1 orm])
    have "addEntry A s dn attrs h = (Ok (), h2)"
      using run pw create by (simp add: wrapping_Ok)
    moreover have "salt_text h1 = salt_text h" "clock_text A h1 = clock_text A h"
      using same1 by (simp_all add: fun_eq_iff host_kept_def salt_text_def clock_text_def)
    moreover have "host_kept open_on h h2" using same1 same2 by (simp add: host_kept_def)
    moreover have "d_users (directory_of (db (hw_store h1))) = d_users (directory_of (db (hw_store h)))"
      using dir1 by simp
    ultimately show ?thesis
      using Some pw dir1 db2 user ticks1 ticks2 entry_of_new(1) [of dn L]
      by (intro doesI [where h' = h2])
        (simp_all add: handleAdd_def answers_def catch_Ok dir_def Let_def directory_of_simps)
  qed
qed

lemma does_Delete:
  assumes w: "open_on (hw_store h)"
  shows "does h (handleDelete s dn) (CDelete dn)"
proof -
  obtain h1 where del: "on_store (orm_DeleteByID (srv_orm s) ''entries'' dn) h = (Ok (db (hw_store h) ''entries'' dn \<noteq> None), h1)"
    and h1: "moves open_on db h h1 ((db (hw_store h))(''entries'' := (db (hw_store h) ''entries'')(dn := None)))"
    by (rule host_delete [OF orm w ldap_tables(1)])
  show ?thesis
  proof (cases "db (hw_store h) ''entries'' dn")
    case None
    then have "(db (hw_store h))(''entries'' := (db (hw_store h) ''entries'')(dn := None)) = db (hw_store h)"
      by (simp add: fun_upd_idem)
    with h1 have same: "host_kept open_on h h1" "dir h1 = dir h" by (simp_all add: host_kept_def moves_def dir_def)
    have "deleteEntry s dn h = (Error (Err (''entry with DN '' @ dn @ '' not found'')), h1)"
      using del None by (simp add: deleteEntry_def seq_def wrapping_def)
    with None same show ?thesis
      by (intro doesI [where h' = h1]) (simp_all add: handleDelete_def answers_def catch_Error dir_def)
  next
    case (Some r)
    have w1: "open_on (hw_store h1)" using h1 by (simp add: moves_def)
    obtain h2 where del2: "on_store (orm_DeleteByID (srv_orm s) ''users'' dn) h1 = (Ok (db (hw_store h1) ''users'' dn \<noteq> None), h2)"
      and h2: "moves open_on db h1 h2 ((db (hw_store h1))(''users'' := (db (hw_store h1) ''users'')(dn := None)))"
      by (rule host_delete [OF orm w1 ldap_tables(2)])
    have "deleteEntry s dn h = (Ok (), h2)"
      using del Some del2 by (simp add: deleteEntry_def seq_Ok [OF wrapping_Ok] catch_Ok)
    moreover have "host_kept open_on h h2" using h1 h2 by (simp add: host_kept_def moves_def)
    moreover have "dir h2 = ((directory_of (db (hw_store h)))
        \<lparr>d_entries := (d_entries (directory_of (db (hw_store h))))(dn := None),
         d_users := (d_users (directory_of (db (hw_store h))))(dn := None)\<rparr>, hw_ticks h, hw_draws h)"
      using h1 h2 by (simp add: moves_def dir_def) (simp add: directory_of_def fun_eq_iff)
    ultimately show ?thesis
      using Some by (intro doesI [where h' = h2]) (simp_all add: handleDelete_def answers_def catch_Ok dir_def)
  qed
qed

lemma does_Modify:
  assumes ready: "host_ready A h" and w: "open_on (hw_store h)" and dn: "dn \<noteq> []" and attrs: "no_number attrs"
  shows "does h (handleModify A s dn attrs) (CModify dn attrs)"
proof -
  obtain res h1 where f: "on_store (orm_FindByID (srv_orm s) ''entries'' dn) h = (Ok res, h1)"
    and h1: "moves open_on db h h1 (db (hw_store h))"
    and none: "db (hw_store h) ''entries'' dn = None \<longrightarrow> res = None"
    and some: "\<forall>r. db (hw_store h) ''entries'' dn = Some r \<longrightarrow> (\<exists>o1. res = Some o1 \<and> row_object entries_table dn r o1)"
    by (rule host_find [OF orm w ldap_tables(1) dn])
  show ?thesis
  proof (cases "db (hw_store h) ''entries'' dn")
    case None
    have same: "host_kept open_on h h1" "dir h1 = dir h" using h1 by (simp_all add: host_kept_def moves_def dir_def)
    have "modifyEntry A s dn attrs h = (Error (Err (''entry with DN '' @ dn @ '' not found'')), h1)"
      using f None none by (simp add: modifyEntry_def seq_Ok [OF wrapping_Ok])
    with None same show ?thesis
      by (intro doesI [where h' = h1]) (simp_all add: handleModify_def answers_def catch_Error dir_def)
  next
    case (Some r)
    with some obtain o1 where o1: "res = Some o1" "row_object entries_table dn r o1" by blast
    have fit: "row_fits entries_table dn r"
      using store_fits_row [OF rows_fit [OF w ldap_tables(1)] Some] .
    have mem: "''attributes'' \<in> set (tab_FieldOrder entries_table)" "''attributes'' \<noteq> ''id''"
      "''updated_at'' \<in> set (tab_FieldOrder entries_table)" "''updated_at'' \<noteq> ''id''"
      by (simp_all only: ldap_order) simp_all
    let ?now = "clock_text A h (hw_ticks h)"
    let ?r = "r(''attributes'' := VStr attrs, ''updated_at'' := VStr ?now)"
    obtain o2 where o2: "SetField o1 ''attributes'' (VStr attrs) = Ok o2"
        "row_object entries_table dn (r(''attributes'' := VStr attrs)) o2"
      by (rule SetField_row_object [OF o1(2) mem(1,2)])
    obtain o3 where o3: "SetField o2 ''updated_at'' (VStr ?now) = Ok o3" "row_object entries_table dn ?r o3"
      by (rule SetField_row_object [OF o2(2) mem(3,4)])
    have fit2: "row_fits entries_table dn ?r"
      using fit ready attrs by (auto simp: row_fits_def ldap_order ldap_fits host_ready_def clock_text_def)
    let ?h2 = "h1\<lparr>hw_ticks := Suc (hw_ticks h1)\<rparr>"
    have w2: "open_on (hw_store ?h2)" "db (hw_store ?h2) ''entries'' dn = Some r"
      using h1 Some by (simp_all add: moves_def)
    have off: "m \<notin> set (tab_FieldOrder entries_table) \<Longrightarrow> r m = ?r m" for m
      using mem by auto
    obtain h3 where u: "on_store (storage_Update (srv_orm s) o3) ?h2 = (Ok True, h3)"
      and h3: "moves open_on db ?h2 h3 ((db (hw_store ?h2))(''entries'' := (db (hw_store ?h2) ''entries'')(dn \<mapsto> ?r)))"
      by (rule host_update_row [OF orm w2(1) ldap_tables(1) w2(2) ldap_unique(1) o3(2) fit2 mem(3,4) off])
    have now: "app_rfc3339 A (hw_clock h1 (hw_ticks h1)) = ?now" using h1 by (simp add: moves_def clock_text_def)
    have "modifyEntry A s dn attrs h = (Ok (), h3)"
      using f o1(1) o2(1) o3(1) u by (simp add: modifyEntry_def seq_Ok [OF wrapping_Ok] seq_now now)
    moreover have "host_kept open_on h h3" using h1 h3 by (simp add: host_kept_def moves_def)
    moreover have "dir h3 = (directory_of ((db (hw_store h))(''entries'' := (db (hw_store h) ''entries'')(dn \<mapsto> ?r))),
        Suc (hw_ticks h), hw_draws h)"
      using h1 h3 by (simp add: moves_def dir_def)
    ultimately show ?thesis
      using Some
      by (intro doesI [where h' = h3])
        (simp_all add: handleModify_def answers_def catch_Ok dir_def directory_of_simps entry_modified)
  qed
qed

lemma does_message:
  assumes ready: "host_ready A h" and w: "open_on (hw_store h)" and m: "modifies_well message"
  shows "does h (processMessage A s message) (command_of message)"
proof (cases "Fields message")
  case Nil
  then show ?thesis
    using w by (intro doesI [where h' = h]) (simp_all add: processMessage_def command_of_def host_kept_def dir_def)
next
  case (Cons name args)
  have "dn \<noteq> []" if "args = dn # more" for dn more
    using Fields_words [of dn message] Cons that by simp
  moreover have reply: "does h (ret a) (CReply a)" for a
    using w by (intro doesI [where h' = h]) (simp_all add: host_kept_def dir_def)
  ultimately show ?thesis
    using Cons m does_Bind [OF ready w] does_Search [OF w] does_Add [OF ready w] does_Delete [OF w] does_Modify [OF ready w]
    by (cases args) (auto simp: processMessage_def command_of_def modifies_well_def Let_def)
qed

lemma does_session:
  assumes "host_ready A h" and "open_on (hw_store h)" and "\<forall>m\<in>set ms. modifies_well m"
  shows "\<exists>h'. session A s ms h =
      (Ok (fst (performs A (json_text L) s (clock_text A h) (salt_text h) (map command_of ms) (dir h))), h') \<and>
    host_kept open_on h h' \<and>
    dir h' = snd (performs A (json_text L) s (clock_text A h) (salt_text h) (map command_of ms) (dir h))"
  using assms
proof (induction ms arbitrary: h)
  case Nil
  then show ?case by (simp add: host_kept_def)
next
  case (Cons m ms)
  from does_message [OF Cons.prems(1,2), of m] Cons.prems(3) obtain h1 where
    h1: "processMessage A s m h = (Ok (fst (perform A (json_text L) s (clock_text A h) (salt_text h) (command_of m) (dir h))), h1)"
      "host_kept open_on h h1" "dir h1 = snd (perform A (json_text L) s (clock_text A h) (salt_text h) (command_of m) (dir h))"
    by (auto simp: does_def)
  have same: "clock_text A h1 = clock_text A h" "salt_text h1 = salt_text h" "host_ready A h1" "open_on (hw_store h1)"
    using h1(2) Cons.prems(1) by (simp_all add: fun_eq_iff host_kept_def clock_text_def salt_text_def host_ready_def)
  from Cons.IH [OF same(3,4)] Cons.prems(3) obtain h2 where
    h2: "session A s ms h1 = (Ok (fst (performs A (json_text L) s (clock_text A h) (salt_text h) (map command_of ms) (dir h1))), h2)"
      "host_kept open_on h1 h2" "dir h2 = snd (performs A (json_text L) s (clock_text A h) (salt_text h) (map command_of ms) (dir h1))"
    by (auto simp: same)
  have "host_kept open_on h h2" using h1(2) h2(2) by (simp add: host_kept_def)
  with h1 h2 show ?case
    by (intro exI [of _ h2]) (simp add: seq_Ok split: prod.splits)
qed

lemma find_base:
  assumes w: "open_on (hw_store h)" and orm': "orm_Storage orm1 = Some st" and base: "baseDN \<noteq> []"
  obtains h' where "host_kept open_on h h'" and "dir h' = dir h"
    and "setupInitialData A orm1 baseDN bindDN bindPW h =
      (if db (hw_store h) ''entries'' baseDN = None then setup_entries A orm1 baseDN bindDN bindPW h' else (Ok (), h'))"
proof -
  obtain res h1 where f: "on_store (orm_FindByID orm1 ''entries'' baseDN) h = (Ok res, h1)"
    and h1: "moves open_on db h h1 (db (hw_store h))"
    and none: "db (hw_store h) ''entries'' baseDN = None \<longrightarrow> res = None"
    and some: "\<forall>r. db (hw_store h) ''entries'' baseDN = Some r \<longrightarrow> (\<exists>o1. res = Some o1 \<and> row_object entries_table baseDN r o1)"
    by (rule host_find [OF orm' w ldap_tables(1) base])
  show thesis
  proof (rule that)
    show "host_kept open_on h h1" "dir h1 = dir h" using h1 by (simp_all add: host_kept_def moves_def dir_def)
    show "setupInitialData A orm1 baseDN bindDN bindPW h =
      (if db (hw_store h) ''entries'' baseDN = None then setup_entries A orm1 baseDN bindDN bindPW h1 else (Ok (), h1))"
      using f none some by (cases "db (hw_store h) ''entries'' baseDN") (auto simp: setupInitialData_def catch_Ok)
  qed
qed

lemma insert_entry_run:
  assumes w: "open_on (hw_store h)" and orm': "orm_Storage orm1 = Some st"
    and fs: "\<forall>(n, x)\<in>set fs. ToLower n \<noteq> ''id''" and row: "whole_row entries_table (map (stored_text L entries_table) fs)"
  obtains h' where "insert_entry orm1 what dn (map (\<lambda>(n, x). (n, VStr x)) fs) h = (Ok (), h')" and "host_kept open_on h h'"
    and "dir h' = ((directory_of (db (hw_store h)))\<lparr>d_entries := (d_entries (directory_of (db (hw_store h))))
      (dn \<mapsto> entry_of dn (new_row dn (map (stored_text L entries_table) fs)))\<rparr>, hw_ticks h, hw_draws h)"
proof -
  obtain data h' where ins: "on_store (orm_Insert orm1 (text_object ''entries'' dn fs)) h = (Ok (data, True), h')"
    and h': "moves open_on db h h' ((db (hw_store h))(''entries'' := (db (hw_store h) ''entries'')
      (dn \<mapsto> new_row dn (map (stored_text L entries_table) fs))))"
    by (rule insert_texts [OF w ldap_tables(1) ldap_unique(1) fs row orm'])
  have "insert_entry orm1 what dn (map (\<lambda>(n, x). (n, VStr x)) fs) h = (Ok (), h')"
    using ins by (simp add: insert_entry_def text_object_def seq_Ok [OF wrapping_Ok])
  then show thesis
    by (rule that) (use h' in \<open>simp_all add: host_kept_def moves_def dir_def directory_of_simps\<close>)
qed

lemma setup_run:
  assumes ready: "host_ready A h" and w: "open_on (hw_store h)" and orm': "orm_Storage orm1 = Some st"
    and attrs: "base_attributes baseDN = Ok attrs"
  obtains h' where "setup_entries A orm1 baseDN bindDN bindPW h = (Ok (), h')" and "host_kept open_on h h'"
    and "dir h' = (initial_directory A (json_text L) (clock_text A h) (salt_text h) baseDN attrs bindDN bindPW (dir h))"
proof -
  let ?c = "clock_text A h" and ?t = "hw_ticks h"
  have low: "\<forall>(n, x)\<in>set [(''parent_dn'', p), (''object_class'', oc), (''attributes'', a), (''created_at'', t)]. ToLower n \<noteq> ''id''"
    "\<forall>(n, x)\<in>set [(''object_class'', oc), (''attributes'', a), (''created_at'', t)]. ToLower n \<noteq> ''id''" for p oc a t :: string
    by (simp_all add: ToLower_def lower_char_def)
  have time: "time_text (?c n)" for n using ready by (simp add: host_ready_def clock_text_def)
  have step: "\<exists>h2. seq time_Now (\<lambda>now. insert_entry orm1 what dn
        [(''parent_dn'', VStr p), (''object_class'', VStr oc), (''attributes'', VStr a), (''created_at'', VStr (app_rfc3339 A now))]) h1 = (Ok (), h2) \<and>
      host_kept open_on h h2 \<and> dir h2 = (case dir h1 of (d, t, k) \<Rightarrow>
        (put_entry (json_text L) dn p oc a (?c t) d, Suc t, k))"
    if "host_kept open_on h h1" for h1 what dn p oc a
  proof -
    have c1: "app_rfc3339 A (hw_clock h1 (hw_ticks h1)) = ?c (hw_ticks h1)"
      using that by (simp add: host_kept_def clock_text_def)
    let ?h1 = "h1\<lparr>hw_ticks := Suc (hw_ticks h1)\<rparr>"
    have w1: "open_on (hw_store ?h1)" using that by (simp add: host_kept_def)
    obtain h2 where ins: "insert_entry orm1 what dn (map (\<lambda>(n, x). (n, VStr x))
        [(''parent_dn'', p), (''object_class'', oc), (''attributes'', a), (''created_at'', ?c (hw_ticks h1))]) ?h1 = (Ok (), h2)"
      and s2: "host_kept open_on ?h1 h2"
      and d2: "dir h2 = ((directory_of (db (hw_store ?h1)))\<lparr>d_entries := (d_entries (directory_of (db (hw_store ?h1))))
        (dn \<mapsto> entry_of dn (new_row dn (map (stored_text L entries_table)
          [(''parent_dn'', p), (''object_class'', oc), (''attributes'', a), (''created_at'', ?c (hw_ticks h1))])))\<rparr>,
        hw_ticks ?h1, hw_draws ?h1)"
      by (rule insert_entry_run [OF w1 orm' low(1) whole_entry(1) [OF texts time]])
    have "insert_entry orm1 what dn [(''parent_dn'', VStr p), (''object_class'', VStr oc), (''attributes'', VStr a),
        (''created_at'', VStr (?c (hw_ticks h1)))] ?h1 = (Ok (), h2)" using ins by simp
    moreover have "host_kept open_on h h2" using that s2 by (simp add: host_kept_def)
    moreover have "dir h2 = (case dir h1 of (d, t, k) \<Rightarrow> (put_entry (json_text L) dn p oc a (?c t) d, Suc t, k))"
      using d2 unfolding entry_of_new by (simp add: dir_def put_entry_def)
    ultimately show ?thesis
      using c1 by (intro exI [of _ h2]) (simp add: seq_now)
  qed
  let ?h1 = "h\<lparr>hw_ticks := Suc ?t\<rparr>"
  have w1: "open_on (hw_store ?h1)" using w by simp
  obtain h2 where i2: "insert_entry orm1 ''base DN'' baseDN (map (\<lambda>(n, x). (n, VStr x))
        [(''object_class'', ''organization''), (''attributes'', attrs), (''created_at'', ?c ?t)]) ?h1 = (Ok (), h2)"
    and s2: "host_kept open_on ?h1 h2"
    and d2: "dir h2 = ((directory_of (db (hw_store ?h1)))\<lparr>d_entries := (d_entries (directory_of (db (hw_store ?h1))))
      (baseDN \<mapsto> entry_of baseDN (new_row baseDN (map (stored_text L entries_table)
        [(''object_class'', ''organization''), (''attributes'', attrs), (''created_at'', ?c ?t)])))\<rparr>,
      hw_ticks ?h1, hw_draws ?h1)"
    by (rule insert_entry_run [OF w1 orm' low(2) whole_entry(2) [OF texts time]])
  have ready2: "host_ready A h2" and w2: "open_on (hw_store h2)"
    using ready s2 by (simp_all add: host_ready_def host_kept_def)
  have orm2: "orm_Storage (srv_orm (NewLDAPServer 0 [] [] [] orm1 False)) = Some st"
    using orm' by (simp add: NewLDAPServer_def)
  obtain h3 r where i3: "createUser A (NewLDAPServer 0 [] [] [] orm1 False) bindDN bindPW h2 = (Ok (), h3)"
    and s3: "host_kept open_on h2 h3" and t3: "hw_ticks h3 = Suc (hw_ticks h2)" "hw_draws h3 = Suc (hw_draws h2)"
    and db3: "db (hw_store h3) = (db (hw_store h2))(''users'' := (db (hw_store h2) ''users'')(bindDN \<mapsto> r))"
    and u3: "user_of r = new_user A bindPW (salt_text h2 (hw_draws h2)) (clock_text A h2 (hw_ticks h2))"
    by (rule createUser_run [OF ready2 w2 orm2])
  have w3: "wrapping ''failed to create admin user: '' (createUser A (NewLDAPServer 0 [] [] [] orm1 False) bindDN bindPW) h2 = (Ok (), h3)"
    using i3 by (rule wrapping_Ok)
  have same3: "host_kept open_on h h3" using s2 s3 by (simp add: host_kept_def)
  have streams: "salt_text h2 = salt_text h" "clock_text A h2 = ?c"
    using s2 by (simp_all add: fun_eq_iff host_kept_def salt_text_def clock_text_def)
  have d3: "dir h3 = ((put_base (json_text L) baseDN attrs (?c ?t) (directory_of (db (hw_store h))))
      \<lparr>d_users := (d_users (directory_of (db (hw_store h))))(bindDN \<mapsto> new_user A bindPW (salt_text h (hw_draws h)) (?c (Suc ?t)))\<rparr>,
      Suc (Suc ?t), Suc (hw_draws h))"
    using d2 t3 u3 db3 streams unfolding entry_of_new
    by (simp add: dir_def directory_of_simps put_base_def put_entry_def)
  from step [OF same3] obtain h4 where
    h4: "seq time_Now (\<lambda>now. insert_entry orm1 ''admin entry'' bindDN
        [(''parent_dn'', VStr baseDN), (''object_class'', VStr ''person''), (''attributes'', VStr admin_attributes),
         (''created_at'', VStr (app_rfc3339 A now))]) h3 = (Ok (), h4)" "host_kept open_on h h4"
      "dir h4 = (case dir h3 of (d, t, k) \<Rightarrow> (put_entry (json_text L) bindDN baseDN ''person'' admin_attributes (?c t) d, Suc t, k))"
    by blast
  from step [OF h4(2)] obtain h5 where
    h5: "seq time_Now (\<lambda>now. insert_entry orm1 ''users OU'' (''ou=users,'' @ baseDN)
        [(''parent_dn'', VStr baseDN), (''object_class'', VStr ''organizationalUnit''), (''attributes'', VStr (ou_attributes ''users'')),
         (''created_at'', VStr (app_rfc3339 A now))]) h4 = (Ok (), h5)" "host_kept open_on h h5"
      "dir h5 = (case dir h4 of (d, t, k) \<Rightarrow> (put_entry (json_text L) (''ou=users,'' @ baseDN) baseDN ''organizationalUnit'' (ou_attributes ''users'') (?c t) d, Suc t, k))"
    by blast
  from step [OF h5(2)] obtain h6 where
    h6: "seq time_Now (\<lambda>now. insert_entry orm1 ''groups OU'' (''ou=groups,'' @ baseDN)
        [(''parent_dn'', VStr baseDN), (''object_class'', VStr ''organizationalUnit''), (''attributes'', VStr (ou_attributes ''groups'')),
         (''created_at'', VStr (app_rfc3339 A now))]) h5 = (Ok (), h6)" "host_kept open_on h h6"
      "dir h6 = (case dir h5 of (d, t, k) \<Rightarrow> (put_entry (json_text L) (''ou=groups,'' @ baseDN) baseDN ''organizationalUnit'' (ou_attributes ''groups'') (?c t) d, Suc t, k))"
    by blast
  have now: "app_rfc3339 A (hw_clock h (hw_ticks h)) = ?c ?t" by (simp add: clock_text_def)
  have "setup_entries A orm1 baseDN bindDN bindPW h = (Ok (), h6)"
    using i2 w3 h4(1) h5(1) h6(1) now
    unfolding setup_entries_def attrs seq_pure_Ok by (simp add: seq_now seq_Ok)
  moreover have "dir h6 = initial_directory A (json_text L) ?c (salt_text h) baseDN attrs bindDN bindPW (dir h)"
    using d3 h4(3) h5(3) h6(3) by (simp add: initial_directory_def dir_def Let_def eval_nat_numeral)
  ultimately show thesis using h6(2) that by blast
qed

end

end
