(* ===== verification/LdapWebRun.thy ===== *)
theory LdapWebRun
  imports LdapWeb LdapRun
begin

text \<open>
  What a request to the web interface answers and does, given over the same abstract directory as the
  text protocol, and that the handlers over a storage of tables implement it. Both interfaces share
  one server: an event is a message of the protocol or a request.
\<close>

section \<open>Requests over the directory\<close>

definition listed :: "directory \<Rightarrow> string list \<Rightarrow> LDAPEntry list" where
  "listed d dns = concat (map (\<lambda>dn. case look (d_entries d) dn of None \<Rightarrow> [] | Some e \<Rightarrow> [e]) dns)"

definition user_line :: "LDAPEntry \<Rightarrow> LDAPEntry" where
  "user_line e = e\<lparr>le_ParentDN := [], le_UpdatedAt := []\<rparr>"

text \<open>A form: whether it is shown, or sent in.\<close>

definition on_method :: "web_request \<Rightarrow> 'a \<Rightarrow> 'a \<Rightarrow> 'a \<Rightarrow> 'a" where
  "on_method r shown sent other = (if wq_Method r = ''GET'' then shown else if wq_Method r = ''POST'' then sent else other)"

definition removal :: "string \<Rightarrow> string \<Rightarrow> directory \<Rightarrow> string \<Rightarrow> web_answer" where
  "removal what page d dn = (case d_entries d dn of
      None \<Rightarrow> WError (''Failed to delete '' @ what @ '': entry with DN '' @ dn @ '' not found'') 500
    | Some e \<Rightarrow> WRedirect page)"

definition web_perform :: "applib \<Rightarrow> (string \<Rightarrow> string) \<Rightarrow> 'w WebServer \<Rightarrow> (nat \<Rightarrow> string) \<Rightarrow> (nat \<Rightarrow> string) \<Rightarrow> web_request \<Rightarrow>
    directory \<times> nat \<times> nat \<Rightarrow> web_answer \<times> directory \<times> nat \<times> nat" where
  "web_perform A jt ws now salt r st =
     (let s = ws_ldapServer ws; d = fst st; val = wq_FormValue r; dn = val ''dn'';
          run = perform A jt s now salt;
          remove = (\<lambda>what page.
            if wq_Method r \<noteq> ''POST'' then (WError ''Method not allowed'' 405, st)
            else if dn = [] then (WError ''DN required'' 400, st)
            else (removal what page d dn, snd (run (CDelete dn) st)))
      in if wq_Path r = ''/static'' then (WRedirect ''/static/'', st)
      else if wq_Path r = ''/users'' then
        (if wq_Method r = ''GET'' then WPage (UsersPage (map user_line (listed d [''ou=users,'' @ srv_baseDN s]))) else WNothing, st)
      else if wq_Path r = ''/users/add'' then
        on_method r (WPage AddUserPage, st)
          (if val ''cn'' = [] \<or> val ''givenName'' = [] \<or> val ''sn'' = [] \<or> val ''userPassword'' = []
           then (WError ''Required fields missing'' 400, st)
           else (WRedirect ''/users'', snd (run (CAdd (web_user_dn ws r) (web_attributes r)) st)))
          (WNothing, st)
      else if wq_Path r = ''/users/delete'' then remove ''user'' ''/users''
      else if wq_Path r = ''/entries'' then (WPage (EntriesPage (listed d (commonDNs s))), st)
      else if wq_Path r = ''/entries/add'' then
        on_method r (WPage (AddEntryPage (srv_baseDN s)), st)
          (if dn = [] \<or> val ''objectClass'' = [] then (WError ''DN and object class are required'' 400, st)
           else (WRedirect ''/entries'', snd (run (CAdd dn (''objectClass='' @ val ''objectClass'' @ '' '' @ val ''attributes'')) st)))
          (WNothing, st)
      else if wq_Path r = ''/entries/delete'' then remove ''entry'' ''/entries''
      else if wq_Path r = ''/search'' then
        on_method r (WPage (SearchPage (srv_baseDN s)), st)
          (WPage (SearchResults (val ''baseDN'') (val ''filter'')
             (if val ''filter'' = [] \<or> Contains (val ''filter'') ''objectClass'' then listed d [val ''baseDN''] else []) []), st)
          (WNothing, st)
      else if wq_Path r = ''/auth'' then
        on_method r (WPage (AuthPage (srv_bindDN s)), st)
          (case run (CBind dn (val ''password'')) st of
             (a, st1) \<Rightarrow> (WPage (AuthResult dn (TrimSpace a) (Contains a ''OK:'')), st1))
          (WNothing, st)
      else if HasPrefix (wq_Path r) ''/static/'' then
        (if wq_Path r = ''/static/style.css'' then WStyle else WNotFound, st)
      else (WPage (HomePage (srv_baseDN s) (srv_bindDN s) (srv_port s) (ws_port ws)), st))"

text \<open>A login form that names an entry; the storage's refusal of the empty name has a text of its own.\<close>

definition auth_named :: "web_request \<Rightarrow> bool" where
  "auth_named r \<longleftrightarrow> (wq_Path r = ''/auth'' \<longrightarrow> wq_FormValue r ''dn'' \<noteq> [])"

text \<open>A run of messages and requests.\<close>

definition event_well :: "ldap_event \<Rightarrow> bool" where
  "event_well ev \<longleftrightarrow> (case ev of Message m \<Rightarrow> modifies_well m | Request r \<Rightarrow> auth_named r)"

definition event_perform :: "applib \<Rightarrow> (string \<Rightarrow> string) \<Rightarrow> 'w WebServer \<Rightarrow> (nat \<Rightarrow> string) \<Rightarrow> (nat \<Rightarrow> string) \<Rightarrow> ldap_event \<Rightarrow>
    directory \<times> nat \<times> nat \<Rightarrow> ldap_answer \<times> directory \<times> nat \<times> nat" where
  "event_perform A jt ws now salt ev st = (case ev of
      Message m \<Rightarrow> apfst Reply (perform A jt (ws_ldapServer ws) now salt (command_of m) st)
    | Request r \<Rightarrow> apfst Response (web_perform A jt ws now salt r st))"

fun events_perform :: "applib \<Rightarrow> (string \<Rightarrow> string) \<Rightarrow> 'w WebServer \<Rightarrow> (nat \<Rightarrow> string) \<Rightarrow> (nat \<Rightarrow> string) \<Rightarrow> ldap_event list \<Rightarrow>
    directory \<times> nat \<times> nat \<Rightarrow> ldap_answer list \<times> directory \<times> nat \<times> nat" where
  "events_perform A jt ws now salt [] st = ([], st)"
| "events_perform A jt ws now salt (ev # evs) st = (case event_perform A jt ws now salt ev st of
      (a, st1) \<Rightarrow> (case events_perform A jt ws now salt evs st1 of (as, st2) \<Rightarrow> (a # as, st2)))"

section \<open>The handlers\<close>

lemma users_entry_row:
  "row_object entries_table i r o1 \<Longrightarrow> row_fits entries_table i r \<Longrightarrow> users_entry o1 = Ok (user_line (entry_of i r))"
proof -
  assume o1: "row_object entries_table i r o1" and r: "row_fits entries_table i r"
  have "ldap_entry o1 = Ok (entry_of i r)" by (rule ldap_entry_row [OF o1 r])
  moreover have "obj_ID o1 = i" by (rule row_object_id [OF o1])
  ultimately show "users_entry o1 = Ok (user_line (entry_of i r))"
    by (auto simp: ldap_entry_def users_entry_def user_line_def entry_of_def)
qed

lemma listed_simps: "listed d [] = []" "listed d (dn # dns) = listed d [dn] @ listed d dns"
  by (simp_all add: listed_def)

text \<open>What a handler of the protocol answers tells how its operation ended.\<close>

lemma answers_cases:
  assumes "answers m what f h = (Ok a, h')"
  obtains x where "m h = (Ok x, h')" and "a = f x"
  | e where "m h = (Error e, h')" and "a = ''ERROR: '' @ what @ '' failed: '' @ error_text e @ eol"
  using assms by (cases "m h" rule: prod.exhaust; cases "fst (m h)") (auto simp: answers_def catch_def ret_def)

lemma perform_add_answer: "fst (perform A jt s now salt (CAdd dn attrs) st) = ''OK: Entry added'' @ eol"
  by (cases st) (simp add: Let_def split: option.splits)

lemma ldap_serve_Cons:
  "ldap_serve A ws (ev # evs) = seq (ldap_serve A ws [ev]) (\<lambda>as. seq (ldap_serve A ws evs) (\<lambda>bs. ret (as @ bs)))"
proof -
  have "seq (Pair (Ok [a])) f = f [a]" for a :: ldap_answer and f :: "ldap_answer list \<Rightarrow> ('a host, ldap_answer list) go"
    by (rule ext) (simp add: seq_def)
  then show ?thesis by (cases ev) (simp_all add: seq_assoc)
qed

context ldap_store
begin

definition web_does :: "'w host \<Rightarrow> ('w host, web_answer) go \<Rightarrow> web_answer \<times> directory \<times> nat \<times> nat \<Rightarrow> bool" where
  "web_does h m res \<longleftrightarrow> (\<exists>h'. m h = (Ok (fst res), h') \<and> host_kept open_on h h' \<and> dir h' = snd res)"

lemma web_doesI: "m h = (Ok a, h') \<Longrightarrow> host_kept open_on h h' \<Longrightarrow> web_does h m (a, dir h')"
  by (simp add: web_does_def)

lemma web_does_ret: "open_on (hw_store h) \<Longrightarrow> web_does h (ret a) (a, dir h)"
  by (rule web_doesI [OF _ same_refl]) simp_all

lemma entries_named_run:
  assumes w: "open_on (hw_store h)"
    and f: "\<And>o1 r. row_object entries_table dn r o1 \<Longrightarrow> row_fits entries_table dn r \<Longrightarrow> f o1 = Ok (g (entry_of dn r))"
  obtains h' where "entries_named f s dn h = (Ok (map g (listed (directory_of (db (hw_store h))) [dn])), h')"
    and "host_kept open_on h h'" and "dir h' = dir h"
proof -
  obtain a h1 where f1: "on_store (orm_FindByID (srv_orm s) ''entries'' dn) h = (a, h1)"
    and h1: "moves open_on db h h1 (db (hw_store h))" and empty: "dn = [] \<longrightarrow> (\<exists>e. a = Error e)"
    and none: "dn \<noteq> [] \<and> db (hw_store h) ''entries'' dn = None \<longrightarrow> a = Ok None"
    and some: "\<forall>r. dn \<noteq> [] \<and> db (hw_store h) ''entries'' dn = Some r \<longrightarrow>
      (\<exists>o1. a = Ok (Some o1) \<and> row_object entries_table dn r o1)"
    by (rule host_look [OF orm w ldap_tables(1)])
  have same: "host_kept open_on h h1" "dir h1 = dir h" using h1 by (simp_all add: host_kept_def moves_def dir_def)
  have "entries_named f s dn h = (Ok (map g (listed (directory_of (db (hw_store h))) [dn])), h1)"
  proof (cases "dn = []")
    case True
    with empty f1 show ?thesis by (auto simp: entries_named_def catch_Error listed_def look_def)
  next
    case dn: False
    show ?thesis
    proof (cases "db (hw_store h) ''entries'' dn")
      case None
      with dn none f1 show ?thesis by (simp add: entries_named_def catch_Ok listed_def look_def)
    next
      case (Some r)
      with some dn obtain o1 where o1: "a = Ok (Some o1)" "row_object entries_table dn r o1" by blast
      from f [OF o1(2) store_fits_row [OF rows_fit [OF w ldap_tables(1)] Some]] f1 o1(1) dn Some
      show ?thesis by (simp add: entries_named_def catch_Ok listed_def look_def)
    qed
  qed
  with same show thesis by (rule that [rotated])
qed

lemma entries_loop_run:
  "open_on (hw_store h) \<Longrightarrow> \<exists>h'. entries_loop s dns acc h = (Ok (acc @ listed (directory_of (db (hw_store h))) dns), h') \<and>
    host_kept open_on h h' \<and> dir h' = dir h"
proof (induction dns arbitrary: acc h)
  case Nil
  then show ?case by (simp add: listed_simps same_refl)
next
  case (Cons dn dns)
  obtain h1 where h1: "entries_named ldap_entry s dn h = (Ok (map (\<lambda>e. e) (listed (directory_of (db (hw_store h))) [dn])), h1)"
      "host_kept open_on h h1" "dir h1 = dir h"
    by (rule entries_named_run [OF Cons.prems, where g = "\<lambda>e. e"]) (rule ldap_entry_row)
  have w1: "open_on (hw_store h1)" "directory_of (db (hw_store h1)) = directory_of (db (hw_store h))"
    using h1(2,3) by (simp_all add: host_kept_def dir_def)
  from Cons.IH [OF w1(1)] obtain h2 where
    h2: "entries_loop s dns (acc @ listed (directory_of (db (hw_store h))) [dn]) h1 =
        (Ok ((acc @ listed (directory_of (db (hw_store h))) [dn]) @ listed (directory_of (db (hw_store h))) dns), h2)"
      "host_kept open_on h1 h2" "dir h2 = dir h1"
    unfolding w1(2) by blast
  have "entries_loop s (dn # dns) acc h = (Ok (acc @ listed (directory_of (db (hw_store h))) (dn # dns)), h2)"
    using h1(1) h2(1) listed_simps(2) [of "directory_of (db (hw_store h))" dn dns] by (simp add: seq_Ok)
  with h1(2,3) h2(2,3) same_trans show ?case by metis
qed

lemma addEntry_run:
  assumes "host_ready A h" and "open_on (hw_store h)"
  obtains h' where "addEntry A s dn attrs h = (Ok (), h')" and "host_kept open_on h h'"
    and "dir h' = snd (perform A (json_text L) s (clock_text A h) (salt_text h) (CAdd dn attrs) (dir h))"
proof -
  from does_Add [OF assms] obtain h' where
    h': "answers (addEntry A s dn attrs) ''Add'' (\<lambda>_. ''OK: Entry added'' @ eol) h = (Ok (''OK: Entry added'' @ eol), h')"
      "host_kept open_on h h'" "dir h' = snd (perform A (json_text L) s (clock_text A h) (salt_text h) (CAdd dn attrs) (dir h))"
    unfolding does_def handleAdd_def perform_add_answer by blast
  from h'(1) have "addEntry A s dn attrs h = (Ok (), h')"
    by (rule answers_cases) simp_all
  then show thesis by (rule that [OF _ h'(2,3)])
qed

lemma deleteEntry_run:
  assumes w: "open_on (hw_store h)"
  obtains a h' where "deleteEntry s dn h = (a, h')" and "host_kept open_on h h'"
    and "dir h' = snd (perform A (json_text L) s (clock_text A h) (salt_text h) (CDelete dn) (dir h))"
    and "case d_entries (fst (dir h)) dn of
        None \<Rightarrow> (\<exists>e. a = Error e \<and> error_text e = ''entry with DN '' @ dn @ '' not found'') | Some e \<Rightarrow> a = Ok ()"
proof -
  let ?p = "perform A (json_text L) s (clock_text A h) (salt_text h) (CDelete dn) (dir h)"
  from does_Delete [OF w] obtain h' where
    h': "answers (deleteEntry s dn) ''Delete'' (\<lambda>_. ''OK: Entry deleted'' @ eol) h = (Ok (fst ?p), h')"
      "host_kept open_on h h'" "dir h' = snd ?p"
    unfolding does_def handleDelete_def by blast
  have p: "fst ?p = (case d_entries (fst (dir h)) dn of
      None \<Rightarrow> ''ERROR: Delete failed: entry with DN '' @ dn @ '' not found'' @ eol | Some e \<Rightarrow> ''OK: Entry deleted'' @ eol)"
    by (simp add: dir_def split: option.splits)
  from h'(1) show thesis
  proof (rule answers_cases)
    fix x assume x: "deleteEntry s dn h = (Ok x, h')" "fst ?p = ''OK: Entry deleted'' @ eol"
    then obtain e where "d_entries (fst (dir h)) dn = Some e"
      using p unfolding x(2) by (cases "d_entries (fst (dir h)) dn") simp_all
    with x(1) show thesis by (intro that [OF _ h'(2,3)]) simp_all
  next
    fix e assume e: "deleteEntry s dn h = (Error e, h')" "fst ?p = ''ERROR: '' @ ''Delete'' @ '' failed: '' @ error_text e @ eol"
    have "d_entries (fst (dir h)) dn = None"
      using p unfolding e(2) by (cases "d_entries (fst (dir h)) dn") simp_all
    moreover from this p have "error_text e @ eol = (''entry with DN '' @ dn @ '' not found'') @ eol"
      unfolding e(2) by simp
    then have "error_text e = ''entry with DN '' @ dn @ '' not found''" by (rule iffD1 [OF append_same_eq])
    ultimately show thesis by (intro that [OF e(1) h'(2,3)]) simp
  qed
qed

lemma does_delete_form:
  assumes w: "open_on (hw_store h)" and ws: "ws_ldapServer ws = s"
  shows "web_does h (delete_form what page ws r)
    (if wq_Method r \<noteq> ''POST'' then (WError ''Method not allowed'' 405, dir h)
     else if wq_FormValue r ''dn'' = [] then (WError ''DN required'' 400, dir h)
     else (removal what page (fst (dir h)) (wq_FormValue r ''dn''),
       snd (perform A (json_text L) s (clock_text A h) (salt_text h) (CDelete (wq_FormValue r ''dn'')) (dir h))))"
proof (cases "wq_Method r = ''POST'' \<and> wq_FormValue r ''dn'' \<noteq> []")
  case False
  then show ?thesis using web_does_ret [OF w] by (auto simp: delete_form_def)
next
  case True
  obtain a h' where del: "deleteEntry s (wq_FormValue r ''dn'') h = (a, h')" and same: "host_kept open_on h h'"
    and d: "dir h' = snd (perform A (json_text L) s (clock_text A h) (salt_text h) (CDelete (wq_FormValue r ''dn'')) (dir h))"
    and a: "case d_entries (fst (dir h)) (wq_FormValue r ''dn'') of
        None \<Rightarrow> (\<exists>e. a = Error e \<and> error_text e = ''entry with DN '' @ wq_FormValue r ''dn'' @ '' not found'') | Some e \<Rightarrow> a = Ok ()"
    by (rule deleteEntry_run [OF w])
  have "delete_form what page ws r h = (Ok (removal what page (fst (dir h)) (wq_FormValue r ''dn'')), h')"
  proof (cases "d_entries (fst (dir h)) (wq_FormValue r ''dn'')")
    case None
    with a obtain e where e: "a = Error e" "error_text e = ''entry with DN '' @ wq_FormValue r ''dn'' @ '' not found''"
      by auto
    show ?thesis
      unfolding removal_def None using True del [unfolded e(1)] e(2) by (simp add: delete_form_def ws catch_Error)
  next
    case (Some e)
    with a have "a = Ok ()" by simp
    from del [unfolded this] show ?thesis
      unfolding removal_def Some using True by (simp add: delete_form_def ws catch_Ok)
  qed
  with same d True show ?thesis by (simp add: web_does_def)
qed

lemma does_add_form:
  assumes "host_ready A h" and "open_on (hw_store h)"
  shows "web_does h (catch (addEntry A s dn attrs) e (\<lambda>_. ret (WRedirect page)))
    (WRedirect page, snd (perform A (json_text L) s (clock_text A h) (salt_text h) (CAdd dn attrs) (dir h)))"
proof -
  obtain h' where h': "addEntry A s dn attrs h = (Ok (), h')" "host_kept open_on h h'"
    "dir h' = snd (perform A (json_text L) s (clock_text A h) (salt_text h) (CAdd dn attrs) (dir h))"
    by (rule addEntry_run [OF assms])
  then show ?thesis by (simp add: web_does_def catch_Ok)
qed

lemma does_pages:
  assumes w: "open_on (hw_store h)" and ws: "ws_ldapServer ws = s"
  shows "web_does h (showUsers ws)
      (WPage (UsersPage (map user_line (listed (fst (dir h)) [''ou=users,'' @ srv_baseDN s]))), dir h)"
    and "web_does h (handleEntries ws) (WPage (EntriesPage (listed (fst (dir h)) (commonDNs s))), dir h)"
    and "web_does h (processSearch ws r) (WPage (SearchResults (wq_FormValue r ''baseDN'') (wq_FormValue r ''filter'')
      (if wq_FormValue r ''filter'' = [] \<or> Contains (wq_FormValue r ''filter'') ''objectClass''
       then listed (fst (dir h)) [wq_FormValue r ''baseDN''] else []) []), dir h)"
proof -
  let ?d = "directory_of (db (hw_store h))"
  have d: "fst (dir h) = ?d" by (simp add: dir_def)
  obtain h1 where "entries_named users_entry s (''ou=users,'' @ srv_baseDN s) h =
      (Ok (map user_line (listed ?d [''ou=users,'' @ srv_baseDN s])), h1)" "host_kept open_on h h1" "dir h1 = dir h"
    by (rule entries_named_run [OF w]) (rule users_entry_row)
  then show "web_does h (showUsers ws)
      (WPage (UsersPage (map user_line (listed (fst (dir h)) [''ou=users,'' @ srv_baseDN s]))), dir h)"
    unfolding showUsers_def web_does_def ws Let_def d by (simp add: seq_Ok)
  from entries_loop_run [OF w, of "commonDNs s" "[]"]
  show "web_does h (handleEntries ws) (WPage (EntriesPage (listed (fst (dir h)) (commonDNs s))), dir h)"
    unfolding handleEntries_def web_does_def ws d by (auto simp: seq_Ok)
  let ?b = "wq_FormValue r ''baseDN''" and ?f = "wq_FormValue r ''filter''"
  let ?es = "if ?f = [] \<or> Contains ?f ''objectClass'' then listed ?d [?b] else []"
  obtain h2 where h2: "entries_named ldap_entry s ?b h = (Ok (map (\<lambda>e. e) (listed ?d [?b])), h2)"
      "host_kept open_on h h2" "dir h2 = dir h"
    by (rule entries_named_run [OF w, where g = "\<lambda>e. e"]) (rule ldap_entry_row)
  have "\<exists>h'. searchEntries s ?b ?f h = (Ok ?es, h') \<and> host_kept open_on h h' \<and> dir h' = dir h"
  proof (cases "?f = [] \<or> Contains ?f ''objectClass''")
    case True
    then have "searchEntries s ?b ?f = entries_named ldap_entry s ?b"
      by (simp add: searchEntries_def entries_named_def)
    with h2 True show ?thesis by simp
  next
    case False
    then show ?thesis using w by (auto simp: searchEntries_def same_refl)
  qed
  then obtain h3 where "searchEntries s ?b ?f h = (Ok ?es, h3)" "host_kept open_on h h3" "dir h3 = dir h" by blast
  then show "web_does h (processSearch ws r) (WPage (SearchResults ?b ?f
      (if ?f = [] \<or> Contains ?f ''objectClass'' then listed (fst (dir h)) [?b] else []) []), dir h)"
    unfolding processSearch_def web_does_def ws Let_def d by (simp add: catch_Ok)
qed

lemma does_auth:
  assumes ready: "host_ready A h" and w: "open_on (hw_store h)" and ws: "ws_ldapServer ws = s" and dn: "wq_FormValue r ''dn'' \<noteq> []"
  shows "web_does h (processAuth A ws r)
    (case perform A (json_text L) s (clock_text A h) (salt_text h) (CBind (wq_FormValue r ''dn'') (wq_FormValue r ''password'')) (dir h) of
      (a, st1) \<Rightarrow> (WPage (AuthResult (wq_FormValue r ''dn'') (TrimSpace a) (Contains a ''OK:'')), st1))"
  using does_Bind [OF ready w dn, of "wq_FormValue r ''password''"]
  unfolding does_def web_does_def processAuth_def ws Let_def
  by (auto simp: seq_Ok split: prod.split)

lemma does_request:
  assumes ready: "host_ready A h" and w: "open_on (hw_store h)" and ws: "ws_ldapServer ws = s" and r: "auth_named r"
  shows "web_does h (web_serve A ws r) (web_perform A (json_text L) ws (clock_text A h) (salt_text h) r (dir h))"
proof -
  note ret = web_does_ret [OF w]
  consider "wq_Path r = ''/static''" | "wq_Path r = ''/users''" | "wq_Path r = ''/users/add''" | "wq_Path r = ''/users/delete''"
    | "wq_Path r = ''/entries''" | "wq_Path r = ''/entries/add''" | "wq_Path r = ''/entries/delete''"
    | "wq_Path r = ''/search''" | "wq_Path r = ''/auth''"
    | "wq_Path r \<notin> {''/static'', ''/users'', ''/users/add'', ''/users/delete'', ''/entries'', ''/entries/add'',
        ''/entries/delete'', ''/search'', ''/auth''}"
    by blast
  then show ?thesis
  proof cases
    case 1
    then show ?thesis using ret by (simp add: web_serve_def web_perform_def)
  next
    case 2
    then show ?thesis using ret does_pages(1) [OF w ws]
      by (simp add: web_serve_def web_perform_def web_handleUsers_def Let_def ws)
  next
    case 3
    then show ?thesis using ret does_add_form [OF ready w]
      by (simp add: web_serve_def web_perform_def handleAddUser_def on_method_def processAddUser_def Let_def ws)
  next
    case 4
    then show ?thesis using does_delete_form [OF w ws, of "''user''" "''/users''" r]
      by (simp add: web_serve_def web_perform_def handleDeleteUser_def Let_def ws)
  next
    case 5
    then show ?thesis using does_pages(2) [OF w ws] by (simp add: web_serve_def web_perform_def Let_def ws)
  next
    case 6
    then show ?thesis using ret does_add_form [OF ready w]
      by (simp add: web_serve_def web_perform_def handleAddEntry_def on_method_def processAddEntry_def Let_def ws)
  next
    case 7
    then show ?thesis using does_delete_form [OF w ws, of "''entry''" "''/entries''" r]
      by (simp add: web_serve_def web_perform_def handleDeleteEntry_def Let_def ws)
  next
    case 8
    then show ?thesis using ret does_pages(3) [OF w ws, of r]
      by (simp add: web_serve_def web_perform_def web_handleSearch_def on_method_def Let_def ws)
  next
    case 9
    then show ?thesis using ret does_auth [OF ready w ws, of r] r
      by (simp add: web_serve_def web_perform_def handleAuth_def on_method_def auth_named_def Let_def ws)
  next
    case 10
    then show ?thesis using ret
      by (simp add: web_serve_def web_perform_def web_handleStatic_def web_handleHome_def Let_def ws)
  qed
qed

lemma does_event:
  assumes ready: "host_ready A h" and w: "open_on (hw_store h)" and ws: "ws_ldapServer ws = s" and ev: "event_well ev"
  obtains h' where "ldap_serve A ws [ev] h = (Ok [fst (event_perform A (json_text L) ws (clock_text A h) (salt_text h) ev (dir h))], h')"
    and "host_kept open_on h h'" and "dir h' = snd (event_perform A (json_text L) ws (clock_text A h) (salt_text h) ev (dir h))"
proof (cases ev)
  case (Message m)
  with does_message [OF ready w, of m] ev obtain h' where
    "processMessage A s m h = (Ok (fst (perform A (json_text L) s (clock_text A h) (salt_text h) (command_of m) (dir h))), h')"
    "host_kept open_on h h'" "dir h' = snd (perform A (json_text L) s (clock_text A h) (salt_text h) (command_of m) (dir h))"
    by (auto simp: does_def event_well_def)
  then show thesis using that Message ws by (simp add: seq_Ok event_perform_def)
next
  case (Request r)
  with does_request [OF ready w ws, of r] ev obtain h' where
    "web_serve A ws r h = (Ok (fst (web_perform A (json_text L) ws (clock_text A h) (salt_text h) r (dir h))), h')"
    "host_kept open_on h h'" "dir h' = snd (web_perform A (json_text L) ws (clock_text A h) (salt_text h) r (dir h))"
    by (auto simp: web_does_def event_well_def)
  then show thesis using that Request by (simp add: seq_Ok event_perform_def)
qed

lemma does_events:
  assumes "ws_ldapServer ws = s" and "host_ready A h" and "open_on (hw_store h)" and "\<forall>ev\<in>set evs. event_well ev"
  shows "\<exists>h'. ldap_serve A ws evs h =
      (Ok (fst (events_perform A (json_text L) ws (clock_text A h) (salt_text h) evs (dir h))), h') \<and>
    host_kept open_on h h' \<and>
    dir h' = snd (events_perform A (json_text L) ws (clock_text A h) (salt_text h) evs (dir h))"
  using assms(2-4)
proof (induction evs arbitrary: h)
  case Nil
  then show ?case by (simp add: host_kept_def)
next
  case (Cons ev evs)
  have ev: "event_well ev" using Cons.prems(3) by simp
  obtain h1 where h1:
      "ldap_serve A ws [ev] h = (Ok [fst (event_perform A (json_text L) ws (clock_text A h) (salt_text h) ev (dir h))], h1)"
      "host_kept open_on h h1" "dir h1 = snd (event_perform A (json_text L) ws (clock_text A h) (salt_text h) ev (dir h))"
    by (rule does_event [OF Cons.prems(1,2) assms(1) ev])
  have same: "clock_text A h1 = clock_text A h" "salt_text h1 = salt_text h" "host_ready A h1" "open_on (hw_store h1)"
    using h1(2) Cons.prems(1) by (simp_all add: fun_eq_iff host_kept_def clock_text_def salt_text_def host_ready_def)
  from Cons.IH [OF same(3,4)] Cons.prems(3) obtain h2 where
    h2: "ldap_serve A ws evs h1 = (Ok (fst (events_perform A (json_text L) ws (clock_text A h) (salt_text h) evs (dir h1))), h2)"
      "host_kept open_on h1 h2" "dir h2 = snd (events_perform A (json_text L) ws (clock_text A h) (salt_text h) evs (dir h1))"
    by (auto simp: same)
  have "host_kept open_on h h2" using h1(2) h2(2) by (rule same_trans)
  moreover have "ldap_serve A ws (ev # evs) h =
      (Ok (fst (event_perform A (json_text L) ws (clock_text A h) (salt_text h) ev (dir h)) #
        fst (events_perform A (json_text L) ws (clock_text A h) (salt_text h) evs (dir h1))), h2)"
    unfolding ldap_serve_Cons [of A ws ev evs] using h1(1) h2(1) by (simp add: seq_Ok del: ldap_serve.simps)
  ultimately show ?case
    using h1(3) h2(3) by (intro exI [of _ h2]) (simp split: prod.splits)
qed

end

end
