(* ===== verification/Samples.thy ===== *)
theory Samples
  imports HostStore SqliteEngine Times
begin

text \<open>
  What the witnesses of the example applications run on: a JSON encoder that only quotes, time
  functions that keep seconds, a hash that is legible, and a process over the in-memory engine whose
  random bytes tell the draws apart.
\<close>

definition quoting_lib :: golib where
  "quoting_lib = sample_lib\<lparr>lib_json_value := (\<lambda>v. Ok (CHR 0x22 # text_of v @ [CHR 0x22]))\<rparr>"

lemma demo_json: "json_texts (eng_env quoting_lib S)"
  by (simp add: json_texts_def quoting_lib_def sample_lib_def)

definition sample_app :: applib where
  "sample_app = \<lparr>app_rfc3339 = sample_format, app_parse_rfc3339 = sample_parse, app_sha256 = (\<lambda>s. s),
     app_bcrypt = (\<lambda>p n. if length p \<le> 72 then Ok (''hash:'' @ p) else Error (Err ''bcrypt: password length exceeds 72 bytes'')),
     app_bcrypt_check = (\<lambda>q p. if q = ''hash:'' @ p then Ok () else Error (Err ''mismatch'')),
     app_json_map = (\<lambda>v. Ok ''{}''), app_json_parse = (\<lambda>s. if s = ''{}'' then Ok (GoMap []) else Error (Err ''json''))\<rparr>"

text \<open>A clock that goes round in two seconds, in steps of half a second.\<close>

definition sample_host :: "Schema \<Rightarrow> tables \<Rightarrow> tables adst host" where
  "sample_host S d = \<lparr>hw_store = (eng_world S)\<lparr>drv := d\<rparr>, hw_clock = (\<lambda>n. int (n mod 4) * 500000000), hw_ticks = 0,
     hw_random = (\<lambda>n k. Ok (replicate k (char_of (n mod 200)))), hw_draws = 0\<rparr>"

lemma sample_host_simps [simp]:
  "hw_ticks (sample_host S d) = 0" "hw_draws (sample_host S d) = 0" "drv (hw_store (sample_host S d)) = d"
  "hw_clock (sample_host S d) = (\<lambda>n. int (n mod 4) * 500000000)"
  "hw_random (sample_host S d) = (\<lambda>n k. Ok (replicate k (char_of (n mod 200))))"
  by (simp_all add: sample_host_def)

lemma sample_serving:
  assumes "\<not> mu_writer (sch_mu S)" and "\<And>T tbl. mget (sch_Tables S) T = Some tbl \<Longrightarrow> store_fits tbl (map_of (d T))"
  shows "serving S eng_rows (hw_store (sample_host S d))"
  using assms by (simp add: serving_def sample_host_def eng_rows_def) (simp add: eng_world_def)

lemma sample_clock: "in_years (int (n mod 4) * 500000000 + t)" if "0 \<le> t" and "t < 100000000000000000000"
proof -
  have "int (n mod 4) \<le> 3" using pos_mod_bound [of 4 "int n"] by (simp add: zmod_int)
  with that show ?thesis by (simp add: in_years_def)
qed

lemma sample_app_times: "time_laws sample_app"
  by (simp add: time_laws_def sample_app_def sample_time)

lemma sample_texts: "time_text (sample_format 0)" "time_text (sample_format 1000000000000)"
  by (rule sample_time, simp add: in_years_def)+

lemma sample_zero: "read_time sample_app (VStr (sample_format 0)) = 0"
    "read_time sample_app (VStr (sample_format 1000000000000)) = 1000000000000"
  using sample_time(2) [of 0] sample_time(2) [of 1000000000000]
  by (simp_all add: read_time_def sample_app_def in_years_def to_second_def)

lemma empty_fits: "store_fits tbl (\<lambda>i. None)"
  by (simp add: store_fits_def)

end
