(* ===== verification/LdapProps.thy ===== *)
theory LdapProps
  imports LdapRun Samples
begin

text \<open>
  The LDAP example over the SQLite adapter, from the words of a message down to the statements the
  driver executes: any session of messages, the initial data, passwords and attribute texts. The
  witnesses run on the in-memory engine.
\<close>

section \<open>Over SQLite\<close>

lemma ldap_sqlite:
  assumes "sqlite_serves E rows ldap_schema" and "json_texts E" and "orm_Storage (srv_orm s) = Some (sqlite_storage E)"
  shows "ldap_store (sqlite_storage E) E (\<lambda>w. rows (drv w)) (serving ldap_schema rows) s"
  by (intro ldap_store.intro ldap_store_axioms.intro sqlite_record_store ldap_schemas(1) assms)

text \<open>What the server's clients rely on, for any run of messages.\<close>

lemma ldap_session:
  fixes h :: "'d adst host"
  assumes S: "createLDAPSchema = Ok S" and eng: "sqlite_serves E rows S" and w: "serving S rows (hw_store h)"
    and json: "json_texts E" and orm: "orm_Storage (srv_orm s) = Some (sqlite_storage E)"
    and ready: "host_ready A h" and ms: "\<forall>m\<in>set ms. modifies_well m"
    and run: "performs A (json_text E) s (clock_text A h) (salt_text h) (map command_of ms)
      (directory_of (rows (drv (hw_store h))), hw_ticks h, hw_draws h) = (replies, d, t, k)"
  shows "\<exists>h'. session A s ms h = (Ok replies, h') \<and> serving S rows (hw_store h') \<and>
    directory_of (rows (drv (hw_store h'))) = d \<and> hw_ticks h' = t \<and> hw_draws h' = k"
proof -
  have "S = ldap_schema" using S [unfolded ldap_schema_built] by simp
  then have L: "ldap_store (sqlite_storage E) E (\<lambda>w. rows (drv w)) (serving ldap_schema rows) s"
    using eng by (intro ldap_sqlite json orm) simp
  from ldap_store.does_session [OF L ready _ ms] w \<open>S = ldap_schema\<close> run show ?thesis
    by (auto simp: ldap_store.dir_def [OF L] host_kept_def)
qed

lemma ldap_session_replies:
  fixes h :: "'d adst host"
  assumes hyps: "createLDAPSchema = Ok S" "sqlite_serves E rows S" "serving S rows (hw_store h)"
    "json_texts E" "orm_Storage (srv_orm s) = Some (sqlite_storage E)" "host_ready A h" "\<forall>m\<in>set ms. modifies_well m"
    and run: "fst (performs A (json_text E) s (clock_text A h) (salt_text h) (map command_of ms)
      (directory_of (rows (drv (hw_store h))), hw_ticks h, hw_draws h)) = replies"
  shows "\<exists>h'. session A s ms h = (Ok replies, h')"
proof -
  obtain d t k where "performs A (json_text E) s (clock_text A h) (salt_text h) (map command_of ms)
      (directory_of (rows (drv (hw_store h))), hw_ticks h, hw_draws h) = (replies, d, t, k)"
    using run by (metis prod.collapse)
  from ldap_session [OF hyps this] show ?thesis by blast
qed

text \<open>The LDAP server over SQLite, from the words of a message down to the statements the driver executes,
  is a directory: for any messages of a connection the replies are those of an abstract map of
  entries and users (bind, search, add, delete, modify, help and the error texts), and afterwards
  the tables hold that map. Attribute texts of MODIFY must not look like a number to SQLite.\<close>

theorem ldap_serves_directory:
  fixes h :: "'d adst host"
  assumes "createLDAPSchema = Ok S" and "sqlite_serves E rows S" and "serving S rows (hw_store h)"
    and "json_texts E" and "orm_Storage (srv_orm s) = Some (sqlite_storage E)"
    and "host_ready A h" and "\<forall>m\<in>set ms. modifies_well m"
    and "performs A (json_text E) s (clock_text A h) (salt_text h) (map command_of ms)
      (directory_of (rows (drv (hw_store h))), hw_ticks h, hw_draws h) = (replies, d, t, k)"
  shows "\<exists>h'. session A s ms h = (Ok replies, h') \<and> serving S rows (hw_store h') \<and>
    directory_of (rows (drv (hw_store h'))) = d \<and> hw_ticks h' = t \<and> hw_draws h' = k"
  using assms by (rule ldap_session)

section \<open>The initial data\<close>

lemma initial_base: "d_entries (fst (initial_directory A jt now salt baseDN attrs bindDN bindPW st)) baseDN \<noteq> None"
  by (cases st) (simp add: initial_directory_def Let_def put_base_def put_entry_def)

text \<open>Setting up the LDAP server's data on a database without the base entry creates the base, admin and
  unit entries and the admin's account, each stamped with its own reading of the clock; setting it
  up again changes nothing.\<close>

theorem ldap_setup_once:
  fixes h :: "'d adst host"
  assumes S: "createLDAPSchema = Ok S" and eng: "sqlite_serves E rows S" and w: "serving S rows (hw_store h)"
    and json: "json_texts E" and orm: "orm_Storage orm1 = Some (sqlite_storage E)" and ready: "host_ready A h"
    and attrs: "base_attributes baseDN = Ok attrs" and none: "rows (drv (hw_store h)) ''entries'' baseDN = None"
  shows "\<exists>h1 h2. setupInitialData A orm1 baseDN bindDN bindPW h = (Ok (), h1) \<and>
    (directory_of (rows (drv (hw_store h1))), hw_ticks h1, hw_draws h1) =
      initial_directory A (json_text E) (clock_text A h) (salt_text h) baseDN attrs bindDN bindPW
        (directory_of (rows (drv (hw_store h))), hw_ticks h, hw_draws h) \<and>
    setupInitialData A orm1 baseDN bindDN bindPW h1 = (Ok (), h2) \<and>
    (directory_of (rows (drv (hw_store h2))), hw_ticks h2, hw_draws h2) =
      (directory_of (rows (drv (hw_store h1))), hw_ticks h1, hw_draws h1)"
proof -
  let ?s = "NewLDAPServer 0 [] [] [] orm1 False"
  have Seq: "S = ldap_schema" using S [unfolded ldap_schema_built] by simp
  have orm2: "orm_Storage (srv_orm ?s) = Some (sqlite_storage E)" using orm by (simp add: NewLDAPServer_def)
  have L: "ldap_store (sqlite_storage E) E (\<lambda>w. rows (drv w)) (serving ldap_schema rows) ?s"
    using eng Seq by (intro ldap_sqlite json orm2) simp
  note defs = ldap_store.dir_def [OF L] host_kept_def
  have base: "baseDN \<noteq> []" using attrs by (auto simp: base_attributes_def)
  have w0: "serving ldap_schema rows (hw_store h)" using w Seq by simp
  obtain h0 where h0: "host_kept (serving ldap_schema rows) h h0"
      "ldap_store.dir (\<lambda>w. rows (drv w)) h0 = ldap_store.dir (\<lambda>w. rows (drv w)) h"
      "setupInitialData A orm1 baseDN bindDN bindPW h = setup_entries A orm1 baseDN bindDN bindPW h0"
    using ldap_store.find_base [OF L w0 orm base, of A bindDN bindPW] none by auto
  have ready0: "host_ready A h0" and w1: "serving ldap_schema rows (hw_store h0)"
    and streams: "clock_text A h0 = clock_text A h" "salt_text h0 = salt_text h"
    using ready h0(1) by (simp_all add: fun_eq_iff defs host_ready_def clock_text_def salt_text_def)
  obtain h1 where h1: "setup_entries A orm1 baseDN bindDN bindPW h0 = (Ok (), h1)"
      "host_kept (serving ldap_schema rows) h0 h1"
      "ldap_store.dir (\<lambda>w. rows (drv w)) h1 = initial_directory A (json_text E) (clock_text A h) (salt_text h)
        baseDN attrs bindDN bindPW (ldap_store.dir (\<lambda>w. rows (drv w)) h0)"
    using ldap_store.setup_run [OF L ready0 w1 orm attrs, of bindDN bindPW] streams by metis
  have w2: "serving ldap_schema rows (hw_store h1)" using h1(2) by (simp add: defs)
  have "d_entries (directory_of (rows (drv (hw_store h1)))) baseDN \<noteq> None"
    using initial_base h1(3) by (metis defs(1) fst_conv)
  then have "rows (drv (hw_store h1)) ''entries'' baseDN \<noteq> None" by simp
  with ldap_store.find_base [OF L w2 orm base, of A bindDN bindPW] obtain h2 where
    h2: "setupInitialData A orm1 baseDN bindDN bindPW h1 = (Ok (), h2)"
    "ldap_store.dir (\<lambda>w. rows (drv w)) h2 = ldap_store.dir (\<lambda>w. rows (drv w)) h1" by auto
  have "setupInitialData A orm1 baseDN bindDN bindPW h = (Ok (), h1)" using h0(3) h1(1) by simp
  moreover note h1(3) [unfolded h0(2), unfolded defs] h2(1) h2(2) [unfolded defs]
  ultimately show ?thesis by blast
qed

text \<open>The \<open>dc\<close> attribute of a base DN of two components is not its first component.\<close>

theorem base_attributes_dc:
  assumes "CHR ''='' \<notin> set d"
  shows "base_attributes (''dc='' @ d @ '',dc='' @ e) =
    Ok (''{'' @ quoted ''o'' @ '': '' @ quoted ''Example Organization'' @ '', '' @ quoted ''dc'' @ '': '' @
      quoted (d @ '',dc'') @ ''}'')"
proof -
  have "Split (''dc'' @ CHR ''='' # d @ '',dc'' @ CHR ''='' # e) CHR ''='' = ''dc'' # (d @ '',dc'') # Split e CHR ''=''"
    using Split_append_sep [of "CHR ''=''" "''dc''" "d @ '',dc'' @ CHR ''='' # e"]
      Split_append_sep [of "CHR ''=''" "d @ '',dc''" e] assms by simp
  then have "Split (''dc='' @ d @ '',dc='' @ e) CHR ''='' = ''dc'' # (d @ '',dc'') # Split e CHR ''=''" by simp
  then show ?thesis unfolding base_attributes_def by (simp only: Let_def) simp
qed

section \<open>Passwords\<close>

definition word :: "string \<Rightarrow> bool" where
  "word x \<longleftrightarrow> x \<noteq> [] \<and> (\<forall>c\<in>set x. \<not> is_space c)"

lemma word_Fields: "word x \<Longrightarrow> Fields x = [x]"
  by (simp add: word_def Fields_word)

lemma blank_space [simp]: "is_space CHR '' ''"
  by (simp add: is_space_def)

lemma command_words:
  assumes "word name" and "word x"
  shows "Fields (name @ CHR '' '' # x) = [name, x]"
    and "word y \<Longrightarrow> Fields (name @ CHR '' '' # x @ CHR '' '' # y) = [name, x, y]"
  using assms by (simp_all add: Fields_append word_Fields)

lemma word_cons: "\<not> is_space c \<Longrightarrow> word x \<Longrightarrow> word (c # x)"
  by (simp add: word_def)

lemma password_attribute: "mget (parseAttributes (''userPassword='' @ p)) ''userPassword'' = Some p"
  if "\<forall>c\<in>set p. \<not> is_space c"
proof -
  let ?a = "''userPassword='' @ p"
  have "word ?a" using that by (simp add: word_def is_space_def)
  then have f: "Fields ?a = [?a]" by (rule word_Fields)
  have "?a = ''userPassword'' @ CHR ''='' # p" by simp
  then have sp: "SplitN2 ?a CHR ''='' = [''userPassword'', p]"
    by (simp only:) (rule SplitN2_sep, simp)
  show ?thesis
    unfolding parseAttributes_def f by (simp only: fold_simps parse_part_def sp list.case) (simp add: mget_def)
qed


lemma command_of_two:
  assumes "word name" and "word x"
  shows "Fields (name @ '' '' @ x) = [name, x]"
  using command_words(1) [OF assms] by simp

lemma command_of_texts:
  assumes dn: "word dn"
  shows "word x \<Longrightarrow> command_of (''ADD '' @ dn @ '' '' @ x) = CAdd dn x"
    and "word x \<Longrightarrow> command_of (''BIND '' @ dn @ '' '' @ x) = CBind dn x"
    and "word x \<Longrightarrow> command_of (''MODIFY '' @ dn @ '' '' @ x) = CModify dn x"
    and "command_of (''SEARCH '' @ dn) = CSearch dn []"
    and "command_of (''DELETE '' @ dn) = CDelete dn"
proof -
  have w: "word ''ADD''" "word ''BIND''" "word ''MODIFY''" "word ''SEARCH''" "word ''DELETE''"
    by (simp_all add: word_def is_space_def)
  show "command_of (''ADD '' @ dn @ '' '' @ x) = CAdd dn x" if "word x"
    using command_words(2) [OF w(1) dn that] by (simp add: command_of_def ToUpper_def upper_char_def)
  show "command_of (''BIND '' @ dn @ '' '' @ x) = CBind dn x" if "word x"
    using command_words(2) [OF w(2) dn that] by (simp add: command_of_def ToUpper_def upper_char_def)
  show "command_of (''MODIFY '' @ dn @ '' '' @ x) = CModify dn x" if "word x"
    using command_words(2) [OF w(3) dn that] by (simp add: command_of_def ToUpper_def upper_char_def)
  show "command_of (''SEARCH '' @ dn) = CSearch dn []"
    using command_words(1) [OF w(4) dn] by (simp add: command_of_def ToUpper_def upper_char_def)
  show "command_of (''DELETE '' @ dn) = CDelete dn"
    using command_words(1) [OF w(5) dn] by (simp add: command_of_def ToUpper_def upper_char_def)
qed

text \<open>Any message of these commands, in any case of letters and with any blanks.\<close>

lemma command_of_fields:
  assumes "Fields m = name # dn # ws"
  shows "ToUpper name = ''ADD'' \<Longrightarrow> command_of m = CAdd dn (Join ws '' '')"
    and "ToUpper name = ''BIND'' \<Longrightarrow> ws \<noteq> [] \<Longrightarrow> command_of m = CBind dn (Join ws '' '')"
    and "ToUpper name = ''MODIFY'' \<Longrightarrow> command_of m = CModify dn (Join ws '' '')"
    and "ToUpper name = ''SEARCH'' \<Longrightarrow> command_of m = CSearch dn (Join ws '' '')"
  using assms by (simp_all add: command_of_def Let_def)

lemma password_attribute_only: "mget (parseAttributes (''userPassword='' @ p)) ''objectClass'' = None"
  if "\<forall>c\<in>set p. \<not> is_space c"
proof -
  let ?a = "''userPassword='' @ p"
  have "word ?a" using that by (simp add: word_def is_space_def)
  then have f: "Fields ?a = [?a]" by (rule word_Fields)
  have "?a = ''userPassword'' @ CHR ''='' # p" by simp
  then have sp: "SplitN2 ?a CHR ''='' = [''userPassword'', p]"
    by (simp only:) (rule SplitN2_sep, simp)
  show ?thesis
    unfolding parseAttributes_def f by (simp only: fold_simps parse_part_def sp list.case) (simp add: mget_def)
qed

text \<open>C39: An ADD message with a userPassword for a person or inetOrgPerson, whatever its other
  attributes, whether the entry and the account are there or not, and without any bind before,
  reports the entry as added and gives the account the password of the message: a BIND to the same
  name with a password that hashes alike succeeds and any other is refused, but for the server's own
  bind name and password, which it always accepts. The check for an existing entry never fires.\<close>

theorem ldap_add_resets_password:
  fixes h :: "'d adst host"
  assumes "createLDAPSchema = Ok S" and "sqlite_serves E rows S" and "serving S rows (hw_store h)"
    and "json_texts E" and "orm_Storage (srv_orm s) = Some (sqlite_storage E)" and "host_ready A h"
    and add: "Fields m = name # dn # attrs" "ToUpper name = ''ADD''"
    and pw: "mget (parseAttributes (Join attrs '' '')) ''userPassword'' = Some p"
    and person: "login_class (entry_class (parseAttributes (Join attrs '' '')))"
    and bind: "Fields m' = name' # dn # words" "ToUpper name' = ''BIND''" "words \<noteq> []"
  shows "\<exists>h'. session A s [m, m'] h =
    (Ok [''OK: Entry added'' @ eol,
         if dn = srv_bindDN s \<and> Join words '' '' = srv_bindPW s then ''OK: Admin bind successful'' @ eol
         else if hashPassword A (Join words '' '') (salt_text h (hw_draws h)) = hashPassword A p (salt_text h (hw_draws h))
         then ''OK: Bind successful'' @ eol else ''ERROR: Invalid credentials'' @ eol], h')"
proof -
  let ?a = "Join attrs '' ''" and ?p = "Join words '' ''" and ?salt = "salt_text h"
  note cmds = command_of_fields(1) [OF add] command_of_fields(2) [OF bind]
  have ms: "\<forall>m\<in>set [m, m']. modifies_well m" by (simp add: modifies_well_def cmds)
  have "fst (performs A (json_text E) s (clock_text A h) ?salt (map command_of [m, m'])
      (directory_of (rows (drv (hw_store h))), hw_ticks h, hw_draws h)) =
    [''OK: Entry added'' @ eol,
      if dn = srv_bindDN s \<and> ?p = srv_bindPW s then ''OK: Admin bind successful'' @ eol
      else if hashPassword A ?p (?salt (hw_draws h)) = hashPassword A p (?salt (hw_draws h))
      then ''OK: Bind successful'' @ eol else ''ERROR: Invalid credentials'' @ eol]"
    unfolding list.map cmds using pw person
    by (cases "hashPassword A ?p (?salt (hw_draws h)) = hashPassword A p (?salt (hw_draws h))")
      (simp_all add: Let_def new_user_def)
  from ldap_session_replies [OF assms(1-6) ms this] show ?thesis .
qed

text \<open>C40: An attribute text that does not begin with a digit, a sign, a point or a blank (and so is no
  number for SQLite), given to ADD and then to MODIFY of the same name: ADD stores it as a JSON
  string and MODIFY as it is, and SEARCH shows the stored text after each. These are two different
  texts of the same attributes, unless the text itself begins with a quotation mark.\<close>

theorem ldap_attributes_change_form:
  fixes h :: "'d adst host"
  assumes "createLDAPSchema = Ok S" and "sqlite_serves E rows S" and "serving S rows (hw_store h)"
    and "json_texts E" and "orm_Storage (srv_orm s) = Some (sqlite_storage E)" and "host_ready A h"
    and add: "Fields m = name # dn # attrs" "ToUpper name = ''ADD''"
    and modify: "Fields m' = name' # dn # attrs" "ToUpper name' = ''MODIFY''"
    and search: "Fields q = name'' # [dn]" "ToUpper name'' = ''SEARCH''"
    and plain: "no_number (Join attrs '' '')"
  shows "\<exists>h' oc. session A s [m, q, m', q] h =
    (Ok [''OK: Entry added'' @ eol,
         ''OK: Search results:'' @ eol @ ''DN: '' @ dn @ eol @ ''ObjectClass: '' @ oc @ eol @
           ''Attributes: '' @ json_text E (Join attrs '' '') @ eol @ ''---'' @ eol,
         ''OK: Entry modified'' @ eol,
         ''OK: Search results:'' @ eol @ ''DN: '' @ dn @ eol @ ''ObjectClass: '' @ oc @ eol @
           ''Attributes: '' @ Join attrs '' '' @ eol @ ''---'' @ eol], h') \<and>
    ((\<nexists>t. Join attrs '' '' = CHR 0x22 # t) \<longrightarrow> json_text E (Join attrs '' '') \<noteq> Join attrs '' '')"
proof -
  let ?x = "Join attrs '' ''" and ?ms = "[m, q, m', q]"
  let ?oc = "entry_class (parseAttributes ?x)"
  have "command_of q = CSearch dn []" using command_of_fields(4) [OF search] by simp
  note cmds = command_of_fields(1) [OF add] command_of_fields(3) [OF modify] this
  have ms: "\<forall>m\<in>set ?ms. modifies_well m" by (simp add: modifies_well_def cmds plain)
  have "fst (performs A (json_text E) s (clock_text A h) (salt_text h) (map command_of ?ms)
      (directory_of (rows (drv (hw_store h))), hw_ticks h, hw_draws h)) =
    [''OK: Entry added'' @ eol,
      ''OK: Search results:'' @ eol @ ''DN: '' @ dn @ eol @ ''ObjectClass: '' @ ?oc @ eol @
           ''Attributes: '' @ json_text E ?x @ eol @ ''---'' @ eol,
      ''OK: Entry modified'' @ eol,
      ''OK: Search results:'' @ eol @ ''DN: '' @ dn @ eol @ ''ObjectClass: '' @ ?oc @ eol @
           ''Attributes: '' @ ?x @ eol @ ''---'' @ eol]"
    unfolding list.map cmds
    by (cases "login_class ?oc"; cases "mget (parseAttributes ?x) ''userPassword''") (simp_all add: Let_def entry_lines_def)
  note replies = ldap_session_replies [OF assms(1-6) ms this]
  have "json_text E ?x \<noteq> ?x" if "\<nexists>t. ?x = CHR 0x22 # t" using json_texts_value(2) [OF assms(4), of ?x] that by metis
  with replies show ?thesis by blast
qed

section \<open>A server to try\<close>

text \<open>A clock that stands still, and random bytes that are zero.\<close>

definition demo_app :: applib where
  "demo_app = \<lparr>app_rfc3339 = (\<lambda>t. ''2024-02-29T12:00:00Z''), app_parse_rfc3339 = (\<lambda>s. Ok 0), app_sha256 = (\<lambda>s. s),
     app_bcrypt = (\<lambda>p n. Ok p), app_bcrypt_check = (\<lambda>p q. if p = q then Ok () else Error (Err ''mismatch'')),
     app_json_map = (\<lambda>v. Ok ''{}''), app_json_parse = (\<lambda>s. Ok (GoMap []))\<rparr>"

abbreviation ldap_env :: "tables env" where
  "ldap_env \<equiv> eng_env quoting_lib ldap_schema"

definition demo_host :: "Schema \<Rightarrow> tables adst host" where
  "demo_host S = \<lparr>hw_store = eng_world S, hw_clock = (\<lambda>n. int n), hw_ticks = 0,
     hw_random = (\<lambda>n k. Ok (replicate k CHR 0x00)), hw_draws = 0\<rparr>"

definition demo_server :: "tables adst LDAPServer" where
  "demo_server = NewLDAPServer 389 ''dc=example,dc=com'' ''cn=admin,dc=example,dc=com'' ''admin''
     (orm_on (sqlite_storage ldap_env)) False"

lemma demo_orm: "orm_Storage (srv_orm demo_server) = Some (sqlite_storage ldap_env)"
  by (simp add: demo_server_def NewLDAPServer_def)

lemma ldap_demo_ready: "host_ready demo_app (demo_host S)"
proof -
  have "time_text ''2024-02-29T12:00:00Z''"
    by code_simp
  then show ?thesis by (simp add: host_ready_def demo_app_def demo_host_def)
qed

lemma demo_serves: "sqlite_serves ldap_env eng_rows ldap_schema"
  by (rule engine_serves [OF ldap_schemas(1,2)])

lemma demo_serving: "serving ldap_schema eng_rows (hw_store (demo_host ldap_schema))"
  by (simp add: demo_host_def eng_world_serving ldap_schemas(3))

interpretation demo_ldap: ldap_store "sqlite_storage ldap_env" ldap_env "\<lambda>w. eng_rows (drv w)"
    "serving ldap_schema eng_rows" demo_app demo_server
  by (rule ldap_sqlite [OF demo_serves demo_json demo_orm])

lemmas demo_hyps = ldap_schema_built demo_serves demo_serving demo_json demo_orm ldap_demo_ready

definition ann_dn :: string where
  "ann_dn = ''cn=ann,dc=example,dc=com''"

lemma ann_words: "word ann_dn" "ann_dn \<noteq> srv_bindDN demo_server" "word ''one''" "word ''two''"
  by (simp_all add: word_def ann_dn_def is_space_def demo_server_def NewLDAPServer_def)

lemma ldap_add_resets_password_witness:
  "\<exists>h. session demo_app demo_server [''add '' @ ann_dn @ '' '' @ (''userPassword='' @ ''one''), ''BIND '' @ ann_dn @ '' '' @ ''two'']
    (demo_host ldap_schema) = (Ok [''OK: Entry added'' @ eol, ''ERROR: Invalid credentials'' @ eol], h)"
proof -
  have w: "word (''userPassword='' @ ''one'')" "word ''add''" "word ''BIND''" by (simp_all add: word_def is_space_def)
  have f: "Fields (''add '' @ ann_dn @ '' '' @ (''userPassword='' @ ''one'')) = ''add'' # ann_dn # [''userPassword='' @ ''one'']"
    "Fields (''BIND '' @ ann_dn @ '' '' @ ''two'') = ''BIND'' # ann_dn # [''two'']"
    using command_words(2) [OF w(2) ann_words(1) w(1)] command_words(2) [OF w(3) ann_words(1,4)] by simp_all
  have up: "ToUpper ''add'' = ''ADD''" "ToUpper ''BIND'' = ''BIND''" by (simp_all add: ToUpper_def upper_char_def)
  have pw: "mget (parseAttributes (Join [''userPassword='' @ ''one''] '' '')) ''userPassword'' = Some ''one''"
    and oc: "mget (parseAttributes (Join [''userPassword='' @ ''one''] '' '')) ''objectClass'' = None"
    unfolding Join.simps by (rule password_attribute password_attribute_only, simp add: is_space_def)+
  have "login_class (entry_class (parseAttributes (Join [''userPassword='' @ ''one''] '' '')))"
    using oc by (simp add: login_class_def entry_class_def)
  from ldap_add_resets_password [OF demo_hyps f(1) up(1) pw this f(2) up(2)] ann_words(2)
  show ?thesis
    by (simp add: hashPassword_def demo_app_def EncodeToString_def salt_text_def demo_host_def hex_digit_def)
qed

definition ann_messages :: "string list" where
  "ann_messages = [''ADD '' @ ann_dn @ '' '' @ (''userPassword='' @ ''one''), ''BIND '' @ ann_dn @ '' '' @ ''one'', ''DELETE '' @ ann_dn,
     ''BIND '' @ ann_dn @ '' '' @ ''one'', ''SEARCH '' @ ann_dn]"

lemma ann_commands: "map command_of ann_messages =
    [CAdd ann_dn (''userPassword='' @ ''one''), CBind ann_dn ''one'', CDelete ann_dn, CBind ann_dn ''one'', CSearch ann_dn []]"
proof -
  have "word (''userPassword='' @ ''one'')" by (simp add: word_def is_space_def)
  note cmds = command_of_texts(1) [OF ann_words(1) this] command_of_texts(2) [OF ann_words(1,3)]
    command_of_texts(4,5) [OF ann_words(1)]
  show ?thesis unfolding ann_messages_def list.map cmds ..
qed

lemma ann_modifies: "\<forall>m\<in>set ann_messages. modifies_well m"
proof -
  have "\<forall>c\<in>set (map command_of ann_messages). case c of CModify dn attrs \<Rightarrow> no_number attrs | _ \<Rightarrow> True"
    unfolding ann_commands by simp
  then show ?thesis by (simp add: modifies_well_def)
qed

lemma ldap_serves_directory_witness:
  "\<exists>h. session demo_app demo_server ann_messages (demo_host ldap_schema) =
     (Ok [''OK: Entry added'' @ eol, ''OK: Bind successful'' @ eol, ''OK: Entry deleted'' @ eol,
          ''ERROR: Invalid credentials'' @ eol, ''OK: No entries found'' @ eol], h)"
proof -
  let ?replies = "[''OK: Entry added'' @ eol, ''OK: Bind successful'' @ eol, ''OK: Entry deleted'' @ eol,
          ''ERROR: Invalid credentials'' @ eol, ''OK: No entries found'' @ eol]"
  let ?run = "performs demo_app (json_text ldap_env) demo_server (clock_text demo_app (demo_host ldap_schema))
      (salt_text (demo_host ldap_schema)) (map command_of ann_messages)
      (directory_of (eng_rows (drv (hw_store (demo_host ldap_schema)))), hw_ticks (demo_host ldap_schema), hw_draws (demo_host ldap_schema))"
  have pw: "mget (parseAttributes (''userPassword='' @ ''one'')) ''userPassword'' = Some ''one''"
    and oc: "mget (parseAttributes (''userPassword='' @ ''one'')) ''objectClass'' = None"
    by (rule password_attribute password_attribute_only, simp add: is_space_def)+
  have "fst ?run = ?replies"
    unfolding ann_commands using ann_words(2) pw oc
    by (simp add: Let_def login_class_def entry_class_def new_user_def)
  then obtain d t k where "?run = (?replies, d, t, k)" by (metis prod.collapse)
  from ldap_serves_directory [OF demo_hyps ann_modifies this] show ?thesis by blast
qed

lemma ldap_attributes_change_form_witness:
  "\<exists>h oc. session demo_app demo_server [''ADD '' @ ann_dn @ '' '' @ ''sn=Lee'', ''SEARCH '' @ ann_dn,
      ''MODIFY '' @ ann_dn @ '' '' @ ''sn=Lee'', ''SEARCH '' @ ann_dn] (demo_host ldap_schema) =
    (Ok [''OK: Entry added'' @ eol,
         ''OK: Search results:'' @ eol @ ''DN: '' @ ann_dn @ eol @ ''ObjectClass: '' @ oc @ eol @
           ''Attributes: '' @ json_text ldap_env ''sn=Lee'' @ eol @ ''---'' @ eol,
         ''OK: Entry modified'' @ eol,
         ''OK: Search results:'' @ eol @ ''DN: '' @ ann_dn @ eol @ ''ObjectClass: '' @ oc @ eol @
           ''Attributes: '' @ ''sn=Lee'' @ eol @ ''---'' @ eol], h) \<and>
    json_text ldap_env ''sn=Lee'' \<noteq> ''sn=Lee''"
proof -
  have w: "word ''sn=Lee''" "word ''ADD''" "word ''MODIFY''" "word ''SEARCH''" by (simp_all add: word_def is_space_def)
  have f: "Fields (''ADD '' @ ann_dn @ '' '' @ ''sn=Lee'') = ''ADD'' # ann_dn # [''sn=Lee'']"
    "Fields (''MODIFY '' @ ann_dn @ '' '' @ ''sn=Lee'') = ''MODIFY'' # ann_dn # [''sn=Lee'']"
    "Fields (''SEARCH '' @ ann_dn) = ''SEARCH'' # [ann_dn]"
    using command_words(2) [OF w(2) ann_words(1) w(1)] command_words(2) [OF w(3) ann_words(1) w(1)]
      command_words(1) [OF w(4) ann_words(1)] by simp_all
  have up: "ToUpper ''ADD'' = ''ADD''" "ToUpper ''MODIFY'' = ''MODIFY''" "ToUpper ''SEARCH'' = ''SEARCH''"
    by (simp_all add: ToUpper_def upper_char_def)
  have n: "no_number (Join [''sn=Lee''] '' '')" by (simp add: no_number_def is_digit_def)
  from ldap_attributes_change_form [OF demo_hyps f(1) up(1) f(2) up(2) f(3) up(3) n] show ?thesis by simp
qed

lemma ldap_setup_once_witness:
  "\<exists>h1 h2. setupInitialData demo_app (srv_orm demo_server) ''dc=example,dc=com'' ''cn=admin'' ''admin'' (demo_host ldap_schema) = (Ok (), h1) \<and>
    setupInitialData demo_app (srv_orm demo_server) ''dc=example,dc=com'' ''cn=admin'' ''admin'' h1 = (Ok (), h2) \<and>
    hw_ticks h1 = 5 \<and> hw_ticks h2 = 5"
proof -
  obtain attrs where attrs: "base_attributes ''dc=example,dc=com'' = Ok attrs"
    using base_attributes_dc [of "''example''" "''com''"] by simp
  have "eng_rows (drv (hw_store (demo_host ldap_schema))) ''entries'' ''dc=example,dc=com'' = None"
    by (simp add: demo_host_def)
  with ldap_setup_once [OF demo_hyps attrs] show ?thesis
    by (fastforce simp: initial_directory_def Let_def demo_host_def)
qed

end
