(* ===== verification/Startup.thy ===== *)
theory Startup
  imports SqliteEngine
begin

text \<open>
  An application's start over the SQLite adapter: a connection is opened and the tables are created,
  after which the storage serves what the database file held. What the driver does for these two is
  stated as for the other statements: opening a file and \<open>CREATE TABLE IF NOT EXISTS\<close> change no row.
\<close>

definition sqlite_opens :: "('d, 'e) env_scheme \<Rightarrow> ('d \<Rightarrow> 'v) \<Rightarrow> bool" where
  "sqlite_opens E rows \<longleftrightarrow> (\<forall>path d. \<exists>n d'. drv_open E ''sqlite3'' path d = (Ok n, d') \<and> rows d' = rows d)"

text \<open>\<open>CREATE TABLE\<close> on a handle, where what \<open>rows\<close> shows of the database meets \<open>Q\<close>; anywhere.\<close>

definition handle_creates :: "('d, 'e) env_scheme \<Rightarrow> ('v \<Rightarrow> bool) \<Rightarrow> ('d \<Rightarrow> 'v) \<Rightarrow> TableSchema list \<Rightarrow> bool" where
  "handle_creates E Q rows tbls \<longleftrightarrow> (\<forall>tbl\<in>set tbls. \<forall>n d. Q (rows d) \<longrightarrow>
     (\<exists>k d'. drv_exec E (OnDB n) (sqlite_create_query E tbl) [] d = (Ok (Inr k), d') \<and> rows d' = rows d))"

definition sqlite_creates :: "('d, 'e) env_scheme \<Rightarrow> ('d \<Rightarrow> 'v) \<Rightarrow> Schema \<Rightarrow> bool" where
  "sqlite_creates E rows S \<longleftrightarrow> handle_creates E (\<lambda>r. True) rows (map snd (entries (sch_Tables S)))"

text \<open>The state of a new process: no handle was closed, and the file's rows fit the schema.\<close>

definition fresh_process :: "Schema \<Rightarrow> ('d \<Rightarrow> database) \<Rightarrow> ('d, 'z) adst_scheme \<Rightarrow> bool" where
  "fresh_process S rows w \<longleftrightarrow> (\<forall>n. \<not> db_closed w n) \<and> \<not> mu_writer (sch_mu S) \<and>
     (\<forall>T tbl. mget (sch_Tables S) T = Some tbl \<longrightarrow> store_fits tbl (rows (drv w) T))"

lemma connect_run:
  assumes "sqlite_opens E rows"
  obtains n d where "sqlite_Connect E path w = (Ok (), w\<lparr>drv := d, ad_DB := Some n, ad_TM_DB := Some n\<rparr>)" and "rows d = rows (drv w)"
proof -
  obtain n d where "drv_open E ''sqlite3'' path (drv w) = (Ok n, d)" "rows d = rows (drv w)"
    using assms unfolding sqlite_opens_def by blast
  then show thesis
    by (intro that [of n d]) (simp_all add: sqlite_Connect_def sql_Open_def on_driver_def SetDB_def seq_def modify_def)
qed

lemma create_each_run:
  assumes n: "ad_DB w = Some n" "\<not> db_closed w n" and Q: "Q (rows (drv w))"
    and c: "handle_creates E Q rows (map snd kts)"
  obtains d where "each (\<lambda>kt. seq (gets GetDB) (\<lambda>db.
      wrapping (create_error (snd kt)) (exec_only (db_Exec E db (sqlite_create_query E (snd kt)) [])))) kts w =
      (Ok (), w\<lparr>drv := d\<rparr>)" and "rows d = rows (drv w)"
  using assms
proof (induction kts arbitrary: w thesis)
  case Nil
  from Nil.prems(1) [of "drv w"] show ?case by simp
next
  case (Cons kt kts)
  obtain T tbl where kt: "kt = (T, tbl)" by (cases kt)
  obtain k d1 where d1: "drv_exec E (OnDB n) (sqlite_create_query E tbl) [] (drv w) = (Ok (Inr k), d1)" "rows d1 = rows (drv w)"
    using Cons.prems(4,5) kt unfolding handle_creates_def by fastforce
  let ?w = "w\<lparr>drv := d1\<rparr>"
  have w: "ad_DB ?w = Some n" "\<not> db_closed ?w n" "Q (rows (drv ?w))" using Cons.prems(2-4) d1(2) by simp_all
  have c: "handle_creates E Q rows (map snd kts)" using Cons.prems(5) by (simp add: handle_creates_def)
  obtain d2 where d2: "each (\<lambda>kt. seq (gets GetDB) (\<lambda>db.
      wrapping (create_error (snd kt)) (exec_only (db_Exec E db (sqlite_create_query E (snd kt)) [])))) kts ?w =
      (Ok (), ?w\<lparr>drv := d2\<rparr>)" "rows d2 = rows (drv ?w)"
    using Cons.IH [OF _ w c] by blast
  have "each (\<lambda>kt. seq (gets GetDB) (\<lambda>db.
      wrapping (create_error (snd kt)) (exec_only (db_Exec E db (sqlite_create_query E (snd kt)) [])))) (kt # kts) w =
      (Ok (), w\<lparr>drv := d2\<rparr>)"
    using d1(1) d2(1) Cons.prems(2,3)
    by (simp add: kt GetDB_def db_Exec_def use_db_def sql_Exec_def on_driver_def exec_only_def wrapping_def seq_def gets_def)
  with Cons.prems(1) d1(2) d2(2) show ?case by simp
qed

lemma create_tables_run:
  assumes n: "ad_DB w = Some n" "\<not> db_closed w n" and "Q (rows (drv w))"
    and "handle_creates E Q rows (map snd (entries (sch_Tables S)))"
  obtains d where "sqlite_CreateTables E (Some S) w = (Ok (), w\<lparr>drv := d, ad_Sch := Some S\<rparr>)" and "rows d = rows (drv w)"
proof -
  obtain d where d: "each (\<lambda>kt. seq (gets GetDB) (\<lambda>db.
      wrapping (create_error (snd kt)) (exec_only (db_Exec E db (sqlite_create_query E (snd kt)) [])))) (entries (sch_Tables S)) w =
      (Ok (), w\<lparr>drv := d\<rparr>)" "rows d = rows (drv w)"
    by (rule create_each_run [where Q = Q and rows = rows, OF assms])
  show thesis
    by (rule that [OF _ d(2)]) (use d(1) n in \<open>simp add: sqlite_CreateTables_def create_each_def Base_ValidateConnection_def
        ValidateConnection_def SetSchema_def seq_def modify_def gets_def pure_def\<close>)
qed

text \<open>The adapter has an open handle, and the file's rows fit the schema.\<close>

definition connected_to :: "Schema \<Rightarrow> ('d \<Rightarrow> database) \<Rightarrow> ('d, 'z) adst_scheme \<Rightarrow> bool" where
  "connected_to S rows w \<longleftrightarrow> (\<exists>n. ad_DB w = Some n \<and> ad_TM_DB w = Some n \<and> \<not> db_closed w n) \<and>
     (\<forall>T tbl. mget (sch_Tables S) T = Some tbl \<longrightarrow> store_fits tbl (rows (drv w) T))"

lemma create_run:
  assumes "sqlite_creates E rows S" and w: "connected_to S rows w" and S: "\<not> mu_writer (sch_mu S)"
  obtains w' where "sqlite_CreateTables E (Some S) w = (Ok (), w')" and "serving S rows w'" and "rows (drv w') = rows (drv w)"
proof -
  obtain n where n: "ad_DB w = Some n" "\<not> db_closed w n" using w by (auto simp: connected_to_def)
  obtain d where d: "sqlite_CreateTables E (Some S) w = (Ok (), w\<lparr>drv := d, ad_Sch := Some S\<rparr>)" "rows d = rows (drv w)"
    by (rule create_tables_run [where Q = "\<lambda>r. True" and rows = rows, OF n TrueI assms(1) [unfolded sqlite_creates_def]])
  show thesis
    by (rule that [OF d(1)]) (use w S n d(2) in \<open>simp_all add: serving_def connected_to_def\<close>)
qed

lemma connect_run_to:
  assumes "sqlite_opens E rows" and w: "fresh_process S rows w"
  obtains w1 where "sqlite_Connect E path w = (Ok (), w1)" and "connected_to S rows w1" and "rows (drv w1) = rows (drv w)"
proof -
  obtain n d where c: "sqlite_Connect E path w = (Ok (), w\<lparr>drv := d, ad_DB := Some n, ad_TM_DB := Some n\<rparr>)" "rows d = rows (drv w)"
    by (rule connect_run [OF assms(1)])
  show thesis
    by (rule that [OF c(1)]) (use w c(2) in \<open>simp_all add: fresh_process_def connected_to_def\<close>)
qed

lemma sqlite_startup:
  assumes "sqlite_opens E rows" and "sqlite_creates E rows S" and w: "fresh_process S rows w"
  obtains w1 w2 where "sqlite_Connect E path w = (Ok (), w1)" and "sqlite_CreateTables E (Some S) w1 = (Ok (), w2)"
    and "serving S rows w2" and "rows (drv w2) = rows (drv w)"
proof -
  obtain w1 where w1: "sqlite_Connect E path w = (Ok (), w1)" "connected_to S rows w1" "rows (drv w1) = rows (drv w)"
    by (rule connect_run_to [OF assms(1) w])
  have "\<not> mu_writer (sch_mu S)" using w by (simp add: fresh_process_def)
  from create_run [OF assms(2) w1(2) this] obtain w2 where
    "sqlite_CreateTables E (Some S) w1 = (Ok (), w2)" "serving S rows w2" "rows (drv w2) = rows (drv w1)" by blast
  with that w1 show thesis by simp
qed

section \<open>The engine starts\<close>

lemma engine_opens: "sqlite_opens (eng_env L S) rows"
  by (simp add: sqlite_opens_def eng_env_def golib.extend_def env.fields_def)

lemma create_words: "hd (sql_words (sqlite_create_query L tbl)) = ''CREATE''"
proof -
  have "sqlite_create_query L tbl = ''CREATE'' @ CHR '' '' # drop 7 (sqlite_create_query L tbl)"
    by (simp add: sqlite_create_query_def)
  moreover have "sql_words (''CREATE'' @ CHR '' '' # x) = ''CREATE'' # sql_words x" for x
    unfolding sql_words_sep [OF blanks(1)] by (simp add: sql_words_word blank_def unpunct_def is_space_def)
  ultimately show ?thesis by (metis list.sel(1))
qed

lemma engine_creates: "sqlite_creates (eng_env L S) rows S'"
  by (simp add: sqlite_creates_def handle_creates_def eng_exec_def create_words Let_def)

lemma engine_fresh:
  "\<not> mu_writer (sch_mu S) \<Longrightarrow> fresh_process S eng_rows (sqlite_New (eng_world S'))"
  by (simp add: fresh_process_def sqlite_New_def NewBaseSQLStorage_def store_fits_def)
    (simp add: eng_world_def eng_rows_def)

end
