(* ===== verification/LdapWebProps.thy ===== *)
theory LdapWebProps
  imports LdapWebRun LdapProps Startup
begin

text \<open>
  The LDAP program over the SQLite adapter: from its start on a database file, any run of protocol
  messages and web requests is answered as the abstract directory says; and what the form for a new
  user makes of a password with a space.
\<close>

section \<open>Both servers\<close>

lemma ldap_events:
  fixes h :: "'d adst host"
  assumes eng: "sqlite_serves E rows ldap_schema" and w: "serving ldap_schema rows (hw_store h)"
    and json: "json_texts E" and orm: "orm_Storage (srv_orm (ws_ldapServer ws)) = Some (sqlite_storage E)"
    and ready: "host_ready A h" and evs: "\<forall>ev\<in>set evs. event_well ev"
  shows "\<exists>h'. ldap_serve A ws evs h = (Ok (fst (events_perform A (json_text E) ws (clock_text A h) (salt_text h) evs
        (directory_of (rows (drv (hw_store h))), hw_ticks h, hw_draws h))), h') \<and> serving ldap_schema rows (hw_store h') \<and>
    (directory_of (rows (drv (hw_store h'))), hw_ticks h', hw_draws h') =
      snd (events_perform A (json_text E) ws (clock_text A h) (salt_text h) evs
        (directory_of (rows (drv (hw_store h))), hw_ticks h, hw_draws h))"
proof -
  note L = ldap_sqlite [OF eng json orm]
  from ldap_store.does_events [OF L refl ready w evs] show ?thesis
    unfolding ldap_store.dir_def [OF L] host_kept_def by blast
qed

section \<open>The program from its start\<close>

lemma ldap_servers_orm: "orm_Storage (srv_orm (ws_ldapServer (ldap_servers E fl sch))) = Some (sqlite_storage E)"
  by (simp add: ldap_servers_def NewWebServer_def NewLDAPServer_def orm_WithStorage_def)

text \<open>The directory that the program starts with: the one in the file, or the initial one.\<close>

definition start_directory :: "applib \<Rightarrow> (string \<Rightarrow> string) \<Rightarrow> (nat \<Rightarrow> string) \<Rightarrow> (nat \<Rightarrow> string) \<Rightarrow> ldap_flags \<Rightarrow> string \<Rightarrow>
    directory \<times> nat \<times> nat \<Rightarrow> directory \<times> nat \<times> nat" where
  "start_directory A jt now salt fl attrs st =
     (if d_entries (fst st) (fl_baseDN fl) = None
      then initial_directory A jt now salt (fl_baseDN fl) attrs (fl_bindDN fl) (fl_bindPW fl) st else st)"

lemma ldap_main_run:
  fixes h :: "'d adst host"
  assumes eng: "sqlite_serves E rows ldap_schema" and json: "json_texts E" and ready: "host_ready A h"
    and start: "sqlite_opens E rows" "sqlite_creates E rows ldap_schema" "fresh_process ldap_schema rows (hw_store h)"
    and attrs: "base_attributes (fl_baseDN fl) = Ok attrs"
  obtains h' where "ldap_main E A fl h = (Ok (ldap_servers E fl ldap_schema), h')"
    and "host_kept (serving ldap_schema rows) h h'"
    and "(directory_of (rows (drv (hw_store h'))), hw_ticks h', hw_draws h') =
      start_directory A (json_text E) (clock_text A h) (salt_text h) fl attrs
        (directory_of (rows (drv (hw_store h))), hw_ticks h, hw_draws h)"
proof -
  let ?s = "ws_ldapServer (ldap_servers E fl ldap_schema :: 'd adst WebServer)"
  have orm: "orm_Storage (srv_orm ?s) = Some (sqlite_storage E)" by (rule ldap_servers_orm)
  note L = ldap_sqlite [OF eng json orm]
  note defs = ldap_store.dir_def [OF L] host_kept_def
  obtain w1 w2 where w: "sqlite_Connect E (fl_dbPath fl) (hw_store h) = (Ok (), w1)"
      "sqlite_CreateTables E (Some ldap_schema) w1 = (Ok (), w2)" "serving ldap_schema rows w2"
      "rows (drv w2) = rows (drv (hw_store h))"
    by (rule sqlite_startup [OF start])
  let ?h1 = "h\<lparr>hw_store := w1\<rparr>" and ?h2 = "h\<lparr>hw_store := w2\<rparr>"
  let ?init = "setupInitialData A (srv_orm ?s) (fl_baseDN fl) (fl_bindDN fl) (fl_bindPW fl)"
  have c: "on_store (st_Connect (sqlite_storage E) (fl_dbPath fl)) h = (Ok (), ?h1)"
      "on_store (st_CreateTables (sqlite_storage E) (Some ldap_schema)) ?h1 = (Ok (), ?h2)"
    using w(1,2) by (simp_all add: on_store_def sqlite_storage_def)
  have run: "ldap_main E A fl h = seq ?init (\<lambda>_. ret (ldap_servers E fl ldap_schema)) ?h2"
    if "?init ?h2 = (Ok (), h')" for h'
    unfolding ldap_main_def ldap_schema_built
    using that c by (simp add: seq_pure_Ok Let_def seq_Ok [OF wrapping_Ok] seq_Ok)
  have base: "fl_baseDN fl \<noteq> []" using attrs by (auto simp: base_attributes_def)
  have w2: "serving ldap_schema rows (hw_store ?h2)" using w(3) by simp
  obtain h3 where h3: "host_kept (serving ldap_schema rows) ?h2 h3"
      "ldap_store.dir (\<lambda>w. rows (drv w)) h3 = ldap_store.dir (\<lambda>w. rows (drv w)) ?h2"
      "?init ?h2 = (if rows (drv w2) ''entries'' (fl_baseDN fl) = None
        then setup_entries A (srv_orm ?s) (fl_baseDN fl) (fl_bindDN fl) (fl_bindPW fl) h3 else (Ok (), h3))"
    using ldap_store.find_base [OF L w2 orm base, of A "fl_bindDN fl" "fl_bindPW fl"] by auto
  have ready3: "host_ready A h3" and w3: "serving ldap_schema rows (hw_store h3)"
    and streams: "clock_text A h3 = clock_text A h" "salt_text h3 = salt_text h"
    using ready h3(1) by (simp_all add: fun_eq_iff defs host_ready_def clock_text_def salt_text_def)
  have d3: "ldap_store.dir (\<lambda>w. rows (drv w)) h3 = (directory_of (rows (drv (hw_store h))), hw_ticks h, hw_draws h)"
    using h3(2) w(4) by (simp add: defs)
  show thesis
  proof (cases "rows (drv (hw_store h)) ''entries'' (fl_baseDN fl)")
    case None
    obtain h4 where h4: "setup_entries A (srv_orm ?s) (fl_baseDN fl) (fl_bindDN fl) (fl_bindPW fl) h3 = (Ok (), h4)"
        "host_kept (serving ldap_schema rows) h3 h4"
        "ldap_store.dir (\<lambda>w. rows (drv w)) h4 = initial_directory A (json_text E) (clock_text A h) (salt_text h)
          (fl_baseDN fl) attrs (fl_bindDN fl) (fl_bindPW fl) (ldap_store.dir (\<lambda>w. rows (drv w)) h3)"
      using ldap_store.setup_run [OF L ready3 w3 orm attrs, of "fl_bindDN fl" "fl_bindPW fl"] streams by metis
    have "?init ?h2 = (Ok (), h4)" using h3(3) h4(1) None w(4) by simp
    from run [OF this] this have "ldap_main E A fl h = (Ok (ldap_servers E fl ldap_schema), h4)" by (simp add: seq_Ok)
    moreover have "host_kept (serving ldap_schema rows) h h4" using h3(1) h4(2) by (simp add: host_kept_def)
    ultimately show thesis
      using that h4(3) d3 None by (simp add: start_directory_def defs)
  next
    case (Some r)
    then have "?init ?h2 = (Ok (), h3)" using h3(3) w(4) by simp
    from run [OF this] this have "ldap_main E A fl h = (Ok (ldap_servers E fl ldap_schema), h3)" by (simp add: seq_Ok)
    moreover have "host_kept (serving ldap_schema rows) h h3" using h3(1) by (simp add: host_kept_def)
    ultimately show thesis
      using that d3 Some by (simp add: start_directory_def defs)
  qed
qed

text \<open>C3: The LDAP program over SQLite, from a new process: main opens the file, creates the tables and
  puts in the initial entries unless the base entry is there; from then on any messages of the text
  protocol and requests of the web interface, one after the other in any order, are answered as a
  map of entries and accounts says (bind, search, add, delete, modify; pages, forms and error
  texts), and the tables hold that map. Attribute texts of MODIFY must not look like a number to
  SQLite, and a login form names an entry.\<close>

theorem ldap_program_serves:
  fixes h :: "'d adst host"
  assumes S: "createLDAPSchema = Ok S" and eng: "sqlite_serves E rows S" and json: "json_texts E" and ready: "host_ready A h"
    and start: "sqlite_opens E rows" "sqlite_creates E rows S" "fresh_process S rows (hw_store h)"
    and attrs: "base_attributes (fl_baseDN fl) = Ok attrs" and evs: "\<forall>ev\<in>set evs. event_well ev"
    and run: "events_perform A (json_text E) (ldap_servers E fl S :: 'd adst WebServer) (clock_text A h) (salt_text h) evs
      (start_directory A (json_text E) (clock_text A h) (salt_text h) fl attrs
        (directory_of (rows (drv (hw_store h))), hw_ticks h, hw_draws h)) = (replies, d, t, k)"
  shows "\<exists>h'. seq (ldap_main E A fl) (\<lambda>servers. ldap_serve A servers evs) h = (Ok replies, h') \<and>
    serving S rows (hw_store h') \<and> directory_of (rows (drv (hw_store h'))) = d \<and> hw_ticks h' = t \<and> hw_draws h' = k"
proof -
  have Seq: "S = ldap_schema" using S [unfolded ldap_schema_built] by simp
  obtain h1 where h1: "ldap_main E A fl h = (Ok (ldap_servers E fl ldap_schema), h1)"
      "host_kept (serving ldap_schema rows) h h1"
      "(directory_of (rows (drv (hw_store h1))), hw_ticks h1, hw_draws h1) =
        start_directory A (json_text E) (clock_text A h) (salt_text h) fl attrs
          (directory_of (rows (drv (hw_store h))), hw_ticks h, hw_draws h)"
    by (rule ldap_main_run [OF eng [unfolded Seq] json ready start [unfolded Seq] attrs])
  have ready1: "host_ready A h1" and w1: "serving ldap_schema rows (hw_store h1)"
    and streams: "clock_text A h1 = clock_text A h" "salt_text h1 = salt_text h"
    using ready h1(2) by (simp_all add: fun_eq_iff host_kept_def host_ready_def clock_text_def salt_text_def)
  from ldap_events [OF eng [unfolded Seq] w1 json ldap_servers_orm [of E fl ldap_schema] ready1 evs]
  obtain h2 where h2: "ldap_serve A (ldap_servers E fl ldap_schema) evs h1 = (Ok replies, h2)"
      "serving ldap_schema rows (hw_store h2)" "(directory_of (rows (drv (hw_store h2))), hw_ticks h2, hw_draws h2) = (d, t, k)"
    unfolding h1(3) streams run [unfolded Seq] by auto
  with h1(1) show ?thesis unfolding Seq by (auto simp: seq_Ok)
qed

section \<open>A password with a space\<close>

definition form :: "string \<Rightarrow> (string \<times> string) list \<Rightarrow> web_request" where
  "form path vals = \<lparr>wq_Method = ''POST'', wq_Path = path,
     wq_FormValue = (\<lambda>n. case map_of vals n of None \<Rightarrow> [] | Some v \<Rightarrow> v)\<rparr>"

definition new_user_form :: "string \<Rightarrow> string \<Rightarrow> string \<Rightarrow> string \<Rightarrow> string \<Rightarrow> web_request" where
  "new_user_form cn oc g sn pw = form ''/users/add'' [(''cn'', cn), (''objectClass'', oc), (''givenName'', g),
     (''sn'', sn), (''userPassword'', pw)]"

definition login_form :: "string \<Rightarrow> string \<Rightarrow> web_request" where
  "login_form dn pw = form ''/auth'' [(''dn'', dn), (''password'', pw)]"

lemma attribute_words:
  assumes w: "word oc" "word g" "word sn" "word p" "word q"
  shows "Fields (''objectClass='' @ oc @ '' givenName='' @ g @ '' sn='' @ sn @ '' userPassword='' @ p @ '' '' @ q) =
    [''objectClass='' @ oc, ''givenName='' @ g, ''sn='' @ sn, ''userPassword='' @ p, q]"
proof -
  have split: "Fields (x @ CHR '' '' # y) = x # Fields y" if "word x" for x y
    using that by (simp add: Fields_append word_Fields)
  have "word (''objectClass='' @ oc)" "word (''givenName='' @ g)" "word (''sn='' @ sn)" "word (''userPassword='' @ p)"
    using w(1-4) by (simp_all add: word_def is_space_def)
  note this [THEN split]
  note this [of "''givenName='' @ g @ '' sn='' @ sn @ '' userPassword='' @ p @ '' '' @ q"]
    this [of "''sn='' @ sn @ '' userPassword='' @ p @ '' '' @ q"]
    this [of "''userPassword='' @ p @ '' '' @ q"] this [of q]
  with word_Fields [OF w(5)] show ?thesis by simp
qed

lemma password_first_word:
  assumes w: "word oc" "word g" "word sn" "word p" "word q" and q: "CHR ''='' \<notin> set q"
  shows "parseAttributes (''objectClass='' @ oc @ '' givenName='' @ g @ '' sn='' @ sn @ '' userPassword='' @ p @ '' '' @ q) =
    GoMap [(''objectClass'', oc), (''givenName'', g), (''sn'', sn), (''userPassword'', p)]"
proof -
  have kv: "SplitN2 (''objectClass'' @ CHR ''='' # oc) CHR ''='' = [''objectClass'', oc]"
    "SplitN2 (''givenName'' @ CHR ''='' # g) CHR ''='' = [''givenName'', g]"
    "SplitN2 (''sn'' @ CHR ''='' # sn) CHR ''='' = [''sn'', sn]"
    "SplitN2 (''userPassword'' @ CHR ''='' # p) CHR ''='' = [''userPassword'', p]"
    by (rule SplitN2_sep, simp)+
  have "SplitN2 q CHR ''='' = [q]" using q by (rule SplitN2_no_sep)
  then show ?thesis
    unfolding parseAttributes_def attribute_words [OF w] using kv by (simp add: parse_part_def)
qed

lemma login_texts:
  "TrimSpace (''ERROR: Invalid credentials'' @ eol) = ''ERROR: Invalid credentials''"
  "TrimSpace (''OK: Bind successful'' @ eol) = ''OK: Bind successful''"
  "\<not> Contains (''ERROR: Invalid credentials'' @ eol) ''OK:''" "Contains (''OK: Bind successful'' @ eol) ''OK:''"
  by code_simp+

lemma login_step:
  "event_perform A jt ws now salt (Request (login_form dn pw)) st =
     (case perform A jt (ws_ldapServer ws) now salt (CBind dn pw) st of
       (a, st) \<Rightarrow> (Response (WPage (AuthResult dn (TrimSpace a) (Contains a ''OK:''))), st))"
proof -
  have f: "wq_FormValue (login_form dn pw) ''dn'' = dn" "wq_FormValue (login_form dn pw) ''password'' = pw"
    "wq_Path (login_form dn pw) = ''/auth''" "wq_Method (login_form dn pw) = ''POST''"
    by (simp_all add: login_form_def form_def)
  show ?thesis
    unfolding event_perform_def web_perform_def Let_def ldap_event.case f on_method_def
    by (simp add: case_prod_unfold del: perform.simps)
qed


section \<open>Witnesses\<close>

definition demo_web :: "tables adst WebServer" where
  "demo_web = NewWebServer demo_server 8080"

lemma demo_web_orm: "orm_Storage (srv_orm (ws_ldapServer demo_web)) = Some (sqlite_storage ldap_env)"
  by (simp add: demo_web_def NewWebServer_def demo_orm)


definition demo_flags :: ldap_flags where
  "demo_flags = \<lparr>fl_port = 389, fl_webPort = 8080, fl_dbPath = ''ldap.db'', fl_bindDN = ''cn=admin,dc=example,dc=com'',
     fl_bindPW = ''admin'', fl_baseDN = ''dc=example,dc=com'', fl_verbose = False\<rparr>"

definition new_host :: "tables adst host" where
  "new_host = (demo_host ldap_schema)\<lparr>hw_store := sqlite_New (eng_world ldap_schema)\<rparr>"

definition demo_events :: "ldap_event list" where
  "demo_events = [Request (login_form ''cn=admin,dc=example,dc=com'' ''admin''),
     Message (''DELETE '' @ ''ou=groups,dc=example,dc=com''),
     Request (form ''/entries/delete'' [(''dn'', ''ou=groups,dc=example,dc=com'')]),
     Request (form ''/search'' [(''baseDN'', ''ou=groups,dc=example,dc=com'')])]"

lemma ldap_program_serves_witness:
  "\<exists>h. seq (ldap_main ldap_env demo_app demo_flags) (\<lambda>servers. ldap_serve demo_app servers demo_events) new_host =
    (Ok [Response (WPage (AuthResult ''cn=admin,dc=example,dc=com'' ''OK: Admin bind successful'' True)),
         Reply (''OK: Entry deleted'' @ eol),
         Response (WError ''Failed to delete entry: entry with DN ou=groups,dc=example,dc=com not found'' 500),
         Response (WPage (SearchResults ''ou=groups,dc=example,dc=com'' [] [] []))], h)"
proof -
  have ready: "host_ready demo_app new_host"
    using ldap_demo_ready by (simp add: host_ready_def new_host_def)
  have fresh: "fresh_process ldap_schema eng_rows (hw_store new_host)"
    using engine_fresh [OF ldap_schemas(3)] by (simp add: new_host_def)
  obtain attrs where attrs: "base_attributes (fl_baseDN demo_flags) = Ok attrs"
    using base_attributes_dc [of "''example''" "''com''"] by (auto simp: demo_flags_def)
  have dn: "word ''ou=groups,dc=example,dc=com''" by (simp add: word_def is_space_def)
  note cmd = command_of_texts(5) [OF dn]
  have evs: "\<forall>ev\<in>set demo_events. event_well ev"
    unfolding demo_events_def list.set ball_simps event_well_def ldap_event.case modifies_well_def cmd
    by (simp add: auth_named_def login_form_def form_def)
  let ?st = "(directory_of (eng_rows (drv (hw_store new_host))), hw_ticks new_host, hw_draws new_host)"
  let ?run = "events_perform demo_app (json_text ldap_env) (ldap_servers ldap_env demo_flags ldap_schema :: tables adst WebServer)
      (clock_text demo_app new_host) (salt_text new_host) demo_events
      (start_directory demo_app (json_text ldap_env) (clock_text demo_app new_host) (salt_text new_host) demo_flags attrs ?st)"
  obtain replies d t k where run: "?run = (replies, d, t, k)" by (metis prod.collapse)
  obtain d0 e where s0: "start_directory demo_app (json_text ldap_env) (clock_text demo_app new_host) (salt_text new_host) demo_flags attrs ?st = (d0, 5, 1)"
    and e: "d_entries d0 ''ou=groups,dc=example,dc=com'' = Some e"
    by (simp add: start_directory_def initial_directory_def Let_def new_host_def demo_host_def demo_flags_def
        sqlite_New_def NewBaseSQLStorage_def eng_world_def eng_rows_def put_entry_def)
  let ?W = "ldap_servers ldap_env demo_flags ldap_schema :: tables adst WebServer"
  let ?step = "event_perform demo_app (json_text ldap_env) ?W (clock_text demo_app new_host) (salt_text new_host)"
  let ?d1 = "d0\<lparr>d_entries := (d_entries d0)(''ou=groups,dc=example,dc=com'' := None), d_users := (d_users d0)(''ou=groups,dc=example,dc=com'' := None)\<rparr>"
  have server: "srv_bindDN (ws_ldapServer ?W) = ''cn=admin,dc=example,dc=com''" "srv_bindPW (ws_ldapServer ?W) = ''admin''"
    by (simp_all add: ldap_servers_def NewWebServer_def NewLDAPServer_def demo_flags_def)
  have ok: "TrimSpace (''OK: Admin bind successful'' @ eol) = ''OK: Admin bind successful''"
    "Contains (''OK: Admin bind successful'' @ eol) ''OK:''" by code_simp+
  have bind: "?step (Request (login_form ''cn=admin,dc=example,dc=com'' ''admin'')) (d0, 5, 1) =
      (Response (WPage (AuthResult ''cn=admin,dc=example,dc=com'' ''OK: Admin bind successful'' True)), d0, 5, 1)"
    unfolding login_step by (simp add: server ok [unfolded append.simps] del: Contains.simps)
  have delete: "?step (Message (''DELETE '' @ ''ou=groups,dc=example,dc=com'')) (d0, 5, 1) = (Reply (''OK: Entry deleted'' @ eol), ?d1, 5, 1)"
    unfolding event_perform_def ldap_event.case cmd by (simp add: e)
  have gone: "?step (Request (form ''/entries/delete'' [(''dn'', ''ou=groups,dc=example,dc=com'')])) (?d1, 5, 1) =
      (Response (WError ''Failed to delete entry: entry with DN ou=groups,dc=example,dc=com not found'' 500), ?d1, 5, 1)"
    unfolding event_perform_def ldap_event.case by (simp add: web_perform_def Let_def form_def removal_def)
  have find: "?step (Request (form ''/search'' [(''baseDN'', ''ou=groups,dc=example,dc=com'')])) (?d1, 5, 1) =
      (Response (WPage (SearchResults ''ou=groups,dc=example,dc=com'' [] [] [])), ?d1, 5, 1)"
    unfolding event_perform_def ldap_event.case by (simp add: web_perform_def Let_def form_def on_method_def listed_def look_def)
  have "fst ?run = [Response (WPage (AuthResult ''cn=admin,dc=example,dc=com'' ''OK: Admin bind successful'' True)),
         Reply (''OK: Entry deleted'' @ eol),
         Response (WError ''Failed to delete entry: entry with DN ou=groups,dc=example,dc=com not found'' 500),
         Response (WPage (SearchResults ''ou=groups,dc=example,dc=com'' [] [] []))]"
    by (simp only: demo_events_def events_perform.simps s0 bind delete gone find prod.case fst_conv)
  with run have "replies = [Response (WPage (AuthResult ''cn=admin,dc=example,dc=com'' ''OK: Admin bind successful'' True)),
         Reply (''OK: Entry deleted'' @ eol),
         Response (WError ''Failed to delete entry: entry with DN ou=groups,dc=example,dc=com not found'' 500),
         Response (WPage (SearchResults ''ou=groups,dc=example,dc=com'' [] [] []))]" by simp
  with ldap_program_serves [OF ldap_schema_built demo_serves demo_json ready engine_opens engine_creates fresh attrs evs run]
  show ?thesis by blast
qed

end
