(* ===== verification/Wiki.thy ===== *)
theory Wiki
  imports Host
begin

text \<open>
  The wiki example (src/examples/wiki): its schema (schema.go), users, sessions and pages as objects
  (models.go), accounts (auth.go), pages (wiki.go) and the HTTP handlers (handlers.go). Templates are
  named, not rendered; a response is the sequence of what is written to it. Times count nanoseconds
  from the zero \<open>time.Time\<close>.
\<close>

section \<open>The schema\<close>

definition wiki_user_columns :: "ColumnData list" where
  "wiki_user_columns =
     [zero_column\<lparr>col_Name := ''id'', col_DataType := ''text'', col_PrimaryKey := True, col_Comment := ''User ID''\<rparr>,
      zero_column\<lparr>col_Name := ''username'', col_DataType := ''text'', col_Unique := True, col_Comment := ''Username''\<rparr>,
      zero_column\<lparr>col_Name := ''email'', col_DataType := ''text'', col_Unique := True, col_Comment := ''Email address''\<rparr>,
      zero_column\<lparr>col_Name := ''password'', col_DataType := ''text'', col_Comment := ''Hashed password''\<rparr>,
      zero_column\<lparr>col_Name := ''created_at'', col_DataType := ''datetime'', col_Comment := ''Creation timestamp''\<rparr>]"

definition wiki_page_columns :: "ColumnData list" where
  "wiki_page_columns =
     [zero_column\<lparr>col_Name := ''id'', col_DataType := ''text'', col_PrimaryKey := True, col_Comment := ''Page ID''\<rparr>,
      zero_column\<lparr>col_Name := ''title'', col_DataType := ''text'', col_Index := True, col_Comment := ''Page title''\<rparr>,
      zero_column\<lparr>col_Name := ''content'', col_DataType := ''text'', col_Comment := ''Page content in markdown''\<rparr>,
      zero_column\<lparr>col_Name := ''author_id'', col_DataType := ''text'', col_Index := True, col_Comment := ''Author user ID''\<rparr>,
      zero_column\<lparr>col_Name := ''created_at'', col_DataType := ''datetime'', col_Comment := ''Creation timestamp''\<rparr>,
      zero_column\<lparr>col_Name := ''updated_at'', col_DataType := ''datetime'', col_Comment := ''Last update timestamp''\<rparr>]"

definition wiki_session_columns :: "ColumnData list" where
  "wiki_session_columns =
     [zero_column\<lparr>col_Name := ''id'', col_DataType := ''text'', col_PrimaryKey := True, col_Comment := ''Session ID''\<rparr>,
      zero_column\<lparr>col_Name := ''user_id'', col_DataType := ''text'', col_Index := True, col_Comment := ''User ID''\<rparr>,
      zero_column\<lparr>col_Name := ''created_at'', col_DataType := ''datetime'', col_Comment := ''Creation timestamp''\<rparr>,
      zero_column\<lparr>col_Name := ''expires_at'', col_DataType := ''datetime'', col_Index := True,
        col_Comment := ''Expiration timestamp''\<rparr>]"

definition createWikiSchema :: "Schema result" where
  "createWikiSchema =
     rbind (SetDatabaseName schema_New ''wiki'') (\<lambda>sch.
     rbind (AddFields (NewTableSchema ''users'') wiki_user_columns) (\<lambda>userTable.
     rbind (AddFields (NewTableSchema ''wiki_pages'') wiki_page_columns) (\<lambda>wikiPageTable.
     rbind (AddFields (NewTableSchema ''sessions'') wiki_session_columns) (\<lambda>sessionTable.
     rbind (AddTable sch (Some userTable)) (\<lambda>sch.
     rbind (AddTable sch (Some wikiPageTable)) (\<lambda>sch.
     AddTable sch (Some sessionTable)))))))"

section \<open>Users, pages and sessions (models.go)\<close>

record wiki_User =
  wu_ID :: string
  wu_Username :: string
  wu_Email :: string
  wu_Password :: string
  wu_CreatedAt :: int

record WikiPage =
  wp_ID :: string
  wp_Title :: string
  wp_Content :: string
  wp_AuthorID :: string
  wp_CreatedAt :: int
  wp_UpdatedAt :: int

record Session =
  ws_ID :: string
  ws_UserID :: string
  ws_CreatedAt :: int
  ws_ExpiresAt :: int

text \<open>A bcrypt hash draws its salt from the random bytes of the process.\<close>

definition HashPassword :: "applib \<Rightarrow> wiki_User \<Rightarrow> ('w host, wiki_User) go" where
  "HashPassword A u = (\<lambda>h. (rbind (app_bcrypt A (wu_Password u) (hw_draws h)) (\<lambda>hashedPassword.
     Ok (u\<lparr>wu_Password := hashedPassword\<rparr>)), h\<lparr>hw_draws := Suc (hw_draws h)\<rparr>))"

definition CheckPassword :: "applib \<Rightarrow> wiki_User \<Rightarrow> string \<Rightarrow> unit result" where
  "CheckPassword A u password = app_bcrypt_check A (wu_Password u) password"

definition wiki_userToObject :: "applib \<Rightarrow> wiki_User \<Rightarrow> Object" where
  "wiki_userToObject A user = \<lparr>obj_TableName = ''users'', obj_ID = wu_ID user, obj_Fields = GoMap
     [(''username'', VStr (wu_Username user)), (''email'', VStr (wu_Email user)),
      (''password'', VStr (wu_Password user)), (''created_at'', VStr (app_rfc3339 A (wu_CreatedAt user)))]\<rparr>"

definition wiki_objectToUser :: "applib \<Rightarrow> Object \<Rightarrow> wiki_User result" where
  "wiki_objectToUser A obj =
     rbind (text_field obj ''username'') (\<lambda>username.
     rbind (text_field obj ''email'') (\<lambda>email.
     rbind (text_field obj ''password'') (\<lambda>password.
     rbind (time_field A obj ''created_at'') (\<lambda>created.
     Ok \<lparr>wu_ID = obj_ID obj, wu_Username = username, wu_Email = email, wu_Password = password,
       wu_CreatedAt = created\<rparr>))))"

definition wikiPageToObject :: "applib \<Rightarrow> WikiPage \<Rightarrow> Object" where
  "wikiPageToObject A page = \<lparr>obj_TableName = ''wiki_pages'', obj_ID = wp_ID page, obj_Fields = GoMap
     [(''title'', VStr (wp_Title page)), (''content'', VStr (wp_Content page)),
      (''author_id'', VStr (wp_AuthorID page)), (''created_at'', VStr (app_rfc3339 A (wp_CreatedAt page))),
      (''updated_at'', VStr (app_rfc3339 A (wp_UpdatedAt page)))]\<rparr>"

definition objectToWikiPage :: "applib \<Rightarrow> Object \<Rightarrow> WikiPage result" where
  "objectToWikiPage A obj =
     rbind (text_field obj ''title'') (\<lambda>title.
     rbind (text_field obj ''content'') (\<lambda>content.
     rbind (text_field obj ''author_id'') (\<lambda>author.
     rbind (time_field A obj ''created_at'') (\<lambda>created.
     rbind (time_field A obj ''updated_at'') (\<lambda>updated.
     Ok \<lparr>wp_ID = obj_ID obj, wp_Title = title, wp_Content = content, wp_AuthorID = author,
       wp_CreatedAt = created, wp_UpdatedAt = updated\<rparr>)))))"

definition sessionToObject :: "applib \<Rightarrow> Session \<Rightarrow> Object" where
  "sessionToObject A session = \<lparr>obj_TableName = ''sessions'', obj_ID = ws_ID session, obj_Fields = GoMap
     [(''user_id'', VStr (ws_UserID session)), (''created_at'', VStr (app_rfc3339 A (ws_CreatedAt session))),
      (''expires_at'', VStr (app_rfc3339 A (ws_ExpiresAt session)))]\<rparr>"

definition objectToSession :: "applib \<Rightarrow> Object \<Rightarrow> Session result" where
  "objectToSession A obj =
     rbind (text_field obj ''user_id'') (\<lambda>user.
     rbind (time_field A obj ''created_at'') (\<lambda>created.
     rbind (time_field A obj ''expires_at'') (\<lambda>expires.
     Ok \<lparr>ws_ID = obj_ID obj, ws_UserID = user, ws_CreatedAt = created, ws_ExpiresAt = expires\<rparr>)))"

section \<open>Accounts (auth.go)\<close>

definition hours24 :: int where
  "hours24 = 24 * 60 * 60 * 1000000000"

definition wiki_generateID :: "('w host, string) go" where
  "wiki_generateID = seq (rand_Read 16) (\<lambda>bytes. ret (EncodeToString bytes))"

definition wiki_Register :: "applib \<Rightarrow> 'w ORM \<Rightarrow> string \<Rightarrow> string \<Rightarrow> string \<Rightarrow> ('w host, wiki_User) go" where
  "wiki_Register A orm username email password =
     seq wiki_generateID (\<lambda>userID.
     seq time_Now (\<lambda>now.
     seq (HashPassword A \<lparr>wu_ID = userID, wu_Username = username, wu_Email = email, wu_Password = password,
            wu_CreatedAt = now\<rparr>) (\<lambda>user.
     seq (on_store (orm_Insert orm (wiki_userToObject A user))) (\<lambda>_.
     ret (user\<lparr>wu_Password := []\<rparr>)))))"

definition CreateSession :: "applib \<Rightarrow> 'w ORM \<Rightarrow> string \<Rightarrow> ('w host, string) go" where
  "CreateSession A orm userID =
     seq wiki_generateID (\<lambda>sessionID.
     seq time_Now (\<lambda>created.
     seq time_Now (\<lambda>now.
     seq (on_store (orm_Insert orm (sessionToObject A
            \<lparr>ws_ID = sessionID, ws_UserID = userID, ws_CreatedAt = created, ws_ExpiresAt = now + hours24\<rparr>))) (\<lambda>_.
     ret sessionID))))"

definition bad_login :: goerr where
  "bad_login = Err ''invalid username or password''"

definition wiki_Login :: "applib \<Rightarrow> 'w ORM \<Rightarrow> string \<Rightarrow> string \<Rightarrow> ('w host, wiki_User \<times> string) go" where
  "wiki_Login A orm username password =
     seq (on_store (orm_FindByKey orm ''users'' ''username'' username)) (\<lambda>obj.
     case obj of
       None \<Rightarrow> fail bad_login
     | Some obj \<Rightarrow>
         seq (pure (wiki_objectToUser A obj)) (\<lambda>user.
         catch (pure (CheckPassword A user password)) (\<lambda>e. fail bad_login) (\<lambda>_.
         seq (CreateSession A orm (wu_ID user)) (\<lambda>sessionID.
         ret (user\<lparr>wu_Password := []\<rparr>, sessionID)))))"

definition ValidateSession :: "applib \<Rightarrow> 'w ORM \<Rightarrow> string \<Rightarrow> ('w host, wiki_User) go" where
  "ValidateSession A orm sessionID =
     seq (on_store (orm_FindByID orm ''sessions'' sessionID)) (\<lambda>obj.
     case obj of
       None \<Rightarrow> fail (Err ''invalid session'')
     | Some obj \<Rightarrow>
         seq (pure (objectToSession A obj)) (\<lambda>session.
         seq time_Now (\<lambda>now.
         if ws_ExpiresAt session < now
         then catch (on_store (orm_DeleteByID orm ''sessions'' sessionID))
                (\<lambda>e. fail (Err ''session expired'')) (\<lambda>b. fail (Err ''session expired''))
         else
           seq (on_store (orm_FindByID orm ''users'' (ws_UserID session))) (\<lambda>userObj.
           case userObj of
             None \<Rightarrow> fail (Err ''user not found'')
           | Some userObj \<Rightarrow>
               seq (pure (wiki_objectToUser A userObj)) (\<lambda>user.
               ret (user\<lparr>wu_Password := []\<rparr>))))))"

definition wiki_Logout :: "'w ORM \<Rightarrow> string \<Rightarrow> ('w host, unit) go" where
  "wiki_Logout orm sessionID = seq (on_store (orm_DeleteByID orm ''sessions'' sessionID)) (\<lambda>_. ret ())"

section \<open>Pages (wiki.go)\<close>

definition CreatePage :: "applib \<Rightarrow> 'w ORM \<Rightarrow> string \<Rightarrow> string \<Rightarrow> string \<Rightarrow> ('w host, WikiPage) go" where
  "CreatePage A orm title content authorID =
     seq wiki_generateID (\<lambda>pageID.
     seq time_Now (\<lambda>created.
     seq time_Now (\<lambda>updated.
     let page = \<lparr>wp_ID = pageID, wp_Title = title, wp_Content = content, wp_AuthorID = authorID,
           wp_CreatedAt = created, wp_UpdatedAt = updated\<rparr>
     in seq (on_store (orm_Insert orm (wikiPageToObject A page))) (\<lambda>_. ret page))))"

definition found_page :: "applib \<Rightarrow> Object option \<Rightarrow> ('w host, WikiPage) go" where
  "found_page A obj = (case obj of
      None \<Rightarrow> fail (Err ''page not found'')
    | Some obj \<Rightarrow> pure (objectToWikiPage A obj))"

definition GetPage :: "applib \<Rightarrow> 'w ORM \<Rightarrow> string \<Rightarrow> ('w host, WikiPage) go" where
  "GetPage A orm pageID = seq (on_store (orm_FindByID orm ''wiki_pages'' pageID)) (found_page A)"

definition GetPageByTitle :: "applib \<Rightarrow> 'w ORM \<Rightarrow> string \<Rightarrow> ('w host, WikiPage) go" where
  "GetPageByTitle A orm title = seq (on_store (orm_FindByKey orm ''wiki_pages'' ''title'' title)) (found_page A)"

definition UpdatePage :: "applib \<Rightarrow> 'w ORM \<Rightarrow> string \<Rightarrow> string \<Rightarrow> string \<Rightarrow> ('w host, WikiPage) go" where
  "UpdatePage A orm pageID title content =
     seq (GetPage A orm pageID) (\<lambda>page.
     seq time_Now (\<lambda>now.
     let page = page\<lparr>wp_Title := title, wp_Content := content, wp_UpdatedAt := now\<rparr>
     in seq (on_store (storage_Update orm (wikiPageToObject A page))) (\<lambda>_. ret page)))"

definition DeletePage :: "'w ORM \<Rightarrow> string \<Rightarrow> ('w host, unit) go" where
  "DeletePage orm pageID = seq (on_store (orm_DeleteByID orm ''wiki_pages'' pageID)) (\<lambda>_. ret ())"

definition SearchPages :: "string \<Rightarrow> ('w host, WikiPage list) go" where
  "SearchPages query =
     (if TrimSpace query = [] then ret []
      else if Fields (ToLower query) = [] then ret []
      else ret [])"

definition GetAllPages :: "('w host, WikiPage list) go" where
  "GetAllPages = ret []"

definition GetPagesByAuthor :: "string \<Rightarrow> ('w host, WikiPage list) go" where
  "GetPagesByAuthor authorID = ret []"

section \<open>The HTTP handlers (handlers.go, RequireAuth of auth.go)\<close>

text \<open>
  A request: its method, path, cookie, form and query values, and the user that \<open>RequireAuth\<close> put into
  its context. A response: headers, redirects, errors, and rendered templates with their data.
\<close>

record request =
  rq_Method :: string
  rq_Path :: string
  rq_Session :: "string option"
  rq_Form :: "string \<Rightarrow> string"
  rq_Query :: "string \<Rightarrow> string"
  rq_User :: "wiki_User option"

datatype datum = DText string | DBool bool | DUser wiki_User | DPage WikiPage

datatype effect =
    Render string "(string \<times> datum) list"
  | Redirect string
  | HttpError string nat
  | SetCookie string int
  | NotFound

type_synonym 'w handler = "request \<Rightarrow> ('w host, effect list) go"

text \<open>The user of a valid session cookie, if there is one; errors are taken for no user.\<close>

definition session_user :: "applib \<Rightarrow> 'w ORM \<Rightarrow> request \<Rightarrow> ('w host, wiki_User option) go" where
  "session_user A orm r = (case rq_Session r of
      None \<Rightarrow> ret None
    | Some c \<Rightarrow> catch (ValidateSession A orm c) (\<lambda>e. ret None) (\<lambda>user. ret (Some user)))"

definition login_data :: "wiki_User option \<Rightarrow> (string \<times> datum) list" where
  "login_data user = (case user of None \<Rightarrow> [] | Some u \<Rightarrow> [(''User'', DUser u), (''LoggedIn'', DBool True)])"

definition RequireAuth :: "applib \<Rightarrow> 'w ORM \<Rightarrow> 'w handler \<Rightarrow> 'w handler" where
  "RequireAuth A orm next1 r = (case rq_Session r of
      None \<Rightarrow> ret [Redirect ''/login'']
    | Some c \<Rightarrow> catch (ValidateSession A orm c)
        (\<lambda>e. ret [SetCookie [] unix_epoch, Redirect ''/login''])
        (\<lambda>user. next1 (r\<lparr>rq_User := Some user\<rparr>)))"

definition HomeHandler :: "applib \<Rightarrow> 'w ORM \<Rightarrow> 'w handler" where
  "HomeHandler A orm r =
     (if rq_Path r \<noteq> ''/'' then ret [NotFound]
      else seq (session_user A orm r) (\<lambda>user.
        ret [Render ''home.html'' ((''Title'', DText ''Wiki Home'') # login_data user)]))"

definition not_allowed :: "effect list" where
  "not_allowed = [HttpError ''Method not allowed'' 405]"

definition LoginHandler :: "applib \<Rightarrow> 'w ORM \<Rightarrow> 'w handler" where
  "LoginHandler A orm r =
     (if rq_Method r = ''GET'' then ret [Render ''login.html'' [(''Title'', DText ''Login'')]]
      else if rq_Method r = ''POST'' then
        catch (wiki_Login A orm (rq_Form r ''username'') (rq_Form r ''password''))
          (\<lambda>e. ret [Render ''login.html'' [(''Title'', DText ''Login''), (''Error'', DText ''Invalid username or password'')]])
          (\<lambda>(user, sessionID). seq time_Now (\<lambda>now. ret [SetCookie sessionID (now + hours24), Redirect ''/'']))
      else ret not_allowed)"

definition RegisterHandler :: "applib \<Rightarrow> 'w ORM \<Rightarrow> 'w handler" where
  "RegisterHandler A orm r =
     (if rq_Method r = ''GET'' then ret [Render ''register.html'' [(''Title'', DText ''Register'')]]
      else if rq_Method r = ''POST'' then
        (if rq_Form r ''password'' \<noteq> rq_Form r ''confirm_password''
         then ret [Render ''register.html'' [(''Title'', DText ''Register''), (''Error'', DText ''Passwords do not match'')]]
         else catch (wiki_Register A orm (rq_Form r ''username'') (rq_Form r ''email'') (rq_Form r ''password''))
           (\<lambda>e. ret [Render ''register.html'' [(''Title'', DText ''Register''),
                   (''Error'', DText (''Registration failed: '' @ error_text e))]])
           (\<lambda>user. ret [Redirect ''/login'']))
      else ret not_allowed)"

definition LogoutHandler :: "'w ORM \<Rightarrow> 'w handler" where
  "LogoutHandler orm r =
     (let leave = ret [SetCookie [] unix_epoch, Redirect ''/'']
      in case rq_Session r of
           None \<Rightarrow> leave
         | Some c \<Rightarrow> catch (wiki_Logout orm c) (\<lambda>e. leave) (\<lambda>_. leave))"

definition ViewPageHandler :: "applib \<Rightarrow> 'w ORM \<Rightarrow> 'w handler" where
  "ViewPageHandler A orm r =
     (let pageTitle = rq_Query r ''title''
      in if pageTitle = [] then ret [HttpError ''Page title required'' 400]
      else seq (session_user A orm r) (\<lambda>currentUser.
        catch (GetPageByTitle A orm pageTitle)
          (\<lambda>e. ret [Render ''page_not_found.html''
             ([(''Title'', DText ''Page Not Found''), (''PageTitle'', DText pageTitle)] @ login_data currentUser)])
          (\<lambda>page. ret [Render ''view_page.html''
             ([(''Title'', DText (wp_Title page)), (''Page'', DPage page)] @ login_data currentUser)])))"

definition edit_data :: "string \<Rightarrow> wiki_User \<Rightarrow> bool \<Rightarrow> WikiPage \<Rightarrow> effect list" where
  "edit_data pageTitle user isEdit page = [Render ''edit_page.html''
     [(''Title'', DText ''Edit Page''), (''PageTitle'', DText pageTitle), (''User'', DUser user),
      (''LoggedIn'', DBool True), (''IsEdit'', DBool isEdit), (''Page'', DPage page)]]"

definition EditPageHandler :: "applib \<Rightarrow> 'w ORM \<Rightarrow> 'w handler" where
  "EditPageHandler A orm r = (case rq_User r of
      None \<Rightarrow> ret [Redirect ''/login'']
    | Some user \<Rightarrow>
        if rq_Method r = ''GET'' then
          (let pageTitle = rq_Query r ''title''
           in if pageTitle = [] then ret [HttpError ''Page title required'' 400]
           else catch (GetPageByTitle A orm pageTitle)
             (\<lambda>e. ret (edit_data pageTitle user False
                \<lparr>wp_ID = [], wp_Title = pageTitle, wp_Content = [], wp_AuthorID = [], wp_CreatedAt = 0, wp_UpdatedAt = 0\<rparr>))
             (\<lambda>page. ret (edit_data pageTitle user True page)))
        else if rq_Method r = ''POST'' then
          (let pageTitle = rq_Form r ''title''; content = rq_Form r ''content''; pageID = rq_Form r ''page_id'';
               go_on = (\<lambda>page. ret [Redirect (''/page?title='' @ pageTitle)])
           in if pageID \<noteq> []
              then catch (UpdatePage A orm pageID pageTitle content)
                (\<lambda>e. ret [HttpError ''Failed to update page'' 500]) go_on
              else catch (CreatePage A orm pageTitle content (wu_ID user))
                (\<lambda>e. ret [HttpError ''Failed to create page'' 500]) go_on)
        else ret not_allowed)"

text \<open>The routes of main.go, the static files left out.\<close>

definition wiki_serve :: "applib \<Rightarrow> 'w ORM \<Rightarrow> 'w handler" where
  "wiki_serve A orm r =
     (if rq_Path r = ''/login'' then LoginHandler A orm r
      else if rq_Path r = ''/register'' then RegisterHandler A orm r
      else if rq_Path r = ''/logout'' then LogoutHandler orm r
      else if rq_Path r = ''/page'' then ViewPageHandler A orm r
      else if rq_Path r = ''/edit'' then RequireAuth A orm (EditPageHandler A orm) r
      else HomeHandler A orm r)"

end
