(* ===== verification/WikiSite.thy ===== *)
theory WikiSite
  imports Wiki HostStore SqliteEngine Times
begin

text \<open>
  The wiki example as a site: its accounts, sessions and pages, what each request answers and does, as a
  step relation, and the rows that hold a site.
\<close>

section \<open>The schema\<close>

definition users_of_wiki :: TableSchema where
  "users_of_wiki = columns_table ''users'' wiki_user_columns"

definition pages_of_wiki :: TableSchema where
  "pages_of_wiki = columns_table ''wiki_pages'' wiki_page_columns"

definition sessions_of_wiki :: TableSchema where
  "sessions_of_wiki = columns_table ''sessions'' wiki_session_columns"

lemmas wiki_table_defs = users_of_wiki_def pages_of_wiki_def sessions_of_wiki_def

lemmas wiki_column_defs = wiki_user_columns_def wiki_page_columns_def wiki_session_columns_def zero_column_def

definition wiki_schema :: Schema where
  "wiki_schema = schema_New\<lparr>sch_DatabaseName := ''wiki'',
     sch_Tables := GoMap [(''users'', users_of_wiki), (''wiki_pages'', pages_of_wiki), (''sessions'', sessions_of_wiki)]\<rparr>"

lemmas wiki_kinds = col_kind_def kind_of_def ToUpper_def upper_char_def

lemma wiki_columns:
  "plain_columns wiki_user_columns" "plain_columns wiki_page_columns" "plain_columns wiki_session_columns"
  by (simp_all add: wiki_column_defs plain_column_def wiki_kinds ToLower_def lower_char_def)

lemma wiki_names [simp]:
  "tab_TableName users_of_wiki = ''users''" "tab_TableName pages_of_wiki = ''wiki_pages''"
  "tab_TableName sessions_of_wiki = ''sessions''"
  by (simp_all add: wiki_table_defs)

lemma wiki_schema_built: "createWikiSchema = Ok wiki_schema"
  by (simp add: createWikiSchema_def AddFields_columns wiki_columns SetDatabaseName_def schema_New_def
      schema_Lock_def schema_Unlock_def mu_Lock_def mu_Unlock_def free_mutex_def AddTable_def make_map_def
      wiki_schema_def wiki_table_defs)

lemma wiki_tables:
  "mget (sch_Tables wiki_schema) ''users'' = Some users_of_wiki"
  "mget (sch_Tables wiki_schema) ''wiki_pages'' = Some pages_of_wiki"
  "mget (sch_Tables wiki_schema) ''sessions'' = Some sessions_of_wiki"
  by (simp_all add: wiki_schema_def mget_def)

lemma wiki_schemas: "plain_schema wiki_schema" "named_schema wiki_schema" "\<not> mu_writer (sch_mu wiki_schema)"
proof -
  have "plain_table users_of_wiki" "plain_table pages_of_wiki" "plain_table sessions_of_wiki"
    by (simp_all add: wiki_table_defs plain_columns_table wiki_columns)
  then show "plain_schema wiki_schema" by (simp add: plain_schema_def wiki_schema_def)
  show "named_schema wiki_schema"
    by (simp add: named_schema_def wiki_schema_def wiki_table_defs wf_map_def mkeys_def plain_name_def blank_def
        unpunct_def is_space_def wiki_column_defs)
  show "\<not> mu_writer (sch_mu wiki_schema)" by (simp add: wiki_schema_def schema_New_def free_mutex_def)
qed

lemma wiki_order:
  "tab_FieldOrder users_of_wiki = [''id'', ''username'', ''email'', ''password'', ''created_at'']"
  "tab_FieldOrder pages_of_wiki = [''id'', ''title'', ''content'', ''author_id'', ''created_at'', ''updated_at'']"
  "tab_FieldOrder sessions_of_wiki = [''id'', ''user_id'', ''created_at'', ''expires_at'']"
  by (simp_all add: wiki_table_defs wiki_column_defs)

lemma wiki_kinds_of:
  "n \<in> {''username'', ''email'', ''password''} \<Longrightarrow> fits (field_of (tab_Fields users_of_wiki) n) v \<longleftrightarrow> has_type v TStr"
  "fits (field_of (tab_Fields users_of_wiki) ''created_at'') v \<longleftrightarrow> (case v of VStr s \<Rightarrow> time_text s | _ \<Rightarrow> False)"
  "n \<in> {''title'', ''content'', ''author_id''} \<Longrightarrow> fits (field_of (tab_Fields pages_of_wiki) n) v \<longleftrightarrow> has_type v TStr"
  "n \<in> {''created_at'', ''updated_at''} \<Longrightarrow>
     fits (field_of (tab_Fields pages_of_wiki) n) v \<longleftrightarrow> (case v of VStr s \<Rightarrow> time_text s | _ \<Rightarrow> False)"
  "fits (field_of (tab_Fields sessions_of_wiki) ''user_id'') v \<longleftrightarrow> has_type v TStr"
  "n \<in> {''created_at'', ''expires_at''} \<Longrightarrow>
     fits (field_of (tab_Fields sessions_of_wiki) n) v \<longleftrightarrow> (case v of VStr s \<Rightarrow> time_text s | _ \<Rightarrow> False)"
  by (auto simp: wiki_table_defs wiki_column_defs field_of_def mget_def fits_def wiki_kinds split: goval.splits)

lemma wiki_texts_of:
  assumes "row_fits users_of_wiki i r"
  shows "r ''username'' = VStr (text_of (r ''username''))" "r ''email'' = VStr (text_of (r ''email''))"
    "r ''password'' = VStr (text_of (r ''password''))" "r ''created_at'' = VStr (text_of (r ''created_at''))"
  using assms by (auto simp: row_fits_def wiki_order wiki_kinds_of text_of_def split: goval.splits)

lemma page_texts_of:
  assumes "row_fits pages_of_wiki i r"
  shows "r ''title'' = VStr (text_of (r ''title''))" "r ''content'' = VStr (text_of (r ''content''))"
    "r ''author_id'' = VStr (text_of (r ''author_id''))" "r ''created_at'' = VStr (text_of (r ''created_at''))"
    "r ''updated_at'' = VStr (text_of (r ''updated_at''))"
  using assms by (auto simp: row_fits_def wiki_order wiki_kinds_of text_of_def split: goval.splits)

lemma session_texts_of:
  assumes "row_fits sessions_of_wiki i r"
  shows "r ''user_id'' = VStr (text_of (r ''user_id''))" "r ''created_at'' = VStr (text_of (r ''created_at''))"
    "r ''expires_at'' = VStr (text_of (r ''expires_at''))"
  using assms by (auto simp: row_fits_def wiki_order wiki_kinds_of text_of_def split: goval.splits)

lemma wiki_unique: "no_unique pages_of_wiki" "no_unique sessions_of_wiki"
  by (simp_all add: no_unique_def wiki_table_defs wiki_column_defs field_of_def mget_def)

lemma wiki_clash:
  "clash users_of_wiki r r' \<longleftrightarrow> r ''username'' \<noteq> VNil \<and> r ''username'' = r' ''username'' \<or>
     r ''email'' \<noteq> VNil \<and> r ''email'' = r' ''email''"
  by (auto simp: clash_def wiki_order) (auto simp: wiki_table_defs wiki_column_defs field_of_def mget_def)

lemma wiki_stored [simp]:
  "stored_text L users_of_wiki (n, x) = (n, VStr x)" "stored_text L pages_of_wiki (n, x) = (n, VStr x)"
  "stored_text L sessions_of_wiki (n, x) = (n, VStr x)"
  by (simp_all add: stored_text_def wiki_table_defs wiki_column_defs field_of_def mget_def ToLower_def lower_char_def)

lemma wiki_keys: "key_column users_of_wiki ''username''" "key_column pages_of_wiki ''title''"
  by (simp_all add: key_column_def wiki_order)
    (simp_all add: wiki_table_defs wiki_column_defs field_of_def mget_def wiki_kinds)

section \<open>The abstract site\<close>

record site =
  s_users :: "string \<Rightarrow> wiki_User option"
  s_sessions :: "string \<Rightarrow> Session option"
  s_pages :: "string \<Rightarrow> WikiPage option"

text \<open>Beside the site there are the numbers of the clock readings and of the random draws so far.\<close>

type_synonym site_state = "site \<times> nat \<times> nat"

definition user_row :: "applib \<Rightarrow> string \<Rightarrow> row \<Rightarrow> wiki_User" where
  "user_row A i r = \<lparr>wu_ID = i, wu_Username = text_of (r ''username''), wu_Email = text_of (r ''email''),
     wu_Password = text_of (r ''password''), wu_CreatedAt = read_time A (r ''created_at'')\<rparr>"

definition session_row :: "applib \<Rightarrow> string \<Rightarrow> row \<Rightarrow> Session" where
  "session_row A i r = \<lparr>ws_ID = i, ws_UserID = text_of (r ''user_id''),
     ws_CreatedAt = read_time A (r ''created_at''), ws_ExpiresAt = read_time A (r ''expires_at'')\<rparr>"

definition page_row :: "applib \<Rightarrow> string \<Rightarrow> row \<Rightarrow> WikiPage" where
  "page_row A i r = \<lparr>wp_ID = i, wp_Title = text_of (r ''title''), wp_Content = text_of (r ''content''),
     wp_AuthorID = text_of (r ''author_id''), wp_CreatedAt = read_time A (r ''created_at''),
     wp_UpdatedAt = read_time A (r ''updated_at'')\<rparr>"

definition site_of :: "applib \<Rightarrow> database \<Rightarrow> site" where
  "site_of A D = \<lparr>s_users = (\<lambda>i. map_option (user_row A i) (D ''users'' i)),
     s_sessions = (\<lambda>i. map_option (session_row A i) (D ''sessions'' i)),
     s_pages = (\<lambda>i. map_option (page_row A i) (D ''wiki_pages'' i))\<rparr>"

text \<open>A page's creation time is a whole second of the years that times are kept for.\<close>

definition site_ok :: "site \<Rightarrow> bool" where
  "site_ok s \<longleftrightarrow> (\<forall>i p. s_pages s i = Some p \<longrightarrow> in_years (wp_CreatedAt p) \<and> to_second (wp_CreatedAt p) = wp_CreatedAt p)"

definition hidden :: "wiki_User \<Rightarrow> wiki_User" where
  "hidden u = u\<lparr>wu_Password := []\<rparr>"

text \<open>The user of a session, which ends when it is asked for after its time.\<close>

fun valid_user :: "(nat \<Rightarrow> int) \<Rightarrow> string \<Rightarrow> site_state \<Rightarrow> wiki_User option \<times> site_state" where
  "valid_user now c (s, t, k) = (case look (s_sessions s) c of
      None \<Rightarrow> (None, s, t, k)
    | Some x \<Rightarrow>
        if ws_ExpiresAt x < now t then (None, s\<lparr>s_sessions := (s_sessions s)(c := None)\<rparr>, Suc t, k)
        else (map_option hidden (look (s_users s) (ws_UserID x)), s, Suc t, k))"

definition visitor :: "(nat \<Rightarrow> int) \<Rightarrow> request \<Rightarrow> site_state \<Rightarrow> wiki_User option \<times> site_state" where
  "visitor now r st = (case rq_Session r of None \<Rightarrow> (None, st) | Some c \<Rightarrow> valid_user now c st)"

fun open_session :: "(nat \<Rightarrow> int) \<Rightarrow> (nat \<Rightarrow> string) \<Rightarrow> string \<Rightarrow> site_state \<Rightarrow> site_state" where
  "open_session now draw i (s, t, k) =
     (s\<lparr>s_sessions := (s_sessions s)(draw k \<mapsto> \<lparr>ws_ID = draw k, ws_UserID = i,
        ws_CreatedAt = to_second (now t), ws_ExpiresAt = to_second (now (Suc t) + hours24)\<rparr>)\<rparr>, Suc (Suc t), Suc k)"

text \<open>A new account takes the place of those with its name or its address.\<close>

definition put_user :: "wiki_User \<Rightarrow> site \<Rightarrow> site" where
  "put_user u s = s\<lparr>s_users := (\<lambda>j. if j = wu_ID u then Some u
     else case s_users s j of None \<Rightarrow> None
       | Some u' \<Rightarrow> if wu_Username u' = wu_Username u \<or> wu_Email u' = wu_Email u then None else Some u')\<rparr>"

fun add_user :: "(nat \<Rightarrow> int) \<Rightarrow> (nat \<Rightarrow> string) \<Rightarrow> string \<Rightarrow> string \<Rightarrow> string \<Rightarrow> site_state \<Rightarrow> site_state" where
  "add_user now draw username email hash (s, t, k) =
     (put_user \<lparr>wu_ID = draw k, wu_Username = username, wu_Email = email, wu_Password = hash,
        wu_CreatedAt = to_second (now t)\<rparr> s, Suc t, Suc (Suc k))"

fun add_page :: "(nat \<Rightarrow> int) \<Rightarrow> (nat \<Rightarrow> string) \<Rightarrow> string \<Rightarrow> string \<Rightarrow> string \<Rightarrow> site_state \<Rightarrow> site_state" where
  "add_page now draw title content author (s, t, k) =
     (s\<lparr>s_pages := (s_pages s)(draw k \<mapsto> \<lparr>wp_ID = draw k, wp_Title = title, wp_Content = content, wp_AuthorID = author,
        wp_CreatedAt = to_second (now t), wp_UpdatedAt = to_second (now (Suc t))\<rparr>)\<rparr>, Suc (Suc t), Suc k)"

fun change_page :: "(nat \<Rightarrow> int) \<Rightarrow> WikiPage \<Rightarrow> string \<Rightarrow> string \<Rightarrow> string \<Rightarrow> site_state \<Rightarrow> site_state" where
  "change_page now p i title content (s, t, k) =
     (s\<lparr>s_pages := (s_pages s)(i \<mapsto> p\<lparr>wp_Title := title, wp_Content := content, wp_UpdatedAt := to_second (now t)\<rparr>)\<rparr>,
      Suc t, k)"

text \<open>What a signed-in user's request of a page's form answers and does.\<close>

definition blank_page :: "string \<Rightarrow> WikiPage" where
  "blank_page title = \<lparr>wp_ID = [], wp_Title = title, wp_Content = [], wp_AuthorID = [], wp_CreatedAt = 0, wp_UpdatedAt = 0\<rparr>"

definition to_page :: "string \<Rightarrow> effect list" where
  "to_page title = [Redirect (''/page?title='' @ title)]"

definition untitled :: "effect list" where
  "untitled = [HttpError ''Page title required'' 400]"

inductive edit_step :: "(nat \<Rightarrow> int) \<Rightarrow> (nat \<Rightarrow> string) \<Rightarrow> request \<Rightarrow> wiki_User \<Rightarrow> site_state \<Rightarrow> effect list \<Rightarrow>
    site_state \<Rightarrow> bool" for now draw r u where
  form_untitled: "rq_Method r = ''GET'' \<Longrightarrow> rq_Query r ''title'' = [] \<Longrightarrow> edit_step now draw r u st untitled st"
| form: "rq_Method r = ''GET'' \<Longrightarrow> rq_Query r ''title'' = x \<Longrightarrow> x \<noteq> [] \<Longrightarrow> keyed (s_pages (fst st)) wp_Title x page \<Longrightarrow>
    edit_step now draw r u st (case page of None \<Rightarrow> edit_data x u False (blank_page x) | Some p \<Rightarrow> edit_data x u True p) st"
| update: "rq_Method r = ''POST'' \<Longrightarrow> rq_Form r ''page_id'' = i \<Longrightarrow> i \<noteq> [] \<Longrightarrow> s_pages (fst st) i = Some p \<Longrightarrow>
    edit_step now draw r u st (to_page (rq_Form r ''title''))
      (change_page now p i (rq_Form r ''title'') (rq_Form r ''content'') st)"
| update_missing: "rq_Method r = ''POST'' \<Longrightarrow> rq_Form r ''page_id'' = i \<Longrightarrow> i \<noteq> [] \<Longrightarrow> s_pages (fst st) i = None \<Longrightarrow>
    edit_step now draw r u st [HttpError ''Failed to update page'' 500] st"
| create: "rq_Method r = ''POST'' \<Longrightarrow> rq_Form r ''page_id'' = [] \<Longrightarrow>
    edit_step now draw r u st (to_page (rq_Form r ''title''))
      (add_page now draw (rq_Form r ''title'') (rq_Form r ''content'') (wu_ID u) st)"
| other: "rq_Method r \<noteq> ''GET'' \<Longrightarrow> rq_Method r \<noteq> ''POST'' \<Longrightarrow> edit_step now draw r u st not_allowed st"

text \<open>What a request answers and does.\<close>

definition login_page :: "(string \<times> datum) list \<Rightarrow> effect list" where
  "login_page note = [Render ''login.html'' ((''Title'', DText ''Login'') # note)]"

definition register_page :: "(string \<times> datum) list \<Rightarrow> effect list" where
  "register_page note = [Render ''register.html'' ((''Title'', DText ''Register'') # note)]"

definition missing_page :: "string \<Rightarrow> wiki_User option \<Rightarrow> effect list" where
  "missing_page x u = [Render ''page_not_found.html''
     ([(''Title'', DText ''Page Not Found''), (''PageTitle'', DText x)] @ login_data u)]"

definition shown_page :: "WikiPage \<Rightarrow> wiki_User option \<Rightarrow> effect list" where
  "shown_page p u = [Render ''view_page.html'' ([(''Title'', DText (wp_Title p)), (''Page'', DPage p)] @ login_data u)]"

definition forget_cookie :: "string \<Rightarrow> effect list" where
  "forget_cookie path = [SetCookie [] unix_epoch, Redirect path]"

definition routes :: "string set" where
  "routes = {''/'', ''/login'', ''/register'', ''/logout'', ''/page'', ''/edit''}"

inductive site_step :: "applib \<Rightarrow> (nat \<Rightarrow> int) \<Rightarrow> (nat \<Rightarrow> string) \<Rightarrow> request \<Rightarrow> site_state \<Rightarrow> effect list \<Rightarrow>
    site_state \<Rightarrow> bool" for A now draw r where
  nowhere: "rq_Path r \<notin> routes \<Longrightarrow> site_step A now draw r st [NotFound] st"
| home: "rq_Path r = ''/'' \<Longrightarrow> visitor now r st = (u, st') \<Longrightarrow>
    site_step A now draw r st [Render ''home.html'' ((''Title'', DText ''Wiki Home'') # login_data u)] st'"
| login_form: "rq_Path r = ''/login'' \<Longrightarrow> rq_Method r = ''GET'' \<Longrightarrow> site_step A now draw r st (login_page []) st"
| login: "rq_Path r = ''/login'' \<Longrightarrow> rq_Method r = ''POST'' \<Longrightarrow>
    keyed (s_users (fst st)) wu_Username (rq_Form r ''username'') (Some u) \<Longrightarrow>
    app_bcrypt_check A (wu_Password u) (rq_Form r ''password'') = Ok () \<Longrightarrow>
    open_session now draw (wu_ID u) st = (s', t', k') \<Longrightarrow>
    site_step A now draw r st [SetCookie (draw (snd (snd st))) (now t' + hours24), Redirect ''/''] (s', Suc t', k')"
| login_refused: "rq_Path r = ''/login'' \<Longrightarrow> rq_Method r = ''POST'' \<Longrightarrow>
    keyed (s_users (fst st)) wu_Username (rq_Form r ''username'') user \<Longrightarrow>
    \<forall>u. user = Some u \<longrightarrow> app_bcrypt_check A (wu_Password u) (rq_Form r ''password'') \<noteq> Ok () \<Longrightarrow>
    site_step A now draw r st (login_page [(''Error'', DText ''Invalid username or password'')]) st"
| login_other: "rq_Path r = ''/login'' \<Longrightarrow> rq_Method r \<noteq> ''GET'' \<Longrightarrow> rq_Method r \<noteq> ''POST'' \<Longrightarrow>
    site_step A now draw r st not_allowed st"
| register_form: "rq_Path r = ''/register'' \<Longrightarrow> rq_Method r = ''GET'' \<Longrightarrow> site_step A now draw r st (register_page []) st"
| register_mismatch: "rq_Path r = ''/register'' \<Longrightarrow> rq_Method r = ''POST'' \<Longrightarrow>
    rq_Form r ''password'' \<noteq> rq_Form r ''confirm_password'' \<Longrightarrow>
    site_step A now draw r st (register_page [(''Error'', DText ''Passwords do not match'')]) st"
| register_failed: "rq_Path r = ''/register'' \<Longrightarrow> rq_Method r = ''POST'' \<Longrightarrow>
    rq_Form r ''password'' = rq_Form r ''confirm_password'' \<Longrightarrow>
    app_bcrypt A (rq_Form r ''password'') (Suc k) = Error e \<Longrightarrow>
    site_step A now draw r (s, t, k) (register_page [(''Error'', DText (''Registration failed: '' @ error_text e))])
      (s, Suc t, Suc (Suc k))"
| register: "rq_Path r = ''/register'' \<Longrightarrow> rq_Method r = ''POST'' \<Longrightarrow>
    rq_Form r ''password'' = rq_Form r ''confirm_password'' \<Longrightarrow>
    app_bcrypt A (rq_Form r ''password'') (Suc (snd (snd st))) = Ok hash \<Longrightarrow>
    site_step A now draw r st [Redirect ''/login'']
      (add_user now draw (rq_Form r ''username'') (rq_Form r ''email'') hash st)"
| register_other: "rq_Path r = ''/register'' \<Longrightarrow> rq_Method r \<noteq> ''GET'' \<Longrightarrow> rq_Method r \<noteq> ''POST'' \<Longrightarrow>
    site_step A now draw r st not_allowed st"
| logout_nobody: "rq_Path r = ''/logout'' \<Longrightarrow> rq_Session r = None \<Longrightarrow> site_step A now draw r st (forget_cookie ''/'') st"
| logout: "rq_Path r = ''/logout'' \<Longrightarrow> rq_Session r = Some c \<Longrightarrow>
    site_step A now draw r (s, t, k) (forget_cookie ''/'') (s\<lparr>s_sessions := (s_sessions s)(c := None)\<rparr>, t, k)"
| view_untitled: "rq_Path r = ''/page'' \<Longrightarrow> rq_Query r ''title'' = [] \<Longrightarrow> site_step A now draw r st untitled st"
| view: "rq_Path r = ''/page'' \<Longrightarrow> rq_Query r ''title'' = x \<Longrightarrow> x \<noteq> [] \<Longrightarrow> visitor now r st = (u, st') \<Longrightarrow>
    keyed (s_pages (fst st')) wp_Title x page \<Longrightarrow>
    site_step A now draw r st (case page of None \<Rightarrow> missing_page x u | Some p \<Rightarrow> shown_page p u) st'"
| edit_nobody: "rq_Path r = ''/edit'' \<Longrightarrow> rq_Session r = None \<Longrightarrow> site_step A now draw r st [Redirect ''/login''] st"
| edit_refused: "rq_Path r = ''/edit'' \<Longrightarrow> rq_Session r = Some c \<Longrightarrow> valid_user now c st = (None, st') \<Longrightarrow>
    site_step A now draw r st (forget_cookie ''/login'') st'"
| edit: "rq_Path r = ''/edit'' \<Longrightarrow> rq_Session r = Some c \<Longrightarrow> valid_user now c st = (Some u, st1) \<Longrightarrow>
    edit_step now draw r u st1 answer st' \<Longrightarrow> site_step A now draw r st answer st'"

section \<open>The process\<close>

text \<open>
  What is asked of bcrypt and of the process: a hash is accepted for the password it was made of; the
  clock shows times of the years that are kept, and sixteen random bytes can be read.
\<close>

definition bcrypt_laws :: "applib \<Rightarrow> bool" where
  "bcrypt_laws A \<longleftrightarrow> (\<forall>p n. returns (app_bcrypt A p n)) \<and> (\<forall>q p. returns (app_bcrypt_check A q p)) \<and>
     (\<forall>p n q. app_bcrypt A p n = Ok q \<longrightarrow> app_bcrypt_check A q p = Ok ())"

definition wiki_ready :: "'w host \<Rightarrow> bool" where
  "wiki_ready h \<longleftrightarrow> (\<forall>n. in_years (hw_clock h n) \<and> in_years (hw_clock h n + hours24)) \<and>
     (\<forall>n. \<exists>b. hw_random h n 16 = Ok b \<and> length b = 16)"

definition drawn_id :: "'w host \<Rightarrow> nat \<Rightarrow> string" where
  "drawn_id h n = (case hw_random h n 16 of Ok b \<Rightarrow> EncodeToString b | _ \<Rightarrow> [])"

lemma length_EncodeToString: "length (EncodeToString bs) = 2 * length bs"
  by (induction bs) (simp_all add: EncodeToString_def)

lemma drawn_id_nonempty: "wiki_ready h \<Longrightarrow> drawn_id h n \<noteq> []"
proof -
  assume "wiki_ready h"
  then obtain b where "hw_random h n 16 = Ok b" "length b = 16" by (auto simp: wiki_ready_def)
  then have "length (drawn_id h n) = 32" by (simp add: drawn_id_def length_EncodeToString)
  then show ?thesis by auto
qed

lemma wiki_generateID_run:
  "wiki_ready h \<Longrightarrow> wiki_generateID h = (Ok (drawn_id h (hw_draws h)), h\<lparr>hw_draws := Suc (hw_draws h)\<rparr>)"
proof -
  assume "wiki_ready h"
  then obtain b where "hw_random h (hw_draws h) 16 = Ok b" by (auto simp: wiki_ready_def)
  then show ?thesis by (simp add: wiki_generateID_def rand_Read_def seq_def drawn_id_def)
qed

lemma seq_generateID:
  "wiki_ready h \<Longrightarrow> seq wiki_generateID f h = f (drawn_id h (hw_draws h)) (h\<lparr>hw_draws := Suc (hw_draws h)\<rparr>)"
  using wiki_generateID_run by (rule seq_Ok)

text \<open>A lookup in the site, as the rows have it.\<close>

lemma site_lookup:
  "s_users (site_of A D) i = map_option (user_row A i) (D ''users'' i)"
  "s_sessions (site_of A D) i = map_option (session_row A i) (D ''sessions'' i)"
  "s_pages (site_of A D) i = map_option (page_row A i) (D ''wiki_pages'' i)"
  by (simp_all add: site_of_def)

lemma site_changes:
  "site_of A (D(''sessions'' := (D ''sessions'')(i := None))) =
     (site_of A D)\<lparr>s_sessions := (s_sessions (site_of A D))(i := None)\<rparr>"
  "site_of A (D(''sessions'' := (D ''sessions'')(i \<mapsto> r))) =
     (site_of A D)\<lparr>s_sessions := (s_sessions (site_of A D))(i \<mapsto> session_row A i r)\<rparr>"
  "site_of A (D(''wiki_pages'' := (D ''wiki_pages'')(i \<mapsto> r))) =
     (site_of A D)\<lparr>s_pages := (s_pages (site_of A D))(i \<mapsto> page_row A i r)\<rparr>"
  by (simp_all add: site_of_def fun_eq_iff)

text \<open>The objects of rows, read by models.go.\<close>

lemma read_user_row:
  assumes o1: "row_object users_of_wiki i r obj" and r: "row_fits users_of_wiki i r"
  shows "wiki_objectToUser A obj = Ok (user_row A i r)"
  using row_fields [OF o1 _ wiki_texts_of(1) [OF r]] row_fields [OF o1 _ wiki_texts_of(2) [OF r]]
    row_fields [OF o1 _ wiki_texts_of(3) [OF r]] row_fields [OF o1 _ wiki_texts_of(4) [OF r]]
    row_object_id [OF o1] wiki_texts_of(4) [OF r]
  by (simp add: wiki_objectToUser_def wiki_order user_row_def)

lemma read_page_row:
  assumes o1: "row_object pages_of_wiki i r obj" and r: "row_fits pages_of_wiki i r"
  shows "objectToWikiPage A obj = Ok (page_row A i r)"
  using row_fields [OF o1 _ page_texts_of(1) [OF r]] row_fields [OF o1 _ page_texts_of(2) [OF r]]
    row_fields [OF o1 _ page_texts_of(3) [OF r]] row_fields [OF o1 _ page_texts_of(4) [OF r]]
    row_fields [OF o1 _ page_texts_of(5) [OF r]] row_object_id [OF o1] page_texts_of(4,5) [OF r]
  by (simp add: objectToWikiPage_def wiki_order page_row_def)

lemma read_session_row:
  assumes o1: "row_object sessions_of_wiki i r obj" and r: "row_fits sessions_of_wiki i r"
  shows "objectToSession A obj = Ok (session_row A i r)"
  using row_fields [OF o1 _ session_texts_of(1) [OF r]] row_fields [OF o1 _ session_texts_of(2) [OF r]]
    row_fields [OF o1 _ session_texts_of(3) [OF r]] row_object_id [OF o1] session_texts_of(2,3) [OF r]
  by (simp add: objectToSession_def wiki_order session_row_def)

text \<open>The objects written, as objects of texts, and the rows they become.\<close>

definition user_texts_of :: "applib \<Rightarrow> wiki_User \<Rightarrow> (string \<times> string) list" where
  "user_texts_of A u = [(''username'', wu_Username u), (''email'', wu_Email u), (''password'', wu_Password u),
     (''created_at'', app_rfc3339 A (wu_CreatedAt u))]"

definition session_texts :: "applib \<Rightarrow> Session \<Rightarrow> (string \<times> string) list" where
  "session_texts A x = [(''user_id'', ws_UserID x), (''created_at'', app_rfc3339 A (ws_CreatedAt x)),
     (''expires_at'', app_rfc3339 A (ws_ExpiresAt x))]"

definition page_texts :: "applib \<Rightarrow> WikiPage \<Rightarrow> (string \<times> string) list" where
  "page_texts A p = [(''title'', wp_Title p), (''content'', wp_Content p), (''author_id'', wp_AuthorID p),
     (''created_at'', app_rfc3339 A (wp_CreatedAt p)), (''updated_at'', app_rfc3339 A (wp_UpdatedAt p))]"

lemmas wiki_text_defs = user_texts_of_def session_texts_def page_texts_def

lemma written_objects:
  "wiki_userToObject A u = text_object ''users'' (wu_ID u) (user_texts_of A u)"
  "sessionToObject A x = text_object ''sessions'' (ws_ID x) (session_texts A x)"
  "wikiPageToObject A p = text_object ''wiki_pages'' (wp_ID p) (page_texts A p)"
  by (simp_all add: wiki_userToObject_def sessionToObject_def wikiPageToObject_def text_object_def wiki_text_defs)

lemma written_names:
  "\<forall>(n, x)\<in>set (user_texts_of A u). ToLower n \<noteq> ''id''" "\<forall>(n, x)\<in>set (session_texts A x). ToLower n \<noteq> ''id''"
  "\<forall>(n, x)\<in>set (page_texts A p). ToLower n \<noteq> ''id''"
  by (simp_all add: wiki_text_defs ToLower_def lower_char_def)

lemma written_rows:
  assumes "time_laws A"
  shows "in_years (wu_CreatedAt u) \<Longrightarrow> whole_row users_of_wiki (map (stored_text L users_of_wiki) (user_texts_of A u))"
    and "in_years (ws_CreatedAt x) \<Longrightarrow> in_years (ws_ExpiresAt x) \<Longrightarrow>
      whole_row sessions_of_wiki (map (stored_text L sessions_of_wiki) (session_texts A x))"
    and "in_years (wp_CreatedAt p) \<Longrightarrow> in_years (wp_UpdatedAt p) \<Longrightarrow>
      whole_row pages_of_wiki (map (stored_text L pages_of_wiki) (page_texts A p))"
  using written_time(1) [OF assms]
  by (simp_all add: whole_row_def good_values_def wiki_order wiki_kinds_of wiki_text_defs)

lemma written_read:
  assumes "time_laws A"
  shows "in_years (wu_CreatedAt u) \<Longrightarrow>
      user_row A (wu_ID u) (new_row (wu_ID u) (map (stored_text L users_of_wiki) (user_texts_of A u))) =
      u\<lparr>wu_CreatedAt := to_second (wu_CreatedAt u)\<rparr>"
    and "in_years (ws_CreatedAt x) \<Longrightarrow> in_years (ws_ExpiresAt x) \<Longrightarrow>
      session_row A (ws_ID x) (new_row (ws_ID x) (map (stored_text L sessions_of_wiki) (session_texts A x))) =
      x\<lparr>ws_CreatedAt := to_second (ws_CreatedAt x), ws_ExpiresAt := to_second (ws_ExpiresAt x)\<rparr>"
    and "in_years (wp_CreatedAt p) \<Longrightarrow> in_years (wp_UpdatedAt p) \<Longrightarrow>
      page_row A (wp_ID p) (new_row (wp_ID p) (map (stored_text L pages_of_wiki) (page_texts A p))) =
      p\<lparr>wp_CreatedAt := to_second (wp_CreatedAt p), wp_UpdatedAt := to_second (wp_UpdatedAt p)\<rparr>"
  using written_time(2) [OF assms]
  by (simp_all add: user_row_def session_row_def page_row_def new_row_def wiki_text_defs)

end
