(* ===== verification/WikiRun.thy ===== *)
theory WikiRun
  imports WikiSite
begin

text \<open>
  The wiki's services and handlers over a storage of tables, each as a step of the site; what every step
  keeps; and runs of requests.
\<close>

section \<open>The services\<close>

lemma valid_user_pages: "s_pages (fst (snd (valid_user now c st))) = s_pages (fst st)"
  by (cases st) (simp split: option.splits)

locale wiki_store = record_store st L db open_on "mget (sch_Tables wiki_schema)"
  for st :: "'w Storage" and L :: "'e golib_scheme" and db :: "'w \<Rightarrow> database" and open_on :: "'w \<Rightarrow> bool" +
  fixes A :: applib and orm1 :: "'w ORM"
  assumes texts: "json_texts L"
    and orm: "orm_Storage orm1 = Some st"
    and times: "time_laws A"
    and bcrypt: "bcrypt_laws A"
begin

definition wst :: "'w host \<Rightarrow> site_state" where
  "wst h = (site_of A (db (hw_store h)), hw_ticks h, hw_draws h)"

lemma moves_same: "moves open_on db h h' (db (hw_store h)) \<Longrightarrow> host_kept open_on h h' \<and> wst h' = wst h"
  by (simp add: moves_def host_kept_def wst_def)

lemma same_streams:
  "host_kept open_on h h' \<Longrightarrow> drawn_id h' = drawn_id h" "host_kept open_on h h' \<Longrightarrow> wiki_ready h \<Longrightarrow> wiki_ready h'"
  by (simp_all add: host_kept_def fun_eq_iff drawn_id_def wiki_ready_def)

lemma row_fit:
  "open_on (hw_store h) \<Longrightarrow> mget (sch_Tables wiki_schema) T = Some tbl \<Longrightarrow> db (hw_store h) T i = Some r \<Longrightarrow> row_fits tbl i r"
  using store_fits_row rows_fit by blast

text \<open>The session of a cookie.\<close>

lemma ValidateSession_run:
  assumes w: "open_on (hw_store h)"
  obtains a h' where "ValidateSession A orm1 c h = (a, h')" and "host_kept open_on h h'"
    and "outcome (fst (valid_user (hw_clock h) c (wst h))) a" and "wst h' = snd (valid_user (hw_clock h) c (wst h))"
proof -
  obtain a h1 where f: "on_store (orm_FindByID orm1 ''sessions'' c) h = (a, h1)"
    and h1: "moves open_on db h h1 (db (hw_store h))"
    and empty: "c = [] \<longrightarrow> (\<exists>e. a = Error e)"
    and none: "c \<noteq> [] \<and> db (hw_store h) ''sessions'' c = None \<longrightarrow> a = Ok None"
    and some: "\<forall>r. c \<noteq> [] \<and> db (hw_store h) ''sessions'' c = Some r \<longrightarrow>
      (\<exists>o1. a = Ok (Some o1) \<and> row_object sessions_of_wiki c r o1)"
    by (rule host_look [OF orm w wiki_tables(3)])
  note same = moves_same [OF h1]
  show thesis
  proof (cases "look (s_sessions (site_of A (db (hw_store h)))) c")
    case None
    then have "c = [] \<or> c \<noteq> [] \<and> db (hw_store h) ''sessions'' c = None"
      by (auto simp: look_def site_lookup split: if_splits)
    with f empty none have "\<exists>e. ValidateSession A orm1 c h = (Error e, h1)"
      by (auto simp: ValidateSession_def seq_def fail_def)
    with None same that show thesis by (auto simp: wst_def)
  next
    case (Some x)
    then obtain r where c: "c \<noteq> []" and r: "db (hw_store h) ''sessions'' c = Some r" and x: "x = session_row A c r"
      by (auto simp: look_def site_lookup split: if_splits)
    with some obtain o1 where o1: "a = Ok (Some o1)" "row_object sessions_of_wiki c r o1" by blast
    note read = read_session_row [OF o1(2) row_fit [OF w wiki_tables(3) r], of A, folded x]
    let ?h2 = "h1\<lparr>hw_ticks := Suc (hw_ticks h1)\<rparr>"
    have eqs: "hw_clock h1 = hw_clock h" "hw_ticks h1 = hw_ticks h" "hw_draws h1 = hw_draws h"
      "hw_random h1 = hw_random h" "db (hw_store h1) = db (hw_store h)"
      using h1 by (simp_all add: moves_def)
    have w2: "open_on (hw_store ?h2)" using h1 by (simp add: moves_def)
    show thesis
    proof (cases "ws_ExpiresAt x < hw_clock h (hw_ticks h)")
      case True
      obtain h3 where del: "on_store (orm_DeleteByID orm1 ''sessions'' c) ?h2 =
          (Ok (db (hw_store ?h2) ''sessions'' c \<noteq> None), h3)"
        and h3: "moves open_on db ?h2 h3 ((db (hw_store ?h2))(''sessions'' := (db (hw_store ?h2) ''sessions'')(c := None)))"
        by (rule host_delete [OF orm w2 wiki_tables(3)])
      have "ValidateSession A orm1 c h = (Error (Err ''session expired''), h3)"
        using f o1(1) read del True eqs by (simp add: ValidateSession_def seq_Ok seq_now catch_Ok)
      moreover have "host_kept open_on h h3" using h3 eqs by (simp add: moves_def host_kept_def)
      moreover have "wst h3 = snd (valid_user (hw_clock h) c (wst h))"
        using h3 eqs Some True by (simp add: moves_def wst_def site_changes)
      moreover have "fst (valid_user (hw_clock h) c (wst h)) = None" using Some True by (simp add: wst_def)
      ultimately show thesis using that by auto
    next
      case False
      let ?i = "ws_UserID x"
      obtain b h3 where f3: "on_store (orm_FindByID orm1 ''users'' ?i) ?h2 = (b, h3)"
        and h3: "moves open_on db ?h2 h3 (db (hw_store ?h2))"
        and empty3: "?i = [] \<longrightarrow> (\<exists>e. b = Error e)"
        and none3: "?i \<noteq> [] \<and> db (hw_store ?h2) ''users'' ?i = None \<longrightarrow> b = Ok None"
        and some3: "\<forall>r. ?i \<noteq> [] \<and> db (hw_store ?h2) ''users'' ?i = Some r \<longrightarrow>
          (\<exists>o1. b = Ok (Some o1) \<and> row_object users_of_wiki ?i r o1)"
        by (rule host_look [OF orm w2 wiki_tables(1)])
      have run: "ValidateSession A orm1 c h = seq (\<lambda>h. (b, h3)) (\<lambda>userObj. case userObj of
             None \<Rightarrow> fail (Err ''user not found'')
           | Some userObj \<Rightarrow> seq (pure (wiki_objectToUser A userObj)) (\<lambda>user. ret (user\<lparr>wu_Password := []\<rparr>))) ?h2"
        using f o1(1) read f3 False eqs by (simp add: ValidateSession_def seq_Ok seq_now) (simp add: seq_def split: result.splits option.splits)
      have s3: "host_kept open_on h h3" and t3: "wst h3 = snd (valid_user (hw_clock h) c (wst h))"
        using h3 eqs Some False by (simp_all add: moves_def host_kept_def wst_def)
      show thesis
      proof (cases "look (s_users (site_of A (db (hw_store h)))) ?i")
        case user: None
        then have "?i = [] \<or> ?i \<noteq> [] \<and> db (hw_store ?h2) ''users'' ?i = None"
          using eqs by (auto simp: look_def site_lookup split: if_splits)
        with empty3 none3 have "\<exists>e. ValidateSession A orm1 c h = (Error e, h3)"
          unfolding run by (auto simp: seq_def fail_def)
        moreover have "fst (valid_user (hw_clock h) c (wst h)) = None" using Some False user by (simp add: wst_def)
        ultimately show thesis using s3 t3 that by auto
      next
        case user: (Some u)
        then obtain ru where i: "?i \<noteq> []" and ru: "db (hw_store h) ''users'' ?i = Some ru" and u: "u = user_row A ?i ru"
          by (auto simp: look_def site_lookup split: if_splits)
        with some3 eqs obtain ou where ou: "b = Ok (Some ou)" "row_object users_of_wiki ?i ru ou" by auto
        from read_user_row [OF ou(2) row_fit [OF w wiki_tables(1) ru], of A]
        have "ValidateSession A orm1 c h = (Ok (hidden u), h3)"
          unfolding run using ou(1) u by (simp add: seq_def pure_def ret_def hidden_def)
        moreover have "fst (valid_user (hw_clock h) c (wst h)) = Some (hidden u)" using Some False user by (simp add: wst_def)
        ultimately show thesis using s3 t3 that by simp
      qed
    qed
  qed
qed

text \<open>Inserts of the site's objects.\<close>

lemma insert_session:
  assumes w: "open_on (hw_store h)" and t: "in_years (ws_CreatedAt x)" "in_years (ws_ExpiresAt x)"
  obtains data h' where "on_store (orm_Insert orm1 (sessionToObject A x)) h = (Ok (data, True), h')" and "host_kept open_on h h'"
    and "wst h' = (let (s, t, k) = wst h in (s\<lparr>s_sessions := (s_sessions s)(ws_ID x \<mapsto>
      x\<lparr>ws_CreatedAt := to_second (ws_CreatedAt x), ws_ExpiresAt := to_second (ws_ExpiresAt x)\<rparr>)\<rparr>, t, k))"
proof -
  obtain data h' where ins: "on_store (orm_Insert orm1 (text_object ''sessions'' (ws_ID x) (session_texts A x))) h = (Ok (data, True), h')"
    and h': "moves open_on db h h' ((db (hw_store h))(''sessions'' := replace_row sessions_of_wiki (ws_ID x)
      (new_row (ws_ID x) (map (stored_text L sessions_of_wiki) (session_texts A x))) (db (hw_store h) ''sessions'')))"
    by (rule host_insert_texts [OF w wiki_tables(3) texts written_names(2) written_rows(2) [OF times t] orm])
  show thesis
    by (rule that [OF ins [folded written_objects]])
      (use h' written_read(2) [OF times t, of L] in
        \<open>simp_all add: moves_def host_kept_def wst_def no_unique_simps [OF wiki_unique(2)] site_changes\<close>)
qed

lemma insert_page:
  assumes w: "open_on (hw_store h)" and t: "in_years (wp_CreatedAt p)" "in_years (wp_UpdatedAt p)"
  obtains data h' where "on_store (orm_Insert orm1 (wikiPageToObject A p)) h = (Ok (data, True), h')" and "host_kept open_on h h'"
    and "wst h' = (let (s, t, k) = wst h in (s\<lparr>s_pages := (s_pages s)(wp_ID p \<mapsto>
      p\<lparr>wp_CreatedAt := to_second (wp_CreatedAt p), wp_UpdatedAt := to_second (wp_UpdatedAt p)\<rparr>)\<rparr>, t, k))"
proof -
  obtain data h' where ins: "on_store (orm_Insert orm1 (text_object ''wiki_pages'' (wp_ID p) (page_texts A p))) h = (Ok (data, True), h')"
    and h': "moves open_on db h h' ((db (hw_store h))(''wiki_pages'' := replace_row pages_of_wiki (wp_ID p)
      (new_row (wp_ID p) (map (stored_text L pages_of_wiki) (page_texts A p))) (db (hw_store h) ''wiki_pages'')))"
    by (rule host_insert_texts [OF w wiki_tables(2) texts written_names(3) written_rows(3) [OF times t] orm])
  show thesis
    by (rule that [OF ins [folded written_objects]])
      (use h' written_read(3) [OF times t, of L] in
        \<open>simp_all add: moves_def host_kept_def wst_def no_unique_simps [OF wiki_unique(1)] site_changes\<close>)
qed

lemma replaced_users:
  assumes D: "store_fits users_of_wiki (D ''users'')" and r: "row_fits users_of_wiki i r"
  shows "site_of A (D(''users'' := replace_row users_of_wiki i r (D ''users''))) = put_user (user_row A i r) (site_of A D)"
proof -
  have names: "\<exists>x y. q ''username'' = VStr x \<and> q ''email'' = VStr y" if "row_fits users_of_wiki j q" for j q
    using wiki_texts_of(1,2) [OF that] by blast
  have "clash users_of_wiki r r' \<longleftrightarrow>
      wu_Username (user_row A j r') = wu_Username (user_row A i r) \<or> wu_Email (user_row A j r') = wu_Email (user_row A i r)"
    if "D ''users'' j = Some r'" for j r'
    using names [OF r] names [OF store_fits_row [OF D that]] by (auto simp: wiki_clash user_row_def)
  moreover have "wu_ID (user_row A i r) = i" by (simp add: user_row_def)
  ultimately show ?thesis
    by (auto simp: site_of_def replace_row_def put_user_def fun_eq_iff split: option.splits)
qed

lemma insert_user:
  assumes w: "open_on (hw_store h)" and t: "in_years (wu_CreatedAt u)"
  obtains data h' where "on_store (orm_Insert orm1 (wiki_userToObject A u)) h = (Ok (data, True), h')" and "host_kept open_on h h'"
    and "wst h' = (put_user (u\<lparr>wu_CreatedAt := to_second (wu_CreatedAt u)\<rparr>) (fst (wst h)), snd (wst h))"
proof -
  let ?r = "new_row (wu_ID u) (map (stored_text L users_of_wiki) (user_texts_of A u))"
  note whole = written_rows(1) [OF times t, of L]
  have fit: "row_fits users_of_wiki (wu_ID u) ?r" using new_row_fits [OF whole] .
  have store: "store_fits users_of_wiki (db (hw_store h) ''users'')" using rows_fit [OF w wiki_tables(1)] .
  obtain data h' where ins: "on_store (orm_Insert orm1 (text_object ''users'' (wu_ID u) (user_texts_of A u))) h = (Ok (data, True), h')"
    and h': "moves open_on db h h' ((db (hw_store h))(''users'' := replace_row users_of_wiki (wu_ID u) ?r (db (hw_store h) ''users'')))"
    by (rule host_insert_texts [OF w wiki_tables(1) texts written_names(1) whole orm])
  show thesis
    by (rule that [OF ins [folded written_objects]])
      (use h' replaced_users [where D = "db (hw_store h)", OF store fit, unfolded written_read(1) [OF times t]] in
        \<open>simp_all add: moves_def host_kept_def wst_def\<close>)
qed

lemma ready_years: "wiki_ready h \<Longrightarrow> in_years (hw_clock h n)" "wiki_ready h \<Longrightarrow> in_years (hw_clock h n + hours24)"
  by (simp_all add: wiki_ready_def)

lemma Register_run:
  assumes ready: "wiki_ready h" and w: "open_on (hw_store h)"
  obtains (hashed) hash h' where "app_bcrypt A password (Suc (hw_draws h)) = Ok hash"
    and "wiki_Register A orm1 username email password h = (Ok \<lparr>wu_ID = drawn_id h (hw_draws h), wu_Username = username,
      wu_Email = email, wu_Password = [], wu_CreatedAt = hw_clock h (hw_ticks h)\<rparr>, h')"
    and "host_kept open_on h h'" and "wst h' = add_user (hw_clock h) (drawn_id h) username email hash (wst h)"
  | (unhashed) e h' where "app_bcrypt A password (Suc (hw_draws h)) = Error e"
    and "wiki_Register A orm1 username email password h = (Error e, h')"
    and "host_kept open_on h h'" and "wst h' = (fst (wst h), Suc (hw_ticks h), Suc (Suc (hw_draws h)))"
proof -
  let ?i = "drawn_id h (hw_draws h)" and ?now = "hw_clock h (hw_ticks h)"
  let ?h = "h\<lparr>hw_ticks := Suc (hw_ticks h), hw_draws := Suc (Suc (hw_draws h))\<rparr>"
  have w': "open_on (hw_store ?h)" using w by simp
  from bcrypt consider hash where "app_bcrypt A password (Suc (hw_draws h)) = Ok hash"
    | e where "app_bcrypt A password (Suc (hw_draws h)) = Error e"
    unfolding bcrypt_laws_def using returns_cases by metis
  then show thesis
  proof cases
    case (1 hash)
    let ?u = "\<lparr>wu_ID = ?i, wu_Username = username, wu_Email = email, wu_Password = hash, wu_CreatedAt = ?now\<rparr>"
    have t: "in_years (wu_CreatedAt ?u)" using ready_years [OF ready] by simp
    obtain data h' where ins: "on_store (orm_Insert orm1 (wiki_userToObject A ?u)) ?h = (Ok (data, True), h')"
      and same: "host_kept open_on ?h h'" and st: "wst h' = (put_user (?u\<lparr>wu_CreatedAt := to_second (wu_CreatedAt ?u)\<rparr>) (fst (wst ?h)), snd (wst ?h))"
      by (rule insert_user [OF w' t])
    have "wiki_Register A orm1 username email password h = (Ok \<lparr>wu_ID = ?i, wu_Username = username, wu_Email = email,
        wu_Password = [], wu_CreatedAt = ?now\<rparr>, h')"
      using ins 1 by (simp add: wiki_Register_def seq_generateID [OF ready] seq_now HashPassword_def seq_Ok)
    then show thesis
      by (rule hashed [OF 1]) (use same st in \<open>simp_all add: host_kept_def wst_def\<close>)
  next
    case (2 e)
    have "wiki_Register A orm1 username email password h = (Error e, ?h)"
      using 2 by (simp add: wiki_Register_def seq_generateID [OF ready] seq_now seq_Error HashPassword_def)
    then show thesis
      by (rule unhashed [OF 2]) (use w in \<open>simp_all add: host_kept_def wst_def\<close>)
  qed
qed

lemma CreateSession_run:
  assumes ready: "wiki_ready h" and w: "open_on (hw_store h)"
  obtains h' where "CreateSession A orm1 i h = (Ok (drawn_id h (hw_draws h)), h')" and "host_kept open_on h h'"
    and "wst h' = open_session (hw_clock h) (drawn_id h) i (wst h)"
proof -
  let ?h = "h\<lparr>hw_draws := Suc (hw_draws h), hw_ticks := Suc (Suc (hw_ticks h))\<rparr>"
  let ?x = "\<lparr>ws_ID = drawn_id h (hw_draws h), ws_UserID = i, ws_CreatedAt = hw_clock h (hw_ticks h),
    ws_ExpiresAt = hw_clock h (Suc (hw_ticks h)) + hours24\<rparr>"
  have w': "open_on (hw_store ?h)" using w by simp
  have t: "in_years (ws_CreatedAt ?x)" "in_years (ws_ExpiresAt ?x)" using ready_years [OF ready] by simp_all
  obtain data h' where ins: "on_store (orm_Insert orm1 (sessionToObject A ?x)) ?h = (Ok (data, True), h')"
    and same: "host_kept open_on ?h h'" and st: "wst h' = (let (s, t, k) = wst ?h in (s\<lparr>s_sessions := (s_sessions s)(ws_ID ?x \<mapsto>
      ?x\<lparr>ws_CreatedAt := to_second (ws_CreatedAt ?x), ws_ExpiresAt := to_second (ws_ExpiresAt ?x)\<rparr>)\<rparr>, t, k))"
    by (rule insert_session [OF w' t])
  have "CreateSession A orm1 i h = (Ok (drawn_id h (hw_draws h)), h')"
    using ins by (simp add: CreateSession_def seq_generateID [OF ready] seq_now seq_Ok)
  then show thesis
    by (rule that) (use same st in \<open>simp_all add: host_kept_def wst_def\<close>)
qed

lemma keyed_user:
  assumes w: "open_on (hw_store h)"
  obtains a h' user where "on_store (orm_FindByKey orm1 ''users'' ''username'' x) h = (a, h')"
    and "moves open_on db h h' (db (hw_store h))" and "keyed (s_users (fst (wst h))) wu_Username x user"
    and "user = None \<longrightarrow> a = Ok None \<or> (\<exists>e. a = Error e)"
    and "\<forall>u. user = Some u \<longrightarrow> (\<exists>obj. a = Ok (Some obj) \<and> wiki_objectToUser A obj = Ok u)"
proof -
  obtain a h' where f: "on_store (orm_FindByKey orm1 ''users'' ''username'' x) h = (a, h')"
    and h': "moves open_on db h h' (db (hw_store h))" and empty: "x = [] \<longrightarrow> (\<exists>e. a = Error e)"
    and some: "x \<noteq> [] \<longrightarrow> (\<exists>res. a = Ok res \<and> found users_of_wiki (db (hw_store h) ''users'') ''username'' x res)"
    by (rule host_look_key [OF orm w wiki_tables(1) wiki_keys(1)])
  show thesis
  proof (cases "x = []")
    case True
    then show thesis using empty by (intro that [OF f h', of None]) (auto simp: keyed_def)
  next
    case False
    with some obtain res where res: "a = Ok res" "found users_of_wiki (db (hw_store h) ''users'') ''username'' x res" by blast
    show thesis
    proof (cases res)
      case None
      have "keyed (s_users (fst (wst h))) wu_Username x None"
        using res(2) None wiki_texts_of(1) [OF row_fit [OF w wiki_tables(1)]]
        by (fastforce simp: keyed_def found_def wst_def site_lookup user_row_def)
      then show thesis using res(1) None by (intro that [OF f h']) auto
    next
      case (Some obj)
      with res(2) obtain i r where r: "db (hw_store h) ''users'' i = Some r" "r ''username'' = VStr x"
        "row_object users_of_wiki i r obj" by (auto simp: found_def)
      have "keyed (s_users (fst (wst h))) wu_Username x (Some (user_row A i r))"
        using False r(1,2) by (auto simp: keyed_def wst_def site_lookup user_row_def intro!: exI [of _ i])
      moreover note read_user_row [OF r(3) row_fit [OF w wiki_tables(1) r(1)], of A]
      ultimately show thesis using res(1) Some by (intro that [OF f h']) auto
    qed
  qed
qed

lemma keyed_page:
  assumes w: "open_on (hw_store h)"
  obtains a h' page where "GetPageByTitle A orm1 x h = (a, h')" and "moves open_on db h h' (db (hw_store h))"
    and "keyed (s_pages (fst (wst h))) wp_Title x page" and "outcome page a"
proof -
  obtain a h' where f: "on_store (orm_FindByKey orm1 ''wiki_pages'' ''title'' x) h = (a, h')"
    and h': "moves open_on db h h' (db (hw_store h))" and empty: "x = [] \<longrightarrow> (\<exists>e. a = Error e)"
    and some: "x \<noteq> [] \<longrightarrow> (\<exists>res. a = Ok res \<and> found pages_of_wiki (db (hw_store h) ''wiki_pages'') ''title'' x res)"
    by (rule host_look_key [OF orm w wiki_tables(2) wiki_keys(2)])
  show thesis
  proof (cases "x = []")
    case True
    with empty f obtain e where "GetPageByTitle A orm1 x h = (Error e, h')" by (auto simp: GetPageByTitle_def seq_def)
    then show thesis by (rule that [OF _ h', of _ None]) (use True in \<open>auto simp: keyed_def\<close>)
  next
    case False
    with some obtain res where res: "a = Ok res" "found pages_of_wiki (db (hw_store h) ''wiki_pages'') ''title'' x res" by blast
    show thesis
    proof (cases res)
      case None
      have "keyed (s_pages (fst (wst h))) wp_Title x None"
        using res(2) None page_texts_of(1) [OF row_fit [OF w wiki_tables(2)]]
        by (fastforce simp: keyed_def found_def wst_def site_lookup page_row_def)
      moreover have "GetPageByTitle A orm1 x h = (Error (Err ''page not found''), h')"
        using f res(1) None by (simp add: GetPageByTitle_def seq_Ok found_page_def fail_def)
      ultimately show thesis using that h' by auto
    next
      case (Some obj)
      with res(2) obtain i r where r: "db (hw_store h) ''wiki_pages'' i = Some r" "r ''title'' = VStr x"
        "row_object pages_of_wiki i r obj" by (auto simp: found_def)
      have "keyed (s_pages (fst (wst h))) wp_Title x (Some (page_row A i r))"
        using False r(1,2) by (auto simp: keyed_def wst_def site_lookup page_row_def intro!: exI [of _ i])
      moreover have "GetPageByTitle A orm1 x h = (Ok (page_row A i r), h')"
        using f res(1) Some read_page_row [OF r(3) row_fit [OF w wiki_tables(2) r(1)], of A]
        by (simp add: GetPageByTitle_def seq_Ok found_page_def pure_def)
      ultimately show thesis using that h' by auto
    qed
  qed
qed

lemma Login_run:
  assumes ready: "wiki_ready h" and w: "open_on (hw_store h)"
  obtains (accepted) u h' where "keyed (s_users (fst (wst h))) wu_Username username (Some u)"
    and "app_bcrypt_check A (wu_Password u) password = Ok ()"
    and "wiki_Login A orm1 username password h = (Ok (hidden u, drawn_id h (hw_draws h)), h')"
    and "host_kept open_on h h'" and "wst h' = open_session (hw_clock h) (drawn_id h) (wu_ID u) (wst h)"
  | (refused) user e h' where "keyed (s_users (fst (wst h))) wu_Username username user"
    and "\<forall>u. user = Some u \<longrightarrow> app_bcrypt_check A (wu_Password u) password \<noteq> Ok ()"
    and "wiki_Login A orm1 username password h = (Error e, h')" and "host_kept open_on h h'" and "wst h' = wst h"
proof -
  obtain a h1 user where f: "on_store (orm_FindByKey orm1 ''users'' ''username'' username) h = (a, h1)"
    and h1: "moves open_on db h h1 (db (hw_store h))" and key: "keyed (s_users (fst (wst h))) wu_Username username user"
    and none: "user = None \<longrightarrow> a = Ok None \<or> (\<exists>e. a = Error e)"
    and some: "\<forall>u. user = Some u \<longrightarrow> (\<exists>obj. a = Ok (Some obj) \<and> wiki_objectToUser A obj = Ok u)"
    by (rule keyed_user [OF w])
  note same = moves_same [OF h1]
  show thesis
  proof (cases user)
    case None
    with none f have "\<exists>e. wiki_Login A orm1 username password h = (Error e, h1)"
      by (auto simp: wiki_Login_def seq_def fail_def)
    then obtain e where run: "wiki_Login A orm1 username password h = (Error e, h1)" ..
    show thesis by (rule refused [OF key _ run]) (use None same in simp_all)
  next
    case (Some u)
    with some obtain obj where obj: "a = Ok (Some obj)" "wiki_objectToUser A obj = Ok u" by blast
    have "returns (app_bcrypt_check A (wu_Password u) password)" using bcrypt by (simp add: bcrypt_laws_def)
    then consider "app_bcrypt_check A (wu_Password u) password = Ok ()"
      | e where "app_bcrypt_check A (wu_Password u) password = Error e" by (auto dest: returns_cases)
    then show thesis
    proof cases
      case 1
      have ready1: "wiki_ready h1" and w1: "open_on (hw_store h1)"
        using same ready by (simp_all add: host_kept_def wiki_ready_def)
      obtain h2 where cs: "CreateSession A orm1 (wu_ID u) h1 = (Ok (drawn_id h1 (hw_draws h1)), h2)" and h2: "host_kept open_on h1 h2"
        and st2: "wst h2 = open_session (hw_clock h1) (drawn_id h1) (wu_ID u) (wst h1)"
        by (rule CreateSession_run [OF ready1 w1])
      have eqs: "hw_clock h1 = hw_clock h" "hw_draws h1 = hw_draws h" "drawn_id h1 = drawn_id h" "wst h1 = wst h"
        using h1 same same_streams(1) by (simp_all add: moves_def)
      have "wiki_Login A orm1 username password h = (Ok (hidden u, drawn_id h (hw_draws h)), h2)"
        using f obj 1 cs eqs by (simp add: wiki_Login_def seq_Ok CheckPassword_def catch_Ok hidden_def)
      then show thesis
        by (rule accepted [OF key [unfolded Some] 1]) (use same h2 st2 eqs same_trans in simp_all)
    next
      case (2 e)
      have run: "wiki_Login A orm1 username password h = (Error bad_login, h1)"
        using f obj 2 by (simp add: wiki_Login_def seq_Ok CheckPassword_def catch_Error)
      show thesis by (rule refused [OF key _ run]) (use Some 2 same in simp_all)
    qed
  qed
qed

lemma Logout_run:
  assumes w: "open_on (hw_store h)"
  obtains h' where "wiki_Logout orm1 c h = (Ok (), h')" and "host_kept open_on h h'"
    and "wst h' = ((fst (wst h))\<lparr>s_sessions := (s_sessions (fst (wst h)))(c := None)\<rparr>, snd (wst h))"
proof -
  obtain h' where "on_store (orm_DeleteByID orm1 ''sessions'' c) h = (Ok (db (hw_store h) ''sessions'' c \<noteq> None), h')"
    and h': "moves open_on db h h' ((db (hw_store h))(''sessions'' := (db (hw_store h) ''sessions'')(c := None)))"
    by (rule host_delete [OF orm w wiki_tables(3)])
  then have "wiki_Logout orm1 c h = (Ok (), h')" by (simp add: wiki_Logout_def seq_Ok)
  then show thesis
    by (rule that) (use h' in \<open>simp_all add: moves_def host_kept_def wst_def site_changes\<close>)
qed

lemma CreatePage_run:
  assumes ready: "wiki_ready h" and w: "open_on (hw_store h)"
  obtains h' where "CreatePage A orm1 title content author h = (Ok \<lparr>wp_ID = drawn_id h (hw_draws h), wp_Title = title,
      wp_Content = content, wp_AuthorID = author, wp_CreatedAt = hw_clock h (hw_ticks h),
      wp_UpdatedAt = hw_clock h (Suc (hw_ticks h))\<rparr>, h')" and "host_kept open_on h h'"
    and "wst h' = add_page (hw_clock h) (drawn_id h) title content author (wst h)"
proof -
  let ?h = "h\<lparr>hw_draws := Suc (hw_draws h), hw_ticks := Suc (Suc (hw_ticks h))\<rparr>"
  let ?p = "\<lparr>wp_ID = drawn_id h (hw_draws h), wp_Title = title, wp_Content = content, wp_AuthorID = author,
    wp_CreatedAt = hw_clock h (hw_ticks h), wp_UpdatedAt = hw_clock h (Suc (hw_ticks h))\<rparr>"
  have w': "open_on (hw_store ?h)" using w by simp
  have t: "in_years (wp_CreatedAt ?p)" "in_years (wp_UpdatedAt ?p)" using ready_years [OF ready] by simp_all
  obtain data h' where ins: "on_store (orm_Insert orm1 (wikiPageToObject A ?p)) ?h = (Ok (data, True), h')"
    and same: "host_kept open_on ?h h'" and st: "wst h' = (let (s, t, k) = wst ?h in (s\<lparr>s_pages := (s_pages s)(wp_ID ?p \<mapsto>
      ?p\<lparr>wp_CreatedAt := to_second (wp_CreatedAt ?p), wp_UpdatedAt := to_second (wp_UpdatedAt ?p)\<rparr>)\<rparr>, t, k))"
    by (rule insert_page [OF w' t])
  have "CreatePage A orm1 title content author h = (Ok ?p, h')"
    using ins by (simp add: CreatePage_def seq_generateID [OF ready] seq_now seq_Ok Let_def)
  then show thesis
    by (rule that) (use same st in \<open>simp_all add: host_kept_def wst_def\<close>)
qed

lemma GetPage_run:
  assumes w: "open_on (hw_store h)"
  obtains a h' where "GetPage A orm1 i h = (a, h')" and "moves open_on db h h' (db (hw_store h))"
    and "outcome (look (s_pages (fst (wst h))) i) a"
proof -
  obtain a h1 where f: "on_store (orm_FindByID orm1 ''wiki_pages'' i) h = (a, h1)"
    and h1: "moves open_on db h h1 (db (hw_store h))"
    and empty: "i = [] \<longrightarrow> (\<exists>e. a = Error e)"
    and none: "i \<noteq> [] \<and> db (hw_store h) ''wiki_pages'' i = None \<longrightarrow> a = Ok None"
    and some: "\<forall>r. i \<noteq> [] \<and> db (hw_store h) ''wiki_pages'' i = Some r \<longrightarrow>
      (\<exists>o1. a = Ok (Some o1) \<and> row_object pages_of_wiki i r o1)"
    by (rule host_look [OF orm w wiki_tables(2)])
  show thesis
  proof (cases "look (s_pages (fst (wst h))) i")
    case None
    then have "i = [] \<or> i \<noteq> [] \<and> db (hw_store h) ''wiki_pages'' i = None"
      by (auto simp: look_def wst_def site_lookup split: if_splits)
    with f empty none have "\<exists>e. GetPage A orm1 i h = (Error e, h1)"
      by (auto simp: GetPage_def seq_def found_page_def fail_def)
    with None h1 that show thesis by auto
  next
    case (Some p)
    then obtain r where i: "i \<noteq> []" and r: "db (hw_store h) ''wiki_pages'' i = Some r" and p: "p = page_row A i r"
      by (auto simp: look_def wst_def site_lookup split: if_splits)
    with some obtain o1 where o1: "a = Ok (Some o1)" "row_object pages_of_wiki i r o1" by blast
    have "GetPage A orm1 i h = (Ok p, h1)"
      using f o1(1) read_page_row [OF o1(2) row_fit [OF w wiki_tables(2) r], of A] p
      by (simp add: GetPage_def seq_Ok found_page_def pure_def)
    with Some h1 that show thesis by auto
  qed
qed

lemma page_update:
  assumes t: "in_years (wp_CreatedAt p)" "in_years (wp_UpdatedAt p)"
  shows "updatable pages_of_wiki (wikiPageToObject A p)"
    and "page_row A i (changed_row r (changes (wikiPageToObject A p))) =
      p\<lparr>wp_ID := i, wp_CreatedAt := to_second (wp_CreatedAt p), wp_UpdatedAt := to_second (wp_UpdatedAt p)\<rparr>"
proof -
  have cs: "changes (wikiPageToObject A p) = map (\<lambda>(n, x). (n, VStr x)) (page_texts A p)"
    unfolding written_objects changes_def using text_object_stored(2) [OF texts written_names(3)] .
  show "updatable pages_of_wiki (wikiPageToObject A p)"
    using t written_time(1) [OF times]
    by (simp add: updatable_def cs good_values_def wiki_order wiki_kinds_of page_texts_def)
      (simp add: wikiPageToObject_def)
  show "page_row A i (changed_row r (changes (wikiPageToObject A p))) =
      p\<lparr>wp_ID := i, wp_CreatedAt := to_second (wp_CreatedAt p), wp_UpdatedAt := to_second (wp_UpdatedAt p)\<rparr>"
    using t written_time(2) [OF times] by (simp add: page_row_def cs changed_row_def page_texts_def)
qed

lemma UpdatePage_run:
  assumes ready: "wiki_ready h" and w: "open_on (hw_store h)" and ok: "site_ok (fst (wst h))"
  obtains (missing) e h' where "look (s_pages (fst (wst h))) i = None"
    and "UpdatePage A orm1 i title content h = (Error e, h')" and "host_kept open_on h h'" and "wst h' = wst h"
  | (updated) p h' where "i \<noteq> []" and "s_pages (fst (wst h)) i = Some p"
    and "UpdatePage A orm1 i title content h =
      (Ok (p\<lparr>wp_Title := title, wp_Content := content, wp_UpdatedAt := hw_clock h (hw_ticks h)\<rparr>), h')"
    and "host_kept open_on h h'" and "wst h' = change_page (hw_clock h) p i title content (wst h)"
proof -
  obtain a h1 where g: "GetPage A orm1 i h = (a, h1)" and h1: "moves open_on db h h1 (db (hw_store h))"
    and out: "outcome (look (s_pages (fst (wst h))) i) a"
    by (rule GetPage_run [OF w])
  show thesis
  proof (cases "look (s_pages (fst (wst h))) i")
    case None
    with out g obtain e where "UpdatePage A orm1 i title content h = (Error e, h1)"
      by (auto simp: UpdatePage_def outcome_def seq_def)
    then show thesis by (rule missing [OF None]) (use moves_same [OF h1] in simp_all)
  next
    case (Some p)
    then obtain r where i: "i \<noteq> []" and r: "db (hw_store h) ''wiki_pages'' i = Some r" and p: "p = page_row A i r"
      by (auto simp: look_def wst_def site_lookup split: if_splits)
    have pages: "s_pages (fst (wst h)) i = Some p" using r p by (simp add: wst_def site_lookup)
    let ?now = "hw_clock h (hw_ticks h)" and ?h2 = "h1\<lparr>hw_ticks := Suc (hw_ticks h1)\<rparr>"
    let ?p = "p\<lparr>wp_Title := title, wp_Content := content, wp_UpdatedAt := ?now\<rparr>"
    have t: "in_years (wp_CreatedAt ?p)" "in_years (wp_UpdatedAt ?p)" and whole: "to_second (wp_CreatedAt p) = wp_CreatedAt p"
      using ready_years [OF ready] ok pages by (simp_all add: site_ok_def)
    have w2: "open_on (hw_store ?h2)" and eqs: "hw_clock h1 = hw_clock h" "hw_ticks h1 = hw_ticks h"
      "hw_draws h1 = hw_draws h" "hw_random h1 = hw_random h" "db (hw_store h1) = db (hw_store h)"
      using h1 by (simp_all add: moves_def)
    let ?cs = "changes (wikiPageToObject A ?p)"
    have id: "obj_ID (wikiPageToObject A ?p) = i" using p by (simp add: wikiPageToObject_def page_row_def)
    have upd: "update_row pages_of_wiki i ?cs (db (hw_store ?h2) ''wiki_pages'') =
        (Some True, (db (hw_store h) ''wiki_pages'')(i \<mapsto> changed_row r ?cs))"
      using r eqs by (simp add: update_row_def no_unique_simps [OF wiki_unique(1)])
    obtain b h3 where u: "on_store (storage_Update orm1 (wikiPageToObject A ?p)) ?h2 = (b, h3)"
      and h3: "moves open_on db ?h2 h3 ((db (hw_store ?h2))(''wiki_pages'' :=
        snd (update_row pages_of_wiki (obj_ID (wikiPageToObject A ?p)) ?cs (db (hw_store ?h2) ''wiki_pages''))))"
      and rep: "reports (\<lambda>b. b) (fst (update_row pages_of_wiki (obj_ID (wikiPageToObject A ?p)) ?cs (db (hw_store ?h2) ''wiki_pages''))) b"
      by (rule host_update [OF orm w2 wiki_tables(2) page_update(1) [OF t]])
    have "b = Ok True" using rep unfolding id upd by (simp add: reports_def)
    then have run: "UpdatePage A orm1 i title content h = (Ok ?p, h3)"
      using g out Some u eqs by (simp add: UpdatePage_def seq_Ok seq_now Let_def)
    have "wp_ID p = i" using p by (simp add: page_row_def)
    then have row: "page_row A i (changed_row r ?cs) = ?p\<lparr>wp_UpdatedAt := to_second ?now\<rparr>"
      using page_update(2) [OF t, of i r] whole by simp
    have "host_kept open_on h h3" "snd (wst h3) = (Suc (hw_ticks h), hw_draws h)"
      using h3 eqs by (simp_all add: moves_def host_kept_def wst_def)
    moreover have "db (hw_store h3) = (db (hw_store h))(''wiki_pages'' := (db (hw_store h) ''wiki_pages'')(i \<mapsto> changed_row r ?cs))"
      using h3 eqs(5) unfolding id upd by (simp add: moves_def)
    ultimately show thesis
      by (intro updated [OF i pages run]) (simp_all add: wst_def site_changes row)
  qed
qed

text \<open>The handlers.\<close>

lemma session_user_run:
  assumes w: "open_on (hw_store h)"
  obtains h' where "session_user A orm1 r h = (Ok (fst (visitor (hw_clock h) r (wst h))), h')" and "host_kept open_on h h'"
    and "wst h' = snd (visitor (hw_clock h) r (wst h))"
proof (cases "rq_Session r")
  case None
  then show thesis using w by (intro that [of h]) (simp_all add: session_user_def visitor_def host_kept_def)
next
  case (Some c)
  obtain a h' where v: "ValidateSession A orm1 c h = (a, h')" and h': "host_kept open_on h h'"
    and out: "outcome (fst (valid_user (hw_clock h) c (wst h))) a" and st: "wst h' = snd (valid_user (hw_clock h) c (wst h))"
    by (rule ValidateSession_run [OF w])
  have "session_user A orm1 r h = (Ok (fst (valid_user (hw_clock h) c (wst h))), h')"
    using v out Some by (auto simp: session_user_def catch_def outcome_def ret_def split: option.splits)
  then show thesis using Some h' st by (intro that [of h']) (simp_all add: visitor_def)
qed

definition serves_step :: "'w host \<Rightarrow> request \<Rightarrow> ('w host, effect list) go \<Rightarrow> bool" where
  "serves_step h r m \<longleftrightarrow> (\<exists>answer h'. m h = (Ok answer, h') \<and> host_kept open_on h h' \<and>
     site_step A (hw_clock h) (drawn_id h) r (wst h) answer (wst h'))"

lemma serves_stepI:
  assumes "m h = (Ok answer, h')" and "host_kept open_on h h'" and "site_step A (hw_clock h) (drawn_id h) r (wst h) answer (wst h')"
  shows "serves_step h r m"
  using assms by (auto simp: serves_step_def)

lemma serve_home:
  assumes w: "open_on (hw_store h)" and p: "rq_Path r \<notin> routes - {''/''}"
  shows "serves_step h r (HomeHandler A orm1 r)"
proof (cases "rq_Path r = ''/''")
  case False
  with p w show ?thesis
    by (intro serves_stepI [where h' = h, OF _ same_refl site_step.nowhere]) (auto simp: HomeHandler_def)
next
  case True
  obtain h' where u: "session_user A orm1 r h = (Ok (fst (visitor (hw_clock h) r (wst h))), h')" and h': "host_kept open_on h h'"
    and st: "wst h' = snd (visitor (hw_clock h) r (wst h))" by (rule session_user_run [OF w])
  have v: "visitor (hw_clock h) r (wst h) = (fst (visitor (hw_clock h) r (wst h)), wst h')" using st by simp
  show ?thesis
    by (rule serves_stepI [OF _ h' site_step.home [OF True v]]) (use True u in \<open>simp add: HomeHandler_def seq_Ok\<close>)
qed

lemma serve_login:
  assumes ready: "wiki_ready h" and w: "open_on (hw_store h)" and p: "rq_Path r = ''/login''"
  shows "serves_step h r (LoginHandler A orm1 r)"
proof -
  consider "rq_Method r = ''GET''" | "rq_Method r = ''POST''" | "rq_Method r \<noteq> ''GET''" "rq_Method r \<noteq> ''POST''" by blast
  then show ?thesis
  proof cases
    case 1
    then show ?thesis
      by (intro serves_stepI [where h' = h, OF _ same_refl [OF w] site_step.login_form [OF p]])
        (simp_all add: LoginHandler_def login_page_def)
  next
    case 2
    show ?thesis
    proof (rule Login_run [OF ready w, of "rq_Form r ''username''" "rq_Form r ''password''"])
      fix u h'
      assume key: "keyed (s_users (fst (wst h))) wu_Username (rq_Form r ''username'') (Some u)"
        and check: "app_bcrypt_check A (wu_Password u) (rq_Form r ''password'') = Ok ()"
        and run: "wiki_Login A orm1 (rq_Form r ''username'') (rq_Form r ''password'') h =
          (Ok (hidden u, drawn_id h (hw_draws h)), h')"
        and h': "host_kept open_on h h'" and st: "wst h' = open_session (hw_clock h) (drawn_id h) (wu_ID u) (wst h)"
      obtain s' where s': "open_session (hw_clock h) (drawn_id h) (wu_ID u) (wst h) = (s', hw_ticks h', hw_draws h')"
        using st by (simp add: wst_def)
      have eqs: "hw_clock h' = hw_clock h" "wst h' = (s', hw_ticks h', hw_draws h')" "snd (snd (wst h)) = hw_draws h"
        using h' st s' by (simp_all add: host_kept_def wst_def)
      show ?thesis
        by (rule serves_stepI [where h' = "h'\<lparr>hw_ticks := Suc (hw_ticks h')\<rparr>"])
          (use 2 run h' eqs site_step.login [OF p 2 key check s'] in
            \<open>simp_all add: LoginHandler_def catch_Ok seq_now host_kept_def wst_def\<close>)
    next
      fix user e h'
      assume key: "keyed (s_users (fst (wst h))) wu_Username (rq_Form r ''username'') user"
        and check: "\<forall>u. user = Some u \<longrightarrow> app_bcrypt_check A (wu_Password u) (rq_Form r ''password'') \<noteq> Ok ()"
        and run: "wiki_Login A orm1 (rq_Form r ''username'') (rq_Form r ''password'') h = (Error e, h')"
        and h': "host_kept open_on h h'" and st: "wst h' = wst h"
      show ?thesis
        by (rule serves_stepI [OF _ h', of _ "login_page [(''Error'', DText ''Invalid username or password'')]"])
          (use 2 run st site_step.login_refused [OF p 2 key check] in
            \<open>simp_all add: LoginHandler_def catch_Error login_page_def\<close>)
    qed
  next
    case 3
    then show ?thesis
      by (intro serves_stepI [where h' = h, OF _ same_refl [OF w] site_step.login_other [OF p]])
        (simp_all add: LoginHandler_def)
  qed
qed

lemma serve_register:
  assumes ready: "wiki_ready h" and w: "open_on (hw_store h)" and p: "rq_Path r = ''/register''"
  shows "serves_step h r (RegisterHandler A orm1 r)"
proof -
  consider "rq_Method r = ''GET''" | "rq_Method r = ''POST''" "rq_Form r ''password'' \<noteq> rq_Form r ''confirm_password''"
    | "rq_Method r = ''POST''" "rq_Form r ''password'' = rq_Form r ''confirm_password''"
    | "rq_Method r \<noteq> ''GET''" "rq_Method r \<noteq> ''POST''" by blast
  then show ?thesis
  proof cases
    case 1
    then show ?thesis
      by (intro serves_stepI [where h' = h, OF _ same_refl [OF w] site_step.register_form [OF p]])
        (simp_all add: RegisterHandler_def register_page_def)
  next
    case 2
    then show ?thesis
      by (intro serves_stepI [where h' = h, OF _ same_refl [OF w] site_step.register_mismatch [OF p]])
        (simp_all add: RegisterHandler_def register_page_def)
  next
    case 3
    show ?thesis
    proof (rule Register_run [OF ready w, of "rq_Form r ''password''" "rq_Form r ''username''" "rq_Form r ''email''"])
      fix hash h'
      assume hash: "app_bcrypt A (rq_Form r ''password'') (Suc (hw_draws h)) = Ok hash"
        and run: "wiki_Register A orm1 (rq_Form r ''username'') (rq_Form r ''email'') (rq_Form r ''password'') h =
          (Ok \<lparr>wu_ID = drawn_id h (hw_draws h), wu_Username = rq_Form r ''username'', wu_Email = rq_Form r ''email'',
            wu_Password = [], wu_CreatedAt = hw_clock h (hw_ticks h)\<rparr>, h')"
        and h': "host_kept open_on h h'"
        and st: "wst h' = add_user (hw_clock h) (drawn_id h) (rq_Form r ''username'') (rq_Form r ''email'') hash (wst h)"
      have "app_bcrypt A (rq_Form r ''password'') (Suc (snd (snd (wst h)))) = Ok hash" using hash by (simp add: wst_def)
      from site_step.register [OF p 3 this] show ?thesis
        by (intro serves_stepI [where h' = h', OF _ h']) (use 3 run st in \<open>simp_all add: RegisterHandler_def catch_Ok\<close>)
    next
      fix e h'
      assume e: "app_bcrypt A (rq_Form r ''password'') (Suc (hw_draws h)) = Error e"
        and run: "wiki_Register A orm1 (rq_Form r ''username'') (rq_Form r ''email'') (rq_Form r ''password'') h = (Error e, h')"
        and h': "host_kept open_on h h'" and st: "wst h' = (fst (wst h), Suc (hw_ticks h), Suc (Suc (hw_draws h)))"
      show ?thesis
        by (rule serves_stepI [OF _ h', of _ "register_page [(''Error'', DText (''Registration failed: '' @ error_text e))]"])
          (use 3 run st site_step.register_failed [OF p 3 e] in
            \<open>simp_all add: RegisterHandler_def catch_Error register_page_def wst_def\<close>)
    qed
  next
    case 4
    then show ?thesis
      by (intro serves_stepI [where h' = h, OF _ same_refl [OF w] site_step.register_other [OF p]])
        (simp_all add: RegisterHandler_def)
  qed
qed

lemma serve_logout:
  assumes w: "open_on (hw_store h)" and p: "rq_Path r = ''/logout''"
  shows "serves_step h r (LogoutHandler orm1 r)"
proof (cases "rq_Session r")
  case None
  then show ?thesis
    by (intro serves_stepI [where h' = h, OF _ same_refl [OF w] site_step.logout_nobody [OF p]])
      (simp_all add: LogoutHandler_def Let_def forget_cookie_def)
next
  case (Some c)
  obtain h' where run: "wiki_Logout orm1 c h = (Ok (), h')" and h': "host_kept open_on h h'"
    and st: "wst h' = ((fst (wst h))\<lparr>s_sessions := (s_sessions (fst (wst h)))(c := None)\<rparr>, snd (wst h))"
    by (rule Logout_run [OF w])
  show ?thesis
    by (rule serves_stepI [OF _ h', of _ "forget_cookie ''/''"])
      (use Some run st site_step.logout [OF p Some, of A "hw_clock h" "drawn_id h" "fst (wst h)" "hw_ticks h" "hw_draws h"] in
        \<open>simp_all add: LogoutHandler_def Let_def forget_cookie_def catch_Ok wst_def\<close>)
qed

lemma serve_page:
  assumes w: "open_on (hw_store h)" and p: "rq_Path r = ''/page''"
  shows "serves_step h r (ViewPageHandler A orm1 r)"
proof (cases "rq_Query r ''title'' = []")
  case True
  then show ?thesis
    by (intro serves_stepI [where h' = h, OF _ same_refl [OF w] site_step.view_untitled [OF p]])
      (simp_all add: ViewPageHandler_def Let_def untitled_def)
next
  case False
  let ?x = "rq_Query r ''title''" and ?v = "visitor (hw_clock h) r (wst h)"
  obtain h1 where u: "session_user A orm1 r h = (Ok (fst ?v), h1)" and h1: "host_kept open_on h h1" and st1: "wst h1 = snd ?v"
    by (rule session_user_run [OF w])
  have w1: "open_on (hw_store h1)" using h1 by (simp add: host_kept_def)
  obtain a h2 page where g: "GetPageByTitle A orm1 ?x h1 = (a, h2)" and h2: "moves open_on db h1 h2 (db (hw_store h1))"
    and key: "keyed (s_pages (fst (wst h1))) wp_Title ?x page" and out: "outcome page a"
    by (rule keyed_page [OF w1])
  have v: "?v = (fst ?v, wst h2)" using st1 moves_same [OF h2] by simp
  have "fst (wst h2) = fst (wst h1)" using moves_same [OF h2] by simp
  note step = site_step.view [OF p refl False v, unfolded this, OF key]
  show ?thesis
    by (rule serves_stepI [OF _ _ step])
      (use False u g out h1 moves_same [OF h2] same_trans in
        \<open>auto simp: ViewPageHandler_def Let_def seq_Ok catch_def outcome_def missing_page_def shown_page_def ret_def split: option.splits\<close>)
qed

definition edits_step :: "'w host \<Rightarrow> request \<Rightarrow> wiki_User \<Rightarrow> ('w host, effect list) go \<Rightarrow> bool" where
  "edits_step h r u m \<longleftrightarrow> (\<exists>answer h'. m h = (Ok answer, h') \<and> host_kept open_on h h' \<and>
     edit_step (hw_clock h) (drawn_id h) r u (wst h) answer (wst h'))"

lemma edits_stepI:
  assumes "m h = (Ok answer, h')" and "host_kept open_on h h'" and "edit_step (hw_clock h) (drawn_id h) r u (wst h) answer (wst h')"
  shows "edits_step h r u m"
  using assms by (auto simp: edits_step_def)

lemma edit_form:
  assumes w: "open_on (hw_store h)" and m: "rq_Method r = ''GET''"
  shows "edits_step h r u (EditPageHandler A orm1 (r\<lparr>rq_User := Some u\<rparr>))"
proof (cases "rq_Query r ''title'' = []")
  case True
  then show ?thesis
    by (intro edits_stepI [where h' = h, OF _ same_refl [OF w] edit_step.form_untitled [OF m]])
      (simp_all add: EditPageHandler_def untitled_def m Let_def)
next
  case False
  let ?x = "rq_Query r ''title''"
  obtain a h' page where g: "GetPageByTitle A orm1 ?x h = (a, h')" and h': "moves open_on db h h' (db (hw_store h))"
    and key: "keyed (s_pages (fst (wst h))) wp_Title ?x page" and out: "outcome page a"
    by (rule keyed_page [OF w])
  have run: "EditPageHandler A orm1 (r\<lparr>rq_User := Some u\<rparr>) h =
      (Ok (case page of None \<Rightarrow> edit_data ?x u False (blank_page ?x) | Some p \<Rightarrow> edit_data ?x u True p), h')"
    using False g out
    by (auto simp: EditPageHandler_def m Let_def catch_def outcome_def ret_def blank_page_def split: option.splits)
  have "host_kept open_on h h'" and "edit_step (hw_clock h) (drawn_id h) r u (wst h)
      (case page of None \<Rightarrow> edit_data ?x u False (blank_page ?x) | Some p \<Rightarrow> edit_data ?x u True p) (wst h')"
    using moves_same [OF h'] edit_step.form [OF m refl False key] by simp_all
  with run show ?thesis by (rule edits_stepI)
qed

lemma edit_save:
  assumes ready: "wiki_ready h" and w: "open_on (hw_store h)" and ok: "site_ok (fst (wst h))" and m: "rq_Method r = ''POST''"
  shows "edits_step h r u (EditPageHandler A orm1 (r\<lparr>rq_User := Some u\<rparr>))"
proof (cases "rq_Form r ''page_id'' = []")
  case True
  obtain h' where run: "CreatePage A orm1 (rq_Form r ''title'') (rq_Form r ''content'') (wu_ID u) h =
      (Ok \<lparr>wp_ID = drawn_id h (hw_draws h), wp_Title = rq_Form r ''title'',
      wp_Content = rq_Form r ''content'', wp_AuthorID = wu_ID u, wp_CreatedAt = hw_clock h (hw_ticks h),
      wp_UpdatedAt = hw_clock h (Suc (hw_ticks h))\<rparr>, h')" and h': "host_kept open_on h h'"
    and st: "wst h' = add_page (hw_clock h) (drawn_id h) (rq_Form r ''title'') (rq_Form r ''content'') (wu_ID u) (wst h)"
    by (rule CreatePage_run [OF ready w])
  have "EditPageHandler A orm1 (r\<lparr>rq_User := Some u\<rparr>) h = (Ok (to_page (rq_Form r ''title'')), h')"
    using True run m by (simp add: EditPageHandler_def Let_def catch_Ok to_page_def)
  then show ?thesis
    by (rule edits_stepI [OF _ h']) (use edit_step.create [OF m True] st in simp)
next
  case False
  show ?thesis
  proof (rule UpdatePage_run [OF ready w ok, of "rq_Form r ''page_id''" "rq_Form r ''title''" "rq_Form r ''content''"])
    fix e h'
    assume none: "look (s_pages (fst (wst h))) (rq_Form r ''page_id'') = None"
      and run: "UpdatePage A orm1 (rq_Form r ''page_id'') (rq_Form r ''title'') (rq_Form r ''content'') h = (Error e, h')"
      and h': "host_kept open_on h h'" and st: "wst h' = wst h"
    have "s_pages (fst (wst h)) (rq_Form r ''page_id'') = None" using none False by (simp add: look_def)
    note step = edit_step.update_missing [OF m refl False this]
    have "EditPageHandler A orm1 (r\<lparr>rq_User := Some u\<rparr>) h = (Ok [HttpError ''Failed to update page'' 500], h')"
      using False run m by (simp add: EditPageHandler_def Let_def catch_Error)
    then show ?thesis by (rule edits_stepI [OF _ h']) (use step st in simp)
  next
    fix p h'
    assume p: "s_pages (fst (wst h)) (rq_Form r ''page_id'') = Some p"
      and run: "UpdatePage A orm1 (rq_Form r ''page_id'') (rq_Form r ''title'') (rq_Form r ''content'') h =
        (Ok (p\<lparr>wp_Title := rq_Form r ''title'', wp_Content := rq_Form r ''content'', wp_UpdatedAt := hw_clock h (hw_ticks h)\<rparr>), h')"
      and h': "host_kept open_on h h'"
      and st: "wst h' = change_page (hw_clock h) p (rq_Form r ''page_id'') (rq_Form r ''title'') (rq_Form r ''content'') (wst h)"
    have "EditPageHandler A orm1 (r\<lparr>rq_User := Some u\<rparr>) h = (Ok (to_page (rq_Form r ''title'')), h')"
      using False run m by (simp add: EditPageHandler_def Let_def catch_Ok to_page_def)
    then show ?thesis
      by (rule edits_stepI [OF _ h']) (use edit_step.update [OF m refl False p] st in simp)
  qed
qed

lemma edit_other:
  assumes w: "open_on (hw_store h)" and m: "rq_Method r \<noteq> ''GET''" "rq_Method r \<noteq> ''POST''"
  shows "edits_step h r u (EditPageHandler A orm1 (r\<lparr>rq_User := Some u\<rparr>))"
  using m by (intro edits_stepI [where h' = h, OF _ same_refl [OF w] edit_step.other]) (simp_all add: EditPageHandler_def)

lemma serve_edit:
  assumes ready: "wiki_ready h" and w: "open_on (hw_store h)" and ok: "site_ok (fst (wst h))" and p: "rq_Path r = ''/edit''"
  shows "serves_step h r (RequireAuth A orm1 (EditPageHandler A orm1) r)"
proof (cases "rq_Session r")
  case None
  then show ?thesis
    by (intro serves_stepI [where h' = h, OF _ same_refl [OF w] site_step.edit_nobody [OF p]]) (simp_all add: RequireAuth_def)
next
  case (Some c)
  let ?v = "valid_user (hw_clock h) c (wst h)"
  obtain a h1 where v: "ValidateSession A orm1 c h = (a, h1)" and h1: "host_kept open_on h h1"
    and out: "outcome (fst ?v) a" and st1: "wst h1 = snd ?v"
    by (rule ValidateSession_run [OF w])
  show ?thesis
  proof (cases "fst ?v")
    case None
    then have "?v = (None, wst h1)" using st1 by (metis prod.collapse)
    note step = site_step.edit_refused [OF p Some this]
    have "RequireAuth A orm1 (EditPageHandler A orm1) r h = (Ok (forget_cookie ''/login''), h1)"
      using Some v out None by (auto simp: RequireAuth_def catch_def outcome_def forget_cookie_def ret_def)
    then show ?thesis using h1 step by (rule serves_stepI)
  next
    case user: (Some u)
    then have valid: "?v = (Some u, wst h1)" using st1 by (metis prod.collapse)
    have "site_ok (fst (wst h1))" using ok st1 by (simp add: site_ok_def valid_user_pages)
    moreover have "wiki_ready h1" "open_on (hw_store h1)" using h1 ready by (simp_all add: host_kept_def wiki_ready_def)
    ultimately have "edits_step h1 r u (EditPageHandler A orm1 (r\<lparr>rq_User := Some u\<rparr>))"
      using edit_form edit_save edit_other by blast
    then obtain answer h2 where e: "EditPageHandler A orm1 (r\<lparr>rq_User := Some u\<rparr>) h1 = (Ok answer, h2)"
      and h2: "host_kept open_on h1 h2" and step: "edit_step (hw_clock h1) (drawn_id h1) r u (wst h1) answer (wst h2)"
      unfolding edits_step_def by blast
    have "hw_clock h1 = hw_clock h" "drawn_id h1 = drawn_id h"
      using h1 same_streams(1) by (simp_all add: host_kept_def)
    with step have step': "edit_step (hw_clock h) (drawn_id h) r u (wst h1) answer (wst h2)" by simp
    have "RequireAuth A orm1 (EditPageHandler A orm1) r h = (Ok answer, h2)"
      using Some v out user e by (simp add: RequireAuth_def catch_Ok)
    then show ?thesis using same_trans [OF h1 h2] site_step.edit [OF p Some valid step'] by (rule serves_stepI)
  qed
qed

lemma serve_request:
  assumes "wiki_ready h" and "open_on (hw_store h)" and "site_ok (fst (wst h))"
  shows "serves_step h r (wiki_serve A orm1 r)"
  using assms serve_login serve_register serve_logout serve_page serve_edit serve_home
  by (auto simp: wiki_serve_def routes_def)

end

section \<open>What every step keeps\<close>

inductive_cases edit_stepE: "edit_step now draw r u st answer st'"

inductive_cases site_stepE: "site_step A now draw r st answer st'"

text \<open>What a request can do to a page.\<close>

fun page_edited :: "(nat \<Rightarrow> int) \<Rightarrow> (nat \<Rightarrow> string) \<Rightarrow> request \<Rightarrow> wiki_User \<Rightarrow> site_state \<Rightarrow> string \<Rightarrow> WikiPage option \<Rightarrow> bool" where
  "page_edited now draw r u (s, t, k) i page \<longleftrightarrow> rq_Method r = ''POST'' \<and>
     (rq_Form r ''page_id'' = i \<and> i \<noteq> [] \<and> (\<exists>p. s_pages s i = Some p \<and>
        page = Some (p\<lparr>wp_Title := rq_Form r ''title'', wp_Content := rq_Form r ''content'', wp_UpdatedAt := to_second (now t)\<rparr>)) \<or>
      rq_Form r ''page_id'' = [] \<and> i = draw k \<and>
        page = Some \<lparr>wp_ID = i, wp_Title = rq_Form r ''title'', wp_Content = rq_Form r ''content'', wp_AuthorID = wu_ID u,
          wp_CreatedAt = to_second (now t), wp_UpdatedAt = to_second (now (Suc t))\<rparr>)"

lemma edit_step_pages:
  assumes "edit_step now draw r u st answer st'"
  shows "s_pages (fst st') i = s_pages (fst st) i \<or> page_edited now draw r u st i (s_pages (fst st') i)"
  using assms by (cases st; cases rule: edit_step.cases) auto

lemma site_step_pages:
  assumes "site_step A now draw r st answer st'"
  shows "s_pages (fst st') i = s_pages (fst st) i \<or>
    rq_Path r = ''/edit'' \<and> (\<exists>c u st1. rq_Session r = Some c \<and> valid_user now c st = (Some u, st1) \<and>
      page_edited now draw r u st1 i (s_pages (fst st') i))"
  using assms
proof cases
  case (edit c u st1)
  have "s_pages (fst st1) = s_pages (fst st)" using edit(3) valid_user_pages by (metis snd_conv)
  from edit_step_pages [OF edit(4), of i, unfolded this] edit(1-3) show ?thesis by blast
qed (cases st; auto simp: visitor_def put_user_def dest: arg_cong [where f = "\<lambda>x. s_pages (fst (snd x))"] split: option.splits if_splits)+

lemma site_step_ok:
  assumes "site_step A now draw r st answer st'" and now: "\<forall>n. in_years (now n)" and "site_ok (fst st)"
  shows "site_ok (fst st')"
  unfolding site_ok_def
proof (intro allI impI)
  fix i p'
  assume p': "s_pages (fst st') i = Some p'"
  from site_step_pages [OF assms(1), of i] show "in_years (wp_CreatedAt p') \<and> to_second (wp_CreatedAt p') = wp_CreatedAt p'"
  proof
    assume "s_pages (fst st') i = s_pages (fst st) i"
    with p' assms(3) show ?thesis by (simp add: site_ok_def)
  next
    assume "rq_Path r = ''/edit'' \<and> (\<exists>c u st1. rq_Session r = Some c \<and> valid_user now c st = (Some u, st1) \<and>
      page_edited now draw r u st1 i (s_pages (fst st') i))"
    then obtain c u s1 t1 k1 where v: "valid_user now c st = (Some u, s1, t1, k1)"
      and e: "page_edited now draw r u (s1, t1, k1) i (Some p')" using p' by (metis prod.collapse)
    have "s_pages s1 = s_pages (fst st)" using valid_user_pages v by (metis fst_conv snd_conv)
    with e now in_years_second assms(3) show ?thesis by (auto simp: site_ok_def)
  qed
qed

section \<open>Runs of requests\<close>

inductive site_steps :: "applib \<Rightarrow> (nat \<Rightarrow> int) \<Rightarrow> (nat \<Rightarrow> string) \<Rightarrow> request list \<Rightarrow> site_state \<Rightarrow> effect list list \<Rightarrow>
    site_state \<Rightarrow> bool" for A now draw where
  site_nil: "site_steps A now draw [] st [] st"
| site_cons: "site_step A now draw r st answer st1 \<Longrightarrow> site_steps A now draw rs st1 answers st' \<Longrightarrow>
    site_steps A now draw (r # rs) st (answer # answers) st'"

lemma site_steps_invariant:
  assumes steps: "site_steps A now draw rs st answers st'"
    and inv: "\<And>r st answer st'. site_step A now draw r st answer st' \<Longrightarrow> Q st \<Longrightarrow> Q st'"
  shows "Q st \<Longrightarrow> Q st'"
  using steps by induction (auto dest: inv)

text \<open>The requests of a server's life, one after the other.\<close>

fun wiki_run :: "applib \<Rightarrow> 'w ORM \<Rightarrow> request list \<Rightarrow> ('w host, effect list list) go" where
  "wiki_run A orm1 [] = ret []"
| "wiki_run A orm1 (r # rs) = seq (wiki_serve A orm1 r) (\<lambda>answer. seq (wiki_run A orm1 rs) (\<lambda>answers. ret (answer # answers)))"

context wiki_store
begin

lemma run_requests:
  assumes "wiki_ready h" and "open_on (hw_store h)" and "site_ok (fst (wst h))"
  shows "\<exists>answers h'. wiki_run A orm1 rs h = (Ok answers, h') \<and> host_kept open_on h h' \<and> site_ok (fst (wst h')) \<and>
    site_steps A (hw_clock h) (drawn_id h) rs (wst h) answers (wst h')"
  using assms
proof (induction rs arbitrary: h)
  case Nil
  then show ?case by (auto simp: same_refl intro: site_nil)
next
  case (Cons r rs)
  from serve_request [OF Cons.prems, of r] obtain answer h1 where h1: "wiki_serve A orm1 r h = (Ok answer, h1)"
      "host_kept open_on h h1" "site_step A (hw_clock h) (drawn_id h) r (wst h) answer (wst h1)"
    by (auto simp: serves_step_def)
  have next1: "wiki_ready h1" "open_on (hw_store h1)" "hw_clock h1 = hw_clock h" "drawn_id h1 = drawn_id h"
    using h1(2) Cons.prems(1) same_streams by (simp_all add: host_kept_def)
  have "site_ok (fst (wst h1))"
    using site_step_ok [OF h1(3)] Cons.prems(1,3) by (simp add: wiki_ready_def)
  from Cons.IH [OF next1(1,2) this] obtain answers h2 where h2: "wiki_run A orm1 rs h1 = (Ok answers, h2)" "host_kept open_on h1 h2"
      "site_ok (fst (wst h2))" "site_steps A (hw_clock h) (drawn_id h) rs (wst h1) answers (wst h2)"
    by (auto simp: next1)
  have "wiki_run A orm1 (r # rs) h = (Ok (answer # answers), h2)"
    using h1(1) h2(1) by (simp add: seq_Ok)
  then show ?case using same_trans [OF h1(2) h2(2)] h2(3) site_cons [OF h1(3) h2(4)] by blast
qed

lemma site_look: "s_users (fst (wst h)) i = map_option (user_row A i) (db (hw_store h) ''users'' i)"
  "s_sessions (fst (wst h)) i = map_option (session_row A i) (db (hw_store h) ''sessions'' i)"
  by (simp_all add: wst_def site_lookup)

text \<open>A new account, its login and the session that it opens.\<close>

lemma account_roundtrip:
  assumes ready: "wiki_ready h" and w: "open_on (hw_store h)"
    and hash: "app_bcrypt A password (Suc (hw_draws h)) = Ok hash" and name: "username \<noteq> []"
    and alive: "hw_clock h (hw_ticks h + 3) \<le> to_second (hw_clock h (hw_ticks h + 2) + hours24)"
  shows "\<exists>h'. seq (wiki_Register A orm1 username email password) (\<lambda>u.
      seq (wiki_Login A orm1 username password) (\<lambda>(u, c). ValidateSession A orm1 c)) h =
    (Ok \<lparr>wu_ID = drawn_id h (hw_draws h), wu_Username = username, wu_Email = email, wu_Password = [],
      wu_CreatedAt = to_second (hw_clock h (hw_ticks h))\<rparr>, h') \<and> host_kept open_on h h'"
proof -
  let ?now = "hw_clock h" and ?draw = "drawn_id h" and ?t = "hw_ticks h" and ?k = "hw_draws h"
  let ?u = "\<lparr>wu_ID = ?draw ?k, wu_Username = username, wu_Email = email, wu_Password = hash, wu_CreatedAt = to_second (?now ?t)\<rparr>"
  obtain h1 where r1: "wiki_Register A orm1 username email password h = (Ok \<lparr>wu_ID = ?draw ?k, wu_Username = username,
      wu_Email = email, wu_Password = [], wu_CreatedAt = ?now ?t\<rparr>, h1)"
    and s1: "host_kept open_on h h1" and st1: "wst h1 = add_user ?now ?draw username email hash (wst h)"
    by (rule Register_run [OF ready w, of password username email]) (use hash in auto)
  have site1: "wst h1 = (put_user ?u (fst (wst h)), Suc ?t, Suc (Suc ?k))" using st1 by (simp add: wst_def)
  have eqs1: "wiki_ready h1" "open_on (hw_store h1)" "hw_clock h1 = ?now" "drawn_id h1 = ?draw"
    using s1 ready same_streams by (simp_all add: host_kept_def)
  have only: "u = ?u" if "keyed (s_users (fst (wst h1))) wu_Username username (Some u)" for u
    using that by (auto simp: keyed_def site1 put_user_def split: if_splits option.splits)
  have some: "\<not> keyed (s_users (fst (wst h1))) wu_Username username None"
    using name by (auto simp: keyed_def site1 put_user_def)
  have check: "app_bcrypt_check A hash password = Ok ()" using bcrypt hash by (auto simp: bcrypt_laws_def)
  obtain h2 where r2: "wiki_Login A orm1 username password h1 = (Ok (hidden ?u, ?draw (Suc (Suc ?k))), h2)"
    and s2: "host_kept open_on h1 h2" and st2: "wst h2 = open_session ?now ?draw (?draw ?k) (wst h1)"
  proof (rule Login_run [OF eqs1(1,2), of username password])
    fix u h'
    assume k: "keyed (s_users (fst (wst h1))) wu_Username username (Some u)"
      and r: "wiki_Login A orm1 username password h1 = (Ok (hidden u, drawn_id h1 (hw_draws h1)), h')"
      and s: "host_kept open_on h1 h'" and st: "wst h' = open_session (hw_clock h1) (drawn_id h1) (wu_ID u) (wst h1)"
    have "hw_draws h1 = Suc (Suc ?k)" using site1 by (simp add: wst_def)
    with only [OF k] r s st eqs1 show thesis by (intro that) auto
  next
    fix user e h'
    assume k: "keyed (s_users (fst (wst h1))) wu_Username username user"
      and no: "\<forall>u. user = Some u \<longrightarrow> app_bcrypt_check A (wu_Password u) password \<noteq> Ok ()"
    then show thesis using some only [of "the user"] check by (cases user) auto
  qed
  have id: "?draw n \<noteq> []" for n using drawn_id_nonempty [OF ready] .
  have w2: "open_on (hw_store h2)" "hw_clock h2 = ?now" using s2 eqs1 by (simp_all add: host_kept_def)
  have "valid_user ?now (?draw (Suc (Suc ?k))) (wst h2) = (Some (hidden ?u), fst (wst h2), Suc (Suc (Suc (Suc ?t))), Suc (Suc (Suc ?k)))"
    using alive id by (simp add: st2 site1 look_def put_user_def eval_nat_numeral)
  then have valid: "fst (valid_user ?now (?draw (Suc (Suc ?k))) (wst h2)) = Some (hidden ?u)" by simp
  obtain a h3 where v: "ValidateSession A orm1 (?draw (Suc (Suc ?k))) h2 = (a, h3)" and s3: "host_kept open_on h2 h3"
    and out: "outcome (fst (valid_user (hw_clock h2) (?draw (Suc (Suc ?k))) (wst h2))) a"
    by (rule ValidateSession_run [OF w2(1)])
  have r3: "ValidateSession A orm1 (?draw (Suc (Suc ?k))) h2 = (Ok (hidden ?u), h3)"
    using v out valid w2(2) by simp
  have "host_kept open_on h h3" using s1 s2 s3 same_trans by blast
  with r1 r2 r3 show ?thesis by (intro exI [of _ h3]) (simp add: seq_Ok hidden_def)
qed

text \<open>A page written and read.\<close>

lemma page_roundtrip:
  assumes ready: "wiki_ready h" and w: "open_on (hw_store h)"
  shows "\<exists>h'. seq (CreatePage A orm1 title content author) (\<lambda>p. GetPage A orm1 (wp_ID p)) h =
    (Ok \<lparr>wp_ID = drawn_id h (hw_draws h), wp_Title = title, wp_Content = content, wp_AuthorID = author,
      wp_CreatedAt = to_second (hw_clock h (hw_ticks h)), wp_UpdatedAt = to_second (hw_clock h (Suc (hw_ticks h)))\<rparr>, h')"
proof -
  obtain h1 where r1: "CreatePage A orm1 title content author h = (Ok \<lparr>wp_ID = drawn_id h (hw_draws h), wp_Title = title,
      wp_Content = content, wp_AuthorID = author, wp_CreatedAt = hw_clock h (hw_ticks h),
      wp_UpdatedAt = hw_clock h (Suc (hw_ticks h))\<rparr>, h1)" and s1: "host_kept open_on h h1"
    and st1: "wst h1 = add_page (hw_clock h) (drawn_id h) title content author (wst h)"
    by (rule CreatePage_run [OF ready w])
  have w1: "open_on (hw_store h1)" using s1 by (simp add: host_kept_def)
  obtain a h2 where r2: "GetPage A orm1 (drawn_id h (hw_draws h)) h1 = (a, h2)"
    and out: "outcome (look (s_pages (fst (wst h1))) (drawn_id h (hw_draws h))) a"
    by (rule GetPage_run [OF w1])
  have "look (s_pages (fst (wst h1))) (drawn_id h (hw_draws h)) = Some \<lparr>wp_ID = drawn_id h (hw_draws h), wp_Title = title,
      wp_Content = content, wp_AuthorID = author, wp_CreatedAt = to_second (hw_clock h (hw_ticks h)),
      wp_UpdatedAt = to_second (hw_clock h (Suc (hw_ticks h)))\<rparr>"
    using drawn_id_nonempty [OF ready] st1 by (simp add: look_def wst_def)
  with out r1 r2 show ?thesis by (intro exI [of _ h2]) (simp add: seq_Ok)
qed

text \<open>An account that another one takes the name or the address of.\<close>

lemma register_takes_over:
  assumes ready: "wiki_ready h" and w: "open_on (hw_store h)"
    and hash: "app_bcrypt A password (Suc (hw_draws h)) = Ok hash"
    and u: "s_users (fst (wst h)) i = Some u" and taken: "wu_Username u = username \<or> wu_Email u = email"
    and i: "i \<noteq> drawn_id h (hw_draws h)" and x: "s_sessions (fst (wst h)) c = Some x" "ws_UserID x = i"
  shows "\<exists>u' h1 e h2. wiki_Register A orm1 username email password h = (Ok u', h1) \<and>
    s_users (fst (wst h1)) i = None \<and> ValidateSession A orm1 c h1 = (Error e, h2)"
proof -
  obtain u' h1 where r1: "wiki_Register A orm1 username email password h = (Ok u', h1)"
    and s1: "host_kept open_on h h1" and st1: "wst h1 = add_user (hw_clock h) (drawn_id h) username email hash (wst h)"
    by (rule Register_run [OF ready w, of password username email]) (use hash in auto)
  have gone: "s_users (fst (wst h1)) i = None" using st1 u taken i by (auto simp: wst_def put_user_def)
  have w1: "open_on (hw_store h1)" "s_sessions (fst (wst h1)) c = Some x"
    using s1 st1 x by (simp_all add: host_kept_def wst_def put_user_def)
  obtain a h2 where r2: "ValidateSession A orm1 c h1 = (a, h2)"
    and out: "outcome (fst (valid_user (hw_clock h1) c (wst h1))) a"
    by (rule ValidateSession_run [OF w1(1)])
  have "fst (valid_user (hw_clock h1) c (wst h1)) = None"
    using gone w1(2) x(2) by (cases "wst h1") (auto simp: look_def split: option.splits)
  with out obtain e where "a = Error e" by (auto simp: outcome_def)
  with r1 r2 gone show ?thesis by blast
qed

end

end
