(* ===== verification/WikiProps.thy ===== *)
theory WikiProps
  imports WikiRun Samples
begin

text \<open>
  The wiki over the SQLite adapter: every request is answered, and answered as the site does; who can
  change a page; what a page keeps; accounts, sessions and pages read back; and the account that a
  registration takes away. The witnesses run on the in-memory engine.
\<close>

section \<open>Over SQLite\<close>

definition wiki_serving :: "('d, 'e) env_scheme \<Rightarrow> ('d \<Rightarrow> database) \<Rightarrow> applib \<Rightarrow> 'd adst ORM \<Rightarrow> 'd adst host \<Rightarrow> bool" where
  "wiki_serving E rows A orm1 h \<longleftrightarrow> (\<exists>S. createWikiSchema = Ok S \<and> sqlite_serves E rows S \<and> serving S rows (hw_store h)) \<and>
     json_texts E \<and> orm_Storage orm1 = Some (sqlite_storage E) \<and> time_laws A \<and> bcrypt_laws A \<and> wiki_ready h"

definition site_state :: "('d \<Rightarrow> database) \<Rightarrow> applib \<Rightarrow> 'd adst host \<Rightarrow> site_state" where
  "site_state rows A h = (site_of A (rows (drv (hw_store h))), hw_ticks h, hw_draws h)"

lemma wiki_sqlite:
  assumes "wiki_serving E rows A orm1 h"
  shows "wiki_store (sqlite_storage E) E (\<lambda>w. rows (drv w)) (serving wiki_schema rows) A orm1"
    and "wiki_ready h" and "serving wiki_schema rows (hw_store h)"
proof -
  from assms have "sqlite_serves E rows wiki_schema" "serving wiki_schema rows (hw_store h)" "wiki_ready h"
    by (auto simp: wiki_serving_def wiki_schema_built)
  with assms show "wiki_store (sqlite_storage E) E (\<lambda>w. rows (drv w)) (serving wiki_schema rows) A orm1"
    "wiki_ready h" "serving wiki_schema rows (hw_store h)"
    by (auto simp: wiki_serving_def intro!: wiki_store.intro wiki_store_axioms.intro sqlite_record_store wiki_schemas(1))
qed

lemma wiki_serving_same:
  assumes "wiki_serving E rows A orm1 h" and "host_kept (serving wiki_schema rows) h h'"
  shows "wiki_serving E rows A orm1 h'"
  using assms by (auto simp: host_kept_def wiki_serving_def wiki_ready_def wiki_schema_built)

lemma site_state_wst:
  "wiki_serving E rows A orm1 h \<Longrightarrow> wiki_store.wst (\<lambda>w. rows (drv w)) A h' = site_state rows A h'"
  using wiki_store.wst_def [OF wiki_sqlite(1)] by (simp add: site_state_def)

text \<open>An answer that is an error of the server, and the only request that gets one.\<close>

definition server_error :: "effect list \<Rightarrow> bool" where
  "server_error answer \<longleftrightarrow> (\<exists>m n. HttpError m n \<in> set answer \<and> 500 \<le> n)"

definition edits_missing_page :: "request \<Rightarrow> site_state \<Rightarrow> bool" where
  "edits_missing_page r st \<longleftrightarrow> rq_Path r = ''/edit'' \<and> rq_Method r = ''POST'' \<and> rq_Form r ''page_id'' \<noteq> [] \<and>
     s_pages (fst st) (rq_Form r ''page_id'') = None"

lemma plain_answers:
  "server_error [] = False" "server_error (Render t ds # as) = server_error as" "server_error (Redirect u # as) = server_error as"
  "server_error (SetCookie c t1 # as) = server_error as" "server_error (NotFound # as) = server_error as"
  "server_error (HttpError m n # as) \<longleftrightarrow> 500 \<le> n \<or> server_error as"
  by (auto simp: server_error_def)

lemmas answer_defs = untitled_def edit_data_def to_page_def not_allowed_def login_page_def register_page_def forget_cookie_def
  missing_page_def shown_page_def

lemma edit_step_error:
  "edit_step now draw r u st answer st' \<Longrightarrow> server_error answer \<Longrightarrow>
    rq_Method r = ''POST'' \<and> rq_Form r ''page_id'' \<noteq> [] \<and> s_pages (fst st) (rq_Form r ''page_id'') = None \<and>
    answer = [HttpError ''Failed to update page'' 500]"
  by (erule edit_step.cases) (auto simp: answer_defs plain_answers split: option.splits)

lemma site_step_error:
  assumes "site_step A now draw r st answer st'" and "server_error answer"
  shows "edits_missing_page r st \<and> answer = [HttpError ''Failed to update page'' 500]"
  using assms
proof cases
  case (edit c u st1)
  then show ?thesis
    using edit_step_error [OF edit(4) assms(2)] valid_user_pages [of now c st] by (simp add: edits_missing_page_def)
qed (auto simp: answer_defs plain_answers split: option.splits)

lemma site_steps_nth:
  assumes "site_steps A now draw rs st answers st'" and "k < length rs"
  shows "\<exists>s1 s2. site_steps A now draw (take k rs) st (take k answers) s1 \<and> site_step A now draw (rs ! k) s1 (answers ! k) s2"
  using assms
proof (induction arbitrary: k rule: site_steps.induct)
  case (site_cons r st answer st1 rs answers st')
  show ?case
  proof (cases k)
    case 0
    with site_cons.hyps(1) site_nil [of A now draw st] show ?thesis by (intro exI [of _ st] exI [of _ st1]) simp
  next
    case (Suc n)
    have "n < length rs" using site_cons.prems Suc by simp
    from site_cons.IH [OF this] obtain s1 s2 where
      "site_steps A now draw (take n rs) st1 (take n answers) s1" "site_step A now draw (rs ! n) s1 (answers ! n) s2" by blast
    with Suc site_steps.site_cons [OF site_cons.hyps(1)] show ?thesis by (intro exI [of _ s1] exI [of _ s2]) simp
  qed
qed simp

text \<open>C4: The wiki over SQLite, from the handlers down to the statements, is a site of users, sessions and
  pages: any sequence of requests (home, login, register, logout, page, edit, with any forms and
  cookies) is answered, each answer and the tables afterwards are those of a step of the site, and
  the site keeps its invariant. The only answer that is an error of the server is "Failed to update
  page", for a form of /edit that names a page which is not there at that moment.\<close>

theorem wiki_serves_site:
  fixes h :: "'d adst host"
  assumes serving: "wiki_serving E rows A orm1 h" and ok: "site_ok (fst (site_state rows A h))"
  shows "\<exists>answers h'. wiki_run A orm1 rs h = (Ok answers, h') \<and> wiki_serving E rows A orm1 h' \<and>
    site_ok (fst (site_state rows A h')) \<and>
    site_steps A (hw_clock h) (drawn_id h) rs (site_state rows A h) answers (site_state rows A h') \<and>
    (\<forall>k<length rs. server_error (answers ! k) \<longrightarrow> answers ! k = [HttpError ''Failed to update page'' 500] \<and>
      (\<exists>st. site_steps A (hw_clock h) (drawn_id h) (take k rs) (site_state rows A h) (take k answers) st \<and>
        edits_missing_page (rs ! k) st))"
proof -
  obtain answers h' where run: "wiki_run A orm1 rs h = (Ok answers, h')" "wiki_serving E rows A orm1 h'"
    "site_ok (fst (site_state rows A h'))"
    and steps: "site_steps A (hw_clock h) (drawn_id h) rs (site_state rows A h) answers (site_state rows A h')"
    using wiki_store.run_requests [OF wiki_sqlite [OF serving], of rs] ok
    by (auto simp: site_state_wst [OF serving] dest: wiki_serving_same [OF serving])
  have "answers ! k = [HttpError ''Failed to update page'' 500] \<and>
      (\<exists>st. site_steps A (hw_clock h) (drawn_id h) (take k rs) (site_state rows A h) (take k answers) st \<and>
        edits_missing_page (rs ! k) st)" if "k < length rs" and "server_error (answers ! k)" for k
    using site_steps_nth [OF steps that(1)] site_step_error [OF _ that(2)] by metis
  with run steps show ?thesis by blast
qed

lemma wiki_one_request:
  fixes h :: "'d adst host"
  assumes serving: "wiki_serving E rows A orm1 h" and ok: "site_ok (fst (site_state rows A h))"
    and run: "wiki_serve A orm1 r h = (a, h')"
  obtains answer where "a = Ok answer"
    and "site_step A (hw_clock h) (drawn_id h) r (site_state rows A h) answer (site_state rows A h')"
  using wiki_store.serve_request [OF wiki_sqlite [OF serving], of r] ok run
  by (auto simp: site_state_wst [OF serving] wiki_store.serves_step_def [OF wiki_sqlite(1) [OF serving]])

text \<open>C6: A page of the wiki changes only by a request for /edit that carries the cookie of a session that
  has not expired and belongs to an existing user, and then exactly as the form says: a new page
  under the drawn identifier by that user, or the title, content and time of the page named.\<close>

theorem wiki_pages_guarded:
  fixes h :: "'d adst host"
  assumes "wiki_serving E rows A orm1 h" and "site_ok (fst (site_state rows A h))"
    and run: "wiki_serve A orm1 r h = (a, h')"
    and changed: "s_pages (fst (site_state rows A h')) i \<noteq> s_pages (fst (site_state rows A h)) i"
  shows "rq_Path r = ''/edit'' \<and> (\<exists>c x u. rq_Session r = Some c \<and> s_sessions (fst (site_state rows A h)) c = Some x \<and>
      hw_clock h (hw_ticks h) \<le> ws_ExpiresAt x \<and> s_users (fst (site_state rows A h)) (ws_UserID x) = Some u \<and>
      page_edited (hw_clock h) (drawn_id h) r u (fst (site_state rows A h), Suc (hw_ticks h), hw_draws h) i
        (s_pages (fst (site_state rows A h')) i))"
proof -
  let ?s = "fst (site_state rows A h)"
  obtain answer where "site_step A (hw_clock h) (drawn_id h) r (site_state rows A h) answer (site_state rows A h')"
    using wiki_one_request [OF assms(1,2) run] by metis
  from site_step_pages [OF this, of i] changed obtain c u st1 where e: "rq_Path r = ''/edit''" "rq_Session r = Some c"
    "valid_user (hw_clock h) c (site_state rows A h) = (Some u, st1)"
    "page_edited (hw_clock h) (drawn_id h) r u st1 i (s_pages (fst (site_state rows A h')) i)" by blast
  from e(3) obtain x u0 where x: "s_sessions ?s c = Some x" "hw_clock h (hw_ticks h) \<le> ws_ExpiresAt x"
    "s_users ?s (ws_UserID x) = Some u0" "u = hidden u0" "st1 = (?s, Suc (hw_ticks h), hw_draws h)"
    by (auto simp: site_state_def look_def split: option.splits if_splits)
  have "page_edited (hw_clock h) (drawn_id h) r u0 st1 i p = page_edited (hw_clock h) (drawn_id h) r u st1 i p" for p
    using x(4) by (cases st1) (simp add: hidden_def)
  with e x show ?thesis by blast
qed

text \<open>C7: Over any sequence of requests a page keeps its identifier, its author and the time it was
  created at, and stays, as long as no identifier drawn for a new row is that of the page.\<close>

theorem wiki_page_history:
  fixes h :: "'d adst host"
  assumes serving: "wiki_serving E rows A orm1 h" and ok: "site_ok (fst (site_state rows A h))"
    and page: "s_pages (fst (site_state rows A h)) i = Some p" and fresh: "\<forall>k. drawn_id h k \<noteq> i"
    and run: "wiki_run A orm1 rs h = (a, h')"
  shows "\<exists>answers p'. a = Ok answers \<and> s_pages (fst (site_state rows A h')) i = Some p' \<and> wp_ID p' = wp_ID p \<and>
    wp_AuthorID p' = wp_AuthorID p \<and> wp_CreatedAt p' = wp_CreatedAt p"
proof -
  let ?keeps = "\<lambda>st :: site_state. \<exists>p'. s_pages (fst st) i = Some p' \<and> wp_ID p' = wp_ID p \<and>
    wp_AuthorID p' = wp_AuthorID p \<and> wp_CreatedAt p' = wp_CreatedAt p"
  have step: "?keeps st'" if "site_step A (hw_clock h) (drawn_id h) r st answer st'" and keeps: "?keeps st" for r st answer st'
  proof -
    from site_step_pages [OF that(1), of i] show ?thesis
    proof
      assume "rq_Path r = ''/edit'' \<and> (\<exists>c u st1. rq_Session r = Some c \<and> valid_user (hw_clock h) c st = (Some u, st1) \<and>
        page_edited (hw_clock h) (drawn_id h) r u st1 i (s_pages (fst st') i))"
      then obtain c u s1 t1 k1 where v: "valid_user (hw_clock h) c st = (Some u, s1, t1, k1)"
        and e: "page_edited (hw_clock h) (drawn_id h) r u (s1, t1, k1) i (s_pages (fst st') i)" by (metis prod.collapse)
      have "s_pages s1 = s_pages (fst st)" using valid_user_pages v by (metis fst_conv snd_conv)
      moreover obtain p0 where p0: "s_pages (fst st) i = Some p0" "wp_ID p0 = wp_ID p" "wp_AuthorID p0 = wp_AuthorID p"
        "wp_CreatedAt p0 = wp_CreatedAt p" using keeps by blast
      moreover have "i \<noteq> drawn_id h k1" using fresh by blast
      ultimately have "s_pages (fst st') i = Some (p0\<lparr>wp_Title := rq_Form r ''title'', wp_Content := rq_Form r ''content'',
          wp_UpdatedAt := to_second (hw_clock h t1)\<rparr>)" using e by simp
      then show ?thesis using p0(2-4) by simp
    qed (use keeps in simp)
  qed
  obtain answers where a: "a = Ok answers"
    and steps: "site_steps A (hw_clock h) (drawn_id h) rs (site_state rows A h) answers (site_state rows A h')"
    using wiki_store.run_requests [OF wiki_sqlite [OF serving], of rs] ok run
    by (auto simp: site_state_wst [OF serving])
  have "?keeps (site_state rows A h)" using page by simp
  then have "?keeps (site_state rows A h')"
    by (rule site_steps_invariant [where Q = ?keeps, OF steps, rotated]) (rule step)
  with a show ?thesis by simp
qed

text \<open>C8: Registering a new account, logging in with its name and password and validating the session
  returns that user, without the password and with the creation time cut to the second.\<close>

theorem wiki_account_roundtrip:
  fixes h :: "'d adst host"
  assumes serving: "wiki_serving E rows A orm1 h" and hash: "app_bcrypt A password (Suc (hw_draws h)) = Ok hash"
    and name: "username \<noteq> []"
    and alive: "hw_clock h (hw_ticks h + 3) \<le> to_second (hw_clock h (hw_ticks h + 2) + hours24)"
  shows "\<exists>h'. seq (wiki_Register A orm1 username email password) (\<lambda>u.
      seq (wiki_Login A orm1 username password) (\<lambda>(u, c). ValidateSession A orm1 c)) h =
    (Ok \<lparr>wu_ID = drawn_id h (hw_draws h), wu_Username = username, wu_Email = email, wu_Password = [],
      wu_CreatedAt = to_second (hw_clock h (hw_ticks h))\<rparr>, h') \<and> wiki_serving E rows A orm1 h'"
  using wiki_store.account_roundtrip [OF wiki_sqlite [OF serving] hash name alive] wiki_serving_same [OF serving] by blast

text \<open>GetPage of the identifier CreatePage returned gives the page with its title, content and author, and
  both times cut to the second.\<close>

theorem wiki_page_roundtrip:
  fixes h :: "'d adst host"
  assumes serving: "wiki_serving E rows A orm1 h"
  shows "\<exists>h'. seq (CreatePage A orm1 title content author) (\<lambda>p. GetPage A orm1 (wp_ID p)) h =
    (Ok \<lparr>wp_ID = drawn_id h (hw_draws h), wp_Title = title, wp_Content = content, wp_AuthorID = author,
      wp_CreatedAt = to_second (hw_clock h (hw_ticks h)), wp_UpdatedAt = to_second (hw_clock h (Suc (hw_ticks h)))\<rparr>, h')"
  using wiki_store.page_roundtrip [OF wiki_sqlite [OF serving]] .

text \<open>C9: Registering with the name or the address of an existing user succeeds and removes that user,
  whose sessions are refused from then on: the INSERT replaces the row that clashes.\<close>

theorem wiki_register_takes_over:
  fixes h :: "'d adst host"
  assumes serving: "wiki_serving E rows A orm1 h" and hash: "app_bcrypt A password (Suc (hw_draws h)) = Ok hash"
    and user: "s_users (fst (site_state rows A h)) i = Some u" and taken: "wu_Username u = username \<or> wu_Email u = email"
    and i: "i \<noteq> drawn_id h (hw_draws h)"
    and session: "s_sessions (fst (site_state rows A h)) c = Some x" "ws_UserID x = i"
  shows "\<exists>u' h1 e h2. wiki_Register A orm1 username email password h = (Ok u', h1) \<and>
    s_users (fst (site_state rows A h1)) i = None \<and> ValidateSession A orm1 c h1 = (Error e, h2)"
  using wiki_store.register_takes_over [OF wiki_sqlite [OF serving] hash _ taken i _ session(2)] user session(1)
  by (simp add: site_state_wst [OF serving])

section \<open>A wiki to try\<close>

text \<open>Empty, and with an account, a session of it and a page.\<close>

abbreviation wiki_env :: "tables env" where
  "wiki_env \<equiv> eng_env quoting_lib wiki_schema"

definition wiki_orm :: "tables adst ORM" where
  "wiki_orm = orm_on (sqlite_storage wiki_env)"

definition kept_tables :: tables where
  "kept_tables = (\<lambda>T. if T = ''users'' then [(''u1'', new_row ''u1'' [(''username'', VStr ''ann''), (''email'', VStr ''ann@x.org''),
        (''password'', VStr ''hash:pw''), (''created_at'', VStr (sample_format 0))])]
     else if T = ''sessions'' then [(''c1'', new_row ''c1'' [(''user_id'', VStr ''u1''), (''created_at'', VStr (sample_format 0)),
        (''expires_at'', VStr (sample_format 1000000000000))])]
     else if T = ''wiki_pages'' then [(''p1'', new_row ''p1'' [(''title'', VStr ''Home''), (''content'', VStr ''Hello''),
        (''author_id'', VStr ''u1''), (''created_at'', VStr (sample_format 0)), (''updated_at'', VStr (sample_format 0))])]
     else [])"

abbreviation empty_wiki :: "tables adst host" where
  "empty_wiki \<equiv> sample_host wiki_schema (\<lambda>T. [])"

abbreviation kept_wiki :: "tables adst host" where
  "kept_wiki \<equiv> sample_host wiki_schema kept_tables"

lemma wiki_mget: "mget (sch_Tables wiki_schema) T = Some tbl \<longleftrightarrow>
    T = ''users'' \<and> tbl = users_of_wiki \<or> T = ''wiki_pages'' \<and> tbl = pages_of_wiki \<or> T = ''sessions'' \<and> tbl = sessions_of_wiki"
  by (auto simp: wiki_schema_def mget_def)

lemma wiki_tables_fit: "store_fits users_of_wiki (map_of (kept_tables ''users''))"
    "store_fits pages_of_wiki (map_of (kept_tables ''wiki_pages''))" "store_fits sessions_of_wiki (map_of (kept_tables ''sessions''))"
  by (auto simp: kept_tables_def store_fits_def row_fits_def new_row_def wiki_order wiki_kinds_of sample_texts split: if_splits)

lemma sample_app_laws: "time_laws sample_app" "bcrypt_laws sample_app"
  by (rule sample_app_times) (simp add: bcrypt_laws_def sample_app_def returns_def)

lemma sample_wiki_ready: "wiki_ready (sample_host S d)"
  using sample_clock [of 0] sample_clock [of hours24] by (simp add: wiki_ready_def hours24_def)

lemma sample_wiki_serving:
  assumes "\<And>T tbl. mget (sch_Tables wiki_schema) T = Some tbl \<Longrightarrow> store_fits tbl (map_of (d T))"
  shows "wiki_serving wiki_env eng_rows sample_app wiki_orm (sample_host wiki_schema d)"
  using sample_serving [OF wiki_schemas(3) assms] engine_serves [OF wiki_schemas(1,2)] sample_app_laws sample_wiki_ready
  by (simp add: wiki_serving_def wiki_schema_built demo_json wiki_orm_def)

lemma wikis_serving:
  "wiki_serving wiki_env eng_rows sample_app wiki_orm empty_wiki"
  "wiki_serving wiki_env eng_rows sample_app wiki_orm kept_wiki"
  by (rule sample_wiki_serving; auto simp: wiki_mget wiki_tables_fit empty_fits)+

interpretation demo_wiki: wiki_store "sqlite_storage wiki_env" wiki_env "\<lambda>w. eng_rows (drv w)"
    "serving wiki_schema eng_rows" sample_app wiki_orm
  by (rule wiki_sqlite(1) [OF wikis_serving(1)])

lemma kept_site:
  "s_users (fst (site_state eng_rows sample_app kept_wiki)) ''u1'' = Some \<lparr>wu_ID = ''u1'', wu_Username = ''ann'',
     wu_Email = ''ann@x.org'', wu_Password = ''hash:pw'', wu_CreatedAt = 0\<rparr>"
  "s_sessions (fst (site_state eng_rows sample_app kept_wiki)) ''c1'' = Some \<lparr>ws_ID = ''c1'', ws_UserID = ''u1'',
     ws_CreatedAt = 0, ws_ExpiresAt = 1000000000000\<rparr>"
  "s_pages (fst (site_state eng_rows sample_app kept_wiki)) = [''p1'' \<mapsto> \<lparr>wp_ID = ''p1'', wp_Title = ''Home'',
     wp_Content = ''Hello'', wp_AuthorID = ''u1'', wp_CreatedAt = 0, wp_UpdatedAt = 0\<rparr>]"
  by (simp_all add: site_state_def site_of_def eng_rows_def kept_tables_def user_row_def session_row_def page_row_def
      new_row_def sample_zero fun_eq_iff)

lemma wikis_ok:
  "site_ok (fst (site_state eng_rows sample_app empty_wiki))" "site_ok (fst (site_state eng_rows sample_app kept_wiki))"
  by (simp add: site_ok_def site_state_def site_of_def eng_rows_def)
    (simp add: site_ok_def kept_site in_years_def to_second_def)

lemma sample_ids: "drawn_id (sample_host S d) k \<noteq> ''p1''" "drawn_id (sample_host S d) k \<noteq> ''u1''"
proof -
  have "length (drawn_id (sample_host S d) k) = 32" by (simp add: drawn_id_def length_EncodeToString)
  then show "drawn_id (sample_host S d) k \<noteq> ''p1''" "drawn_id (sample_host S d) k \<noteq> ''u1''" by auto
qed

text \<open>Requests.\<close>

definition plain_request :: "string \<Rightarrow> string \<Rightarrow> string option \<Rightarrow> (string \<Rightarrow> string) \<Rightarrow> request" where
  "plain_request path meth session form = \<lparr>rq_Method = meth, rq_Path = path, rq_Session = session, rq_Form = form,
     rq_Query = (\<lambda>n. []), rq_User = None\<rparr>"

definition ann_registers :: request where
  "ann_registers = plain_request ''/register'' ''POST'' None (\<lambda>n. if n = ''username'' then ''ann'' else if n = ''email'' then ''ann@x.org''
     else ''pw'')"

definition ann_edits :: request where
  "ann_edits = plain_request ''/edit'' ''POST'' (Some ''c1'') (\<lambda>n. if n = ''title'' then ''Start'' else if n = ''page_id'' then ''p1'' else ''Hi'')"

lemma ann_edit_step:
  assumes "site_step sample_app now draw ann_edits (site_state eng_rows sample_app kept_wiki) answer st'"
    and "now 0 = 0"
  shows "answer = to_page ''Start'' \<and> s_pages (fst st') ''p1'' \<noteq> s_pages (fst (site_state eng_rows sample_app kept_wiki)) ''p1''"
proof -
  let ?st = "site_state eng_rows sample_app kept_wiki"
  obtain s where s: "?st = (s, 0, 0)" by (simp add: site_state_def)
  note site = kept_site [unfolded s fst_conv]
  have valid: "fst (valid_user now ''c1'' (s, 0, 0)) \<noteq> None" "\<And>u st1. valid_user now ''c1'' (s, 0, 0) = (Some u, st1) \<Longrightarrow> st1 = (s, 1, 0)"
    using site(1,2) assms(2) by (auto simp: look_def)
  from assms(1) [unfolded s] have "answer = to_page ''Start'' \<and> s_pages (fst st') ''p1'' \<noteq> s_pages s ''p1''"
  proof cases
    case (edit c u st1)
    then have "c = ''c1''" by (simp add: ann_edits_def plain_request_def)
    with edit(3) valid(2) have "st1 = (s, 1, 0)" by simp
    from edit(4) [unfolded this] site(3) show ?thesis
      by cases (auto simp: ann_edits_def plain_request_def to_page_def)
  qed (use valid(1) in \<open>auto simp: ann_edits_def plain_request_def routes_def\<close>)
  then show ?thesis by (simp add: s)
qed

lemma wiki_serves_site_witness:
  "\<exists>h'. wiki_run sample_app wiki_orm [ann_registers] empty_wiki = (Ok [[Redirect ''/login'']], h')"
proof -
  obtain answers h' where run: "wiki_run sample_app wiki_orm [ann_registers] empty_wiki = (Ok answers, h')"
    and steps: "site_steps sample_app (hw_clock empty_wiki) (drawn_id empty_wiki) [ann_registers]
      (site_state eng_rows sample_app empty_wiki) answers (site_state eng_rows sample_app h')"
    using wiki_serves_site [OF wikis_serving(1) wikis_ok(1), of "[ann_registers]"] by blast
  from steps obtain answer st1 where "answers = [answer]"
    and "site_step sample_app (hw_clock empty_wiki) (drawn_id empty_wiki) ann_registers (site_state eng_rows sample_app empty_wiki) answer st1"
    by (auto elim!: site_steps.cases)
  moreover from this(2) have "answer = [Redirect ''/login'']"
    by cases (auto simp: ann_registers_def plain_request_def routes_def sample_app_def)
  ultimately show ?thesis using run by simp
qed

lemma wiki_pages_guarded_witness:
  "\<exists>h'. wiki_serve sample_app wiki_orm ann_edits kept_wiki = (Ok (to_page ''Start''), h') \<and>
    page_edited (hw_clock kept_wiki) (drawn_id kept_wiki) ann_edits
      \<lparr>wu_ID = ''u1'', wu_Username = ''ann'', wu_Email = ''ann@x.org'', wu_Password = ''hash:pw'', wu_CreatedAt = 0\<rparr>
      (fst (site_state eng_rows sample_app kept_wiki), 1, 0) ''p1'' (s_pages (fst (site_state eng_rows sample_app h')) ''p1'')"
proof -
  obtain a h' where run: "wiki_serve sample_app wiki_orm ann_edits kept_wiki = (a, h')" by fastforce
  obtain answer where a: "a = Ok answer" and step: "site_step sample_app (hw_clock kept_wiki) (drawn_id kept_wiki) ann_edits
      (site_state eng_rows sample_app kept_wiki) answer (site_state eng_rows sample_app h')"
    by (rule wiki_one_request [OF wikis_serving(2) wikis_ok(2) run])
  have e: "answer = to_page ''Start''" "s_pages (fst (site_state eng_rows sample_app h')) ''p1'' \<noteq>
      s_pages (fst (site_state eng_rows sample_app kept_wiki)) ''p1''"
    using ann_edit_step [OF step] by simp_all
  from wiki_pages_guarded [OF wikis_serving(2) wikis_ok(2) run e(2)] kept_site(1,2) run a e(1) show ?thesis
    by (auto simp: ann_edits_def plain_request_def)
qed

lemma wiki_page_history_witness:
  "\<exists>answers h' p'. wiki_run sample_app wiki_orm [ann_edits] kept_wiki = (Ok answers, h') \<and>
    s_pages (fst (site_state eng_rows sample_app h')) ''p1'' = Some p' \<and> wp_AuthorID p' = ''u1'' \<and> wp_CreatedAt p' = 0"
proof -
  obtain a h' where run: "wiki_run sample_app wiki_orm [ann_edits] kept_wiki = (a, h')" by fastforce
  have page: "s_pages (fst (site_state eng_rows sample_app kept_wiki)) ''p1'' = Some \<lparr>wp_ID = ''p1'', wp_Title = ''Home'',
     wp_Content = ''Hello'', wp_AuthorID = ''u1'', wp_CreatedAt = 0, wp_UpdatedAt = 0\<rparr>"
    using kept_site(3) by simp
  have "\<forall>k. drawn_id kept_wiki k \<noteq> ''p1''" using sample_ids(1) by blast
  from wiki_page_history [OF wikis_serving(2) wikis_ok(2) page this run] run show ?thesis by auto
qed

lemma wiki_account_roundtrip_witness:
  "\<exists>h'. seq (wiki_Register sample_app wiki_orm ''ann'' ''ann@x.org'' ''pw'') (\<lambda>u.
      seq (wiki_Login sample_app wiki_orm ''ann'' ''pw'') (\<lambda>(u, c). ValidateSession sample_app wiki_orm c)) empty_wiki =
    (Ok \<lparr>wu_ID = drawn_id empty_wiki 0, wu_Username = ''ann'', wu_Email = ''ann@x.org'', wu_Password = [], wu_CreatedAt = 0\<rparr>, h')"
proof -
  have "app_bcrypt sample_app ''pw'' (Suc (hw_draws empty_wiki)) = Ok ''hash:pw''" by (simp add: sample_app_def)
  from wiki_account_roundtrip [OF wikis_serving(1) this, of "''ann''" "''ann@x.org''"] show ?thesis
    by (auto simp: hours24_def to_second_def)
qed

lemma wiki_page_roundtrip_witness:
  "\<exists>h'. seq (CreatePage sample_app wiki_orm ''Start'' ''Hi'' ''u1'') (\<lambda>p. GetPage sample_app wiki_orm (wp_ID p)) kept_wiki =
    (Ok \<lparr>wp_ID = drawn_id kept_wiki 0, wp_Title = ''Start'', wp_Content = ''Hi'', wp_AuthorID = ''u1'',
      wp_CreatedAt = 0, wp_UpdatedAt = 0\<rparr>, h')"
  using wiki_page_roundtrip [OF wikis_serving(2), of "''Start''" "''Hi''" "''u1''"] by (simp add: to_second_def)

lemma wiki_register_takes_over_witness:
  "\<exists>u' h1 e h2. wiki_Register sample_app wiki_orm ''bob'' ''ann@x.org'' ''other'' kept_wiki = (Ok u', h1) \<and>
    s_users (fst (site_state eng_rows sample_app h1)) ''u1'' = None \<and>
    ValidateSession sample_app wiki_orm ''c1'' h1 = (Error e, h2)"
proof -
  have "app_bcrypt sample_app ''other'' (Suc (hw_draws kept_wiki)) = Ok ''hash:other''" by (simp add: sample_app_def)
  from wiki_register_takes_over [OF wikis_serving(2) this kept_site(1) _ _ kept_site(2), of "''bob''" "''ann@x.org''"]
    sample_ids(2) [of wiki_schema kept_tables 0, symmetric]
  show ?thesis by simp
qed

end
