(* ===== verification/Rest.thy ===== *)
theory Rest
  imports Host Backends
begin

text \<open>
  The REST example (src/examples/restd): its schema (schema.go), users and posts as objects (models.go),
  the handlers (handlers.go), the choice of the storage (config.go) and the setup of the server (main.go).
  Decoding a request and encoding a response are left to the framework: a call carries the input that
  the framework hands to the handler, a reply what the handler returns.
\<close>

section \<open>The schema\<close>

definition rest_user_columns :: "ColumnData list" where
  "rest_user_columns =
     [zero_column\<lparr>col_Name := ''id'', col_DataType := ''text'', col_PrimaryKey := True, col_Comment := ''User ID''\<rparr>,
      zero_column\<lparr>col_Name := ''email'', col_DataType := ''text'', col_Unique := True, col_Comment := ''User email address''\<rparr>,
      zero_column\<lparr>col_Name := ''name'', col_DataType := ''text'', col_Comment := ''User full name''\<rparr>,
      zero_column\<lparr>col_Name := ''profile'', col_DataType := ''json'', col_Nullable := True, col_Comment := ''User profile data''\<rparr>,
      zero_column\<lparr>col_Name := ''created_at'', col_DataType := ''datetime'', col_Comment := ''Creation timestamp''\<rparr>,
      zero_column\<lparr>col_Name := ''updated_at'', col_DataType := ''datetime'', col_Nullable := True,
        col_Comment := ''Last update timestamp''\<rparr>]"

definition rest_post_columns :: "ColumnData list" where
  "rest_post_columns =
     [zero_column\<lparr>col_Name := ''id'', col_DataType := ''text'', col_PrimaryKey := True, col_Comment := ''Post ID''\<rparr>,
      zero_column\<lparr>col_Name := ''user_id'', col_DataType := ''text'', col_Index := True,
        col_Comment := ''User ID who created the post''\<rparr>,
      zero_column\<lparr>col_Name := ''title'', col_DataType := ''text'', col_Comment := ''Post title''\<rparr>,
      zero_column\<lparr>col_Name := ''content'', col_DataType := ''text'', col_Comment := ''Post content''\<rparr>,
      zero_column\<lparr>col_Name := ''metadata'', col_DataType := ''json'', col_Nullable := True, col_Comment := ''Post metadata''\<rparr>,
      zero_column\<lparr>col_Name := ''published'', col_DataType := ''boolean'', col_Default := VStr ''false'',
        col_Comment := ''Whether the post is published''\<rparr>,
      zero_column\<lparr>col_Name := ''created_at'', col_DataType := ''datetime'', col_Comment := ''Creation timestamp''\<rparr>,
      zero_column\<lparr>col_Name := ''updated_at'', col_DataType := ''datetime'', col_Nullable := True,
        col_Comment := ''Last update timestamp''\<rparr>]"

definition createExampleSchema :: "Schema result" where
  "createExampleSchema =
     rbind (SetDatabaseName schema_New ''restd'') (\<lambda>sch.
     rbind (AddFields (NewTableSchema ''users'') rest_user_columns) (\<lambda>userTable.
     rbind (AddFields (NewTableSchema ''posts'') rest_post_columns) (\<lambda>postTable.
     rbind (AddTable sch (Some userTable)) (\<lambda>sch.
     AddTable sch (Some postTable)))))"

section \<open>Users and posts (models.go)\<close>

record rest_User =
  ru_ID :: string
  ru_Email :: string
  ru_Name :: string
  ru_Profile :: "goval gomap"
  ru_CreatedAt :: int
  ru_UpdatedAt :: "int option"

record rest_Post =
  rp_ID :: string
  rp_UserID :: string
  rp_Title :: string
  rp_Content :: string
  rp_Metadata :: "goval gomap"
  rp_Published :: bool
  rp_CreatedAt :: int
  rp_UpdatedAt :: "int option"

record CreateUserInput =
  cu_Email :: string
  cu_Name :: string
  cu_Profile :: "goval gomap"

record UpdateUserInput =
  uu_UserID :: string
  uu_Email :: "string option"
  uu_Name :: "string option"
  uu_Profile :: "goval gomap"

record CreatePostInput =
  cp_UserID :: string
  cp_Title :: string
  cp_Content :: string
  cp_Metadata :: "goval gomap"
  cp_Published :: "bool option"

record UpdatePostInput =
  up_PostID :: string
  up_Title :: "string option"
  up_Content :: "string option"
  up_Metadata :: "goval gomap"
  up_Published :: "bool option"

text \<open>
  \<open>json.Marshal\<close> of a map with its error dropped: the text is empty then. A map and a time that are
  not set leave no entry.
\<close>

definition marshalled :: "applib \<Rightarrow> goval gomap \<Rightarrow> string" where
  "marshalled A m = (case app_json_map A m of Ok t \<Rightarrow> t | _ \<Rightarrow> [])"

definition json_entry :: "applib \<Rightarrow> string \<Rightarrow> goval gomap \<Rightarrow> (string \<times> goval) list" where
  "json_entry A n m = (if m = NilMap then [] else [(n, VStr (marshalled A m))])"

definition time_entry :: "applib \<Rightarrow> string \<Rightarrow> int option \<Rightarrow> (string \<times> goval) list" where
  "time_entry A n t = (case t of None \<Rightarrow> [] | Some t \<Rightarrow> [(n, VStr (app_rfc3339 A t))])"

text \<open>A time and a map that are taken when the field is there, is not empty and can be read.\<close>

definition opt_time_field :: "applib \<Rightarrow> Object \<Rightarrow> string \<Rightarrow> int option result" where
  "opt_time_field A obj n = rbind (GetString obj n) (\<lambda>(s, exists).
     Ok (if exists \<and> s \<noteq> [] then (case app_parse_rfc3339 A s of Ok t \<Rightarrow> Some t | _ \<Rightarrow> None) else None))"

definition json_field :: "applib \<Rightarrow> Object \<Rightarrow> string \<Rightarrow> goval gomap result" where
  "json_field A obj n = rbind (GetString obj n) (\<lambda>(s, exists).
     Ok (if exists \<and> s \<noteq> [] then (case app_json_parse A s of Ok m \<Rightarrow> m | _ \<Rightarrow> NilMap) else NilMap))"

definition rest_userToObject :: "applib \<Rightarrow> rest_User \<Rightarrow> Object" where
  "rest_userToObject A user = \<lparr>obj_TableName = ''users'', obj_ID = ru_ID user, obj_Fields = GoMap
     ([(''email'', VStr (ru_Email user)), (''name'', VStr (ru_Name user)),
       (''created_at'', VStr (app_rfc3339 A (ru_CreatedAt user)))] @
      json_entry A ''profile'' (ru_Profile user) @ time_entry A ''updated_at'' (ru_UpdatedAt user))\<rparr>"

definition rest_objectToUser :: "applib \<Rightarrow> Object \<Rightarrow> rest_User result" where
  "rest_objectToUser A obj =
     rbind (text_field obj ''email'') (\<lambda>email.
     rbind (text_field obj ''name'') (\<lambda>name.
     rbind (time_field A obj ''created_at'') (\<lambda>created.
     rbind (opt_time_field A obj ''updated_at'') (\<lambda>updated.
     rbind (json_field A obj ''profile'') (\<lambda>profile.
     Ok \<lparr>ru_ID = obj_ID obj, ru_Email = email, ru_Name = name, ru_Profile = profile, ru_CreatedAt = created,
       ru_UpdatedAt = updated\<rparr>)))))"

definition rest_postToObject :: "applib \<Rightarrow> rest_Post \<Rightarrow> Object" where
  "rest_postToObject A post = \<lparr>obj_TableName = ''posts'', obj_ID = rp_ID post, obj_Fields = GoMap
     ([(''user_id'', VStr (rp_UserID post)), (''title'', VStr (rp_Title post)), (''content'', VStr (rp_Content post)),
       (''published'', VBool (rp_Published post)), (''created_at'', VStr (app_rfc3339 A (rp_CreatedAt post)))] @
      json_entry A ''metadata'' (rp_Metadata post) @ time_entry A ''updated_at'' (rp_UpdatedAt post))\<rparr>"

definition rest_objectToPost :: "applib \<Rightarrow> Object \<Rightarrow> rest_Post result" where
  "rest_objectToPost A obj =
     rbind (text_field obj ''user_id'') (\<lambda>userID.
     rbind (text_field obj ''title'') (\<lambda>title.
     rbind (text_field obj ''content'') (\<lambda>content.
     rbind (time_field A obj ''created_at'') (\<lambda>created.
     rbind (opt_time_field A obj ''updated_at'') (\<lambda>updated.
     rbind (json_field A obj ''metadata'') (\<lambda>metadata.
     Ok \<lparr>rp_ID = obj_ID obj, rp_UserID = userID, rp_Title = title, rp_Content = content, rp_Metadata = metadata,
       rp_Published = (case GetBool obj ''published'' of (b, exists) \<Rightarrow> exists \<and> b), rp_CreatedAt = created,
       rp_UpdatedAt = updated\<rparr>))))))"

section \<open>Handlers (handlers.go)\<close>

text \<open>\<open>time.UnixNano\<close>, a 64-bit count from the Unix epoch.\<close>

definition UnixNano :: "int \<Rightarrow> 64 word" where
  "UnixNano t = word_of_int (t - unix_epoch)"

definition rest_generateID :: "string \<Rightarrow> ('w host, string) go" where
  "rest_generateID prefix = seq time_Now (\<lambda>now. ret (prefix @ ''_'' @ FormatInt (sint (UnixNano now))))"

definition CreateUser :: "applib \<Rightarrow> 'w ORM \<Rightarrow> CreateUserInput \<Rightarrow> ('w host, rest_User) go" where
  "CreateUser A orm input =
     seq (rest_generateID ''user'') (\<lambda>userID.
     seq time_Now (\<lambda>now.
     let user = \<lparr>ru_ID = userID, ru_Email = cu_Email input, ru_Name = cu_Name input, ru_Profile = cu_Profile input,
           ru_CreatedAt = now, ru_UpdatedAt = None\<rparr>
     in seq (wrapping ''failed to create user: '' (on_store (orm_Insert orm (rest_userToObject A user)))) (\<lambda>(data, created).
        if \<not> created then fail (Err (''user with email '' @ ru_Email user @ '' already exists'')) else ret user)))"

text \<open>An object that a find returned, or the error of the handlers when there is none.\<close>

definition found_object :: "string \<Rightarrow> Object option \<Rightarrow> ('w host, Object) go" where
  "found_object missing obj = (case obj of None \<Rightarrow> fail (Err missing) | Some obj \<Rightarrow> ret obj)"

definition GetUser :: "applib \<Rightarrow> 'w ORM \<Rightarrow> string \<Rightarrow> ('w host, rest_User) go" where
  "GetUser A orm userID =
     seq (wrapping ''failed to find user: '' (on_store (orm_FindByID orm ''users'' userID))) (\<lambda>obj.
     seq (found_object ''user not found'' obj) (\<lambda>obj.
     pure (rest_objectToUser A obj)))"

definition GetUserByEmail :: "applib \<Rightarrow> 'w ORM \<Rightarrow> string \<Rightarrow> ('w host, rest_User) go" where
  "GetUserByEmail A orm email =
     seq (wrapping ''failed to find user: '' (on_store (orm_FindByKey orm ''users'' ''email'' email))) (\<lambda>obj.
     seq (found_object ''user not found'' obj) (\<lambda>obj.
     pure (rest_objectToUser A obj)))"

text \<open>\<open>SetField\<close> of an input that was given, and of a map that is not nil as its JSON text.\<close>

definition set_given :: "Object \<Rightarrow> string \<Rightarrow> goval option \<Rightarrow> Object result" where
  "set_given obj n v = (case v of None \<Rightarrow> Ok obj | Some x \<Rightarrow> SetField obj n x)"

definition set_json :: "applib \<Rightarrow> Object \<Rightarrow> string \<Rightarrow> goval gomap \<Rightarrow> Object result" where
  "set_json A obj n m = (if m = NilMap then Ok obj else SetField obj n (VStr (marshalled A m)))"

definition UpdateUser :: "applib \<Rightarrow> 'w ORM \<Rightarrow> UpdateUserInput \<Rightarrow> ('w host, rest_User) go" where
  "UpdateUser A orm input =
     seq (wrapping ''failed to find user: '' (on_store (orm_FindByID orm ''users'' (uu_UserID input)))) (\<lambda>obj.
     seq (found_object ''user not found'' obj) (\<lambda>obj.
     seq time_Now (\<lambda>now.
     seq (pure (set_given obj ''email'' (map_option VStr (uu_Email input)))) (\<lambda>obj.
     seq (pure (set_given obj ''name'' (map_option VStr (uu_Name input)))) (\<lambda>obj.
     seq (pure (set_json A obj ''profile'' (uu_Profile input))) (\<lambda>obj.
     seq (pure (SetField obj ''updated_at'' (VStr (app_rfc3339 A now)))) (\<lambda>obj.
     seq (wrapping ''failed to update user: '' (on_store (storage_Update orm obj))) (\<lambda>updated.
     pure (rest_objectToUser A obj)))))))))"

text \<open>\<open>DeleteUser\<close> and \<open>DeletePost\<close> return the message of their success.\<close>

definition DeleteUser :: "'w ORM \<Rightarrow> string \<Rightarrow> ('w host, string) go" where
  "DeleteUser orm userID =
     seq (wrapping ''failed to delete user: '' (on_store (orm_DeleteByID orm ''users'' userID))) (\<lambda>deleted.
     if \<not> deleted then fail (Err ''user not found'') else ret ''User deleted successfully'')"

definition CreatePost :: "applib \<Rightarrow> 'w ORM \<Rightarrow> CreatePostInput \<Rightarrow> ('w host, rest_Post) go" where
  "CreatePost A orm input =
     seq (wrapping ''failed to verify user: '' (on_store (orm_FindByID orm ''users'' (cp_UserID input)))) (\<lambda>userObj.
     seq (found_object ''user not found'' userObj) (\<lambda>_.
     seq (rest_generateID ''post'') (\<lambda>postID.
     seq time_Now (\<lambda>now.
     let post = \<lparr>rp_ID = postID, rp_UserID = cp_UserID input, rp_Title = cp_Title input, rp_Content = cp_Content input,
           rp_Metadata = cp_Metadata input,
           rp_Published = (case cp_Published input of None \<Rightarrow> False | Some b \<Rightarrow> b), rp_CreatedAt = now, rp_UpdatedAt = None\<rparr>
     in seq (wrapping ''failed to create post: '' (on_store (orm_Insert orm (rest_postToObject A post)))) (\<lambda>(data, created).
        if \<not> created then fail (Err (''post with ID '' @ rp_ID post @ '' already exists'')) else ret post)))))"

definition GetPost :: "applib \<Rightarrow> 'w ORM \<Rightarrow> string \<Rightarrow> ('w host, rest_Post) go" where
  "GetPost A orm postID =
     seq (wrapping ''failed to find post: '' (on_store (orm_FindByID orm ''posts'' postID))) (\<lambda>obj.
     seq (found_object ''post not found'' obj) (\<lambda>obj.
     pure (rest_objectToPost A obj)))"

definition UpdatePost :: "applib \<Rightarrow> 'w ORM \<Rightarrow> UpdatePostInput \<Rightarrow> ('w host, rest_Post) go" where
  "UpdatePost A orm input =
     seq (wrapping ''failed to find post: '' (on_store (orm_FindByID orm ''posts'' (up_PostID input)))) (\<lambda>obj.
     seq (found_object ''post not found'' obj) (\<lambda>obj.
     seq time_Now (\<lambda>now.
     seq (pure (set_given obj ''title'' (map_option VStr (up_Title input)))) (\<lambda>obj.
     seq (pure (set_given obj ''content'' (map_option VStr (up_Content input)))) (\<lambda>obj.
     seq (pure (set_json A obj ''metadata'' (up_Metadata input))) (\<lambda>obj.
     seq (pure (set_given obj ''published'' (map_option VBool (up_Published input)))) (\<lambda>obj.
     seq (pure (SetField obj ''updated_at'' (VStr (app_rfc3339 A now)))) (\<lambda>obj.
     seq (wrapping ''failed to update post: '' (on_store (storage_Update orm obj))) (\<lambda>updated.
     pure (rest_objectToPost A obj))))))))))"

definition DeletePost :: "'w ORM \<Rightarrow> string \<Rightarrow> ('w host, string) go" where
  "DeletePost orm postID =
     seq (wrapping ''failed to delete post: '' (on_store (orm_DeleteByID orm ''posts'' postID))) (\<lambda>deleted.
     if \<not> deleted then fail (Err ''post not found'') else ret ''Post deleted successfully'')"

section \<open>The server (config.go, main.go)\<close>

definition CreateStorage :: "('d, 'e) crenv_scheme \<Rightarrow> string \<Rightarrow> ('d, 'z) crst_scheme Storage result" where
  "CreateStorage E engine =
     (if engine = ''sqlite'' then Ok (sqlite_storage E)
      else if engine = ''postgres'' then Ok (postgres_storage E)
      else if engine = ''cockroach'' then Ok (cockroach_storage E)
      else if engine = ''yugabyte'' then Ok (yugabyte_storage E)
      else if engine = ''tidb'' then Ok (tidb_storage E)
      else Error (Err (''unsupported storage engine: '' @ engine)))"

definition ConnectStorage :: "'w Storage \<Rightarrow> string \<Rightarrow> ('w, unit) go" where
  "ConnectStorage st connectionURL = st_Connect st connectionURL"

text \<open>The setup that \<open>main\<close> does before it serves: the ORM of the service, or the error it logs and exits with.\<close>

definition rest_setup :: "('d, 'e) crenv_scheme \<Rightarrow> string \<Rightarrow> string \<Rightarrow> (('d, 'z) crst_scheme, ('d, 'z) crst_scheme ORM) go" where
  "rest_setup E engine url =
     seq (wrapping ''Failed to create storage: '' (pure (CreateStorage E engine))) (\<lambda>st.
     seq (wrapping ''Failed to connect to storage: '' (ConnectStorage st url)) (\<lambda>_.
     seq (pure createExampleSchema) (\<lambda>sch.
     seq (wrapping ''Failed to create tables: '' (st_CreateTables st (Some sch))) (\<lambda>_.
     ret (orm_WithStorage (orm_New (Some sch)) (Some st))))))"

text \<open>The routes, with the decoded inputs.\<close>

datatype rest_call =
    PostUsers CreateUserInput
  | GetUsersId string
  | GetUsers string
  | PutUsersId UpdateUserInput
  | DeleteUsersId string
  | PostPosts CreatePostInput
  | GetPostsId string
  | PutPostsId UpdatePostInput
  | DeletePostsId string

datatype rest_reply = UserResponse rest_User | PostResponse rest_Post | DeleteResponse string

definition reply_with :: "('a \<Rightarrow> rest_reply) \<Rightarrow> ('w host, 'a) go \<Rightarrow> ('w host, rest_reply) go" where
  "reply_with f m = seq m (\<lambda>x. ret (f x))"

fun rest_serve :: "applib \<Rightarrow> 'w ORM \<Rightarrow> rest_call \<Rightarrow> ('w host, rest_reply) go" where
  "rest_serve A orm (PostUsers input) = reply_with UserResponse (CreateUser A orm input)"
| "rest_serve A orm (GetUsersId userId) = reply_with UserResponse (GetUser A orm userId)"
| "rest_serve A orm (GetUsers email) = reply_with UserResponse (GetUserByEmail A orm email)"
| "rest_serve A orm (PutUsersId input) = reply_with UserResponse (UpdateUser A orm input)"
| "rest_serve A orm (DeleteUsersId userId) = reply_with DeleteResponse (DeleteUser orm userId)"
| "rest_serve A orm (PostPosts input) = reply_with PostResponse (CreatePost A orm input)"
| "rest_serve A orm (GetPostsId postId) = reply_with PostResponse (GetPost A orm postId)"
| "rest_serve A orm (PutPostsId input) = reply_with PostResponse (UpdatePost A orm input)"
| "rest_serve A orm (DeletePostsId postId) = reply_with DeleteResponse (DeletePost orm postId)"

end
