(* ===== verification/RestApi.thy ===== *)
theory RestApi
  imports Rest HostStore SqliteEngine
begin

text \<open>
  The REST example as a service of users and posts: what each call replies and does, as a step relation,
  and that the handlers over SQLite, down to the statements the driver executes, are an implementation
  of it.
\<close>

section \<open>The schema\<close>

definition users_of_rest :: TableSchema where
  "users_of_rest = columns_table ''users'' rest_user_columns"

definition posts_of_rest :: TableSchema where
  "posts_of_rest = columns_table ''posts'' rest_post_columns"

lemmas rest_table_defs = users_of_rest_def posts_of_rest_def

lemmas rest_column_defs = rest_user_columns_def rest_post_columns_def zero_column_def

definition rest_schema :: Schema where
  "rest_schema = schema_New\<lparr>sch_DatabaseName := ''restd'',
     sch_Tables := GoMap [(''users'', users_of_rest), (''posts'', posts_of_rest)]\<rparr>"

lemmas rest_kinds = col_kind_def kind_of_def ToUpper_def upper_char_def

lemma rest_columns: "plain_columns rest_user_columns" "plain_columns rest_post_columns"
  by (simp_all add: rest_column_defs plain_column_def rest_kinds ToLower_def lower_char_def)

lemma rest_names [simp]: "tab_TableName users_of_rest = ''users''" "tab_TableName posts_of_rest = ''posts''"
  by (simp_all add: rest_table_defs)

lemma rest_schema_built: "createExampleSchema = Ok rest_schema"
  by (simp add: createExampleSchema_def AddFields_columns rest_columns SetDatabaseName_def schema_New_def
      schema_Lock_def schema_Unlock_def mu_Lock_def mu_Unlock_def free_mutex_def AddTable_def make_map_def
      rest_schema_def rest_table_defs)

lemma rest_tables:
  "mget (sch_Tables rest_schema) ''users'' = Some users_of_rest"
  "mget (sch_Tables rest_schema) ''posts'' = Some posts_of_rest"
  by (simp_all add: rest_schema_def mget_def)

lemma rest_schemas: "plain_schema rest_schema" "named_schema rest_schema" "\<not> mu_writer (sch_mu rest_schema)"
proof -
  have "plain_table users_of_rest" "plain_table posts_of_rest"
    by (simp_all add: rest_table_defs plain_columns_table rest_columns)
  then show "plain_schema rest_schema" by (simp add: plain_schema_def rest_schema_def)
  show "named_schema rest_schema"
    by (simp add: named_schema_def rest_schema_def rest_table_defs wf_map_def mkeys_def plain_name_def blank_def
        unpunct_def is_space_def rest_column_defs)
  show "\<not> mu_writer (sch_mu rest_schema)" by (simp add: rest_schema_def schema_New_def free_mutex_def)
qed

lemma rest_order:
  "tab_FieldOrder users_of_rest = [''id'', ''email'', ''name'', ''profile'', ''created_at'', ''updated_at'']"
  "tab_FieldOrder posts_of_rest =
     [''id'', ''user_id'', ''title'', ''content'', ''metadata'', ''published'', ''created_at'', ''updated_at'']"
  by (simp_all add: rest_table_defs rest_column_defs)

lemma rest_column_kinds:
  "col_kind (field_of (tab_Fields users_of_rest) ''email'') = KText"
  "col_kind (field_of (tab_Fields users_of_rest) ''name'') = KText"
  "col_kind (field_of (tab_Fields users_of_rest) ''profile'') = KJson"
  "col_kind (field_of (tab_Fields users_of_rest) ''created_at'') = KTime"
  "col_kind (field_of (tab_Fields users_of_rest) ''updated_at'') = KTime"
  "col_kind (field_of (tab_Fields posts_of_rest) ''user_id'') = KText"
  "col_kind (field_of (tab_Fields posts_of_rest) ''title'') = KText"
  "col_kind (field_of (tab_Fields posts_of_rest) ''content'') = KText"
  "col_kind (field_of (tab_Fields posts_of_rest) ''metadata'') = KJson"
  "col_kind (field_of (tab_Fields posts_of_rest) ''published'') = KBool"
  "col_kind (field_of (tab_Fields posts_of_rest) ''created_at'') = KTime"
  "col_kind (field_of (tab_Fields posts_of_rest) ''updated_at'') = KTime"
  by (simp_all add: rest_table_defs rest_column_defs field_of_def mget_def rest_kinds)

lemma rest_nullable:
  "\<not> col_Nullable (field_of (tab_Fields users_of_rest) ''email'')"
  "\<not> col_Nullable (field_of (tab_Fields users_of_rest) ''name'')"
  "col_Nullable (field_of (tab_Fields users_of_rest) ''profile'')"
  "\<not> col_Nullable (field_of (tab_Fields users_of_rest) ''created_at'')"
  "col_Nullable (field_of (tab_Fields users_of_rest) ''updated_at'')"
  "\<not> col_Nullable (field_of (tab_Fields posts_of_rest) ''user_id'')"
  "\<not> col_Nullable (field_of (tab_Fields posts_of_rest) ''title'')"
  "\<not> col_Nullable (field_of (tab_Fields posts_of_rest) ''content'')"
  "col_Nullable (field_of (tab_Fields posts_of_rest) ''metadata'')"
  "\<not> col_Nullable (field_of (tab_Fields posts_of_rest) ''published'')"
  "\<not> col_Nullable (field_of (tab_Fields posts_of_rest) ''created_at'')"
  "col_Nullable (field_of (tab_Fields posts_of_rest) ''updated_at'')"
  by (simp_all add: rest_table_defs rest_column_defs field_of_def mget_def)

lemma json_or_null: "(case v of VStr s \<Rightarrow> P s | _ \<Rightarrow> False) \<or> v = VNil \<longleftrightarrow> (case v of VStr s \<Rightarrow> P s | _ \<Rightarrow> v = VNil)"
  by (cases v) simp_all

lemma rest_fits:
  "fits (field_of (tab_Fields users_of_rest) ''email'') v \<longleftrightarrow> has_type v TStr"
  "fits (field_of (tab_Fields users_of_rest) ''name'') v \<longleftrightarrow> has_type v TStr"
  "fits (field_of (tab_Fields users_of_rest) ''profile'') v \<longleftrightarrow> (case v of VStr s \<Rightarrow> no_number s | _ \<Rightarrow> v = VNil)"
  "fits (field_of (tab_Fields users_of_rest) ''created_at'') v \<longleftrightarrow> (case v of VStr s \<Rightarrow> time_text s | _ \<Rightarrow> False)"
  "fits (field_of (tab_Fields users_of_rest) ''updated_at'') v \<longleftrightarrow> (case v of VStr s \<Rightarrow> time_text s | _ \<Rightarrow> v = VNil)"
  "fits (field_of (tab_Fields posts_of_rest) ''user_id'') v \<longleftrightarrow> has_type v TStr"
  "fits (field_of (tab_Fields posts_of_rest) ''title'') v \<longleftrightarrow> has_type v TStr"
  "fits (field_of (tab_Fields posts_of_rest) ''content'') v \<longleftrightarrow> has_type v TStr"
  "fits (field_of (tab_Fields posts_of_rest) ''metadata'') v \<longleftrightarrow> (case v of VStr s \<Rightarrow> no_number s | _ \<Rightarrow> v = VNil)"
  "fits (field_of (tab_Fields posts_of_rest) ''published'') v \<longleftrightarrow> has_type v TBool"
  "fits (field_of (tab_Fields posts_of_rest) ''created_at'') v \<longleftrightarrow> (case v of VStr s \<Rightarrow> time_text s | _ \<Rightarrow> False)"
  "fits (field_of (tab_Fields posts_of_rest) ''updated_at'') v \<longleftrightarrow> (case v of VStr s \<Rightarrow> time_text s | _ \<Rightarrow> v = VNil)"
  by (simp_all add: fits_def rest_column_kinds rest_nullable json_or_null)

lemma rest_unique: "no_unique posts_of_rest"
  by (simp add: no_unique_def rest_table_defs rest_column_defs field_of_def mget_def)

lemma rest_unique_columns:
  "col_Unique (field_of (tab_Fields users_of_rest) ''email'')" "\<not> col_Unique (field_of (tab_Fields users_of_rest) ''name'')"
  "\<not> col_Unique (field_of (tab_Fields users_of_rest) ''profile'')"
  "\<not> col_Unique (field_of (tab_Fields users_of_rest) ''created_at'')"
  "\<not> col_Unique (field_of (tab_Fields users_of_rest) ''updated_at'')"
  by (simp_all add: rest_table_defs rest_column_defs field_of_def mget_def)

lemma rest_clash: "clash users_of_rest r r' \<longleftrightarrow> r ''email'' \<noteq> VNil \<and> r ''email'' = r' ''email''"
  by (simp add: clash_def rest_order rest_unique_columns)

lemma rest_json_columns:
  "ToLower (col_DataType (field_of (tab_Fields users_of_rest) ''email'')) \<noteq> ''json''"
  "ToLower (col_DataType (field_of (tab_Fields users_of_rest) ''name'')) \<noteq> ''json''"
  "ToLower (col_DataType (field_of (tab_Fields users_of_rest) ''profile'')) = ''json''"
  "ToLower (col_DataType (field_of (tab_Fields users_of_rest) ''created_at'')) \<noteq> ''json''"
  "ToLower (col_DataType (field_of (tab_Fields users_of_rest) ''updated_at'')) \<noteq> ''json''"
  "ToLower (col_DataType (field_of (tab_Fields posts_of_rest) ''user_id'')) \<noteq> ''json''"
  "ToLower (col_DataType (field_of (tab_Fields posts_of_rest) ''title'')) \<noteq> ''json''"
  "ToLower (col_DataType (field_of (tab_Fields posts_of_rest) ''content'')) \<noteq> ''json''"
  "ToLower (col_DataType (field_of (tab_Fields posts_of_rest) ''metadata'')) = ''json''"
  "ToLower (col_DataType (field_of (tab_Fields posts_of_rest) ''published'')) \<noteq> ''json''"
  "ToLower (col_DataType (field_of (tab_Fields posts_of_rest) ''created_at'')) \<noteq> ''json''"
  "ToLower (col_DataType (field_of (tab_Fields posts_of_rest) ''updated_at'')) \<noteq> ''json''"
  by (simp_all add: rest_table_defs rest_column_defs field_of_def mget_def ToLower_def lower_char_def)

lemma rest_key: "key_column users_of_rest ''email''"
  by (simp add: key_column_def rest_order rest_column_kinds)

section \<open>The abstract service\<close>

record api =
  api_users :: "string \<Rightarrow> rest_User option"
  api_posts :: "string \<Rightarrow> rest_Post option"

text \<open>Beside the users and posts there is the number of the clock readings so far.\<close>

type_synonym api_state = "api \<times> nat"

definition read_opt_time :: "applib \<Rightarrow> goval \<Rightarrow> int option" where
  "read_opt_time A v = (if text_of v = [] then None
     else case app_parse_rfc3339 A (text_of v) of Ok t \<Rightarrow> Some t | _ \<Rightarrow> None)"

definition read_json :: "applib \<Rightarrow> string \<Rightarrow> goval gomap" where
  "read_json A s = (if s = [] then NilMap else case app_json_parse A s of Ok m \<Rightarrow> m | _ \<Rightarrow> NilMap)"

definition user_of_row :: "applib \<Rightarrow> string \<Rightarrow> row \<Rightarrow> rest_User" where
  "user_of_row A i r = \<lparr>ru_ID = i, ru_Email = text_of (r ''email''), ru_Name = text_of (r ''name''),
     ru_Profile = read_json A (text_of (r ''profile'')), ru_CreatedAt = read_time A (r ''created_at''),
     ru_UpdatedAt = read_opt_time A (r ''updated_at'')\<rparr>"

definition post_of_row :: "applib \<Rightarrow> string \<Rightarrow> row \<Rightarrow> rest_Post" where
  "post_of_row A i r = \<lparr>rp_ID = i, rp_UserID = text_of (r ''user_id''), rp_Title = text_of (r ''title''),
     rp_Content = text_of (r ''content''), rp_Metadata = read_json A (text_of (r ''metadata'')),
     rp_Published = (r ''published'' = VBool True), rp_CreatedAt = read_time A (r ''created_at''),
     rp_UpdatedAt = read_opt_time A (r ''updated_at'')\<rparr>"

definition api_of :: "applib \<Rightarrow> database \<Rightarrow> api" where
  "api_of A D = \<lparr>api_users = (\<lambda>i. map_option (user_of_row A i) (D ''users'' i)),
     api_posts = (\<lambda>i. map_option (post_of_row A i) (D ''posts'' i))\<rparr>"

text \<open>
  What is new in a call, and what is kept of it: times to the second, and no map, whose text the storage
  encodes once more.
\<close>

definition rest_id :: "string \<Rightarrow> int \<Rightarrow> string" where
  "rest_id prefix t = prefix @ ''_'' @ FormatInt (sint (UnixNano t))"

definition new_user :: "CreateUserInput \<Rightarrow> string \<Rightarrow> int \<Rightarrow> rest_User" where
  "new_user input i t = \<lparr>ru_ID = i, ru_Email = cu_Email input, ru_Name = cu_Name input, ru_Profile = cu_Profile input,
     ru_CreatedAt = t, ru_UpdatedAt = None\<rparr>"

definition new_post :: "CreatePostInput \<Rightarrow> string \<Rightarrow> int \<Rightarrow> rest_Post" where
  "new_post input i t = \<lparr>rp_ID = i, rp_UserID = cp_UserID input, rp_Title = cp_Title input, rp_Content = cp_Content input,
     rp_Metadata = cp_Metadata input, rp_Published = (cp_Published input = Some True), rp_CreatedAt = t, rp_UpdatedAt = None\<rparr>"

definition saved_user :: "rest_User \<Rightarrow> rest_User" where
  "saved_user u = u\<lparr>ru_Profile := NilMap, ru_CreatedAt := to_second (ru_CreatedAt u)\<rparr>"

definition saved_post :: "rest_Post \<Rightarrow> rest_Post" where
  "saved_post p = p\<lparr>rp_Metadata := NilMap, rp_CreatedAt := to_second (rp_CreatedAt p)\<rparr>"

text \<open>A new user takes the place of the one with its address.\<close>

definition put_account :: "rest_User \<Rightarrow> api \<Rightarrow> api" where
  "put_account u s = s\<lparr>api_users := (\<lambda>j. if j = ru_ID u then Some u
     else case api_users s j of None \<Rightarrow> None
       | Some u' \<Rightarrow> if ru_Email u' = ru_Email u then None else Some u')\<rparr>"

text \<open>An update, which writes a map so that it can be read.\<close>

definition or_else :: "'a option \<Rightarrow> 'a \<Rightarrow> 'a" where
  "or_else x y = (case x of None \<Rightarrow> y | Some z \<Rightarrow> z)"

definition new_map :: "applib \<Rightarrow> goval gomap \<Rightarrow> goval gomap \<Rightarrow> goval gomap" where
  "new_map A m old = (if m = NilMap then old else read_json A (marshalled A m))"

definition changed_user :: "applib \<Rightarrow> UpdateUserInput \<Rightarrow> int \<Rightarrow> rest_User \<Rightarrow> rest_User" where
  "changed_user A input t u = u\<lparr>ru_Email := or_else (uu_Email input) (ru_Email u),
     ru_Name := or_else (uu_Name input) (ru_Name u), ru_Profile := new_map A (uu_Profile input) (ru_Profile u),
     ru_UpdatedAt := Some (to_second t)\<rparr>"

definition changed_post :: "applib \<Rightarrow> UpdatePostInput \<Rightarrow> int \<Rightarrow> rest_Post \<Rightarrow> rest_Post" where
  "changed_post A input t p = p\<lparr>rp_Title := or_else (up_Title input) (rp_Title p),
     rp_Content := or_else (up_Content input) (rp_Content p), rp_Metadata := new_map A (up_Metadata input) (rp_Metadata p),
     rp_Published := or_else (up_Published input) (rp_Published p), rp_UpdatedAt := Some (to_second t)\<rparr>"

definition email_taken :: "api \<Rightarrow> string \<Rightarrow> string \<Rightarrow> bool" where
  "email_taken s i x \<longleftrightarrow> (\<exists>j u. j \<noteq> i \<and> api_users s j = Some u \<and> ru_Email u = x)"

text \<open>Answers, and the results that give them: a reply, the error of a missing row, or some other error.\<close>

datatype rest_answer = Replied rest_reply | Missing string | Refused

fun answered :: "rest_answer \<Rightarrow> rest_reply result \<Rightarrow> bool" where
  "answered (Replied x) a \<longleftrightarrow> a = Ok x"
| "answered (Missing m) a \<longleftrightarrow> a = Error (Err m)"
| "answered Refused a \<longleftrightarrow> (\<exists>e. a = Error e)"

definition no_row :: "string \<Rightarrow> string \<Rightarrow> rest_answer" where
  "no_row m i = (if i = [] then Refused else Missing m)"

inductive api_step :: "applib \<Rightarrow> (nat \<Rightarrow> int) \<Rightarrow> rest_call \<Rightarrow> api_state \<Rightarrow> rest_answer \<Rightarrow> api_state \<Rightarrow> bool" for A now where
  user_created: "u = new_user input (rest_id ''user'' (now t)) (now (Suc t)) \<Longrightarrow>
    api_step A now (PostUsers input) (s, t) (Replied (UserResponse u)) (put_account (saved_user u) s, Suc (Suc t))"
| user_shown: "look (api_users s) i = Some u \<Longrightarrow> api_step A now (GetUsersId i) (s, t) (Replied (UserResponse u)) (s, t)"
| user_missing: "look (api_users s) i = None \<Longrightarrow>
    api_step A now (GetUsersId i) (s, t) (no_row ''user not found'' i) (s, t)"
| user_found: "keyed (api_users s) ru_Email x (Some u) \<Longrightarrow>
    api_step A now (GetUsers x) (s, t) (Replied (UserResponse u)) (s, t)"
| user_not_found: "keyed (api_users s) ru_Email x None \<Longrightarrow>
    api_step A now (GetUsers x) (s, t) (no_row ''user not found'' x) (s, t)"
| user_changed: "uu_UserID input = i \<Longrightarrow> look (api_users s) i = Some u \<Longrightarrow> changed_user A input (now t) u = u' \<Longrightarrow>
    \<not> email_taken s i (ru_Email u') \<Longrightarrow>
    api_step A now (PutUsersId input) (s, t) (Replied (UserResponse u'))
      (s\<lparr>api_users := (api_users s)(i \<mapsto> u')\<rparr>, Suc t)"
| user_refused: "uu_UserID input = i \<Longrightarrow> look (api_users s) i = Some u \<Longrightarrow>
    email_taken s i (ru_Email (changed_user A input (now t) u)) \<Longrightarrow>
    api_step A now (PutUsersId input) (s, t) Refused (s, Suc t)"
| user_unchanged: "look (api_users s) (uu_UserID input) = None \<Longrightarrow>
    api_step A now (PutUsersId input) (s, t) (no_row ''user not found'' (uu_UserID input)) (s, t)"
| user_deleted: "api_users s i = Some u \<Longrightarrow>
    api_step A now (DeleteUsersId i) (s, t) (Replied (DeleteResponse ''User deleted successfully''))
      (s\<lparr>api_users := (api_users s)(i := None)\<rparr>, t)"
| user_not_deleted: "api_users s i = None \<Longrightarrow>
    api_step A now (DeleteUsersId i) (s, t) (Missing ''user not found'') (s, t)"
| post_created: "look (api_users s) (cp_UserID input) = Some u \<Longrightarrow>
    p = new_post input (rest_id ''post'' (now t)) (now (Suc t)) \<Longrightarrow>
    api_step A now (PostPosts input) (s, t) (Replied (PostResponse p))
      (s\<lparr>api_posts := (api_posts s)(rp_ID p \<mapsto> saved_post p)\<rparr>, Suc (Suc t))"
| post_refused: "look (api_users s) (cp_UserID input) = None \<Longrightarrow>
    api_step A now (PostPosts input) (s, t) (no_row ''user not found'' (cp_UserID input)) (s, t)"
| post_shown: "look (api_posts s) i = Some p \<Longrightarrow> api_step A now (GetPostsId i) (s, t) (Replied (PostResponse p)) (s, t)"
| post_missing: "look (api_posts s) i = None \<Longrightarrow>
    api_step A now (GetPostsId i) (s, t) (no_row ''post not found'' i) (s, t)"
| post_changed: "up_PostID input = i \<Longrightarrow> look (api_posts s) i = Some p \<Longrightarrow> changed_post A input (now t) p = p' \<Longrightarrow>
    api_step A now (PutPostsId input) (s, t) (Replied (PostResponse p'))
      (s\<lparr>api_posts := (api_posts s)(i \<mapsto> p')\<rparr>, Suc t)"
| post_unchanged: "look (api_posts s) (up_PostID input) = None \<Longrightarrow>
    api_step A now (PutPostsId input) (s, t) (no_row ''post not found'' (up_PostID input)) (s, t)"
| post_deleted: "api_posts s i = Some p \<Longrightarrow>
    api_step A now (DeletePostsId i) (s, t) (Replied (DeleteResponse ''Post deleted successfully''))
      (s\<lparr>api_posts := (api_posts s)(i := None)\<rparr>, t)"
| post_not_deleted: "api_posts s i = None \<Longrightarrow>
    api_step A now (DeletePostsId i) (s, t) (Missing ''post not found'') (s, t)"

inductive_cases api_stepE: "api_step A now c st answer st'"


end
