(* ===== verification/RestRun.thy ===== *)
theory RestRun
  imports RestApi
begin

text \<open>
  The handlers of the REST example over a storage of tables: the rows of users and posts written and
  read back, and each call as a step of the abstract service.
\<close>

section \<open>Rows\<close>

text \<open>
  What is asked of the JSON functions beside the encoder of objects (\<open>plain_objects\<close>): the text of a map begins with a
  brace, and a text that begins with a quote is not a map.
\<close>

definition map_laws :: "applib \<Rightarrow> bool" where
  "map_laws A \<longleftrightarrow> (\<forall>m t. m \<noteq> NilMap \<longrightarrow> app_json_map A m = Ok t \<longrightarrow> (\<exists>u. t = CHR 0x7B # u)) \<and>
     (\<forall>t m. app_json_parse A (CHR 0x22 # t) \<noteq> Ok m)"

lemma api_lookup:
  "api_users (api_of A D) i = map_option (user_of_row A i) (D ''users'' i)"
  "api_posts (api_of A D) i = map_option (post_of_row A i) (D ''posts'' i)"
  by (simp_all add: api_of_def)

lemma quoted_unread: "map_laws A \<Longrightarrow> read_json A (CHR 0x22 # t) = NilMap"
  by (auto simp: map_laws_def read_json_def split: result.splits)

lemma marshalled_text:
  assumes "map_laws A" and "m \<noteq> NilMap"
  shows "no_number (marshalled A m)"
proof (cases "app_json_map A m")
  case (Ok t)
  with assms obtain u where "t = CHR 0x7B # u" by (auto simp: map_laws_def)
  with Ok show ?thesis by (simp add: marshalled_def no_number_def is_digit_def)
qed (simp_all add: marshalled_def no_number_def)

text \<open>The fields that may be NULL.\<close>

lemma optional_fields:
  assumes v: "mget (obj_Fields obj) n = Some v" and "v = VNil \<or> (\<exists>s. v = VStr s)"
  shows "opt_time_field A obj n = Ok (read_opt_time A v)" and "json_field A obj n = Ok (read_json A (text_of v))"
proof -
  from assms(2) have "GetString obj n = Ok (text_of v, v \<noteq> VNil)"
    by (elim disjE exE) (simp_all add: GetString_def v)
  then show "opt_time_field A obj n = Ok (read_opt_time A v)" "json_field A obj n = Ok (read_json A (text_of v))"
    using assms(2) by (elim disjE exE; simp add: opt_time_field_def json_field_def read_opt_time_def read_json_def)+
qed

lemma row_optional:
  assumes "row_object tbl i r obj" and "n \<in> set (tab_FieldOrder tbl)" and "r n = VNil \<or> (\<exists>s. r n = VStr s)"
  shows "opt_time_field A obj n = Ok (read_opt_time A (r n))" and "json_field A obj n = Ok (read_json A (text_of (r n)))"
  using optional_fields [OF row_object_field [OF assms(1,2)] assms(3)] by simp_all

lemma typed_values:
  "has_type v TStr \<Longrightarrow> v = VStr (text_of v)"
  "(case v of VStr s \<Rightarrow> P s | _ \<Rightarrow> False) \<Longrightarrow> v = VStr (text_of v)"
  "(case v of VStr s \<Rightarrow> P s | _ \<Rightarrow> v = VNil) \<Longrightarrow> v = VNil \<or> (\<exists>s. v = VStr s)"
  "has_type v TBool \<Longrightarrow> \<exists>b. v = VBool b"
  by (cases v; simp)+

lemma row_fits_column:
  "row_fits tbl i r \<Longrightarrow> n \<in> set (tab_FieldOrder tbl) \<Longrightarrow> n \<noteq> ''id'' \<Longrightarrow> fits (field_of (tab_Fields tbl) n) (r n)"
  by (simp add: row_fits_def)

lemma rest_user_texts:
  assumes "row_fits users_of_rest i r"
  shows "r ''email'' = VStr (text_of (r ''email''))" "r ''name'' = VStr (text_of (r ''name''))"
    "r ''created_at'' = VStr (text_of (r ''created_at''))" "r ''profile'' = VNil \<or> (\<exists>s. r ''profile'' = VStr s)"
    "r ''updated_at'' = VNil \<or> (\<exists>s. r ''updated_at'' = VStr s)"
proof -
  note col = row_fits_column [OF assms, unfolded rest_order]
  show "r ''email'' = VStr (text_of (r ''email''))" using col [of "''email''"] typed_values(1) by (simp add: rest_fits del: has_type.simps)
  show "r ''name'' = VStr (text_of (r ''name''))" using col [of "''name''"] typed_values(1) by (simp add: rest_fits del: has_type.simps)
  show "r ''created_at'' = VStr (text_of (r ''created_at''))" using col [of "''created_at''"] by (intro typed_values(2)) (simp add: rest_fits del: has_type.simps)
  show "r ''profile'' = VNil \<or> (\<exists>s. r ''profile'' = VStr s)" using col [of "''profile''"] by (intro typed_values(3)) (simp add: rest_fits del: has_type.simps)
  show "r ''updated_at'' = VNil \<or> (\<exists>s. r ''updated_at'' = VStr s)" using col [of "''updated_at''"] by (intro typed_values(3)) (simp add: rest_fits del: has_type.simps)
qed

lemma rest_post_texts:
  assumes "row_fits posts_of_rest i r"
  shows "r ''user_id'' = VStr (text_of (r ''user_id''))" "r ''title'' = VStr (text_of (r ''title''))"
    "r ''content'' = VStr (text_of (r ''content''))" "r ''created_at'' = VStr (text_of (r ''created_at''))"
    "r ''metadata'' = VNil \<or> (\<exists>s. r ''metadata'' = VStr s)" "r ''updated_at'' = VNil \<or> (\<exists>s. r ''updated_at'' = VStr s)"
    "\<exists>b. r ''published'' = VBool b"
proof -
  note col = row_fits_column [OF assms, unfolded rest_order]
  show "r ''user_id'' = VStr (text_of (r ''user_id''))" using col [of "''user_id''"] typed_values(1) by (simp add: rest_fits del: has_type.simps)
  show "r ''title'' = VStr (text_of (r ''title''))" using col [of "''title''"] typed_values(1) by (simp add: rest_fits del: has_type.simps)
  show "r ''content'' = VStr (text_of (r ''content''))" using col [of "''content''"] typed_values(1) by (simp add: rest_fits del: has_type.simps)
  show "r ''created_at'' = VStr (text_of (r ''created_at''))" using col [of "''created_at''"] by (intro typed_values(2)) (simp add: rest_fits del: has_type.simps)
  show "r ''metadata'' = VNil \<or> (\<exists>s. r ''metadata'' = VStr s)" using col [of "''metadata''"] by (intro typed_values(3)) (simp add: rest_fits del: has_type.simps)
  show "r ''updated_at'' = VNil \<or> (\<exists>s. r ''updated_at'' = VStr s)" using col [of "''updated_at''"] by (intro typed_values(3)) (simp add: rest_fits del: has_type.simps)
  show "\<exists>b. r ''published'' = VBool b" using col [of "''published''"] by (intro typed_values(4)) (simp add: rest_fits del: has_type.simps)
qed

lemma read_user:
  assumes o1: "row_object users_of_rest i r obj" and r: "row_fits users_of_rest i r"
  shows "rest_objectToUser A obj = Ok (user_of_row A i r)"
  using row_fields [OF o1 _ rest_user_texts(1) [OF r]] row_fields [OF o1 _ rest_user_texts(2) [OF r]]
    row_fields [OF o1 _ rest_user_texts(3) [OF r]] row_optional [OF o1 _ rest_user_texts(4) [OF r]]
    row_optional [OF o1 _ rest_user_texts(5) [OF r]] row_object_id [OF o1] rest_user_texts(3) [OF r]
  by (simp add: rest_objectToUser_def rest_order user_of_row_def)

lemma read_post:
  assumes o1: "row_object posts_of_rest i r obj" and r: "row_fits posts_of_rest i r"
  shows "rest_objectToPost A obj = Ok (post_of_row A i r)"
proof -
  obtain b where b: "r ''published'' = VBool b" using rest_post_texts(7) [OF r] by blast
  have "GetBool obj ''published'' = (b, True)"
    using row_object_field [OF o1, of "''published''"] b by (simp add: GetBool_def rest_order)
  then show ?thesis
    using row_fields [OF o1 _ rest_post_texts(1) [OF r]] row_fields [OF o1 _ rest_post_texts(2) [OF r]]
      row_fields [OF o1 _ rest_post_texts(3) [OF r]] row_fields [OF o1 _ rest_post_texts(4) [OF r]]
      row_optional [OF o1 _ rest_post_texts(5) [OF r]] row_optional [OF o1 _ rest_post_texts(6) [OF r]]
      row_object_id [OF o1] rest_post_texts(4) [OF r] b
    by (simp add: rest_objectToPost_def rest_order post_of_row_def)
qed

text \<open>A field that is set when there is a value for it.\<close>

definition given :: "string \<Rightarrow> goval option \<Rightarrow> row \<Rightarrow> row" where
  "given n v r = (case v of None \<Rightarrow> r | Some x \<Rightarrow> r(n := x))"

definition json_given :: "applib \<Rightarrow> goval gomap \<Rightarrow> goval option" where
  "json_given A m = (if m = NilMap then None else Some (VStr (marshalled A m)))"

lemma set_json_given: "set_json A obj n m = set_given obj n (json_given A m)"
  by (simp add: set_json_def set_given_def json_given_def)

lemma set_given_row:
  assumes o1: "row_object tbl i r o1" and n: "n \<in> set (tab_FieldOrder tbl)" "n \<noteq> ''id''"
  obtains o2 where "set_given o1 n v = Ok o2" and "row_object tbl i (given n v r) o2"
proof (cases v)
  case None
  with o1 that show thesis by (simp add: set_given_def given_def)
next
  case (Some x)
  obtain o2 where "SetField o1 n x = Ok o2" "row_object tbl i (r(n := x)) o2"
    using SetField_row_object [OF o1 n] by metis
  with Some that show thesis by (simp add: set_given_def given_def)
qed

lemma given_fits:
  assumes "row_fits tbl i r" and "n \<noteq> ''id''" and "\<And>x. v = Some x \<Longrightarrow> fits (field_of (tab_Fields tbl) n) x"
  shows "row_fits tbl i (given n v r)"
  using assms by (auto simp: given_def row_fits_def split: option.splits)


text \<open>The objects of new users and posts, and the rows they become.\<close>

lemma bound_values:
  assumes "json_texts L"
  shows "bind_value L n f (VStr s) = Ok (VStr (if ToLower (col_DataType f) = ''json'' then json_text L s else s))"
    and "ToLower (col_DataType f) \<noteq> ''json'' \<Longrightarrow> bind_value L n f (VBool b) = Ok (VBool b)"
  using json_texts_value(1) [OF assms] by (simp_all add: bind_value_def)

lemma json_text_stored: "json_texts L \<Longrightarrow> no_number (json_text L s)"
  using json_texts_value(2) [of L s] by (auto simp: no_number_def is_digit_def)

lemma json_text_unread: "json_texts L \<Longrightarrow> map_laws A \<Longrightarrow> read_json A (json_text L s) = NilMap"
  using json_texts_value(2) [of L s] quoted_unread by metis

definition user_values :: "'e golib_scheme \<Rightarrow> applib \<Rightarrow> rest_User \<Rightarrow> (string \<times> goval) list" where
  "user_values L A u = [(''email'', VStr (ru_Email u)), (''name'', VStr (ru_Name u)),
      (''created_at'', VStr (app_rfc3339 A (ru_CreatedAt u)))] @
    (if ru_Profile u = NilMap then [] else [(''profile'', VStr (json_text L (marshalled A (ru_Profile u))))])"

definition post_values :: "'e golib_scheme \<Rightarrow> applib \<Rightarrow> rest_Post \<Rightarrow> (string \<times> goval) list" where
  "post_values L A p = [(''user_id'', VStr (rp_UserID p)), (''title'', VStr (rp_Title p)), (''content'', VStr (rp_Content p)),
      (''published'', VBool (rp_Published p)), (''created_at'', VStr (app_rfc3339 A (rp_CreatedAt p)))] @
    (if rp_Metadata p = NilMap then [] else [(''metadata'', VStr (json_text L (marshalled A (rp_Metadata p))))])"

lemma stored_values:
  assumes L: "json_texts L"
  shows "ru_UpdatedAt u = None \<Longrightarrow> stored L users_of_rest (rest_userToObject A u) = user_values L A u"
    and "rp_UpdatedAt p = None \<Longrightarrow> stored L posts_of_rest (rest_postToObject A p) = post_values L A p"
  by (simp_all add: stored_def rest_userToObject_def rest_postToObject_def json_entry_def time_entry_def user_values_def
      post_values_def non_id_def ToLower_def lower_char_def bound_values [OF L] rest_json_columns [unfolded ToLower_def])

lemma whole_values:
  assumes L: "json_texts L" and A: "time_laws A"
  shows "in_years (ru_CreatedAt u) \<Longrightarrow> whole_row users_of_rest (user_values L A u)"
    and "in_years (rp_CreatedAt p) \<Longrightarrow> whole_row posts_of_rest (post_values L A p)"
  using written_time(1) [OF A] json_text_stored [OF L]
  by (simp_all add: whole_row_def good_values_def user_values_def post_values_def rest_order rest_fits)
    (simp_all add: rest_table_defs rest_column_defs field_of_def mget_def)

lemma new_insertable:
  assumes L: "json_texts L" "plain_objects L" and A: "time_laws A"
  shows "ru_UpdatedAt u = None \<Longrightarrow> in_years (ru_CreatedAt u) \<Longrightarrow> insertable L users_of_rest (rest_userToObject A u)"
    and "rp_UpdatedAt p = None \<Longrightarrow> in_years (rp_CreatedAt p) \<Longrightarrow> insertable L posts_of_rest (rest_postToObject A p)"
proof -
  have "is_ok (lib_json_object L (rest_userToObject A u))" "is_ok (lib_json_object L (rest_postToObject A p))"
    using L(2) by (auto simp: plain_objects_def rest_userToObject_def rest_postToObject_def json_entry_def time_entry_def
        split: option.splits)
  then show "ru_UpdatedAt u = None \<Longrightarrow> in_years (ru_CreatedAt u) \<Longrightarrow> insertable L users_of_rest (rest_userToObject A u)"
    "rp_UpdatedAt p = None \<Longrightarrow> in_years (rp_CreatedAt p) \<Longrightarrow> insertable L posts_of_rest (rest_postToObject A p)"
    unfolding insertable_def stored_values(1) [OF L(1)] stored_values(2) [OF L(1)]
    using whole_values [OF L(1) A]
    by (auto simp: stored_values [OF L(1)] rest_userToObject_def rest_postToObject_def json_entry_def time_entry_def
        non_id_def bound_values [OF L(1)] rest_json_columns split: if_splits)
qed

lemma new_rows_read:
  assumes L: "json_texts L" and A: "time_laws A" "map_laws A"
  shows "ru_UpdatedAt u = None \<Longrightarrow> in_years (ru_CreatedAt u) \<Longrightarrow>
      user_of_row A (ru_ID u) (new_row (ru_ID u) (user_values L A u)) = saved_user u"
    and "rp_UpdatedAt p = None \<Longrightarrow> in_years (rp_CreatedAt p) \<Longrightarrow>
      post_of_row A (rp_ID p) (new_row (rp_ID p) (post_values L A p)) = saved_post p"
  using written_time(2) [OF A(1)] json_text_unread [OF L A(2)]
  by (simp_all add: user_of_row_def post_of_row_def new_row_def user_values_def post_values_def saved_user_def
      saved_post_def read_opt_time_def read_json_def [of A "[]"])

text \<open>The rows of an update.\<close>

definition updated_user :: "applib \<Rightarrow> UpdateUserInput \<Rightarrow> int \<Rightarrow> row \<Rightarrow> row" where
  "updated_user A input t r = (given ''profile'' (json_given A (uu_Profile input))
     (given ''name'' (map_option VStr (uu_Name input)) (given ''email'' (map_option VStr (uu_Email input)) r)))
     (''updated_at'' := VStr (app_rfc3339 A t))"

definition updated_post :: "applib \<Rightarrow> UpdatePostInput \<Rightarrow> int \<Rightarrow> row \<Rightarrow> row" where
  "updated_post A input t r = (given ''published'' (map_option VBool (up_Published input))
     (given ''metadata'' (json_given A (up_Metadata input)) (given ''content'' (map_option VStr (up_Content input))
       (given ''title'' (map_option VStr (up_Title input)) r))))
     (''updated_at'' := VStr (app_rfc3339 A t))"

lemma row_fits_upd:
  assumes "row_fits tbl i r" and "n \<noteq> ''id''" and "fits (field_of (tab_Fields tbl) n) x"
  shows "row_fits tbl i (r(n := x))"
  using assms by (simp add: row_fits_def)

lemma given_json_fits:
  assumes "map_laws A" and "row_fits tbl i r" and "n \<noteq> ''id''"
    and "\<And>s. no_number s \<Longrightarrow> fits (field_of (tab_Fields tbl) n) (VStr s)"
  shows "row_fits tbl i (given n (json_given A m) r)"
  by (rule given_fits [OF assms(2,3)]) (use assms(4) marshalled_text [OF assms(1)] in \<open>auto simp: json_given_def split: if_splits\<close>)

lemma given_text_fits:
  assumes "row_fits tbl i r" and "n \<noteq> ''id''" and "\<And>s. fits (field_of (tab_Fields tbl) n) (VStr s)"
  shows "row_fits tbl i (given n (map_option VStr x) r)"
  by (rule given_fits [OF assms(1,2)]) (use assms(3) in auto)

lemma updated_fits:
  assumes A: "time_laws A" "map_laws A" and t: "in_years t"
  shows "row_fits users_of_rest i r \<Longrightarrow> row_fits users_of_rest i (updated_user A uinput t r)"
    and "row_fits posts_of_rest i r \<Longrightarrow> row_fits posts_of_rest i (updated_post A pinput t r)"
proof -
  note time = written_time(1) [OF A(1) t]
  assume r: "row_fits users_of_rest i r"
  note r1 = given_text_fits [OF r, of "''email''" "uu_Email uinput"]
  note r2 = given_text_fits [OF r1, of "''name''" "uu_Name uinput"]
  note r3 = given_json_fits [OF A(2) r2, of "''profile''" "uu_Profile uinput"]
  show "row_fits users_of_rest i (updated_user A uinput t r)"
    unfolding updated_user_def by (rule row_fits_upd [OF r3]) (simp_all add: rest_fits time)
next
  note time = written_time(1) [OF A(1) t]
  assume r: "row_fits posts_of_rest i r"
  note r1 = given_text_fits [OF r, of "''title''" "up_Title pinput"]
  note r2 = given_text_fits [OF r1, of "''content''" "up_Content pinput"]
  note r3 = given_json_fits [OF A(2) r2, of "''metadata''" "up_Metadata pinput"]
  note r4 = given_fits [OF r3, of "''published''" "map_option VBool (up_Published pinput)"]
  show "row_fits posts_of_rest i (updated_post A pinput t r)"
    unfolding updated_post_def by (rule row_fits_upd [OF r4]) (auto simp add: rest_fits time)
qed

lemma given_apply: "given n v r m = (if m = n then or_else v (r n) else r m)"
  by (simp add: given_def or_else_def split: option.splits)

lemma time_text_nonempty: "time_text s \<Longrightarrow> s \<noteq> []"
  by (auto simp: time_text_def)

lemma opt_time_read: "time_laws A \<Longrightarrow> in_years t \<Longrightarrow> read_opt_time A (VStr (app_rfc3339 A t)) = Some (to_second t)"
  using time_text_nonempty [of "app_rfc3339 A t"] by (simp add: read_opt_time_def time_laws_def)

lemma given_text:
  "text_of (or_else (map_option VStr x) v) = or_else x (text_of v)"
  "or_else (map_option VBool b) v = VBool True \<longleftrightarrow> or_else b (v = VBool True)"
  "read_json A (text_of (or_else (json_given A m) v)) = new_map A m (read_json A (text_of v))"
  by (simp_all add: or_else_def json_given_def new_map_def split: option.splits)

lemma updated_read:
  assumes A: "time_laws A" and t: "in_years t"
  shows "user_of_row A i (updated_user A uinput t r) = changed_user A uinput t (user_of_row A i r)"
    and "post_of_row A i (updated_post A pinput t r) = changed_post A pinput t (post_of_row A i r)"
  using opt_time_read [OF A t]
  by (simp_all add: user_of_row_def post_of_row_def updated_user_def updated_post_def changed_user_def changed_post_def
      given_apply given_text)

lemma updated_rest:
  "m \<notin> set (tab_FieldOrder users_of_rest) \<Longrightarrow> r m = updated_user A uinput t r m"
  "m \<notin> set (tab_FieldOrder posts_of_rest) \<Longrightarrow> r m = updated_post A pinput t r m"
  by (simp_all add: rest_order updated_user_def updated_post_def given_apply)

lemma users_put:
  assumes D: "store_fits users_of_rest (D ''users'')" and r: "row_fits users_of_rest i r"
  shows "api_of A (D(''users'' := replace_row users_of_rest i r (D ''users''))) = put_account (user_of_row A i r) (api_of A D)"
proof -
  have "clash users_of_rest r r' \<longleftrightarrow> text_of (r' ''email'') = text_of (r ''email'')" if "D ''users'' j = Some r'" for j r'
    using rest_user_texts(1) [OF r] rest_user_texts(1) [OF store_fits_row [OF D that]] unfolding rest_clash by (metis goval.distinct(1))
  then show ?thesis
    by (auto simp: api_of_def put_account_def replace_row_def user_of_row_def fun_eq_iff split: option.splits)
qed

lemma users_taken:
  assumes D: "store_fits users_of_rest (D ''users'')" and r: "row_fits users_of_rest i r"
  shows "taken users_of_rest i r (D ''users'') \<longleftrightarrow> email_taken (api_of A D) i (ru_Email (user_of_row A i r))"
proof -
  have "clash users_of_rest r r' \<longleftrightarrow> text_of (r' ''email'') = text_of (r ''email'')" if "D ''users'' j = Some r'" for j r'
    using rest_user_texts(1) [OF r] rest_user_texts(1) [OF store_fits_row [OF D that]] unfolding rest_clash by (metis goval.distinct(1))
  then show ?thesis
    by (auto simp: taken_def email_taken_def api_of_def user_of_row_def)
qed

lemma api_changes:
  "api_of A (D(''users'' := (D ''users'')(i := None))) = (api_of A D)\<lparr>api_users := (api_users (api_of A D))(i := None)\<rparr>"
  "api_of A (D(''posts'' := (D ''posts'')(i := None))) = (api_of A D)\<lparr>api_posts := (api_posts (api_of A D))(i := None)\<rparr>"
  "api_of A (D(''users'' := (D ''users'')(i \<mapsto> r))) =
     (api_of A D)\<lparr>api_users := (api_users (api_of A D))(i \<mapsto> user_of_row A i r)\<rparr>"
  "api_of A (D(''posts'' := (D ''posts'')(i \<mapsto> r))) =
     (api_of A D)\<lparr>api_posts := (api_posts (api_of A D))(i \<mapsto> post_of_row A i r)\<rparr>"
  by (simp_all add: api_of_def fun_eq_iff)

section \<open>The calls\<close>

locale rest_store = record_store st L db open_on "mget (sch_Tables rest_schema)"
  for st :: "'w Storage" and L :: "'e golib_scheme" and db :: "'w \<Rightarrow> database" and open_on :: "'w \<Rightarrow> bool" +
  fixes A :: applib and orm1 :: "'w ORM"
  assumes texts: "json_texts L" "plain_objects L"
    and orm: "orm_Storage orm1 = Some st"
    and times: "time_laws A"
    and maps: "map_laws A"
begin

definition ast :: "'w host \<Rightarrow> api_state" where
  "ast h = (api_of A (db (hw_store h)), hw_ticks h)"

definition steps :: "'w host \<Rightarrow> rest_call \<Rightarrow> ('w host, rest_reply) go \<Rightarrow> bool" where
  "steps h c m \<longleftrightarrow> (\<exists>a h' answer. m h = (a, h') \<and> host_kept open_on h h' \<and> answered answer a \<and>
     api_step A (hw_clock h) c (ast h) answer (ast h'))"

lemma stepsI:
  assumes "m h = (a, h')" and "host_kept open_on h h'" and "answered answer a"
    and "api_step A (hw_clock h) c (ast h) answer (ast h')"
  shows "steps h c m"
  using assms by (auto simp: steps_def)

lemma moves_ast:
  "moves open_on db h h' D \<Longrightarrow> ast h' = (api_of A D, hw_ticks h)"
  "moves open_on db h h' D \<Longrightarrow> hw_clock h' = hw_clock h" "moves open_on db h h' D \<Longrightarrow> open_on (hw_store h')"
  "moves open_on db h h' D \<Longrightarrow> db (hw_store h') = D" "moves open_on db h h' D \<Longrightarrow> hw_ticks h' = hw_ticks h"
  by (simp_all add: moves_def ast_def)

lemma row_fit:
  "open_on (hw_store h) \<Longrightarrow> mget (sch_Tables rest_schema) T = Some tbl \<Longrightarrow> db (hw_store h) T i = Some r \<Longrightarrow> row_fits tbl i r"
  using store_fits_row rows_fit by blast

text \<open>A lookup with its two errors: that of the storage, and that of a missing row.\<close>

lemma find_object:
  assumes w: "open_on (hw_store h)" and T: "mget (sch_Tables rest_schema) T = Some tbl"
  obtains (none) e h' where "look (db (hw_store h) T) i = None"
      and "\<And>f. seq (wrapping m (on_store (orm_FindByID orm1 T i))) (\<lambda>obj. seq (found_object missing obj) f) h = (Error e, h')"
      and "i \<noteq> [] \<longrightarrow> e = Err missing" and "moves open_on db h h' (db (hw_store h))"
  | (some) r obj h' where "look (db (hw_store h) T) i = Some r" and "row_object tbl i r obj" and "row_fits tbl i r"
      and "\<And>f. seq (wrapping m (on_store (orm_FindByID orm1 T i))) (\<lambda>obj. seq (found_object missing obj) f) h = f obj h'"
      and "moves open_on db h h' (db (hw_store h))"
proof -
  obtain a h' where f: "on_store (orm_FindByID orm1 T i) h = (a, h')"
    and h': "moves open_on db h h' (db (hw_store h))"
    and empty: "i = [] \<longrightarrow> (\<exists>e. a = Error e)"
    and no: "i \<noteq> [] \<and> db (hw_store h) T i = None \<longrightarrow> a = Ok None"
    and yes: "\<forall>r. i \<noteq> [] \<and> db (hw_store h) T i = Some r \<longrightarrow> (\<exists>o1. a = Ok (Some o1) \<and> row_object tbl i r o1)"
    by (rule host_look [OF orm w T])
  show thesis
  proof (cases "look (db (hw_store h) T) i")
    case None
    show thesis
    proof (cases "i = []")
      case True
      with empty obtain e where a: "a = Error e" by blast
      show thesis by (rule none [OF None _ _ h', of "Wrap m e"]) (use f True in \<open>simp_all add: a seq_def wrapping_def\<close>)
    next
      case False
      with None no have a: "a = Ok None" by (simp add: look_def)
      show thesis
        by (rule none [OF None _ _ h', of "Err missing"]) (use f in \<open>simp_all add: a seq_def wrapping_def found_object_def fail_def\<close>)
    qed
  next
    case (Some r)
    then have i: "i \<noteq> []" "db (hw_store h) T i = Some r" by (auto simp: look_def split: if_splits)
    with yes obtain obj where a: "a = Ok (Some obj)" and obj: "row_object tbl i r obj" by blast
    show thesis
      by (rule some [OF Some obj row_fit [OF w T i(2)] _ h'])
        (use f in \<open>simp add: a seq_def wrapping_def found_object_def ret_def\<close>)
  qed
qed

lemma look_rows:
  "look (api_users (api_of A D)) i = map_option (user_of_row A i) (look (D ''users'') i)"
  "look (api_posts (api_of A D)) i = map_option (post_of_row A i) (look (D ''posts'') i)"
  by (simp_all add: look_def api_lookup)

lemma missing_answer: "i \<noteq> [] \<longrightarrow> e = Err m \<Longrightarrow> answered (no_row m i) (Error e)"
  by (simp add: no_row_def)

lemma reply_run: "m h = (a, h') \<Longrightarrow> reply_with f m h = (rbind a (\<lambda>x. Ok (f x)), h')"
  by (cases a) (simp_all add: reply_with_def seq_def ret_def)

lemma absent_row: "D T i = None \<Longrightarrow> D(T := (D T)(i := None)) = D"
  by (metis fun_upd_triv)

lemma steps_missing:
  assumes "rest_serve A orm1 c = reply_with f g" and "g h = (Error e, h')" and "i \<noteq> [] \<longrightarrow> e = Err m"
    and "moves open_on db h h' (db (hw_store h))" and "api_step A (hw_clock h) c (ast h) (no_row m i) (ast h)"
  shows "steps h c (rest_serve A orm1 c)"
  by (rule stepsI [OF _ moves_kept [OF assms(4)] missing_answer [OF assms(3)]])
    (use assms reply_run [of g h "Error e" h' f] in \<open>simp_all add: moves_ast(1) [OF assms(4)], simp add: ast_def\<close>)

lemma steps_replied:
  assumes "rest_serve A orm1 c = reply_with f g" and "g h = (Ok x, h')" and "host_kept open_on h h'"
    and "api_step A (hw_clock h) c (ast h) (Replied (f x)) (ast h')"
  shows "steps h c (rest_serve A orm1 c)"
  by (rule stepsI [OF _ assms(3) _ assms(4)]) (use assms reply_run [of g h "Ok x" h' f] in simp_all)

lemma get_user:
  assumes w: "open_on (hw_store h)"
  shows "steps h (GetUsersId i) (rest_serve A orm1 (GetUsersId i))"
proof (rule find_object [OF w rest_tables(1), of i "''failed to find user: ''" "''user not found''"])
  fix e h'
  assume none: "look (db (hw_store h) ''users'') i = None" "i \<noteq> [] \<longrightarrow> e = Err ''user not found''"
    and run: "\<And>f. seq (wrapping ''failed to find user: '' (on_store (orm_FindByID orm1 ''users'' i)))
      (\<lambda>obj. seq (found_object ''user not found'' obj) f) h = (Error e :: rest_User result, h')"
    and h': "moves open_on db h h' (db (hw_store h))"
  show ?thesis
    by (rule steps_missing [OF rest_serve.simps(2) _ none(2) h']) (simp add: GetUser_def run, simp add: ast_def user_missing look_rows none(1))
next
  fix r obj h'
  assume some: "look (db (hw_store h) ''users'') i = Some r" and obj: "row_object users_of_rest i r obj" "row_fits users_of_rest i r"
    and run: "\<And>f. seq (wrapping ''failed to find user: '' (on_store (orm_FindByID orm1 ''users'' i)))
      (\<lambda>obj. seq (found_object ''user not found'' obj) f) h = (f obj h' :: rest_User result \<times> 'w host)"
    and h': "moves open_on db h h' (db (hw_store h))"
  show ?thesis
    by (rule steps_replied [OF rest_serve.simps(2) _ moves_kept [OF h']])
      (simp add: GetUser_def run pure_def read_user [OF obj],
        simp add: moves_ast(1) [OF h'], simp add: ast_def user_shown look_rows some)
qed

lemma get_post:
  assumes w: "open_on (hw_store h)"
  shows "steps h (GetPostsId i) (rest_serve A orm1 (GetPostsId i))"
proof (rule find_object [OF w rest_tables(2), of i "''failed to find post: ''" "''post not found''"])
  fix e h'
  assume none: "look (db (hw_store h) ''posts'') i = None" "i \<noteq> [] \<longrightarrow> e = Err ''post not found''"
    and run: "\<And>f. seq (wrapping ''failed to find post: '' (on_store (orm_FindByID orm1 ''posts'' i)))
      (\<lambda>obj. seq (found_object ''post not found'' obj) f) h = (Error e :: rest_Post result, h')"
    and h': "moves open_on db h h' (db (hw_store h))"
  show ?thesis
    by (rule steps_missing [OF rest_serve.simps(7) _ none(2) h']) (simp add: GetPost_def run, simp add: ast_def post_missing look_rows none(1))
next
  fix r obj h'
  assume some: "look (db (hw_store h) ''posts'') i = Some r" and obj: "row_object posts_of_rest i r obj" "row_fits posts_of_rest i r"
    and run: "\<And>f. seq (wrapping ''failed to find post: '' (on_store (orm_FindByID orm1 ''posts'' i)))
      (\<lambda>obj. seq (found_object ''post not found'' obj) f) h = (f obj h' :: rest_Post result \<times> 'w host)"
    and h': "moves open_on db h h' (db (hw_store h))"
  show ?thesis
    by (rule steps_replied [OF rest_serve.simps(7) _ moves_kept [OF h']])
      (simp add: GetPost_def run pure_def read_post [OF obj],
        simp add: moves_ast(1) [OF h'], simp add: ast_def post_shown look_rows some)
qed

lemma get_user_by_email:
  assumes w: "open_on (hw_store h)"
  shows "steps h (GetUsers x) (rest_serve A orm1 (GetUsers x))"
proof -
  obtain a h' where f: "on_store (orm_FindByKey orm1 ''users'' ''email'' x) h = (a, h')"
    and h': "moves open_on db h h' (db (hw_store h))" and empty: "x = [] \<longrightarrow> (\<exists>e. a = Error e)"
    and other: "x \<noteq> [] \<longrightarrow> (\<exists>res. a = Ok res \<and> found users_of_rest (db (hw_store h) ''users'') ''email'' x res)"
    by (rule host_look_key [OF orm w rest_tables(1) rest_key])
  have missing: ?thesis if key: "keyed (api_users (api_of A (db (hw_store h)))) ru_Email x None"
    and run: "GetUserByEmail A orm1 x h = (Error e, h')" and e: "x \<noteq> [] \<longrightarrow> e = Err ''user not found''" for e
    by (rule steps_missing [OF rest_serve.simps(3) run e h']) (use key in \<open>simp add: ast_def user_not_found\<close>)
  show ?thesis
  proof (cases "x = []")
    case True
    with empty obtain e where "a = Error e" by blast
    with f True show ?thesis
      by (intro missing [of "Wrap ''failed to find user: '' e"]) (simp_all add: keyed_def GetUserByEmail_def seq_def wrapping_def)
  next
    case False
    with other obtain res where a: "a = Ok res" and res: "found users_of_rest (db (hw_store h) ''users'') ''email'' x res" by blast
    show ?thesis
    proof (cases res)
      case None
      have "keyed (api_users (api_of A (db (hw_store h)))) ru_Email x None"
      proof -
        have "text_of (r ''email'') \<noteq> x" if "db (hw_store h) ''users'' i = Some r" for i r
          using res None that rest_user_texts(1) [OF row_fit [OF w rest_tables(1) that]] by (simp add: found_def) metis
        then show ?thesis by (auto simp: keyed_def api_lookup user_of_row_def) blast
      qed
      with f a None show ?thesis
        by (intro missing [of "Err ''user not found''"])
          (simp_all add: GetUserByEmail_def seq_def wrapping_def found_object_def fail_def)
    next
      case (Some obj)
      with res obtain i r where r: "db (hw_store h) ''users'' i = Some r" "r ''email'' = VStr x" "row_object users_of_rest i r obj"
        by (auto simp: found_def)
      have key: "keyed (api_users (api_of A (db (hw_store h)))) ru_Email x (Some (user_of_row A i r))"
        using False r(1,2) by (auto simp: keyed_def api_lookup user_of_row_def)
      have run: "GetUserByEmail A orm1 x h = (Ok (user_of_row A i r), h')"
        using f a Some read_user [OF r(3) row_fit [OF w rest_tables(1) r(1)], of A]
        by (simp add: GetUserByEmail_def seq_def wrapping_def found_object_def ret_def pure_def)
      show ?thesis
        by (rule steps_replied [OF rest_serve.simps(3) run moves_kept [OF h']])
          (simp add: moves_ast(1) [OF h'], use key in \<open>simp add: ast_def user_found\<close>)
    qed
  qed
qed

lemma delete_user:
  assumes w: "open_on (hw_store h)"
  shows "steps h (DeleteUsersId i) (rest_serve A orm1 (DeleteUsersId i))"
proof -
  obtain h' where f: "on_store (orm_DeleteByID orm1 ''users'' i) h = (Ok (db (hw_store h) ''users'' i \<noteq> None), h')"
    and h': "moves open_on db h h' ((db (hw_store h))(''users'' := (db (hw_store h) ''users'')(i := None)))"
    by (rule host_delete [OF orm w rest_tables(1)])
  show ?thesis
  proof (cases "db (hw_store h) ''users'' i")
    case None
    with h' have h': "moves open_on db h h' (db (hw_store h))" by (simp add: absent_row)
    have "rest_serve A orm1 (DeleteUsersId i) h = (Error (Err ''user not found''), h')"
      using f None by (simp add: DeleteUser_def reply_with_def seq_def wrapping_def fail_def)
    then show ?thesis
      by (rule stepsI [OF _ moves_kept [OF h'], where answer = "Missing ''user not found''"])
        (simp, simp add: moves_ast(1) [OF h'], simp add: ast_def user_not_deleted api_lookup None)
  next
    case (Some r)
    have "DeleteUser orm1 i h = (Ok ''User deleted successfully'', h')"
      using f Some by (simp add: DeleteUser_def seq_def wrapping_def ret_def)
    then show ?thesis
      by (rule steps_replied [OF rest_serve.simps(5) _ moves_kept [OF h']])
        (simp add: moves_ast(1) [OF h'] api_changes, simp add: ast_def user_deleted api_lookup Some)
  qed
qed

lemma delete_post:
  assumes w: "open_on (hw_store h)"
  shows "steps h (DeletePostsId i) (rest_serve A orm1 (DeletePostsId i))"
proof -
  obtain h' where f: "on_store (orm_DeleteByID orm1 ''posts'' i) h = (Ok (db (hw_store h) ''posts'' i \<noteq> None), h')"
    and h': "moves open_on db h h' ((db (hw_store h))(''posts'' := (db (hw_store h) ''posts'')(i := None)))"
    by (rule host_delete [OF orm w rest_tables(2)])
  show ?thesis
  proof (cases "db (hw_store h) ''posts'' i")
    case None
    with h' have h': "moves open_on db h h' (db (hw_store h))" by (simp add: absent_row)
    have "rest_serve A orm1 (DeletePostsId i) h = (Error (Err ''post not found''), h')"
      using f None by (simp add: DeletePost_def reply_with_def seq_def wrapping_def fail_def)
    then show ?thesis
      by (rule stepsI [OF _ moves_kept [OF h'], where answer = "Missing ''post not found''"])
        (simp, simp add: moves_ast(1) [OF h'], simp add: ast_def post_not_deleted api_lookup None)
  next
    case (Some r)
    have "DeletePost orm1 i h = (Ok ''Post deleted successfully'', h')"
      using f Some by (simp add: DeletePost_def seq_def wrapping_def ret_def)
    then show ?thesis
      by (rule steps_replied [OF rest_serve.simps(9) _ moves_kept [OF h']])
        (simp add: moves_ast(1) [OF h'] api_changes, simp add: ast_def post_deleted api_lookup Some)
  qed
qed

text \<open>New users and posts.\<close>

lemma insert_user:
  assumes w: "open_on (hw_store h)" and u: "ru_UpdatedAt u = None" "in_years (ru_CreatedAt u)"
  obtains data h' where "on_store (orm_Insert orm1 (rest_userToObject A u)) h = (Ok (data, True), h')"
    and "host_kept open_on h h'" and "ast h' = (put_account (saved_user u) (fst (ast h)), hw_ticks h)"
proof -
  have id: "obj_ID (rest_userToObject A u) = ru_ID u" by (simp add: rest_userToObject_def)
  note row = new_row_fits [OF whole_values(1) [OF texts(1) times u(2)], of "ru_ID u"]
  obtain data h' where ins: "on_store (orm_Insert orm1 (rest_userToObject A u)) h = (Ok (data, True), h')"
    and h': "moves open_on db h h' ((db (hw_store h))(''users'' := replace_row users_of_rest (obj_ID (rest_userToObject A u))
      (new_row (obj_ID (rest_userToObject A u)) (stored L users_of_rest (rest_userToObject A u))) (db (hw_store h) ''users'')))"
    by (rule host_insert [OF orm w rest_tables(1) new_insertable(1) [OF texts times u]])
  have "ast h' = (put_account (saved_user u) (fst (ast h)), hw_ticks h)"
    using moves_ast(1) [OF h'] users_put [of "db (hw_store h)", OF rows_fit [OF w rest_tables(1)] row, of A] new_rows_read(1) [OF texts(1) times maps u]
    by (simp add: id stored_values(1) [OF texts(1) u(1)] ast_def)
  with ins moves_kept [OF h'] that show thesis by blast
qed

lemma insert_post:
  assumes w: "open_on (hw_store h)" and p: "rp_UpdatedAt p = None" "in_years (rp_CreatedAt p)"
  obtains data h' where "on_store (orm_Insert orm1 (rest_postToObject A p)) h = (Ok (data, True), h')"
    and "host_kept open_on h h'"
    and "ast h' = ((fst (ast h))\<lparr>api_posts := (api_posts (fst (ast h)))(rp_ID p \<mapsto> saved_post p)\<rparr>, hw_ticks h)"
proof -
  have id: "obj_ID (rest_postToObject A p) = rp_ID p" by (simp add: rest_postToObject_def)
  obtain data h' where ins: "on_store (orm_Insert orm1 (rest_postToObject A p)) h = (Ok (data, True), h')"
    and h': "moves open_on db h h' ((db (hw_store h))(''posts'' := replace_row posts_of_rest (obj_ID (rest_postToObject A p))
      (new_row (obj_ID (rest_postToObject A p)) (stored L posts_of_rest (rest_postToObject A p))) (db (hw_store h) ''posts'')))"
    by (rule host_insert [OF orm w rest_tables(2) new_insertable(2) [OF texts times p]])
  have "ast h' = ((fst (ast h))\<lparr>api_posts := (api_posts (fst (ast h)))(rp_ID p \<mapsto> saved_post p)\<rparr>, hw_ticks h)"
    using moves_ast(1) [OF h'] new_rows_read(2) [OF texts(1) times maps p]
    by (simp add: id stored_values(2) [OF texts(1) p(1)] ast_def no_unique_simps [OF rest_unique] api_changes)
  with ins moves_kept [OF h'] that show thesis by blast
qed

lemma seq_rest_id:
  "seq (rest_generateID prefix) f h = f (rest_id prefix (hw_clock h (hw_ticks h))) (h\<lparr>hw_ticks := Suc (hw_ticks h)\<rparr>)"
  by (simp add: rest_generateID_def seq_def time_Now_def ret_def rest_id_def)

lemma create_user:
  assumes w: "open_on (hw_store h)" and ready: "\<forall>n. in_years (hw_clock h n)"
  shows "steps h (PostUsers input) (rest_serve A orm1 (PostUsers input))"
proof -
  let ?h1 = "h\<lparr>hw_ticks := Suc (Suc (hw_ticks h))\<rparr>"
  let ?u = "new_user input (rest_id ''user'' (hw_clock h (hw_ticks h))) (hw_clock h (Suc (hw_ticks h)))"
  obtain data h' where ins: "on_store (orm_Insert orm1 (rest_userToObject A ?u)) ?h1 = (Ok (data, True), h')"
    and h': "host_kept open_on ?h1 h'" and st: "ast h' = (put_account (saved_user ?u) (fst (ast ?h1)), hw_ticks ?h1)"
    by (rule insert_user [of ?h1 ?u]) (use w ready in \<open>simp_all add: new_user_def\<close>)
  have run: "CreateUser A orm1 input h = (Ok ?u, h')"
    using ins unfolding CreateUser_def seq_rest_id seq_now Let_def new_user_def
    by (simp add: seq_def wrapping_def ret_def)
  have kept: "host_kept open_on h h'" using h' by (simp add: host_kept_def)
  show ?thesis
    by (rule steps_replied [OF rest_serve.simps(1) run kept])
      (simp add: st, simp add: ast_def user_created)
qed

lemma create_post:
  assumes w: "open_on (hw_store h)" and ready: "\<forall>n. in_years (hw_clock h n)"
  shows "steps h (PostPosts input) (rest_serve A orm1 (PostPosts input))"
proof (rule find_object [OF w rest_tables(1), of "cp_UserID input" "''failed to verify user: ''" "''user not found''"])
  fix e h'
  assume none: "look (db (hw_store h) ''users'') (cp_UserID input) = None" "cp_UserID input \<noteq> [] \<longrightarrow> e = Err ''user not found''"
    and run: "\<And>f. seq (wrapping ''failed to verify user: '' (on_store (orm_FindByID orm1 ''users'' (cp_UserID input))))
      (\<lambda>obj. seq (found_object ''user not found'' obj) f) h = (Error e :: rest_Post result, h')"
    and h': "moves open_on db h h' (db (hw_store h))"
  show ?thesis
    by (rule steps_missing [OF rest_serve.simps(6) _ none(2) h'])
      (simp add: CreatePost_def run, simp add: ast_def post_refused look_rows none(1))
next
  fix r obj h0
  assume some: "look (db (hw_store h) ''users'') (cp_UserID input) = Some r"
    and find: "\<And>f. seq (wrapping ''failed to verify user: '' (on_store (orm_FindByID orm1 ''users'' (cp_UserID input))))
      (\<lambda>obj. seq (found_object ''user not found'' obj) f) h = (f obj h0 :: rest_Post result \<times> 'w host)"
    and h0: "moves open_on db h h0 (db (hw_store h))"
  let ?h1 = "h0\<lparr>hw_ticks := Suc (Suc (hw_ticks h))\<rparr>"
  let ?p = "new_post input (rest_id ''post'' (hw_clock h (hw_ticks h))) (hw_clock h (Suc (hw_ticks h)))"
  have p: "rp_UpdatedAt ?p = None" "in_years (rp_CreatedAt ?p)" using ready by (simp_all add: new_post_def)
  have eqs: "hw_clock h0 = hw_clock h" "hw_ticks h0 = hw_ticks h" "open_on (hw_store h0)" "ast ?h1 = (fst (ast h), Suc (Suc (hw_ticks h)))"
    "hw_random h0 = hw_random h"
    using h0 by (simp_all add: moves_def ast_def)
  have w1: "open_on (hw_store ?h1)" using eqs by simp
  obtain data h' where ins: "on_store (orm_Insert orm1 (rest_postToObject A ?p)) ?h1 = (Ok (data, True), h')"
    and h': "host_kept open_on ?h1 h'"
    and st: "ast h' = ((fst (ast ?h1))\<lparr>api_posts := (api_posts (fst (ast ?h1)))(rp_ID ?p \<mapsto> saved_post ?p)\<rparr>, hw_ticks ?h1)"
    by (rule insert_post [OF w1 p])
  have pub: "(case cp_Published input of None \<Rightarrow> False | Some b \<Rightarrow> b) = (cp_Published input = Some True)"
    by (simp split: option.splits)
  have run: "CreatePost A orm1 input h = (Ok ?p, h')"
    using ins unfolding CreatePost_def find seq_rest_id seq_now Let_def new_post_def pub
    by (simp add: seq_def wrapping_def ret_def eqs)
  have kept: "host_kept open_on h h'" using h' eqs by (simp add: host_kept_def)
  show ?thesis
    by (rule steps_replied [OF rest_serve.simps(6) run kept])
      (simp add: st eqs, simp add: ast_def, rule post_created, simp add: look_rows some, simp)
qed

end

context rest_store
begin

text \<open>Updates.\<close>

lemma set_user_fields:
  assumes obj: "row_object users_of_rest i r obj"
  obtains o1 o2 o3 o4 where "set_given obj ''email'' (map_option VStr (uu_Email input)) = Ok o1"
    and "set_given o1 ''name'' (map_option VStr (uu_Name input)) = Ok o2"
    and "set_json A o2 ''profile'' (uu_Profile input) = Ok o3" and "SetField o3 ''updated_at'' (VStr (app_rfc3339 A t)) = Ok o4"
    and "row_object users_of_rest i (updated_user A input t r) o4"
proof -
  have order: "n \<in> {''email'', ''name'', ''profile'', ''updated_at''} \<Longrightarrow> n \<in> set (tab_FieldOrder users_of_rest)" for n
    by (auto simp: rest_order)
  obtain o1 where o1: "set_given obj ''email'' (map_option VStr (uu_Email input)) = Ok o1"
    "row_object users_of_rest i (given ''email'' (map_option VStr (uu_Email input)) r) o1"
    by (rule set_given_row [OF obj order, of "''email''"]) simp_all
  obtain o2 where o2: "set_given o1 ''name'' (map_option VStr (uu_Name input)) = Ok o2"
    "row_object users_of_rest i (given ''name'' (map_option VStr (uu_Name input))
      (given ''email'' (map_option VStr (uu_Email input)) r)) o2"
    by (rule set_given_row [OF o1(2) order, of "''name''"]) simp_all
  obtain o3 where o3: "set_json A o2 ''profile'' (uu_Profile input) = Ok o3"
    "row_object users_of_rest i (given ''profile'' (json_given A (uu_Profile input))
      (given ''name'' (map_option VStr (uu_Name input)) (given ''email'' (map_option VStr (uu_Email input)) r))) o3"
    unfolding set_json_given by (rule set_given_row [OF o2(2) order, of "''profile''"]) simp_all
  obtain o4 where o4: "SetField o3 ''updated_at'' (VStr (app_rfc3339 A t)) = Ok o4"
    "row_object users_of_rest i (updated_user A input t r) o4"
    unfolding updated_user_def by (rule SetField_row_object [OF o3(2) order, of "''updated_at''"]) simp_all
  from that [OF o1(1) o2(1) o3(1) o4] show thesis .
qed

lemma set_post_fields:
  assumes obj: "row_object posts_of_rest i r obj"
  obtains o1 o2 o3 o4 o5 where "set_given obj ''title'' (map_option VStr (up_Title input)) = Ok o1"
    and "set_given o1 ''content'' (map_option VStr (up_Content input)) = Ok o2"
    and "set_json A o2 ''metadata'' (up_Metadata input) = Ok o3"
    and "set_given o3 ''published'' (map_option VBool (up_Published input)) = Ok o4"
    and "SetField o4 ''updated_at'' (VStr (app_rfc3339 A t)) = Ok o5"
    and "row_object posts_of_rest i (updated_post A input t r) o5"
proof -
  have order: "n \<in> {''title'', ''content'', ''metadata'', ''published'', ''updated_at''} \<Longrightarrow> n \<in> set (tab_FieldOrder posts_of_rest)" for n
    by (auto simp: rest_order)
  obtain o1 where o1: "set_given obj ''title'' (map_option VStr (up_Title input)) = Ok o1"
    "row_object posts_of_rest i (given ''title'' (map_option VStr (up_Title input)) r) o1"
    by (rule set_given_row [OF obj order, of "''title''"]) simp_all
  obtain o2 where o2: "set_given o1 ''content'' (map_option VStr (up_Content input)) = Ok o2"
    "row_object posts_of_rest i (given ''content'' (map_option VStr (up_Content input))
      (given ''title'' (map_option VStr (up_Title input)) r)) o2"
    by (rule set_given_row [OF o1(2) order, of "''content''"]) simp_all
  obtain o3 where o3: "set_json A o2 ''metadata'' (up_Metadata input) = Ok o3"
    "row_object posts_of_rest i (given ''metadata'' (json_given A (up_Metadata input))
      (given ''content'' (map_option VStr (up_Content input)) (given ''title'' (map_option VStr (up_Title input)) r))) o3"
    unfolding set_json_given by (rule set_given_row [OF o2(2) order, of "''metadata''"]) simp_all
  obtain o4 where o4: "set_given o3 ''published'' (map_option VBool (up_Published input)) = Ok o4"
    "row_object posts_of_rest i (given ''published'' (map_option VBool (up_Published input))
      (given ''metadata'' (json_given A (up_Metadata input)) (given ''content'' (map_option VStr (up_Content input))
        (given ''title'' (map_option VStr (up_Title input)) r)))) o4"
    by (rule set_given_row [OF o3(2) order, of "''published''"]) simp_all
  obtain o5 where o5: "SetField o4 ''updated_at'' (VStr (app_rfc3339 A t)) = Ok o5"
    "row_object posts_of_rest i (updated_post A input t r) o5"
    unfolding updated_post_def by (rule SetField_row_object [OF o4(2) order, of "''updated_at''"]) simp_all
  from that [OF o1(1) o2(1) o3(1) o4(1) o5] show thesis .
qed

lemma update_user:
  assumes w: "open_on (hw_store h)" and ready: "\<forall>n. in_years (hw_clock h n)"
  shows "steps h (PutUsersId input) (rest_serve A orm1 (PutUsersId input))"
proof (rule find_object [OF w rest_tables(1), of "uu_UserID input" "''failed to find user: ''" "''user not found''"])
  fix e h'
  assume none: "look (db (hw_store h) ''users'') (uu_UserID input) = None" "uu_UserID input \<noteq> [] \<longrightarrow> e = Err ''user not found''"
    and run: "\<And>f. seq (wrapping ''failed to find user: '' (on_store (orm_FindByID orm1 ''users'' (uu_UserID input))))
      (\<lambda>obj. seq (found_object ''user not found'' obj) f) h = (Error e :: rest_User result, h')"
    and h': "moves open_on db h h' (db (hw_store h))"
  show ?thesis
    by (rule steps_missing [OF rest_serve.simps(4) _ none(2) h'])
      (simp add: UpdateUser_def run, simp add: ast_def user_unchanged look_rows none(1))
next
  fix r obj h0
  let ?i = "uu_UserID input" and ?t = "hw_clock h (hw_ticks h)"
  assume some: "look (db (hw_store h) ''users'') ?i = Some r" and obj: "row_object users_of_rest ?i r obj" "row_fits users_of_rest ?i r"
    and find: "\<And>f. seq (wrapping ''failed to find user: '' (on_store (orm_FindByID orm1 ''users'' ?i)))
      (\<lambda>obj. seq (found_object ''user not found'' obj) f) h = (f obj h0 :: rest_User result \<times> 'w host)"
    and h0: "moves open_on db h h0 (db (hw_store h))"
  let ?h1 = "h0\<lparr>hw_ticks := Suc (hw_ticks h)\<rparr>" and ?r = "updated_user A input ?t r"
  have eqs: "hw_clock h0 = hw_clock h" "hw_ticks h0 = hw_ticks h" "db (hw_store h0) = db (hw_store h)" "open_on (hw_store h0)"
    "hw_random h0 = hw_random h"
    using h0 by (simp_all add: moves_def)
  obtain o1 o2 o3 o4 where o: "set_given obj ''email'' (map_option VStr (uu_Email input)) = Ok o1"
    "set_given o1 ''name'' (map_option VStr (uu_Name input)) = Ok o2" "set_json A o2 ''profile'' (uu_Profile input) = Ok o3"
    "SetField o3 ''updated_at'' (VStr (app_rfc3339 A ?t)) = Ok o4" and o4: "row_object users_of_rest ?i ?r o4"
    by (rule set_user_fields [OF obj(1)])
  have years: "in_years ?t" using ready by simp
  have r: "row_fits users_of_rest ?i ?r" by (rule updated_fits(1) [OF times maps years obj(2)])
  have row: "db (hw_store ?h1) ''users'' ?i = Some r" using some eqs by (auto simp: look_def split: if_splits)
  obtain a h' where upd: "on_store (storage_Update orm1 o4) ?h1 = (a, h')"
    and taken: "taken users_of_rest ?i ?r (db (hw_store ?h1) ''users'') \<Longrightarrow> (\<exists>e. a = Error e) \<and> moves open_on db ?h1 h' (db (hw_store ?h1))"
    and free: "\<not> taken users_of_rest ?i ?r (db (hw_store ?h1) ''users'') \<Longrightarrow> a = Ok True \<and>
      moves open_on db ?h1 h' ((db (hw_store ?h1))(''users'' := (db (hw_store ?h1) ''users'')(?i \<mapsto> ?r)))"
    by (rule host_update_back [OF orm _ rest_tables(1) row o4 r, of "''name''"])
      (use eqs in \<open>simp_all add: rest_order updated_rest(1) [unfolded rest_order]\<close>)
  let ?u = "user_of_row A ?i r"
  have u: "user_of_row A ?i ?r = changed_user A input ?t ?u" by (rule updated_read(1) [OF times years])
  have is_taken: "taken users_of_rest ?i ?r (db (hw_store ?h1) ''users'') \<longleftrightarrow>
      email_taken (api_of A (db (hw_store h))) ?i (ru_Email (changed_user A input ?t ?u))"
    using users_taken [of "db (hw_store h)", OF rows_fit [OF w rest_tables(1)] r, of A] eqs u by simp
  have run: "UpdateUser A orm1 input h = seq (wrapping ''failed to update user: '' (\<lambda>h. (a, h'))) (\<lambda>_. pure (rest_objectToUser A o4)) ?h1"
    using upd unfolding UpdateUser_def find by (simp add: seq_now eqs o) (simp add: seq_def wrapping_def)
  show ?thesis
  proof (cases "taken users_of_rest ?i ?r (db (hw_store ?h1) ''users'')")
    case True
    from taken [OF this] obtain e where a: "a = Error e" and h': "moves open_on db ?h1 h' (db (hw_store ?h1))" by blast
    have run: "rest_serve A orm1 (PutUsersId input) h = (Error (Wrap ''failed to update user: '' e), h')"
      using run by (simp add: a reply_with_def seq_def wrapping_def)
    show ?thesis
    proof (rule stepsI [where m = "rest_serve A orm1 (PutUsersId input)", OF run, where answer = Refused])
      show "host_kept open_on h h'" using h' eqs by (simp add: moves_def host_kept_def)
      show "api_step A (hw_clock h) (PutUsersId input) (ast h) Refused (ast h')"
        using moves_ast(1) [OF h'] user_refused [OF refl, of "api_of A (db (hw_store h))" input ?u A "hw_clock h" "hw_ticks h"]
          True [unfolded is_taken] by (simp add: eqs) (simp add: ast_def look_rows some)
    qed simp
  next
    case False
    from free [OF this] have a: "a = Ok True"
      and h': "moves open_on db ?h1 h' ((db (hw_store ?h1))(''users'' := (db (hw_store ?h1) ''users'')(?i \<mapsto> ?r)))" by simp_all
    have run: "UpdateUser A orm1 input h = (Ok (changed_user A input ?t ?u), h')"
      unfolding run by (simp add: a seq_def wrapping_def pure_def read_user [OF o4 r] u)
    have kept: "host_kept open_on h h'" using h' eqs by (simp add: moves_def host_kept_def)
    have free: "\<not> email_taken (api_of A (db (hw_store h))) ?i (ru_Email (changed_user A input ?t ?u))"
      using False unfolding is_taken .
    have st: "ast h' = ((api_of A (db (hw_store h)))\<lparr>api_users := (api_users (api_of A (db (hw_store h))))
        (?i \<mapsto> changed_user A input ?t ?u)\<rparr>, Suc (hw_ticks h))"
      using moves_ast(1) [OF h'] by (simp add: eqs api_changes u)
    show ?thesis
      by (rule steps_replied [OF rest_serve.simps(4) run kept])
        (simp add: st, simp add: ast_def, rule user_changed [OF refl _ refl], simp add: look_rows some, rule free)
  qed
qed

lemma update_post:
  assumes w: "open_on (hw_store h)" and ready: "\<forall>n. in_years (hw_clock h n)"
  shows "steps h (PutPostsId input) (rest_serve A orm1 (PutPostsId input))"
proof (rule find_object [OF w rest_tables(2), of "up_PostID input" "''failed to find post: ''" "''post not found''"])
  fix e h'
  assume none: "look (db (hw_store h) ''posts'') (up_PostID input) = None" "up_PostID input \<noteq> [] \<longrightarrow> e = Err ''post not found''"
    and run: "\<And>f. seq (wrapping ''failed to find post: '' (on_store (orm_FindByID orm1 ''posts'' (up_PostID input))))
      (\<lambda>obj. seq (found_object ''post not found'' obj) f) h = (Error e :: rest_Post result, h')"
    and h': "moves open_on db h h' (db (hw_store h))"
  show ?thesis
    by (rule steps_missing [OF rest_serve.simps(8) _ none(2) h'])
      (simp add: UpdatePost_def run, simp add: ast_def post_unchanged look_rows none(1))
next
  fix r obj h0
  let ?i = "up_PostID input" and ?t = "hw_clock h (hw_ticks h)"
  assume some: "look (db (hw_store h) ''posts'') ?i = Some r" and obj: "row_object posts_of_rest ?i r obj" "row_fits posts_of_rest ?i r"
    and find: "\<And>f. seq (wrapping ''failed to find post: '' (on_store (orm_FindByID orm1 ''posts'' ?i)))
      (\<lambda>obj. seq (found_object ''post not found'' obj) f) h = (f obj h0 :: rest_Post result \<times> 'w host)"
    and h0: "moves open_on db h h0 (db (hw_store h))"
  let ?h1 = "h0\<lparr>hw_ticks := Suc (hw_ticks h)\<rparr>" and ?r = "updated_post A input ?t r"
  have eqs: "hw_clock h0 = hw_clock h" "hw_ticks h0 = hw_ticks h" "db (hw_store h0) = db (hw_store h)" "open_on (hw_store h0)"
    "hw_random h0 = hw_random h"
    using h0 by (simp_all add: moves_def)
  obtain o1 o2 o3 o4 o5 where o: "set_given obj ''title'' (map_option VStr (up_Title input)) = Ok o1"
    "set_given o1 ''content'' (map_option VStr (up_Content input)) = Ok o2" "set_json A o2 ''metadata'' (up_Metadata input) = Ok o3"
    "set_given o3 ''published'' (map_option VBool (up_Published input)) = Ok o4"
    "SetField o4 ''updated_at'' (VStr (app_rfc3339 A ?t)) = Ok o5" and o5: "row_object posts_of_rest ?i ?r o5"
    by (rule set_post_fields [OF obj(1)])
  have years: "in_years ?t" using ready by simp
  have r: "row_fits posts_of_rest ?i ?r" by (rule updated_fits(2) [OF times maps years obj(2)])
  have row: "db (hw_store ?h1) ''posts'' ?i = Some r" using some eqs by (auto simp: look_def split: if_splits)
  obtain h' where upd: "on_store (storage_Update orm1 o5) ?h1 = (Ok True, h')"
    and h': "moves open_on db ?h1 h' ((db (hw_store ?h1))(''posts'' := (db (hw_store ?h1) ''posts'')(?i \<mapsto> ?r)))"
    by (rule host_update_row [OF orm _ rest_tables(2) row rest_unique o5 r, of "''title''"])
      (use eqs in \<open>simp_all add: rest_order updated_rest(2) [unfolded rest_order]\<close>)
  let ?p = "post_of_row A ?i r"
  have p: "post_of_row A ?i ?r = changed_post A input ?t ?p" by (rule updated_read(2) [OF times years])
  have run: "UpdatePost A orm1 input h = (Ok (changed_post A input ?t ?p), h')"
    using upd unfolding UpdatePost_def find
    by (simp add: seq_now eqs o) (simp add: seq_def wrapping_def pure_def read_post [OF o5 r] p)
  have kept: "host_kept open_on h h'" using h' eqs by (simp add: moves_def host_kept_def)
  have st: "ast h' = ((api_of A (db (hw_store h)))\<lparr>api_posts := (api_posts (api_of A (db (hw_store h))))
      (?i \<mapsto> changed_post A input ?t ?p)\<rparr>, Suc (hw_ticks h))"
    using moves_ast(1) [OF h'] by (simp add: eqs api_changes p)
  show ?thesis
    by (rule steps_replied [OF rest_serve.simps(8) run kept])
      (simp add: st, simp add: ast_def, rule post_changed [OF refl _ refl], simp add: look_rows some)
qed

lemma serve_call:
  assumes "open_on (hw_store h)" and "\<forall>n. in_years (hw_clock h n)"
  shows "steps h c (rest_serve A orm1 c)"
  by (cases c) (simp_all only: create_user [OF assms] get_user [OF assms(1)] get_user_by_email [OF assms(1)]
    update_user [OF assms] delete_user [OF assms(1)] create_post [OF assms] get_post [OF assms(1)] update_post [OF assms]
    delete_post [OF assms(1)])

end

section \<open>Sequences of calls\<close>

text \<open>A call that fails is answered, and the next one is served.\<close>

fun rest_run :: "applib \<Rightarrow> 'w ORM \<Rightarrow> rest_call list \<Rightarrow> 'w host \<Rightarrow> rest_reply result list \<times> 'w host" where
  "rest_run A orm1 [] h = ([], h)"
| "rest_run A orm1 (c # cs) h = (case rest_serve A orm1 c h of (a, h1) \<Rightarrow>
     (case rest_run A orm1 cs h1 of (as, h2) \<Rightarrow> (a # as, h2)))"

inductive api_steps :: "applib \<Rightarrow> (nat \<Rightarrow> int) \<Rightarrow> rest_call list \<Rightarrow> api_state \<Rightarrow> rest_answer list \<Rightarrow> api_state \<Rightarrow> bool"
  for A now where
  api_nil: "api_steps A now [] st [] st"
| api_cons: "api_step A now c st answer st1 \<Longrightarrow> api_steps A now cs st1 answers st' \<Longrightarrow>
    api_steps A now (c # cs) st (answer # answers) st'"

lemma api_steps_invariant:
  assumes steps: "api_steps A now cs st answers st'"
    and inv: "\<And>c st answer st'. api_step A now c st answer st' \<Longrightarrow> Q st \<Longrightarrow> Q st'"
  shows "Q st \<Longrightarrow> Q st'"
  using steps by induction (auto dest: inv)

text \<open>No two users have the same address.\<close>

definition distinct_emails :: "api \<Rightarrow> bool" where
  "distinct_emails s \<longleftrightarrow> (\<forall>i j u v. api_users s i = Some u \<longrightarrow> api_users s j = Some v \<longrightarrow> ru_Email u = ru_Email v \<longrightarrow> i = j)"

lemma distinct_put: "distinct_emails s \<Longrightarrow> distinct_emails (put_account u s)"
  by (auto simp: distinct_emails_def put_account_def split: if_splits option.splits)

lemma distinct_upd:
  assumes "distinct_emails s" and "\<not> email_taken s i (ru_Email u)"
  shows "distinct_emails (s\<lparr>api_users := (api_users s)(i \<mapsto> u)\<rparr>)"
  using assms unfolding distinct_emails_def email_taken_def by auto

lemma distinct_del: "distinct_emails s \<Longrightarrow> distinct_emails (s\<lparr>api_users := (api_users s)(i := None)\<rparr>)"
  by (auto simp: distinct_emails_def)

lemma distinct_posts: "distinct_emails (s\<lparr>api_posts := p\<rparr>) \<longleftrightarrow> distinct_emails s"
  by (simp add: distinct_emails_def)

lemma api_step_distinct: "api_step A now c st answer st' \<Longrightarrow> distinct_emails (fst st) \<Longrightarrow> distinct_emails (fst st')"
  by (erule api_step.cases) (simp_all add: distinct_put distinct_upd distinct_del distinct_posts)

context rest_store
begin

lemma run_calls:
  assumes "open_on (hw_store h)" and "\<forall>n. in_years (hw_clock h n)"
  shows "\<exists>as h' answers. rest_run A orm1 cs h = (as, h') \<and> host_kept open_on h h' \<and> list_all2 answered answers as \<and>
    api_steps A (hw_clock h) cs (ast h) answers (ast h')"
  using assms
proof (induction cs arbitrary: h)
  case Nil
  then show ?case using same_refl api_nil by fastforce
next
  case (Cons c cs)
  from serve_call [OF Cons.prems, of c] obtain a h1 answer where h1: "rest_serve A orm1 c h = (a, h1)" "host_kept open_on h h1"
      "answered answer a" "api_step A (hw_clock h) c (ast h) answer (ast h1)"
    unfolding steps_def by blast
  have eqs: "open_on (hw_store h1)" "hw_clock h1 = hw_clock h" using h1(2) by (simp_all add: host_kept_def)
  with Cons.IH [of h1] Cons.prems(2) obtain as h2 answers where h2: "rest_run A orm1 cs h1 = (as, h2)" "host_kept open_on h1 h2"
      "list_all2 answered answers as" "api_steps A (hw_clock h) cs (ast h1) answers (ast h2)"
    by auto
  have "rest_run A orm1 (c # cs) h = (a # as, h2)" using h1(1) h2(1) by simp
  then show ?case using same_trans [OF h1(2) h2(2)] h1(3) h2(3) api_cons [OF h1(4) h2(4)] by blast
qed

end

end
