(* ===== verification/RestProps.thy ===== *)
theory RestProps
  imports RestRun Samples
begin

text \<open>
  The REST example over the SQLite adapter: every call is answered as the abstract service does; addresses
  stay distinct and find their user; what happens to a profile; and the user that a creation removes. The
  witnesses run on the in-memory engine.
\<close>

section \<open>Over SQLite\<close>

definition rest_serving :: "('d, 'e) env_scheme \<Rightarrow> ('d \<Rightarrow> database) \<Rightarrow> applib \<Rightarrow> 'd adst ORM \<Rightarrow> 'd adst host \<Rightarrow> bool" where
  "rest_serving E rows A orm1 h \<longleftrightarrow> (\<exists>S. createExampleSchema = Ok S \<and> sqlite_serves E rows S \<and> serving S rows (hw_store h)) \<and>
     json_texts E \<and> plain_objects E \<and> orm_Storage orm1 = Some (sqlite_storage E) \<and> time_laws A \<and> map_laws A \<and>
     (\<forall>n. in_years (hw_clock h n))"

definition rest_state :: "('d \<Rightarrow> database) \<Rightarrow> applib \<Rightarrow> 'd adst host \<Rightarrow> api_state" where
  "rest_state rows A h = (api_of A (rows (drv (hw_store h))), hw_ticks h)"

lemma rest_sqlite:
  assumes "rest_serving E rows A orm1 h"
  shows "rest_store (sqlite_storage E) E (\<lambda>w. rows (drv w)) (serving rest_schema rows) A orm1"
    and "serving rest_schema rows (hw_store h)" and "\<forall>n. in_years (hw_clock h n)"
proof -
  from assms have "sqlite_serves E rows rest_schema" and open_on: "serving rest_schema rows (hw_store h)"
    and years: "\<forall>n. in_years (hw_clock h n)"
    by (auto simp: rest_serving_def rest_schema_built)
  with assms show "rest_store (sqlite_storage E) E (\<lambda>w. rows (drv w)) (serving rest_schema rows) A orm1"
    by (auto simp: rest_serving_def intro!: rest_store.intro rest_store_axioms.intro sqlite_record_store rest_schemas(1))
  show "serving rest_schema rows (hw_store h)" "\<forall>n. in_years (hw_clock h n)" by (fact open_on, fact years)
qed

lemma rest_serving_same:
  assumes "rest_serving E rows A orm1 h" and "host_kept (serving rest_schema rows) h h'"
  shows "rest_serving E rows A orm1 h'"
  using assms by (auto simp: host_kept_def rest_serving_def rest_schema_built)

lemma rest_state_ast:
  "rest_serving E rows A orm1 h \<Longrightarrow> rest_store.ast (\<lambda>w. rows (drv w)) A h' = rest_state rows A h'"
  using rest_store.ast_def [OF rest_sqlite(1)] by (simp add: rest_state_def)

lemma rest_runs:
  fixes h :: "'d adst host"
  assumes serving: "rest_serving E rows A orm1 h"
  obtains as h' answers where "rest_run A orm1 cs h = (as, h')" and "rest_serving E rows A orm1 h'"
    and "list_all2 answered answers as" and "api_steps A (hw_clock h) cs (rest_state rows A h) answers (rest_state rows A h')"
  using rest_store.run_calls [OF rest_sqlite [OF serving], of cs] rest_serving_same [OF serving]
  by (auto simp: rest_state_ast [OF serving])

inductive_simps no_calls: "api_steps A now [] st answers st'"

inductive_simps more_calls: "api_steps A now (c # cs) st answers st'"

inductive_simps post_users: "api_step A now (PostUsers input) (s, t) answer st'"

inductive_simps get_user_by_id: "api_step A now (GetUsersId i) (s, t) answer st'"

inductive_simps put_user_by_id: "api_step A now (PutUsersId input) (s, t) answer st'"

inductive_simps get_post_by_id: "api_step A now (GetPostsId i) (s, t) answer st'"

inductive_simps delete_post_by_id: "api_step A now (DeletePostsId i) (s, t) answer st'"

lemmas calls = no_calls more_calls post_users get_user_by_id put_user_by_id

inductive_cases get_usersE: "api_step A now (GetUsers x) st answer st'"

lemma look_put: "ru_ID u \<noteq> [] \<Longrightarrow> look (api_users (put_account u s)) (ru_ID u) = Some u"
  by (simp add: look_def put_account_def)

lemma put_not_taken: "\<not> email_taken (put_account u s) (ru_ID u) (ru_Email u)"
  by (auto simp: email_taken_def put_account_def split: if_splits option.splits)

lemma rest_id_nonempty: "rest_id (c # p) t \<noteq> []"
  by (simp add: rest_id_def)

text \<open>C5: The REST example over SQLite, from the handlers down to the statements, is a service of users
  and posts: any sequence of its nine calls, with any inputs, is answered call by call as the
  abstract service does (replies, missing rows, refused changes), whose users and posts are those of
  the tables afterwards.\<close>

theorem rest_serves_api:
  fixes h :: "'d adst host"
  assumes serving: "rest_serving E rows A orm1 h"
  shows "\<exists>as h' answers. rest_run A orm1 cs h = (as, h') \<and> rest_serving E rows A orm1 h' \<and> list_all2 answered answers as \<and>
    api_steps A (hw_clock h) cs (rest_state rows A h) answers (rest_state rows A h')"
  using rest_runs [OF serving, of cs] by metis

text \<open>C10: No sequence of calls gives two users of the REST example the same address, and the lookup by
  the address of any user that is there then returns that user.\<close>

theorem rest_emails_find:
  fixes h :: "'d adst host"
  assumes serving: "rest_serving E rows A orm1 h" and distinct: "distinct_emails (fst (rest_state rows A h))"
    and run: "rest_run A orm1 cs h = (as, h1)"
    and user: "api_users (fst (rest_state rows A h1)) i = Some u" and email: "ru_Email u \<noteq> []"
  shows "distinct_emails (fst (rest_state rows A h1)) \<and>
    (\<exists>h2. rest_serve A orm1 (GetUsers (ru_Email u)) h1 = (Ok (UserResponse u), h2))"
proof -
  obtain answers where serving1: "rest_serving E rows A orm1 h1"
    and steps: "api_steps A (hw_clock h) cs (rest_state rows A h) answers (rest_state rows A h1)"
    using rest_runs [OF serving, of cs] run by (metis prod.inject)
  have d: "distinct_emails (fst (rest_state rows A h1))"
    using api_steps_invariant [where Q = "\<lambda>st. distinct_emails (fst st)", OF steps api_step_distinct distinct] .
  have only: "v = u" if "api_users (fst (rest_state rows A h1)) j = Some v" "ru_Email v = ru_Email u" for j v
    using d that user by (auto simp: distinct_emails_def) (metis option.inject)
  obtain a h2 answer where a: "rest_serve A orm1 (GetUsers (ru_Email u)) h1 = (a, h2)" "answered answer a"
    and step: "api_step A (hw_clock h1) (GetUsers (ru_Email u)) (rest_state rows A h1) answer (rest_state rows A h2)"
    using rest_store.serve_call [OF rest_sqlite [OF serving1], of "GetUsers (ru_Email u)"]
    by (auto simp: rest_store.steps_def [OF rest_sqlite(1) [OF serving1]] rest_state_ast [OF serving1])
  from step have "answer = Replied (UserResponse u)"
  proof (rule get_usersE)
    fix s v t
    assume "rest_state rows A h1 = (s, t)" "answer = Replied (UserResponse v)" "keyed (api_users s) ru_Email (ru_Email u) (Some v)"
    then show ?thesis using only by (auto simp: keyed_def)
  next
    fix s t
    assume "rest_state rows A h1 = (s, t)" "keyed (api_users s) ru_Email (ru_Email u) None"
    then show ?thesis using user email by (auto simp: keyed_def)
  qed
  with a d show ?thesis by auto
qed

text \<open>C11: A user created with a profile is returned with it, but read back without any: the JSON text of
  the profile is encoded once more by the INSERT and is no longer the text of a map. An update
  writes it as it is, so that from then on it is read back. Times are kept to the second.\<close>

theorem rest_profile_lost:
  fixes h :: "'d adst host" and input :: CreateUserInput
  assumes serving: "rest_serving E rows A orm1 h" and m: "m \<noteq> NilMap"
    and json: "app_json_map A m = Ok t" "app_json_parse A t = Ok m"
  shows "let now = hw_clock h; k = hw_ticks h; i = rest_id ''user'' (now k); created = new_user input i (now (Suc k));
      kept = created\<lparr>ru_Profile := NilMap, ru_CreatedAt := to_second (now (Suc k))\<rparr>;
      changed = kept\<lparr>ru_Profile := m, ru_UpdatedAt := Some (to_second (now (k + 2)))\<rparr>
    in fst (rest_run A orm1 [PostUsers input, GetUsersId i,
        PutUsersId \<lparr>uu_UserID = i, uu_Email = None, uu_Name = None, uu_Profile = m\<rparr>, GetUsersId i] h) =
      [Ok (UserResponse created), Ok (UserResponse kept), Ok (UserResponse changed), Ok (UserResponse changed)]"
proof -
  let ?now = "hw_clock h" and ?k = "hw_ticks h"
  let ?i = "rest_id ''user'' (?now ?k)"
  let ?put = "\<lparr>uu_UserID = ?i, uu_Email = None, uu_Name = None, uu_Profile = m\<rparr>"
  let ?u = "saved_user (new_user input ?i (?now (Suc ?k)))"
  have "map_laws A" using serving by (simp add: rest_serving_def)
  with json m have reads: "read_json A (marshalled A m) = m" by (auto simp: read_json_def marshalled_def map_laws_def)
  obtain as h' answers where run: "rest_run A orm1 [PostUsers input, GetUsersId ?i, PutUsersId ?put, GetUsersId ?i] h = (as, h')"
    and all: "list_all2 answered answers as"
    and steps: "api_steps A ?now [PostUsers input, GetUsersId ?i, PutUsersId ?put, GetUsersId ?i]
      (rest_state rows A h) answers (rest_state rows A h')"
    by (rule rest_runs [OF serving])
  have id: "ru_ID ?u = ?i" by (simp add: saved_user_def new_user_def)
  have look: "look (api_users (put_account ?u s)) ?i = Some ?u" for s
    using look_put [of ?u s] unfolding id by (simp add: rest_id_nonempty)
  have free: "\<not> email_taken (put_account ?u s) ?i (ru_Email ?u)" for s
    using put_not_taken [of ?u s] unfolding id .
  have email: "ru_Email (changed_user A ?put t1 ?u) = ru_Email ?u" for t1 by (simp add: changed_user_def or_else_def)
  have look2: "look ((f :: string \<Rightarrow> rest_User option)(?i \<mapsto> v)) ?i = Some v" for f v
    by (simp add: look_def rest_id_nonempty)
  have changed: "changed_user A ?put t1 ?u = ?u\<lparr>ru_Profile := m, ru_UpdatedAt := Some (to_second t1)\<rparr>" for t1
    using m reads by (simp add: changed_user_def or_else_def new_map_def)
  have "answers = [Replied (UserResponse (new_user input ?i (?now (Suc ?k)))), Replied (UserResponse ?u),
      Replied (UserResponse (changed_user A ?put (?now (Suc (Suc ?k))) ?u)),
      Replied (UserResponse (changed_user A ?put (?now (Suc (Suc ?k))) ?u))]"
    using steps by (auto simp: rest_state_def calls look look2 free email)
  with all run show ?thesis
    by (simp add: Let_def list_all2_Cons1 changed) (simp add: saved_user_def new_user_def)
qed

text \<open>Creating a user with the address of an existing one succeeds and removes that user, whose posts stay
  and can be read: the error for an existing address is never reported.\<close>

theorem rest_create_removes_user:
  fixes h :: "'d adst host"
  assumes serving: "rest_serving E rows A orm1 h"
    and user: "api_users (fst (rest_state rows A h)) i = Some u" and same: "ru_Email u = cu_Email input"
    and post: "api_posts (fst (rest_state rows A h)) j = Some p" and author: "rp_UserID p = i"
    and new: "i \<noteq> rest_id ''user'' (hw_clock h (hw_ticks h))" and ids: "i \<noteq> []" "j \<noteq> []"
  shows "fst (rest_run A orm1 [PostUsers input, GetUsersId i, GetPostsId j] h) =
    [Ok (UserResponse (new_user input (rest_id ''user'' (hw_clock h (hw_ticks h))) (hw_clock h (Suc (hw_ticks h))))),
     Error (Err ''user not found''), Ok (PostResponse p)]"
proof -
  let ?u = "new_user input (rest_id ''user'' (hw_clock h (hw_ticks h))) (hw_clock h (Suc (hw_ticks h)))"
  obtain as h' answers where run: "rest_run A orm1 [PostUsers input, GetUsersId i, GetPostsId j] h = (as, h')"
    and all: "list_all2 answered answers as"
    and steps: "api_steps A (hw_clock h) [PostUsers input, GetUsersId i, GetPostsId j] (rest_state rows A h) answers (rest_state rows A h')"
    by (rule rest_runs [OF serving])
  have gone: "look (api_users (put_account (saved_user ?u) (fst (rest_state rows A h)))) i = None"
    using user same new by (simp add: look_def put_account_def saved_user_def new_user_def)
  have stays: "look (api_posts (put_account (saved_user ?u) (fst (rest_state rows A h)))) j = Some p"
    using post ids by (simp add: look_def put_account_def)
  have "answers = [Replied (UserResponse ?u), Missing ''user not found'', Replied (PostResponse p)]"
    using steps gone stays ids by (auto simp: rest_state_def calls get_post_by_id no_row_def)
  with all run show ?thesis by (simp add: list_all2_Cons1)
qed


section \<open>A service to try\<close>

text \<open>Empty, and with a user and a post.\<close>

abbreviation rest_env :: "tables env" where
  "rest_env \<equiv> eng_env quoting_lib rest_schema"

definition rest_orm :: "tables adst ORM" where
  "rest_orm = orm_on (sqlite_storage rest_env)"

definition rest_tables_kept :: tables where
  "rest_tables_kept = (\<lambda>T. if T = ''users'' then [(''u1'', new_row ''u1'' [(''email'', VStr ''ann@x.org''), (''name'', VStr ''Ann''),
        (''created_at'', VStr (sample_format 0))])]
     else if T = ''posts'' then [(''p1'', new_row ''p1'' [(''user_id'', VStr ''u1''), (''title'', VStr ''Hello''), (''content'', VStr ''World''),
        (''published'', VBool True), (''created_at'', VStr (sample_format 0))])]
     else [])"

abbreviation empty_rest :: "tables adst host" where
  "empty_rest \<equiv> sample_host rest_schema (\<lambda>T. [])"

abbreviation kept_rest :: "tables adst host" where
  "kept_rest \<equiv> sample_host rest_schema rest_tables_kept"

lemma rest_mget: "mget (sch_Tables rest_schema) T = Some tbl \<longleftrightarrow>
    T = ''users'' \<and> tbl = users_of_rest \<or> T = ''posts'' \<and> tbl = posts_of_rest"
  by (auto simp: rest_schema_def mget_def)

lemma rest_tables_fit: "store_fits users_of_rest (map_of (rest_tables_kept ''users''))"
    "store_fits posts_of_rest (map_of (rest_tables_kept ''posts''))"
  by (simp_all add: rest_tables_kept_def store_fits_def row_fits_def new_row_def rest_order rest_fits sample_texts)

lemma sample_app_maps: "map_laws sample_app"
  by (simp add: map_laws_def sample_app_def)

lemma demo_objects: "plain_objects (eng_env quoting_lib S)"
  by (simp add: plain_objects_def quoting_lib_def sample_lib_def)

lemma sample_rest_serving:
  assumes "\<And>T tbl. mget (sch_Tables rest_schema) T = Some tbl \<Longrightarrow> store_fits tbl (map_of (d T))"
  shows "rest_serving rest_env eng_rows sample_app rest_orm (sample_host rest_schema d)"
  using sample_serving [OF rest_schemas(3) assms] engine_serves [OF rest_schemas(1,2)] sample_app_times sample_app_maps
    sample_clock [of 0]
  by (simp add: rest_serving_def rest_schema_built demo_json demo_objects rest_orm_def)

lemma rests_serving:
  "rest_serving rest_env eng_rows sample_app rest_orm empty_rest"
  "rest_serving rest_env eng_rows sample_app rest_orm kept_rest"
  by (rule sample_rest_serving; auto simp: rest_mget rest_tables_fit empty_fits)+

interpretation demo_rest: rest_store "sqlite_storage rest_env" rest_env "\<lambda>w. eng_rows (drv w)"
    "serving rest_schema eng_rows" sample_app rest_orm
  by (rule rest_sqlite(1) [OF rests_serving(1)])

definition ann_user :: rest_User where
  "ann_user = \<lparr>ru_ID = ''u1'', ru_Email = ''ann@x.org'', ru_Name = ''Ann'', ru_Profile = NilMap, ru_CreatedAt = 0, ru_UpdatedAt = None\<rparr>"

definition ann_post :: rest_Post where
  "ann_post = \<lparr>rp_ID = ''p1'', rp_UserID = ''u1'', rp_Title = ''Hello'', rp_Content = ''World'', rp_Metadata = NilMap,
     rp_Published = True, rp_CreatedAt = 0, rp_UpdatedAt = None\<rparr>"

lemma kept_api:
  "api_users (fst (rest_state eng_rows sample_app kept_rest)) = [''u1'' \<mapsto> ann_user]"
  "api_posts (fst (rest_state eng_rows sample_app kept_rest)) = [''p1'' \<mapsto> ann_post]"
  by (simp_all add: rest_state_def api_of_def eng_rows_def rest_tables_kept_def user_of_row_def post_of_row_def new_row_def
      sample_zero read_json_def read_opt_time_def ann_user_def ann_post_def fun_eq_iff)

definition bob_joins :: CreateUserInput where
  "bob_joins = \<lparr>cu_Email = ''ann@x.org'', cu_Name = ''Bob'', cu_Profile = GoMap []\<rparr>"

lemma rest_serves_api_witness:
  "fst (rest_run sample_app rest_orm [GetUsersId ''u1'', DeletePostsId ''p1'', GetPostsId ''p1''] kept_rest) =
     [Ok (UserResponse ann_user), Ok (DeleteResponse ''Post deleted successfully''), Error (Err ''post not found'')]"
proof -
  obtain as h' answers where run: "rest_run sample_app rest_orm [GetUsersId ''u1'', DeletePostsId ''p1'', GetPostsId ''p1''] kept_rest = (as, h')"
    and all: "list_all2 answered answers as"
    and steps: "api_steps sample_app (hw_clock kept_rest) [GetUsersId ''u1'', DeletePostsId ''p1'', GetPostsId ''p1'']
      (rest_state eng_rows sample_app kept_rest) answers (rest_state eng_rows sample_app h')"
    using rest_serves_api [OF rests_serving(2)] by metis
  obtain s where s: "rest_state eng_rows sample_app kept_rest = (s, 0)" by (simp add: rest_state_def)
  note api = kept_api [unfolded s fst_conv]
  have "answers = [Replied (UserResponse ann_user), Replied (DeleteResponse ''Post deleted successfully''), Missing ''post not found'']"
    using steps by (auto simp: s calls get_post_by_id delete_post_by_id api look_def no_row_def)
  with all run show ?thesis by (simp add: list_all2_Cons1)
qed

lemma rest_emails_find_witness:
  "\<exists>h2. rest_serve sample_app rest_orm (GetUsers ''ann@x.org'') kept_rest = (Ok (UserResponse ann_user), h2)"
proof -
  have "distinct_emails (fst (rest_state eng_rows sample_app kept_rest))" by (simp add: distinct_emails_def kept_api)
  moreover have "rest_run sample_app rest_orm [] kept_rest = ([], kept_rest)" by simp
  moreover have "api_users (fst (rest_state eng_rows sample_app kept_rest)) ''u1'' = Some ann_user" by (simp add: kept_api)
  moreover have "ru_Email ann_user \<noteq> []" by (simp add: ann_user_def)
  ultimately have "\<exists>h2. rest_serve sample_app rest_orm (GetUsers (ru_Email ann_user)) kept_rest = (Ok (UserResponse ann_user), h2)"
    using rest_emails_find [OF rests_serving(2)] by blast
  then show ?thesis by (simp add: ann_user_def)
qed

lemma rest_profile_lost_witness:
  "\<exists>u v. take 2 (fst (rest_run sample_app rest_orm [PostUsers bob_joins, GetUsersId (rest_id ''user'' 0),
      PutUsersId \<lparr>uu_UserID = rest_id ''user'' 0, uu_Email = None, uu_Name = None, uu_Profile = GoMap []\<rparr>,
      GetUsersId (rest_id ''user'' 0)] empty_rest)) = [Ok (UserResponse u), Ok (UserResponse v)] \<and>
    ru_Profile u = GoMap [] \<and> ru_Profile v = NilMap"
proof -
  have json: "app_json_map sample_app (GoMap []) = Ok ''{}''" "app_json_parse sample_app ''{}'' = Ok (GoMap [])"
    by (simp_all add: sample_app_def)
  from rest_profile_lost [OF rests_serving(1) _ json, of bob_joins] show ?thesis
    by (simp add: Let_def new_user_def bob_joins_def)
qed

lemma rest_create_removes_user_witness:
  "\<exists>u. fst (rest_run sample_app rest_orm [PostUsers bob_joins, GetUsersId ''u1'', GetPostsId ''p1''] kept_rest) =
    [Ok (UserResponse u), Error (Err ''user not found''), Ok (PostResponse ann_post)]"
  using rest_create_removes_user [OF rests_serving(2), of "''u1''" ann_user bob_joins "''p1''" ann_post]
  by (simp add: kept_api ann_user_def bob_joins_def ann_post_def rest_id_def)

end
