(* ===== verification/Admin.thy ===== *)
theory Admin
  imports Host Backends TableStore
begin

text \<open>
  The database administration example (src/examples/dbadmin): the connection to a storage of any of the
  nine kinds (main.go) and the pages and forms on it (web.go). A page is named with the data its
  template is given; the HTML texts and the style sheet are left out.
\<close>

section \<open>The storages\<close>

text \<open>
  The parameters of the adapters, and their states: one for the SQL storages, which are built alike, one
  for ScyllaDB and one for S3.
\<close>

record ('d, 'c, 'b) admin_env =
  ae_sql :: "'d crenv"
  ae_oracle :: "'d orenv"
  ae_scylla :: "'c scenv"
  ae_s3 :: "'b s3env"
  ae_s3_pages :: nat

record ('d, 'c, 'b) stores =
  sw_sql :: "'d crst"
  sw_scylla :: "'c scst"
  sw_s3 :: "'b s3st"

definition on_part :: "('w \<Rightarrow> 'v) \<Rightarrow> ('v \<Rightarrow> 'w \<Rightarrow> 'w) \<Rightarrow> ('v, 'a) go \<Rightarrow> ('w, 'a) go" where
  "on_part get put m = (\<lambda>w. case m (get w) of (r, v) \<Rightarrow> (r, put v w))"

definition storage_part :: "('w \<Rightarrow> 'v) \<Rightarrow> ('v \<Rightarrow> 'w \<Rightarrow> 'w) \<Rightarrow> 'v Storage \<Rightarrow> 'w Storage" where
  "storage_part get put st =
     \<lparr>st_Connect = (\<lambda>c. on_part get put (st_Connect st c)),
      st_CreateTables = (\<lambda>s. on_part get put (st_CreateTables st s)),
      st_Insert = (\<lambda>obj. on_part get put (st_Insert st obj)),
      st_Update = (\<lambda>obj. on_part get put (st_Update st obj)),
      st_Upsert = (\<lambda>obj. on_part get put (st_Upsert st obj)),
      st_FindByID = (\<lambda>T i. on_part get put (st_FindByID st T i)),
      st_FindByKey = (\<lambda>T k x. on_part get put (st_FindByKey st T k x)),
      st_DeleteByID = (\<lambda>T i. on_part get put (st_DeleteByID st T i)),
      st_ResetConnection = on_part get put (st_ResetConnection st),
      st_AlterTable = (\<lambda>T c d n. on_part get put (st_AlterTable st T c d n)),
      st_BeginTx = on_part get put (st_BeginTx st),
      st_CommitTx = (\<lambda>tx. on_part get put (st_CommitTx st tx)),
      st_RollbackTx = (\<lambda>tx. on_part get put (st_RollbackTx st tx)),
      st_InsertTx = (\<lambda>tx obj. on_part get put (st_InsertTx st tx obj)),
      st_UpdateTx = (\<lambda>tx obj. on_part get put (st_UpdateTx st tx obj)),
      st_UpsertTx = (\<lambda>tx obj. on_part get put (st_UpsertTx st tx obj)),
      st_FindByIDTx = (\<lambda>tx T i. on_part get put (st_FindByIDTx st tx T i)),
      st_FindByKeyTx = (\<lambda>tx T k x. on_part get put (st_FindByKeyTx st tx T k x)),
      st_DeleteByIDTx = (\<lambda>tx T i. on_part get put (st_DeleteByIDTx st tx T i))\<rparr>"

text \<open>
  A value of the interface: the storage, and its method \<open>GetSchema\<close> if the type has one. A new storage
  takes the place of the state of its kind.
\<close>

record 'w live =
  lv_storage :: "'w Storage"
  lv_schema :: "('w \<Rightarrow> Schema option) option"

definition sql_live :: "('d crst \<Rightarrow> 'd crst) \<Rightarrow> 'd crst Storage \<Rightarrow> (('d, 'c, 'b) stores, ('d, 'c, 'b) stores live) go" where
  "sql_live new st =
     seq (modify (\<lambda>w. w\<lparr>sw_sql := new (sw_sql w)\<rparr>)) (\<lambda>_.
     ret \<lparr>lv_storage = storage_part sw_sql (\<lambda>v w. w\<lparr>sw_sql := v\<rparr>) st, lv_schema = Some (\<lambda>w. GetSchema (sw_sql w))\<rparr>)"

definition dba_createStorage :: "('d, 'c, 'b) admin_env \<Rightarrow> string \<Rightarrow> (('d, 'c, 'b) stores, ('d, 'c, 'b) stores live) go" where
  "dba_createStorage E storageType =
     (if storageType = ''sqlite'' then sql_live sqlite_New (sqlite_storage (ae_sql E))
      else if storageType = ''postgres'' then sql_live postgres_New (postgres_storage (ae_sql E))
      else if storageType = ''sqlserver'' then sql_live sqlserver_New (sqlserver_storage (ae_sql E))
      else if storageType = ''oracle'' then sql_live oracle_New (oracle_storage (ae_oracle E))
      else if storageType = ''cockroach'' then sql_live cockroach_New (cockroach_storage (ae_sql E))
      else if storageType = ''yugabyte'' then sql_live yugabyte_New (yugabyte_storage (ae_sql E))
      else if storageType = ''tidb'' then sql_live tidb_New (tidb_storage (ae_sql E))
      else if storageType = ''scylla'' then
        seq (modify (\<lambda>w. w\<lparr>sw_scylla := scylla_New (sc_drv (sw_scylla w))\<rparr>)) (\<lambda>_.
        ret \<lparr>lv_storage = storage_part sw_scylla (\<lambda>v w. w\<lparr>sw_scylla := v\<rparr>) (scylla_storage (ae_scylla E)), lv_schema = None\<rparr>)
      else if storageType = ''s3'' then
        seq (modify (\<lambda>w. w\<lparr>sw_s3 := s3_New (s3_drv (sw_s3 w))\<rparr>)) (\<lambda>_.
        ret \<lparr>lv_storage = storage_part sw_s3 (\<lambda>v w. w\<lparr>sw_s3 := v\<rparr>) (s3_storage (ae_s3 E) (ae_s3_pages E)), lv_schema = None\<rparr>)
      else fail (Err (''unsupported storage type: '' @ storageType)))"

text \<open>
  The storages of two moments: what belongs to the drivers and to \<open>database/sql\<close> as it is now, and the
  fields of the adapters as they were. It is what remains when a new storage is given up.
\<close>

definition storages_back :: "('d, 'c, 'b) stores \<Rightarrow> ('d, 'c, 'b) stores \<Rightarrow> ('d, 'c, 'b) stores" where
  "storages_back old w = w\<lparr>
     sw_sql := (sw_sql w)\<lparr>ad_DB := ad_DB (sw_sql old), ad_Sch := ad_Sch (sw_sql old), ad_TM_DB := ad_TM_DB (sw_sql old),
       cr_pool := cr_pool (sw_sql old)\<rparr>,
     sw_scylla := (sw_scylla old)\<lparr>sc_drv := sc_drv (sw_scylla w)\<rparr>,
     sw_s3 := (sw_s3 old)\<lparr>s3_drv := s3_drv (sw_s3 w)\<rparr>\<rparr>"

section \<open>The test schema\<close>

definition dba_table :: "string \<Rightarrow> ColumnData list \<Rightarrow> TableSchema" where
  "dba_table name cs =
     \<lparr>tab_TableName = name, tab_Fields = GoMap (map (\<lambda>c. (col_Name c, c)) cs), tab_FieldOrder = map col_Name cs,
      tab_PrimaryKey = [], tab_Indexes = [], tab_UniqueKeys = [], tab_AutoIncrementFields = [], tab_Comment = []\<rparr>"

definition dba_user_columns :: "ColumnData list" where
  "dba_user_columns =
     [zero_column\<lparr>col_Name := ''id'', col_DataType := ''TEXT''\<rparr>,
      zero_column\<lparr>col_Name := ''name'', col_DataType := ''TEXT''\<rparr>,
      zero_column\<lparr>col_Name := ''email'', col_DataType := ''TEXT'', col_Nullable := True\<rparr>,
      zero_column\<lparr>col_Name := ''created_at'', col_DataType := ''DATETIME'', col_Nullable := True\<rparr>]"

definition dba_product_columns :: "ColumnData list" where
  "dba_product_columns =
     [zero_column\<lparr>col_Name := ''id'', col_DataType := ''TEXT''\<rparr>,
      zero_column\<lparr>col_Name := ''name'', col_DataType := ''TEXT''\<rparr>,
      zero_column\<lparr>col_Name := ''price'', col_DataType := ''REAL''\<rparr>,
      zero_column\<lparr>col_Name := ''description'', col_DataType := ''TEXT'', col_Nullable := True\<rparr>]"

definition createTestSchema :: Schema where
  "createTestSchema = \<lparr>sch_DatabaseName = [],
     sch_Tables = GoMap [(''users'', dba_table ''users'' dba_user_columns), (''products'', dba_table ''products'' dba_product_columns)],
     sch_FieldOrder = [], sch_mu = free_mutex\<rparr>"

section \<open>The connection (main.go)\<close>

record admin_config =
  cf_StorageType :: string
  cf_ConnString :: string
  cf_Port :: int
  cf_Connected :: bool

text \<open>The server, with the storages it works on.\<close>

record 'w AdminServer =
  am_storage :: "'w live option"
  am_config :: admin_config
  am_connected :: bool
  am_world :: 'w

definition on_world :: "('w, 'a) go \<Rightarrow> ('w AdminServer, 'a) go" where
  "on_world m = on_part am_world (\<lambda>w s. s\<lparr>am_world := w\<rparr>) m"

definition admin_main :: "int \<Rightarrow> 'w \<Rightarrow> 'w AdminServer" where
  "admin_main port w = \<lparr>am_storage = None,
     am_config = \<lparr>cf_StorageType = [], cf_ConnString = [], cf_Port = port, cf_Connected = False\<rparr>,
     am_connected = False, am_world = w\<rparr>"

text \<open>A storage that does not connect is given up; one that does not create its tables is kept.\<close>

definition admin_Connect :: "('d, 'c, 'b) admin_env \<Rightarrow> string \<Rightarrow> string \<Rightarrow> (('d, 'c, 'b) stores AdminServer, unit) go" where
  "admin_Connect E storageType connString = (\<lambda>s.
     case seq (wrapping ''failed to create storage: '' (on_world (dba_createStorage E storageType))) (\<lambda>stor.
          seq (wrapping ''failed to connect to storage: '' (on_world (st_Connect (lv_storage stor) connString))) (\<lambda>_.
          seq (catch (on_world (st_CreateTables (lv_storage stor) (Some createTestSchema))) (\<lambda>e. ret ()) (\<lambda>_. ret ())) (\<lambda>_.
          modify (\<lambda>s. s\<lparr>am_storage := Some stor,
            am_config := (am_config s)\<lparr>cf_StorageType := storageType, cf_ConnString := connString, cf_Connected := True\<rparr>,
            am_connected := True\<rparr>)))) s of
       (Ok x, s') \<Rightarrow> (Ok x, s')
     | (r, s') \<Rightarrow> (r, s'\<lparr>am_world := storages_back (am_world s) (am_world s')\<rparr>))"

definition admin_Disconnect :: "('w AdminServer, unit) go" where
  "admin_Disconnect =
     seq (gets am_storage) (\<lambda>storage.
     seq (case storage of
            None \<Rightarrow> ret ()
          | Some stor \<Rightarrow>
              seq (catch (on_world (st_ResetConnection (lv_storage stor))) (\<lambda>e. ret ()) (\<lambda>_. ret ())) (\<lambda>_.
              modify (\<lambda>s. s\<lparr>am_storage := None\<rparr>))) (\<lambda>_.
     modify (\<lambda>s. s\<lparr>am_connected := False,
       am_config := (am_config s)\<lparr>cf_Connected := False, cf_StorageType := [], cf_ConnString := []\<rparr>\<rparr>)))"

end
