(* ===== verification/AdminWeb.thy ===== *)
theory AdminWeb
  imports Admin
begin

text \<open>
  The pages and forms of the database administration example (src/examples/dbadmin/web.go).
\<close>

section \<open>Requests and answers\<close>

text \<open>A request, with the path that \<open>net/http\<close> has cleaned; other paths it redirects itself.\<close>

record admin_request =
  aq_Method :: string
  aq_Path :: string
  aq_Query :: "string \<Rightarrow> string"
  aq_FormValue :: "string \<Rightarrow> string"

record FieldInfo =
  fi_Name :: string
  fi_DataType :: string
  fi_Nullable :: bool

record TableInfo =
  ti_Name :: string
  ti_Fields :: "FieldInfo list"

datatype admin_page =
    DashboardPage string string int "TableInfo list"
  | ConnectPage string bool
  | TablesPage "TableInfo list"
  | TablePage string "FieldInfo list"
  | AlterPage "TableInfo list" string bool
  | InsertPage string "FieldInfo list" string bool

datatype admin_answer =
    APage admin_page
  | AHttpError string int
  | ARedirect string
  | AStyle
  | ANotFound
  | ANothing

section \<open>The tables of the schema\<close>

definition table_info :: "TableSchema \<Rightarrow> TableInfo" where
  "table_info table = \<lparr>ti_Name = tab_TableName table,
     ti_Fields = concat (map (\<lambda>fieldName. case mget (tab_Fields table) fieldName of
         None \<Rightarrow> []
       | Some field \<Rightarrow> [\<lparr>fi_Name = col_Name field, fi_DataType = col_DataType field, fi_Nullable = col_Nullable field\<rparr>])
       (tab_FieldOrder table))\<rparr>"

definition getTableList :: "'w AdminServer \<Rightarrow> TableInfo list" where
  "getTableList s =
     (if \<not> am_connected s then []
      else case am_storage s of
          None \<Rightarrow> []
        | Some baseStorage \<Rightarrow> (case lv_schema baseStorage of
            None \<Rightarrow> []
          | Some get_schema \<Rightarrow> (case get_schema (am_world s) of
              None \<Rightarrow> []
            | Some sch \<Rightarrow> map (\<lambda>(name, table). table_info table) (entries (sch_Tables sch)))))"

definition getTableInfo :: "'w AdminServer \<Rightarrow> string \<Rightarrow> TableInfo option" where
  "getTableInfo s tableName = find (\<lambda>table. ti_Name table = tableName) (getTableList s)"

text \<open>A method call on the storage, which panics when there is none.\<close>

definition on_live :: "('w Storage \<Rightarrow> ('w, 'a) go) \<Rightarrow> ('w AdminServer, 'a) go" where
  "on_live f = seq (gets am_storage) (\<lambda>storage.
     case storage of None \<Rightarrow> panic nil_deref | Some stor \<Rightarrow> on_world (f (lv_storage stor)))"

definition when_connected :: "('w AdminServer, admin_answer) go \<Rightarrow> ('w AdminServer, admin_answer) go" where
  "when_connected m = seq (gets am_connected) (\<lambda>connected. if \<not> connected then ret (ARedirect ''/connect'') else m)"

section \<open>Pages\<close>

definition handleTables :: "('w AdminServer, admin_answer) go" where
  "handleTables = when_connected (seq (gets getTableList) (\<lambda>tables. ret (APage (TablesPage tables))))"

definition table_not_there :: admin_answer where
  "table_not_there = AHttpError ''Table not found'' 404"

definition name_required :: admin_answer where
  "name_required = AHttpError ''Table name required'' 400"

text \<open>The page of a table by its name.\<close>

definition with_table :: "string \<Rightarrow> (TableInfo \<Rightarrow> ('w AdminServer, admin_answer) go) \<Rightarrow> ('w AdminServer, admin_answer) go" where
  "with_table tableName f =
     (if tableName = [] then ret name_required
      else seq (gets (\<lambda>s. getTableInfo s tableName)) (\<lambda>tableInfo.
        case tableInfo of None \<Rightarrow> ret table_not_there | Some tableInfo \<Rightarrow> f tableInfo))"

definition handleTable :: "admin_request \<Rightarrow> ('w AdminServer, admin_answer) go" where
  "handleTable r = when_connected
     (let tableName = TrimPrefix (aq_Path r) ''/table/''
      in with_table tableName (\<lambda>tableInfo. ret (APage (TablePage tableName (ti_Fields tableInfo)))))"

section \<open>Connecting\<close>

definition processConnect :: "('d, 'c, 'b) admin_env \<Rightarrow> admin_request \<Rightarrow> (('d, 'c, 'b) stores AdminServer, admin_answer) go" where
  "processConnect E r =
     (let storageType = aq_FormValue r ''storageType''; connString = aq_FormValue r ''connString''
      in if storageType = [] \<or> connString = []
         then ret (APage (ConnectPage ''Storage type and connection string are required'' False))
         else catch (admin_Connect E storageType connString)
           (\<lambda>e. ret (APage (ConnectPage (''Failed to connect: '' @ error_text e) False)))
           (\<lambda>_. ret (ARedirect ''/'')))"

definition handleConnect :: "('d, 'c, 'b) admin_env \<Rightarrow> admin_request \<Rightarrow> (('d, 'c, 'b) stores AdminServer, admin_answer) go" where
  "handleConnect E r =
     (if aq_Method r = ''GET'' then ret (APage (ConnectPage [] False))
      else if aq_Method r = ''POST'' then processConnect E r
      else ret ANothing)"

text \<open>Where there is no connection yet, the home page is the connect page, form included.\<close>

definition admin_handleHome :: "('d, 'c, 'b) admin_env \<Rightarrow> admin_request \<Rightarrow> (('d, 'c, 'b) stores AdminServer, admin_answer) go" where
  "admin_handleHome E r = seq (gets am_connected) (\<lambda>connected.
     if \<not> connected then handleConnect E r
     else seq (gets am_config) (\<lambda>cfg. seq (gets getTableList) (\<lambda>tables.
       ret (APage (DashboardPage (cf_StorageType cfg) (cf_ConnString cfg) (cf_Port cfg) tables)))))"

definition handleDisconnect :: "('w AdminServer, admin_answer) go" where
  "handleDisconnect = seq admin_Disconnect (\<lambda>_. ret (ARedirect ''/connect''))"

section \<open>Changing a table\<close>

definition alter_page :: "string \<Rightarrow> bool \<Rightarrow> ('w AdminServer, admin_answer) go" where
  "alter_page message success = seq (gets getTableList) (\<lambda>tables. ret (APage (AlterPage tables message success)))"

definition in_quotes :: "string \<Rightarrow> string" where
  "in_quotes x = CHR 0x27 # x @ [CHR 0x27]"

definition processAlterTable :: "admin_request \<Rightarrow> ('w AdminServer, admin_answer) go" where
  "processAlterTable r =
     (let tableName = aq_FormValue r ''tableName''; columnName = aq_FormValue r ''columnName'';
          dataType = aq_FormValue r ''dataType''; nullable = (aq_FormValue r ''nullable'' = ''true'')
      in if tableName = [] \<or> columnName = [] \<or> dataType = [] then alter_page ''All fields are required'' False
         else catch (on_live (\<lambda>st. st_AlterTable st tableName columnName dataType nullable))
           (\<lambda>e. alter_page (''Failed to alter table: '' @ error_text e) False)
           (\<lambda>_. alter_page (''Successfully added column '' @ in_quotes columnName @ '' to table '' @ in_quotes tableName) True))"

definition handleAlterTable :: "admin_request \<Rightarrow> ('w AdminServer, admin_answer) go" where
  "handleAlterTable r = when_connected
     (if aq_Method r = ''GET'' then alter_page [] False
      else if aq_Method r = ''POST'' then processAlterTable r
      else ret ANothing)"

section \<open>Inserting a record\<close>

text \<open>
  \<open>time.Parse("2006-01-02T15:04", v)\<close>, whose hour may have one digit, written as
  \<open>"2006-01-02 15:04:05"\<close>.
\<close>

definition datetime_local :: "string \<Rightarrow> string option" where
  "datetime_local v =
     (let hm = drop 11 v; hh = takeWhile (\<lambda>c. c \<noteq> CHR '':'') hm; mm = drop (Suc (length hh)) hm
      in if 15 \<le> length v \<and> digits_at v 0 4 \<and> v ! 4 = CHR ''-'' \<and> digits_at v 5 2 \<and> v ! 7 = CHR ''-'' \<and>
            digits_at v 8 2 \<and> v ! 10 = CHR ''T'' \<and> length hh \<in> set [1, 2] \<and> list_all is_digit hh \<and>
            length hh < length hm \<and> length mm = 2 \<and> list_all is_digit mm \<and>
            1 \<le> number_at v 5 2 \<and> number_at v 5 2 \<le> 12 \<and> 1 \<le> number_at v 8 2 \<and>
            number_at v 8 2 \<le> month_days (number_at v 0 4) (number_at v 5 2) \<and> of_digits hh < 24 \<and> of_digits mm < 60
         then Some (take 10 v @ '' '' @ (if length hh = 1 then CHR ''0'' # hh else hh) @ '':'' @ mm @ '':00'')
         else None)"

definition invalid_value :: "string \<Rightarrow> FieldInfo \<Rightarrow> string \<Rightarrow> 'a result" where
  "invalid_value what field v = Error (Err (''Invalid '' @ what @ '' value for field '' @ in_quotes (fi_Name field) @ '': '' @ v))"

text \<open>The value of a field of the form: none when it is left out, or the message that refuses it.\<close>

definition form_value :: "'e golib_scheme \<Rightarrow> FieldInfo \<Rightarrow> string \<Rightarrow> goval option result" where
  "form_value L field v =
     (if v = [] \<and> fi_Nullable field then Ok None
      else if fi_DataType field = ''TEXT'' then Ok (Some (VStr v))
      else if fi_DataType field = ''INTEGER'' then
        (if v = [] then Ok None
         else case ParseInt v of Ok i \<Rightarrow> Ok (Some (VInt64 i)) | _ \<Rightarrow> invalid_value ''integer'' field v)
      else if fi_DataType field = ''REAL'' then
        (if v = [] then Ok None
         else case lib_parse_float L v of Ok x \<Rightarrow> Ok (Some (VFloat64 x)) | _ \<Rightarrow> invalid_value ''float'' field v)
      else if fi_DataType field = ''BOOLEAN'' then
        (if v = [] then Ok None
         else case parse_bool v of Ok b \<Rightarrow> Ok (Some (VBool b)) | _ \<Rightarrow> invalid_value ''boolean'' field v)
      else if fi_DataType field = ''DATETIME'' then
        (if v = [] then Ok None
         else case datetime_local v of Some t \<Rightarrow> Ok (Some (VStr t)) | None \<Rightarrow> invalid_value ''datetime'' field v)
      else Ok (Some (VStr v)))"

fun form_object :: "'e golib_scheme \<Rightarrow> (string \<Rightarrow> string) \<Rightarrow> FieldInfo list \<Rightarrow> Object \<Rightarrow> Object result" where
  "form_object L val [] obj = Ok obj"
| "form_object L val (field # rest) obj =
     rbind (form_value L field (val (fi_Name field))) (\<lambda>v.
     case v of
       None \<Rightarrow> form_object L val rest obj
     | Some v \<Rightarrow> rbind (SetField obj (fi_Name field) v) (form_object L val rest))"

definition showInsertForm :: "admin_request \<Rightarrow> ('w AdminServer, admin_answer) go" where
  "showInsertForm r = (let tableName = aq_Query r ''table''
     in with_table tableName (\<lambda>tableInfo. ret (APage (InsertPage tableName (ti_Fields tableInfo) [] False))))"

definition showInsertFormWithMessage :: "admin_request \<Rightarrow> string \<Rightarrow> bool \<Rightarrow> ('w AdminServer, admin_answer) go" where
  "showInsertFormWithMessage r message success = (let tableName = aq_FormValue r ''table''
     in with_table tableName (\<lambda>tableInfo. ret (APage (InsertPage tableName (ti_Fields tableInfo) message success))))"

definition processInsert :: "'e golib_scheme \<Rightarrow> admin_request \<Rightarrow> ('w AdminServer, admin_answer) go" where
  "processInsert L r =
     (let tableName = aq_FormValue r ''table''
      in with_table tableName (\<lambda>tableInfo.
         catch (pure (form_object L (aq_FormValue r) (ti_Fields tableInfo) (SetTableName object_New tableName)))
           (\<lambda>e. showInsertFormWithMessage r (error_text e) False)
           (\<lambda>obj. catch (on_live (\<lambda>st. st_Insert st obj))
             (\<lambda>e. showInsertFormWithMessage r (''Failed to insert record: '' @ error_text e) False)
             (\<lambda>(id, created).
                if created then ret (ARedirect (''/table/'' @ tableName @ ''?inserted=true&id='' @ id))
                else showInsertFormWithMessage r ''Record was not created'' False))))"

definition handleInsert :: "'e golib_scheme \<Rightarrow> admin_request \<Rightarrow> ('w AdminServer, admin_answer) go" where
  "handleInsert L r = when_connected
     (if aq_Method r = ''GET'' then showInsertForm r
      else if aq_Method r = ''POST'' then processInsert L r
      else ret ANothing)"

definition admin_handleDelete :: "('w AdminServer, admin_answer) go" where
  "admin_handleDelete = ret (AHttpError ''Delete functionality not implemented yet'' 501)"

definition admin_handleStatic :: "admin_request \<Rightarrow> ('w AdminServer, admin_answer) go" where
  "admin_handleStatic r = (if aq_Path r = ''/static/style.css'' then ret AStyle else ret ANotFound)"

section \<open>The routes\<close>

definition admin_serve :: "('d, 'c, 'b) admin_env \<Rightarrow> admin_request \<Rightarrow> (('d, 'c, 'b) stores AdminServer, admin_answer) go" where
  "admin_serve E r =
     (if aq_Path r \<in> set [''/table'', ''/static''] then ret (ARedirect (aq_Path r @ ''/''))
      else if aq_Path r = ''/connect'' then handleConnect E r
      else if aq_Path r = ''/disconnect'' then handleDisconnect
      else if aq_Path r = ''/tables'' then handleTables
      else if HasPrefix (aq_Path r) ''/table/'' then handleTable r
      else if aq_Path r = ''/alter'' then handleAlterTable r
      else if aq_Path r = ''/insert'' then handleInsert (ae_sql E) r
      else if aq_Path r = ''/delete'' then admin_handleDelete
      else if HasPrefix (aq_Path r) ''/static/'' then admin_handleStatic r
      else admin_handleHome E r)"

text \<open>Requests one after the other; a handler that panics ends its request only.\<close>

fun admin_run :: "('d, 'c, 'b) admin_env \<Rightarrow> admin_request list \<Rightarrow> ('d, 'c, 'b) stores AdminServer \<Rightarrow>
    admin_answer result list \<times> ('d, 'c, 'b) stores AdminServer" where
  "admin_run E [] s = ([], s)"
| "admin_run E (r # rs) s = (case admin_serve E r s of (a, s1) \<Rightarrow>
     (case admin_run E rs s1 of (as, s2) \<Rightarrow> (a # as, s2)))"

end
