(* ===== verification/AdminProps.thy ===== *)
theory AdminProps
  imports AdminWeb Startup Samples
begin

text \<open>
  The database administration example: what stays true of its connection over any requests, what its
  pages show for each kind of storage, and what its insert form does to a table.
\<close>

section \<open>The connection\<close>

text \<open>The storage of a kind, as a value of the interface.\<close>

definition sql_value :: "'d crst Storage \<Rightarrow> ('d, 'c, 'b) stores live" where
  "sql_value st = \<lparr>lv_storage = storage_part sw_sql (\<lambda>v w. w\<lparr>sw_sql := v\<rparr>) st, lv_schema = Some (\<lambda>w. GetSchema (sw_sql w))\<rparr>"

definition storage_named :: "('d, 'c, 'b) admin_env \<Rightarrow> string \<Rightarrow> ('d, 'c, 'b) stores live option" where
  "storage_named E kind = map_of
     [(''sqlite'', sql_value (sqlite_storage (ae_sql E))), (''postgres'', sql_value (postgres_storage (ae_sql E))),
      (''sqlserver'', sql_value (sqlserver_storage (ae_sql E))), (''oracle'', sql_value (oracle_storage (ae_oracle E))),
      (''cockroach'', sql_value (cockroach_storage (ae_sql E))), (''yugabyte'', sql_value (yugabyte_storage (ae_sql E))),
      (''tidb'', sql_value (tidb_storage (ae_sql E))),
      (''scylla'', \<lparr>lv_storage = storage_part sw_scylla (\<lambda>v w. w\<lparr>sw_scylla := v\<rparr>) (scylla_storage (ae_scylla E)), lv_schema = None\<rparr>),
      (''s3'', \<lparr>lv_storage = storage_part sw_s3 (\<lambda>v w. w\<lparr>sw_s3 := v\<rparr>) (s3_storage (ae_s3 E) (ae_s3_pages E)), lv_schema = None\<rparr>)] kind"

lemma createStorage_named:
  "storage_named E kind = Some stor \<Longrightarrow> \<exists>w'. dba_createStorage E kind w = (Ok stor, w')"
  "storage_named E kind = None \<Longrightarrow> \<exists>e. dba_createStorage E kind w = (Error e, w)"
  by (auto simp: storage_named_def dba_createStorage_def sql_live_def sql_value_def go_simps split: if_splits)

text \<open>Connected to a storage of the kind and at the place the pages show, or to none.\<close>

definition admin_ok :: "('d, 'c, 'b) admin_env \<Rightarrow> int \<Rightarrow> ('d, 'c, 'b) stores AdminServer \<Rightarrow> bool" where
  "admin_ok E port s \<longleftrightarrow> cf_Port (am_config s) = port \<and> cf_Connected (am_config s) = am_connected s \<and>
     (if am_connected s
      then storage_named E (cf_StorageType (am_config s)) = am_storage s \<and> am_storage s \<noteq> None \<and> cf_ConnString (am_config s) \<noteq> []
      else am_storage s = None \<and> cf_StorageType (am_config s) = [] \<and> cf_ConnString (am_config s) = [])"

lemma admin_ok_world [simp]: "admin_ok E port (s\<lparr>am_world := w\<rparr>) = admin_ok E port s"
  by (simp add: admin_ok_def)

definition keeps :: "('w \<Rightarrow> bool) \<Rightarrow> ('w, 'a) go \<Rightarrow> bool" where
  "keeps P m \<longleftrightarrow> (\<forall>s. P s \<longrightarrow> P (snd (m s)))"

lemma keeps_pure: "keeps P (ret x)" "keeps P (fail e)" "keeps P (panic p)" "keeps P (pure r)" "keeps P (gets f)"
  by (simp_all add: keeps_def go_simps)

lemma keeps_seq: "keeps P m \<Longrightarrow> (\<And>x. keeps P (f x)) \<Longrightarrow> keeps P (seq m f)"
  unfolding keeps_def
proof (intro allI impI)
  fix s assume m: "\<forall>s. P s \<longrightarrow> P (snd (m s))" and f: "\<And>x. \<forall>s. P s \<longrightarrow> P (snd (f x s))" and s: "P s"
  obtain r s1 where r: "m s = (r, s1)" by force
  with m s have "P s1" by force
  with f r show "P (snd (seq m f s))" by (cases r) (simp_all add: seq_def)
qed

lemma keeps_catch: "keeps P m \<Longrightarrow> (\<And>e. keeps P (f e)) \<Longrightarrow> (\<And>x. keeps P (g x)) \<Longrightarrow> keeps P (catch m f g)"
  unfolding keeps_def
proof (intro allI impI)
  fix s assume m: "\<forall>s. P s \<longrightarrow> P (snd (m s))" and f: "\<And>e. \<forall>s. P s \<longrightarrow> P (snd (f e s))"
    and g: "\<And>x. \<forall>s. P s \<longrightarrow> P (snd (g x s))" and s: "P s"
  obtain r s1 where r: "m s = (r, s1)" by force
  with m s have "P s1" by force
  with f g r show "P (snd (catch m f g s))" by (cases r) (simp_all add: catch_def)
qed

lemma keeps_if: "(b \<Longrightarrow> keeps P m) \<Longrightarrow> (\<not> b \<Longrightarrow> keeps P m') \<Longrightarrow> keeps P (if b then m else m')"
  by simp

lemma keeps_world: "keeps (admin_ok E port) (on_world m)"
  by (simp add: keeps_def on_world_def on_part_def split: prod.splits)

lemma keeps_option: "keeps P m \<Longrightarrow> (\<And>x. keeps P (f x)) \<Longrightarrow> keeps P (case v of None \<Rightarrow> m | Some x \<Rightarrow> f x)"
  by (cases v) simp_all

lemma keeps_pair: "(\<And>x y. keeps P (f x y)) \<Longrightarrow> keeps P (case v of (x, y) \<Rightarrow> f x y)"
  by (cases v) simp

lemmas keeps_rules = keeps_seq keeps_catch keeps_pure keeps_world keeps_if keeps_option keeps_pair

lemma keeps_Connect:
  assumes "connString \<noteq> []"
  shows "keeps (admin_ok E port) (admin_Connect E kind connString)"
  unfolding keeps_def
proof (intro allI impI)
  fix s assume s: "admin_ok E port s"
  let ?m = "seq (wrapping ''failed to create storage: '' (on_world (dba_createStorage E kind))) (\<lambda>stor.
      seq (wrapping ''failed to connect to storage: '' (on_world (st_Connect (lv_storage stor) connString))) (\<lambda>_.
      seq (catch (on_world (st_CreateTables (lv_storage stor) (Some createTestSchema))) (\<lambda>e. ret ()) (\<lambda>_. ret ())) (\<lambda>_.
      modify (\<lambda>s. s\<lparr>am_storage := Some stor,
        am_config := (am_config s)\<lparr>cf_StorageType := kind, cf_ConnString := connString, cf_Connected := True\<rparr>,
        am_connected := True\<rparr>))))"
  show "admin_ok E port (snd (admin_Connect E kind connString s))"
  proof (cases "storage_named E kind")
    case None
    then obtain e where "dba_createStorage E kind (am_world s) = (Error e, am_world s)"
      using createStorage_named(2) by blast
    then have "?m s = (Error (Wrap ''failed to create storage: '' e), s)"
      by (simp add: seq_def wrapping_def on_world_def on_part_def)
    then show ?thesis using s by (simp add: admin_Connect_def)
  next
    case (Some stor)
    then obtain w1 where w1: "dba_createStorage E kind (am_world s) = (Ok stor, w1)"
      using createStorage_named(1) by blast
    obtain r2 w2 where w2: "st_Connect (lv_storage stor) connString w1 = (r2, w2)" by force
    obtain r3 w3 where w3: "st_CreateTables (lv_storage stor) (Some createTestSchema) w2 = (r3, w3)" by force
    show ?thesis
      using s w1 w2 w3 Some assms
      by (cases r2; cases r3) (simp_all add: admin_Connect_def seq_def wrapping_def on_world_def on_part_def catch_def
          modify_def ret_def admin_ok_def)
  qed
qed

lemma keeps_Disconnect: "keeps (admin_ok E port) admin_Disconnect"
  unfolding keeps_def
proof (intro allI impI)
  fix s assume s: "admin_ok E port s"
  show "admin_ok E port (snd (admin_Disconnect s))"
  proof (cases "am_storage s")
    case None
    then show ?thesis
      using s by (simp add: admin_Disconnect_def go_simps admin_ok_def split: if_splits)
  next
    case (Some stor)
    obtain r w where r: "st_ResetConnection (lv_storage stor) (am_world s) = (r, w)" by force
    show ?thesis
      using s r Some by (cases r) (simp_all add: admin_Disconnect_def go_simps admin_ok_def on_world_def on_part_def split: if_splits)
  qed
qed

lemma keeps_connected: "keeps P m \<Longrightarrow> keeps P (when_connected m)"
  by (simp add: when_connected_def keeps_rules)

lemma keeps_live: "keeps (admin_ok E port) (on_live f)"
  unfolding on_live_def by (intro keeps_rules)

lemma keeps_table: "(\<And>tbl. keeps P (f tbl)) \<Longrightarrow> keeps P (with_table T f)"
  unfolding with_table_def by (intro keeps_rules)

lemmas keeps_more = keeps_connected keeps_live keeps_table keeps_Disconnect keeps_Connect

lemma keeps_serve: "keeps (admin_ok E port) (admin_serve E r)"
proof -
  have connect: "keeps (admin_ok E port) (handleConnect E r)"
    unfolding handleConnect_def processConnect_def Let_def by (intro keeps_rules keeps_more) simp
  moreover have "keeps (admin_ok E port) (admin_handleHome E r)"
    unfolding admin_handleHome_def by (intro keeps_rules connect)
  moreover have "keeps (admin_ok E port) handleDisconnect"
    unfolding handleDisconnect_def by (intro keeps_rules keeps_more)
  moreover have "keeps (admin_ok E port) (handleAlterTable r)"
    unfolding handleAlterTable_def processAlterTable_def alter_page_def Let_def by (intro keeps_rules keeps_more)
  moreover have "keeps (admin_ok E port) (handleInsert (ae_sql E) r)"
    unfolding handleInsert_def processInsert_def showInsertForm_def showInsertFormWithMessage_def Let_def
    by (intro keeps_rules keeps_more)
  moreover have "keeps (admin_ok E port) handleTables"
    "keeps (admin_ok E port) (handleTable r)" "keeps (admin_ok E port) admin_handleDelete" "keeps (admin_ok E port) (admin_handleStatic r)"
    unfolding handleTables_def handleTable_def admin_handleDelete_def admin_handleStatic_def Let_def
    by (intro keeps_rules keeps_more)+
  moreover have "keeps (admin_ok E port) (ret (ARedirect (aq_Path r @ ''/'')))" by (rule keeps_pure)
  ultimately show ?thesis unfolding admin_serve_def by (intro keeps_if)
qed

lemma run_admin_ok: "admin_ok E port s \<Longrightarrow> admin_ok E port (snd (admin_run E rs s))"
proof (induction rs arbitrary: s)
  case (Cons r rs)
  obtain a s1 where a: "admin_serve E r s = (a, s1)" by force
  with keeps_serve [of E port r] Cons.prems have "admin_ok E port s1" by (force simp: keeps_def)
  from Cons.IH [OF this] a show ?case by (simp add: case_prod_unfold)
qed simp

text \<open>C14: Over any requests, failed connections and forms sent to the home page included, the database
  administration tool either is connected, shows so, and works on the storage of the kind it shows,
  or has no storage and shows no kind and no connection string.\<close>

theorem admin_connection:
  "admin_run E rs (admin_main port w) = (answers, s) \<Longrightarrow>
    cf_Port (am_config s) = port \<and> cf_Connected (am_config s) = am_connected s \<and>
    (if am_connected s
     then storage_named E (cf_StorageType (am_config s)) = am_storage s \<and> am_storage s \<noteq> None \<and> cf_ConnString (am_config s) \<noteq> []
     else am_storage s = None \<and> cf_StorageType (am_config s) = [] \<and> cf_ConnString (am_config s) = [])"
proof -
  assume run: "admin_run E rs (admin_main port w) = (answers, s)"
  have "admin_ok E port (admin_main port w)" by (simp add: admin_ok_def admin_main_def)
  from run_admin_ok [OF this, of rs] run show ?thesis by (simp add: admin_ok_def)
qed

section \<open>The insert form\<close>

lemma test_columns: "plain_table (dba_table ''users'' dba_user_columns)" "plain_table (dba_table ''products'' dba_product_columns)"
  by (simp_all add: plain_table_def plain_column_def wf_table_def wf_map_def mkeys_def mget_def dba_table_def dba_user_columns_def
      dba_product_columns_def zero_column_def field_of_def col_kind_def kind_of_def ToUpper_def upper_char_def
      ToLower_def lower_char_def)

lemma test_schema: "plain_schema createTestSchema" "\<not> mu_writer (sch_mu createTestSchema)"
  "mget (sch_Tables createTestSchema) ''users'' = Some (dba_table ''users'' dba_user_columns)"
  by (simp_all add: plain_schema_def createTestSchema_def test_columns free_mutex_def mget_def) (simp_all add: dba_table_def)

lemma users_no_unique: "no_unique (dba_table ''users'' dba_user_columns)"
  by (simp add: no_unique_def dba_table_def dba_user_columns_def zero_column_def field_of_def mget_def)

text \<open>Connected to an SQLite database with the test tables.\<close>

definition on_sqlite :: "('d, 'c, 'b) admin_env \<Rightarrow> ('d \<Rightarrow> database) \<Rightarrow> ('d, 'c, 'b) stores AdminServer \<Rightarrow> bool" where
  "on_sqlite E rows s \<longleftrightarrow> am_connected s \<and> am_storage s = storage_named E ''sqlite'' \<and>
     serving createTestSchema rows (sw_sql (am_world s))"

lemma tables_info:
  assumes "on_sqlite E rows s"
  shows "getTableInfo s T = (if T = ''users'' then Some (table_info (dba_table ''users'' dba_user_columns))
    else if T = ''products'' then Some (table_info (dba_table ''products'' dba_product_columns)) else None)"
proof -
  have "am_connected s" "am_storage s = Some (sql_value (sqlite_storage (ae_sql E)))" "ad_Sch (sw_sql (am_world s)) = Some createTestSchema"
    using assms by (simp_all add: on_sqlite_def storage_named_def serving_def)
  then have "getTableList s = map (\<lambda>(name, table). table_info table) (entries (sch_Tables createTestSchema))"
    by (simp add: getTableList_def sql_value_def GetSchema_def)
  then show ?thesis
    by (cases "T = ''users''"; cases "T = ''products''") (simp_all add: getTableInfo_def createTestSchema_def table_info_def dba_table_def)
qed

lemma table_infos:
  "table_info (dba_table ''users'' dba_user_columns) = \<lparr>ti_Name = ''users'', ti_Fields =
    [\<lparr>fi_Name = ''id'', fi_DataType = ''TEXT'', fi_Nullable = False\<rparr>, \<lparr>fi_Name = ''name'', fi_DataType = ''TEXT'', fi_Nullable = False\<rparr>,
     \<lparr>fi_Name = ''email'', fi_DataType = ''TEXT'', fi_Nullable = True\<rparr>, \<lparr>fi_Name = ''created_at'', fi_DataType = ''DATETIME'', fi_Nullable = True\<rparr>]\<rparr>"
  "table_info (dba_table ''products'' dba_product_columns) = \<lparr>ti_Name = ''products'', ti_Fields =
    [\<lparr>fi_Name = ''id'', fi_DataType = ''TEXT'', fi_Nullable = False\<rparr>, \<lparr>fi_Name = ''name'', fi_DataType = ''TEXT'', fi_Nullable = False\<rparr>,
     \<lparr>fi_Name = ''price'', fi_DataType = ''REAL'', fi_Nullable = False\<rparr>, \<lparr>fi_Name = ''description'', fi_DataType = ''TEXT'', fi_Nullable = True\<rparr>]\<rparr>"
  by (simp_all add: table_info_def dba_table_def dba_user_columns_def dba_product_columns_def zero_column_def mget_def)

lemma users_info:
  assumes "on_sqlite E rows s"
  shows "getTableInfo s ''users'' = Some \<lparr>ti_Name = ''users'', ti_Fields =
    [\<lparr>fi_Name = ''id'', fi_DataType = ''TEXT'', fi_Nullable = False\<rparr>, \<lparr>fi_Name = ''name'', fi_DataType = ''TEXT'', fi_Nullable = False\<rparr>,
     \<lparr>fi_Name = ''email'', fi_DataType = ''TEXT'', fi_Nullable = True\<rparr>, \<lparr>fi_Name = ''created_at'', fi_DataType = ''DATETIME'', fi_Nullable = True\<rparr>]\<rparr>"
  by (simp add: tables_info [OF assms] table_infos)

text \<open>
  A form that is sent to the insert page: one for the users is saved when it leaves the creation time
  out. The others here are refused: no table or an unknown one, a creation time that is none, a price that is none.
\<close>

definition saves :: "admin_request \<Rightarrow> bool" where
  "saves r \<longleftrightarrow> aq_FormValue r ''table'' = ''users'' \<and> aq_FormValue r ''created_at'' = []"

definition insert_form :: "'e golib_scheme \<Rightarrow> admin_request \<Rightarrow> bool" where
  "insert_form L r \<longleftrightarrow> aq_Path r = ''/insert'' \<and> aq_Method r = ''POST'' \<and>
     (aq_FormValue r ''table'' = ''users'' \<longrightarrow> saves r \<or> datetime_local (aq_FormValue r ''created_at'') = None) \<and>
     (aq_FormValue r ''table'' = ''products'' \<longrightarrow> aq_FormValue r ''price'' \<noteq> [] \<and>
        (\<forall>x. lib_parse_float L (aq_FormValue r ''price'') \<noteq> Ok x))"

definition form_page :: "TableSchema \<Rightarrow> string \<Rightarrow> string \<Rightarrow> string \<Rightarrow> admin_answer" where
  "form_page tbl what field v = APage (InsertPage (tab_TableName tbl) (ti_Fields (table_info tbl))
     (''Invalid '' @ what @ '' value for field '' @ in_quotes field @ '': '' @ v) False)"

definition form_refusal :: "admin_request \<Rightarrow> admin_answer" where
  "form_refusal r = (let T = aq_FormValue r ''table'' in
     if T = [] then name_required
     else if T = ''users'' then form_page (dba_table ''users'' dba_user_columns) ''datetime'' ''created_at'' (aq_FormValue r ''created_at'')
     else if T = ''products'' then form_page (dba_table ''products'' dba_product_columns) ''float'' ''price'' (aq_FormValue r ''price'')
     else table_not_there)"

text \<open>The row that a form asks for, but for its identifier.\<close>

definition form_fields :: "admin_request \<Rightarrow> (string \<times> goval) list" where
  "form_fields r = (''name'', VStr (aq_FormValue r ''name'')) #
     (if aq_FormValue r ''email'' = [] then [] else [(''email'', VStr (aq_FormValue r ''email''))])"

lemma form_object_users:
  assumes "aq_FormValue r ''created_at'' = []"
  obtains obj where "form_object L (aq_FormValue r)
    [\<lparr>fi_Name = ''id'', fi_DataType = ''TEXT'', fi_Nullable = False\<rparr>, \<lparr>fi_Name = ''name'', fi_DataType = ''TEXT'', fi_Nullable = False\<rparr>,
     \<lparr>fi_Name = ''email'', fi_DataType = ''TEXT'', fi_Nullable = True\<rparr>, \<lparr>fi_Name = ''created_at'', fi_DataType = ''DATETIME'', fi_Nullable = True\<rparr>]
    (SetTableName object_New ''users'') = Ok obj"
    and "obj_TableName obj = ''users''" and "obj_ID obj = []" and "non_id (entries (obj_Fields obj)) = form_fields r"
    and "\<forall>(n, v)\<in>set (entries (obj_Fields obj)). has_type v TStr \<or> has_type v TBool"
proof -
  have val: "form_value L \<lparr>fi_Name = n, fi_DataType = ''TEXT'', fi_Nullable = False\<rparr> v = Ok (Some (VStr v))"
    "form_value L \<lparr>fi_Name = n, fi_DataType = ''TEXT'', fi_Nullable = True\<rparr> v = Ok (if v = [] then None else Some (VStr v))"
    "form_value L \<lparr>fi_Name = n, fi_DataType = ''DATETIME'', fi_Nullable = True\<rparr> [] = Ok None" for n v
    by (simp_all add: form_value_def)
  show thesis
    by (rule that [of "SetTableName object_New ''users''
          \<lparr>obj_Fields := GoMap ((''id'', VStr (aq_FormValue r ''id'')) # form_fields r)\<rparr>"])
      (simp_all add: val assms form_fields_def SetTableName_def object_New_def SetField_def make_map_def
        ToLower_def lower_char_def)
qed

lemma form_row:
  assumes "obj_TableName obj = ''users''" and "non_id (entries (obj_Fields obj)) = form_fields r"
    and "\<forall>(n, v)\<in>set (entries (obj_Fields obj)). has_type v TStr \<or> has_type v TBool" and "plain_objects L"
  shows "insertable L (dba_table ''users'' dba_user_columns) obj"
    and "stored L (dba_table ''users'' dba_user_columns) obj = form_fields r"
proof -
  let ?tbl = "dba_table ''users'' dba_user_columns"
  have kinds: "field_of (tab_Fields ?tbl) ''name'' = zero_column\<lparr>col_Name := ''name'', col_DataType := ''TEXT''\<rparr>"
    "field_of (tab_Fields ?tbl) ''email'' = zero_column\<lparr>col_Name := ''email'', col_DataType := ''TEXT'', col_Nullable := True\<rparr>"
    "field_of (tab_Fields ?tbl) ''created_at'' = zero_column\<lparr>col_Name := ''created_at'', col_DataType := ''DATETIME'', col_Nullable := True\<rparr>"
    "tab_FieldOrder ?tbl = [''id'', ''name'', ''email'', ''created_at'']" "tab_TableName ?tbl = ''users''"
    by (simp_all add: dba_table_def dba_user_columns_def zero_column_def field_of_def mget_def)
  have bind: "bind_value L n (field_of (tab_Fields ?tbl) n) v = Ok v" if "n \<in> set [''name'', ''email'']" for n v
    using that by (auto simp: bind_value_def kinds zero_column_def ToLower_def lower_char_def)
  show st: "stored L ?tbl obj = form_fields r"
    unfolding stored_def assms(2) by (simp add: form_fields_def bind)
  have "is_ok (lib_json_object L obj)" using assms(3,4) by (simp add: plain_objects_def)
  moreover have "whole_row ?tbl (form_fields r)"
    by (simp add: whole_row_def good_values_def form_fields_def kinds fits_def zero_column_def col_kind_def kind_of_def
        ToUpper_def upper_char_def)
  moreover have "is_ok (bind_value L n (field_of (tab_Fields ?tbl) n) v)" if "(n, v) \<in> set (form_fields r)" for n v
  proof -
    have "n \<in> set [''name'', ''email'']" using that by (auto simp: form_fields_def split: if_splits)
    from bind [OF this] show ?thesis by simp
  qed
  ultimately show "insertable L ?tbl obj"
    using assms(1) st kinds(5) by (auto simp: insertable_def assms(2))
qed

lemma insert_request:
  assumes s: "on_sqlite E rows s" and eng: "sqlite_serves (ae_sql E) rows createTestSchema" and r: "insert_form (ae_sql E) r" "saves r"
    and L: "plain_objects (ae_sql E)"
  obtains data s' where "admin_serve E r s = (Ok (ARedirect (''/table/users?inserted=true&id='' @ data)), s')"
    and "on_sqlite E rows s'"
    and "rows (drv (sw_sql (am_world s'))) = (rows (drv (sw_sql (am_world s))))(''users'' :=
      (rows (drv (sw_sql (am_world s))) ''users'')([] \<mapsto> new_row [] (form_fields r)))"
proof -
  let ?w = "sw_sql (am_world s)" and ?tbl = "dba_table ''users'' dba_user_columns"
  have w: "serving createTestSchema rows ?w" using s by (simp add: on_sqlite_def)
  note T = serving_table [OF test_schema(1) w test_schema(3)]
  have form: "aq_Path r = ''/insert''" "aq_Method r = ''POST''" "aq_FormValue r ''table'' = ''users''" "aq_FormValue r ''created_at'' = []"
    using r by (simp_all add: insert_form_def saves_def)
  obtain obj where obj: "form_object (ae_sql E) (aq_FormValue r)
    [\<lparr>fi_Name = ''id'', fi_DataType = ''TEXT'', fi_Nullable = False\<rparr>, \<lparr>fi_Name = ''name'', fi_DataType = ''TEXT'', fi_Nullable = False\<rparr>,
     \<lparr>fi_Name = ''email'', fi_DataType = ''TEXT'', fi_Nullable = True\<rparr>, \<lparr>fi_Name = ''created_at'', fi_DataType = ''DATETIME'', fi_Nullable = True\<rparr>]
    (SetTableName object_New ''users'') = Ok obj"
    and o2: "obj_TableName obj = ''users''" and o3: "obj_ID obj = []" and o4: "non_id (entries (obj_Fields obj)) = form_fields r"
    and o5: "\<forall>(n, v)\<in>set (entries (obj_Fields obj)). has_type v TStr \<or> has_type v TBool"
    by (rule form_object_users [OF form(4)])
  note row = form_row [OF o2 o4 o5 L]
  obtain data d where ins: "sqlite_Insert (ae_sql E) obj ?w = (Ok (data, True), ?w\<lparr>drv := d\<rparr>)"
    and d: "rows d = (rows (drv ?w))(''users'' := (rows (drv ?w) ''users'')([] \<mapsto> new_row [] (form_fields r)))"
    using refine_insert [OF T(2) [OF eng [unfolded sqlite_serves_handle]] TrueI T(1,4) row(1)] unfolding row(2) o3 T(3) no_unique_simps(2) [OF users_no_unique] by blast
  have "whole_row ?tbl (form_fields r)" using row by (simp add: insertable_def)
  from store_fits_upd [OF T(5) new_row_fits [OF this]]
  have w': "serving createTestSchema rows (?w\<lparr>drv := d\<rparr>)"
    using T(7) [of d "(rows (drv ?w) ''users'')([] \<mapsto> new_row [] (form_fields r))"] d T(3) by simp
  let ?s = "s\<lparr>am_world := (am_world s)\<lparr>sw_sql := ?w\<lparr>drv := d\<rparr>\<rparr>\<rparr>"
  have live: "am_connected s" "am_storage s = Some (sql_value (sqlite_storage (ae_sql E)))"
    using s by (simp_all add: on_sqlite_def storage_named_def)
  have call: "on_live (\<lambda>st. st_Insert st obj) s = (Ok (data, True), ?s)"
    using ins live(2) by (simp add: on_live_def gets_def seq_def on_world_def on_part_def sql_value_def storage_part_def sqlite_storage_def)
  have "admin_serve E r s = processInsert (ae_sql E) r s"
    using form live(1) by (simp add: admin_serve_def handleInsert_def when_connected_def gets_def seq_def HasPrefix_def)
  also have "\<dots> = (Ok (ARedirect (''/table/users?inserted=true&id='' @ data)), ?s)"
    using form(3) obj call
    by (simp add: processInsert_def with_table_def seq_def gets_def users_info [OF s] pure_def catch_def ret_def Let_def
        del: form_object.simps)
  finally have run: "admin_serve E r s = (Ok (ARedirect (''/table/users?inserted=true&id='' @ data)), ?s)" .
  show thesis
    by (rule that [OF run]) (use s w' d in \<open>simp_all add: on_sqlite_def\<close>)
qed

text \<open>A form that is refused changes nothing.\<close>

lemma form_names: "tab_TableName (dba_table n cs) = n"
  by (simp add: dba_table_def)

lemma refuse_users:
  assumes "v ''created_at'' \<noteq> []" and "datetime_local (v ''created_at'') = None"
  shows "form_object L v (ti_Fields (table_info (dba_table ''users'' dba_user_columns))) (SetTableName object_New ''users'') =
    Error (Err (''Invalid datetime value for field '' @ in_quotes ''created_at'' @ '': '' @ v ''created_at''))"
  using assms by (simp add: table_infos form_value_def invalid_value_def SetTableName_def object_New_def SetField_def make_map_def)

lemma refuse_products:
  assumes "v ''price'' \<noteq> []" and "\<forall>x. lib_parse_float L (v ''price'') \<noteq> Ok x"
  shows "form_object L v (ti_Fields (table_info (dba_table ''products'' dba_product_columns))) (SetTableName object_New ''products'') =
    Error (Err (''Invalid float value for field '' @ in_quotes ''price'' @ '': '' @ v ''price''))"
  using assms by (cases "lib_parse_float L (v ''price'')")
    (simp_all add: table_infos form_value_def invalid_value_def SetTableName_def object_New_def SetField_def make_map_def)

lemma refuse_request:
  assumes s: "on_sqlite E rows s" and r: "insert_form (ae_sql E) r" "\<not> saves r"
  shows "admin_serve E r s = (Ok (form_refusal r), s)"
proof -
  let ?T = "aq_FormValue r ''table''"
  have "admin_serve E r s = processInsert (ae_sql E) r s"
    using r(1) s by (simp add: insert_form_def on_sqlite_def admin_serve_def handleInsert_def when_connected_def gets_def seq_def HasPrefix_def)
  also have "\<dots> = (Ok (form_refusal r), s)"
  proof -
    have here: "with_table T f s = f info s" if "getTableInfo s T = Some info" and "T \<noteq> []"
      for T info and f :: "TableInfo \<Rightarrow> (('a, 'b, 'c) stores AdminServer, admin_answer) go"
      using that by (simp add: with_table_def seq_def gets_def)
    have refused: "processInsert (ae_sql E) r s = (Ok (APage (InsertPage ?T (ti_Fields info) msg False)), s)"
      if "getTableInfo s ?T = Some info" and "?T \<noteq> []" and
        "form_object (ae_sql E) (aq_FormValue r) (ti_Fields info) (SetTableName object_New ?T) = Error (Err msg)" for info msg
      unfolding processInsert_def Let_def here [OF that(1,2)]
      by (simp add: that(3) pure_def catch_def showInsertFormWithMessage_def Let_def here [OF that(1,2)] ret_def)
    consider "?T = ''users''" | "?T = ''products''" | "?T \<notin> set [''users'', ''products'']" by auto
    then show ?thesis
    proof cases
      case 1
      with r have "aq_FormValue r ''created_at'' \<noteq> []" "datetime_local (aq_FormValue r ''created_at'') = None"
        by (simp_all add: insert_form_def saves_def)
      note refuse = refuse_users [where v = "aq_FormValue r" and L = "ae_sql E", OF this]
      show ?thesis
        using refused [OF _ _ refuse [folded 1]] 1 by (simp add: tables_info [OF s] form_refusal_def form_page_def form_names Let_def)
    next
      case 2
      with r have "aq_FormValue r ''price'' \<noteq> []" "\<forall>x. lib_parse_float (ae_sql E) (aq_FormValue r ''price'') \<noteq> Ok x"
        by (simp_all add: insert_form_def)
      note refuse = refuse_products [where v = "aq_FormValue r" and L = "ae_sql E", OF this]
      show ?thesis
        using refused [OF _ _ refuse [folded 2]] 2 by (simp add: tables_info [OF s] form_refusal_def form_page_def form_names Let_def)
    next
      case 3
      then show ?thesis
        by (simp add: processInsert_def Let_def with_table_def seq_def gets_def tables_info [OF s] ret_def form_refusal_def)
    qed
  qed
  finally show ?thesis .
qed

text \<open>The page that shows the table, with the word that a record was inserted.\<close>

definition inserted :: "admin_answer result \<Rightarrow> bool" where
  "inserted a \<longleftrightarrow> (\<exists>url. a = Ok (ARedirect (''/table/users?inserted=true&id='' @ url)))"

definition form_answered :: "admin_request \<Rightarrow> admin_answer result \<Rightarrow> bool" where
  "form_answered r a \<longleftrightarrow> (if saves r then inserted a else a = Ok (form_refusal r))"

text \<open>The users after the forms: the last record saved is the only one that any of them left.\<close>

definition after_forms :: "admin_request list \<Rightarrow> database \<Rightarrow> database" where
  "after_forms rs D = (if filter saves rs = [] then D
     else D(''users'' := (D ''users'')([] \<mapsto> new_row [] (form_fields (last (filter saves rs))))))"

lemma after_forms_Cons:
  "\<not> saves r \<Longrightarrow> after_forms (r # rs) D = after_forms rs D"
  "saves r \<Longrightarrow> after_forms (r # rs) D = after_forms rs (D(''users'' := (D ''users'')([] \<mapsto> new_row [] (form_fields r))))"
  by (simp_all add: after_forms_def)

lemma insert_requests:
  assumes "on_sqlite E rows s" and eng: "sqlite_serves (ae_sql E) rows createTestSchema" and L: "plain_objects (ae_sql E)"
    and "\<forall>r\<in>set rs. insert_form (ae_sql E) r"
  shows "\<exists>answers s'. admin_run E rs s = (answers, s') \<and> list_all2 form_answered rs answers \<and>
    rows (drv (sw_sql (am_world s'))) = after_forms rs (rows (drv (sw_sql (am_world s))))"
  using assms(1,4)
proof (induction rs arbitrary: s)
  case Nil
  then show ?case by (simp add: after_forms_def)
next
  case (Cons r rs)
  have r: "insert_form (ae_sql E) r" and rs: "\<forall>r\<in>set rs. insert_form (ae_sql E) r" using Cons.prems(2) by simp_all
  obtain a s1 where s1: "admin_serve E r s = (a, s1)" "on_sqlite E rows s1" "form_answered r a"
      "after_forms (r # rs) (rows (drv (sw_sql (am_world s)))) = after_forms rs (rows (drv (sw_sql (am_world s1))))"
  proof (cases "saves r")
    case True
    obtain data s1 where s1: "admin_serve E r s = (Ok (ARedirect (''/table/users?inserted=true&id='' @ data)), s1)" "on_sqlite E rows s1"
      "rows (drv (sw_sql (am_world s1))) = (rows (drv (sw_sql (am_world s))))(''users'' :=
        (rows (drv (sw_sql (am_world s))) ''users'')([] \<mapsto> new_row [] (form_fields r)))"
      by (rule insert_request [OF Cons.prems(1) eng r True L])
    then have "form_answered r (Ok (ARedirect (''/table/users?inserted=true&id='' @ data)))"
      using True unfolding form_answered_def inserted_def by simp
    with that s1 show thesis by (simp add: after_forms_Cons(2) [OF True])
  next
    case False
    with that [OF refuse_request [OF Cons.prems(1) r False] Cons.prems(1)] show thesis
      by (simp add: form_answered_def after_forms_Cons(1))
  qed
  from Cons.IH [OF s1(2) rs] obtain answers s2 where "admin_run E rs s1 = (answers, s2)" "list_all2 form_answered rs answers"
      "rows (drv (sw_sql (am_world s2))) = after_forms rs (rows (drv (sw_sql (am_world s1))))" by blast
  with s1 show ?case by (intro exI [of _ "a # answers"] exI [of _ s2]) simp
qed

text \<open>A connection to an SQLite file, made with the form of the connect page or of the home page.\<close>

definition sqlite_form :: "admin_request \<Rightarrow> bool" where
  "sqlite_form r \<longleftrightarrow> aq_Path r \<in> {''/connect'', ''/''} \<and> aq_Method r = ''POST'' \<and> aq_FormValue r ''storageType'' = ''sqlite'' \<and>
     aq_FormValue r ''connString'' \<noteq> []"

lemma connect_request:
  assumes "sqlite_opens (ae_sql E) rows" and "sqlite_creates (ae_sql E) rows createTestSchema"
    and w: "fresh_process createTestSchema rows (sw_sql (am_world s))" and c: "sqlite_form c" and none: "\<not> am_connected s"
  obtains s' where "admin_serve E c s = (Ok (ARedirect ''/''), s')" and "on_sqlite E rows s'"
    and "rows (drv (sw_sql (am_world s'))) = rows (drv (sw_sql (am_world s)))"
proof -
  let ?new = "sqlite_New (sw_sql (am_world s))"
  have "fresh_process createTestSchema rows ?new"
    using w by (simp add: fresh_process_def sqlite_New_def NewBaseSQLStorage_def)
  then obtain w1 w2 where w12: "sqlite_Connect (ae_sql E) (aq_FormValue c ''connString'') ?new = (Ok (), w1)"
      "sqlite_CreateTables (ae_sql E) (Some createTestSchema) w1 = (Ok (), w2)"
      "serving createTestSchema rows w2" "rows (drv w2) = rows (drv ?new)"
    using sqlite_startup [OF assms(1,2)] by blast
  let ?stor = "sql_value (sqlite_storage (ae_sql E))"
  let ?s = "s\<lparr>am_storage := Some ?stor, am_config := (am_config s)\<lparr>cf_StorageType := ''sqlite'',
    cf_ConnString := aq_FormValue c ''connString'', cf_Connected := True\<rparr>, am_connected := True,
    am_world := (am_world s)\<lparr>sw_sql := w2\<rparr>\<rparr>"
  have new: "dba_createStorage E ''sqlite'' v = (Ok ?stor, v\<lparr>sw_sql := sqlite_New (sw_sql v)\<rparr>)" for v
    by (simp add: dba_createStorage_def sql_live_def sql_value_def go_simps)
  have conn: "admin_Connect E ''sqlite'' (aq_FormValue c ''connString'') s = (Ok (), ?s)"
    using w12 by (simp add: admin_Connect_def seq_def wrapping_def on_world_def on_part_def catch_def modify_def ret_def new)
      (simp add: sql_value_def storage_part_def sqlite_storage_def on_part_def)
  have "admin_serve E c s = processConnect E c s"
    using c none by (auto simp: admin_serve_def sqlite_form_def handleConnect_def admin_handleHome_def seq_def gets_def HasPrefix_def)
  also have "\<dots> = (Ok (ARedirect ''/''), ?s)"
    using c conn by (simp add: processConnect_def Let_def sqlite_form_def catch_def ret_def)
  finally have "admin_serve E c s = (Ok (ARedirect ''/''), ?s)" .
  then show thesis
    by (rule that) (use w12 in \<open>simp_all add: on_sqlite_def storage_named_def sqlite_New_def NewBaseSQLStorage_def\<close>)
qed

text \<open>C12: After connecting to an SQLite file, forms of two kinds are sent to the insert page of the
  database administration tool, any number in any order: those for the users without a creation
  time, and forms that are refused (without a table or for an unknown one, with a creation time or a
  price that cannot be read). Every record for the users is reported as inserted, but only the last
  one is kept: the form never sets the identifier of the object, so that each record is stored under
  the empty identifier and replaces the one before. Each refused form is answered by its error and
  changes nothing.\<close>

theorem admin_insert_overwrites:
  assumes "sqlite_opens (ae_sql E) rows" and "sqlite_creates (ae_sql E) rows createTestSchema"
    and "fresh_process createTestSchema rows (sw_sql w)" and "sqlite_serves (ae_sql E) rows createTestSchema"
    and "plain_objects (ae_sql E)" and "sqlite_form c" and "\<forall>r\<in>set rs. insert_form (ae_sql E) r"
  shows "\<exists>answers s. admin_run E (c # rs) (admin_main port w) = (Ok (ARedirect ''/'') # answers, s) \<and>
    list_all2 form_answered rs answers \<and>
    rows (drv (sw_sql (am_world s))) = after_forms rs (rows (drv (sw_sql w)))"
proof -
  have w: "fresh_process createTestSchema rows (sw_sql (am_world (admin_main port w)))"
    and none: "\<not> am_connected (admin_main port w)"
    using assms(3) by (simp_all add: admin_main_def)
  obtain s1 where s1: "admin_serve E c (admin_main port w) = (Ok (ARedirect ''/''), s1)" "on_sqlite E rows s1"
      "rows (drv (sw_sql (am_world s1))) = rows (drv (sw_sql (am_world (admin_main port w))))"
    by (rule connect_request [OF assms(1,2) w assms(6) none])
  from insert_requests [OF s1(2) assms(4,5,7)] obtain answers s2 where
    s2: "admin_run E rs s1 = (answers, s2)" "list_all2 form_answered rs answers"
      "rows (drv (sw_sql (am_world s2))) = after_forms rs (rows (drv (sw_sql (am_world s1))))"
    by blast
  then show ?thesis using s1(1,3) by (simp add: admin_main_def)
qed

section \<open>What the pages list\<close>

text \<open>The SQL adapters give the state a schema only in \<open>CreateTables\<close>.\<close>

definition only_schema :: "Schema option \<Rightarrow> 'd crst \<Rightarrow> bool" where
  "only_schema S w \<longleftrightarrow> ad_Sch w = None \<or> ad_Sch w = S"

lemma only_schema_sqlst [simp]:
  "only_schema S (w\<lparr>drv := d\<rparr>) = only_schema S w" "only_schema S (w\<lparr>db_closed := c\<rparr>) = only_schema S w"
  "only_schema S (w\<lparr>ad_DB := db\<rparr>) = only_schema S w" "only_schema S (w\<lparr>ad_TM_DB := db\<rparr>) = only_schema S w"
  "only_schema S (w\<lparr>cr_pool := p\<rparr>) = only_schema S w"
  by (simp_all add: only_schema_def)

lemma keeps_sql:
  "keeps (only_schema S) (on_driver f)" "keeps (only_schema S) (SetDB db)" "keeps (only_schema S) (SetSchema S)"
  "keeps (only_schema S) (modify (\<lambda>w. w\<lparr>cr_pool := p\<rparr>))"
  by (simp_all add: keeps_def on_driver_def SetDB_def SetSchema_def modify_def split: prod.splits) (simp add: only_schema_def)

lemma keeps_wrapping: "keeps P m \<Longrightarrow> keeps P (wrapping s m)"
  by (simp add: keeps_def wrapping_def case_prod_unfold)

lemma keeps_each: "(\<And>x. keeps P (f x)) \<Longrightarrow> keeps P (each f xs)"
  by (induction xs) (simp_all add: keeps_rules)

lemma keeps_handle:
  "(\<And>c. keeps (only_schema S) (k c)) \<Longrightarrow> keeps (only_schema S) (use_db db k)"
  "keeps (only_schema S) (db_Close E n)"
proof -
  show "keeps (only_schema S) (use_db db k)" if "\<And>c. keeps (only_schema S) (k c)"
    using that by (simp add: keeps_def use_db_def split: option.splits)
  have "keeps (only_schema S) (on_driver (drv_close E n))" by (rule keeps_sql)
  then show "keeps (only_schema S) (db_Close E n)" by (simp add: keeps_def db_Close_def)
qed

lemmas sql_code =
  sql_Open_def db_Ping_def db_Exec_def sql_Exec_def exec_only_def Base_ValidateConnection_def Base_ValidateSchema_def
  Base_GetTable_def Base_ResetConnection_def close_handle_def require_connection_def require_schema_def require_pool_def
  lookup_table_def create_each_def Let_def RowsAffected_def

lemmas keeps_code = keeps_rules keeps_wrapping keeps_each keeps_handle keeps_sql

definition schema_kept :: "'d crst Storage \<Rightarrow> bool" where
  "schema_kept st \<longleftrightarrow> (\<forall>S. (\<forall>c. keeps (only_schema S) (st_Connect st c)) \<and> keeps (only_schema S) (st_CreateTables st S) \<and>
     (\<forall>obj. keeps (only_schema S) (st_Insert st obj)) \<and> keeps (only_schema S) (st_ResetConnection st) \<and>
     (\<forall>T c d n. keeps (only_schema S) (st_AlterTable st T c d n)))"

lemma schema_kept:
  "schema_kept (sqlite_storage E)" "schema_kept (postgres_storage E)" "schema_kept (yugabyte_storage E)" "schema_kept (tidb_storage E)"
  "schema_kept (sqlserver_storage E)"
  unfolding schema_kept_def sqlite_storage_def postgres_storage_def yugabyte_storage_def tidb_storage_def sqlserver_storage_def
    Storage.select_convs sql_code
    sqlite_Connect_def sqlite_CreateTables_def sqlite_Insert_def sqlite_ResetConnection_def sqlite_AlterTable_def
    postgres_Connect_def postgres_CreateTables_def postgres_Insert_def postgres_ResetConnection_def postgres_AlterTable_def
    yugabyte_Connect_def yugabyte_CreateTables_def yugabyte_Insert_def yugabyte_ResetConnection_def yugabyte_AlterTable_def
    tidb_Connect_def tidb_CreateTables_def tidb_Insert_def tidb_ResetConnection_def tidb_AlterTable_def
    sqlserver_Connect_def sqlserver_CreateTables_def sqlserver_Insert_def sqlserver_ResetConnection_def sqlserver_AlterTable_def
  by (intro allI conjI keeps_code)+

lemma schema_kept_pool: "schema_kept (cockroach_storage E)"
  unfolding schema_kept_def cockroach_storage_def Storage.select_convs sql_code
    cockroach_Connect_def cockroach_CreateTables_def cockroach_Insert_def cockroach_ResetConnection_def cockroach_AlterTable_def
  by (intro allI conjI keeps_code)

lemma schema_kept_oracle: "schema_kept (oracle_storage E)"
  unfolding schema_kept_def oracle_storage_def Storage.select_convs sql_code
    oracle_Connect_def oracle_CreateTables_def oracle_create_table_def oracle_Insert_def oracle_insert_or_update_def
    oracle_ResetConnection_def oracle_AlterTable_def db_QueryRow_def sql_QueryRow_def
  by (intro allI conjI keeps_code)

text \<open>The storages of the tool keep the schema of the SQL adapters to the test schema.\<close>

definition test_tables :: "('d, 'c, 'b) stores \<Rightarrow> bool" where
  "test_tables w \<longleftrightarrow> only_schema (Some createTestSchema) (sw_sql w)"

lemma keeps_sql_part: "keeps (only_schema (Some createTestSchema)) m \<Longrightarrow> keeps test_tables (on_part sw_sql (\<lambda>v w. w\<lparr>sw_sql := v\<rparr>) m)"
  by (simp add: keeps_def test_tables_def on_part_def case_prod_unfold)

lemma keeps_other_part:
  "keeps test_tables (on_part sw_scylla (\<lambda>v w. w\<lparr>sw_scylla := v\<rparr>) m)"
  "keeps test_tables (on_part sw_s3 (\<lambda>v w. w\<lparr>sw_s3 := v\<rparr>) m')"
  by (simp_all add: keeps_def test_tables_def on_part_def case_prod_unfold)

definition tables_kept :: "('d, 'c, 'b) stores live \<Rightarrow> bool" where
  "tables_kept stor \<longleftrightarrow> (\<forall>c. keeps test_tables (st_Connect (lv_storage stor) c)) \<and>
     keeps test_tables (st_CreateTables (lv_storage stor) (Some createTestSchema)) \<and>
     (\<forall>obj. keeps test_tables (st_Insert (lv_storage stor) obj)) \<and> keeps test_tables (st_ResetConnection (lv_storage stor)) \<and>
     (\<forall>T c d n. keeps test_tables (st_AlterTable (lv_storage stor) T c d n))"

lemma sql_value_kept: "schema_kept st \<Longrightarrow> tables_kept (sql_value st)"
  unfolding schema_kept_def tables_kept_def sql_value_def storage_part_def by (simp add: keeps_sql_part)

lemma named_kept: "storage_named E kind = Some stor \<Longrightarrow> tables_kept stor"
proof -
  assume named: "storage_named E kind = Some stor"
  have "\<forall>(kind, stor)\<in>set
     [(''sqlite'', sql_value (sqlite_storage (ae_sql E))), (''postgres'', sql_value (postgres_storage (ae_sql E))),
      (''sqlserver'', sql_value (sqlserver_storage (ae_sql E))), (''oracle'', sql_value (oracle_storage (ae_oracle E))),
      (''cockroach'', sql_value (cockroach_storage (ae_sql E))), (''yugabyte'', sql_value (yugabyte_storage (ae_sql E))),
      (''tidb'', sql_value (tidb_storage (ae_sql E))),
      (''scylla'', \<lparr>lv_storage = storage_part sw_scylla (\<lambda>v w. w\<lparr>sw_scylla := v\<rparr>) (scylla_storage (ae_scylla E)), lv_schema = None\<rparr>),
      (''s3'', \<lparr>lv_storage = storage_part sw_s3 (\<lambda>v w. w\<lparr>sw_s3 := v\<rparr>) (s3_storage (ae_s3 E) (ae_s3_pages E)), lv_schema = None\<rparr>)].
     tables_kept stor"
    by (simp add: sql_value_kept schema_kept schema_kept_pool schema_kept_oracle)
      (simp add: tables_kept_def storage_part_def keeps_other_part)
  with map_of_SomeD [OF named [unfolded storage_named_def]] show ?thesis by blast
qed

lemma createStorage_tables: "dba_createStorage E kind w = (Ok stor, w') \<Longrightarrow> test_tables w \<Longrightarrow> test_tables w'"
  by (auto simp: dba_createStorage_def sql_live_def go_simps test_tables_def only_schema_def NewBaseSQLStorage_def
      sqlite_New_def postgres_New_def sqlserver_New_def oracle_New_def cockroach_New_def yugabyte_New_def tidb_New_def split: if_splits)

lemma storages_back_tables: "test_tables w \<Longrightarrow> test_tables (storages_back w w')"
  by (simp add: test_tables_def storages_back_def only_schema_def)

definition admin_inv :: "('d, 'c, 'b) admin_env \<Rightarrow> int \<Rightarrow> ('d, 'c, 'b) stores AdminServer \<Rightarrow> bool" where
  "admin_inv E port s \<longleftrightarrow> admin_ok E port s \<and> test_tables (am_world s)"

lemma keeps_snd: "keeps P m \<Longrightarrow> m w = (r, w') \<Longrightarrow> P w \<Longrightarrow> P w'"
  by (force simp: keeps_def)

lemma inv_Connect:
  assumes "connString \<noteq> []"
  shows "keeps (admin_inv E port) (admin_Connect E kind connString)"
  unfolding keeps_def
proof (intro allI impI)
  fix s assume s: "admin_inv E port s"
  have ok: "admin_ok E port (snd (admin_Connect E kind connString s))"
    using keeps_Connect [OF assms, of E port kind] s by (simp add: keeps_def admin_inv_def)
  have w0: "test_tables (am_world s)" using s by (simp add: admin_inv_def)
  have "test_tables (am_world (snd (admin_Connect E kind connString s)))"
  proof (cases "storage_named E kind")
    case None
    then obtain e where "dba_createStorage E kind (am_world s) = (Error e, am_world s)"
      using createStorage_named(2) by blast
    then show ?thesis
      using storages_back_tables [OF w0]
      by (simp add: admin_Connect_def seq_def wrapping_def on_world_def on_part_def)
  next
    case (Some stor)
    then obtain w1 where w1: "dba_createStorage E kind (am_world s) = (Ok stor, w1)"
      using createStorage_named(1) by blast
    obtain r2 w2 where w2: "st_Connect (lv_storage stor) connString w1 = (r2, w2)" by force
    obtain r3 w3 where w3: "st_CreateTables (lv_storage stor) (Some createTestSchema) w2 = (r3, w3)" by force
    have kept: "keeps test_tables (st_Connect (lv_storage stor) connString)"
      "keeps test_tables (st_CreateTables (lv_storage stor) (Some createTestSchema))"
      using named_kept [OF Some] by (simp_all add: tables_kept_def)
    have "test_tables w1" by (rule createStorage_tables [OF w1 w0])
    from keeps_snd [OF kept(1) w2 this] have "test_tables w2" .
    from keeps_snd [OF kept(2) w3 this] have "test_tables w3" .
    with w1 w2 w3 storages_back_tables [OF w0] show ?thesis
      by (cases r2; cases r3) (simp_all add: admin_Connect_def seq_def wrapping_def on_world_def on_part_def catch_def
          modify_def ret_def)
  qed
  with ok show "admin_inv E port (snd (admin_Connect E kind connString s))" by (simp add: admin_inv_def)
qed

lemma inv_live:
  assumes "\<And>stor. tables_kept stor \<Longrightarrow> keeps test_tables (f (lv_storage stor))"
  shows "keeps (admin_inv E port) (on_live f)"
  unfolding keeps_def
proof (intro allI impI)
  fix s assume s: "admin_inv E port s"
  have ok: "admin_ok E port (snd (on_live f s))"
    using keeps_live [of E port f] s by (simp add: keeps_def admin_inv_def)
  have "test_tables (am_world (snd (on_live f s)))"
  proof (cases "am_storage s")
    case None
    then show ?thesis using s by (simp add: on_live_def go_simps admin_inv_def)
  next
    case (Some stor)
    then have "storage_named E (cf_StorageType (am_config s)) = Some stor"
      using s by (auto simp: admin_inv_def admin_ok_def split: if_splits)
    from assms [OF named_kept [OF this]] have k: "keeps test_tables (f (lv_storage stor))" .
    obtain r w where "f (lv_storage stor) (am_world s) = (r, w)" by force
    with keeps_snd [OF k this] s Some show ?thesis
      by (simp add: on_live_def go_simps on_world_def on_part_def admin_inv_def)
  qed
  with ok show "admin_inv E port (snd (on_live f s))" by (simp add: admin_inv_def)
qed

lemma inv_Disconnect: "keeps (admin_inv E port) admin_Disconnect"
  unfolding keeps_def
proof (intro allI impI)
  fix s assume s: "admin_inv E port s"
  have ok: "admin_ok E port (snd (admin_Disconnect s))"
    using keeps_Disconnect [of E port] s by (simp add: keeps_def admin_inv_def)
  have "test_tables (am_world (snd (admin_Disconnect s)))"
  proof (cases "am_storage s")
    case None
    then show ?thesis using s by (simp add: admin_Disconnect_def go_simps admin_inv_def)
  next
    case (Some stor)
    then have "storage_named E (cf_StorageType (am_config s)) = Some stor"
      using s by (auto simp: admin_inv_def admin_ok_def split: if_splits)
    from named_kept [OF this] have k: "keeps test_tables (st_ResetConnection (lv_storage stor))" by (simp add: tables_kept_def)
    obtain r w where r: "st_ResetConnection (lv_storage stor) (am_world s) = (r, w)" by force
    from keeps_snd [OF k r] s have "test_tables w" by (simp add: admin_inv_def)
    with r Some show ?thesis
      by (cases r) (simp_all add: admin_Disconnect_def go_simps on_world_def on_part_def)
  qed
  with ok show "admin_inv E port (snd (admin_Disconnect s))" by (simp add: admin_inv_def)
qed

lemma inv_calls:
  "keeps (admin_inv E port) (on_live (\<lambda>st. st_Insert st obj))"
  "keeps (admin_inv E port) (on_live (\<lambda>st. st_AlterTable st T c d n))"
  by (rule inv_live, simp add: tables_kept_def)+

lemmas inv_rules = keeps_seq keeps_catch keeps_pure keeps_if keeps_option keeps_pair keeps_connected keeps_table
  inv_Connect inv_Disconnect inv_calls

lemma inv_serve: "keeps (admin_inv E port) (admin_serve E r)"
  unfolding admin_serve_def handleConnect_def processConnect_def handleDisconnect_def handleAlterTable_def
    processAlterTable_def alter_page_def handleInsert_def processInsert_def showInsertForm_def showInsertFormWithMessage_def
    admin_handleHome_def handleTables_def handleTable_def admin_handleDelete_def admin_handleStatic_def Let_def
  by (intro inv_rules) simp_all

lemma run_inv: "admin_inv E port s \<Longrightarrow> admin_inv E port (snd (admin_run E rs s))"
proof (induction rs arbitrary: s)
  case (Cons r rs)
  obtain a s1 where a: "admin_serve E r s = (a, s1)" by force
  from keeps_snd [OF inv_serve a] Cons.prems have "admin_inv E port s1" .
  from Cons.IH [OF this] a show ?case by (simp add: case_prod_unfold)
qed simp

text \<open>C13: Whatever is connected, altered and inserted, the pages of the database administration tool list
  no tables at all, which is always so on ScyllaDB and S3, or exactly the two test tables with their
  original columns: a column added with the form is never shown.\<close>

theorem admin_pages_list:
  assumes "ad_Sch (sw_sql w) = None" and run: "admin_run E rs (admin_main port w) = (answers, s)"
  shows "getTableList s = [] \<or>
    cf_StorageType (am_config s) \<notin> {''scylla'', ''s3''} \<and> getTableList s = map (table_info \<circ> snd) (entries (sch_Tables createTestSchema))"
proof -
  have "admin_inv E port (admin_main port w)"
    using assms(1) by (simp add: admin_inv_def admin_ok_def admin_main_def test_tables_def only_schema_def)
  from run_inv [OF this, of rs] run have inv: "admin_ok E port s" "test_tables (am_world s)" by (simp_all add: admin_inv_def)
  show ?thesis
  proof (cases "am_connected s")
    case True
    then obtain stor where stor: "am_storage s = Some stor" "storage_named E (cf_StorageType (am_config s)) = Some stor"
      using inv(1) by (auto simp: admin_ok_def)
    have "lv_schema stor = (if cf_StorageType (am_config s) \<in> {''scylla'', ''s3''} then None else Some (\<lambda>w. GetSchema (sw_sql w)))"
      using stor(2) by (auto simp: storage_named_def sql_value_def split: if_splits)
    moreover have "ad_Sch (sw_sql (am_world s)) = None \<or> ad_Sch (sw_sql (am_world s)) = Some createTestSchema"
      using inv(2) by (simp add: test_tables_def only_schema_def)
    ultimately show ?thesis
      using True stor(1) by (auto simp: getTableList_def GetSchema_def case_prod_unfold split: if_splits)
  qed (simp add: getTableList_def)
qed

section \<open>Witnesses\<close>

text \<open>The in-memory engine for the SQL adapters; the other two kinds have nothing behind them.\<close>

definition pooled :: "tables env \<Rightarrow> tables crenv" where
  "pooled e = env.extend e (crenv.fields (\<lambda>c d. (Ok 1, d)) (\<lambda>n d. (Ok 1, d)) (\<lambda>n q args d. (Ok 0, d))
     (\<lambda>n q args ts d. (Error ErrNoRows, d)) (\<lambda>n d. (Ok (), d)))"

definition ranged :: "tables env \<Rightarrow> tables orenv" where
  "ranged e = env.extend e (orenv.fields (\<lambda>fs. fs) (\<lambda>cs. cs))"

lemma pooled_simps [simp]:
  "drv_exec (pooled e) = drv_exec e" "drv_query (pooled e) = drv_query e" "drv_open (pooled e) = drv_open e"
  "lib_fmt_float (pooled e) = lib_fmt_float e" "lib_fmt_time (pooled e) = lib_fmt_time e" "lib_fmt_other (pooled e) = lib_fmt_other e"
  "lib_json_object (pooled e) = lib_json_object e"
  by (simp_all add: pooled_def env.extend_def)

lemma pooled_text: "Sprint_v (pooled e) v = Sprint_v e v" "scalar_text (pooled e) v = scalar_text e v"
  by (simp_all add: Sprint_v_def scalar_text_def split: goval.splits)

lemma pooled_serves: "sqlite_serves (pooled e) rows S = sqlite_serves e rows S"
proof -
  have "gives (pooled e) = gives e" by (simp add: fun_eq_iff gives_def pooled_text split: goval.splits)
  then show ?thesis
    by (simp add: sqlite_serves_def sqlite_answers_def handle_answers_def conn_answers_def insert_answers_def update_answers_def select_answers_def delete_answers_def)
qed

lemma pooled_creates: "sqlite_creates (pooled e) rows S = sqlite_creates e rows S"
proof -
  have "sqlite_create_query (pooled e) = sqlite_create_query e"
    by (simp add: fun_eq_iff sqlite_create_query_def pooled_text cong: if_cong)
  then show ?thesis by (simp add: sqlite_creates_def handle_creates_def)
qed

lemma pooled_opens: "sqlite_opens (pooled e) rows = sqlite_opens e rows"
  by (simp add: sqlite_opens_def)

lemma test_named: "named_schema createTestSchema"
  by (simp add: named_schema_def createTestSchema_def dba_table_def wf_map_def mkeys_def plain_name_def blank_def unpunct_def
      is_space_def dba_user_columns_def dba_product_columns_def zero_column_def)

definition no_scylla :: "unit scenv" where
  "no_scylla = golib.extend sample_lib
     (scenv.fields (\<lambda>s. Error (Err ''duration'')) (\<lambda>u. u) (\<lambda>c d. (Error (Err ''no session''), d)) (\<lambda>n d. d)
        (\<lambda>n q args d. (Error (Err ''no session''), d)) (\<lambda>n q args cs d. (Error (Err ''no session''), d)))"

definition no_s3 :: "unit s3env" where
  "no_s3 = golib.extend sample_lib
     (s3env.fields (\<lambda>s. Error (Err ''url'')) (\<lambda>t. ''now'') (\<lambda>s. Ok ''{}'') (\<lambda>t i. Ok ''{}'')
        (\<lambda>so. Error (Err ''json'')) (\<lambda>s. Error (Err ''json'')) (\<lambda>d. (Ok 5, d)) (\<lambda>r d. (Ok (), d)) (\<lambda>c b d. (Ok (), d))
        (\<lambda>c b k d. (Error (NoSuchKey k), d)) (\<lambda>c b k body meta d. (Error (Err ''denied''), d))
        (\<lambda>c b k d. (Error (Err ''denied''), d)) (\<lambda>c b p token d. (Error (Err ''denied''), d)))"

definition admin_demo :: "(tables, unit, unit) admin_env" where
  "admin_demo = \<lparr>ae_sql = pooled (eng_env sample_lib createTestSchema), ae_oracle = ranged (eng_env sample_lib createTestSchema),
     ae_scylla = no_scylla, ae_s3 = no_s3, ae_s3_pages = 2\<rparr>"

definition demo_stores :: "(tables, unit, unit) stores" where
  "demo_stores = \<lparr>sw_sql = \<lparr>db_closed = (\<lambda>n. False), tx_done = (\<lambda>n. False), tx_next = 0, drv = (\<lambda>T. []),
       ad_DB = None, ad_Sch = None, ad_TM_DB = None, cr_pool = None\<rparr>,
     sw_scylla = scylla_New (), sw_s3 = s3_New ()\<rparr>"

lemma admin_demo_sql:
  "sqlite_opens (ae_sql admin_demo) eng_rows" "sqlite_creates (ae_sql admin_demo) eng_rows createTestSchema"
  "fresh_process createTestSchema eng_rows (sw_sql demo_stores)" "sqlite_serves (ae_sql admin_demo) eng_rows createTestSchema"
  "plain_objects (ae_sql admin_demo)"
proof -
  show "sqlite_opens (ae_sql admin_demo) eng_rows" "sqlite_creates (ae_sql admin_demo) eng_rows createTestSchema"
    "sqlite_serves (ae_sql admin_demo) eng_rows createTestSchema"
    using engine_opens engine_creates engine_serves [OF test_schema(1) test_named]
    by (simp_all add: admin_demo_def pooled_opens pooled_creates pooled_serves)
  show "fresh_process createTestSchema eng_rows (sw_sql demo_stores)"
    using test_schema(2) by (simp add: fresh_process_def demo_stores_def store_fits_def eng_rows_def)
  show "plain_objects (ae_sql admin_demo)"
    by (simp add: plain_objects_def admin_demo_def sample_lib_def)
qed

definition admin_form :: "string \<Rightarrow> (string \<times> string) list \<Rightarrow> admin_request" where
  "admin_form path vals = \<lparr>aq_Method = ''POST'', aq_Path = path, aq_Query = (\<lambda>n. []),
     aq_FormValue = (\<lambda>n. case map_of vals n of None \<Rightarrow> [] | Some v \<Rightarrow> v)\<rparr>"

definition demo_connect :: admin_request where
  "demo_connect = admin_form ''/connect'' [(''storageType'', ''sqlite''), (''connString'', ''file.db'')]"

lemma demo_connect_form: "sqlite_form demo_connect"
  by (simp add: sqlite_form_def demo_connect_def admin_form_def)

lemma admin_insert_overwrites_witness:
  "\<exists>answers s. admin_run admin_demo [demo_connect,
      admin_form ''/insert'' [(''table'', ''users''), (''id'', ''1''), (''name'', ''Ann'')],
      admin_form ''/insert'' [(''table'', ''users''), (''id'', ''2''), (''name'', ''Bo''), (''email'', ''bo@b'')],
      admin_form ''/insert'' [(''table'', ''users''), (''id'', ''3''), (''created_at'', ''soon'')]]
      (admin_main 8080 demo_stores) = (Ok (ARedirect ''/'') # answers, s) \<and> length answers = 3 \<and>
    inserted (answers ! 0) \<and> inserted (answers ! 1) \<and> \<not> inserted (answers ! 2) \<and>
    eng_rows (drv (sw_sql (am_world s))) ''users'' = [[] \<mapsto> new_row [] [(''name'', VStr ''Bo''), (''email'', VStr ''bo@b'')]]"
proof -
  let ?rs = "[admin_form ''/insert'' [(''table'', ''users''), (''id'', ''1''), (''name'', ''Ann'')],
      admin_form ''/insert'' [(''table'', ''users''), (''id'', ''2''), (''name'', ''Bo''), (''email'', ''bo@b'')],
      admin_form ''/insert'' [(''table'', ''users''), (''id'', ''3''), (''created_at'', ''soon'')]]"
  have saved: "map saves ?rs = [True, True, False]" by (simp add: saves_def admin_form_def)
  have "datetime_local ''soon'' = None" by (simp add: datetime_local_def)
  then have rs: "\<forall>r\<in>set ?rs. insert_form (ae_sql admin_demo) r"
    using saved by (simp add: insert_form_def admin_form_def)
  have "form_fields (?rs ! 1) = [(''name'', VStr ''Bo''), (''email'', VStr ''bo@b'')]"
    by (simp add: form_fields_def admin_form_def)
  moreover have "eng_rows (drv (sw_sql demo_stores)) ''users'' = Map.empty" by (simp add: demo_stores_def eng_rows_def)
  ultimately have "after_forms ?rs (eng_rows (drv (sw_sql demo_stores))) ''users'' =
      [[] \<mapsto> new_row [] [(''name'', VStr ''Bo''), (''email'', VStr ''bo@b'')]]"
    using saved by (simp add: after_forms_def)
  moreover obtain answers s where run: "admin_run admin_demo (demo_connect # ?rs) (admin_main 8080 demo_stores) = (Ok (ARedirect ''/'') # answers, s)"
      "list_all2 form_answered ?rs answers"
      "eng_rows (drv (sw_sql (am_world s))) = after_forms ?rs (eng_rows (drv (sw_sql demo_stores)))"
    using admin_insert_overwrites [OF admin_demo_sql demo_connect_form rs, of 8080] by blast
  moreover have "length answers = 3" using list_all2_lengthD [OF run(2)] by simp
  moreover have "form_answered (?rs ! i) (answers ! i)" if "i < 3" for i
    by (rule list_all2_nthD [OF run(2)]) (use that in simp)
  from this [of 0] this [of 1] this [of 2] have "inserted (answers ! 0)" "inserted (answers ! 1)" "answers ! 2 = Ok (form_refusal (?rs ! 2))"
    using saved by (simp_all add: form_answered_def)
  moreover have "\<not> inserted (Ok (form_refusal (?rs ! 2)))"
    by (simp add: inserted_def form_refusal_def form_page_def admin_form_def Let_def)
  ultimately show ?thesis by (intro exI [of _ answers] exI [of _ s]) metis
qed

lemma demo_run:
  obtains s where "admin_run admin_demo [demo_connect] (admin_main 8080 demo_stores) = ([Ok (ARedirect ''/'')], s)"
    and "on_sqlite admin_demo eng_rows s"
proof -
  have w: "fresh_process createTestSchema eng_rows (sw_sql (am_world (admin_main 8080 demo_stores)))"
    using admin_demo_sql(3) by (simp add: admin_main_def)
  obtain s where "admin_serve admin_demo demo_connect (admin_main 8080 demo_stores) = (Ok (ARedirect ''/''), s)"
      "on_sqlite admin_demo eng_rows s"
    by (rule connect_request [OF admin_demo_sql(1,2) w demo_connect_form]) (simp add: admin_main_def)
  with that show thesis by simp
qed

lemma admin_connection_witness:
  "\<exists>s. admin_run admin_demo [demo_connect] (admin_main 8080 demo_stores) = ([Ok (ARedirect ''/'')], s) \<and> am_connected s \<and>
    cf_Port (am_config s) = 8080 \<and> cf_Connected (am_config s) \<and> storage_named admin_demo (cf_StorageType (am_config s)) = am_storage s"
proof -
  obtain s where s: "admin_run admin_demo [demo_connect] (admin_main 8080 demo_stores) = ([Ok (ARedirect ''/'')], s)"
    "on_sqlite admin_demo eng_rows s" by (rule demo_run)
  then have "am_connected s" by (simp add: on_sqlite_def)
  with admin_connection [OF s(1)] s(1) show ?thesis by (intro exI [of _ s]) simp
qed

lemma admin_pages_list_witness:
  "\<exists>s. admin_run admin_demo [demo_connect] (admin_main 8080 demo_stores) = ([Ok (ARedirect ''/'')], s) \<and>
    getTableList s = map (table_info \<circ> snd) (entries (sch_Tables createTestSchema))"
proof -
  obtain s where s: "admin_run admin_demo [demo_connect] (admin_main 8080 demo_stores) = ([Ok (ARedirect ''/'')], s)"
    "on_sqlite admin_demo eng_rows s" by (rule demo_run)
  have "getTableList s \<noteq> []" using users_info [OF s(2)] by (auto simp: getTableInfo_def)
  moreover have "ad_Sch (sw_sql demo_stores) = None" by (simp add: demo_stores_def)
  ultimately show ?thesis using admin_pages_list [OF _ s(1)] s(1) by blast
qed

end
