(* ===== verification/SuiteTests.thy ===== *)
theory SuiteTests
  imports Backends
begin

text \<open>
  The package \<open>storagetest\<close> (src/storagetest/storagetest.go): the tests every storage is meant to pass,
  as functions of the storage. \<open>SuiteProps\<close> shows which storages do.

  A test runs on the storage's world beside the reports made so far. \<open>t.Errorf\<close> and \<open>t.Error\<close> report,
  \<open>t.Fatalf\<close> and \<open>t.Fatal\<close> report and end the test, which is the \<open>Error\<close> outcome of a test function;
  a test that ends otherwise and reports nothing is passed. A report is the format it is printed
  with; its arguments and the lines of \<open>t.Logf\<close> are left out.
\<close>

section \<open>Tests\<close>

record 'w trial =
  tr_world :: 'w
  tr_reports :: "string list"

definition Errorf :: "string \<Rightarrow> ('w trial, unit) go" where
  "Errorf msg = modify (\<lambda>t. t\<lparr>tr_reports := tr_reports t @ [msg]\<rparr>)"

definition Fatalf :: "string \<Rightarrow> ('w trial, 'a) go" where
  "Fatalf msg = seq (Errorf msg) (\<lambda>_. fail (Err msg))"

definition errorf_if :: "bool \<Rightarrow> string \<Rightarrow> ('w trial, unit) go" where
  "errorf_if b msg = (if b then Errorf msg else ret ())"

definition fatalf_if :: "bool \<Rightarrow> string \<Rightarrow> ('w trial, unit) go" where
  "fatalf_if b msg = (if b then Fatalf msg else ret ())"

definition apos :: string where
  "apos = [CHR 0x27]"

text \<open>
  A call on the storage, with its error as a value: \<open>failed\<close> is \<open>err != nil\<close>, and the other result is
  its zero value then.
\<close>

definition invoke :: "('w, 'a) go \<Rightarrow> ('w trial, 'a result) go" where
  "invoke m = (\<lambda>t. case m (tr_world t) of
      (Ok x, w) \<Rightarrow> (Ok (Ok x), t\<lparr>tr_world := w\<rparr>)
    | (Error e, w) \<Rightarrow> (Ok (Error e), t\<lparr>tr_world := w\<rparr>)
    | (Panic p, w) \<Rightarrow> (Panic p, t\<lparr>tr_world := w\<rparr>)
    | (Deadlock, w) \<Rightarrow> (Deadlock, t\<lparr>tr_world := w\<rparr>))"

definition failed :: "'a result \<Rightarrow> bool" where
  "failed r = (\<not> is_ok r)"

definition value_or :: "'a \<Rightarrow> 'a result \<Rightarrow> 'a" where
  "value_or z r = (case r of Ok x \<Rightarrow> x | _ \<Rightarrow> z)"

text \<open>The \<open>created\<close> result of an insert, and an object that was found.\<close>

definition created :: "(string \<times> bool) result \<Rightarrow> bool" where
  "created r = snd (value_or ([], False) r)"

definition object :: "Object option result \<Rightarrow> Object option" where
  "object r = value_or None r"

text \<open>A method of an object: the object is not nil where the tests look into it.\<close>

definition ID_of :: "Object option \<Rightarrow> string result" where
  "ID_of v = (case v of None \<Rightarrow> Panic nil_deref | Some o1 \<Rightarrow> Ok (obj_ID o1))"

definition string_of :: "Object option \<Rightarrow> string \<Rightarrow> (string \<times> bool) result" where
  "string_of v n = (case v of None \<Rightarrow> Panic nil_deref | Some o1 \<Rightarrow> GetString o1 n)"

text \<open>An object of the table \<open>people\<close>.\<close>

definition person :: "string \<Rightarrow> string \<Rightarrow> string \<Rightarrow> Object" where
  "person i name metadata = \<lparr>obj_TableName = ''people'', obj_ID = i,
     obj_Fields = GoMap [(''name'', VStr name), (''metadata'', VStr metadata)]\<rparr>"

definition create_tables :: "'w Storage \<Rightarrow> ('w trial, unit) go" where
  "create_tables st =
     seq (pure GetTestSchema) (\<lambda>sch.
     seq (invoke (st_CreateTables st (Some sch))) (\<lambda>err.
     fatalf_if (failed err) ''failed to create tables: %v''))"

section \<open>The sanity check\<close>

definition StorageTest :: "'w Storage \<Rightarrow> ('w trial, unit) go" where
  "StorageTest st =
     seq (create_tables st) (\<lambda>_.
     seq (invoke (st_FindByID st ''people'' ''hello'')) (\<lambda>v.
     seq (errorf_if (failed v) ''getting a non-existent key was 'ok': v=%v err=%v'') (\<lambda>_.
     seq (invoke (st_Insert st (person ''hello'' ''John Doe'' ''{\"test\":\"wowza\"}''))) (\<lambda>err.
     seq (fatalf_if (failed err) ''failed inserting a valid key: err=%v'') (\<lambda>_.
     seq (invoke (st_FindByID st ''people'' ''hello'')) (\<lambda>v.
     seq (errorf_if (failed v) ''failed getting a valid key: v=%v err=%v'') (\<lambda>_.
     seq (fatalf_if (object v = None) (''got nil object for key 'hello'' @ apos)) (\<lambda>_.
     seq (pure (string_of (object v) ''name'')) (\<lambda>(name, _).
     seq (pure (ID_of (object v))) (\<lambda>i.
     seq (fatalf_if (i \<noteq> ''hello'') ''got wrong object: v.ID=%v v.Fields=%v'') (\<lambda>_.
     seq (fatalf_if (name \<noteq> ''John Doe'') ''got wrong name field: name=%v'') (\<lambda>_.
     seq (invoke (st_DeleteByID st ''people'' ''hello'')) (\<lambda>ok.
     seq (fatalf_if (\<not> value_or False ok \<or> failed ok) ''failed deleting key: ok=%v err=%v'') (\<lambda>_.
     seq (invoke (st_FindByID st ''people'' ''hello'')) (\<lambda>v.
     seq (fatalf_if (object v \<noteq> None \<or> failed v) ''getting a non-existent key post-delete was 'ok': v=%v err=%v'') (\<lambda>_.
     seq (invoke (st_ResetConnection st)) (\<lambda>err.
     fatalf_if (failed err) ''failed resetting connection for key: err=%v'')))))))))))))))))"

section \<open>Create, read, update and delete\<close>

definition crud_people :: "Object list" where
  "crud_people =
     [person ''user1'' ''Alice Johnson'' ''{\"age\": 30, \"city\": \"New York\"}'',
      person ''user2'' ''Bob Smith'' ''{\"age\": 25, \"city\": \"Boston\"}'',
      person ''user3'' ''Charlie Brown'' ''{\"age\": 35, \"city\": \"Chicago\"}'']"

definition crud_create :: "'w Storage \<Rightarrow> ('w trial, unit) go" where
  "crud_create st =
     each (\<lambda>obj.
       seq (invoke (st_Insert st obj)) (\<lambda>r.
       seq (errorf_if (failed r) ''failed to insert object %s: %v'') (\<lambda>_.
       errorf_if (\<not> created r) ''object %s was not created''))) crud_people"

text \<open>The name of an object that was found, checked against the one it should have.\<close>

definition check_name :: "Object option \<Rightarrow> string \<Rightarrow> string \<Rightarrow> string \<Rightarrow> ('w trial, unit) go" where
  "check_name v wanted missing wrong =
     seq (pure (string_of v ''name'')) (\<lambda>(name, ok).
     seq (errorf_if (\<not> ok) missing) (\<lambda>_.
     errorf_if (name \<noteq> wanted) wrong))"

definition crud_read :: "'w Storage \<Rightarrow> ('w trial, unit) go" where
  "crud_read st =
     seq (invoke (st_FindByID st ''people'' ''user1'')) (\<lambda>obj.
     seq (errorf_if (failed obj) ''failed to find object by ID: %v'') (\<lambda>_.
     seq (fatalf_if (object obj = None) ''object not found'') (\<lambda>_.
     seq (pure (ID_of (object obj))) (\<lambda>i.
     seq (errorf_if (i \<noteq> ''user1'') (''expected ID 'user1', got '%s'' @ apos)) (\<lambda>_.
     seq (check_name (object obj) ''Alice Johnson'' ''failed to get name field''
            (''expected name 'Alice Johnson', got '%s'' @ apos)) (\<lambda>_.
     seq (invoke (st_FindByKey st ''people'' ''name'' ''Bob Smith'')) (\<lambda>obj2.
     seq (errorf_if (failed obj2) ''failed to find object by key: %v'') (\<lambda>_.
     seq (case object obj2 of
            None \<Rightarrow> Errorf ''object not found by name key''
          | Some o2 \<Rightarrow> errorf_if (obj_ID o2 \<noteq> ''user2'') (''expected ID 'user2', got '%s'' @ apos)) (\<lambda>_.
     seq (invoke (st_FindByID st ''people'' ''nonexistent'')) (\<lambda>nonExistent.
     seq (errorf_if (failed nonExistent) ''unexpected error when finding non-existent object: %v'') (\<lambda>_.
     errorf_if (object nonExistent \<noteq> None) ''expected nil for non-existent object'')))))))))))"

definition crud_update :: "'w Storage \<Rightarrow> ('w trial, unit) go" where
  "crud_update st =
     seq (invoke (st_Update st (person ''user1'' ''Alice Johnson Updated''
            ''{\"age\": 31, \"city\": \"San Francisco\"}''))) (\<lambda>updated.
     seq (errorf_if (failed updated) ''failed to update object: %v'') (\<lambda>_.
     seq (errorf_if (\<not> value_or False updated) ''object was not updated'') (\<lambda>_.
     seq (invoke (st_FindByID st ''people'' ''user1'')) (\<lambda>obj.
     seq (errorf_if (failed obj) ''failed to find updated object: %v'') (\<lambda>_.
     seq (fatalf_if (object obj = None) ''updated object not found'') (\<lambda>_.
     seq (check_name (object obj) ''Alice Johnson Updated'' ''failed to get updated name field''
            (''expected updated name 'Alice Johnson Updated', got '%s'' @ apos)) (\<lambda>_.
     seq (invoke (st_Update st (person ''nonexistent'' ''Ghost User'' ''{}''))) (\<lambda>updated.
     seq (errorf_if (failed updated) ''unexpected error when updating non-existent object: %v'') (\<lambda>_.
     errorf_if (value_or False updated) ''expected false when updating non-existent object'')))))))))"

definition crud_delete :: "'w Storage \<Rightarrow> ('w trial, unit) go" where
  "crud_delete st =
     seq (invoke (st_DeleteByID st ''people'' ''user2'')) (\<lambda>deleted.
     seq (errorf_if (failed deleted) ''failed to delete object: %v'') (\<lambda>_.
     seq (errorf_if (\<not> value_or False deleted) ''object was not deleted'') (\<lambda>_.
     seq (invoke (st_FindByID st ''people'' ''user2'')) (\<lambda>obj.
     seq (errorf_if (failed obj) ''unexpected error when finding deleted object: %v'') (\<lambda>_.
     seq (errorf_if (object obj \<noteq> None) ''deleted object still exists'') (\<lambda>_.
     seq (invoke (st_DeleteByID st ''people'' ''nonexistent'')) (\<lambda>deleted.
     seq (errorf_if (failed deleted) ''unexpected error when deleting non-existent object: %v'') (\<lambda>_.
     errorf_if (value_or False deleted) ''expected false when deleting non-existent object''))))))))"

text \<open>An insert of an identifier that is there is to replace the object; its \<open>created\<close> result is not looked at.\<close>

definition crud_upsert :: "'w Storage \<Rightarrow> ('w trial, unit) go" where
  "crud_upsert st =
     seq (invoke (st_Insert st (person ''user4'' ''David Wilson'' ''{\"age\": 28, \"city\": \"Seattle\"}''))) (\<lambda>r.
     seq (errorf_if (failed r) ''failed to insert new object: %v'') (\<lambda>_.
     seq (errorf_if (\<not> created r) ''new object was not created'') (\<lambda>_.
     seq (invoke (st_Insert st (person ''user4'' ''David Wilson Jr'' ''{\"age\": 29, \"city\": \"Portland\"}''))) (\<lambda>r.
     seq (errorf_if (failed r) ''failed to upsert object: %v'') (\<lambda>_.
     seq (invoke (st_FindByID st ''people'' ''user4'')) (\<lambda>obj.
     seq (errorf_if (failed obj) ''failed to find upserted object: %v'') (\<lambda>_.
     seq (fatalf_if (object obj = None) ''upserted object not found'') (\<lambda>_.
     check_name (object obj) ''David Wilson Jr'' ''failed to get upserted name field''
       (''expected upserted name 'David Wilson Jr', got '%s'' @ apos)))))))))"

definition clean_up :: "'w Storage \<Rightarrow> ('w trial, unit) go" where
  "clean_up st =
     seq (invoke (st_ResetConnection st)) (\<lambda>err. errorf_if (failed err) ''failed to reset connection: %v'')"

definition CRUDTest :: "'w Storage \<Rightarrow> ('w trial, unit) go" where
  "CRUDTest st =
     seq (create_tables st) (\<lambda>_.
     seq (crud_create st) (\<lambda>_.
     seq (crud_read st) (\<lambda>_.
     seq (crud_update st) (\<lambda>_.
     seq (crud_delete st) (\<lambda>_.
     seq (crud_upsert st) (\<lambda>_.
     clean_up st))))))"

section \<open>Upserts\<close>

text \<open>The transaction that a \<open>BeginTx\<close> without an error gave.\<close>

definition tx_of :: "nat result \<Rightarrow> nat option" where
  "tx_of tx = Some (value_or 0 tx)"

text \<open>\<open>storage.RollbackTx(tx); t.Fatalf(...)\<close> and \<open>storage.RollbackTx(tx); t.Errorf(...)\<close>.\<close>

definition fatalf_after_rollback_if :: "bool \<Rightarrow> 'w Storage \<Rightarrow> nat result \<Rightarrow> string \<Rightarrow> ('w trial, unit) go" where
  "fatalf_after_rollback_if b st tx msg =
     (if b then seq (invoke (st_RollbackTx st (tx_of tx))) (\<lambda>_. Fatalf msg) else ret ())"

definition errorf_after_rollback_if :: "bool \<Rightarrow> 'w Storage \<Rightarrow> nat result \<Rightarrow> string \<Rightarrow> ('w trial, unit) go" where
  "errorf_after_rollback_if b st tx msg =
     (if b then seq (invoke (st_RollbackTx st (tx_of tx))) (\<lambda>_. Errorf msg) else ret ())"

text \<open>A transaction in which an object is upserted, and which is rolled back when that fails.\<close>

definition upsert_in_tx :: "'w Storage \<Rightarrow> Object \<Rightarrow> string \<Rightarrow> string \<Rightarrow> string \<Rightarrow> ('w trial, unit) go" where
  "upsert_in_tx st obj no_begin no_upsert no_commit =
     seq (invoke (st_BeginTx st)) (\<lambda>tx.
     seq (fatalf_if (failed tx) no_begin) (\<lambda>_.
     seq (invoke (st_UpsertTx st (tx_of tx) obj)) (\<lambda>r.
     seq (fatalf_after_rollback_if (failed r) st tx no_upsert) (\<lambda>_.
     seq (invoke (st_CommitTx st (tx_of tx))) (\<lambda>err.
     fatalf_if (failed err) no_commit)))))"

text \<open>The object that was upserted, found again with its name and a part of its metadata.\<close>

definition find_upserted :: "'w Storage \<Rightarrow> string \<Rightarrow> string \<Rightarrow> string \<Rightarrow> string \<Rightarrow> string \<Rightarrow> ('w trial, Object option) go" where
  "find_upserted st i wanted no_find missing wrong =
     seq (invoke (st_FindByID st ''people'' i)) (\<lambda>v.
     seq (fatalf_if (failed v) no_find) (\<lambda>_.
     seq (fatalf_if (object v = None) missing) (\<lambda>_.
     seq (pure (string_of (object v) ''name'')) (\<lambda>(name, ok).
     seq (errorf_if (\<not> ok \<or> name \<noteq> wanted) wrong) (\<lambda>_.
     ret (object v))))))"

definition check_metadata :: "Object option \<Rightarrow> string \<Rightarrow> string \<Rightarrow> ('w trial, unit) go" where
  "check_metadata v part wrong =
     seq (pure (string_of v ''metadata'')) (\<lambda>(metadata, ok).
     errorf_if (\<not> ok \<or> \<not> Contains metadata part) wrong)"

text \<open>The data of an upsert is nil beside an error only.\<close>

definition upsert_new :: "'w Storage \<Rightarrow> ('w trial, unit) go" where
  "upsert_new st =
     seq (invoke (st_Upsert st (person ''upsert_user1'' ''Upsert Test User'' ''{\"operation\": \"insert\"}''))) (\<lambda>r.
     seq (fatalf_if (failed r) ''failed to upsert new object: %v'') (\<lambda>_.
     seq (errorf_if (\<not> created r) ''expected upsert to create new object'') (\<lambda>_.
     seq (errorf_if (failed r) ''expected non-nil data from upsert'') (\<lambda>_.
     seq (find_upserted st ''upsert_user1'' ''Upsert Test User'' ''failed to find upserted object: %v''
            ''upserted object not found'' (''expected name 'Upsert Test User', got '%s'' @ apos)) (\<lambda>_.
     ret ())))))"

definition upsert_existing :: "'w Storage \<Rightarrow> ('w trial, unit) go" where
  "upsert_existing st =
     seq (invoke (st_Upsert st (person ''upsert_user1'' ''Updated Upsert User'' ''{\"operation\": \"update\"}''))) (\<lambda>r.
     seq (fatalf_if (failed r) ''failed to upsert existing object: %v'') (\<lambda>_.
     seq (find_upserted st ''upsert_user1'' ''Updated Upsert User'' ''failed to find updated object: %v''
            ''updated object not found'' (''expected updated name 'Updated Upsert User', got '%s'' @ apos)) (\<lambda>v.
     check_metadata v ''update'' (''expected metadata to contain 'update', got '%s'' @ apos))))"

definition upsert_tx_new :: "'w Storage \<Rightarrow> ('w trial, unit) go" where
  "upsert_tx_new st =
     seq (upsert_in_tx st (person ''upsert_tx_user'' ''Transaction Upsert User'' ''{\"operation\": \"tx_insert\"}'')
            ''failed to begin transaction: %v'' ''failed to upsert in transaction: %v'' ''failed to commit transaction: %v'') (\<lambda>_.
     seq (find_upserted st ''upsert_tx_user'' ''Transaction Upsert User'' ''failed to find transaction upserted object: %v''
            ''transaction upserted object not found'' (''expected name 'Transaction Upsert User', got '%s'' @ apos)) (\<lambda>_.
     ret ()))"

definition upsert_tx_existing :: "'w Storage \<Rightarrow> ('w trial, unit) go" where
  "upsert_tx_existing st =
     seq (upsert_in_tx st (person ''upsert_tx_user'' ''Updated Transaction User'' ''{\"operation\": \"tx_update\"}'')
            ''failed to begin transaction for update: %v'' ''failed to upsert existing object in transaction: %v''
            ''failed to commit update transaction: %v'') (\<lambda>_.
     seq (find_upserted st ''upsert_tx_user'' ''Updated Transaction User'' ''failed to find updated transaction object: %v''
            ''updated transaction object not found'' (''expected updated name 'Updated Transaction User', got '%s'' @ apos)) (\<lambda>v.
     check_metadata v ''tx_update'' (''expected metadata to contain 'tx_update', got '%s'' @ apos)))"

definition UpsertTest :: "'w Storage \<Rightarrow> ('w trial, unit) go" where
  "UpsertTest st =
     seq (create_tables st) (\<lambda>_.
     seq (upsert_new st) (\<lambda>_.
     seq (upsert_existing st) (\<lambda>_.
     seq (upsert_tx_new st) (\<lambda>_.
     seq (upsert_tx_existing st) (\<lambda>_.
     clean_up st)))))"

section \<open>Transactions\<close>

text \<open>
  \<open>t.Run\<close>: a part of a test that ends early ends itself only. What a lookup outside of a
  transaction that is under way returns is only logged.
\<close>

definition Run :: "('w trial, unit) go \<Rightarrow> ('w trial, unit) go" where
  "Run m = catch m (\<lambda>e. ret ()) (\<lambda>_. ret ())"

definition begin_tx :: "'w Storage \<Rightarrow> ('w trial, nat result) go" where
  "begin_tx st =
     seq (invoke (st_BeginTx st)) (\<lambda>tx.
     seq (fatalf_if (failed tx) ''failed to begin transaction: %v'') (\<lambda>_.
     ret tx))"

text \<open>An object inserted in a transaction, and one inserted without.\<close>

definition insert_in_tx :: "'w Storage \<Rightarrow> nat result \<Rightarrow> Object \<Rightarrow> ('w trial, unit) go" where
  "insert_in_tx st tx obj =
     seq (invoke (st_InsertTx st (tx_of tx) obj)) (\<lambda>r.
     seq (fatalf_after_rollback_if (failed r) st tx ''failed to insert in transaction: %v'') (\<lambda>_.
     fatalf_after_rollback_if (\<not> created r) st tx ''object was not created in transaction''))"

definition insert_initial :: "'w Storage \<Rightarrow> Object \<Rightarrow> ('w trial, unit) go" where
  "insert_initial st obj =
     seq (invoke (st_Insert st obj)) (\<lambda>r.
     seq (fatalf_if (failed r) ''failed to insert initial object: %v'') (\<lambda>_.
     fatalf_if (\<not> created r) ''initial object was not created''))"

text \<open>A lookup in a transaction that has to succeed and to find an object.\<close>

definition find_in_tx :: "'w Storage \<Rightarrow> nat result \<Rightarrow> ('w, Object option) go \<Rightarrow> string \<Rightarrow> string \<Rightarrow> ('w trial, Object option) go" where
  "find_in_tx st tx m no_find missing =
     seq (invoke m) (\<lambda>v.
     seq (fatalf_after_rollback_if (failed v) st tx no_find) (\<lambda>_.
     seq (fatalf_after_rollback_if (object v = None) st tx missing) (\<lambda>_.
     ret (object v))))"

definition commit_tx :: "'w Storage \<Rightarrow> nat result \<Rightarrow> ('w trial, unit) go" where
  "commit_tx st tx =
     seq (invoke (st_CommitTx st (tx_of tx))) (\<lambda>err. fatalf_if (failed err) ''failed to commit transaction: %v'')"

text \<open>A lookup afterwards that has to succeed and to find an object.\<close>

definition find_committed :: "('w, Object option) go \<Rightarrow> string \<Rightarrow> string \<Rightarrow> ('w trial, Object option) go" where
  "find_committed m no_find missing =
     seq (invoke m) (\<lambda>v.
     seq (fatalf_if (failed v) no_find) (\<lambda>_.
     seq (fatalf_if (object v = None) missing) (\<lambda>_.
     ret (object v))))"

definition BasicTransactionCommit :: "'w Storage \<Rightarrow> ('w trial, unit) go" where
  "BasicTransactionCommit st =
     seq (begin_tx st) (\<lambda>tx.
     seq (insert_in_tx st tx (person ''tx_user1'' ''Transaction User 1'' ''{\"test\": \"commit\"}'')) (\<lambda>_.
     seq (invoke (st_FindByID st ''people'' ''tx_user1'')) (\<lambda>_.
     seq (find_in_tx st tx (st_FindByIDTx st (tx_of tx) ''people'' ''tx_user1'')
            ''failed to find object in transaction: %v'' ''object not found in transaction'') (\<lambda>_.
     seq (commit_tx st tx) (\<lambda>_.
     seq (find_committed (st_FindByID st ''people'' ''tx_user1'') ''failed to find committed object: %v''
            ''committed object not found'') (\<lambda>v.
     seq (pure (ID_of v)) (\<lambda>i.
     errorf_if (i \<noteq> ''tx_user1'') (''expected ID 'tx_user1', got '%s'' @ apos))))))))"

definition TransactionRollback :: "'w Storage \<Rightarrow> ('w trial, unit) go" where
  "TransactionRollback st =
     seq (begin_tx st) (\<lambda>tx.
     seq (insert_in_tx st tx (person ''tx_user2'' ''Transaction User 2'' ''{\"test\": \"rollback\"}'')) (\<lambda>_.
     seq (find_in_tx st tx (st_FindByIDTx st (tx_of tx) ''people'' ''tx_user2'')
            ''failed to find object in transaction: %v'' ''object not found in transaction'') (\<lambda>_.
     seq (invoke (st_RollbackTx st (tx_of tx))) (\<lambda>err.
     seq (fatalf_if (failed err) ''failed to rollback transaction: %v'') (\<lambda>_.
     seq (invoke (st_FindByID st ''people'' ''tx_user2'')) (\<lambda>v.
     seq (fatalf_if (failed v) ''unexpected error finding rolled back object: %v'') (\<lambda>_.
     errorf_if (object v \<noteq> None) ''rolled back object should not be visible'')))))))"

definition TransactionUpdate :: "'w Storage \<Rightarrow> ('w trial, unit) go" where
  "TransactionUpdate st =
     seq (insert_initial st (person ''tx_user3'' ''Transaction User 3'' ''{\"test\": \"original\"}'')) (\<lambda>_.
     seq (begin_tx st) (\<lambda>tx.
     seq (invoke (st_UpdateTx st (tx_of tx)
            (person ''tx_user3'' ''Transaction User 3 Updated'' ''{\"test\": \"updated\"}''))) (\<lambda>updated.
     seq (fatalf_after_rollback_if (failed updated) st tx ''failed to update in transaction: %v'') (\<lambda>_.
     seq (fatalf_after_rollback_if (\<not> value_or False updated) st tx ''object was not updated in transaction'') (\<lambda>_.
     seq (find_in_tx st tx (st_FindByIDTx st (tx_of tx) ''people'' ''tx_user3'')
            ''failed to find updated object in transaction: %v'' ''updated object not found in transaction'') (\<lambda>v.
     seq (pure (string_of v ''name'')) (\<lambda>(name, ok).
     seq (fatalf_after_rollback_if (\<not> ok) st tx ''failed to get name field'') (\<lambda>_.
     seq (errorf_after_rollback_if (name \<noteq> ''Transaction User 3 Updated'') st tx
            (''expected updated name 'Transaction User 3 Updated', got '%s'' @ apos)) (\<lambda>_.
     seq (invoke (st_FindByID st ''people'' ''tx_user3'')) (\<lambda>v.
     seq (case object v of None \<Rightarrow> ret () | Some o1 \<Rightarrow> seq (pure (GetString o1 ''name'')) (\<lambda>_. ret ())) (\<lambda>_.
     seq (commit_tx st tx) (\<lambda>_.
     seq (find_committed (st_FindByID st ''people'' ''tx_user3'') ''failed to find committed updated object: %v''
            ''committed updated object not found'') (\<lambda>v.
     seq (pure (string_of v ''name'')) (\<lambda>(name, ok).
     seq (fatalf_if (\<not> ok) ''failed to get committed name field'') (\<lambda>_.
     errorf_if (name \<noteq> ''Transaction User 3 Updated'')
       (''expected committed name 'Transaction User 3 Updated', got '%s'' @ apos))))))))))))))))"

definition TransactionDelete :: "'w Storage \<Rightarrow> ('w trial, unit) go" where
  "TransactionDelete st =
     seq (insert_initial st (person ''tx_user4'' ''Transaction User 4'' ''{\"test\": \"delete\"}'')) (\<lambda>_.
     seq (begin_tx st) (\<lambda>tx.
     seq (invoke (st_DeleteByIDTx st (tx_of tx) ''people'' ''tx_user4'')) (\<lambda>deleted.
     seq (fatalf_after_rollback_if (failed deleted) st tx ''failed to delete in transaction: %v'') (\<lambda>_.
     seq (fatalf_after_rollback_if (\<not> value_or False deleted) st tx ''object was not deleted in transaction'') (\<lambda>_.
     seq (invoke (st_FindByIDTx st (tx_of tx) ''people'' ''tx_user4'')) (\<lambda>v.
     seq (fatalf_after_rollback_if (failed v) st tx ''unexpected error finding deleted object in transaction: %v'') (\<lambda>_.
     seq (errorf_after_rollback_if (object v \<noteq> None) st tx ''deleted object should not be visible in transaction'') (\<lambda>_.
     seq (invoke (st_FindByID st ''people'' ''tx_user4'')) (\<lambda>_.
     seq (commit_tx st tx) (\<lambda>_.
     seq (invoke (st_FindByID st ''people'' ''tx_user4'')) (\<lambda>v.
     seq (fatalf_if (failed v) ''unexpected error finding deleted object: %v'') (\<lambda>_.
     errorf_if (object v \<noteq> None) ''committed deleted object should not be visible''))))))))))))"

definition TransactionFindByKey :: "'w Storage \<Rightarrow> ('w trial, unit) go" where
  "TransactionFindByKey st =
     seq (begin_tx st) (\<lambda>tx.
     seq (insert_in_tx st tx (person ''tx_user5'' ''Transaction User 5'' ''{\"test\": \"findbykey\"}'')) (\<lambda>_.
     seq (find_in_tx st tx (st_FindByKeyTx st (tx_of tx) ''people'' ''name'' ''Transaction User 5'')
            ''failed to find object by key in transaction: %v'' ''object not found by key in transaction'') (\<lambda>v.
     seq (pure (ID_of v)) (\<lambda>i.
     seq (errorf_after_rollback_if (i \<noteq> ''tx_user5'') st tx (''expected ID 'tx_user5', got '%s'' @ apos)) (\<lambda>_.
     seq (commit_tx st tx) (\<lambda>_.
     seq (find_committed (st_FindByKey st ''people'' ''name'' ''Transaction User 5'') ''failed to find committed object by key: %v''
            ''committed object not found by key'') (\<lambda>v.
     seq (pure (ID_of v)) (\<lambda>i.
     errorf_if (i \<noteq> ''tx_user5'') (''expected committed ID 'tx_user5', got '%s'' @ apos)))))))))"

text \<open>Every method that takes a transaction is to refuse a nil one.\<close>

definition refusal :: "('w, 'a) go \<Rightarrow> string \<Rightarrow> ('w trial, unit) go" where
  "refusal m msg = seq (invoke m) (\<lambda>r. errorf_if (\<not> failed r) msg)"

definition NilTransactionHandling :: "'w Storage \<Rightarrow> ('w trial, unit) go" where
  "NilTransactionHandling st =
     (let obj = person ''nil_tx_test'' ''Nil TX Test'' ''{\"test\": \"nil\"}'' in
     seq (refusal (st_InsertTx st None obj) ''expected error when using nil transaction for InsertTx'') (\<lambda>_.
     seq (refusal (st_UpdateTx st None obj) ''expected error when using nil transaction for UpdateTx'') (\<lambda>_.
     seq (refusal (st_FindByIDTx st None ''people'' ''nil_tx_test'') ''expected error when using nil transaction for FindByIDTx'') (\<lambda>_.
     seq (refusal (st_FindByKeyTx st None ''people'' ''name'' ''Nil TX Test'') ''expected error when using nil transaction for FindByKeyTx'') (\<lambda>_.
     seq (refusal (st_DeleteByIDTx st None ''people'' ''nil_tx_test'') ''expected error when using nil transaction for DeleteByIDTx'') (\<lambda>_.
     seq (refusal (st_CommitTx st None) ''expected error when committing nil transaction'') (\<lambda>_.
     refusal (st_RollbackTx st None) ''expected error when rolling back nil transaction'')))))))"

definition TransactionTest :: "'w Storage \<Rightarrow> ('w trial, unit) go" where
  "TransactionTest st =
     seq (create_tables st) (\<lambda>_.
     seq (Run (BasicTransactionCommit st)) (\<lambda>_.
     seq (Run (TransactionRollback st)) (\<lambda>_.
     seq (Run (TransactionUpdate st)) (\<lambda>_.
     seq (Run (TransactionDelete st)) (\<lambda>_.
     seq (Run (TransactionFindByKey st)) (\<lambda>_.
     seq (Run (NilTransactionHandling st)) (\<lambda>_.
     clean_up st)))))))"

end
