(* ===== verification/SuiteRun.thy ===== *)
theory SuiteRun
  imports SuiteTests Startup HostStore
begin

text \<open>
  Runs of the tests of \<open>SuiteTests\<close>: tests that report nothing, step by step, and what a storage
  of tables makes of \<open>StorageTest\<close> and \<open>CRUDTest\<close>; tests that are passed, and what that takes.
\<close>

section \<open>The test schema\<close>

definition test_columns :: "ColumnData list" where
  "test_columns =
     [zero_column\<lparr>col_Name := ''id'', col_DataType := ''text'', col_Comment := ''Primary key for the person'',
        col_Unique := True, col_Index := True, col_AutoIncrement := True\<rparr>,
      zero_column\<lparr>col_Name := ''name'', col_DataType := ''text'', col_Comment := ''Name of the person'', col_Index := True\<rparr>,
      zero_column\<lparr>col_Name := ''metadata'', col_DataType := ''json'', col_Nullable := True,
        col_Comment := ''Additional metadata for the person''\<rparr>]"

definition test_people :: TableSchema where
  "test_people = (NewTableSchema ''people'')\<lparr>tab_Fields := GoMap (map (\<lambda>c. (col_Name c, c)) test_columns),
     tab_FieldOrder := map col_Name test_columns, tab_AutoIncrementFields := [''id'']\<rparr>"

definition test_schema :: Schema where
  "test_schema = schema_New\<lparr>sch_Tables := GoMap [(''people'', test_people)]\<rparr>"

lemma GetTestSchema_eq: "GetTestSchema = Ok test_schema"
  by (simp add: GetTestSchema_def test_schema_def test_people_def test_columns_def AddField_def Let_def NewTableSchema_def
      make_map_def AddTable_def schema_New_def schema_Lock_def schema_Unlock_def mu_Lock_def mu_Unlock_def free_mutex_def
      zero_column_def)

lemma test_people_simps [simp]:
  "tab_TableName test_people = ''people''" "tab_FieldOrder test_people = [''id'', ''name'', ''metadata'']"
  "field_of (tab_Fields test_people) ''id'' = test_columns ! 0"
  "field_of (tab_Fields test_people) ''name'' = test_columns ! 1"
  "field_of (tab_Fields test_people) ''metadata'' = test_columns ! 2"
  by (simp_all add: test_people_def test_columns_def NewTableSchema_def field_of_def mget_def)

lemma test_columns_simps [simp]:
  "col_kind (test_columns ! 0) = KText" "col_kind (test_columns ! Suc 0) = KText" "col_kind (test_columns ! 2) = KJson"
  "col_Unique (test_columns ! Suc 0) = False" "col_Unique (test_columns ! 2) = False"
  "col_Nullable (test_columns ! Suc 0) = False" "col_Nullable (test_columns ! 2)"
  "ToLower (col_DataType (test_columns ! Suc 0)) = ''text''" "ToLower (col_DataType (test_columns ! 2)) = ''json''"
  by (simp_all add: test_columns_def zero_column_def col_kind_def kind_of_def ToUpper_def upper_char_def ToLower_def lower_char_def)

lemma test_people_plain: "plain_table test_people"
proof -
  have "wf_table test_people"
    by (auto simp: wf_table_def test_people_def test_columns_def NewTableSchema_def wf_map_def mget_def mkeys_def zero_column_def
        split: if_splits)
  moreover have "plain_column (test_columns ! Suc 0)" "plain_column (test_columns ! 2)" "\<not> col_Nullable (test_columns ! 0)"
    by (simp_all add: plain_column_def) (simp_all add: test_columns_def zero_column_def)
  ultimately show ?thesis
    by (simp add: plain_table_def ToLower_def lower_char_def)
qed

lemma test_people_unique: "no_unique test_people"
  by (simp add: no_unique_def)

lemma test_schema_simps [simp]:
  "sch_mu test_schema = free_mutex" "entries (sch_Tables test_schema) = [(''people'', test_people)]"
  "mget (sch_Tables test_schema) T = (if T = ''people'' then Some test_people else None)"
  by (simp_all add: test_schema_def schema_New_def mget_def)

lemma test_schemas: "plain_schema test_schema" "named_schema test_schema" "\<not> mu_writer (sch_mu test_schema)"
  using test_people_plain
  by (simp_all add: plain_schema_def named_schema_def plain_name_def blank_def unpunct_def is_space_def free_mutex_def)
     (simp add: test_schema_def wf_map_def mkeys_def)

section \<open>Tests that report nothing\<close>

text \<open>From a world of \<open>P\<close> the test ends without a report, in a world of \<open>Q\<close>.\<close>

definition quiet :: "('w trial, 'a) go \<Rightarrow> ('w \<Rightarrow> bool) \<Rightarrow> ('w \<Rightarrow> bool) \<Rightarrow> bool" where
  "quiet m P Q \<longleftrightarrow> (\<forall>t. P (tr_world t) \<longrightarrow> (\<exists>x w. m t = (Ok x, t\<lparr>tr_world := w\<rparr>) \<and> Q w))"

lemma quietI: "(\<And>t. P (tr_world t) \<Longrightarrow> \<exists>x w. m t = (Ok x, t\<lparr>tr_world := w\<rparr>) \<and> Q w) \<Longrightarrow> quiet m P Q"
  by (simp add: quiet_def)

lemma quietD: "quiet m P Q \<Longrightarrow> P w \<Longrightarrow> \<exists>x w'. m (t\<lparr>tr_world := w\<rparr>) = (Ok x, t\<lparr>tr_world := w'\<rparr>) \<and> Q w'"
  unfolding quiet_def by (drule spec [of _ "t\<lparr>tr_world := w\<rparr>"]) simp

lemma quiet_ret [simp]: "quiet (ret x) P P"
  by (auto simp: quiet_def intro!: exI [of _ "tr_world _"])

lemma quiet_Pair [simp]: "quiet (Pair (Ok x)) P P"
  using quiet_ret [of x P] by (simp add: ret_def)

lemma quiet_seq: "quiet m P Q \<Longrightarrow> (\<And>x. quiet (f x) Q R) \<Longrightarrow> quiet (seq m f) P R"
proof (rule quietI)
  fix t :: "'a trial"
  assume m: "quiet m P Q" and f: "\<And>x. quiet (f x) Q R" and "P (tr_world t)"
  then obtain x w where x: "m t = (Ok x, t\<lparr>tr_world := w\<rparr>)" "Q w" unfolding quiet_def by blast
  from quietD [OF f x(2)] x(1) show "\<exists>x w. seq m f t = (Ok x, t\<lparr>tr_world := w\<rparr>) \<and> R w" by (simp add: seq_def)
qed

lemma quiet_pure: "r = Ok x \<Longrightarrow> quiet (f x) P R \<Longrightarrow> quiet (seq (pure r) f) P R"
  by simp

lemma quiet_invoke:
  assumes "\<And>w. P w \<Longrightarrow> \<exists>x w'. m w = (Ok x, w') \<and> good x \<and> Q w'" and "\<And>x. good x \<Longrightarrow> quiet (f (Ok x)) Q R"
  shows "quiet (seq (invoke m) f) P R"
proof (rule quietI)
  fix t :: "'a trial"
  assume "P (tr_world t)"
  from assms(1) [OF this] obtain x w' where m: "m (tr_world t) = (Ok x, w')" "good x" "Q w'" by blast
  from quietD [OF assms(2) [OF m(2)] m(3)] m(1) show "\<exists>y w. seq (invoke m) f t = (Ok y, t\<lparr>tr_world := w\<rparr>) \<and> R w"
    by (simp add: invoke_def seq_def)
qed

lemma report_simps [simp]:
  "errorf_if False msg = ret ()" "fatalf_if False msg = ret ()"
  "fatalf_after_rollback_if False st tx msg = ret ()" "errorf_after_rollback_if False st tx msg = ret ()"
  "failed (Ok x) = False" "value_or z (Ok x) = x" "created (Ok (data, b)) = b" "object (Ok v) = v"
  "ID_of (Some o1) = Ok (obj_ID o1)" "string_of (Some o1) n = GetString o1 n"
  by (simp_all add: errorf_if_def fatalf_if_def fatalf_after_rollback_if_def errorf_after_rollback_if_def failed_def
      value_or_def created_def object_def ID_of_def string_of_def)

lemma check_passes:
  "string_of v ''name'' = Ok (n, True) \<Longrightarrow> check_name v n missing wrong = ret ()"
  "string_of v ''metadata'' = Ok (m, True) \<Longrightarrow> Contains m part \<Longrightarrow> check_metadata v part wrong = ret ()"
  by (simp_all add: check_name_def check_metadata_def ret_def seq_def)

text \<open>A test that ends on its own and has nothing to report.\<close>

definition passes :: "('w trial, unit) go \<Rightarrow> 'w \<Rightarrow> bool" where
  "passes m w \<longleftrightarrow> (\<exists>w'. m \<lparr>tr_world = w, tr_reports = []\<rparr> = (Ok (), \<lparr>tr_world = w', tr_reports = []\<rparr>))"

lemma quiet_passes: "quiet m P Q \<Longrightarrow> P w \<Longrightarrow> passes m w"
  unfolding quiet_def passes_def by (drule spec [of _ "\<lparr>tr_world = w, tr_reports = []\<rparr>"]) auto

section \<open>A storage of tables\<close>

text \<open>The row of a person, as an insert and as an update store it.\<close>

definition person_row :: "string \<Rightarrow> string \<Rightarrow> string \<Rightarrow> row" where
  "person_row i name metadata = new_row i [(''name'', VStr name), (''metadata'', VStr metadata)]"

lemma person_row_simps [simp]:
  "person_row i n m ''id'' = VStr i" "person_row i n m ''name'' = VStr n" "person_row i n m ''metadata'' = VStr m"
  by (simp_all add: person_row_def new_row_def)

lemma person_row_changed: "changed_row (person_row i n m) (changes (person i n' m')) = person_row i n' m'"
  by (auto simp: fun_eq_iff changed_row_def changes_def person_def person_row_def new_row_def non_id_def ToLower_def lower_char_def)

lemma person_simps [simp]:
  "obj_ID (person i n m) = i" "obj_TableName (person i n m) = ''people''"
  by (simp_all add: person_def)

lemma person_stored:
  assumes "json_texts L"
  shows "insertable L test_people (person i n m)"
    and "new_row i (stored L test_people (person i n m)) = person_row i n (json_text L m)"
proof -
  have eq: "person i n m = text_object ''people'' i [(''name'', n), (''metadata'', m)]"
    by (simp add: person_def text_object_def)
  have names: "\<forall>(c, s)\<in>set [(''name'', n), (''metadata'', m)]. ToLower c \<noteq> ''id''"
    by (simp add: ToLower_def lower_char_def)
  obtain t where t: "json_text L m = CHR 0x22 # t" using json_texts_value(2) [OF assms] by blast
  have "whole_row test_people (map (stored_text L test_people) [(''name'', n), (''metadata'', m)])"
    by (simp add: whole_row_def good_values_def stored_text_def fits_def t no_number_def is_digit_def)
  then show "insertable L test_people (person i n m)"
    unfolding eq by (intro text_object_insertable [OF assms _ names]) simp_all
  show "new_row i (stored L test_people (person i n m)) = person_row i n (json_text L m)"
    unfolding eq text_object_stored(1) [OF assms names] by (simp add: person_row_def stored_text_def)
qed

lemma person_updatable: "no_number m \<Longrightarrow> updatable test_people (person i n m)"
  by (simp add: updatable_def changes_def person_def good_values_def fits_def non_id_def ToLower_def lower_char_def)

text \<open>The object of a person's row.\<close>

lemma person_found:
  assumes "row_object test_people i (person_row i n m) o1"
  shows "obj_ID o1 = i" and "GetString o1 ''name'' = Ok (n, True)" and "GetString o1 ''metadata'' = Ok (m, True)"
  using assms row_object_field [OF assms, of "''name''"] row_object_field [OF assms, of "''metadata''"]
  by (simp_all add: row_object_def object_view_def row_view_def GetString_def)

locale suite_store = record_store st L db open_on "mget (sch_Tables test_schema)" + keyed_storage st
  for st :: "'w Storage" and L :: "'e golib_scheme" and db :: "'w \<Rightarrow> database" and open_on :: "'w \<Rightarrow> bool" +
  fixes connected :: "'w \<Rightarrow> bool"
  assumes texts: "json_texts L"
    and creates: "connected w \<Longrightarrow> \<exists>w'. st_CreateTables st (Some test_schema) w = (Ok (), w') \<and> open_on w' \<and> db w' = db w"
    and resets: "open_on w \<Longrightarrow> \<exists>w'. st_ResetConnection st w = (Ok (), w')"
begin

text \<open>The storage is open and the table of people is \<open>s\<close>.\<close>

definition at :: "store \<Rightarrow> 'w \<Rightarrow> bool" where
  "at s w \<longleftrightarrow> open_on w \<and> db w ''people'' = s"

lemma test_insert:
  assumes "\<And>data. quiet (f (Ok (data, True))) (at (s(i \<mapsto> person_row i n (json_text L m)))) R"
  shows "quiet (seq (invoke (st_Insert st (person i n m))) f) (at s) R"
proof (rule quiet_invoke [where good = "\<lambda>x. snd x" and Q = "at (s(i \<mapsto> person_row i n (json_text L m)))"])
  show "\<exists>x w'. st_Insert st (person i n m) w = (Ok x, w') \<and> snd x \<and> at (s(i \<mapsto> person_row i n (json_text L m))) w'"
    if "at s w" for w
    using inserts [of w "''people''" test_people "person i n m"] person_stored [OF texts] that no_unique_simps(2) [OF test_people_unique]
    by (force simp: at_def)
qed (use assms in auto)

lemma test_update:
  assumes "no_number m" and "\<And>r. s i = Some r \<Longrightarrow> \<exists>n0 m0. r = person_row i n0 m0"
    and "quiet (f (Ok (s i \<noteq> None))) (at (if s i = None then s else s(i \<mapsto> person_row i n m))) R"
  shows "quiet (seq (invoke (st_Update st (person i n m))) f) (at s) R"
proof (rule quiet_invoke [where good = "\<lambda>x. x = (s i \<noteq> None)" and Q = "at (if s i = None then s else s(i \<mapsto> person_row i n m))"])
  fix w
  assume w: "at s w"
  from updates [of w "''people''" test_people "person i n m"] person_updatable [OF assms(1)] w obtain a w' where
    w': "st_Update st (person i n m) w = (a, w')" "open_on w'"
      "reports (\<lambda>b. b) (fst (update_row test_people i (changes (person i n m)) s)) a"
      "db w' = (db w)(''people'' := snd (update_row test_people i (changes (person i n m)) s))"
    by (auto simp: at_def)
  show "\<exists>x w'. st_Update st (person i n m) w = (Ok x, w') \<and> x = (s i \<noteq> None) \<and>
      at (if s i = None then s else s(i \<mapsto> person_row i n m)) w'"
    using w' assms(2) by (cases "s i")
      (auto simp: at_def update_row_def no_unique_simps [OF test_people_unique] reports_def person_row_changed)
qed (use assms(3) in simp)

lemma test_find:
  assumes "i \<noteq> []" and "s i = None \<Longrightarrow> quiet (f (Ok None)) (at s) R"
    and "\<And>r o1. s i = Some r \<Longrightarrow> row_object test_people i r o1 \<Longrightarrow> quiet (f (Ok (Some o1))) (at s) R"
  shows "quiet (seq (invoke (st_FindByID st ''people'' i)) f) (at s) R"
proof (rule quiet_invoke [where Q = "at s"])
  fix w
  assume w: "at s w"
  with finds_id [of w "''people''" test_people i] assms(1) obtain res w' where
    w': "st_FindByKey st ''people'' ''id'' i w = (Ok res, w')" "open_on w'" "db w' = db w"
      "s i = None \<Longrightarrow> res = None" "\<And>r. s i = Some r \<Longrightarrow> \<exists>o1. res = Some o1 \<and> row_object test_people i r o1"
    by (auto simp: at_def)
  then show "\<exists>x w'. st_FindByID st ''people'' i w = (Ok x, w') \<and>
      (case s i of None \<Rightarrow> x = None | Some r \<Rightarrow> \<exists>o1. x = Some o1 \<and> row_object test_people i r o1) \<and> at s w'"
    using w by (cases "s i") (auto simp: by_id at_def)
qed (use assms(2,3) in \<open>auto split: option.splits\<close>)

lemma test_find_name:
  assumes "n \<noteq> []" and "\<And>res. found test_people s ''name'' n res \<Longrightarrow> quiet (f (Ok res)) (at s) R"
  shows "quiet (seq (invoke (st_FindByKey st ''people'' ''name'' n)) f) (at s) R"
proof (rule quiet_invoke [where Q = "at s"])
  show "\<exists>x w'. st_FindByKey st ''people'' ''name'' n w = (Ok x, w') \<and> found test_people s ''name'' n x \<and> at s w'"
    if "at s w" for w
    using finds [of w "''people''" test_people "''name''" n] that assms(1) by (auto simp: at_def key_column_def)
qed (use assms(2) in auto)

lemma test_delete:
  assumes "quiet (f (Ok (s i \<noteq> None))) (at (s(i := None))) R"
  shows "quiet (seq (invoke (st_DeleteByID st ''people'' i)) f) (at s) R"
proof (rule quiet_invoke [where good = "\<lambda>x. x = (s i \<noteq> None)" and Q = "at (s(i := None))"])
  show "\<exists>x w'. st_DeleteByID st ''people'' i w = (Ok x, w') \<and> x = (s i \<noteq> None) \<and> at (s(i := None)) w'" if "at s w" for w
    using deletes [of w "''people''" test_people i] that by (auto simp: at_def)
qed (use assms in simp)

lemma test_create:
  "quiet (create_tables st) (\<lambda>w. connected w \<and> db w ''people'' = s) (at s)"
  unfolding create_tables_def GetTestSchema_eq seq_pure_Ok
  by (rule quiet_invoke [where good = "\<lambda>x. True" and Q = "at s"])
    (use creates in \<open>force simp: at_def\<close>, simp)

lemma test_reset:
  assumes "quiet (f (Ok ())) (\<lambda>w. True) R"
  shows "quiet (seq (invoke (st_ResetConnection st)) f) (at s) R"
  by (rule quiet_invoke [where good = "\<lambda>x. True" and Q = "\<lambda>w. True"])
    (use resets assms in \<open>force simp: at_def\<close>)+

lemma StorageTest_passes:
  assumes "s ''hello'' = None"
  shows "quiet (StorageTest st) (\<lambda>w. connected w \<and> db w ''people'' = s) (\<lambda>w. True)"
  unfolding StorageTest_def
  by (rule quiet_seq [OF test_create], rule test_find)
    (use assms in \<open>auto intro!: test_insert test_find test_delete test_reset simp: person_found fun_upd_idem\<close>)

text \<open>The tables between the parts of \<open>CRUDTest\<close>.\<close>

definition after_create :: store where
  "after_create = [''user1'' \<mapsto> person_row ''user1'' ''Alice Johnson'' (json_text L ''{\"age\": 30, \"city\": \"New York\"}''),
     ''user2'' \<mapsto> person_row ''user2'' ''Bob Smith'' (json_text L ''{\"age\": 25, \"city\": \"Boston\"}''),
     ''user3'' \<mapsto> person_row ''user3'' ''Charlie Brown'' (json_text L ''{\"age\": 35, \"city\": \"Chicago\"}'')]"

definition after_update :: store where
  "after_update = after_create(''user1'' \<mapsto>
     person_row ''user1'' ''Alice Johnson Updated'' ''{\"age\": 31, \"city\": \"San Francisco\"}'')"

definition after_upsert :: store where
  "after_upsert = after_update(''user2'' := None, ''user4'' \<mapsto>
     person_row ''user4'' ''David Wilson Jr'' (json_text L ''{\"age\": 29, \"city\": \"Portland\"}''))"

lemma crud_create_passes: "quiet (crud_create st) (at Map.empty) (at after_create)"
  by (simp add: crud_create_def crud_people_def after_create_def) (auto intro!: test_insert simp: seq_assoc)

lemma crud_rows:
  "after_create ''user1'' = Some (person_row ''user1'' ''Alice Johnson'' (json_text L ''{\"age\": 30, \"city\": \"New York\"}''))"
  "after_update ''user1'' = Some (person_row ''user1'' ''Alice Johnson Updated'' ''{\"age\": 31, \"city\": \"San Francisco\"}'')"
  "after_create ''nonexistent'' = None" "after_update ''nonexistent'' = None" "\<exists>r. after_update ''user2'' = Some r"
  "(after_update(''user2'' := None)) ''nonexistent'' = None"
  by (simp_all add: after_create_def after_update_def)

lemma find_bob:
  assumes "found test_people after_create ''name'' ''Bob Smith'' res"
  obtains o2 where "res = Some o2" and "obj_ID o2 = ''user2''"
proof (cases res)
  case None
  moreover have "after_create ''user2'' = Some (person_row ''user2'' ''Bob Smith'' (json_text L ''{\"age\": 25, \"city\": \"Boston\"}''))"
    by (simp add: after_create_def)
  ultimately show thesis using assms by (auto simp: found_def dest: spec [of _ "''user2''"])
next
  case (Some o2)
  with assms obtain i r where i: "after_create i = Some r" "r ''name'' = VStr ''Bob Smith''" "row_object test_people i r o2"
    by (auto simp: found_def)
  then have "i = ''user2''" "r = person_row ''user2'' ''Bob Smith'' (json_text L ''{\"age\": 25, \"city\": \"Boston\"}'')"
    by (auto simp: after_create_def split: if_splits)
  with i(3) Some that person_found(1) show thesis by simp
qed

lemma crud_read_passes: "quiet (crud_read st) (at after_create) (at after_create)"
  unfolding crud_read_def
  by (rule test_find) (auto simp: crud_rows person_found check_passes elim!: find_bob intro!: test_find_name test_find)

lemma crud_update_passes: "quiet (crud_update st) (at after_create) (at after_update)"
  unfolding crud_update_def
  by (rule test_update)
    (auto simp: crud_rows person_found check_passes no_number_def is_digit_def after_update_def [symmetric] intro!: test_find test_update)

lemma crud_delete_passes: "quiet (crud_delete st) (at after_update) (at (after_update(''user2'' := None)))"
  unfolding crud_delete_def
  by (rule test_delete) (use crud_rows in \<open>auto simp: fun_upd_idem intro!: test_find test_delete\<close>)

lemma crud_upsert_passes: "quiet (crud_upsert st) (at (after_update(''user2'' := None))) (at after_upsert)"
  unfolding crud_upsert_def
  by (rule test_insert) (auto simp: person_found check_passes after_upsert_def intro!: test_find test_insert)

lemma CRUDTest_passes:
  "quiet (CRUDTest st) (\<lambda>w. connected w \<and> db w ''people'' = Map.empty) (\<lambda>w. True)"
  unfolding CRUDTest_def clean_up_def
  by (rule quiet_seq [OF test_create], rule quiet_seq [OF crud_create_passes], rule quiet_seq [OF crud_read_passes],
      rule quiet_seq [OF crud_update_passes], rule quiet_seq [OF crud_delete_passes],
      rule quiet_seq [OF crud_upsert_passes], rule test_reset) simp

end

section \<open>Tests that are not passed\<close>

text \<open>Reports are only added, and a test that ends early has added one.\<close>

definition proper :: "('w trial, 'a) go \<Rightarrow> bool" where
  "proper m \<longleftrightarrow> (\<forall>t. \<exists>rs. tr_reports (snd (m t)) = tr_reports t @ rs \<and> (\<forall>e. fst (m t) = Error e \<longrightarrow> rs \<noteq> []))"

lemma properD:
  assumes "proper m" and "m t = (r, t')"
  obtains rs where "tr_reports t' = tr_reports t @ rs" and "\<And>e. r = Error e \<Longrightarrow> rs \<noteq> []"
  using assms unfolding proper_def by (metis fst_conv snd_conv)

lemma proper_seq:
  assumes m: "proper m" and f: "\<And>x. proper (f x)"
  shows "proper (seq m f)"
  unfolding proper_def
proof
  fix t
  obtain r t1 where r: "m t = (r, t1)" by fastforce
  obtain rs where rs: "tr_reports t1 = tr_reports t @ rs" "\<And>e. r = Error e \<Longrightarrow> rs \<noteq> []" by (rule properD [OF m r]) blast
  show "\<exists>rs. tr_reports (snd (seq m f t)) = tr_reports t @ rs \<and> (\<forall>e. fst (seq m f t) = Error e \<longrightarrow> rs \<noteq> [])"
  proof (cases r)
    case (Ok x)
    obtain r2 t2 where r2: "f x t1 = (r2, t2)" by fastforce
    obtain rs2 where "tr_reports t2 = tr_reports t1 @ rs2" "\<And>e. r2 = Error e \<Longrightarrow> rs2 \<noteq> []" by (rule properD [OF f r2]) blast
    with rs(1) Ok r r2 show ?thesis by (auto simp: seq_def)
  qed (use r rs in \<open>simp_all add: seq_def\<close>)
qed

lemma proper_basic [simp]:
  "proper (ret x)" "proper (Errorf msg)" "proper (Fatalf msg)" "proper (errorf_if b msg)" "proper (fatalf_if b msg)"
  "proper (invoke m)" "(\<And>e. r \<noteq> Error e) \<Longrightarrow> proper (pure r)"
  by (auto simp: proper_def Errorf_def Fatalf_def errorf_if_def fatalf_if_def invoke_def go_defs split: prod.splits result.splits)

lemma string_of_result [simp]: "string_of v n \<noteq> Error e" "ID_of v \<noteq> Error e"
  by (auto simp: string_of_def ID_of_def GetString_def split: option.splits goval.splits if_splits)

text \<open>The outcome of a test without a report.\<close>

definition clean :: "('w trial, 'a) go \<Rightarrow> 'w \<Rightarrow> 'a \<Rightarrow> 'w \<Rightarrow> bool" where
  "clean m w x w' \<longleftrightarrow> m \<lparr>tr_world = w, tr_reports = []\<rparr> = (Ok x, \<lparr>tr_world = w', tr_reports = []\<rparr>)"

lemma clean_seq:
  assumes "clean (seq m f) w y w'" and proper: "\<And>x. proper (f x)"
  obtains x w1 where "clean m w x w1" and "clean (f x) w1 y w'"
proof -
  from assms(1) obtain x t1 where m: "m \<lparr>tr_world = w, tr_reports = []\<rparr> = (Ok x, t1)"
    and f: "f x t1 = (Ok y, \<lparr>tr_world = w', tr_reports = []\<rparr>)"
    unfolding clean_def by (rule seq_OkE)
  obtain rs where "[] = tr_reports t1 @ rs" using properD [OF proper f] by (metis trial.select_convs(2))
  then have "t1 = \<lparr>tr_world = tr_world t1, tr_reports = []\<rparr>" by simp
  with m f show thesis by (metis that clean_def)
qed

lemma clean_basic [simp]:
  "clean (errorf_if b msg) w x w' \<longleftrightarrow> \<not> b \<and> w' = w" "clean (fatalf_if b msg) w u w' \<longleftrightarrow> \<not> b \<and> w' = w"
  "clean (pure r) w z w' \<longleftrightarrow> r = Ok z \<and> w' = w" "clean (ret y) w z w' \<longleftrightarrow> z = y \<and> w' = w"
  "clean (Errorf msg) w x w' \<longleftrightarrow> False"
  by (auto simp: clean_def errorf_if_def fatalf_if_def Errorf_def Fatalf_def go_defs)

lemma clean_invoke:
  "clean (invoke m) w r w' \<longleftrightarrow> m w = (r, w') \<and> ((\<exists>x. r = Ok x) \<or> (\<exists>e. r = Error e))"
  by (auto simp: clean_def invoke_def split: prod.splits result.splits)

lemma passes_clean: "passes m w \<longleftrightarrow> (\<exists>w'. clean m w () w')"
  by (simp add: passes_def clean_def)

lemmas proper_intros = proper_seq proper_basic

lemma proper_each: "(\<And>x. proper (f x)) \<Longrightarrow> proper (each f xs)"
  by (induction xs) (simp_all add: proper_seq)

lemma proper_create_tables [simp]: "proper (create_tables st)"
  unfolding create_tables_def GetTestSchema_eq by (simp add: proper_seq)

lemma proper_Run: "proper m \<Longrightarrow> proper (Run m)"
  unfolding proper_def
proof
  fix t
  assume "\<forall>t. \<exists>rs. tr_reports (snd (m t)) = tr_reports t @ rs \<and> (\<forall>e. fst (m t) = Error e \<longrightarrow> rs \<noteq> [])"
  then obtain rs where "tr_reports (snd (m t)) = tr_reports t @ rs" by blast
  then show "\<exists>rs. tr_reports (snd (Run m t)) = tr_reports t @ rs \<and> (\<forall>e. fst (Run m t) = Error e \<longrightarrow> rs \<noteq> [])"
    by (auto simp: Run_def catch_def ret_def split: prod.splits result.splits)
qed

lemma clean_Run: "proper m \<Longrightarrow> clean (Run m) w x w' \<Longrightarrow> clean m w x w'"
  unfolding clean_def Run_def
  by (auto simp: catch_def ret_def split: prod.splits result.splits elim!: properD)

lemma proper_after_rollback [simp]:
  "proper (fatalf_after_rollback_if b st tx msg)" "proper (errorf_after_rollback_if b st tx msg)"
  by (simp_all add: fatalf_after_rollback_if_def errorf_after_rollback_if_def proper_seq)

lemmas suite_parts =
  clean_up_def check_name_def crud_create_def crud_update_def crud_delete_def crud_upsert_def crud_read_def
  upsert_new_def upsert_existing_def upsert_tx_new_def upsert_tx_existing_def upsert_in_tx_def find_upserted_def check_metadata_def
  BasicTransactionCommit_def TransactionRollback_def TransactionUpdate_def TransactionDelete_def TransactionFindByKey_def
  begin_tx_def insert_in_tx_def insert_initial_def find_in_tx_def commit_tx_def find_committed_def refusal_def
  NilTransactionHandling_def Let_def

lemma GetString_result [simp]: "GetString o1 n \<noteq> Error e"
  by (auto simp: GetString_def split: option.splits goval.splits if_splits)

lemma proper_parts [simp]:
  "proper (clean_up st)" "proper (check_name v n missing wrong)" "proper (check_metadata v part wrong)"
  "proper (upsert_in_tx st obj no_begin no_upsert no_commit)" "proper (find_upserted st i name no_find missing wrong)"
  "proper (begin_tx st)" "proper (insert_in_tx st tx obj)" "proper (insert_initial st obj)"
  "proper (find_in_tx st tx f no_find missing)" "proper (commit_tx st tx)" "proper (find_committed f no_find missing)"
  "proper (refusal c msg)" "proper (crud_create st)"
  "proper (crud_update st)" "proper (crud_delete st)" "proper (crud_upsert st)" "proper (crud_read st)"
  "proper (upsert_new st)" "proper (upsert_existing st)" "proper (upsert_tx_new st)" "proper (upsert_tx_existing st)"
  "proper (BasicTransactionCommit st)" "proper (TransactionRollback st)" "proper (TransactionUpdate st)"
  "proper (TransactionDelete st)" "proper (TransactionFindByKey st)" "proper (NilTransactionHandling st)"
  unfolding suite_parts case_prod_unfold
  by (auto intro!: proper_seq proper_each split: option.splits)

text \<open>
  The tests look up what they inserted: they are passed only where a lookup finds an object with an
  identifier or a name.
\<close>

definition suite :: "'w Storage \<Rightarrow> ('w trial, unit) go list" where
  "suite st = [StorageTest st, CRUDTest st, UpsertTest st, TransactionTest st]"

definition finds_named :: "'w Storage \<Rightarrow> bool" where
  "finds_named st \<longleftrightarrow> (\<exists>i v w w'. i \<noteq> [] \<and> st_FindByID st ''people'' i w = (Ok (Some v), w') \<and>
     (obj_ID v \<noteq> [] \<or> (\<exists>n. GetString v ''name'' = Ok (n, True) \<and> n \<noteq> [])))"

lemma finds_namedI:
  assumes "clean (invoke (st_FindByID st ''people'' i)) w v w'" and "i \<noteq> []" and "object v \<noteq> None"
  shows "ID_of (object v) = Ok i \<Longrightarrow> finds_named st"
    and "string_of (object v) ''name'' = Ok (n, True) \<Longrightarrow> n \<noteq> [] \<Longrightarrow> finds_named st"
proof -
  from assms(1,3) obtain o1 where "st_FindByID st ''people'' i w = (Ok (Some o1), w')" "object v = Some o1"
    by (cases v) (auto simp: clean_invoke object_def value_or_def)
  with assms(2) show "ID_of (object v) = Ok i \<Longrightarrow> finds_named st"
    "string_of (object v) ''name'' = Ok (n, True) \<Longrightarrow> n \<noteq> [] \<Longrightarrow> finds_named st"
    by (force simp: finds_named_def)+
qed

lemma StorageTest_needs: "passes (StorageTest st) w \<Longrightarrow> finds_named st"
  unfolding passes_clean StorageTest_def case_prod_unfold
  by (elim exE clean_seq) (auto simp: proper_seq intro: finds_namedI(1))

lemma CRUDTest_needs:
  assumes "passes (CRUDTest st) w"
  shows "finds_named st"
proof -
  obtain w1 w2 where "clean (crud_read st) w1 () w2"
    using assms unfolding passes_clean CRUDTest_def by (elim exE clean_seq) (simp_all add: proper_seq)
  then show ?thesis
    unfolding crud_read_def by (elim clean_seq) (auto simp: proper_seq intro: finds_namedI(1) split: option.splits)
qed

lemma UpsertTest_needs:
  assumes "passes (UpsertTest st) w"
  shows "finds_named st"
proof -
  obtain w1 w2 where "clean (upsert_new st) w1 () w2"
    using assms unfolding passes_clean UpsertTest_def by (elim exE clean_seq) (simp_all add: proper_seq)
  then show ?thesis
    unfolding upsert_new_def find_upserted_def case_prod_unfold
    by (elim clean_seq) (auto simp: proper_seq intro: finds_namedI(2) split: option.splits)
qed

lemma TransactionTest_needs:
  assumes "passes (TransactionTest st) w"
  shows "finds_named st" and "\<exists>w w'. clean (NilTransactionHandling st) w () w'"
proof -
  obtain w1 w2 w3 w4 where "clean (Run (BasicTransactionCommit st)) w1 () w2" and nil: "clean (Run (NilTransactionHandling st)) w3 () w4"
    using assms unfolding passes_clean TransactionTest_def by (elim exE clean_seq) (simp_all add: proper_seq proper_Run)
  from clean_Run [OF _ this(1)] have "clean (BasicTransactionCommit st) w1 () w2" by simp
  then show "finds_named st"
    unfolding BasicTransactionCommit_def find_committed_def
    by (elim clean_seq) (auto simp: proper_seq intro: finds_namedI(1) split: option.splits)
  from clean_Run [OF _ nil] show "\<exists>w w'. clean (NilTransactionHandling st) w () w'" by auto
qed

lemma suite_fails: "\<not> finds_named st \<Longrightarrow> list_all (\<lambda>test. \<not> passes test w) (suite st)"
  by (auto simp: suite_def dest: StorageTest_needs CRUDTest_needs UpsertTest_needs TransactionTest_needs(1))

end
