(* ===== verification/TxStore.thy ===== *)
theory TxStore
  imports TableStore
begin

text \<open>
  Transactions on a storage of tables: what one promises is that the calls made in it act on a copy of
  the database, which a commit puts in place and a rollback drops, while calls outside of it read
  the database as it was. \<open>TxRefinement\<close> shows that the SQLite adapter keeps the promise.
\<close>

section \<open>A transaction\<close>

text \<open>A call in the transaction, or a lookup outside of it while it is under way.\<close>

datatype tx_step = Inside op | Outside string

fun tx_call :: "'w Storage \<Rightarrow> nat \<Rightarrow> string \<Rightarrow> tx_step \<Rightarrow> ('w, answer) go" where
  "tx_call st k T (Inside (OInsert obj)) = seq (st_InsertTx st (Some k) obj) (\<lambda>(data, created). ret (AInsert created))"
| "tx_call st k T (Inside (OUpdate obj)) = catch (st_UpdateTx st (Some k) obj) (\<lambda>e. ret ARefused) (\<lambda>b. ret (AUpdate b))"
| "tx_call st k T (Inside (OFind i)) = seq (st_FindByIDTx st (Some k) T i) (\<lambda>o1. ret (AFind (map_option object_view o1)))"
| "tx_call st k T (Inside (ODelete i)) = seq (st_DeleteByIDTx st (Some k) T i) (\<lambda>b. ret (ADelete b))"
| "tx_call st k T (Outside i) = seq (st_FindByID st T i) (\<lambda>o1. ret (AFind (map_option object_view o1)))"

text \<open>The calls of a transaction on their tables, and the transaction with its end.\<close>

fun tx_calls :: "'w Storage \<Rightarrow> nat \<Rightarrow> (string \<times> tx_step) list \<Rightarrow> ('w, answer list) go" where
  "tx_calls st k [] = ret []"
| "tx_calls st k ((T, p) # ps) = seq (tx_call st k T p) (\<lambda>a. seq (tx_calls st k ps) (\<lambda>as. ret (a # as)))"

definition run_tx :: "'w Storage \<Rightarrow> (string \<times> tx_step) list \<Rightarrow> bool \<Rightarrow> ('w, answer list) go" where
  "run_tx st ps commit =
     seq (st_BeginTx st) (\<lambda>k.
     seq (tx_calls st k ps) (\<lambda>as.
     seq (if commit then st_CommitTx st (Some k) else st_RollbackTx st (Some k)) (\<lambda>_.
     ret as)))"

text \<open>
  What they do: \<open>s\<close> is the table as it is committed, \<open>v\<close> as the transaction sees it; the same of all
  tables.
\<close>

fun spec_tx_step :: "'e golib_scheme \<Rightarrow> TableSchema \<Rightarrow> store \<Rightarrow> tx_step \<Rightarrow> store \<Rightarrow> answer \<times> store" where
  "spec_tx_step L tbl s (Inside p) v = spec_op L tbl p v"
| "spec_tx_step L tbl s (Outside i) v = (AFind (map_option (row_view tbl i) (s i)), v)"

fun spec_tx :: "'e golib_scheme \<Rightarrow> (string \<Rightarrow> TableSchema option) \<Rightarrow> database \<Rightarrow> (string \<times> tx_step) list \<Rightarrow> database \<Rightarrow>
    answer list \<times> database" where
  "spec_tx L tables R [] V = ([], V)"
| "spec_tx L tables R ((T, p) # ps) V = (case spec_tx_step L (the (tables T)) (R T) p (V T) of (a, v) \<Rightarrow>
     (case spec_tx L tables R ps (V(T := v)) of (as, V1) \<Rightarrow> (a # as, V1)))"

fun good_step :: "'e golib_scheme \<Rightarrow> TableSchema \<Rightarrow> tx_step \<Rightarrow> bool" where
  "good_step L tbl (Inside (OInsert obj)) = (insertable L tbl obj \<and> wf_map (obj_Fields obj))"
| "good_step L tbl (Inside p) = good_op L tbl p"
| "good_step L tbl (Outside i) = (i \<noteq> [])"

definition good_steps :: "'e golib_scheme \<Rightarrow> (string \<Rightarrow> TableSchema option) \<Rightarrow> (string \<times> tx_step) list \<Rightarrow> bool" where
  "good_steps L tables ps \<longleftrightarrow> (\<forall>(T, p)\<in>set ps. \<exists>tbl. tables T = Some tbl \<and> good_step L tbl p)"

section \<open>The contract\<close>

text \<open>\<open>in_tx k R V\<close>: the transaction \<open>k\<close> is under way, the database is \<open>R\<close>, and the transaction sees \<open>V\<close>.\<close>

locale tx_store = record_store st L db open_on tables + keyed_storage st
  for st :: "'w Storage" and L :: "'e golib_scheme" and db :: "'w \<Rightarrow> database" and open_on :: "'w \<Rightarrow> bool"
    and tables :: "string \<Rightarrow> TableSchema option" +
  fixes in_tx :: "nat \<Rightarrow> database \<Rightarrow> database \<Rightarrow> 'w \<Rightarrow> bool"
  assumes views_fit: "in_tx k R V w \<Longrightarrow> tables T = Some tbl \<Longrightarrow> store_fits tbl (R T) \<and> store_fits tbl (V T)"
    and begins: "open_on w \<Longrightarrow> \<exists>k w'. st_BeginTx st w = (Ok k, w') \<and> in_tx k (db w) (db w) w'"
    and commits: "in_tx k R V w \<Longrightarrow> \<exists>w'. st_CommitTx st (Some k) w = (Ok (), w') \<and> open_on w' \<and> db w' = V"
    and rolls_back: "in_tx k R V w \<Longrightarrow> \<exists>w'. st_RollbackTx st (Some k) w = (Ok (), w') \<and> open_on w' \<and> db w' = R"
    and tx_inserts: "in_tx k R V w \<Longrightarrow> tables T = Some tbl \<Longrightarrow> insertable L tbl obj \<Longrightarrow> wf_map (obj_Fields obj) \<Longrightarrow>
      \<exists>data w'. st_InsertTx st (Some k) obj w = (Ok (data, True), w') \<and>
        in_tx k R (V(T := replace_row tbl (obj_ID obj) (new_row (obj_ID obj) (stored L tbl obj)) (V T))) w'"
    and tx_updates: "in_tx k R V w \<Longrightarrow> tables T = Some tbl \<Longrightarrow> updatable tbl obj \<Longrightarrow>
      \<exists>a w'. st_UpdateTx st (Some k) obj w = (a, w') \<and>
        reports (\<lambda>b. b) (fst (update_row tbl (obj_ID obj) (changes obj) (V T))) a \<and>
        in_tx k R (V(T := snd (update_row tbl (obj_ID obj) (changes obj) (V T)))) w'"
    and tx_finds: "in_tx k R V w \<Longrightarrow> tables T = Some tbl \<Longrightarrow> key_column tbl n \<Longrightarrow> x \<noteq> [] \<Longrightarrow>
      \<exists>res w'. st_FindByKeyTx st (Some k) T n x w = (Ok res, w') \<and> in_tx k R V w' \<and> found tbl (V T) n x res"
    and tx_deletes: "in_tx k R V w \<Longrightarrow> tables T = Some tbl \<Longrightarrow>
      \<exists>w'. st_DeleteByIDTx st (Some k) T i w = (Ok (V T i \<noteq> None), w') \<and> in_tx k R (V(T := (V T)(i := None))) w'"
    and outside_finds: "in_tx k R V w \<Longrightarrow> tables T = Some tbl \<Longrightarrow> key_column tbl n \<Longrightarrow> x \<noteq> [] \<Longrightarrow>
      \<exists>res w'. st_FindByKey st T n x w = (Ok res, w') \<and> in_tx k R V w' \<and> found tbl (R T) n x res"
begin

lemma found_view:
  assumes "store_fits tbl s" and "found tbl s ''id'' i res"
  shows "map_option object_view res = map_option (row_view tbl i) (s i)"
  using assms(2) found_id [OF assms(1)] by (auto simp: row_object_def split: option.splits)

lemma tx_call_run:
  assumes w: "in_tx k R V w" and T: "tables T = Some tbl" and p: "good_step L tbl p"
  shows "\<exists>w'. tx_call st k T p w = (Ok (fst (spec_tx_step L tbl (R T) p (V T))), w') \<and>
    in_tx k R (V(T := snd (spec_tx_step L tbl (R T) p (V T)))) w'"
proof -
  have id: "key_column tbl ''id''" using table_plain [OF T] key_column_id by blast
  have fit: "store_fits tbl (R T)" "store_fits tbl (V T)" using views_fit [OF w T] by simp_all
  show ?thesis
  proof (cases p)
    case (Outside i)
    with p outside_finds [OF w T id, of i] found_view [OF fit(1)] show ?thesis
      by (auto simp: seq_def by_id by_id_tx)
  next
    case (Inside q)
    show ?thesis
    proof (cases q)
      case (OInsert obj)
      with Inside p tx_inserts [OF w T, of obj] show ?thesis by (auto simp: seq_def)
    next
      case (OUpdate obj)
      with Inside p have "updatable tbl obj" by simp
      from tx_updates [OF w T this] obtain a w' where
        "st_UpdateTx st (Some k) obj w = (a, w')"
        "reports (\<lambda>b. b) (fst (update_row tbl (obj_ID obj) (changes obj) (V T))) a"
        "in_tx k R (V(T := snd (update_row tbl (obj_ID obj) (changes obj) (V T)))) w'" by blast
      then show ?thesis
        using Inside OUpdate by (intro exI [of _ w']) (auto simp: catch_def reports_def split: prod.splits option.splits)
    next
      case (OFind i)
      with Inside p tx_finds [OF w T id, of i] found_view [OF fit(2)] show ?thesis
        by (auto simp: seq_def by_id by_id_tx)
    next
      case (ODelete i)
      with Inside tx_deletes [OF w T, of i] show ?thesis by (auto simp: seq_def)
    qed
  qed
qed

lemma tx_calls_run:
  assumes "in_tx k R V w" and "good_steps L tables ps"
  shows "\<exists>w'. tx_calls st k ps w = (Ok (fst (spec_tx L tables R ps V)), w') \<and> in_tx k R (snd (spec_tx L tables R ps V)) w'"
  using assms
proof (induction ps arbitrary: V w)
  case (Cons q ps)
  obtain T p tbl where q: "q = (T, p)" and T: "tables T = Some tbl" and p: "good_step L tbl p"
    using Cons.prems(2) by (cases q) (auto simp: good_steps_def)
  obtain a v where a: "spec_tx_step L tbl (R T) p (V T) = (a, v)" by fastforce
  obtain as V1 where as: "spec_tx L tables R ps (V(T := v)) = (as, V1)" by fastforce
  from tx_call_run [OF Cons.prems(1) T p] a obtain w1 where
    w1: "tx_call st k T p w = (Ok a, w1)" "in_tx k R (V(T := v)) w1" by auto
  have "good_steps L tables ps" using Cons.prems(2) by (simp add: good_steps_def)
  from Cons.IH [OF w1(2) this] as obtain w2 where
    "tx_calls st k ps w1 = (Ok as, w2)" "in_tx k R V1 w2" by (auto simp del: fun_upd_apply)
  with w1(1) a as T show ?case by (simp add: q seq_def)
qed simp

text \<open>A transaction that is committed does its calls at once, and one that is rolled back nothing.\<close>

lemma run_tx_run:
  assumes "open_on w" and "good_steps L tables ps"
  shows "\<exists>w'. run_tx st ps commit w = (Ok (fst (spec_tx L tables (db w) ps (db w))), w') \<and> open_on w' \<and>
    db w' = (if commit then snd (spec_tx L tables (db w) ps (db w)) else db w)"
proof -
  from begins [OF assms(1)] obtain k w1 where w1: "st_BeginTx st w = (Ok k, w1)" "in_tx k (db w) (db w) w1" by blast
  from tx_calls_run [OF w1(2) assms(2)] obtain w2 where
    w2: "tx_calls st k ps w1 = (Ok (fst (spec_tx L tables (db w) ps (db w))), w2)"
      "in_tx k (db w) (snd (spec_tx L tables (db w) ps (db w))) w2" by blast
  from commits [OF w2(2)] rolls_back [OF w2(2)] w1(1) w2(1) show ?thesis
    by (cases commit) (auto simp: run_tx_def seq_def)
qed

end

end
