(* ===== verification/SuiteTx.thy ===== *)
theory SuiteTx
  imports SuiteRun TxStore
begin

text \<open>
  What a storage with transactions makes of \<open>UpsertTest\<close> and \<open>TransactionTest\<close>: the runs of
  \<open>SuiteRun\<close>, with a transaction under way in between.
\<close>

text \<open>The outcome of a call that the rest of a test depends on.\<close>

lemma quiet_call:
  assumes "\<And>w. P w \<Longrightarrow> \<exists>x w'. m w = (Ok x, w') \<and> Q x w'" and "\<And>x. quiet (f (Ok x)) (Q x) R"
  shows "quiet (seq (invoke m) f) P R"
proof (rule quietI)
  fix t :: "'a trial"
  assume "P (tr_world t)"
  from assms(1) [OF this] obtain x w' where m: "m (tr_world t) = (Ok x, w')" "Q x w'" by blast
  from quietD [OF assms(2) m(2)] m(1) show "\<exists>y w. seq (invoke m) f t = (Ok y, t\<lparr>tr_world := w\<rparr>) \<and> R w"
    by (simp add: invoke_def seq_def)
qed

lemma quiet_refusal:
  assumes "\<And>w. m w = (Error e, w)"
  shows "quiet (refusal m msg) P P"
  unfolding refusal_def
  by (rule quietI) (auto simp: invoke_def assms seq_def failed_def errorf_if_def ret_def intro!: exI [of _ "tr_world _"])

lemma quiet_Run: "quiet m P Q \<Longrightarrow> quiet (Run m) P Q"
  by (fastforce simp: quiet_def Run_def catch_def ret_def)

lemma seq_Pair [simp]: "seq (Pair (Ok x)) f = f x"
  by (simp add: fun_eq_iff seq_def)

lemma tx_of_Ok [simp]: "tx_of (Ok k) = Some k"
  by (simp add: tx_of_def)

lemma person_wf: "wf_map (obj_Fields (person i n m))"
  by (simp add: person_def wf_map_def mkeys_def)

text \<open>The JSON text of a text has its words.\<close>

definition word_char :: "char \<Rightarrow> bool" where
  "word_char c \<longleftrightarrow> c \<in> set ''abcdefghijklmnopqrstuvwxyz_''"

definition json_words :: "'e golib_scheme \<Rightarrow> bool" where
  "json_words L \<longleftrightarrow> (\<forall>s w. list_all word_char w \<longrightarrow> Contains s w \<longrightarrow> Contains (json_text L s) w)"

locale suite_tx_store = suite_store st L db open_on connected +
    tx_store st L db open_on "mget (sch_Tables test_schema)" in_tx + tx_guarded st
  for st :: "'w Storage" and L :: "'e golib_scheme" and db :: "'w \<Rightarrow> database" and open_on :: "'w \<Rightarrow> bool"
    and connected :: "'w \<Rightarrow> bool" and in_tx :: "nat \<Rightarrow> database \<Rightarrow> database \<Rightarrow> 'w \<Rightarrow> bool" +
  assumes words: "json_words L"
begin

text \<open>The transaction \<open>k\<close> is under way; the table of people is \<open>s\<close>, and \<open>v\<close> in the transaction.\<close>

definition within :: "nat \<Rightarrow> store \<Rightarrow> store \<Rightarrow> 'w \<Rightarrow> bool" where
  "within k s v w \<longleftrightarrow> (\<exists>R V. in_tx k R V w \<and> R ''people'' = s \<and> V ''people'' = v)"

lemma test_begin:
  assumes "\<And>k. quiet (f (Ok k)) (within k s s) R"
  shows "quiet (seq (invoke (st_BeginTx st)) f) (at s) R"
proof (rule quiet_call [where Q = "\<lambda>k. within k s s"])
  show "\<exists>k w'. st_BeginTx st w = (Ok k, w') \<and> within k s s w'" if "at s w" for w
    using begins [of w] that unfolding at_def within_def by blast
qed (rule assms)

lemma test_commit:
  assumes "quiet (f (Ok ())) (at v) R"
  shows "quiet (seq (invoke (st_CommitTx st (Some k))) f) (within k s v) R"
proof (rule quiet_invoke [where good = "\<lambda>x. True" and Q = "at v"])
  show "\<exists>x w'. st_CommitTx st (Some k) w = (Ok x, w') \<and> True \<and> at v w'" if "within k s v w" for w
    using commits [of k _ _ w] that unfolding at_def within_def by blast
qed (use assms in simp)

lemma test_rollback:
  assumes "quiet (f (Ok ())) (at s) R"
  shows "quiet (seq (invoke (st_RollbackTx st (Some k))) f) (within k s v) R"
proof (rule quiet_invoke [where good = "\<lambda>x. True" and Q = "at s"])
  show "\<exists>x w'. st_RollbackTx st (Some k) w = (Ok x, w') \<and> True \<and> at s w'" if "within k s v w" for w
    using rolls_back [of k _ _ w] that unfolding at_def within_def by blast
qed (use assms in simp)

lemma test_insert_tx:
  assumes "\<And>data. quiet (f (Ok (data, True))) (within k s (v(i \<mapsto> person_row i n (json_text L m)))) R"
  shows "quiet (seq (invoke (st_InsertTx st (Some k) (person i n m))) f) (within k s v) R"
proof (rule quiet_invoke [where good = "\<lambda>x. snd x" and Q = "within k s (v(i \<mapsto> person_row i n (json_text L m)))"])
  show "\<exists>x w'. st_InsertTx st (Some k) (person i n m) w = (Ok x, w') \<and> snd x \<and>
      within k s (v(i \<mapsto> person_row i n (json_text L m))) w'" if w: "within k s v w" for w
  proof -
    from w obtain R0 V where V: "in_tx k R0 V w" "R0 ''people'' = s" "V ''people'' = v" unfolding within_def by blast
    from tx_inserts [OF V(1), of "''people''" test_people "person i n m"] V(3) person_stored [OF texts] person_wf
    obtain data w' where "st_InsertTx st (Some k) (person i n m) w = (Ok (data, True), w')"
      "in_tx k R0 (V(''people'' := v(i \<mapsto> person_row i n (json_text L m)))) w'"
      by (auto simp: no_unique_simps(2) [OF test_people_unique])
    with V(2) show ?thesis by (fastforce simp: within_def)
  qed
qed (use assms in auto)

lemma test_update_tx:
  assumes "no_number m" and i: "v i = Some (person_row i n0 m0)"
    and "quiet (f (Ok True)) (within k s (v(i \<mapsto> person_row i n m))) R"
  shows "quiet (seq (invoke (st_UpdateTx st (Some k) (person i n m))) f) (within k s v) R"
proof (rule quiet_invoke [where good = "\<lambda>x. x = True" and Q = "within k s (v(i \<mapsto> person_row i n m))"])
  show "\<exists>x w'. st_UpdateTx st (Some k) (person i n m) w = (Ok x, w') \<and> x = True \<and> within k s (v(i \<mapsto> person_row i n m)) w'"
    if w: "within k s v w" for w
  proof -
    from w obtain R0 V where V: "in_tx k R0 V w" "R0 ''people'' = s" "V ''people'' = v" unfolding within_def by blast
    have upd: "update_row test_people i (changes (person i n m)) v = (Some True, v(i \<mapsto> person_row i n m))"
      using i by (simp add: update_row_def no_unique_simps [OF test_people_unique] person_row_changed)
    from tx_updates [OF V(1), of "''people''" test_people "person i n m"] V(3) person_updatable [OF assms(1)] upd
    obtain w' where "st_UpdateTx st (Some k) (person i n m) w = (Ok True, w')"
      "in_tx k R0 (V(''people'' := v(i \<mapsto> person_row i n m))) w'"
      by (auto simp: reports_def)
    with V(2) show ?thesis by (fastforce simp: within_def)
  qed
qed (use assms(3) in simp)

lemma test_delete_tx:
  assumes "quiet (f (Ok (v i \<noteq> None))) (within k s (v(i := None))) R"
  shows "quiet (seq (invoke (st_DeleteByIDTx st (Some k) ''people'' i)) f) (within k s v) R"
proof (rule quiet_invoke [where good = "\<lambda>x. x = (v i \<noteq> None)" and Q = "within k s (v(i := None))"])
  show "\<exists>x w'. st_DeleteByIDTx st (Some k) ''people'' i w = (Ok x, w') \<and> x = (v i \<noteq> None) \<and> within k s (v(i := None)) w'"
    if w: "within k s v w" for w
  proof -
    from w obtain R0 V where V: "in_tx k R0 V w" "R0 ''people'' = s" "V ''people'' = v" unfolding within_def by blast
    from tx_deletes [OF V(1), of "''people''" test_people i] V show ?thesis by (fastforce simp: within_def)
  qed
qed (use assms in simp)

text \<open>Lookups in the transaction and outside of it.\<close>

definition person_or_none :: "store \<Rightarrow> string \<Rightarrow> Object option \<Rightarrow> bool" where
  "person_or_none s i res \<longleftrightarrow> (case s i of None \<Rightarrow> res = None | Some r \<Rightarrow> \<exists>o1. res = Some o1 \<and> row_object test_people i r o1)"

lemma found_person: "store_fits test_people s \<Longrightarrow> found test_people s ''id'' i res \<Longrightarrow> person_or_none s i res"
  by (auto simp: found_id person_or_none_def split: option.splits)

lemma test_find_tx:
  assumes "i \<noteq> []" and "\<And>res. person_or_none v i res \<Longrightarrow> quiet (f (Ok res)) (within k s v) R"
  shows "quiet (seq (invoke (st_FindByIDTx st (Some k) ''people'' i)) f) (within k s v) R"
proof (rule quiet_invoke [where good = "person_or_none v i" and Q = "within k s v"])
  fix w
  assume "within k s v w"
  then obtain R0 V where V: "in_tx k R0 V w" "R0 ''people'' = s" "V ''people'' = v" unfolding within_def by blast
  have T: "mget (sch_Tables test_schema) ''people'' = Some test_people" by simp
  from tx_finds [OF V(1) T _ assms(1), of "''id''"] obtain res w' where
    "st_FindByIDTx st (Some k) ''people'' i w = (Ok res, w')" "in_tx k R0 V w'" "found test_people v ''id'' i res"
    using key_column_id [OF test_people_plain] V(3) by (auto simp: by_id_tx)
  with views_fit [OF V(1) T] V(2,3) show "\<exists>x w'. st_FindByIDTx st (Some k) ''people'' i w = (Ok x, w') \<and>
      person_or_none v i x \<and> within k s v w'"
    by (auto simp: within_def intro: found_person)
qed (rule assms(2))

lemma test_find_outside:
  assumes "i \<noteq> []" and "\<And>res. person_or_none s i res \<Longrightarrow> quiet (f (Ok res)) (within k s v) R"
  shows "quiet (seq (invoke (st_FindByID st ''people'' i)) f) (within k s v) R"
proof (rule quiet_invoke [where good = "person_or_none s i" and Q = "within k s v"])
  fix w
  assume "within k s v w"
  then obtain R0 V where V: "in_tx k R0 V w" "R0 ''people'' = s" "V ''people'' = v" unfolding within_def by blast
  have T: "mget (sch_Tables test_schema) ''people'' = Some test_people" by simp
  from outside_finds [OF V(1) T _ assms(1), of "''id''"] obtain res w' where
    "st_FindByID st ''people'' i w = (Ok res, w')" "in_tx k R0 V w'" "found test_people s ''id'' i res"
    using key_column_id [OF test_people_plain] V(2) by (auto simp: by_id)
  with views_fit [OF V(1) T] V(2,3) show "\<exists>x w'. st_FindByID st ''people'' i w = (Ok x, w') \<and>
      person_or_none s i x \<and> within k s v w'"
    by (auto simp: within_def intro: found_person)
qed (rule assms(2))

lemma test_find_name_tx:
  assumes "n \<noteq> []" and "\<And>res. found test_people v ''name'' n res \<Longrightarrow> quiet (f (Ok res)) (within k s v) R"
  shows "quiet (seq (invoke (st_FindByKeyTx st (Some k) ''people'' ''name'' n)) f) (within k s v) R"
proof (rule quiet_invoke [where good = "found test_people v ''name'' n" and Q = "within k s v"])
  fix w
  assume "within k s v w"
  then obtain R0 V where V: "in_tx k R0 V w" "R0 ''people'' = s" "V ''people'' = v" unfolding within_def by blast
  from tx_finds [OF V(1), of "''people''" test_people "''name''" n] assms(1) V
  show "\<exists>x w'. st_FindByKeyTx st (Some k) ''people'' ''name'' n w = (Ok x, w') \<and> found test_people v ''name'' n x \<and> within k s v w'"
    by (fastforce simp: within_def key_column_def)
qed (rule assms(2))

section \<open>Upserts\<close>

lemma upsert_in_tx_passes:
  "quiet (upsert_in_tx st (person i n m) no_begin no_upsert no_commit) (at s) (at (s(i \<mapsto> person_row i n (json_text L m))))"
  unfolding upsert_in_tx_def by (auto simp: upsert_tx intro!: test_begin test_insert_tx test_commit)

lemma find_upserted_passes:
  assumes "s i = Some (person_row i n m)" and "i \<noteq> []"
    and "\<And>o1. row_object test_people i (person_row i n m) o1 \<Longrightarrow> quiet (f (Some o1)) (at s) R"
  shows "quiet (seq (find_upserted st i n no_find missing wrong) f) (at s) R"
  unfolding find_upserted_def seq_assoc
  by (rule test_find) (use assms in \<open>auto simp: person_found\<close>)

lemma clean_up_passes: "quiet (clean_up st) (at s) (\<lambda>w. True)"
  unfolding clean_up_def by (rule test_reset) simp

lemma json_word: "list_all word_char w \<Longrightarrow> Contains s w \<Longrightarrow> Contains (json_text L s) w"
  using words by (simp add: json_words_def)

lemma UpsertTest_passes:
  "quiet (UpsertTest st) (\<lambda>w. connected w \<and> db w ''people'' = s) (\<lambda>w. True)"
proof -
  have upd: "Contains (json_text L ''{\"operation\": \"update\"}'') ''update''"
    "Contains (json_text L ''{\"operation\": \"tx_update\"}'') ''tx_update''"
    by (rule json_word; simp add: word_char_def HasPrefix_def)+
  let ?r1 = "person_row ''upsert_user1'' ''Upsert Test User'' (json_text L ''{\"operation\": \"insert\"}'')"
  let ?r2 = "person_row ''upsert_user1'' ''Updated Upsert User'' (json_text L ''{\"operation\": \"update\"}'')"
  let ?r3 = "person_row ''upsert_tx_user'' ''Transaction Upsert User'' (json_text L ''{\"operation\": \"tx_insert\"}'')"
  let ?r4 = "person_row ''upsert_tx_user'' ''Updated Transaction User'' (json_text L ''{\"operation\": \"tx_update\"}'')"
  have new: "quiet (upsert_new st) (at s) (at (s(''upsert_user1'' \<mapsto> ?r1)))"
    unfolding upsert_new_def upsert by (rule test_insert) (auto intro!: find_upserted_passes)
  have old: "quiet (upsert_existing st) (at s) (at (s(''upsert_user1'' \<mapsto> ?r2)))" for s
    unfolding upsert_existing_def upsert
    by (rule test_insert) (auto intro!: find_upserted_passes simp: check_passes person_found upd)
  have tx_new: "quiet (upsert_tx_new st) (at s) (at (s(''upsert_tx_user'' \<mapsto> ?r3)))" for s
    unfolding upsert_tx_new_def by (rule quiet_seq [OF upsert_in_tx_passes]) (auto intro!: find_upserted_passes)
  have tx_old: "quiet (upsert_tx_existing st) (at s) (at (s(''upsert_tx_user'' \<mapsto> ?r4)))" for s
    unfolding upsert_tx_existing_def
    by (rule quiet_seq [OF upsert_in_tx_passes]) (auto intro!: find_upserted_passes simp: check_passes person_found upd)
  show ?thesis
    unfolding UpsertTest_def
    by (rule quiet_seq [OF test_create], rule quiet_seq [OF new], rule quiet_seq [OF old], rule quiet_seq [OF tx_new],
        rule quiet_seq [OF tx_old], rule clean_up_passes)
qed

section \<open>Transactions\<close>

lemma found_in_tx:
  assumes "v i = Some (person_row i n m)" and "i \<noteq> []"
    and "\<And>o1. row_object test_people i (person_row i n m) o1 \<Longrightarrow> quiet (f (Some o1)) (within k s v) R"
  shows "quiet (seq (find_in_tx st tx (st_FindByIDTx st (Some k) ''people'' i) no_find missing) f) (within k s v) R"
  unfolding find_in_tx_def seq_assoc
  by (rule test_find_tx) (use assms in \<open>auto simp: person_or_none_def\<close>)

lemma found_committed:
  assumes "s i = Some (person_row i n m)" and "i \<noteq> []"
    and "\<And>o1. row_object test_people i (person_row i n m) o1 \<Longrightarrow> quiet (f (Some o1)) (at s) R"
  shows "quiet (seq (find_committed (st_FindByID st ''people'' i) no_find missing) f) (at s) R"
  unfolding find_committed_def seq_assoc
  by (rule test_find) (use assms in auto)

lemma insert_in_tx_passes:
  assumes "quiet (f ()) (within k s (v(i \<mapsto> person_row i n (json_text L m)))) R"
  shows "quiet (seq (insert_in_tx st (Ok k) (person i n m)) f) (within k s v) R"
  unfolding insert_in_tx_def seq_assoc by (simp, rule test_insert_tx) (use assms in simp)

lemma insert_initial_passes:
  assumes "quiet (f ()) (at (s(i \<mapsto> person_row i n (json_text L m)))) R"
  shows "quiet (seq (insert_initial st (person i n m)) f) (at s) R"
  unfolding insert_initial_def seq_assoc by (rule test_insert) (use assms in simp)

lemma begin_tx_passes:
  assumes "\<And>k. quiet (f (Ok k)) (within k s s) R"
  shows "quiet (seq (begin_tx st) f) (at s) R"
  unfolding begin_tx_def seq_assoc by (rule test_begin) (use assms in simp)

lemma commit_tx_passes:
  assumes "quiet (f ()) (at v) R"
  shows "quiet (seq (commit_tx st (Ok k)) f) (within k s v) R"
  unfolding commit_tx_def seq_assoc tx_of_Ok by (rule test_commit) (use assms in simp)

lemmas tx_steps = begin_tx_passes insert_in_tx_passes insert_initial_passes commit_tx_passes found_in_tx found_committed
  test_find_outside

lemma BasicTransactionCommit_passes:
  "quiet (BasicTransactionCommit st) (at s)
     (at (s(''tx_user1'' \<mapsto> person_row ''tx_user1'' ''Transaction User 1'' (json_text L ''{\"test\": \"commit\"}''))))"
  unfolding BasicTransactionCommit_def by (auto intro!: tx_steps simp: person_found)

lemma TransactionRollback_passes:
  assumes "s ''tx_user2'' = None"
  shows "quiet (TransactionRollback st) (at s) (at s)"
  unfolding TransactionRollback_def
  by (rule tx_steps test_rollback test_find | simp add: assms)+

lemma TransactionUpdate_passes:
  "quiet (TransactionUpdate st) (at s)
     (at (s(''tx_user3'' \<mapsto> person_row ''tx_user3'' ''Transaction User 3 Updated'' ''{\"test\": \"updated\"}'')))"
  unfolding TransactionUpdate_def
  by (rule tx_steps test_update_tx | simp add: person_found no_number_def is_digit_def person_or_none_def | elim exE conjE)+

lemma TransactionDelete_passes:
  assumes "s ''tx_user4'' = None"
  shows "quiet (TransactionDelete st) (at s) (at s)"
  unfolding TransactionDelete_def
  by (rule tx_steps test_delete_tx test_find test_find_tx | simp add: person_or_none_def assms fun_upd_idem)+

lemma NilTransactionHandling_passes: "quiet (NilTransactionHandling st) P P"
  unfolding NilTransactionHandling_def Let_def by_id_tx
  by (intro quiet_seq [where Q = P] quiet_refusal) (rule insert_nil update_nil find_nil delete_nil commit_nil rollback_nil)+

text \<open>The one with a lookup by name: nobody else has that name.\<close>

lemma named_person:
  assumes "found test_people s ''name'' n res" and "s i = Some (person_row i n m)"
    and "\<And>j r. s j = Some r \<Longrightarrow> r ''name'' = VStr n \<Longrightarrow> j = i"
  obtains o1 where "res = Some o1" and "obj_ID o1 = i"
proof (cases res)
  case None
  with assms(1,2) show thesis by (auto simp: found_def dest: spec [of _ i])
next
  case (Some o1)
  with assms(1) obtain j r where j: "s j = Some r" "r ''name'' = VStr n" "row_object test_people j r o1"
    by (auto simp: found_def)
  from assms(3) [OF j(1,2)] j(1,3) assms(2) person_found(1) Some that show thesis by auto
qed

lemma TransactionFindByKey_passes:
  assumes "\<forall>j r. s j = Some r \<longrightarrow> r ''name'' \<noteq> VStr ''Transaction User 5''"
  shows "quiet (TransactionFindByKey st) (at s)
     (at (s(''tx_user5'' \<mapsto> person_row ''tx_user5'' ''Transaction User 5'' (json_text L ''{\"test\": \"findbykey\"}''))))"
    (is "quiet _ _ (at ?s)")
proof -
  have one: "\<exists>o1. res = Some o1 \<and> obj_ID o1 = ''tx_user5''" if "found test_people ?s ''name'' ''Transaction User 5'' res" for res
    by (rule named_person [OF that]) (use assms in \<open>auto split: if_splits\<close>)
  show ?thesis
    unfolding TransactionFindByKey_def find_in_tx_def find_committed_def seq_assoc
    by (rule begin_tx_passes insert_in_tx_passes commit_tx_passes test_find_name_tx test_find_name |
        drule one, elim exE conjE | simp)+
qed

lemma TransactionTest_passes:
  "quiet (TransactionTest st) (\<lambda>w. connected w \<and> db w ''people'' = Map.empty) (\<lambda>w. True)"
proof -
  let ?s1 = "[''tx_user1'' \<mapsto> person_row ''tx_user1'' ''Transaction User 1'' (json_text L ''{\"test\": \"commit\"}'')]"
  let ?s3 = "?s1(''tx_user3'' \<mapsto> person_row ''tx_user3'' ''Transaction User 3 Updated'' ''{\"test\": \"updated\"}'')"
  have absent: "?s1 ''tx_user2'' = None" "?s3 ''tx_user4'' = None" by simp_all
  have "\<forall>j r. ?s3 j = Some r \<longrightarrow> r ''name'' \<noteq> VStr ''Transaction User 5''"
    by (auto split: if_splits)
  note key = TransactionFindByKey_passes [OF this]
  show ?thesis
    unfolding TransactionTest_def
    by (rule quiet_seq [OF test_create], rule quiet_seq [OF quiet_Run [OF BasicTransactionCommit_passes]],
        rule quiet_seq [OF quiet_Run [OF TransactionRollback_passes [of ?s1, OF absent(1)]]],
        rule quiet_seq [OF quiet_Run [OF TransactionUpdate_passes]],
        rule quiet_seq [OF quiet_Run [OF TransactionDelete_passes [of ?s3, OF absent(2)]]],
        rule quiet_seq [OF quiet_Run [OF key]],
        rule quiet_seq [OF quiet_Run [OF NilTransactionHandling_passes]], rule clean_up_passes)
qed

lemma suite_passes:
  assumes "connected w" and "db w ''people'' = Map.empty"
  shows "list_all (\<lambda>test. passes test w) (suite st)"
  using assms quiet_passes [OF StorageTest_passes, of Map.empty w] quiet_passes [OF CRUDTest_passes, of w]
    quiet_passes [OF UpsertTest_passes, of w] quiet_passes [OF TransactionTest_passes, of w]
  by (simp add: suite_def)

end

end
