(* ===== verification/TxRefinement.thy ===== *)
theory TxRefinement
  imports TxStore Refinement AdapterProps
begin

text \<open>
  The transactions of the SQLite adapter. What the database does for them is the hypothesis \<open>tx_serves\<close>:
  it states the isolation that SQLite documents for connections to one database file and one
  transaction under way, in which the statements see and change a copy of the rows, while the other
  connections read the rows as they were before; the copy is put in place by the commit.
\<close>

section \<open>What the database does\<close>

text \<open>
  The rows that are committed, and the transaction under way with the rows it sees. Writes outside of
  a transaction that is under way are not spoken of (SQLite refuses them).
\<close>

type_synonym sight = "database \<times> (nat \<times> database) option"

definition committed :: "('d \<Rightarrow> sight) \<Rightarrow> 'd \<Rightarrow> database" where
  "committed see d = fst (see d)"

definition seen :: "('d \<Rightarrow> sight) \<Rightarrow> 'd \<Rightarrow> database" where
  "seen see d = (case snd (see d) of Some (n, V) \<Rightarrow> V | None \<Rightarrow> fst (see d))"

definition quiescent :: "('d \<Rightarrow> sight) \<Rightarrow> 'd \<Rightarrow> bool" where
  "quiescent see d \<longleftrightarrow> snd (see d) = None"

definition tx_answers :: "('d, 'e) env_scheme \<Rightarrow> ('d \<Rightarrow> sight) \<Rightarrow> TableSchema \<Rightarrow> bool" where
  "tx_answers E see tbl \<longleftrightarrow>
     handle_answers E (quiescent see) (committed see) tbl \<and>
     (\<forall>n R. conn_answers E (OnTx n) (\<lambda>d. \<exists>V. see d = (R, Some (n, V))) (seen see) tbl) \<and>
     (\<forall>n R V. handle_selects E (\<lambda>d. see d = (R, Some (n, V))) (committed see) tbl)"

definition tx_serves :: "('d, 'e) env_scheme \<Rightarrow> ('d \<Rightarrow> sight) \<Rightarrow> Schema \<Rightarrow> bool" where
  "tx_serves E see S \<longleftrightarrow> (\<forall>(T, tbl)\<in>set (entries (sch_Tables S)). tx_answers E see tbl)"

definition tx_controls :: "('d, 'e) env_scheme \<Rightarrow> ('d \<Rightarrow> sight) \<Rightarrow> bool" where
  "tx_controls E see \<longleftrightarrow> (\<forall>m n d R V.
     (see d = (R, None) \<longrightarrow> (\<exists>d'. drv_begin E m n d = (Ok (), d') \<and> see d' = (R, Some (n, R)))) \<and>
     (see d = (R, Some (n, V)) \<longrightarrow>
        (\<exists>d'. drv_commit E n d = (Ok (), d') \<and> see d' = (V, None)) \<and>
        (\<exists>d'. drv_rollback E n d = (Ok (), d') \<and> see d' = (R, None))))"

lemma tx_controlsD:
  assumes "tx_controls E see"
  shows "see d = (R, None) \<Longrightarrow> \<exists>d'. drv_begin E m n d = (Ok (), d') \<and> see d' = (R, Some (n, R))"
    and "see d = (R, Some (n, V)) \<Longrightarrow> \<exists>d'. drv_commit E n d = (Ok (), d') \<and> see d' = (V, None)"
    and "see d = (R, Some (n, V)) \<Longrightarrow> \<exists>d'. drv_rollback E n d = (Ok (), d') \<and> see d' = (R, None)"
  using assms unfolding tx_controls_def by metis+

lemma tx_servesD:
  assumes "tx_serves E see S" and "mget (sch_Tables S) T = Some tbl"
  shows "conn_answers E (OnTx n) (\<lambda>d. \<exists>V. see d = (R, Some (n, V))) (seen see) tbl"
    and "handle_selects E (\<lambda>d. see d = (R, Some (n, V))) (committed see) tbl"
  using assms(1) mget_Some_in [OF assms(2)] unfolding tx_serves_def tx_answers_def by blast+

lemma tx_serves_handle: "tx_serves E see S \<Longrightarrow> handle_serves E (quiescent see) (committed see) S"
  by (auto simp: tx_serves_def handle_serves_def tx_answers_def)

section \<open>A transaction of the adapter\<close>

lemma serves_ready: "serves w tbl \<longleftrightarrow> (\<exists>n. ready w n tbl)"
  by (auto simp: serves_def ready_def)

text \<open>The adapter in a transaction \<open>k\<close> that sees \<open>V\<close>, where \<open>R\<close> is committed.\<close>

definition under_way :: "Schema \<Rightarrow> ('d \<Rightarrow> sight) \<Rightarrow> nat \<Rightarrow> database \<Rightarrow> database \<Rightarrow> ('d, 'z) adst_scheme \<Rightarrow> bool" where
  "under_way S see k R V w \<longleftrightarrow> serving S (committed see) w \<and> \<not> tx_done w k \<and> see (drv w) = (R, Some (k, V)) \<and>
     (\<forall>T tbl. mget (sch_Tables S) T = Some tbl \<longrightarrow> store_fits tbl (V T))"

lemma under_way_sees:
  assumes "under_way S see k R V w"
  shows "see (drv w) = (R, Some (k, V))" and "seen see (drv w) = V" and "committed see (drv w) = R"
    and "\<not> tx_done w k" and "serving S (committed see) w"
  using assms by (simp_all add: under_way_def seen_def committed_def)

lemma under_way_drv:
  assumes "under_way S see k R V w" and "see d = (R, Some (k, V'))"
    and "\<And>T tbl. mget (sch_Tables S) T = Some tbl \<Longrightarrow> store_fits tbl (V' T)"
  shows "under_way S see k R V' (w\<lparr>drv := d\<rparr>)"
  using assms by (auto simp: under_way_def serving_def committed_def)

text \<open>A statement of the transaction leaves the committed rows alone.\<close>

lemma under_way_step:
  assumes w: "under_way S see k R V w" and T: "mget (sch_Tables S) T = Some tbl"
    and d: "\<exists>V'. see d = (R, Some (k, V'))" "seen see d = V(T := s)" and s: "store_fits tbl s"
  shows "under_way S see k R (V(T := s)) (w\<lparr>drv := d\<rparr>)"
proof (rule under_way_drv [OF w])
  from d show "see d = (R, Some (k, V(T := s)))" by (auto simp: seen_def)
  show "store_fits tbl' ((V(T := s)) T')" if "mget (sch_Tables S) T' = Some tbl'" for T' tbl'
    using w that T s by (auto simp: under_way_def)
qed

lemma under_way_table:
  assumes S: "plain_schema S" and w: "under_way S see k R V w" and T: "mget (sch_Tables S) T = Some tbl"
  shows "plain_table tbl" and "tab_TableName tbl = T" and "serves w tbl" and "store_fits tbl (V T)" and "store_fits tbl (R T)"
    and "lookup_table T w = (Ok tbl, w)" and "Base_ValidateSchema w = (Ok (), w)"
proof -
  note t = serving_table [OF S under_way_sees(5) [OF w] T]
  show "plain_table tbl" "tab_TableName tbl = T" "serves w tbl" by (rule t)+
  show "store_fits tbl (V T)" using w T by (simp add: under_way_def)
  show "store_fits tbl (R T)" using t(5) t(3) under_way_sees(3) [OF w] by simp
  from t(4) obtain n where "ready w n tbl" using serves_ready by blast
  from ready_simps(5,9) [OF this] t(3) show "lookup_table T w = (Ok tbl, w)" "Base_ValidateSchema w = (Ok (), w)" by simp_all
qed

lemma tx_Exec_run:
  "\<not> tx_done w k \<Longrightarrow> drv_exec E (OnTx k) q vs (drv w) = (a, d) \<Longrightarrow> tx_Exec E (Some k) q vs w = (a, w\<lparr>drv := d\<rparr>)"
  by (simp add: tx_Exec_def use_tx_def sql_Exec_def on_driver_def)

lemma refine_InsertTx:
  assumes S: "plain_schema S" and E: "tx_serves E see S" and w: "under_way S see k R V w"
    and T: "mget (sch_Tables S) T = Some tbl" and obj: "insertable E tbl obj" "wf_map (obj_Fields obj)"
  shows "\<exists>data w'. sqlite_InsertTx E (Some k) obj w = (Ok (data, True), w') \<and>
    under_way S see k R (V(T := replace_row tbl (obj_ID obj) (new_row (obj_ID obj) (stored E tbl obj)) (V T))) w'"
proof -
  let ?nvs = "stored E tbl obj"
  note t = under_way_table [OF S w T] and see = under_way_sees [OF w]
  obtain n where n: "ready w n tbl" using t(3) serves_ready by blast
  obtain data where data: "lib_json_object E obj = Ok data"
    using obj(1) by (cases "lib_json_object E obj") (auto simp: insertable_def)
  have row: "whole_row tbl ?nvs" and name: "obj_TableName obj = tab_TableName tbl" and wf: "wf_table tbl"
    using obj(1) t(1) by (simp_all add: insertable_def plain_table_def)
  have P: "\<exists>V. see (drv w) = (R, Some (k, V))" using see(1) by blast
  obtain d where d: "drv_exec E (OnTx k) (insert_text ''INSERT OR REPLACE INTO'' (tab_TableName tbl) (''id'' # map fst ?nvs)
        (replicate (Suc (length ?nvs)) ''?'')) (VStr (obj_ID obj) # map snd ?nvs) (drv w) = (Ok (Inr 1), d)"
      "\<exists>V. see d = (R, Some (k, V))"
      "seen see d = V(T := replace_row tbl (obj_ID obj) (new_row (obj_ID obj) ?nvs) (V T))"
    by (rule insert_answersD [OF tx_servesD(1) [OF E T] P row, of "obj_ID obj"]) (simp add: see(2) t(2))
  have "sqlite_InsertTx E (Some k) obj w = (Ok (data, True), w\<lparr>drv := d\<rparr>)"
    unfolding sqlite_InsertTx_run [OF n see(4) wf obj(2) name data] insertable_prepares [OF t(1) obj(1)]
    using d(1) by (simp add: then_report_def sql_Exec_def on_driver_def seq_def del: replicate_Suc)
  moreover have "store_fits tbl (replace_row tbl (obj_ID obj) (new_row (obj_ID obj) ?nvs) (V T))"
    by (rule replace_row_fits [OF t(4) new_row_fits [OF row]])
  ultimately show ?thesis using under_way_step [OF w T d(2,3)] by blast
qed

lemma refine_UpdateTx:
  assumes S: "plain_schema S" and E: "tx_serves E see S" and w: "under_way S see k R V w"
    and T: "mget (sch_Tables S) T = Some tbl" and obj: "updatable tbl obj"
  shows "\<exists>a w'. sqlite_UpdateTx E (Some k) obj w = (a, w') \<and>
    reports (\<lambda>b. b) (fst (update_row tbl (obj_ID obj) (changes obj) (V T))) a \<and>
    under_way S see k R (V(T := snd (update_row tbl (obj_ID obj) (changes obj) (V T)))) w'"
proof -
  let ?nvs = "changes obj"
  note t = under_way_table [OF S w T] and see = under_way_sees [OF w]
  have good: "good_values tbl ?nvs" "?nvs \<noteq> []" and name: "obj_TableName obj = T"
    using obj t(2) by (simp_all add: updatable_def)
  have P: "\<exists>V. see (drv w) = (R, Some (k, V))" using see(1) by blast
  obtain a d where d: "drv_exec E (OnTx k) (update_text (tab_TableName tbl) (map (\<lambda>nv. fst nv @ '' = ?'') ?nvs) ''id = ?'')
        (map snd ?nvs @ [VStr (obj_ID obj)]) (drv w) = (a, d)" "\<exists>V. see d = (R, Some (k, V))"
      "reports (\<lambda>b. Inr (if b then 1 else 0)) (fst (update_row tbl (obj_ID obj) ?nvs (V T))) a"
      "seen see d = V(T := snd (update_row tbl (obj_ID obj) ?nvs (V T)))"
    by (rule update_answersD [OF tx_servesD(1) [OF E T] P good, of "obj_ID obj"]) (simp add: see(2) t(2))
  have run: "sqlite_UpdateTx E (Some k) obj w = seq (pure a) any_rows (w\<lparr>drv := d\<rparr>)"
    using updatable_prepares [OF obj] t(6) name d(1) see(4)
    by (cases "make_set_clauses (obj_Fields obj)")
      (auto simp: sqlite_UpdateTx_def PrepareUpdateData_def require_tx_def seq_def tx_Exec_run question_mark_def split: prod.splits)
  obtain a' where "seq (pure a) any_rows (w\<lparr>drv := d\<rparr>) = (a', w\<lparr>drv := d\<rparr>)"
      "reports (\<lambda>b. b) (fst (update_row tbl (obj_ID obj) ?nvs (V T))) a'"
    by (rule any_rows_reports [OF d(3)])
  with run under_way_step [OF w T d(2,4) update_row_fits [OF t(4) good(1)]] show ?thesis by auto
qed

lemma refine_DeleteTx:
  assumes S: "plain_schema S" and E: "tx_serves E see S" and w: "under_way S see k R V w"
    and T: "mget (sch_Tables S) T = Some tbl"
  shows "\<exists>w'. sqlite_DeleteByIDTx E (Some k) T i w = (Ok (V T i \<noteq> None), w') \<and> under_way S see k R (V(T := (V T)(i := None))) w'"
proof -
  note t = under_way_table [OF S w T] and see = under_way_sees [OF w]
  have P: "\<exists>V. see (drv w) = (R, Some (k, V))" using see(1) by blast
  obtain d where d: "drv_exec E (OnTx k) (delete_text (tab_TableName tbl) ''id = ?'') [VStr i] (drv w) =
        (Ok (Inr (if V T i = None then 0 else 1)), d)" "\<exists>V. see d = (R, Some (k, V))"
      "seen see d = V(T := (V T)(i := None))"
    by (rule delete_answersD [OF tx_servesD(1) [OF E T] P, of i]) (simp add: see(2) t(2))
  have "sqlite_DeleteByIDTx E (Some k) T i w = (Ok (V T i \<noteq> None), w\<lparr>drv := d\<rparr>)"
    using tx_Exec_run [OF see(4) d(1)] t(2)
    by (simp add: sqlite_DeleteByIDTx_def require_tx_def seq_def any_rows_def RowsAffected_def ret_def)
  with under_way_step [OF w T d(2,3) store_fits_del [OF t(4)]] show ?thesis by blast
qed

text \<open>
  The transaction's lookup has switches of its own for the pointers and the fields; for the columns of a
  plain table they are those of the scanner.
\<close>

lemma fill_fields_cong:
  assumes "\<And>n c. n \<in> set ns \<Longrightarrow> sw (field_of F n) (col_DataType (field_of F n)) c = sw' (field_of F n) (col_DataType (field_of F n)) c"
  shows "fill_fields sw F ns (map (\<lambda>n. col_DataType (field_of F n)) ns) cs m =
    fill_fields sw' F ns (map (\<lambda>n. col_DataType (field_of F n)) ns) cs m"
  using assms
proof (induction ns arbitrary: cs m)
  case (Cons n ns)
  then have "fill_fields sw F ns (map (\<lambda>n. col_DataType (field_of F n)) ns) cs =
      fill_fields sw' F ns (map (\<lambda>n. col_DataType (field_of F n)) ns) cs" for cs
    by (intro ext) simp
  with Cons.prems show ?case by (cases cs) simp_all
qed simp

lemma plain_table_kind: "plain_table tbl \<Longrightarrow> n \<in> set (tab_FieldOrder tbl) \<Longrightarrow> col_kind (field_of (tab_Fields tbl) n) \<noteq> KOther"
  by (cases "n = ''id''") (auto simp: plain_table_def plain_column_def)

lemma tx_switches:
  assumes "col_kind f \<noteq> KOther"
  shows "sqlite_tx_pointer f = Ok (scanner_pointer f)" and "sqlite_tx_value f (col_DataType f) c = scanner_value f (col_DataType f) c"
  using assms
  by (cases "col_kind f"; simp add: sqlite_tx_pointer_def scanner_pointer_def sqlite_tx_value_def scanner_value_def col_kind_def)+

lemma pointer_loop_map: "\<forall>f\<in>set fs. ptr f = Ok (p f) \<Longrightarrow> pointer_loop ptr fs = Ok (map p fs)"
  by (induction fs) simp_all

lemma refine_FindTx:
  assumes S: "plain_schema S" and E: "tx_serves E see S" and w: "under_way S see k R V w"
    and T: "mget (sch_Tables S) T = Some tbl" and n: "key_column tbl n" and x: "x \<noteq> []"
  shows "\<exists>res w'. sqlite_FindByKeyTx E (Some k) T n x w = (Ok res, w') \<and> under_way S see k R V w' \<and> found tbl (V T) n x res"
proof -
  let ?ns = "tab_FieldOrder tbl" and ?F = "tab_Fields tbl"
  let ?cells = "fs_ColumnPointers (NewFieldScanner tbl)"
  let ?m = "tx_QueryRow E (Some k) (select_text ?ns (tab_TableName tbl) (n @ '' = ?'')) [VStr x] ?cells"
  note t = under_way_table [OF S w T] and see = under_way_sees [OF w]
  have wf: "wf_table tbl" and "T \<noteq> []" using t(1,2) by (auto simp: plain_table_def)
  have "n \<in> set ?ns" using n by (simp add: key_column_def)
  then have "n \<noteq> []" "col_Name (field_of ?F n) = n" using wf wf_table_field [OF wf] by (auto simp: wf_table_def)
  have ptrs: "pointer_loop sqlite_tx_pointer (map (field_of ?F) ?ns) = Ok ?cells"
    using pointer_loop_map [of "map (field_of ?F) ?ns" sqlite_tx_pointer scanner_pointer] plain_table_kind [OF t(1)] tx_switches(1)
    by (simp add: comp_def)
  have fill: "fill_fields sqlite_tx_value ?F ?ns (map (\<lambda>n. col_DataType (field_of ?F n)) ?ns) cs m =
      fill_fields scanner_value ?F ?ns (map (\<lambda>n. col_DataType (field_of ?F n)) ?ns) cs m" for cs m
    by (rule fill_fields_cong) (rule tx_switches(2) [OF plain_table_kind [OF t(1)]])
  have names: "map (\<lambda>n. col_Name (field_of ?F n)) ?ns = ?ns" using wf_table_names [OF wf] .
  have run: "sqlite_FindByKeyTx E (Some k) T n x w =
      finish_find ?m (\<lambda>cs. ScanToObject ((NewFieldScanner tbl)\<lparr>fs_ColumnPointers := cs\<rparr>) (tab_TableName tbl)) w"
    using t(2,6) \<open>T \<noteq> []\<close> \<open>n \<noteq> []\<close> x ptrs fill names \<open>col_Name (field_of ?F n) = n\<close>
    by (simp add: sqlite_FindByKeyTx_def require_tx_def require_find_params_def seq_def Let_def comp_def ScanToObject_def)
  have P: "\<exists>V. see (drv w) = (R, Some (k, V))" using see(1) by blast
  obtain rs uss d where
    q: "drv_query E (OnTx k) (select_text ?ns (tab_TableName tbl) (n @ '' = ?'')) [VStr x] (drv w) = (Ok (?ns, uss, None), d)"
      "\<exists>V. see d = (R, Some (k, V))" "seen see d = seen see (drv w)"
    and rs: "set rs = matching (seen see (drv w) (tab_TableName tbl)) n x"
    and uss: "list_all2 (\<lambda>r us. list_all2 (gives E) (map r ?ns) us) rs uss"
    by (rule select_answersD [OF conn_selects [OF tx_servesD(1) [OF E T]] P n, of x])
  have rs: "set rs = matching (V T) n x" using rs see(2) t(2) by simp
  have m: "?m w = (scan_first E (?ns, uss, None) ?cells, w\<lparr>drv := d\<rparr>)"
    using q(1) see(4) by (simp add: tx_QueryRow_def use_tx_def sql_QueryRow_def go_simps on_driver_def)
  obtain res where "finish_find ?m (\<lambda>cs. ScanToObject ((NewFieldScanner tbl)\<lparr>fs_ColumnPointers := cs\<rparr>) (tab_TableName tbl)) w = (Ok res, w\<lparr>drv := d\<rparr>)"
    and res: "found tbl (V T) n x res"
    by (rule matching_found [where m = ?m, OF t(1,4) rs uss m])
  moreover have "under_way S see k R V (w\<lparr>drv := d\<rparr>)"
    using under_way_step [OF w T q(2) _ t(4)] q(3) see(2) by simp
  ultimately show ?thesis using run res by auto
qed

text \<open>A lookup outside of the transaction, and the transaction's begin and end.\<close>

lemma refine_FindOutside:
  assumes S: "plain_schema S" and E: "tx_serves E see S" and w: "under_way S see k R V w"
    and T: "mget (sch_Tables S) T = Some tbl" and n: "key_column tbl n" and x: "x \<noteq> []"
  shows "\<exists>res w'. sqlite_FindByKey E T n x w = (Ok res, w') \<and> under_way S see k R V w' \<and> found tbl (R T) n x res"
proof -
  note t = under_way_table [OF S w T] and see = under_way_sees [OF w]
  have fit: "store_fits tbl (committed see (drv w) (tab_TableName tbl))" using t(2,5) see(3) by simp
  from refine_find_key [of E "\<lambda>d. see d = (R, Some (k, V))" "committed see", OF tx_servesD(2) [OF E T] see(1) t(1,3) fit n x]
  obtain res d where "sqlite_FindByKey E T n x w = (Ok res, w\<lparr>drv := d\<rparr>)" "see d = (R, Some (k, V))" "found tbl (R T) n x res"
    using t(2) see(3) by auto
  moreover have "store_fits tbl' (V T')" if "mget (sch_Tables S) T' = Some tbl'" for T' tbl'
    using w that by (simp add: under_way_def)
  ultimately show ?thesis using under_way_drv [OF w] by blast
qed

lemma sqlite_BeginTx_run:
  assumes C: "tx_controls E see" and w: "serving S (committed see) w" "quiescent see (drv w)"
  shows "\<exists>k w'. sqlite_BeginTx E w = (Ok k, w') \<and> under_way S see k (committed see (drv w)) (committed see (drv w)) w'"
proof -
  obtain n where n: "ad_TM_DB w = Some n" "\<not> db_closed w n" using w(1) by (auto simp: serving_def)
  let ?R = "committed see (drv w)" and ?k = "tx_next w"
  have "see (drv w) = (?R, None)" using w(2) by (simp add: quiescent_def committed_def prod_eq_iff)
  from tx_controlsD(1) [OF C this, of n ?k] obtain d where
    d: "drv_begin E n ?k (drv w) = (Ok (), d)" "see d = (?R, Some (?k, ?R))" by blast
  let ?w = "w\<lparr>drv := d, tx_done := (tx_done w)(?k := False), tx_next := Suc ?k\<rparr>"
  have "sqlite_BeginTx E w = (Ok ?k, ?w)"
    using n d(1) by (simp add: sqlite_BeginTx_def TM_BeginTx_def ValidateConnection_def db_BeginTx_def use_db_def
        on_driver_def seq_def gets_def modify_def ret_def)
  moreover have "under_way S see ?k ?R ?R ?w"
    using w(1) d(2) by (simp add: under_way_def serving_def committed_def)
  ultimately show ?thesis by blast
qed

lemma sqlite_EndTx_run:
  assumes C: "tx_controls E see" and w: "under_way S see k R V w"
  shows "\<exists>w'. sqlite_CommitTx E (Some k) w = (Ok (), w') \<and> serving S (committed see) w' \<and> see (drv w') = (V, None)"
    and "\<exists>w'. sqlite_RollbackTx E (Some k) w = (Ok (), w') \<and> serving S (committed see) w' \<and> see (drv w') = (R, None)"
proof -
  note see = under_way_sees [OF w]
  from tx_controlsD(2,3) [OF C see(1)] obtain d d' where
    d: "drv_commit E k (drv w) = (Ok (), d)" "see d = (V, None)" and
    d': "drv_rollback E k (drv w) = (Ok (), d')" "see d' = (R, None)" by blast
  let ?w = "\<lambda>d. w\<lparr>tx_done := (tx_done w)(k := True), drv := d\<rparr>"
  have "sqlite_CommitTx E (Some k) w = (Ok (), ?w d)" "sqlite_RollbackTx E (Some k) w = (Ok (), ?w d')"
    using d(1) d'(1) see(4)
    by (simp_all add: sqlite_CommitTx_def TM_CommitTx_def tx_Commit_def sqlite_RollbackTx_def TM_RollbackTx_def tx_Rollback_def
        ValidateTransaction_def use_tx_def on_driver_def seq_def modify_def)
  moreover have "serving S (committed see) (?w d)" "serving S (committed see) (?w d')"
    using w d(2) d'(2) by (auto simp: under_way_def serving_def committed_def)
  ultimately show "\<exists>w'. sqlite_CommitTx E (Some k) w = (Ok (), w') \<and> serving S (committed see) w' \<and> see (drv w') = (V, None)"
    "\<exists>w'. sqlite_RollbackTx E (Some k) w = (Ok (), w') \<and> serving S (committed see) w' \<and> see (drv w') = (R, None)"
    using d(2) d'(2) by (force intro!: exI [of _ "?w d"], force intro!: exI [of _ "?w d'"])
qed

section \<open>The adapter as a storage with transactions\<close>

definition idle_on :: "Schema \<Rightarrow> ('d \<Rightarrow> sight) \<Rightarrow> ('d, 'z) adst_scheme \<Rightarrow> bool" where
  "idle_on S see w \<longleftrightarrow> serving S (committed see) w \<and> quiescent see (drv w)"

lemma sqlite_tx_store:
  assumes S: "plain_schema S" and E: "tx_serves E see S" and C: "tx_controls E see"
  shows "tx_store (sqlite_storage E) E (\<lambda>w. committed see (drv w)) (idle_on S see) (mget (sch_Tables S)) (under_way S see)"
proof (intro tx_store.intro tx_store_axioms.intro)
  show "record_store (sqlite_storage E) E (\<lambda>w. committed see (drv w)) (idle_on S see) (mget (sch_Tables S))"
    using handle_record_store [OF S tx_serves_handle [OF E]] by (simp add: idle_on_def [abs_def])
  show "keyed_storage (sqlite_storage E)"
    by (rule sqlite_st.keyed_storage_axioms)
  show "\<exists>k w'. st_BeginTx (sqlite_storage E) w = (Ok k, w') \<and>
      under_way S see k (committed see (drv w)) (committed see (drv w)) w'" if "idle_on S see w" for w
    using sqlite_BeginTx_run [OF C, of S w] that by (simp add: sqlite_storage_def idle_on_def)
  fix k R V w
  assume w: "under_way S see k R V w"
  show "\<exists>w'. st_CommitTx (sqlite_storage E) (Some k) w = (Ok (), w') \<and> idle_on S see w' \<and> committed see (drv w') = V"
    "\<exists>w'. st_RollbackTx (sqlite_storage E) (Some k) w = (Ok (), w') \<and> idle_on S see w' \<and> committed see (drv w') = R"
    using sqlite_EndTx_run [OF C w] by (auto simp: sqlite_storage_def idle_on_def quiescent_def committed_def)
  fix T tbl
  assume T: "mget (sch_Tables S) T = Some tbl"
  show "store_fits tbl (R T) \<and> store_fits tbl (V T)" using under_way_table(4,5) [OF S w T] by simp
  show "\<exists>data w'. st_InsertTx (sqlite_storage E) (Some k) obj w = (Ok (data, True), w') \<and>
      under_way S see k R (V(T := replace_row tbl (obj_ID obj) (new_row (obj_ID obj) (stored E tbl obj)) (V T))) w'"
    if "insertable E tbl obj" "wf_map (obj_Fields obj)" for obj
    using refine_InsertTx [OF S E w T that] by (simp add: sqlite_storage_def)
  show "\<exists>a w'. st_UpdateTx (sqlite_storage E) (Some k) obj w = (a, w') \<and>
      reports (\<lambda>b. b) (fst (update_row tbl (obj_ID obj) (changes obj) (V T))) a \<and>
      under_way S see k R (V(T := snd (update_row tbl (obj_ID obj) (changes obj) (V T)))) w'"
    if "updatable tbl obj" for obj
    using refine_UpdateTx [OF S E w T that] by (simp add: sqlite_storage_def)
  show "\<exists>w'. st_DeleteByIDTx (sqlite_storage E) (Some k) T i w = (Ok (V T i \<noteq> None), w') \<and>
      under_way S see k R (V(T := (V T)(i := None))) w'" for i
    using refine_DeleteTx [OF S E w T] by (simp add: sqlite_storage_def)
  fix n and x :: string
  assume n: "key_column tbl n" and x: "x \<noteq> []"
  show "\<exists>res w'. st_FindByKeyTx (sqlite_storage E) (Some k) T n x w = (Ok res, w') \<and> under_way S see k R V w' \<and> found tbl (V T) n x res"
    "\<exists>res w'. st_FindByKey (sqlite_storage E) T n x w = (Ok res, w') \<and> under_way S see k R V w' \<and> found tbl (R T) n x res"
    using refine_FindTx [OF S E w T n x] refine_FindOutside [OF S E w T n x] by (simp_all add: sqlite_storage_def)
qed


end
