(* ===== verification/TxEngine.thy ===== *)
theory TxEngine
  imports TxRefinement Startup
begin

text \<open>
  The engine of \<open>SqliteEngine\<close> with transactions: one copy of the tables for the transaction under way,
  which is put in place by its commit. It does what \<open>tx_serves\<close> and \<open>tx_controls\<close> say, and refuses
  to write outside of a transaction under way, as SQLite does.
\<close>

type_synonym tx_tables = "tables \<times> (nat \<times> tables) option"

definition txe_locked :: "'a result" where
  "txe_locked = Error (Err ''database is locked'')"

fun txe_exec :: "Schema \<Rightarrow> conn \<Rightarrow> string \<Rightarrow> goval list \<Rightarrow> tx_tables \<Rightarrow> (goerr + int) result \<times> tx_tables" where
  "txe_exec S (OnDB m) q args (R, None) = (case eng_exec S q args R of (a, R') \<Rightarrow> (a, (R', None)))"
| "txe_exec S (OnDB m) q args d = (txe_locked, d)"
| "txe_exec S (OnTx k) q args (R, Some (n, V)) =
     (if k = n then (case eng_exec S q args V of (a, V') \<Rightarrow> (a, (R, Some (n, V')))) else (txe_locked, (R, Some (n, V))))"
| "txe_exec S (OnTx k) q args d = (txe_locked, d)"

fun txe_query :: "conn \<Rightarrow> string \<Rightarrow> goval list \<Rightarrow> tx_tables \<Rightarrow> rowset result \<times> tx_tables" where
  "txe_query (OnDB m) q args (R, t) = (case eng_query q args R of (a, R') \<Rightarrow> (a, (R', t)))"
| "txe_query (OnTx k) q args (R, Some (n, V)) =
     (if k = n then (case eng_query q args V of (a, V') \<Rightarrow> (a, (R, Some (n, V')))) else (txe_locked, (R, Some (n, V))))"
| "txe_query (OnTx k) q args d = (txe_locked, d)"

fun txe_begin :: "nat \<Rightarrow> tx_tables \<Rightarrow> unit result \<times> tx_tables" where
  "txe_begin n (R, None) = (Ok (), (R, Some (n, R)))"
| "txe_begin n d = (txe_locked, d)"

fun txe_end :: "bool \<Rightarrow> nat \<Rightarrow> tx_tables \<Rightarrow> unit result \<times> tx_tables" where
  "txe_end commit k (R, Some (n, V)) = (if k = n then (Ok (), (if commit then V else R, None)) else (txe_locked, (R, Some (n, V))))"
| "txe_end commit k d = (txe_locked, d)"

definition txe_env :: "golib \<Rightarrow> Schema \<Rightarrow> tx_tables env" where
  "txe_env L S = golib.extend L
     (env.fields (\<lambda>n s d. (Ok 0, d)) (\<lambda>n d. (Ok (), d)) (txe_exec S) txe_query
        (\<lambda>m. txe_begin) (txe_end True) (txe_end False) (\<lambda>n d. (Ok (), d)))"

lemma txe_env_simps [simp]:
  "drv_exec (txe_env L S) = txe_exec S"
  "drv_query (txe_env L S) = txe_query"
  "drv_open (txe_env L S) = (\<lambda>n s d. (Ok 0, d))"
  "drv_close (txe_env L S) = (\<lambda>n d. (Ok (), d))"
  "drv_begin (txe_env L S) = (\<lambda>m. txe_begin)"
  "drv_commit (txe_env L S) = txe_end True"
  "drv_rollback (txe_env L S) = txe_end False"
  "lib_json_object (txe_env L S) = lib_json_object L"
  "lib_json_value (txe_env L S) = lib_json_value L"
  "lib_fmt_time (txe_env L S) = lib_fmt_time L"
  "lib_fmt_float (txe_env L S) = lib_fmt_float L"
  "lib_fmt_other (txe_env L S) = lib_fmt_other L"
  by (simp_all add: txe_env_def golib.extend_def env.fields_def)

definition txe_see :: "tx_tables \<Rightarrow> sight" where
  "txe_see d = (eng_rows (fst d), map_option (\<lambda>(n, V). (n, eng_rows V)) (snd d))"

section \<open>It does what is asked of it\<close>

text \<open>An engine that answers in a part of another's state answers for the other.\<close>

lemma lift_selects:
  assumes ans: "select_answers E c (\<lambda>d. True) rows tbl" and lib: "gives E' = gives E"
    and query: "\<And>q vs d. P d \<Longrightarrow> drv_query E' c' q vs d = (case drv_query E c q vs (part d) of (a, x) \<Rightarrow> (a, put d x))"
    and put: "\<And>d x. P d \<Longrightarrow> rows x = rows (part d) \<Longrightarrow> P (put d x) \<and> rows' (put d x) = rows' d"
    and part: "\<And>d. P d \<Longrightarrow> rows' d = rows (part d)"
  shows "select_answers E' c' P rows' tbl"
  unfolding select_answers_def
proof (intro allI impI)
  fix k x d
  assume d: "P d" and k: "key_column tbl k"
  show "\<exists>rs uss d'. drv_query E' c' (select_text (tab_FieldOrder tbl) (tab_TableName tbl) (k @ '' = ?'')) [VStr x] d =
        (Ok (tab_FieldOrder tbl, uss, None), d') \<and> P d' \<and> rows' d' = rows' d \<and>
      set rs = matching (rows' d (tab_TableName tbl)) k x \<and>
      list_all2 (\<lambda>r us. list_all2 (gives E') (map r (tab_FieldOrder tbl)) us) rs uss"
    by (rule select_answersD [OF ans TrueI k, of x "part d"])
       (use d put [OF d] in \<open>auto simp: query [OF d] part [OF d] lib\<close>)
qed

lemma lift_answers:
  assumes ans: "conn_answers E c (\<lambda>d. True) rows tbl" and lib: "gives E' = gives E"
    and exec: "\<And>q vs d. P d \<Longrightarrow> drv_exec E' c' q vs d = (case drv_exec E c q vs (part d) of (a, x) \<Rightarrow> (a, put d x))"
    and query: "\<And>q vs d. P d \<Longrightarrow> drv_query E' c' q vs d = (case drv_query E c q vs (part d) of (a, x) \<Rightarrow> (a, put d x))"
    and put: "\<And>d x. P d \<Longrightarrow> P (put d x) \<and> rows' (put d x) = rows x"
    and part: "\<And>d. P d \<Longrightarrow> rows' d = rows (part d)"
  shows "conn_answers E' c' P rows' tbl"
  unfolding conn_answers_def
proof (intro conjI)
  show "insert_answers E' c' P rows' tbl"
    unfolding insert_answers_def
  proof (intro allI impI)
    fix i nvs d
    assume d: "P d" and row: "whole_row tbl nvs"
    show "\<exists>d'. drv_exec E' c' (insert_text ''INSERT OR REPLACE INTO'' (tab_TableName tbl) (''id'' # map fst nvs)
          (replicate (Suc (length nvs)) ''?'')) (VStr i # map snd nvs) d = (Ok (Inr 1), d') \<and> P d' \<and>
        rows' d' = (rows' d)(tab_TableName tbl := replace_row tbl i (new_row i nvs) (rows' d (tab_TableName tbl)))"
      by (rule insert_answersD [OF ans TrueI row, of i "part d"])
         (use put [OF d] in \<open>simp add: exec [OF d] part [OF d] del: replicate_Suc\<close>)
  qed
  show "update_answers E' c' P rows' tbl"
    unfolding update_answers_def
  proof (intro allI impI)
    fix i d and nvs :: "(string \<times> goval) list"
    assume d: "P d" and nvs: "good_values tbl nvs" "nvs \<noteq> []"
    show "\<exists>a d'. drv_exec E' c' (update_text (tab_TableName tbl) (map (\<lambda>nv. fst nv @ '' = ?'') nvs) ''id = ?'')
          (map snd nvs @ [VStr i]) d = (a, d') \<and> P d' \<and>
        reports (\<lambda>b. Inr (if b then 1 else 0)) (fst (update_row tbl i nvs (rows' d (tab_TableName tbl)))) a \<and>
        rows' d' = (rows' d)(tab_TableName tbl := snd (update_row tbl i nvs (rows' d (tab_TableName tbl))))"
      by (rule update_answersD [OF ans TrueI nvs, of i "part d"])
         (use put [OF d] in \<open>simp add: exec [OF d] part [OF d]\<close>)
  qed
  show "select_answers E' c' P rows' tbl"
    by (rule lift_selects [where part = part and put = put, OF conn_selects [OF ans] lib query]) (metis put part)+
  show "delete_answers E' c' P rows' tbl"
    unfolding delete_answers_def
  proof (intro allI impI)
    fix i d
    assume d: "P d"
    show "\<exists>d'. drv_exec E' c' (delete_text (tab_TableName tbl) ''id = ?'') [VStr i] d =
          (Ok (Inr (if rows' d (tab_TableName tbl) i = None then 0 else 1)), d') \<and> P d' \<and>
        rows' d' = (rows' d)(tab_TableName tbl := (rows' d (tab_TableName tbl))(i := None))"
      by (rule delete_answersD [OF ans TrueI, of i "part d"])
         (use put [OF d] in \<open>simp add: exec [OF d] part [OF d]\<close>)
  qed
qed

lemma txe_gives: "gives (txe_env L S) = gives (eng_env L S)"
proof -
  have "scalar_text (txe_env L S) = scalar_text (eng_env L S)"
    by (simp add: fun_eq_iff scalar_text_def Sprint_v_def eng_env_def golib.extend_def env.fields_def split: goval.splits)
  then show ?thesis by (simp add: fun_eq_iff gives_def split: goval.splits)
qed

text \<open>The tables a transaction or the handles see.\<close>

lemma txe_states:
  "quiescent txe_see d \<longleftrightarrow> (\<exists>R. d = (R, None))"
  "txe_see d = (R, Some (n, V)) \<longleftrightarrow> (\<exists>R1 V1. d = (R1, Some (n, V1)) \<and> R = eng_rows R1 \<and> V = eng_rows V1)"
  by (cases d; auto simp: quiescent_def txe_see_def)+

lemma txe_answers:
  assumes ans: "sqlite_answers (eng_env L S) eng_rows tbl"
  shows "tx_answers (txe_env L S) txe_see tbl"
proof -
  have ans: "conn_answers (eng_env L S) (OnDB n) (\<lambda>d. True) eng_rows tbl" for n
    using ans by (simp add: sqlite_answers_def handle_answers_def)
  have "conn_answers (txe_env L S) (OnDB n) (quiescent txe_see) (committed txe_see) tbl" for n
    by (rule lift_answers [where part = fst and put = "\<lambda>d R. (R, None)", OF ans txe_gives])
       (auto simp: txe_states committed_def txe_see_def quiescent_def)
  moreover have "conn_answers (txe_env L S) (OnTx n) (\<lambda>d. \<exists>V. txe_see d = (R, Some (n, V))) (seen txe_see) tbl" for n R
    by (rule lift_answers [where part = "\<lambda>d. snd (the (snd d))" and put = "\<lambda>d V. (fst d, Some (n, V))", OF ans txe_gives])
       (auto simp: txe_states seen_def txe_see_def)
  moreover have "select_answers (txe_env L S) (OnDB m) (\<lambda>d. txe_see d = (R, Some (n, V))) (committed txe_see) tbl" for m n R V
    by (rule lift_selects [where part = fst and put = "\<lambda>d R. (R, snd d)", OF conn_selects [OF ans] txe_gives])
       (auto simp: txe_states committed_def txe_see_def)
  ultimately show ?thesis by (simp add: tx_answers_def handle_answers_def handle_selects_def)
qed

lemma txe_serves: "plain_schema S \<Longrightarrow> named_schema S \<Longrightarrow> tx_serves (txe_env L S) txe_see S"
  using engine_serves [of S L] txe_answers by (auto simp: sqlite_serves_def tx_serves_def)

lemma txe_controls: "tx_controls (txe_env L S) txe_see"
  unfolding tx_controls_def by (auto simp: txe_see_def)

lemma txe_opens: "sqlite_opens (txe_env L S) rows"
  by (simp add: sqlite_opens_def)

lemma txe_creates: "handle_creates (txe_env L S) (\<lambda>s. snd s = None) txe_see tbls"
  unfolding handle_creates_def
proof (intro ballI allI impI)
  fix tbl n and d :: tx_tables
  assume "snd (txe_see d) = None"
  then obtain R where d: "d = (R, None)" by (cases d) (auto simp: txe_see_def)
  have "drv_exec (txe_env L S) (OnDB n) (sqlite_create_query (txe_env L S) tbl) [] d = (Ok (Inr 0), d)"
    by (simp add: d eng_exec_def create_words Let_def)
  then show "\<exists>k d'. drv_exec (txe_env L S) (OnDB n) (sqlite_create_query (txe_env L S) tbl) [] d = (Ok (Inr k), d') \<and>
      txe_see d' = txe_see d" by blast
qed

definition txe_world :: "Schema \<Rightarrow> tx_tables adst" where
  "txe_world S = \<lparr>db_closed = (\<lambda>n. False), tx_done = (\<lambda>n. False), tx_next = 0, drv = (\<lambda>T. [], None),
     ad_DB = Some 0, ad_Sch = Some S, ad_TM_DB = Some 0\<rparr>"

lemma txe_world_idle:
  "\<not> mu_writer (sch_mu S) \<Longrightarrow> serving S (committed txe_see) (txe_world S)" "quiescent txe_see (drv (txe_world S))"
  "committed txe_see (drv (txe_world S)) = (\<lambda>T. Map.empty)"
  by (simp_all add: serving_def store_fits_def quiescent_def)
     (simp_all add: txe_world_def committed_def txe_see_def eng_rows_def fun_eq_iff)

section \<open>A transaction on the table of people\<close>

lemma txe_same:
  "bind_value (txe_env L S) = bind_value (eng_env L S)" "stored (txe_env L S) = stored (eng_env L S)"
  "insertable (txe_env L S) = insertable (eng_env L S)"
proof -
  show b: "bind_value (txe_env L S) = bind_value (eng_env L S)" by (simp add: fun_eq_iff bind_value_def)
  show s: "stored (txe_env L S) = stored (eng_env L S)" by (simp add: fun_eq_iff stored_def b)
  show "insertable (txe_env L S) = insertable (eng_env L S)" by (simp add: fun_eq_iff insertable_def b s)
qed

interpretation people_tx: tx_store "sqlite_storage (txe_env sample_lib people_schema)" "txe_env sample_lib people_schema"
    "\<lambda>w. committed txe_see (drv w)" "idle_on people_schema txe_see" "mget (sch_Tables people_schema)" "under_way people_schema txe_see"
  by (rule sqlite_tx_store [OF people_schemas(1) txe_serves [OF people_schemas(1,2)] txe_controls])

definition people_steps :: "(string \<times> tx_step) list" where
  "people_steps = map (Pair ''people'') [Inside (OInsert ann), Outside ''1'',
     Inside (OUpdate (ann\<lparr>obj_Fields := GoMap [(''name'', VStr ''Anne'')]\<rparr>)), Inside (OFind ''1'')]"

lemma people_steps_good: "good_steps (txe_env sample_lib people_schema) (mget (sch_Tables people_schema)) people_steps"
  using people_ops_good wf_ann by (simp add: good_steps_def people_steps_def people_table people_ops_def txe_same)

definition anne_row :: row where
  "anne_row = changed_row (new_row ''1'' [(''name'', VStr ''Ann''), (''meta'', VStr ''{}'')]) [(''name'', VStr ''Anne'')]"

lemma people_steps_spec:
  "spec_tx (txe_env sample_lib people_schema) (mget (sch_Tables people_schema)) (\<lambda>T. Map.empty) people_steps (\<lambda>T. Map.empty) =
    ([AInsert True, AFind None, AUpdate True, AFind (Some (row_view people ''1'' anne_row))],
     (\<lambda>T. Map.empty)(''people'' := [''1'' \<mapsto> anne_row]))"
proof -
  have "obj_ID ann = ''1''" by (simp add: ann_def)
  moreover have "changes (ann\<lparr>obj_Fields := GoMap [(''name'', VStr ''Anne'')]\<rparr>) = [(''name'', VStr ''Anne'')]"
    by (simp add: changes_def non_id_def ToLower_def lower_char_def)
  ultimately show ?thesis
    by (simp add: people_steps_def people_table txe_same ann_stored update_row_def no_unique_simps [OF people_unique] anne_row_def)
qed


end
