(* ===== verification/SuiteProps.thy ===== *)
theory SuiteProps
  imports SuiteTx TxEngine Samples StorageProps S3Props
begin

text \<open>
  Which storages pass the tests of \<open>SuiteTests\<close>: SQLite passes all four; YugabyteDB and ScyllaDB pass
  no test at all, and S3 not the one of transactions.
\<close>

section \<open>SQLite\<close>

text \<open>Closing the database succeeds.\<close>

definition sqlite_closes :: "('d, 'e) env_scheme \<Rightarrow> bool" where
  "sqlite_closes E \<longleftrightarrow> (\<forall>n d. \<exists>d'. drv_close E n d = (Ok (), d'))"

text \<open>The tables of the tests can be created where no transaction is under way.\<close>

definition creates_people :: "('d, 'e) env_scheme \<Rightarrow> ('d \<Rightarrow> sight) \<Rightarrow> bool" where
  "creates_people E see \<longleftrightarrow> handle_creates E (\<lambda>v. snd v = None) see [test_people]"

definition ready_for_suite :: "('d \<Rightarrow> sight) \<Rightarrow> ('d, 'z) adst_scheme \<Rightarrow> bool" where
  "ready_for_suite see w \<longleftrightarrow> connected_to test_schema (committed see) w \<and> quiescent see (drv w)"

lemma sqlite_suite_creates:
  assumes "creates_people E see" and w: "ready_for_suite see w"
  shows "\<exists>w'. st_CreateTables (sqlite_storage E) (Some test_schema) w = (Ok (), w') \<and> idle_on test_schema see w' \<and>
    committed see (drv w') = committed see (drv w)"
proof -
  obtain n where n: "ad_DB w = Some n" "\<not> db_closed w n" and q: "snd (see (drv w)) = None"
    using w by (auto simp: ready_for_suite_def connected_to_def quiescent_def)
  obtain d where d: "sqlite_CreateTables E (Some test_schema) w = (Ok (), w\<lparr>drv := d, ad_Sch := Some test_schema\<rparr>)"
    "see d = see (drv w)"
    by (rule create_tables_run [where Q = "\<lambda>v. snd v = None" and rows = see and S = test_schema, OF n q])
      (use assms(1) in \<open>simp_all add: creates_people_def\<close>)
  have "committed see d = committed see (drv w)" using d(2) by (simp add: committed_def)
  moreover have "idle_on test_schema see (w\<lparr>drv := d, ad_Sch := Some test_schema\<rparr>)"
    using w d(2) test_schemas(3)
    by (simp add: idle_on_def ready_for_suite_def connected_to_def serving_def quiescent_def committed_def)
  ultimately show ?thesis using d(1) by (simp add: sqlite_storage_def)
qed

lemma sqlite_suite_store:
  assumes E: "tx_serves E see test_schema" "tx_controls E see" and "creates_people E see" and "sqlite_closes E"
    and "json_texts E" and "json_words E"
  shows "suite_tx_store (sqlite_storage E) E (\<lambda>w. committed see (drv w)) (idle_on test_schema see) (ready_for_suite see)
    (under_way test_schema see)"
proof -
  note tx = sqlite_tx_store [OF test_schemas(1) E]
  have "suite_store (sqlite_storage E) E (\<lambda>w. committed see (drv w)) (idle_on test_schema see) (ready_for_suite see)"
  proof (intro suite_store.intro suite_store_axioms.intro)
    show "record_store (sqlite_storage E) E (\<lambda>w. committed see (drv w)) (idle_on test_schema see) (mget (sch_Tables test_schema))"
      using tx by (rule tx_store.axioms)
    show "keyed_storage (sqlite_storage E)" by (rule sqlite_st.keyed_storage_axioms)
    show "\<exists>w'. st_CreateTables (sqlite_storage E) (Some test_schema) w = (Ok (), w') \<and> idle_on test_schema see w' \<and>
        committed see (drv w') = committed see (drv w)" if "ready_for_suite see w" for w
      by (rule sqlite_suite_creates [OF assms(3) that])
    show "\<exists>w'. st_ResetConnection (sqlite_storage E) w = (Ok (), w')" if w: "idle_on test_schema see w" for w
    proof -
      from w obtain n where n: "ad_DB w = Some n" "\<not> db_closed w n" by (auto simp: idle_on_def serving_def)
      from assms(4) obtain d' where "drv_close E n (drv w) = (Ok (), d')" unfolding sqlite_closes_def by blast
      with n show ?thesis
        by (simp add: sqlite_storage_def sqlite_ResetConnection_def Base_ResetConnection_def seq_gets db_Close_def on_driver_def)
    qed
  qed (rule assms(5))
  then show ?thesis
    by (intro suite_tx_store.intro suite_tx_store_axioms.intro tx sqlite_st.tx_guarded_axioms assms(6))
qed

text \<open>C19: Over a database file that answers the adapter's statements and isolates a transaction as SQLite
  documents it, with an empty table of people, a new SQLite storage connects and then passes each of
  the four tests of src/storagetest (StorageTest, CRUDTest, UpsertTest, TransactionTest): all end on
  their own and report nothing.\<close>

theorem sqlite_passes_suite:
  assumes "tx_serves E see test_schema" and "tx_controls E see" and "sqlite_opens E see" and "creates_people E see"
    and "sqlite_closes E" and "json_texts E" and "json_words E"
    and "fresh_process test_schema (committed see) w" and "quiescent see (drv w)"
    and "committed see (drv w) ''people'' = Map.empty"
  shows "\<exists>w1. sqlite_Connect E path w = (Ok (), w1) \<and> list_all (\<lambda>test. passes test w1) (suite (sqlite_storage E))"
proof -
  obtain n d where c: "sqlite_Connect E path w = (Ok (), w\<lparr>drv := d, ad_DB := Some n, ad_TM_DB := Some n\<rparr>)"
    "see d = see (drv w)"
    by (rule connect_run [OF assms(3)])
  let ?w = "w\<lparr>drv := d, ad_DB := Some n, ad_TM_DB := Some n\<rparr>"
  have "ready_for_suite see ?w" and "committed see (drv ?w) ''people'' = Map.empty"
    using assms(8-10) c(2) by (simp_all add: ready_for_suite_def connected_to_def fresh_process_def quiescent_def committed_def)
  then have "list_all (\<lambda>test. passes test ?w) (suite (sqlite_storage E))"
    by (rule suite_tx_store.suite_passes [OF sqlite_suite_store [OF assms(1,2,4-7)]])
  with c(1) show ?thesis by blast
qed

text \<open>The engine with transactions passes.\<close>

lemma Contains_append: "Contains s p \<Longrightarrow> Contains (s @ t) p"
proof (induction s p rule: Contains.induct)
  case (2 c s p)
  have "HasPrefix ((c # s) @ t) p" if "HasPrefix (c # s) p"
    using that unfolding HasPrefix_def by (metis append_take_drop_id append.assoc append_eq_conv_conj)
  with 2 show ?case by auto
qed (cases t; simp add: HasPrefix_def)

abbreviation suite_env :: "tx_tables env" where
  "suite_env \<equiv> txe_env quoting_lib test_schema"

lemma suite_env_texts: "json_texts suite_env" "json_words suite_env" "sqlite_closes suite_env"
  by (simp_all add: json_texts_def quoting_lib_def sample_lib_def json_words_def json_text_def Contains_append sqlite_closes_def)

lemma suite_env_creates: "creates_people suite_env txe_see"
  by (simp add: creates_people_def txe_creates)

interpretation demo_suite: suite_tx_store "sqlite_storage suite_env" suite_env "\<lambda>w. committed txe_see (drv w)"
    "idle_on test_schema txe_see" "ready_for_suite txe_see" "under_way test_schema txe_see"
  by (rule sqlite_suite_store [OF txe_serves [OF test_schemas(1,2)] txe_controls suite_env_creates suite_env_texts(3,1,2)])

interpretation demo_crud: suite_store "sqlite_storage suite_env" suite_env "\<lambda>w. committed txe_see (drv w)"
    "idle_on test_schema txe_see" "ready_for_suite txe_see"
  by (rule demo_suite.suite_store_axioms)

lemma sqlite_passes_suite_witness:
  "\<exists>w1. sqlite_Connect suite_env ''test.db'' (sqlite_New (txe_world test_schema)) = (Ok (), w1) \<and>
    list_all (\<lambda>test. passes test w1) (suite (sqlite_storage suite_env))"
  by (rule sqlite_passes_suite [OF txe_serves [OF test_schemas(1,2)] txe_controls txe_opens suite_env_creates
        suite_env_texts(3,1,2)])
    (simp_all add: free_mutex_def fresh_process_def store_fits_def quiescent_def sqlite_New_def NewBaseSQLStorage_def txe_world_def
      committed_def txe_see_def eng_rows_def)

section \<open>YugabyteDB, ScyllaDB and S3\<close>

text \<open>YugabyteDB: a found object has no identifier and no text but empty ones.\<close>

definition textless :: "goval \<Rightarrow> bool" where
  "textless v \<longleftrightarrow> (\<forall>s. (v = VStr s \<longrightarrow> s = []) \<and> (v = VPtr (VStr s) \<longrightarrow> s = []))"

lemma yugabyte_pointer_textless: "yugabyte_pointer f = Ok (c, Some v) \<Longrightarrow> textless v"
  by (auto simp: yugabyte_pointer_def textless_def unsupported_type_def split: kind.splits if_splits)

lemma yugabyte_loop_textless:
  assumes "yugabyte_loop fs m = Ok (cs, m')" and "\<forall>n v. mget m n = Some v \<longrightarrow> textless v"
  shows "\<forall>n v. mget m' n = Some v \<longrightarrow> textless v"
  using assms
proof (induction fs m arbitrary: cs rule: yugabyte_loop.induct)
  case (2 f fs m)
  from 2(2) obtain c vo m1 cs1 where f: "yugabyte_pointer f = Ok (c, vo)" "store_field m (col_Name f) vo = Ok m1"
    "yugabyte_loop fs m1 = Ok (cs1, m')" by (auto split: prod.splits)
  have "\<forall>n v. mget m1 n = Some v \<longrightarrow> textless v"
  proof (cases vo)
    case (Some v)
    with f(1) have "textless v" by (simp add: yugabyte_pointer_textless)
    moreover have "mget m1 = (mget m)(col_Name f \<mapsto> v)" using f(2) Some by (simp add: store_field_def mget_mset_entry)
    ultimately show ?thesis using 2(3) by (auto split: if_splits)
  qed (use f(2) 2(3) in \<open>simp add: store_field_def\<close>)
  with 2(1) f show ?case by auto
qed simp

lemma yugabyte_find_textless:
  assumes "yugabyte_FindByKey E T k x w = (Ok (Some v), w')"
  shows "obj_ID v = []" and "GetString v n = Ok (s, True) \<Longrightarrow> s = []"
proof -
  obtain tbl :: TableSchema and cs where
    "yugabyte_loop (map snd (entries (tab_Fields tbl))) make_map = Ok (cs, obj_Fields v)" and id: "obj_ID v = []"
    using yugabyte_find_shape [OF assms] by auto
  with yugabyte_loop_textless [of _ make_map cs "obj_Fields v"] have "\<forall>n u. mget (obj_Fields v) n = Some u \<longrightarrow> textless u" by auto
  with id show "obj_ID v = []" "GetString v n = Ok (s, True) \<Longrightarrow> s = []"
    by (auto simp: GetString_def textless_def split: option.splits if_splits goval.splits)
qed

lemma yugabyte_finds_no_name: "\<not> finds_named (yugabyte_storage E)"
  by (auto simp: finds_named_def yugabyte_storage_def yugabyte_FindByID_def dest: yugabyte_find_textless)

text \<open>ScyllaDB: no lookup returns.\<close>

lemma scylla_locked_never: "scylla_locked (seq (scylla_GetTable T) f) w \<noteq> (Ok v, w')"
  by (cases "sc_sch w") (auto simp: scylla_locked_def scylla_Lock_eq seq_def scylla_GetTable_locked)

lemma scylla_find_never: "scylla_FindByKey E T k x w \<noteq> (Ok v, w')"
proof
  assume "scylla_FindByKey E T k x w = (Ok v, w')"
  then show False
    unfolding scylla_FindByKey_def by (elim seq_OkE) (simp add: scylla_locked_never)
qed

lemma scylla_finds_no_name: "\<not> finds_named (scylla_storage E)"
  using scylla_find_never [of E] by (simp add: finds_named_def scylla_storage_def scylla_FindByID_def)

lemma s3_accepts_nil: "\<not> clean (NilTransactionHandling (s3_storage E fuel)) w () w'"
  unfolding NilTransactionHandling_def Let_def refusal_def
  by (intro notI, elim clean_seq) (auto simp: proper_seq clean_invoke s3_storage_def s3_CommitTx_def ret_def)

text \<open>C20: Whatever the databases answer, none of the four tests of src/storagetest is passed by a
  YugabyteDB or a ScyllaDB storage (YugabyteDB finds objects without identifier and name, no lookup
  of ScyllaDB returns), and TransactionTest is not passed by S3, which commits a nil transaction:
  each such test ends with a report, or not on its own.\<close>

theorem suite_never_passed:
  "list_all (\<lambda>test. \<not> passes test w) (suite (yugabyte_storage Y)) \<and>
   list_all (\<lambda>test. \<not> passes test v) (suite (scylla_storage C)) \<and>
   \<not> passes (TransactionTest (s3_storage B fuel)) u"
  using suite_fails [OF yugabyte_finds_no_name] suite_fails [OF scylla_finds_no_name] s3_accepts_nil [of B fuel]
    TransactionTest_needs(2) [of "s3_storage B fuel" u] by blast

end
