(* ===== verification/Spec2Isabelle.thy ===== *)
theory Spec2Isabelle
  imports Backends InfoSchema Locking AdapterProps SqliteEngine S3Props InfoProps StorageProps LdapWebProps WikiProps RestProps AdminProps SuiteProps
begin

text \<open>
  A model of the Go library \<open>ddao\<close>, a small object store over SQL databases, ScyllaDB and S3, and of
  the programs built on it, with the theorems that make it correct or show where it is not.

  The program. A caller describes tables as a \<open>Schema\<close> (src/schema/schema.go) or reads them from a
  database (src/schema/parser/infoschema), puts rows into an \<open>Object\<close> (src/object/object.go), and
  passes both to an \<open>ORM\<close> (src/orm/orm.go), which hands every call to a \<open>Storage\<close>
  (src/storage/storage.go). Nine adapters implement that interface; seven of them share the code in
  src/storage/common and run statements through \<open>database/sql\<close> or a connection pool.

  The theories, in the order of the code:
  \<^item> \<open>Prelude\<close>: outcomes of calls (\<open>Ok\<close>, \<open>Error\<close>, \<open>Panic\<close>, and \<open>Deadlock\<close> for a call that does not
    return), their sequencing over a world that is passed along, Go maps as lists of entries in the
    order a range visits them, and the string functions of Go's library.
  \<^item> \<open>GoValue\<close>: dynamic values, their types, decimal numbers printed and read, integers as 64-bit words.
  \<^item> \<open>GoSchema\<close>, \<open>GoObject\<close>: src/schema/schema.go and src/object/object.go, one definition for each
    method; the read-write mutex of a schema is part of its record.
  \<^item> \<open>SqlDb\<close>: the part of \<open>database/sql\<close> that is used: handles, transactions, scanning of column values.
    The driver is a record of functions on its own state, of which nothing is assumed.
  \<^item> \<open>Common\<close>, \<open>SqlText\<close>: src/storage/common (\<open>NewFieldScanner\<close>, \<open>ScanToObject\<close>, \<open>PrepareInsertData\<close>,
    \<open>PrepareUpdateData\<close>, \<open>BaseSQLStorage\<close>, \<open>TransactionManager\<close> and the common finders), and what the
    statements of several adapters share.
  \<^item> \<open>Sqlite\<close>, \<open>Postgres\<close>, \<open>Yugabyte\<close>, \<open>Cockroach\<close>, \<open>Tidb\<close>, \<open>Oracle\<close>, \<open>SqlServer\<close>, \<open>Scylla\<close>, \<open>S3\<close>: one theory
    for each adapter under src/storage, its methods named after the adapter and the Go method
    (\<open>sqlite_Insert\<close>), with the texts of the statements.
  \<^item> \<open>Orm\<close>, \<open>Backends\<close>: the interface as a record of methods, the ORM, the contracts a storage keeps as
    locales (\<open>keyed_storage\<close>, \<open>tx_guarded\<close>, \<open>tx_lifecycle\<close>, \<open>sql_storage\<close>), and the adapters as values of
    the interface that interpret them.
  \<^item> \<open>InfoSchema\<close>: src/schema/parser/infoschema, the readers of \<open>information_schema\<close> and of SQLite.
  \<^item> \<open>Locking\<close>: the methods of a schema as instructions of goroutines, all their interleavings as a step
    relation, and the ScyllaDB operations among them; a writer that waits for the mutex keeps new readers out.

  The properties. \<open>Refinement\<close> and \<open>S3Props\<close> state what the SQLite and the S3 adapter promise as an
  abstract store and show that sequences of calls do what the store does. \<open>CommonProps\<close> and
  \<open>AdapterProps\<close> say what statements and values are prepared, how they differ between an adapter's
  methods inside and outside of a transaction, and what a find returns. \<open>StorageProps\<close> holds what is
  true of every SQL storage, and of ScyllaDB; \<open>InfoProps\<close> what a schema reader makes of a catalog;
  \<open>Locking\<close> the absence of races and of deadlocks, and a bound on every run; \<open>GoSchema\<close> and \<open>GoObject\<close>
  the laws of tables and objects.

  The example programs under src/examples run on the ORM; each has a theory of its code, one of what it
  should do, one of its operations over a storage of tables, and one with its properties.
  \<^item> \<open>TableStore\<close>: tables as maps from identifiers to rows, and the contract of a storage that keeps them
    (the locale \<open>record_store\<close>); \<open>Refinement\<close> interprets it for the SQLite adapter, given a database that
    answers the adapter's statements as SQLite documents them (\<open>sqlite_serves\<close>). \<open>SqliteEngine\<close> is such a
    database, in memory, for the witnesses. \<open>Startup\<close>: opening a connection and creating the tables.
  \<^item> \<open>TxStore\<close>: a storage with transactions, which work on a copy of the database (the locale \<open>tx_store\<close>);
    \<open>TxRefinement\<close> shows that the SQLite adapter is one, given a database that isolates a transaction as
    SQLite documents it for connections to one file (\<open>tx_serves\<close>, \<open>tx_controls\<close>); \<open>TxEngine\<close> is such a database.
    (Of \<open>:memory:\<close>, where every connection of the pool has a database of its own, nothing is said.)
  \<^item> \<open>Host\<close>, \<open>HostStore\<close>, \<open>Times\<close>, \<open>Samples\<close>: the process an example runs in (its storage, the readings of
    its clock, its random bytes), the calls of a storage in it, times as RFC 3339 texts, and what the
    witnesses run on.
  \<^item> \<open>Ldap\<close>, \<open>LdapRun\<close>, \<open>LdapProps\<close>: src/examples/ldapd, a directory of entries and accounts behind a text
    protocol; \<open>LdapWeb\<close>, \<open>LdapWebRun\<close>, \<open>LdapWebProps\<close>: its web interface and the program as main starts it.
  \<^item> \<open>Wiki\<close>, \<open>WikiSite\<close>, \<open>WikiRun\<close>, \<open>WikiProps\<close>: src/examples/wiki, accounts, sessions and pages behind HTTP
    handlers.
  \<^item> \<open>Rest\<close>, \<open>RestApi\<close>, \<open>RestRun\<close>, \<open>RestProps\<close>: src/examples/restd, users and posts behind a REST interface.
  \<^item> \<open>Admin\<close>, \<open>AdminWeb\<close>, \<open>AdminProps\<close>: src/examples/dbadmin, a web tool that connects to a storage of any of the nine
    kinds; its state holds the storages side by side (\<open>stores\<close>).
  \<^item> \<open>SuiteTests\<close>, \<open>SuiteRun\<close>, \<open>SuiteTx\<close>, \<open>SuiteProps\<close>: src/storagetest, the tests every storage is meant to pass, as functions of
    the storage, and which of the storages pass them.
  For each of the first three programs a refinement theorem says that any sequence of messages, requests or calls over
  SQLite is answered as an abstract directory, site or service does, and leaves the tables holding it; the
  other theorems draw on it, and show where the programs lose or expose data.
  Parameters. What the code calls and does not contain is an argument of the definitions: the
  database drivers, the bucket service, gocql, the JSON encoder, floating point and time formatting,
  the URL parser, clocks. Properties that need more of them say so as a hypothesis
  (\<open>sqlite_answers\<close>, \<open>s3_answers\<close>, \<open>pool_closes\<close>, \<open>json_laws\<close>), and their witnesses run on concrete ones. Go leaves the
  order of a range over a map open: a map is the list of its entries in the order of that range, and
  where one map is ranged over twice the second order is a parameter.

  Bounds. The recursion is structural but for \<open>s3_scan_pages\<close>, which has fuel: the number of pages of a
  listing it may look at. A run that uses it up yields \<open>Deadlock\<close>, and \<open>s3_FindByKey_first_match\<close> shows
  that a listing of n pages needs n. Integers are 64-bit words; FieldOrder and the like are lists.

  Not modelled: contexts and cancellation, logging, the aliasing of a table that is changed after it
  was added to a schema, case mapping outside of ASCII, the wording of the standard library's own
  conversion errors. Of the example programs: sockets, TLS, flags, log output, the rendering of templates and the decoding
  of requests by a framework; and concurrent requests, which are served one after the other here.
  Objects built inside the programs have their fields in the order of the source, one of the orders Go
  may range over.
\<close>

end
